(* ===== verification/GoPrelude.thy ===== *)
theory GoPrelude
  imports Main "HOL-Library.AList" "HOL-Library.Monad_Syntax"
begin

text \<open>
  The prelude of the development: what every component theory shares.

  \<^item> Go's \<open>int\<close> (64 bits on every platform the services are built for) is an \<open>int\<close> whose
    arithmetic wraps explicitly: \<open>wrap64\<close>, with the lemmas that remove it inside the range.
  \<^item> A computation that can hit a run-time panic returns an \<open>option\<close>; \<open>None\<close> is the panic,
    and the \<open>do\<close>-notation of the library sequences such computations.
  \<^item> A computation that returns Go's \<open>(value, error)\<close> pair is a sum, \<open>Inl\<close> for the error.
  \<^item> A Go map with a fixed iteration order is an association list with distinct keys.
    Lemmas on \<open>map_of\<close> and \<open>fold\<close> under permutation say when the order is irrelevant.
  \<^item> The collections \<open>go_eval\<close> (definitions a closed term unfolds with) and \<open>go_wrap\<close>
    (arithmetic in range) carry the proofs of the components.
\<close>

named_theorems go_eval \<open>definitions to unfold when a closed term is evaluated\<close>
named_theorems go_wrap \<open>removing the 64-bit wrap-around inside the range\<close>

section \<open>64-bit integers\<close>

definition min_int64 :: int where
  "min_int64 = - 9223372036854775808"

definition max_int64 :: int where
  "max_int64 = 9223372036854775807"

definition in_int64 :: "int \<Rightarrow> bool" where
  "in_int64 x \<longleftrightarrow> min_int64 \<le> x \<and> x \<le> max_int64"

definition wrap64 :: "int \<Rightarrow> int" where
  "wrap64 x = (x + 9223372036854775808) mod 18446744073709551616 - 9223372036854775808"

lemma wrap64_id [go_wrap]: "in_int64 x \<Longrightarrow> wrap64 x = x"
  by (simp add: wrap64_def in_int64_def min_int64_def max_int64_def)

lemma wrap64_range: "in_int64 (wrap64 x)"
proof -
  have "0 \<le> (x + 9223372036854775808) mod 18446744073709551616"
    and "(x + 9223372036854775808) mod 18446744073709551616 < 18446744073709551616"
    by simp_all
  then show ?thesis
    unfolding in_int64_def min_int64_def max_int64_def wrap64_def by linarith
qed

lemma wrap64_wrap_left [go_wrap]: "wrap64 (wrap64 x + y) = wrap64 (x + y)"
proof -
  have "(wrap64 x + y + 9223372036854775808) mod 18446744073709551616
      = ((x + 9223372036854775808) mod 18446744073709551616 + y) mod 18446744073709551616"
    by (simp add: wrap64_def)
  also have "\<dots> = (x + y + 9223372036854775808) mod 18446744073709551616"
    by (simp add: mod_simps algebra_simps)
  finally show ?thesis by (simp add: wrap64_def)
qed

lemma in_int64_nonneg: "0 \<le> x \<Longrightarrow> x \<le> max_int64 \<Longrightarrow> in_int64 x"
  by (simp add: in_int64_def min_int64_def max_int64_def)

section \<open>Slices that can be allocated\<close>

text \<open>
  \<open>make([]T, 0, n)\<close> panics with "makeslice: cap out of range" when \<open>n\<close> is negative or when
  \<open>n\<close> elements of the given size exceed the address space the run-time manages
  (\<open>maxAlloc = 2^48\<close> on 64-bit Linux).
\<close>

definition max_alloc :: int where
  "max_alloc = 281474976710656"

definition makeslice :: "int \<Rightarrow> int \<Rightarrow> unit option" where
  "makeslice elem_size cap =
     (if cap < 0 \<or> elem_size * cap > max_alloc then None else Some ())"

lemma makeslice_Some [simp]:
  "makeslice sz n = Some u \<longleftrightarrow> 0 \<le> n \<and> sz * n \<le> max_alloc"
  by (auto simp: makeslice_def)

lemma makeslice_None [simp]:
  "makeslice sz n = None \<longleftrightarrow> n < 0 \<or> sz * n > max_alloc"
  by (auto simp: makeslice_def)

lemma makeslice_bind: "0 \<le> n \<Longrightarrow> sz * n \<le> max_alloc \<Longrightarrow> Option.bind (makeslice sz n) f = f ()"
  by (simp add: makeslice_def)

section \<open>Association lists as maps with an iteration order\<close>

lemma map_of_perm:
  assumes "distinct (map fst xs)" and "distinct (map fst ys)" and "set xs = set ys"
  shows "map_of xs = map_of ys"
  using assms by (metis map_of_inject_set)

lemma update_key_mem [simp]: "map_of (AList.update k v xs) k = Some v"
  by (simp add: update_conv')

lemma distinct_alist_update [intro]:
  "distinct (map fst xs) \<Longrightarrow> distinct (map fst (AList.update k v xs))"
  by (rule distinct_update)

section \<open>Counting over an updated list\<close>

lemma length_filter_update:
  assumes "i < length xs"
  shows "length (filter P (xs[i := y])) + (if P (xs ! i) then 1 else 0)
       = length (filter P xs) + (if P y then 1 else 0)"
  using assms
proof (induction xs arbitrary: i)
  case (Cons x xs)
  then show ?case by (cases i) auto
qed simp

lemma sum_list_update_nat:
  fixes f :: "'a \<Rightarrow> nat"
  assumes "i < length xs"
  shows "sum_list (map f (xs[i := y])) + f (xs ! i) = sum_list (map f xs) + f y"
  using assms
proof (induction xs arbitrary: i)
  case (Cons x xs)
  then show ?case by (cases i) auto
qed simp

lemma nth_update_any: "j < length xs \<Longrightarrow> xs[i := x] ! j = (if i = j then x else xs ! j)"
  by (cases "i = j") simp_all

section \<open>Folds that do not depend on the order\<close>

text \<open>
  The contract of a loop over a Go map: the loop body is a step function on the accumulator,
  and the bodies of two different entries commute. Then the loop's result does not depend on
  the iteration order, which Go leaves open. \<open>ok\<close> restricts the law to the entry sets the
  client knows to be free of collisions.
\<close>

locale order_free_loop =
  fixes step :: "'e \<Rightarrow> 's \<Rightarrow> 's"
    and ok :: "'e \<Rightarrow> 'e \<Rightarrow> bool"
  assumes commute: "ok x y \<Longrightarrow> step x (step y s) = step y (step x s)"
begin

definition pairwise_ok :: "'e list \<Rightarrow> bool" where
  "pairwise_ok xs \<longleftrightarrow> (\<forall>x \<in> set xs. \<forall>y \<in> set xs. x \<noteq> y \<longrightarrow> ok x y)"

lemma fold_step_out:
  assumes "\<And>y. y \<in> set xs \<Longrightarrow> ok x y"
  shows "fold step xs (step x s) = step x (fold step xs s)"
  using assms
proof (induction xs arbitrary: s)
  case Nil
  then show ?case by simp
next
  case (Cons y ys)
  then have "step y (step x s) = step x (step y s)"
    by (metis commute list.set_intros(1))
  with Cons show ?case by simp
qed

lemma fold_move_front:
  assumes "x \<in> set xs" and "distinct xs" and "pairwise_ok xs"
  shows "fold step xs s = fold step (remove1 x xs) (step x s)"
  using assms
proof (induction xs arbitrary: s)
  case Nil
  then show ?case by simp
next
  case (Cons y ys)
  show ?case
  proof (cases "x = y")
    case True
    then show ?thesis by simp
  next
    case False
    with Cons.prems have x: "x \<in> set ys" and d: "distinct ys" and p: "pairwise_ok ys"
      and xy: "ok x y"
      by (auto simp: pairwise_ok_def)
    have "fold step (y # ys) s = fold step (remove1 x ys) (step x (step y s))"
      using Cons.IH[OF x d p] by simp
    also have "step x (step y s) = step y (step x s)"
      using xy by (rule commute)
    finally show ?thesis using False by simp
  qed
qed

lemma fold_order_free:
  assumes "distinct xs" and "distinct ys" and "set xs = set ys" and "pairwise_ok xs"
  shows "fold step xs s = fold step ys s"
  using assms
proof (induction xs arbitrary: ys s)
  case Nil
  then show ?case by simp
next
  case (Cons x xs)
  from Cons.prems have x: "x \<in> set ys" by auto
  have p: "pairwise_ok ys" and p': "pairwise_ok xs"
    using Cons.prems by (auto simp: pairwise_ok_def)
  have rest: "set xs = set (remove1 x ys)" "distinct (remove1 x ys)"
    using Cons.prems by (auto simp: set_remove1_eq)
  have "fold step ys s = fold step (remove1 x ys) (step x s)"
    using x Cons.prems(2) p by (rule fold_move_front)
  moreover have "fold step xs (step x s) = fold step (remove1 x ys) (step x s)"
    using Cons.IH[of "remove1 x ys" "step x s"] Cons.prems(1) rest p' by simp
  ultimately show ?case by simp
qed

end

text \<open>The entries of an updated association list.\<close>

lemma update_entries: "e \<in> set (AList.update k v es) \<Longrightarrow> e = (k, v) \<or> e \<in> set es"
  by (induction es) (auto split: if_splits)

lemma delete_entries: "e \<in> set (AList.delete k es) \<longleftrightarrow> e \<in> set es \<and> fst e \<noteq> k"
  by (induction es) auto

section \<open>Reachable states of an operation-labelled system\<close>

text \<open>
  The contract of a component whose state changes by a set of operations: an invariant that every
  legal operation keeps holds after every sequence of legal operations. Where every operation keeps
  it, every operation is legal.
\<close>

locale guarded_system =
  fixes exec :: "'op \<Rightarrow> 's \<Rightarrow> 's"
    and legal :: "'op \<Rightarrow> bool"
    and inv :: "'s \<Rightarrow> bool"
  assumes legal_inv: "legal op \<Longrightarrow> inv s \<Longrightarrow> inv (exec op s)"
begin

lemma legal_run: "list_all legal ops \<Longrightarrow> inv s \<Longrightarrow> inv (fold exec ops s)"
  by (induction ops arbitrary: s) (auto intro: legal_inv)

end

locale invariant_system =
  fixes exec :: "'op \<Rightarrow> 's \<Rightarrow> 's"
    and inv :: "'s \<Rightarrow> bool"
  assumes exec_inv: "inv s \<Longrightarrow> inv (exec op s)"

sublocale invariant_system \<subseteq> all_legal: guarded_system exec "\<lambda>_. True" inv
  by unfold_locales (rule exec_inv)

context invariant_system
begin

lemma run_inv: "inv s \<Longrightarrow> inv (fold exec ops s)"
  using all_legal.legal_run[of ops s] by (simp add: list_all_def)

end

end
