(* ===== verification/GoStrings.thy ===== *)
theory GoStrings
  imports GoPrelude "HOL-Library.Sublist" "HOL-Library.Char_ord" "HOL-Library.List_Lexorder"
begin

text \<open>
  The parts of Go's packages \<open>strings\<close>, \<open>unicode\<close> and \<open>fmt\<close> (scanning of \<open>%d\<close>, printing of
  integers) that the modelled code calls. A Go string is a sequence of bytes, so a string here is a
  \<open>char list\<close> whose characters are bytes; multi-byte UTF-8 encodings are written out.
  \<open>strings.HasPrefix\<close>, \<open>HasSuffix\<close> and \<open>Contains\<close> are \<open>prefix\<close>, \<open>suffix\<close> and \<open>sublist\<close> of the
  library.
\<close>

section \<open>Splitting and joining\<close>

text \<open>\<open>strings.Split(s, sep)\<close> for a separator of one byte, and \<open>strings.Join\<close>.\<close>

fun split_on :: "char \<Rightarrow> string \<Rightarrow> string list" where
  "split_on c [] = [[]]"
| "split_on c (x # xs) =
     (if x = c then [] # split_on c xs
      else (case split_on c xs of [] \<Rightarrow> [[x]] | y # ys \<Rightarrow> (x # y) # ys))"

fun join_with :: "string \<Rightarrow> string list \<Rightarrow> string" where
  "join_with sep [] = []"
| "join_with sep [x] = x"
| "join_with sep (x # y # xs) = x @ sep @ join_with sep (y # xs)"

text \<open>\<open>strings.Index(s, c)\<close> for one byte, as an option, and the part of the string before it.\<close>

fun index_of :: "char \<Rightarrow> string \<Rightarrow> nat option" where
  "index_of c [] = None"
| "index_of c (x # xs) = (if x = c then Some 0 else map_option Suc (index_of c xs))"

definition cut_at :: "char \<Rightarrow> string \<Rightarrow> string" where
  "cut_at c s = (case index_of c s of None \<Rightarrow> s | Some i \<Rightarrow> take i s)"

lemma split_on_nonempty [simp]: "split_on c s \<noteq> []"
  by (cases s) (auto split: list.splits)

lemma join_split: "join_with [c] (split_on c s) = s"
proof (induction s)
  case Nil
  then show ?case by simp
next
  case (Cons x xs)
  obtain y ys where ys: "split_on c xs = y # ys"
    using split_on_nonempty by (cases "split_on c xs") auto
  with Cons show ?case by (cases ys) auto
qed

lemma cut_at_takeWhile: "cut_at c s = takeWhile (\<lambda>x. x \<noteq> c) s"
proof (induction s)
  case Nil
  then show ?case by (simp add: cut_at_def)
next
  case (Cons x xs)
  then show ?case by (auto simp: cut_at_def split: option.splits)
qed

section \<open>White space\<close>

text \<open>
  \<open>unicode.IsSpace\<close> (and the table of package \<open>fmt\<close>, which lists the same runes) by the UTF-8
  encodings of its runes: the six ASCII ones, U+0085, U+00A0, U+1680, U+2000 to U+200A, U+2028,
  U+2029, U+202F, U+205F and U+3000. No encoding is a proper part of another rune's encoding,
  so byte-wise matching finds exactly the runes.
\<close>

definition space_runes :: "string list" where
  "space_runes =
     [[CHR 0x09], [CHR 0x0A], [CHR 0x0B], [CHR 0x0C], [CHR 0x0D], [CHR 0x20],
      [CHR 0xC2, CHR 0x85], [CHR 0xC2, CHR 0xA0], [CHR 0xE1, CHR 0x9A, CHR 0x80],
      [CHR 0xE2, CHR 0x80, CHR 0x80], [CHR 0xE2, CHR 0x80, CHR 0x81],
      [CHR 0xE2, CHR 0x80, CHR 0x82], [CHR 0xE2, CHR 0x80, CHR 0x83],
      [CHR 0xE2, CHR 0x80, CHR 0x84], [CHR 0xE2, CHR 0x80, CHR 0x85],
      [CHR 0xE2, CHR 0x80, CHR 0x86], [CHR 0xE2, CHR 0x80, CHR 0x87],
      [CHR 0xE2, CHR 0x80, CHR 0x88], [CHR 0xE2, CHR 0x80, CHR 0x89],
      [CHR 0xE2, CHR 0x80, CHR 0x8A], [CHR 0xE2, CHR 0x80, CHR 0xA8],
      [CHR 0xE2, CHR 0x80, CHR 0xA9], [CHR 0xE2, CHR 0x80, CHR 0xAF],
      [CHR 0xE2, CHR 0x81, CHR 0x9F], [CHR 0xE3, CHR 0x80, CHR 0x80]]"

definition lead_space :: "string \<Rightarrow> nat" where
  "lead_space s = (case find (\<lambda>r. prefix r s) space_runes of None \<Rightarrow> 0 | Some r \<Rightarrow> length r)"

definition trail_space :: "string \<Rightarrow> nat" where
  "trail_space s = (case find (\<lambda>r. suffix r s) space_runes of None \<Rightarrow> 0 | Some r \<Rightarrow> length r)"

lemma space_runes_nonempty: "r \<in> set space_runes \<Longrightarrow> r \<noteq> []"
  by (auto simp: space_runes_def)

lemma lead_space_le: "lead_space s \<le> length s"
  by (auto simp: lead_space_def find_Some_iff prefix_length_le split: option.splits)

lemma trail_space_le: "trail_space s \<le> length s"
  by (auto simp: trail_space_def find_Some_iff suffix_length_le split: option.splits)

lemma lead_space_0: "lead_space s = 0 \<longleftrightarrow> (\<forall>r \<in> set space_runes. \<not> prefix r s)"
  by (auto simp: lead_space_def find_None_iff find_Some_iff space_runes_nonempty
      split: option.splits)

lemma trail_space_0: "trail_space s = 0 \<longleftrightarrow> (\<forall>r \<in> set space_runes. \<not> suffix r s)"
  by (auto simp: trail_space_def find_None_iff find_Some_iff space_runes_nonempty
      split: option.splits)

text \<open>\<open>strings.TrimSpace\<close>: leading and trailing white space removed.\<close>

function trim_left :: "string \<Rightarrow> string" where
  "trim_left s = (if lead_space s = 0 then s else trim_left (drop (lead_space s) s))"
  by pat_completeness auto
termination
proof (relation "measure length")
  fix s :: string
  assume "lead_space s \<noteq> 0"
  with lead_space_le[of s] show "(drop (lead_space s) s, s) \<in> measure length"
    by (cases s) auto
qed simp

declare trim_left.simps [simp del]

function trim_right :: "string \<Rightarrow> string" where
  "trim_right s =
     (if trail_space s = 0 then s else trim_right (take (length s - trail_space s) s))"
  by pat_completeness auto
termination
proof (relation "measure length")
  fix s :: string
  assume "trail_space s \<noteq> 0"
  with trail_space_le[of s] show "(take (length s - trail_space s) s, s) \<in> measure length"
    by (cases s) auto
qed simp

declare trim_right.simps [simp del]

definition trim_space :: "string \<Rightarrow> string" where
  "trim_space s = trim_right (trim_left s)"

lemma trim_left_clean: "lead_space (trim_left s) = 0"
  by (induction s rule: trim_left.induct) (metis trim_left.simps)

lemma trim_right_clean: "trail_space (trim_right s) = 0"
  by (induction s rule: trim_right.induct) (metis trim_right.simps)

lemma trim_right_prefix: "prefix (trim_right s) s"
proof (induction s rule: trim_right.induct)
  case (1 s)
  show ?case
  proof (cases "trail_space s = 0")
    case True
    then show ?thesis by (subst trim_right.simps) simp
  next
    case False
    with "1.IH" have "prefix (trim_right (take (length s - trail_space s) s))
                             (take (length s - trail_space s) s)" by simp
    then have "prefix (trim_right (take (length s - trail_space s) s)) s"
      by (rule prefix_order.trans) (rule take_is_prefix)
    with False show ?thesis by (subst trim_right.simps) simp
  qed
qed

lemma lead_space_prefix: "prefix p s \<Longrightarrow> lead_space s = 0 \<Longrightarrow> lead_space p = 0"
  unfolding lead_space_0 by (meson prefix_order.trans)

lemma trim_space_clean:
  "lead_space (trim_space s) = 0" "trail_space (trim_space s) = 0"
  unfolding trim_space_def
  by (rule lead_space_prefix[OF trim_right_prefix trim_left_clean]) (rule trim_right_clean)

lemma trim_space_fix: "lead_space s = 0 \<Longrightarrow> trail_space s = 0 \<Longrightarrow> trim_space s = s"
  by (simp add: trim_space_def trim_left.simps trim_right.simps)

theorem trim_space_idem [simp]: "trim_space (trim_space s) = trim_space s"
  by (rule trim_space_fix) (rule trim_space_clean)+

text \<open>\<open>strings.Fields\<close>: the maximal runs of bytes that are not white space.\<close>

function str_fields_acc :: "string \<Rightarrow> string \<Rightarrow> string list" where
  "str_fields_acc acc s =
     (case s of
        [] \<Rightarrow> (if acc = [] then [] else [rev acc])
      | c # r \<Rightarrow>
          (if lead_space s = 0 then str_fields_acc (c # acc) r
           else (if acc = [] then [] else [rev acc]) @ str_fields_acc [] (drop (lead_space s) s)))"
  by pat_completeness auto
termination
proof (relation "measure (\<lambda>(acc, s). length s)")
  fix acc s c r
  assume "s = c # r" "lead_space s \<noteq> 0"
  with lead_space_le[of s]
  show "(([], drop (lead_space s) s), acc, s) \<in> measure (\<lambda>(acc, s). length s)"
    by auto
qed auto

declare str_fields_acc.simps [simp del]

definition str_fields :: "string \<Rightarrow> string list" where
  "str_fields s = str_fields_acc [] s"

section \<open>Case\<close>

text \<open>
  \<open>strings.ToLower\<close> as far as it can reach ASCII: the letters A to Z, and the only two other
  runes whose lower case is an ASCII letter, U+0130 (to i) and U+212A, the Kelvin sign (to k).
  Every other non-ASCII rune has a non-ASCII lower case; it is left as it is here, which is the
  same for the comparisons with ASCII constants that the code makes on the result.
\<close>

definition lower_char :: "char \<Rightarrow> char" where
  "lower_char c = (if CHR 0x41 \<le> c \<and> c \<le> CHR 0x5A then char_of (of_char c + 32 :: nat) else c)"

fun to_lower :: "string \<Rightarrow> string" where
  "to_lower [] = []"
| "to_lower (a # s) =
     (if a = CHR 0xC4 \<and> take 1 s = [CHR 0xB0] then CHR ''i'' # to_lower (drop 1 s)
      else if a = CHR 0xE2 \<and> take 2 s = [CHR 0x84, CHR 0xAA] then CHR ''k'' # to_lower (drop 2 s)
      else lower_char a # to_lower s)"

section \<open>Decimal numbers\<close>

definition is_digit :: "char \<Rightarrow> bool" where
  "is_digit c \<longleftrightarrow> CHR ''0'' \<le> c \<and> c \<le> CHR ''9''"

definition digit_val :: "char \<Rightarrow> int" where
  "digit_val c = int (of_char c) - 48"

definition digits_val :: "string \<Rightarrow> int" where
  "digits_val ds = foldl (\<lambda>n c. 10 * n + digit_val c) 0 ds"

definition digit_char :: "nat \<Rightarrow> char" where
  "digit_char d = char_of (48 + d)"

function show_digits :: "int \<Rightarrow> string" where
  "show_digits n =
     (if n < 10 then [digit_char (nat n)]
      else show_digits (n div 10) @ [digit_char (nat (n mod 10))])"
  by pat_completeness auto
termination
  by (relation "measure nat") auto

declare show_digits.simps [simp del]

text \<open>\<open>fmt.Sprintf("%d", i)\<close> and \<open>strconv.Itoa\<close>.\<close>

definition show_int :: "int \<Rightarrow> string" where
  "show_int i = (if i < 0 then CHR ''-'' # show_digits (- i) else show_digits i)"

text \<open>An optional sign and at least one digit; the rest of the input.\<close>

definition scan_signed :: "string \<Rightarrow> (int \<times> string) option" where
  "scan_signed s =
     (let (neg, r) = (case s of
            [] \<Rightarrow> (False, [])
          | c # r \<Rightarrow> if c = CHR ''-'' then (True, r) else if c = CHR ''+'' then (False, r)
                    else (False, s));
          ds = takeWhile is_digit r
      in if ds = [] then None
         else Some (if neg then - digits_val ds else digits_val ds, dropWhile is_digit r))"

text \<open>
  \<open>fmt.Sscanf(s, "%d", &v)\<close>: leading white space is skipped, a newline in it is an error; an
  optional sign and at least one digit are needed; what follows the number is ignored; a number
  that \<open>strconv.ParseInt\<close> finds out of the 64-bit range is an error.
\<close>

function skip_space :: "string \<Rightarrow> string option" where
  "skip_space s =
     (if take 1 s = [CHR 0x0A] then None
      else if lead_space s = 0 then Some s else skip_space (drop (lead_space s) s))"
  by pat_completeness auto
termination
proof (relation "measure length")
  fix s :: string
  assume "lead_space s \<noteq> 0"
  with lead_space_le[of s] show "(drop (lead_space s) s, s) \<in> measure length"
    by (cases s) auto
qed simp

declare skip_space.simps [simp del]

definition sscanf_d :: "string \<Rightarrow> int option" where
  "sscanf_d s = do {
     t \<leftarrow> skip_space s;
     (i, _) \<leftarrow> scan_signed t;
     if in_int64 i then Some i else None
   }"

text \<open>\<open>strconv.Atoi\<close>: the whole string is an optional sign and digits, in range.\<close>

definition atoi :: "string \<Rightarrow> int option" where
  "atoi s = do {
     (i, rest) \<leftarrow> scan_signed s;
     if rest = [] \<and> in_int64 i then Some i else None
   }"

lemma sscanf_d_range: "sscanf_d s = Some i \<Longrightarrow> in_int64 i"
  by (auto simp: sscanf_d_def Option.bind_eq_Some_conv split: if_splits)

subsection \<open>Printing and scanning are inverse\<close>

lemma of_digit_char: "d < 10 \<Longrightarrow> of_char (digit_char d) = 48 + d"
  by (simp add: digit_char_def)

lemma is_digit_digit_char: "d < 10 \<Longrightarrow> is_digit (digit_char d)"
proof -
  assume "d < 10"
  then have "of_char (digit_char d) = 48 + d" by (rule of_digit_char)
  then show ?thesis using \<open>d < 10\<close>
    by (simp add: is_digit_def less_eq_char_def)
qed

lemma digit_val_digit_char: "d < 10 \<Longrightarrow> digit_val (digit_char d) = int d"
  by (simp add: digit_val_def of_digit_char)

lemma show_digits_digits: "0 \<le> n \<Longrightarrow> \<forall>c \<in> set (show_digits n). is_digit c"
proof (induction n rule: show_digits.induct)
  case (1 n)
  then show ?case
    by (subst show_digits.simps) (auto simp: is_digit_digit_char)
qed

lemma show_digits_nonempty [simp]: "show_digits n \<noteq> []"
  by (subst show_digits.simps) simp

lemma digits_val_show_digits: "0 \<le> n \<Longrightarrow> digits_val (show_digits n) = n"
proof (induction n rule: show_digits.induct)
  case (1 n)
  show ?case
  proof (cases "n < 10")
    case True
    with "1.prems" show ?thesis
      by (subst show_digits.simps) (simp add: digits_val_def digit_val_digit_char)
  next
    case False
    with "1.IH" have "digits_val (show_digits (n div 10)) = n div 10" by simp
    moreover have "digit_val (digit_char (nat (n mod 10))) = n mod 10"
      by (simp add: digit_val_digit_char)
    moreover have "10 * (n div 10) + n mod 10 = n" by simp
    ultimately show ?thesis using False
      by (subst show_digits.simps) (simp add: digits_val_def)
  qed
qed

lemma takeWhile_all: "\<forall>c \<in> set xs. P c \<Longrightarrow> takeWhile P xs = xs"
  by (simp add: takeWhile_eq_all_conv)

lemma digit_not_sign: "is_digit c \<Longrightarrow> c \<noteq> CHR ''-'' \<and> c \<noteq> CHR ''+'' \<and> c \<noteq> CHR 0x0A"
  by (auto simp: is_digit_def less_eq_char_def)

lemma show_digits_Cons:
  assumes "0 \<le> n"
  obtains c cs where "show_digits n = c # cs" "is_digit c"
proof -
  obtain c cs where cs: "show_digits n = c # cs"
    using show_digits_nonempty by (cases "show_digits n") auto
  with show_digits_digits[OF assms] have "is_digit c" by simp
  with cs show thesis by (rule that)
qed

lemma take_drop_digits:
  assumes "0 \<le> n" and "rest = [] \<or> \<not> is_digit (hd rest)"
  shows "takeWhile is_digit (show_digits n @ rest) = show_digits n"
    and "dropWhile is_digit (show_digits n @ rest) = rest"
  using assms(2) show_digits_digits[OF assms(1)]
  by (cases rest; simp add: takeWhile_append takeWhile_all dropWhile_append)+

lemma scan_signed_show_int:
  assumes "rest = [] \<or> \<not> is_digit (hd rest)"
  shows "scan_signed (show_int n @ rest) = Some (n, rest)"
proof (cases "n < 0")
  case True
  then show ?thesis
    using take_drop_digits[where n = "- n" and rest = rest] assms digits_val_show_digits[of "- n"]
    by (simp add: scan_signed_def show_int_def)
next
  case False
  then obtain c cs where cs: "show_digits n = c # cs" "is_digit c"
    using show_digits_Cons[of n] by auto
  with False show ?thesis
    using take_drop_digits[where n = n and rest = rest] assms digits_val_show_digits[of n] digit_not_sign[of c]
    by (simp add: scan_signed_def show_int_def)
qed

lemma atoi_show_int: "in_int64 n \<Longrightarrow> atoi (show_int n) = Some n"
  using scan_signed_show_int[where rest = "[]" and n = n] by (simp add: atoi_def)

lemma lead_not_space: "is_digit c \<or> c = CHR ''-'' \<Longrightarrow> lead_space (c # s) = 0"
  by (auto simp: lead_space_0 space_runes_def is_digit_def less_eq_char_def)

lemma sscanf_d_show_int:
  assumes "in_int64 n" and "rest = [] \<or> \<not> is_digit (hd rest)"
  shows "sscanf_d (show_int n @ rest) = Some n"
proof -
  obtain c cs where cs: "show_int n = c # cs" "is_digit c \<or> c = CHR ''-''"
  proof (cases "n < 0")
    case True
    then show ?thesis using that by (simp add: show_int_def)
  next
    case False
    then obtain d ds where "show_digits n = d # ds" "is_digit d"
      by (metis not_less show_digits_Cons)
    with False show ?thesis using that by (simp add: show_int_def)
  qed
  then have "c \<noteq> CHR 0x0A" using digit_not_sign[of c] by auto
  then have "skip_space (show_int n @ rest) = Some (show_int n @ rest)"
    using cs lead_not_space[OF cs(2), of "cs @ rest"] by (subst skip_space.simps) simp
  then show ?thesis
    using assms by (simp add: sscanf_d_def scan_signed_show_int)
qed

end
