(* ===== verification/GoNumbers.thy ===== *)
theory GoNumbers
  imports GoStrings "HOL-Library.Log_Nat" Complex_Main
begin

text \<open>
  Go's \<open>float64\<close>, as far as the modelled code uses it: values read from JSON, conversion to
  \<open>int\<close>, and the two printings of \<open>strconv\<close> that \<open>encoding/json\<close> and \<open>fmt\<close> choose.
  A finite value is its exact rational; the sign of zero is not kept.
\<close>

section \<open>Values\<close>

datatype f64 = Fin rat | PosInf | NegInf | NaN

text \<open>
  \<open>int(f)\<close> truncates towards zero. Out of range (and for infinities and NaN) Go leaves the
  result to the platform; on amd64, which the images are built for, it is the smallest \<open>int64\<close>.
\<close>

definition trunc_rat :: "rat \<Rightarrow> int" where
  "trunc_rat r = (if r < 0 then - \<lfloor>- r\<rfloor> else \<lfloor>r\<rfloor>)"

fun f64_to_int :: "f64 \<Rightarrow> int" where
  "f64_to_int (Fin r) = (if in_int64 (trunc_rat r) then trunc_rat r else min_int64)"
| "f64_to_int PosInf = min_int64"
| "f64_to_int NegInf = min_int64"
| "f64_to_int NaN = min_int64"

lemma f64_to_int_range: "in_int64 (f64_to_int f)"
  by (cases f) (auto simp: in_int64_def min_int64_def max_int64_def)

lemma f64_to_int_of_int [simp]: "in_int64 i \<Longrightarrow> f64_to_int (Fin (of_int i)) = i"
  by (simp add: trunc_rat_def)

section \<open>Rounding to the nearest double\<close>

definition pow2 :: "int \<Rightarrow> rat" where
  "pow2 e = (if 0 \<le> e then 2 ^ nat e else 1 / 2 ^ nat (- e))"

definition pow10 :: "int \<Rightarrow> rat" where
  "pow10 e = (if 0 \<le> e then 10 ^ nat e else 1 / 10 ^ nat (- e))"

text \<open>The exponent \<open>e\<close> with \<open>2^e \<le> x < 2^(e+1)\<close>, for positive \<open>x\<close>.\<close>

definition ilog2 :: "rat \<Rightarrow> int" where
  "ilog2 x =
     (let (n, d) = quotient_of x; k = bitlen n - bitlen d
      in if pow2 k \<le> x then k else k - 1)"

definition round_half_even :: "rat \<Rightarrow> int" where
  "round_half_even x =
     (let f = \<lfloor>x\<rfloor>; r = x - of_int f
      in if r < 1 / 2 \<or> (r = 1 / 2 \<and> even f) then f else f + 1)"

text \<open>
  IEEE rounding of a positive rational to a binary64 value: 53 significant bits, least exponent
  -1074; \<open>None\<close> when the result overflows.
\<close>

definition round_f64_pos :: "rat \<Rightarrow> rat option" where
  "round_f64_pos x =
     (let q = max (ilog2 x - 52) (- 1074);
          v = of_int (round_half_even (x / pow2 q)) * pow2 q
      in if pow2 1024 \<le> v then None else Some v)"

definition round_f64 :: "rat \<Rightarrow> rat option" where
  "round_f64 x =
     (if x = 0 then Some 0
      else if 0 < x then round_f64_pos x else map_option uminus (round_f64_pos (- x)))"

section \<open>Shortest decimal digits\<close>

text \<open>
  \<open>strconv.FormatFloat(f, _, -1, 64)\<close> uses the least number of digits that read back as \<open>f\<close>,
  and among those the closest. A decimal is \<open>m * 10^k\<close> with \<open>m\<close> of exactly \<open>n\<close> digits.
\<close>

definition ilog10 :: "rat \<Rightarrow> int" where
  "ilog10 x =
     (let e = \<lfloor>of_int (ilog2 x) * 30103 / 100000 :: rat\<rfloor>
      in if x < pow10 e then e - 1 else if pow10 (e + 1) \<le> x then e + 1 else e)"

definition decimal_candidates :: "rat \<Rightarrow> nat \<Rightarrow> (int \<times> int) list" where
  "decimal_candidates x n =
     (let k = ilog10 x - int n + 1; y = x / pow10 k; f = \<lfloor>y\<rfloor>;
          order = (if y - of_int f \<le> 1 / 2 then [f, f + 1] else [f + 1, f])
      in filter (\<lambda>(m, k). round_f64 (of_int m * pow10 k) = Some x) (map (\<lambda>m. (m, k)) order))"

fun shortest_from :: "rat \<Rightarrow> nat \<Rightarrow> nat \<Rightarrow> int \<times> int" where
  "shortest_from x n 0 = (0, 0)"
| "shortest_from x n (Suc fuel) =
     (case decimal_candidates x n of c # _ \<Rightarrow> c | [] \<Rightarrow> shortest_from x (Suc n) fuel)"

text \<open>
  Seventeen digits always suffice for a double. The digits are stripped of trailing zeros; the
  second component is the position of the decimal point counted from the first digit.
\<close>

fun strip_zeros :: "string \<Rightarrow> string" where
  "strip_zeros s = rev (dropWhile (\<lambda>c. c = CHR ''0'') (rev s))"

definition shortest_digits :: "rat \<Rightarrow> string \<times> int" where
  "shortest_digits x =
     (let (m, k) = shortest_from x 1 17; ds = show_int m
      in (strip_zeros ds, int (length ds) + k))"

definition zeros :: "nat \<Rightarrow> string" where
  "zeros n = replicate n (CHR ''0'')"

text \<open>Formats \<open>'f'\<close> and \<open>'e'\<close> of a positive value from its digits and decimal point.\<close>

definition fmt_f :: "string \<Rightarrow> int \<Rightarrow> string" where
  "fmt_f ds dp =
     (let n = int (length ds);
          whole = (if dp \<le> 0 then ''0''
                   else if n \<le> dp then ds @ zeros (nat (dp - n)) else take (nat dp) ds);
          frac = (if n \<le> dp then []
                  else if dp \<le> 0 then zeros (nat (- dp)) @ ds else drop (nat dp) ds)
      in if frac = [] then whole else whole @ ''.'' @ frac)"

definition fmt_e :: "nat \<Rightarrow> string \<Rightarrow> int \<Rightarrow> string" where
  "fmt_e min_exp_digits ds dp =
     (let e = dp - 1; es = show_int \<bar>e\<bar>
      in take 1 ds @ (if length ds > 1 then ''.'' @ drop 1 ds else []) @ ''e'' @
         (if e < 0 then ''-'' else ''+'') @ zeros (min_exp_digits - length es) @ es)"

text \<open>
  \<open>encoding/json\<close>: \<open>'f'\<close>, but \<open>'e'\<close> below 1e-6 and from 1e21 on, with the exponent's leading zero
  removed; infinities and NaN cannot be encoded. \<open>fmt.Sprint\<close> (\<open>%v\<close>): \<open>'e'\<close> when the exponent
  is below -4 or at least 6, else \<open>'f'\<close>, the exponent with two digits at least.
\<close>

definition with_sign :: "rat \<Rightarrow> (rat \<Rightarrow> string) \<Rightarrow> string" where
  "with_sign x f = (if x = 0 then ''0'' else if x < 0 then CHR ''-'' # f (- x) else f x)"

fun json_float :: "f64 \<Rightarrow> string option" where
  "json_float (Fin x) = Some (with_sign x (\<lambda>y.
     let (ds, dp) = shortest_digits y
     in if y < pow10 (- 6) \<or> pow10 21 \<le> y then fmt_e 1 ds dp else fmt_f ds dp))"
| "json_float _ = None"

fun sprint_float :: "f64 \<Rightarrow> string" where
  "sprint_float (Fin x) = with_sign x (\<lambda>y.
     let (ds, dp) = shortest_digits y
     in if dp - 1 < - 4 \<or> 6 \<le> dp - 1 then fmt_e 2 ds dp else fmt_f ds dp)"
| "sprint_float PosInf = ''+Inf''"
| "sprint_float NegInf = ''-Inf''"
| "sprint_float NaN = ''NaN''"

section \<open>Reading a JSON number literal\<close>

text \<open>
  The literal's digits as an exact rational, then \<open>strconv.ParseFloat\<close>; \<open>None\<close> when the value
  overflows. The scanner has already accepted the literal, so its shape is
  \<open>-?digits(.digits)?([eE][+-]?digits)?\<close>.
\<close>

definition is_exp_char :: "char \<Rightarrow> bool" where
  "is_exp_char c \<longleftrightarrow> c = CHR ''e'' \<or> c = CHR ''E''"

definition json_number :: "string \<Rightarrow> f64 option" where
  "json_number lit =
     (let neg = (take 1 lit = ''-'');
          body = (if neg then drop 1 lit else lit);
          mant = takeWhile (\<lambda>c. \<not> is_exp_char c) body;
          ex = drop (length mant + 1) body;
          e = (case scan_signed ex of Some (i, _) \<Rightarrow> i | None \<Rightarrow> 0);
          ip = takeWhile (\<lambda>c. c \<noteq> CHR ''.'') mant;
          fp = drop (length ip + 1) mant;
          v = of_int (digits_val (ip @ fp)) * pow10 (e - int (length fp))
      in map_option Fin (round_f64 (if neg then - v else v)))"

end
