(* ===== verification/GoJson.thy ===== *)
theory GoJson
  imports GoNumbers
begin

text \<open>
  Go's dynamic values (\<open>interface{}\<close>) and \<open>encoding/json\<close>: the scanner and decoder behind
  \<open>json.Unmarshal\<close> into \<open>interface{}\<close>, \<open>map[string]interface{}\<close>, \<open>[]map[string]interface{}\<close>,
  \<open>[]string\<close> and a slice of structs with string fields, and \<open>json.Marshal\<close> with its sorted keys
  and HTML escaping; \<open>fmt.Sprint\<close> on the same values.
\<close>

section \<open>Dynamic values\<close>

text \<open>
  The dynamic types the code's type switches mention. A map is an association list with distinct
  keys in its iteration order. Values decoded from JSON only use the constructors without a
  width-specific integer or \<open>float32\<close>.
\<close>

datatype gval =
    VNull
  | VBool bool
  | VInt int
  | VInt64 int
  | VF32 f64
  | VF64 f64
  | VStr string
  | VArr "gval list"
  | VObj "(string \<times> gval) list"

type_synonym gmap = "(string \<times> gval) list"

text \<open>The type assertions \<open>v.(string)\<close>, \<open>v.(float64)\<close>, ... on a looked-up key.\<close>

fun as_str :: "gval \<Rightarrow> string option" where
  "as_str (VStr s) = Some s"
| "as_str _ = None"

fun as_f64 :: "gval \<Rightarrow> f64 option" where
  "as_f64 (VF64 f) = Some f"
| "as_f64 _ = None"

fun as_obj :: "gval \<Rightarrow> gmap option" where
  "as_obj (VObj m) = Some m"
| "as_obj _ = None"

fun as_arr :: "gval \<Rightarrow> gval list option" where
  "as_arr (VArr xs) = Some xs"
| "as_arr _ = None"

definition get_str :: "gmap \<Rightarrow> string \<Rightarrow> string option" where
  "get_str m k = Option.bind (map_of m k) as_str"

definition get_f64 :: "gmap \<Rightarrow> string \<Rightarrow> f64 option" where
  "get_f64 m k = Option.bind (map_of m k) as_f64"

definition get_obj :: "gmap \<Rightarrow> string \<Rightarrow> gmap option" where
  "get_obj m k = Option.bind (map_of m k) as_obj"

definition get_arr :: "gmap \<Rightarrow> string \<Rightarrow> gval list option" where
  "get_arr m k = Option.bind (map_of m k) as_arr"

text \<open>A lookup of a missing key yields the zero value \<open>nil\<close>.\<close>

definition get_val :: "gmap \<Rightarrow> string \<Rightarrow> gval" where
  "get_val m k = (case map_of m k of None \<Rightarrow> VNull | Some v \<Rightarrow> v)"

lemmas get_defs [go_eval] = get_str_def get_f64_def get_obj_def get_arr_def get_val_def

section \<open>UTF-8\<close>

definition byte_in :: "nat \<Rightarrow> nat \<Rightarrow> char \<Rightarrow> bool" where
  "byte_in lo hi c \<longleftrightarrow> lo \<le> of_char c \<and> of_char c \<le> hi"

text \<open>
  The length of the well-formed multi-byte encoding at the front of a string, 0 if there is none
  (\<open>utf8.DecodeRune\<close>).
\<close>

definition cont :: "char \<Rightarrow> bool" where
  "cont c \<longleftrightarrow> byte_in 0x80 0xBF c"

fun utf8_len :: "string \<Rightarrow> nat" where
  "utf8_len (a # b # s) =
     (if byte_in 0xC2 0xDF a then (if cont b then 2 else 0)
      else if byte_in 0xE0 0xEF a then
        (if byte_in (if a = CHR 0xE0 then 0xA0 else 0x80) (if a = CHR 0xED then 0x9F else 0xBF) b
          \<and> (case s of c # _ \<Rightarrow> cont c | [] \<Rightarrow> False) then 3 else 0)
      else if byte_in 0xF0 0xF4 a then
        (if byte_in (if a = CHR 0xF0 then 0x90 else 0x80) (if a = CHR 0xF4 then 0x8F else 0xBF) b
          \<and> (case s of c # d # _ \<Rightarrow> cont c \<and> cont d | _ \<Rightarrow> False) then 4 else 0)
      else 0)"
| "utf8_len _ = 0"

definition utf8_repl :: string where
  "utf8_repl = [CHR 0xEF, CHR 0xBF, CHR 0xBD]"

definition utf8_encode :: "nat \<Rightarrow> string" where
  "utf8_encode u =
     (if u < 0x80 then [char_of u]
      else if u < 0x800 then [char_of (0xC0 + u div 64), char_of (0x80 + u mod 64)]
      else if 0xD800 \<le> u \<and> u < 0xE000 \<or> 0x10FFFF < u then utf8_repl
      else if u < 0x10000 then
        [char_of (0xE0 + u div 4096), char_of (0x80 + u div 64 mod 64), char_of (0x80 + u mod 64)]
      else
        [char_of (0xF0 + u div 262144), char_of (0x80 + u div 4096 mod 64),
         char_of (0x80 + u div 64 mod 64), char_of (0x80 + u mod 64)])"

section \<open>Scanning JSON\<close>

text \<open>
  The raw tree keeps duplicate keys in their order and numbers as their literals; decoding into
  a target type comes after it.
\<close>

datatype json =
    JNull
  | JBool bool
  | JNum string
  | JStr string
  | JArr "json list"
  | JObj "(string \<times> json) list"

definition json_ws :: "char \<Rightarrow> bool" where
  "json_ws c \<longleftrightarrow> c = CHR 0x20 \<or> c = CHR 0x09 \<or> c = CHR 0x0D \<or> c = CHR 0x0A"

definition skip_ws :: "string \<Rightarrow> string" where
  "skip_ws s = dropWhile json_ws s"

lemma skip_ws_le: "length (skip_ws s) \<le> length s"
  by (simp add: skip_ws_def length_dropWhile_le)

subsection \<open>Strings\<close>

definition hex_val :: "char \<Rightarrow> nat option" where
  "hex_val c =
     (let n = of_char c in
      if byte_in 48 57 c then Some (n - 48)
      else if byte_in 97 102 c then Some (n - 87)
      else if byte_in 65 70 c then Some (n - 55) else None)"

fun hex4 :: "string \<Rightarrow> nat option" where
  "hex4 (a # b # c # d # _) = do {
     w \<leftarrow> hex_val a; x \<leftarrow> hex_val b; y \<leftarrow> hex_val c; z \<leftarrow> hex_val d;
     Some (4096 * w + 256 * x + 16 * y + z)
   }"
| "hex4 _ = None"

definition escape_char :: "char \<Rightarrow> char option" where
  "escape_char c = map_of
     [(CHR 0x22, CHR 0x22), (CHR 0x5C, CHR 0x5C), (CHR ''/'', CHR ''/''), (CHR ''b'', CHR 0x08),
      (CHR ''f'', CHR 0x0C), (CHR ''n'', CHR 0x0A), (CHR ''r'', CHR 0x0D), (CHR ''t'', CHR 0x09)] c"

text \<open>The low half of a surrogate pair, if the string goes on with its \<open>\u\<close> escape.\<close>

definition low_surrogate :: "string \<Rightarrow> nat option" where
  "low_surrogate s =
     (if take 2 s = [CHR 0x5C, CHR ''u'']
      then Option.bind (hex4 (drop 2 s)) (\<lambda>l. if 0xDC00 \<le> l \<and> l < 0xE000 then Some l else None)
      else None)"

definition prepend :: "string \<Rightarrow> (string \<times> 'r) option \<Rightarrow> (string \<times> 'r) option" where
  "prepend p r = map_option (\<lambda>(s, rest). (p @ s, rest)) r"

text \<open>The characters of a string literal up to its closing quote, decoded.\<close>

function json_chars :: "string \<Rightarrow> (string \<times> string) option" where
  "json_chars s =
     (case s of
        [] \<Rightarrow> None
      | c # r \<Rightarrow>
          if c = CHR 0x22 then Some ([], r)
          else if c = CHR 0x5C then
            (case r of
               [] \<Rightarrow> None
             | e # t \<Rightarrow>
                 (case escape_char e of
                    Some x \<Rightarrow> prepend [x] (json_chars t)
                  | None \<Rightarrow>
                      if e = CHR ''u'' then
                        (case hex4 t of
                           None \<Rightarrow> None
                         | Some u \<Rightarrow>
                             if 0xD800 \<le> u \<and> u < 0xDC00 then
                               (case low_surrogate (drop 4 t) of
                                  Some l \<Rightarrow>
                                    prepend (utf8_encode (0x10000 + (u - 0xD800) * 1024 + (l - 0xDC00)))
                                      (json_chars (drop 10 t))
                                | None \<Rightarrow> prepend utf8_repl (json_chars (drop 4 t)))
                             else prepend (utf8_encode u) (json_chars (drop 4 t)))
                      else None))
          else if byte_in 0 0x1F c then None
          else if byte_in 0 0x7F c then prepend [c] (json_chars r)
          else if utf8_len s = 0 then prepend utf8_repl (json_chars r)
          else prepend (take (utf8_len s) s) (json_chars (drop (utf8_len s) s)))"
  by pat_completeness auto
termination
  by (relation "measure length") auto

declare json_chars.simps [simp del]

subsection \<open>Numbers\<close>

text \<open>The literal at the front of the input and the rest; a malformed literal is an error.\<close>

definition json_int_part :: "string \<Rightarrow> (string \<times> string) option" where
  "json_int_part s =
     (case s of
        [] \<Rightarrow> None
      | c # r \<Rightarrow>
          if c = CHR ''0'' then Some ([c], r)
          else if is_digit c then Some (takeWhile is_digit s, dropWhile is_digit s) else None)"

definition json_frac_part :: "string \<Rightarrow> (string \<times> string) option" where
  "json_frac_part s =
     (case s of
        [] \<Rightarrow> Some ([], [])
      | c # r \<Rightarrow>
          if c = CHR ''.'' then
            (if takeWhile is_digit r = [] then None
             else Some (c # takeWhile is_digit r, dropWhile is_digit r))
          else Some ([], s))"

definition json_exp_part :: "string \<Rightarrow> (string \<times> string) option" where
  "json_exp_part s =
     (case s of
        [] \<Rightarrow> Some ([], [])
      | c # r \<Rightarrow>
          if is_exp_char c then
            (let sg = (if take 1 r = ''+'' \<or> take 1 r = ''-'' then take 1 r else []);
                 t = drop (length sg) r
             in if takeWhile is_digit t = [] then None
                else Some (c # sg @ takeWhile is_digit t, dropWhile is_digit t))
          else Some ([], s))"

definition json_num :: "string \<Rightarrow> (string \<times> string) option" where
  "json_num s =
     (let sg = (if take 1 s = ''-'' then ''-'' else []) in do {
        (i, s1) \<leftarrow> json_int_part (drop (length sg) s);
        (f, s2) \<leftarrow> json_frac_part s1;
        (e, s3) \<leftarrow> json_exp_part s2;
        Some (sg @ i @ f @ e, s3)
      })"

subsection \<open>Values\<close>

text \<open>
  The recursive descent, with the nesting depth left (the scanner allows 10000 open brackets) and
  fuel for the mutual recursion. \<open>json_elems\<close> reads a non-empty list up to the closing bracket,
  \<open>json_members\<close> a non-empty object.
\<close>

fun json_val :: "nat \<Rightarrow> nat \<Rightarrow> string \<Rightarrow> (json \<times> string) option"
  and json_elems :: "nat \<Rightarrow> nat \<Rightarrow> string \<Rightarrow> (json list \<times> string) option"
  and json_members :: "nat \<Rightarrow> nat \<Rightarrow> string \<Rightarrow> ((string \<times> json) list \<times> string) option" where
  "json_val 0 d s = None"
| "json_val (Suc n) d s =
     (case skip_ws s of
        [] \<Rightarrow> None
      | c # r \<Rightarrow>
          if c = CHR 0x22 then map_option (\<lambda>(x, t). (JStr x, t)) (json_chars r)
          else if c = CHR 0x7B then
            (if d = 0 then None
             else (case skip_ws r of
                     [] \<Rightarrow> None
                   | c' # r' \<Rightarrow>
                       if c' = CHR 0x7D then Some (JObj [], r')
                       else map_option (\<lambda>(ms, t). (JObj ms, t)) (json_members n (d - 1) r)))
          else if c = CHR 0x5B then
            (if d = 0 then None
             else (case skip_ws r of
                     [] \<Rightarrow> None
                   | c' # r' \<Rightarrow>
                       if c' = CHR 0x5D then Some (JArr [], r')
                       else map_option (\<lambda>(xs, t). (JArr xs, t)) (json_elems n (d - 1) r)))
          else if prefix ''true'' (c # r) then Some (JBool True, drop 3 r)
          else if prefix ''false'' (c # r) then Some (JBool False, drop 4 r)
          else if prefix ''null'' (c # r) then Some (JNull, drop 3 r)
          else map_option (\<lambda>(x, t). (JNum x, t)) (json_num (c # r)))"
| "json_elems 0 d s = None"
| "json_elems (Suc n) d s =
     (case json_val n d s of
        None \<Rightarrow> None
      | Some (v, t) \<Rightarrow>
          (case skip_ws t of
             [] \<Rightarrow> None
           | c # r \<Rightarrow>
               if c = CHR 0x5D then Some ([v], r)
               else if c = CHR '','' then map_option (\<lambda>(xs, u). (v # xs, u)) (json_elems n d r)
               else None))"
| "json_members 0 d s = None"
| "json_members (Suc n) d s =
     (case skip_ws s of
        [] \<Rightarrow> None
      | q # r \<Rightarrow>
          if q = CHR 0x22 then
            (case json_chars r of
               None \<Rightarrow> None
             | Some (k, t) \<Rightarrow>
                 (case skip_ws t of
                    [] \<Rightarrow> None
                  | c # t' \<Rightarrow>
                      if c = CHR '':'' then
                        (case json_val n d t' of
                           None \<Rightarrow> None
                         | Some (v, u) \<Rightarrow>
                             (case skip_ws u of
                                [] \<Rightarrow> None
                              | c' # u' \<Rightarrow>
                                  if c' = CHR 0x7D then Some ([(k, v)], u')
                                  else if c' = CHR '','' then
                                    map_option (\<lambda>(ms, w). ((k, v) # ms, w)) (json_members n d u')
                                  else None))
                      else None))
          else None)"

definition max_nesting :: nat where
  "max_nesting = 10000"

definition json_parse :: "string \<Rightarrow> json option" where
  "json_parse s =
     (case json_val (2 * length s + 2) max_nesting s of
        Some (v, r) \<Rightarrow> if skip_ws r = [] then Some v else None
      | None \<Rightarrow> None)"

section \<open>Decoding\<close>

text \<open>
  Into \<open>interface{}\<close>: numbers become \<open>float64\<close> (overflow is an error), a repeated key keeps its
  last value. Into \<open>map[string]interface{}\<close>: an object, or \<open>null\<close> for the nil map.
\<close>

fun decode_any :: "json \<Rightarrow> gval option"
  and decode_list :: "json list \<Rightarrow> gval list option"
  and decode_members :: "(string \<times> json) list \<Rightarrow> gmap \<Rightarrow> gmap option" where
  "decode_any JNull = Some VNull"
| "decode_any (JBool b) = Some (VBool b)"
| "decode_any (JNum l) = map_option VF64 (json_number l)"
| "decode_any (JStr s) = Some (VStr s)"
| "decode_any (JArr xs) = map_option VArr (decode_list xs)"
| "decode_any (JObj ms) = map_option VObj (decode_members ms [])"
| "decode_list [] = Some []"
| "decode_list (x # xs) = do { v \<leftarrow> decode_any x; vs \<leftarrow> decode_list xs; Some (v # vs) }"
| "decode_members [] m = Some m"
| "decode_members ((k, x) # ms) m = do { v \<leftarrow> decode_any x; decode_members ms (AList.update k v m) }"

definition unmarshal_any :: "string \<Rightarrow> gval option" where
  "unmarshal_any s = Option.bind (json_parse s) decode_any"

fun decode_map :: "json \<Rightarrow> gmap option" where
  "decode_map JNull = Some []"
| "decode_map (JObj ms) = decode_members ms []"
| "decode_map _ = None"

definition unmarshal_map :: "string \<Rightarrow> gmap option" where
  "unmarshal_map s = Option.bind (json_parse s) decode_map"

fun seq_options :: "'a option list \<Rightarrow> 'a list option" where
  "seq_options [] = Some []"
| "seq_options (x # xs) = do { v \<leftarrow> x; vs \<leftarrow> seq_options xs; Some (v # vs) }"

definition unmarshal_map_list :: "string \<Rightarrow> gmap list option" where
  "unmarshal_map_list s =
     (case json_parse s of
        Some JNull \<Rightarrow> Some []
      | Some (JArr xs) \<Rightarrow> seq_options (map decode_map xs)
      | _ \<Rightarrow> None)"

fun decode_string :: "json \<Rightarrow> string option" where
  "decode_string JNull = Some []"
| "decode_string (JStr s) = Some s"
| "decode_string _ = None"

definition unmarshal_string_list :: "string \<Rightarrow> string list option" where
  "unmarshal_string_list s =
     (case json_parse s of
        Some JNull \<Rightarrow> Some []
      | Some (JArr xs) \<Rightarrow> seq_options (map decode_string xs)
      | _ \<Rightarrow> None)"

section \<open>Encoding\<close>

definition hex_digit :: "nat \<Rightarrow> char" where
  "hex_digit n = (if n < 10 then char_of (48 + n) else char_of (87 + n))"

definition u_escape :: "char \<Rightarrow> string" where
  "u_escape c = [CHR 0x5C, CHR ''u'', CHR ''0'', CHR ''0'',
     hex_digit (of_char c div 16), hex_digit (of_char c mod 16)]"

definition encode_byte :: "char \<Rightarrow> string" where
  "encode_byte c =
     (if c = CHR 0x22 \<or> c = CHR 0x5C then [CHR 0x5C, c]
      else if c = CHR 0x08 then [CHR 0x5C, CHR ''b'']
      else if c = CHR 0x0C then [CHR 0x5C, CHR ''f'']
      else if c = CHR 0x0A then [CHR 0x5C, CHR ''n'']
      else if c = CHR 0x0D then [CHR 0x5C, CHR ''r'']
      else if c = CHR 0x09 then [CHR 0x5C, CHR ''t'']
      else if byte_in 0 0x1F c \<or> c = CHR ''<'' \<or> c = CHR ''>'' \<or> c = CHR ''&'' then u_escape c
      else [c])"

text \<open>The body of a string literal: HTML-safe, invalid UTF-8 replaced, U+2028/9 escaped.\<close>

function json_escape :: "string \<Rightarrow> string" where
  "json_escape s =
     (case s of
        [] \<Rightarrow> []
      | c # r \<Rightarrow>
          if byte_in 0 0x7F c then encode_byte c @ json_escape r
          else if utf8_len s = 0 then
            [CHR 0x5C, CHR ''u'', CHR ''f'', CHR ''f'', CHR ''f'', CHR ''d''] @ json_escape r
          else if take 3 s = [CHR 0xE2, CHR 0x80, CHR 0xA8] then
            [CHR 0x5C, CHR ''u'', CHR ''2'', CHR ''0'', CHR ''2'', CHR ''8''] @ json_escape (drop 3 s)
          else if take 3 s = [CHR 0xE2, CHR 0x80, CHR 0xA9] then
            [CHR 0x5C, CHR ''u'', CHR ''2'', CHR ''0'', CHR ''2'', CHR ''9''] @ json_escape (drop 3 s)
          else take (utf8_len s) s @ json_escape (drop (utf8_len s) s))"
  by pat_completeness auto
termination
  by (relation "measure length") auto

declare json_escape.simps [simp del]

definition json_quote :: "string \<Rightarrow> string" where
  "json_quote s = [CHR 0x22] @ json_escape s @ [CHR 0x22]"

definition brackets :: "char \<Rightarrow> char \<Rightarrow> string list \<Rightarrow> string" where
  "brackets l r xs = [l] @ join_with '','' xs @ [r]"

text \<open>\<open>json.Marshal\<close>; an infinite or NaN float anywhere in the value makes it fail.\<close>

fun marshal :: "gval \<Rightarrow> string option" where
  "marshal VNull = Some ''null''"
| "marshal (VBool b) = Some (if b then ''true'' else ''false'')"
| "marshal (VInt i) = Some (show_int i)"
| "marshal (VInt64 i) = Some (show_int i)"
| "marshal (VF32 f) = json_float f"
| "marshal (VF64 f) = json_float f"
| "marshal (VStr s) = Some (json_quote s)"
| "marshal (VArr xs) = map_option (brackets (CHR 0x5B) (CHR 0x5D)) (seq_options (map marshal xs))"
| "marshal (VObj ms) =
     map_option (\<lambda>ys. brackets (CHR 0x7B) (CHR 0x7D)
         (map (\<lambda>(k, t). json_quote k @ '':'' @ t) (sort_key fst ys)))
       (seq_options (map (\<lambda>(k, v). map_option (Pair k) (marshal v)) ms))"

text \<open>\<open>fmt.Sprint\<close> of one value: maps print sorted by key.\<close>

fun sprint :: "gval \<Rightarrow> string" where
  "sprint VNull = ''<nil>''"
| "sprint (VBool b) = (if b then ''true'' else ''false'')"
| "sprint (VInt i) = show_int i"
| "sprint (VInt64 i) = show_int i"
| "sprint (VF32 f) = sprint_float f"
| "sprint (VF64 f) = sprint_float f"
| "sprint (VStr s) = s"
| "sprint (VArr xs) = ''['' @ join_with '' '' (map sprint xs) @ '']''"
| "sprint (VObj ms) =
     ''map['' @ join_with '' ''
       (map (\<lambda>(k, t). k @ '':'' @ t) (sort_key fst (map (\<lambda>(k, v). (k, sprint v)) ms))) @ '']''"

end
