(* ===== verification/TraceModel.thy ===== *)
theory TraceModel
  imports GoJson
begin

text \<open>
  The data model of the traces observer service (\<open>traces-observer-service/opensearch/types.go\<close>
  and \<open>observer/types.go\<close>): one record per struct, with the struct's fields in their order.

  A pointer that may be nil is an \<open>option\<close>; a nil slice and an empty slice are both \<open>[]\<close>
  (every such field is encoded with \<open>omitempty\<close>). A \<open>time.Time\<close> is its number of nanoseconds since
  the zero time, so \<open>IsZero\<close> is equality with 0. An attribute map is \<open>None\<close> when nil and otherwise an
  association list with distinct keys, in the order in which a loop over it meets the entries.
\<close>

section \<open>Library functions that stay parameters\<close>

text \<open>
  Three functions of Go's standard library are arguments of the definitions that call them:
  \<open>time.Parse(time.RFC3339Nano, _)\<close>, \<open>Time.Format(time.RFC3339Nano)\<close> and
  \<open>fmt.Sscanf(_, "%f", &v)\<close>. No property relies on a law about them.
\<close>

record go_lib =
  lib_parse_time :: "string \<Rightarrow> int option"
  lib_format_time :: "int \<Rightarrow> string"
  lib_scan_float :: "string \<Rightarrow> f64 option"

section \<open>Messages, tools, token usage, status\<close>

record ToolCall =
  tc_ID :: string
  tc_Name :: string
  tc_Arguments :: string

record PromptMessage =
  pm_Role :: string
  pm_Content :: string
  pm_ToolCalls :: "ToolCall list"

record ToolDefinition =
  td_Name :: string
  td_Description :: string
  td_Parameters :: string

record LLMTokenUsage =
  ltu_InputTokens :: int
  ltu_OutputTokens :: int
  ltu_CacheReadInputTokens :: int
  ltu_TotalTokens :: int

record TokenUsage =
  tu_InputTokens :: int
  tu_OutputTokens :: int
  tu_TotalTokens :: int

record SpanStatus =
  ss_Error :: bool
  ss_ErrorType :: string

record TraceStatus =
  ts_ErrorCount :: int

definition zero_tool_call :: ToolCall where
  [go_eval]: "zero_tool_call = \<lparr>tc_ID = [], tc_Name = [], tc_Arguments = []\<rparr>"

definition zero_message :: PromptMessage where
  [go_eval]: "zero_message = \<lparr>pm_Role = [], pm_Content = [], pm_ToolCalls = []\<rparr>"

definition zero_tool_def :: ToolDefinition where
  [go_eval]: "zero_tool_def = \<lparr>td_Name = [], td_Description = [], td_Parameters = []\<rparr>"

section \<open>Kind-specific data\<close>

record LLMData =
  ld_Tools :: "ToolDefinition list"
  ld_Model :: string
  ld_Vendor :: string
  ld_Temperature :: "f64 option"
  ld_TokenUsage :: "LLMTokenUsage option"

record ToolData =
  tld_Name :: string

record EmbeddingData =
  ed_Model :: string
  ed_Vendor :: string
  ed_TokenUsage :: "LLMTokenUsage option"

record RetrieverData =
  rd_VectorDB :: string
  rd_TopK :: int

record AgentData =
  ad_Name :: string
  ad_Tools :: "ToolDefinition list"
  ad_Model :: string
  ad_Framework :: string
  ad_SystemPrompt :: string
  ad_MaxIter :: int
  ad_TokenUsage :: "LLMTokenUsage option"
  ad_ConversationID :: string

record CrewAITaskData =
  ctd_Name :: string
  ctd_Description :: string
  ctd_Tools :: "ToolDefinition list"

text \<open>
  The dynamic types that the \<open>interface{}\<close> fields \<open>Input\<close>, \<open>Output\<close> and \<open>Data\<close> of
  \<open>AmpAttributes\<close> are given.
\<close>

datatype amp_io =
    IoNil
  | IoText string
  | IoMessages "PromptMessage list"
  | IoDocuments "string list"

datatype amp_data =
    DataNil
  | DataLLM LLMData
  | DataTool ToolData
  | DataEmbedding EmbeddingData
  | DataRetriever RetrieverData
  | DataAgent AgentData
  | DataCrewAITask CrewAITaskData

record AmpAttributes =
  amp_Kind :: string
  amp_Input :: amp_io
  amp_Output :: amp_io
  amp_Status :: "SpanStatus option"
  amp_Data :: amp_data

definition new_amp :: "string \<Rightarrow> AmpAttributes" where
  [go_eval]: "new_amp kind =
     \<lparr>amp_Kind = kind, amp_Input = IoNil, amp_Output = IoNil, amp_Status = None, amp_Data = DataNil\<rparr>"

section \<open>Spans and traces\<close>

record Span =
  sp_TraceID :: string
  sp_SpanID :: string
  sp_ParentSpanID :: string
  sp_Name :: string
  sp_Service :: string
  sp_StartTime :: int
  sp_EndTime :: int
  sp_DurationInNanos :: int
  sp_Kind :: string
  sp_Status :: string
  sp_Attributes :: "gmap option"
  sp_Resource :: "gmap option"
  sp_AmpAttributes :: "AmpAttributes option"

definition zero_span :: Span where
  [go_eval]: "zero_span =
     \<lparr>sp_TraceID = [], sp_SpanID = [], sp_ParentSpanID = [], sp_Name = [], sp_Service = [],
      sp_StartTime = 0, sp_EndTime = 0, sp_DurationInNanos = 0, sp_Kind = [], sp_Status = [],
      sp_Attributes = None, sp_Resource = None, sp_AmpAttributes = None\<rparr>"

record TraceOverview =
  to_TraceID :: string
  to_RootSpanID :: string
  to_RootSpanName :: string
  to_RootSpanKind :: string
  to_StartTime :: string
  to_EndTime :: string
  to_DurationInNanos :: int
  to_SpanCount :: int
  to_TokenUsage :: "TokenUsage option"
  to_Status :: "TraceStatus option"
  to_Input :: amp_io
  to_Output :: amp_io

record TraceOverviewResponse =
  tor_Traces :: "TraceOverview list"
  tor_TotalCount :: int

record FullTrace =
  ft_TraceID :: string
  ft_RootSpanID :: string
  ft_RootSpanName :: string
  ft_RootSpanKind :: string
  ft_StartTime :: string
  ft_EndTime :: string
  ft_DurationInNanos :: int
  ft_SpanCount :: int
  ft_TokenUsage :: "TokenUsage option"
  ft_Status :: "TraceStatus option"
  ft_Input :: amp_io
  ft_Output :: amp_io
  ft_TaskId :: string
  ft_TrialId :: string
  ft_Spans :: "Span list"

record TraceExportResponse =
  ter_Traces :: "FullTrace list"
  ter_TotalCount :: int
  ter_Truncated :: bool

text \<open>The answers of the observer service (\<open>observer/types.go\<close>).\<close>

record TraceInfo =
  ti_TraceID :: string
  ti_TraceName :: string
  ti_SpanCount :: int
  ti_RootSpanID :: string
  ti_RootSpanName :: string
  ti_RootSpanKind :: string
  ti_StartTime :: int
  ti_EndTime :: int
  ti_DurationNs :: int

record TracesQueryResponse =
  tqr_Traces :: "TraceInfo list"
  tqr_Total :: int
  tqr_TookMs :: int

record SpanInfo =
  si_SpanID :: string
  si_SpanName :: string
  si_ParentSpanID :: string
  si_StartTime :: int
  si_EndTime :: int
  si_DurationNs :: int

record TraceSpansQueryResponse =
  tsq_Spans :: "SpanInfo list"
  tsq_Total :: int
  tsq_TookMs :: int

record SpanDetailsResponse =
  sd_SpanID :: string
  sd_SpanName :: string
  sd_ParentSpanID :: string
  sd_StartTime :: int
  sd_EndTime :: int
  sd_DurationNs :: int
  sd_Kind :: string
  sd_Status :: string
  sd_Attributes :: "gmap option"
  sd_ResourceAttributes :: "gmap option"

text \<open>Reading a nil map finds nothing.\<close>

definition attrs_of :: "gmap option \<Rightarrow> gmap" where
  "attrs_of m = (case m of None \<Rightarrow> [] | Some xs \<Rightarrow> xs)"

lemma attrs_of_simps [simp]: "attrs_of None = []" "attrs_of (Some xs) = xs"
  by (simp_all add: attrs_of_def)

section \<open>The order of a map's entries\<close>

text \<open>
  Two association lists with distinct keys and the same entries are the same Go map met in two
  orders. Lookups do not see the difference.
\<close>

definition same_map :: "gmap \<Rightarrow> gmap \<Rightarrow> bool" where
  "same_map xs ys \<longleftrightarrow> distinct (map fst xs) \<and> distinct (map fst ys) \<and> set xs = set ys"

lemma same_map_of: "same_map xs ys \<Longrightarrow> map_of xs = map_of ys"
  unfolding same_map_def by (intro map_of_perm) auto

lemma same_map_get:
  assumes "same_map xs ys"
  shows "get_str xs k = get_str ys k" "get_f64 xs k = get_f64 ys k" "get_obj xs k = get_obj ys k"
    "get_arr xs k = get_arr ys k" "get_val xs k = get_val ys k"
  using same_map_of[OF assms] by (simp_all add: get_defs)

lemma same_map_keys: "same_map xs ys \<Longrightarrow> set (map fst xs) = set (map fst ys)"
  by (simp add: same_map_def)

lemma same_map_ex: "same_map xs ys \<Longrightarrow> list_ex P (map fst xs) = list_ex P (map fst ys)"
  by (auto simp: list_ex_iff same_map_def)

lemma same_map_sym: "same_map xs ys \<Longrightarrow> same_map ys xs"
  by (auto simp: same_map_def)

lemma same_map_distinct:
  "same_map xs ys \<Longrightarrow> distinct xs" "same_map xs ys \<Longrightarrow> distinct ys"
  by (auto simp: same_map_def distinct_map)

end
