(* ===== verification/SpanKind.thy ===== *)
theory SpanKind
  imports TraceModel
begin

text \<open>
  The semantic kind of a span (\<open>DetermineSpanType\<close> and its helpers in
  \<open>traces-observer-service/opensearch/process.go\<close>, \<open>IsCrewAISpan\<close> in \<open>crewai_process.go\<close>).
\<close>

datatype SpanType =
    SpanTypeLLM
  | SpanTypeEmbedding
  | SpanTypeTool
  | SpanTypeRetriever
  | SpanTypeRerank
  | SpanTypeAgent
  | SpanTypeChain
  | SpanTypeCrewAITask
  | SpanTypeUnknown

fun span_type_string :: "SpanType \<Rightarrow> string" where
  "span_type_string SpanTypeLLM = ''llm''"
| "span_type_string SpanTypeEmbedding = ''embedding''"
| "span_type_string SpanTypeTool = ''tool''"
| "span_type_string SpanTypeRetriever = ''retriever''"
| "span_type_string SpanTypeRerank = ''rerank''"
| "span_type_string SpanTypeAgent = ''agent''"
| "span_type_string SpanTypeChain = ''chain''"
| "span_type_string SpanTypeCrewAITask = ''crewaitask''"
| "span_type_string SpanTypeUnknown = ''unknown''"

section \<open>Attribute tests\<close>

definition has_key :: "gmap \<Rightarrow> string \<Rightarrow> bool" where
  "has_key attrs k \<longleftrightarrow> map_of attrs k \<noteq> None"

definition has_key_prefix :: "gmap \<Rightarrow> string \<Rightarrow> bool" where
  "has_key_prefix attrs p \<longleftrightarrow> list_ex (\<lambda>k. prefix p k) (map fst attrs)"

definition str_in :: "gmap \<Rightarrow> string \<Rightarrow> string list \<Rightarrow> bool" where
  "str_in attrs k vs \<longleftrightarrow> (case get_str attrs k of Some v \<Rightarrow> v \<in> set vs | None \<Rightarrow> False)"

definition hasLLMAttributes :: "gmap \<Rightarrow> bool" where
  "hasLLMAttributes attrs =
     (if str_in attrs ''gen_ai.operation.name'' [''chat'', ''completion'', ''text_completion''] then True
      else if has_key_prefix attrs ''gen_ai.prompt.'' then True
      else if has_key attrs ''gen_ai.response.finish_reasons'' then True
      else (case get_str attrs ''llm.request.type'' of
              Some reqType \<Rightarrow> reqType \<noteq> ''embedding''
            | None \<Rightarrow> False))"

definition hasEmbeddingAttributes :: "gmap \<Rightarrow> bool" where
  "hasEmbeddingAttributes attrs =
     (if str_in attrs ''gen_ai.operation.name'' [''embedding'', ''embeddings''] then True
      else if get_f64 attrs ''gen_ai.embedding.dimension'' \<noteq> None then True
      else str_in attrs ''llm.request.type'' [''embedding''])"

definition hasToolAttributes :: "gmap \<Rightarrow> bool" where
  "hasToolAttributes attrs =
     (if get_str attrs ''gen_ai.tool.name'' \<noteq> None then True
      else if get_str attrs ''function.name'' \<noteq> None then True
      else if get_str attrs ''tool.name'' \<noteq> None then True
      else if get_str attrs ''tool_name'' \<noteq> None then True
      else has_key attrs ''llm.tool_calls'')"

definition hasRetrieverAttributes :: "gmap \<Rightarrow> bool" where
  "hasRetrieverAttributes attrs =
     (if has_key_prefix attrs ''db.query.'' then True
      else if str_in attrs ''db.system''
        [''pinecone'', ''weaviate'', ''qdrant'', ''milvus'', ''chroma'', ''chromadb''] then True
      else str_in attrs ''db.operation'' [''query'', ''search'', ''retrieve''])"

definition hasRerankAttributes :: "gmap \<Rightarrow> bool" where
  "hasRerankAttributes attrs =
     (if str_in attrs ''gen_ai.operation.name'' [''rerank'', ''reranking''] then True
      else if get_str attrs ''rerank.model'' \<noteq> None then True
      else (case get_str attrs ''gen_ai.request.model'' of
              Some model \<Rightarrow> sublist ''rerank-english'' model \<or> sublist ''rerank-multilingual'' model
            | None \<Rightarrow> False))"

definition hasAgentAttributes :: "gmap \<Rightarrow> bool" where
  "hasAgentAttributes attrs =
     (case map_of attrs ''gen_ai.agent.name'' of
        None \<Rightarrow> False
      | Some VNull \<Rightarrow> False
      | Some val \<Rightarrow> (case as_str val of Some s \<Rightarrow> length s > 0 | None \<Rightarrow> False))"

text \<open>The test inside the loop does not depend on the key, only on its prefix.\<close>

definition hasCrewAITaskAttributes :: "gmap \<Rightarrow> bool" where
  "hasCrewAITaskAttributes attrs =
     list_ex (\<lambda>key. prefix ''crewai.task'' key \<and>
         (case get_str attrs ''traceloop.span.kind'' of
            Some kind \<Rightarrow> to_lower kind = ''task''
          | None \<Rightarrow> False)) (map fst attrs)"

definition last_segment :: "string \<Rightarrow> string" where
  "last_segment name = last (split_on (CHR ''.'') name)"

definition hasTaskAttributes :: "gmap \<Rightarrow> string \<Rightarrow> bool" where
  "hasTaskAttributes attrs spanName =
     (if (case get_str attrs ''traceloop.span.kind'' of
            Some kind \<Rightarrow> to_lower kind = ''task'' \<or> to_lower kind = ''workflow''
          | None \<Rightarrow> False) then True
      else if spanName \<noteq> [] \<and>
        (let lastPart = to_lower (last_segment spanName)
         in lastPart = ''task'' \<or> lastPart = ''workflow'') then True
      else get_str attrs ''workflow.name'' \<noteq> None)"

definition determineSpanTypeFromName :: "string \<Rightarrow> SpanType" where
  "determineSpanTypeFromName name =
     (if name = [] then SpanTypeUnknown
      else
        (let lastSegment = to_lower (last_segment name) in
         if lastSegment \<in> {''llm'', ''chat'', ''completion''} then SpanTypeLLM
         else if lastSegment \<in> {''embedding'', ''embed''} then SpanTypeEmbedding
         else if lastSegment \<in> {''tool'', ''function''} then SpanTypeTool
         else if lastSegment \<in> {''retriever'', ''retrieve'', ''retrieval''} then SpanTypeRetriever
         else if lastSegment \<in> {''rerank'', ''reranker''} then SpanTypeRerank
         else if lastSegment = ''agent'' then SpanTypeAgent
         else if lastSegment \<in> {''task'', ''workflow''} then SpanTypeChain
         else SpanTypeUnknown))"

section \<open>The kind of a span\<close>

text \<open>The cases of the switch on \<open>traceloop.span.kind\<close>; any other value falls through.\<close>

definition traceloop_kind :: "string \<Rightarrow> SpanType option" where
  "traceloop_kind k =
     (if k = ''llm'' then Some SpanTypeLLM
      else if k = ''embedding'' then Some SpanTypeEmbedding
      else if k = ''tool'' then Some SpanTypeTool
      else if k = ''retriever'' then Some SpanTypeRetriever
      else if k = ''rerank'' then Some SpanTypeRerank
      else if k = ''agent'' then Some SpanTypeAgent
      else if k = ''task'' \<or> k = ''workflow'' then Some SpanTypeChain
      else None)"

definition kind_from_attributes :: "gmap \<Rightarrow> string \<Rightarrow> SpanType" where
  "kind_from_attributes attrs name =
     (if hasEmbeddingAttributes attrs then SpanTypeEmbedding
      else if hasLLMAttributes attrs then SpanTypeLLM
      else if hasToolAttributes attrs then SpanTypeTool
      else if hasAgentAttributes attrs then SpanTypeAgent
      else if hasRetrieverAttributes attrs then SpanTypeRetriever
      else if hasRerankAttributes attrs then SpanTypeRerank
      else if hasTaskAttributes attrs name then SpanTypeChain
      else if determineSpanTypeFromName name \<noteq> SpanTypeUnknown
        then determineSpanTypeFromName name
      else SpanTypeUnknown)"

definition DetermineSpanType :: "Span \<Rightarrow> SpanType" where
  "DetermineSpanType sp =
     (case sp_Attributes sp of
        None \<Rightarrow> SpanTypeUnknown
      | Some attrs \<Rightarrow>
          if hasCrewAITaskAttributes attrs then SpanTypeCrewAITask
          else (case Option.bind (get_str attrs ''traceloop.span.kind'') traceloop_kind of
                  Some t \<Rightarrow> t
                | None \<Rightarrow> kind_from_attributes attrs (sp_Name sp)))"

definition IsCrewAISpan :: "gmap option \<Rightarrow> bool" where
  "IsCrewAISpan m =
     (case m of
        None \<Rightarrow> False
      | Some attrs \<Rightarrow>
          if (case get_str attrs ''gen_ai.system'' of
                Some val \<Rightarrow> to_lower val = ''crewai'' | None \<Rightarrow> False) then True
          else has_key_prefix attrs ''crewai.'')"

lemmas span_kind_defs [go_eval] =
  DetermineSpanType_def kind_from_attributes_def traceloop_kind_def determineSpanTypeFromName_def
  hasLLMAttributes_def hasEmbeddingAttributes_def hasToolAttributes_def hasRetrieverAttributes_def
  hasRerankAttributes_def hasAgentAttributes_def hasCrewAITaskAttributes_def hasTaskAttributes_def
  IsCrewAISpan_def has_key_def has_key_prefix_def str_in_def last_segment_def

section \<open>Properties\<close>

subsection \<open>The order of the attributes is irrelevant\<close>

lemma same_map_tests:
  assumes "same_map xs ys"
  shows "has_key xs k = has_key ys k" "has_key_prefix xs p = has_key_prefix ys p"
    "str_in xs k vs = str_in ys k vs"
  using same_map_of[OF assms] same_map_ex[OF assms] same_map_get[OF assms]
  by (simp_all add: has_key_def has_key_prefix_def str_in_def)

lemma same_map_classifiers:
  assumes "same_map xs ys"
  shows "hasLLMAttributes xs = hasLLMAttributes ys"
    "hasEmbeddingAttributes xs = hasEmbeddingAttributes ys"
    "hasToolAttributes xs = hasToolAttributes ys"
    "hasRetrieverAttributes xs = hasRetrieverAttributes ys"
    "hasRerankAttributes xs = hasRerankAttributes ys"
    "hasAgentAttributes xs = hasAgentAttributes ys"
    "hasCrewAITaskAttributes xs = hasCrewAITaskAttributes ys"
    "hasTaskAttributes xs n = hasTaskAttributes ys n"
    "IsCrewAISpan (Some xs) = IsCrewAISpan (Some ys)"
  using same_map_tests[OF assms] same_map_get[OF assms] same_map_of[OF assms]
    same_map_ex[OF assms]
  by (simp_all add: hasLLMAttributes_def hasEmbeddingAttributes_def hasToolAttributes_def
      hasRetrieverAttributes_def hasRerankAttributes_def hasAgentAttributes_def
      hasCrewAITaskAttributes_def hasTaskAttributes_def IsCrewAISpan_def)

lemma DetermineSpanType_same_map:
  assumes "same_map xs ys"
  shows "DetermineSpanType (s\<lparr>sp_Attributes := Some xs\<rparr>)
       = DetermineSpanType (s\<lparr>sp_Attributes := Some ys\<rparr>)"
  using same_map_classifiers[OF assms] same_map_get[OF assms]
  by (simp add: DetermineSpanType_def kind_from_attributes_def split: option.split)

subsection \<open>Precedence\<close>

lemma hasCrewAITask_iff:
  "hasCrewAITaskAttributes attrs \<longleftrightarrow>
     has_key_prefix attrs ''crewai.task'' \<and>
     (\<exists>k. get_str attrs ''traceloop.span.kind'' = Some k \<and> to_lower k = ''task'')"
  by (auto simp: hasCrewAITaskAttributes_def has_key_prefix_def list_ex_iff split: option.splits)

lemma explicit_kind_wins:
  assumes "sp_Attributes sp = Some attrs"
    and "get_str attrs ''traceloop.span.kind'' = Some k" and "traceloop_kind k = Some t"
    and "\<not> (has_key_prefix attrs ''crewai.task'' \<and> to_lower k = ''task'')"
  shows "DetermineSpanType sp = t"
  using assms by (auto simp: DetermineSpanType_def hasCrewAITask_iff)

lemma DetermineSpanType_frame:
  "DetermineSpanType (s\<lparr>sp_AmpAttributes := a\<rparr>) = DetermineSpanType s"
  by (simp add: DetermineSpanType_def split: option.split)

end
