(* ===== verification/SpanStatus.thy ===== *)
theory SpanStatus
  imports SpanKind
begin

text \<open>
  Error status and token usage (\<open>extractSpanStatus\<close>, \<open>extractIntValue\<close>, \<open>ExtractTokenUsage\<close>,
  \<open>ExtractTokenUsageFromEntityOutput\<close>, \<open>ExtractTraceStatus\<close> in \<open>process.go\<close>;
  \<open>parseCrewAITokenUsage\<close>, \<open>ExtractCrewAITraceTokenUsage\<close> in \<open>crewai_process.go\<close>).
  Token counts are Go \<open>int\<close>s: their additions wrap at 64 bits.
\<close>

section \<open>Error status\<close>

definition isErrorStatus :: "string \<Rightarrow> bool" where
  "isErrorStatus status \<longleftrightarrow> to_lower status \<in> {''error'', ''failed'', ''2''}"

definition extractSpanStatus :: "gmap option \<Rightarrow> string \<Rightarrow> SpanStatus" where
  "extractSpanStatus m spanStatus =
     (let fallback = \<lparr>ss_Error = isErrorStatus spanStatus, ss_ErrorType = []\<rparr> in
      case m of
        None \<Rightarrow> fallback
      | Some attrs \<Rightarrow>
          (case get_str attrs ''error.type'' of
             Some errorType \<Rightarrow> \<lparr>ss_Error = True, ss_ErrorType = errorType\<rparr>
           | None \<Rightarrow>
               if (case get_str attrs ''gen_ai.tool.status'' of
                     Some toolStatus \<Rightarrow> isErrorStatus toolStatus | None \<Rightarrow> False)
               then \<lparr>ss_Error = True, ss_ErrorType = ''ToolExecutionError''\<rparr>
               else (case get_f64 attrs ''http.status_code'' of
                       Some httpStatus \<Rightarrow>
                         if f64_to_int httpStatus \<ge> 400
                         then \<lparr>ss_Error = True, ss_ErrorType = show_int (f64_to_int httpStatus)\<rparr>
                         else fallback
                     | None \<Rightarrow> fallback)))"

definition ExtractTraceStatus :: "Span list \<Rightarrow> TraceStatus" where
  "ExtractTraceStatus spans =
     \<lparr>ts_ErrorCount = fold (\<lambda>sp errorCount.
         if ss_Error (extractSpanStatus (sp_Attributes sp) (sp_Status sp))
         then wrap64 (errorCount + 1) else errorCount) spans 0\<rparr>"

section \<open>Numbers from attribute values\<close>

text \<open>The second component of the Go result is \<open>None\<close>; the code then sees the value 0.\<close>

fun extractIntValue :: "gval \<Rightarrow> int option" where
  "extractIntValue (VInt v) = Some v"
| "extractIntValue (VInt64 v) = Some v"
| "extractIntValue (VF64 v) = Some (f64_to_int v)"
| "extractIntValue (VStr v) = sscanf_d v"
| "extractIntValue _ = None"

fun extractFloatValue :: "go_lib \<Rightarrow> gval \<Rightarrow> f64 option" where
  "extractFloatValue lib (VF64 v) = Some v"
| "extractFloatValue lib (VF32 v) = Some v"
| "extractFloatValue lib (VInt v) = map_option Fin (round_f64 (of_int v))"
| "extractFloatValue lib (VInt64 v) = map_option Fin (round_f64 (of_int v))"
| "extractFloatValue lib (VStr v) = lib_scan_float lib v"
| "extractFloatValue lib _ = None"

definition int_or_0 :: "int option \<Rightarrow> int" where
  "int_or_0 x = (case x of None \<Rightarrow> 0 | Some v \<Rightarrow> v)"

lemma int_or_0_simps [simp]: "int_or_0 None = 0" "int_or_0 (Some v) = v"
  by (simp_all add: int_or_0_def)

section \<open>Token usage of one span\<close>

definition first_present :: "gmap \<Rightarrow> string list \<Rightarrow> gval" where
  "first_present attrs ks =
     (case find (\<lambda>k. has_key attrs k) ks of None \<Rightarrow> VNull | Some k \<Rightarrow> get_val attrs k)"

definition extractTokenUsageFromAttributes :: "gmap \<Rightarrow> LLMTokenUsage option" where
  "extractTokenUsageFromAttributes attrs =
     (let inputRaw = first_present attrs
            [''gen_ai.usage.input_tokens'', ''gen_ai.usage.prompt_tokens''];
          outputRaw = first_present attrs
            [''gen_ai.usage.output_tokens'', ''gen_ai.usage.completion_tokens''];
          cacheRaw = first_present attrs [''gen_ai.usage.cache_read_input_tokens''];
          inputTokens = int_or_0 (extractIntValue inputRaw);
          outputTokens = int_or_0 (extractIntValue outputRaw);
          cacheReadTokens = int_or_0 (extractIntValue cacheRaw)
      in if (extractIntValue inputRaw \<noteq> None \<and> inputTokens > 0)
            \<or> (extractIntValue outputRaw \<noteq> None \<and> outputTokens > 0)
         then Some \<lparr>ltu_InputTokens = inputTokens, ltu_OutputTokens = outputTokens,
                ltu_CacheReadInputTokens =
                  (if extractIntValue cacheRaw \<noteq> None \<and> cacheReadTokens > 0
                   then cacheReadTokens else 0),
                ltu_TotalTokens = wrap64 (inputTokens + outputTokens)\<rparr>
         else None)"

section \<open>Token usage of a trace\<close>

definition add_usage :: "Span \<Rightarrow> int \<times> int \<Rightarrow> int \<times> int" where
  "add_usage sp acc =
     (case Option.bind (sp_Attributes sp) extractTokenUsageFromAttributes of
        None \<Rightarrow> acc
      | Some u \<Rightarrow> (wrap64 (fst acc + ltu_InputTokens u), wrap64 (snd acc + ltu_OutputTokens u)))"

definition ExtractTokenUsage :: "Span list \<Rightarrow> TokenUsage option" where
  "ExtractTokenUsage spans =
     (let (inputTokens, outputTokens) = fold add_usage spans (0, 0)
      in if inputTokens > 0 \<or> outputTokens > 0
         then Some \<lparr>tu_InputTokens = inputTokens, tu_OutputTokens = outputTokens,
                tu_TotalTokens = wrap64 (inputTokens + outputTokens)\<rparr>
         else None)"

text \<open>
  The nested path \<open>outputs.messages[-1].kwargs\<close> of the decoded entity output, then
  \<open>response_metadata.token_usage\<close>, and \<open>usage_metadata\<close> when that gave no count. A decoded
  \<open>total_tokens\<close> of 0 is replaced by the sum.
\<close>

definition read_counts :: "gmap \<Rightarrow> string \<Rightarrow> string \<Rightarrow> int \<times> int \<times> int \<times> bool" where
  "read_counts m inKey outKey =
     (let i = extractIntValue (get_val m inKey); j = extractIntValue (get_val m outKey);
          t = extractIntValue (get_val m ''total_tokens'')
      in (int_or_0 i, int_or_0 j, int_or_0 t, i \<noteq> None \<or> j \<noteq> None))"

definition entity_output_kwargs :: "Span \<Rightarrow> gmap option" where
  "entity_output_kwargs rootSpan = do {
     attrs \<leftarrow> sp_Attributes rootSpan;
     outputStr \<leftarrow> get_str attrs ''traceloop.entity.output'';
     outputMap \<leftarrow> (if outputStr = [] then None else unmarshal_map outputStr);
     outputs \<leftarrow> get_obj outputMap ''outputs'';
     messages \<leftarrow> get_arr outputs ''messages'';
     lastMsg \<leftarrow> (if messages = [] then None else as_obj (last messages));
     get_obj lastMsg ''kwargs''
   }"

definition response_usage :: "gmap \<Rightarrow> int \<times> int \<times> int \<times> bool" where
  "response_usage kwargs =
     (case Option.bind (get_obj kwargs ''response_metadata'') (\<lambda>m. get_obj m ''token_usage'') of
        Some tokenUsage \<Rightarrow> read_counts tokenUsage ''prompt_tokens'' ''completion_tokens''
      | None \<Rightarrow> (0, 0, 0, False))"

definition metadata_usage :: "gmap \<Rightarrow> int \<Rightarrow> int \<times> int \<times> int \<times> bool" where
  "metadata_usage kwargs tot =
     (case get_obj kwargs ''usage_metadata'' of
        Some usageMeta \<Rightarrow>
          (let (i, j, t, found) = read_counts usageMeta ''input_tokens'' ''output_tokens''
           in (i, j, if extractIntValue (get_val usageMeta ''total_tokens'') = None then tot else t,
               found))
      | None \<Rightarrow> (0, 0, tot, False))"

definition ExtractTokenUsageFromEntityOutput :: "Span \<Rightarrow> TokenUsage option" where
  "ExtractTokenUsageFromEntityOutput rootSpan =
     (case entity_output_kwargs rootSpan of
        None \<Rightarrow> None
      | Some kwargs \<Rightarrow>
          (let (i, j, t, found) = response_usage kwargs;
               (i, j, t, found) = (if found then (i, j, t, found) else metadata_usage kwargs t)
           in if \<not> found then None
              else Some \<lparr>tu_InputTokens = i, tu_OutputTokens = j,
                     tu_TotalTokens = (if t = 0 then wrap64 (i + j) else t)\<rparr>))"

section \<open>CrewAI token usage\<close>

text \<open>
  \<open>strings.SplitN(pair, "=", 2)\<close> with two parts is a split at the first equals sign. A pair
  without one, or with a value that is no number, is skipped; a later pair overwrites.
\<close>

definition crewai_pair :: "string \<Rightarrow> (string \<times> int) option" where
  "crewai_pair pair = do {
     i \<leftarrow> index_of (CHR ''='') pair;
     numValue \<leftarrow> sscanf_d (drop (Suc i) pair);
     Some (take i pair, numValue)
   }"

definition crewai_set :: "string \<times> int \<Rightarrow> LLMTokenUsage \<Rightarrow> LLMTokenUsage" where
  "crewai_set kv u =
     (if fst kv = ''total_tokens'' then u\<lparr>ltu_TotalTokens := snd kv\<rparr>
      else if fst kv = ''prompt_tokens'' then u\<lparr>ltu_InputTokens := snd kv\<rparr>
      else if fst kv = ''completion_tokens'' then u\<lparr>ltu_OutputTokens := snd kv\<rparr>
      else if fst kv = ''cached_prompt_tokens'' then u\<lparr>ltu_CacheReadInputTokens := snd kv\<rparr>
      else u)"

definition parseCrewAITokenUsage :: "string \<Rightarrow> LLMTokenUsage option" where
  "parseCrewAITokenUsage tokenUsageStr =
     (if tokenUsageStr = [] then None
      else
        (let usage = fold (\<lambda>pair u. case crewai_pair pair of None \<Rightarrow> u | Some kv \<Rightarrow> crewai_set kv u)
               (str_fields tokenUsageStr)
               \<lparr>ltu_InputTokens = 0, ltu_OutputTokens = 0, ltu_CacheReadInputTokens = 0,
                ltu_TotalTokens = 0\<rparr>
         in if ltu_TotalTokens usage > 0 \<or> ltu_InputTokens usage > 0 \<or> ltu_OutputTokens usage > 0
            then Some usage else None))"

definition ExtractCrewAITraceTokenUsage :: "Span \<Rightarrow> TokenUsage option" where
  "ExtractCrewAITraceTokenUsage sp = do {
     attrs \<leftarrow> sp_Attributes sp;
     s \<leftarrow> get_str attrs ''crewai.crew.token_usage'';
     u \<leftarrow> (if s = [] then None else parseCrewAITokenUsage s);
     Some \<lparr>tu_InputTokens = ltu_InputTokens u, tu_OutputTokens = ltu_OutputTokens u,
           tu_TotalTokens = ltu_TotalTokens u\<rparr>
   }"

section \<open>Properties\<close>

lemma ExtractTraceStatus_acc:
  assumes "0 \<le> n" and "n + int (length spans) \<le> max_int64"
  shows "fold (\<lambda>sp c. if P sp then wrap64 (c + 1) else c) spans n = n + int (length (filter P spans))"
  using assms
proof (induction spans arbitrary: n)
  case Nil
  then show ?case by simp
next
  case (Cons sp spans)
  then have "wrap64 (n + 1) = n + 1"
    by (intro wrap64_id in_int64_nonneg) auto
  with Cons show ?case by simp
qed

lemma usage_values:
  assumes "extractTokenUsageFromAttributes attrs = Some u"
  shows "ltu_InputTokens u > 0 \<or> ltu_OutputTokens u > 0"
    and "ltu_TotalTokens u = wrap64 (ltu_InputTokens u + ltu_OutputTokens u)"
    and "ltu_CacheReadInputTokens u \<ge> 0"
  using assms by (auto simp: extractTokenUsageFromAttributes_def Let_def split: if_splits)

text \<open>The token counts that one span contributes, (0, 0) when it reports none.\<close>

definition span_tokens :: "Span \<Rightarrow> int \<times> int" where
  "span_tokens sp =
     (case Option.bind (sp_Attributes sp) extractTokenUsageFromAttributes of
        None \<Rightarrow> (0, 0)
      | Some u \<Rightarrow> (ltu_InputTokens u, ltu_OutputTokens u))"

lemma add_usage_eq:
  "add_usage sp (i, j) =
     (if Option.bind (sp_Attributes sp) extractTokenUsageFromAttributes = None then (i, j)
      else (wrap64 (i + fst (span_tokens sp)), wrap64 (j + snd (span_tokens sp))))"
  by (simp add: add_usage_def span_tokens_def split: option.splits)

lemma fold_add_usage:
  assumes "in_int64 i" "in_int64 j"
  shows "fold add_usage spans (i, j)
       = (wrap64 (i + sum_list (map (fst \<circ> span_tokens) spans)),
          wrap64 (j + sum_list (map (snd \<circ> span_tokens) spans)))"
  using assms
proof (induction spans arbitrary: i j)
  case Nil
  then show ?case by (simp add: wrap64_id)
next
  case (Cons sp spans)
  show ?case
  proof (cases "Option.bind (sp_Attributes sp) extractTokenUsageFromAttributes")
    case None
    then have "add_usage sp (i, j) = (i, j)" "span_tokens sp = (0, 0)"
      by (simp_all add: add_usage_eq span_tokens_def)
    with Cons show ?thesis by simp
  next
    case (Some u)
    then have "add_usage sp (i, j)
        = (wrap64 (i + fst (span_tokens sp)), wrap64 (j + snd (span_tokens sp)))"
      by (simp add: add_usage_eq)
    with Cons.IH[OF wrap64_range wrap64_range] show ?thesis
      by (simp add: wrap64_wrap_left add.assoc)
  qed
qed

lemma first_present_same_map: "same_map xs ys \<Longrightarrow> first_present xs ks = first_present ys ks"
  by (simp add: first_present_def same_map_tests(1) same_map_get(5) split: option.split)

lemma span_tokens_same_map:
  assumes "same_map xs ys"
  shows "extractTokenUsageFromAttributes xs = extractTokenUsageFromAttributes ys"
  unfolding extractTokenUsageFromAttributes_def first_present_same_map[OF assms] ..

lemma status_same_map:
  "same_map xs ys \<Longrightarrow> extractSpanStatus (Some xs) st = extractSpanStatus (Some ys) st"
  by (simp add: extractSpanStatus_def Let_def same_map_get cong: option.case_cong)

end
