(* ===== verification/SpanMessages.thy ===== *)
theory SpanMessages
  imports SpanStatus
begin

text \<open>
  Messages, tool definitions and documents of a span (\<open>process.go\<close>): the OTEL formats, which are
  JSON texts, and the Traceloop formats, which spread a message over attributes whose keys hold
  its index. The Traceloop loops run over a Go map, so in an order of the run-time's choice; the
  model's loop folds a step over the entries in the order of the list.

  The maps the loops fill are partial functions on the index. A panic of \<open>make\<close> is \<open>None\<close>.
\<close>

section \<open>JSON texts of tools\<close>

text \<open>
  Decoding a JSON object into \<open>ToolDefinition\<close>: a key matches a field exactly or up to case
  (\<open>foldName\<close> also identifies the long s, U+017F, with s and the Kelvin sign with k), \<open>null\<close> leaves
  the field, another type than a string is an error.
\<close>

fun fold_name :: "string \<Rightarrow> string" where
  "fold_name [] = []"
| "fold_name (a # s) =
     (if a = CHR 0xC5 \<and> take 1 s = [CHR 0xBF] then CHR ''s'' # fold_name (drop 1 s)
      else if a = CHR 0xE2 \<and> take 2 s = [CHR 0x84, CHR 0xAA] then CHR ''k'' # fold_name (drop 2 s)
      else lower_char a # fold_name s)"

definition set_tool_field :: "string \<Rightarrow> json \<Rightarrow> ToolDefinition \<Rightarrow> ToolDefinition option" where
  "set_tool_field k v t =
     (let f = fold_name k in
      if f = ''name'' \<or> f = ''description'' \<or> f = ''parameters'' then
        (case v of
           JNull \<Rightarrow> Some t
         | JStr s \<Rightarrow>
             Some (if f = ''name'' then t\<lparr>td_Name := s\<rparr>
                   else if f = ''description'' then t\<lparr>td_Description := s\<rparr>
                   else t\<lparr>td_Parameters := s\<rparr>)
         | _ \<Rightarrow> None)
      else Some t)"

fun decode_tool :: "json \<Rightarrow> ToolDefinition option" where
  "decode_tool JNull = Some zero_tool_def"
| "decode_tool (JObj ms) =
     fold (\<lambda>(k, v) acc. Option.bind acc (set_tool_field k v)) ms (Some zero_tool_def)"
| "decode_tool _ = None"

definition unmarshal_tool_list :: "string \<Rightarrow> ToolDefinition list option" where
  "unmarshal_tool_list s =
     (case json_parse s of
        Some JNull \<Rightarrow> Some []
      | Some (JArr xs) \<Rightarrow> seq_options (map decode_tool xs)
      | _ \<Rightarrow> None)"

definition name_only :: "string \<Rightarrow> ToolDefinition" where
  "name_only n = zero_tool_def\<lparr>td_Name := n\<rparr>"

definition parseToolsJSON :: "string \<Rightarrow> ToolDefinition list" where
  "parseToolsJSON toolsJSON =
     (if toolsJSON = [] then []
      else
        (case unmarshal_tool_list toolsJSON of
           Some (t # ts) \<Rightarrow> t # ts
         | _ \<Rightarrow>
             (case unmarshal_string_list toolsJSON of
                Some toolNames \<Rightarrow> map name_only toolNames
              | None \<Rightarrow> [name_only toolsJSON])))"

definition extractAgentTools :: "gmap \<Rightarrow> ToolDefinition list" where
  "extractAgentTools attrs =
     (case get_str attrs ''gen_ai.agent.tools'' of
        None \<Rightarrow> []
      | Some toolsJSON \<Rightarrow> if toolsJSON = [] then [] else parseToolsJSON toolsJSON)"

text \<open>\<open>json.Marshal\<close> failing leaves the field empty.\<close>

definition text_or_json :: "gval \<Rightarrow> string" where
  "text_or_json v =
     (case as_str v of
        Some s \<Rightarrow> s
      | None \<Rightarrow> (case marshal v of Some b \<Rightarrow> b | None \<Rightarrow> []))"

definition otel_tool :: "gmap \<Rightarrow> ToolDefinition" where
  "otel_tool rawTool =
     \<lparr>td_Name = (case get_str rawTool ''name'' of Some n \<Rightarrow> n | None \<Rightarrow> []),
      td_Description = (case get_str rawTool ''description'' of Some d \<Rightarrow> d | None \<Rightarrow> []),
      td_Parameters = (case map_of rawTool ''parameters'' of
          Some params \<Rightarrow> text_or_json params | None \<Rightarrow> [])\<rparr>"

definition parseOTELToolDefinitions :: "string \<Rightarrow> ToolDefinition list" where
  "parseOTELToolDefinitions toolsJSON =
     (if toolsJSON = [] then []
      else
        (case unmarshal_map_list toolsJSON of
           None \<Rightarrow> []
         | Some rawTools \<Rightarrow> filter (\<lambda>t. td_Name t \<noteq> []) (map otel_tool rawTools)))"

section \<open>JSON texts of messages\<close>

text \<open>
  \<open>RecursiveJSONParser\<close>: a JSON string whose trimmed content starts like an object or an array is
  parsed again, at most \<open>maxDepth\<close> times; \<open>None\<close> is the error.
\<close>

fun RecursiveJSONParser :: "string \<Rightarrow> nat \<Rightarrow> gval option" where
  "RecursiveJSONParser jsonString 0 = None"
| "RecursiveJSONParser jsonString (Suc maxDepth) =
     (case unmarshal_any jsonString of
        None \<Rightarrow> None
      | Some (VStr str) \<Rightarrow>
          (let trimmed = trim_space str in
           if trimmed \<noteq> [] \<and> (hd trimmed = CHR 0x7B \<or> hd trimmed = CHR 0x5B)
           then RecursiveJSONParser str maxDepth else Some (VStr str))
      | Some v \<Rightarrow> Some v)"

definition otel_tool_call :: "gmap \<Rightarrow> ToolCall" where
  "otel_tool_call tcMap =
     \<lparr>tc_ID = (case get_str tcMap ''id'' of Some i \<Rightarrow> i | None \<Rightarrow> []),
      tc_Name = (case get_str tcMap ''name'' of Some n \<Rightarrow> n | None \<Rightarrow> []),
      tc_Arguments = (case map_of tcMap ''arguments'' of
          None \<Rightarrow> []
        | Some VNull \<Rightarrow> []
        | Some args \<Rightarrow> text_or_json args)\<rparr>"

definition parseOTELMessage :: "gmap \<Rightarrow> PromptMessage" where
  "parseOTELMessage rawMsg =
     \<lparr>pm_Role = (case get_str rawMsg ''role'' of Some r \<Rightarrow> r | None \<Rightarrow> []),
      pm_Content = (case get_str rawMsg ''content'' of Some c \<Rightarrow> c | None \<Rightarrow> []),
      pm_ToolCalls = (case get_arr rawMsg ''toolCalls'' of
          Some raws \<Rightarrow> map otel_tool_call (List.map_filter as_obj raws)
        | None \<Rightarrow> [])\<rparr>"

definition parseOTELMessages :: "string \<Rightarrow> PromptMessage list" where
  "parseOTELMessages jsonString =
     (case RecursiveJSONParser jsonString 10 of
        Some (VArr v) \<Rightarrow> map parseOTELMessage (List.map_filter as_obj v)
      | Some (VObj v) \<Rightarrow> [parseOTELMessage v]
      | _ \<Rightarrow> [])"

section \<open>Traceloop messages\<close>

text \<open>
  What one attribute says: the message it belongs to and the part of it that it sets. \<open>PartOther\<close>
  is an attribute that only makes the message exist (an unknown field, or a value of the wrong
  type), \<open>CallOther\<close> the same for a tool call.
\<close>

datatype call_part = CallId string | CallName string | CallArguments string | CallOther

datatype msg_part =
    PartRole string
  | PartContent string
  | PartCall int call_part
  | PartOther

definition call_part_of :: "string \<Rightarrow> gval \<Rightarrow> call_part" where
  "call_part_of toolField value =
     (case as_str value of
        None \<Rightarrow> CallOther
      | Some s \<Rightarrow>
          if toolField = ''id'' then CallId s
          else if toolField = ''name'' then CallName s
          else if toolField = ''arguments'' then CallArguments s
          else CallOther)"

definition empty_quotes :: string where
  "empty_quotes = [CHR 0x22, CHR 0x22]"

definition msg_part_of :: "string list \<Rightarrow> gval \<Rightarrow> msg_part" where
  "msg_part_of parts value =
     (let fieldName = parts ! 3 in
      if fieldName = ''role'' then
        (case as_str value of Some role \<Rightarrow> PartRole role | None \<Rightarrow> PartOther)
      else if fieldName = ''content'' then
        (case as_str value of
           Some content \<Rightarrow>
             if content \<noteq> [] \<and> content \<noteq> empty_quotes then PartContent content else PartOther
         | None \<Rightarrow> PartOther)
      else if fieldName = ''tool_calls'' \<and> length parts \<ge> 6 then
        (case sscanf_d (parts ! 4) of
           Some toolIndex \<Rightarrow> PartCall toolIndex (call_part_of (parts ! 5) value)
         | None \<Rightarrow> PartOther)
      else PartOther)"

definition msg_entry :: "string \<Rightarrow> string \<times> gval \<Rightarrow> (int \<times> msg_part) option" where
  "msg_entry pre kv =
     (if prefix pre (fst kv) then
        (let parts = split_on (CHR ''.'') (fst kv) in
         if length parts \<ge> 4 then
           map_option (\<lambda>msgIndex. (msgIndex, msg_part_of parts (snd kv))) (sscanf_d (parts ! 2))
         else None)
      else None)"

text \<open>
  The maps of the loop. \<open>ct_max\<close> is the greatest key of a tool-call map (\<open>-1\<close> when it is empty),
  which the source computes by a loop over the keys; \<open>ms_called\<close> is the key set of \<open>toolCallsMap\<close>.
\<close>

record call_table =
  ct_at :: "int \<Rightarrow> ToolCall option"
  ct_max :: int

record msg_state =
  ms_at :: "int \<Rightarrow> PromptMessage option"
  ms_calls :: "int \<Rightarrow> call_table"
  ms_called :: "int set"
  ms_max :: int

definition init_msg_state :: msg_state where
  "init_msg_state =
     \<lparr>ms_at = (\<lambda>_. None), ms_calls = (\<lambda>_. \<lparr>ct_at = (\<lambda>_. None), ct_max = -1\<rparr>),
      ms_called = {}, ms_max = -1\<rparr>"

definition call_or_new :: "ToolCall option \<Rightarrow> ToolCall" where
  "call_or_new c = (case c of None \<Rightarrow> zero_tool_call | Some t \<Rightarrow> t)"

definition msg_or_new :: "PromptMessage option \<Rightarrow> PromptMessage" where
  "msg_or_new m = (case m of None \<Rightarrow> zero_message | Some t \<Rightarrow> t)"

fun set_call_part :: "call_part \<Rightarrow> ToolCall \<Rightarrow> ToolCall" where
  "set_call_part (CallId s) t = t\<lparr>tc_ID := s\<rparr>"
| "set_call_part (CallName s) t = t\<lparr>tc_Name := s\<rparr>"
| "set_call_part (CallArguments s) t = t\<lparr>tc_Arguments := s\<rparr>"
| "set_call_part CallOther t = t"

definition put_call :: "int \<Rightarrow> call_part \<Rightarrow> call_table \<Rightarrow> call_table" where
  "put_call j p ct =
     \<lparr>ct_at = (ct_at ct)(j \<mapsto> set_call_part p (call_or_new (ct_at ct j))),
      ct_max = max (ct_max ct) j\<rparr>"

fun set_msg_part :: "msg_part \<Rightarrow> PromptMessage \<Rightarrow> PromptMessage" where
  "set_msg_part (PartRole s) m = m\<lparr>pm_Role := s\<rparr>"
| "set_msg_part (PartContent s) m = m\<lparr>pm_Content := s\<rparr>"
| "set_msg_part _ m = m"

definition put_calls :: "int \<Rightarrow> msg_part \<Rightarrow> (int \<Rightarrow> call_table) \<Rightarrow> (int \<Rightarrow> call_table)" where
  "put_calls i p cs = (case p of PartCall j c \<Rightarrow> cs(i := put_call j c (cs i)) | _ \<Rightarrow> cs)"

definition put_part :: "int \<Rightarrow> msg_part \<Rightarrow> msg_state \<Rightarrow> msg_state" where
  "put_part i p st =
     \<lparr>ms_at = (ms_at st)(i \<mapsto> set_msg_part p (msg_or_new (ms_at st i))),
      ms_calls = put_calls i p (ms_calls st),
      ms_called = (case p of PartCall j c \<Rightarrow> insert i (ms_called st) | _ \<Rightarrow> ms_called st),
      ms_max = max (ms_max st) i\<rparr>"

definition msg_step :: "string \<Rightarrow> string \<times> gval \<Rightarrow> msg_state \<Rightarrow> msg_state" where
  "msg_step pre kv st =
     (case msg_entry pre kv of None \<Rightarrow> st | Some (i, p) \<Rightarrow> put_part i p st)"

text \<open>A map from indices read out in ascending order, from 0 to the greatest.\<close>

definition in_order :: "(int \<Rightarrow> 'a option) \<Rightarrow> ('a \<Rightarrow> bool) \<Rightarrow> int \<Rightarrow> 'a list" where
  "in_order f keep m = filter keep (List.map_filter f [0..m])"

definition call_slice :: "call_table \<Rightarrow> ToolCall list option" where
  "call_slice ct =
     (if ct_max ct \<ge> 0 then do {
        makeslice 48 (wrap64 (ct_max ct + 1));
        Some (in_order (ct_at ct) (\<lambda>tc. tc_Name tc \<noteq> []) (ct_max ct))
      } else Some [])"

definition attach_calls :: "msg_state \<Rightarrow> int \<Rightarrow> PromptMessage option" where
  "attach_calls st i =
     map_option (\<lambda>m. if i \<in> ms_called st
         then m\<lparr>pm_ToolCalls := (case call_slice (ms_calls st i) of Some cs \<Rightarrow> cs | None \<Rightarrow> [])\<rparr>
         else m) (ms_at st i)"

definition finish_messages :: "msg_state \<Rightarrow> PromptMessage list option" where
  "finish_messages st =
     (if \<exists>i \<in> ms_called st. call_slice (ms_calls st i) = None then None
      else if ms_max st < 0 then Some []
      else do {
        makeslice 56 (wrap64 (ms_max st + 1));
        Some (in_order (attach_calls st) (\<lambda>m. pm_Role m \<noteq> []) (ms_max st))
      })"

definition traceloop_messages :: "string \<Rightarrow> gmap \<Rightarrow> PromptMessage list option" where
  "traceloop_messages pre attrs = finish_messages (fold (msg_step pre) attrs init_msg_state)"

definition extractTraceloopPromptMessages :: "gmap \<Rightarrow> PromptMessage list option" where
  "extractTraceloopPromptMessages attrs = traceloop_messages ''gen_ai.prompt.'' attrs"

definition extractTraceloopCompletionMessages :: "gmap \<Rightarrow> PromptMessage list option" where
  "extractTraceloopCompletionMessages attrs = traceloop_messages ''gen_ai.completion.'' attrs"

definition otel_or :: "string option \<Rightarrow> PromptMessage list option \<Rightarrow> PromptMessage list option" where
  "otel_or messagesJSON fallback =
     (case messagesJSON of
        None \<Rightarrow> fallback
      | Some s \<Rightarrow> if s \<noteq> [] \<and> parseOTELMessages s \<noteq> [] then Some (parseOTELMessages s) else fallback)"

definition ExtractPromptMessages :: "gmap \<Rightarrow> PromptMessage list option" where
  "ExtractPromptMessages attrs =
     otel_or (get_str attrs ''gen_ai.input.messages'') (extractTraceloopPromptMessages attrs)"

definition ExtractCompletionMessages :: "gmap \<Rightarrow> PromptMessage list option" where
  "ExtractCompletionMessages attrs =
     otel_or (get_str attrs ''gen_ai.output.messages'') (extractTraceloopCompletionMessages attrs)"

section \<open>Traceloop tool definitions\<close>

datatype tool_part = ToolName string | ToolDescription string | ToolParameters string | ToolOther

fun set_tool_part :: "tool_part \<Rightarrow> ToolDefinition \<Rightarrow> ToolDefinition" where
  "set_tool_part (ToolName s) t = t\<lparr>td_Name := s\<rparr>"
| "set_tool_part (ToolDescription s) t = t\<lparr>td_Description := s\<rparr>"
| "set_tool_part (ToolParameters s) t = t\<lparr>td_Parameters := s\<rparr>"
| "set_tool_part ToolOther t = t"

definition tool_entry :: "string \<times> gval \<Rightarrow> (int \<times> tool_part) option" where
  "tool_entry kv =
     (if prefix ''llm.request.functions.'' (fst kv) then
        (let parts = split_on (CHR ''.'') (fst kv) in
         if length parts \<ge> 5 then
           map_option (\<lambda>index. (index,
               case as_str (snd kv) of
                 None \<Rightarrow> ToolOther
               | Some s \<Rightarrow>
                   if parts ! 4 = ''name'' then ToolName s
                   else if parts ! 4 = ''description'' then ToolDescription s
                   else if parts ! 4 = ''parameters'' then ToolParameters s
                   else ToolOther)) (sscanf_d (parts ! 3))
         else None)
      else None)"

record tool_state =
  ts_at :: "int \<Rightarrow> ToolDefinition option"
  ts_max :: int

definition tool_step :: "string \<times> gval \<Rightarrow> tool_state \<Rightarrow> tool_state" where
  "tool_step kv st =
     (case tool_entry kv of
        None \<Rightarrow> st
      | Some (i, p) \<Rightarrow>
          \<lparr>ts_at = (ts_at st)(i \<mapsto> set_tool_part p
               (case ts_at st i of None \<Rightarrow> zero_tool_def | Some t \<Rightarrow> t)),
           ts_max = max (ts_max st) i\<rparr>)"

definition extractTraceloopToolDefinitions :: "gmap \<Rightarrow> ToolDefinition list option" where
  "extractTraceloopToolDefinitions attrs =
     (let st = fold tool_step attrs \<lparr>ts_at = (\<lambda>_. None), ts_max = -1\<rparr> in
      if ts_max st < 0 then Some []
      else do {
        makeslice 48 (wrap64 (ts_max st + 1));
        Some (in_order (ts_at st) (\<lambda>t. td_Name t \<noteq> []) (ts_max st))
      })"

definition ExtractToolDefinitions :: "gmap \<Rightarrow> ToolDefinition list option" where
  "ExtractToolDefinitions attrs =
     (let nonempty = (\<lambda>k. case get_str attrs k of Some t \<Rightarrow> t | None \<Rightarrow> []);
          toolsJSON = (if nonempty ''gen_ai.input.tools'' \<noteq> [] then nonempty ''gen_ai.input.tools''
                       else nonempty ''gen_ai.tool.definitions'')
      in if toolsJSON \<noteq> [] \<and> parseOTELToolDefinitions toolsJSON \<noteq> []
         then Some (parseOTELToolDefinitions toolsJSON)
         else extractTraceloopToolDefinitions attrs)"

section \<open>Embedding documents\<close>

definition doc_entry :: "string \<times> gval \<Rightarrow> (int \<times> string) option" where
  "doc_entry kv =
     (if prefix ''gen_ai.prompt.'' (fst kv) \<and> suffix ''.content'' (fst kv) then
        (let parts = split_on (CHR ''.'') (fst kv); content = sprint (snd kv) in
         if length parts = 4 \<and> content \<noteq> []
         then map_option (\<lambda>index. (index, content)) (sscanf_d (parts ! 2)) else None)
      else None)"

record doc_state =
  ds_at :: "int \<Rightarrow> string option"
  ds_max :: int

definition doc_step :: "string \<times> gval \<Rightarrow> doc_state \<Rightarrow> doc_state" where
  "doc_step kv st =
     (case doc_entry kv of
        None \<Rightarrow> st
      | Some (i, content) \<Rightarrow>
          \<lparr>ds_at = (ds_at st)(i \<mapsto> content), ds_max = max (ds_max st) i\<rparr>)"

definition ExtractEmbeddingDocuments :: "gmap \<Rightarrow> string list option" where
  "ExtractEmbeddingDocuments attrs =
     (let st = fold doc_step attrs \<lparr>ds_at = (\<lambda>_. None), ds_max = -1\<rparr> in
      if ds_max st < 0 then Some []
      else do {
        makeslice 16 (wrap64 (ds_max st + 1));
        Some (in_order (ds_at st) (\<lambda>_. True) (ds_max st))
      })"

section \<open>The order of the attributes\<close>

text \<open>
  The part of the result that an entry determines: its slot. Two entries whose slots differ
  commute, so without collisions of slots the loops do not depend on the iteration order. Slots
  collide when two keys spell the same index differently, as in \<open>gen_ai.prompt.1.role\<close> and
  \<open>gen_ai.prompt.01.role\<close>, or when a key goes on after its field.
\<close>

datatype slot = SlotRole | SlotContent | SlotCallId int | SlotCallName int | SlotCallArguments int

fun part_slot :: "msg_part \<Rightarrow> slot option" where
  "part_slot (PartRole s) = Some SlotRole"
| "part_slot (PartContent s) = Some SlotContent"
| "part_slot (PartCall j (CallId s)) = Some (SlotCallId j)"
| "part_slot (PartCall j (CallName s)) = Some (SlotCallName j)"
| "part_slot (PartCall j (CallArguments s)) = Some (SlotCallArguments j)"
| "part_slot (PartCall j CallOther) = None"
| "part_slot PartOther = None"

definition entry_slot :: "string \<Rightarrow> string \<times> gval \<Rightarrow> (int \<times> slot) option" where
  "entry_slot pre kv =
     Option.bind (msg_entry pre kv) (\<lambda>(i, p). map_option (Pair i) (part_slot p))"

definition slots_apart :: "(string \<times> gval \<Rightarrow> 'b option) \<Rightarrow> string \<times> gval \<Rightarrow> string \<times> gval \<Rightarrow> bool" where
  "slots_apart slot x y \<longleftrightarrow> slot x = None \<or> slot y = None \<or> slot x \<noteq> slot y"

lemma set_call_part_commute:
  "part_slot (PartCall j c) = None \<or> part_slot (PartCall j c') = None
     \<or> part_slot (PartCall j c) \<noteq> part_slot (PartCall j c') \<Longrightarrow>
   set_call_part c (set_call_part c' t) = set_call_part c' (set_call_part c t)"
  by (cases c; cases c') auto

lemma put_call_commute:
  assumes "part_slot (PartCall j c) = None \<or> part_slot (PartCall j' c') = None
     \<or> part_slot (PartCall j c) \<noteq> part_slot (PartCall j' c')"
  shows "put_call j c (put_call j' c' ct) = put_call j' c' (put_call j c ct)"
proof (cases "j = j'")
  case True
  then show ?thesis
    using set_call_part_commute[of j c c'] assms
    by (simp add: put_call_def call_or_new_def split: option.splits)
next
  case False
  then show ?thesis by (simp add: put_call_def fun_upd_twist max.left_commute max.commute max.assoc)
qed

lemma set_msg_part_commute:
  "part_slot p = None \<or> part_slot p' = None \<or> part_slot p \<noteq> part_slot p' \<Longrightarrow>
   set_msg_part p (set_msg_part p' m) = set_msg_part p' (set_msg_part p m)"
  by (cases p; cases p') auto

lemma put_calls_commute:
  assumes "i \<noteq> i' \<or> part_slot p = None \<or> part_slot p' = None \<or> part_slot p \<noteq> part_slot p'"
  shows "put_calls i p (put_calls i' p' cs) = put_calls i' p' (put_calls i p cs)"
proof (cases "\<exists>j c j' c'. p = PartCall j c \<and> p' = PartCall j' c'")
  case True
  then obtain j c j' c' where p: "p = PartCall j c" "p' = PartCall j' c'" by blast
  show ?thesis
  proof (cases "i = i'")
    case True
    with assms p have "put_call j c (put_call j' c' (cs i)) = put_call j' c' (put_call j c (cs i))"
      by (intro put_call_commute) simp
    with True p show ?thesis by (simp add: put_calls_def)
  next
    case False
    with p show ?thesis by (simp add: put_calls_def fun_upd_twist)
  qed
next
  case False
  then show ?thesis by (cases p; cases p') (simp_all add: put_calls_def)
qed

lemma put_part_commute:
  assumes "i \<noteq> i' \<or> part_slot p = None \<or> part_slot p' = None \<or> part_slot p \<noteq> part_slot p'"
  shows "put_part i p (put_part i' p' st) = put_part i' p' (put_part i p st)"
proof -
  have at: "ms_at (put_part i p (put_part i' p' st)) = ms_at (put_part i' p' (put_part i p st))"
    using assms set_msg_part_commute[of p p']
    by (cases "i = i'") (auto simp: put_part_def fun_upd_twist msg_or_new_def split: option.splits)
  have calls: "ms_calls (put_part i p (put_part i' p' st)) = ms_calls (put_part i' p' (put_part i p st))"
    using put_calls_commute[OF assms, of "ms_calls st"] by (simp add: put_part_def)
  have "ms_called (put_part i p (put_part i' p' st)) = ms_called (put_part i' p' (put_part i p st))"
    by (auto simp: put_part_def split: msg_part.splits)
  moreover have "ms_max (put_part i p (put_part i' p' st)) = ms_max (put_part i' p' (put_part i p st))"
    by (simp add: put_part_def max.left_commute max.commute max.assoc)
  ultimately show ?thesis using at calls by simp
qed

interpretation prompt_loop: order_free_loop "msg_step pre" "slots_apart (entry_slot pre)" for pre
proof
  fix x y s
  assume "slots_apart (entry_slot pre) x y"
  then show "msg_step pre x (msg_step pre y s) = msg_step pre y (msg_step pre x s)"
    by (auto simp: msg_step_def slots_apart_def entry_slot_def intro!: put_part_commute
        split: option.splits)
qed

definition no_collision :: "(string \<times> gval \<Rightarrow> 'b option) \<Rightarrow> gmap \<Rightarrow> bool" where
  "no_collision slot attrs \<longleftrightarrow>
     (\<forall>x \<in> set attrs. \<forall>y \<in> set attrs. x \<noteq> y \<longrightarrow> slots_apart slot x y)"

lemma traceloop_messages_order_free:
  assumes "same_map xs ys" and "no_collision (entry_slot pre) xs"
  shows "traceloop_messages pre xs = traceloop_messages pre ys"
proof -
  have "fold (msg_step pre) xs s = fold (msg_step pre) ys s" for s
    by (rule prompt_loop.fold_order_free)
      (use assms same_map_distinct[OF assms(1)] in
        \<open>simp_all add: same_map_def no_collision_def prompt_loop.pairwise_ok_def\<close>)
  then show ?thesis by (simp add: traceloop_messages_def)
qed

definition tool_slot :: "string \<times> gval \<Rightarrow> (int \<times> nat) option" where
  "tool_slot kv = Option.bind (tool_entry kv) (\<lambda>(i, p). case p of
      ToolName _ \<Rightarrow> Some (i, 0) | ToolDescription _ \<Rightarrow> Some (i, 1) | ToolParameters _ \<Rightarrow> Some (i, 2)
    | ToolOther \<Rightarrow> None)"

interpretation tool_loop: order_free_loop tool_step
  "slots_apart tool_slot"
proof
  fix x y s
  assume *: "slots_apart tool_slot x y"
  show "tool_step x (tool_step y s) = tool_step y (tool_step x s)"
  proof (cases "tool_entry x"; cases "tool_entry y")
    fix a b
    assume ab: "tool_entry x = Some a" "tool_entry y = Some b"
    obtain i p where a: "a = (i, p)" by (cases a)
    obtain i' p' where b: "b = (i', p')" by (cases b)
    show ?thesis
      using * ab a b by (cases "i = i'"; cases p; cases p')
       (auto simp: tool_step_def slots_apart_def tool_slot_def fun_upd_twist max.left_commute max.commute
         max.assoc split: option.splits)
  qed (simp_all add: tool_step_def)
qed

interpretation doc_loop: order_free_loop doc_step
  "slots_apart (\<lambda>kv. map_option fst (doc_entry kv))"
  by unfold_locales
    (auto simp: doc_step_def slots_apart_def fun_upd_twist max.left_commute max.commute max.assoc
      split: option.splits)

lemma extractTraceloopToolDefinitions_order_free:
  assumes "same_map xs ys" and "no_collision tool_slot xs"
  shows "extractTraceloopToolDefinitions xs = extractTraceloopToolDefinitions ys"
proof -
  have "fold tool_step xs s = fold tool_step ys s" for s
    by (rule tool_loop.fold_order_free)
      (use assms same_map_distinct[OF assms(1)] in
        \<open>simp_all add: same_map_def no_collision_def tool_loop.pairwise_ok_def\<close>)
  then show ?thesis by (simp add: extractTraceloopToolDefinitions_def)
qed

lemma ExtractEmbeddingDocuments_order_free:
  assumes "same_map xs ys" and "no_collision (\<lambda>kv. map_option fst (doc_entry kv)) xs"
  shows "ExtractEmbeddingDocuments xs = ExtractEmbeddingDocuments ys"
proof -
  have "fold doc_step xs s = fold doc_step ys s" for s
    by (rule doc_loop.fold_order_free)
      (use assms same_map_distinct[OF assms(1)] in
        \<open>simp_all add: same_map_def no_collision_def doc_loop.pairwise_ok_def\<close>)
  then show ?thesis by (simp add: ExtractEmbeddingDocuments_def)
qed

end
