(* ===== verification/SpanPopulate.thy ===== *)
theory SpanPopulate
  imports SpanMessages
begin

text \<open>
  The kind-specific part of a span: input and output, tool execution details, system prompts and
  the \<open>populate*\<close> functions (\<open>process.go\<close>), and their CrewAI counterparts (\<open>crewai_process.go\<close>).
  The \<open>populate*\<close> functions that read Traceloop messages can panic; they return an \<open>option\<close>.
\<close>

section \<open>Input and output of chain spans\<close>

text \<open>The first non-empty string among \<open>inputs\<close> and \<open>input_str\<close>.\<close>

definition nested_inputs :: "gmap \<Rightarrow> string option" where
  "nested_inputs inputMap =
     (if (case get_str inputMap ''inputs'' of Some v \<Rightarrow> v \<noteq> [] | None \<Rightarrow> False)
      then get_str inputMap ''inputs''
      else if (case get_str inputMap ''input_str'' of Some v \<Rightarrow> v \<noteq> [] | None \<Rightarrow> False)
      then get_str inputMap ''input_str''
      else None)"

definition span_input :: "gmap \<Rightarrow> amp_io" where
  "span_input attrs =
     (case get_str attrs ''traceloop.entity.input'' of
        None \<Rightarrow> IoNil
      | Some inputStr \<Rightarrow>
          (case unmarshal_map inputStr of
             None \<Rightarrow> IoText inputStr
           | Some inputMap \<Rightarrow>
               (case nested_inputs inputMap of
                  None \<Rightarrow> IoText inputStr
                | Some nestedInputs \<Rightarrow>
                    (case map_of inputMap ''metadata'' of
                       Some metadata \<Rightarrow>
                         (case marshal (VObj [(''inputs'', VStr nestedInputs), (''metadata'', metadata)]) of
                            Some combined \<Rightarrow> IoText combined
                          | None \<Rightarrow> IoText inputStr)
                     | None \<Rightarrow>
                         (case marshal (VStr nestedInputs) of
                            Some nested \<Rightarrow> IoText nested
                          | None \<Rightarrow> IoText inputStr)))))"

definition io_marshal :: "gval \<Rightarrow> amp_io" where
  "io_marshal v = (case marshal v of Some b \<Rightarrow> IoText b | None \<Rightarrow> IoNil)"

text \<open>The content of the last message, or the message itself when it has no \<open>kwargs\<close>.\<close>

definition last_message_output :: "gval \<Rightarrow> amp_io" where
  "last_message_output lastMessage =
     (case as_obj lastMessage of
        None \<Rightarrow> IoNil
      | Some lastMessageMap \<Rightarrow>
          (case get_obj lastMessageMap ''kwargs'' of
             Some kwargs \<Rightarrow>
               (case get_str kwargs ''content'' of
                  Some content \<Rightarrow> IoText content
                | None \<Rightarrow> io_marshal (get_val kwargs ''content''))
           | None \<Rightarrow> io_marshal lastMessage))"

definition span_output :: "gmap \<Rightarrow> amp_io" where
  "span_output attrs =
     (case get_str attrs ''traceloop.entity.output'' of
        None \<Rightarrow> IoNil
      | Some outputStr \<Rightarrow>
          (case unmarshal_map outputStr of
             None \<Rightarrow> IoText outputStr
           | Some outputMap \<Rightarrow>
               (case map_of outputMap ''outputs'' of
                  None \<Rightarrow> IoText outputStr
                | Some outputs \<Rightarrow>
                    (case as_obj outputs of
                       None \<Rightarrow> io_marshal outputs
                     | Some outputsMap \<Rightarrow>
                         (case get_arr outputsMap ''messages'' of
                            Some (m # ms) \<Rightarrow> last_message_output (last (m # ms))
                          | _ \<Rightarrow> io_marshal outputs)))))"

definition extractSpanInputOutput :: "gmap option \<Rightarrow> amp_io \<times> amp_io" where
  "extractSpanInputOutput m =
     (case m of None \<Rightarrow> (IoNil, IoNil) | Some attrs \<Rightarrow> (span_input attrs, span_output attrs))"

definition ExtractRootSpanInputOutput :: "Span option \<Rightarrow> amp_io \<times> amp_io" where
  "ExtractRootSpanInputOutput rootSpan =
     (case rootSpan of
        None \<Rightarrow> (IoNil, IoNil)
      | Some sp \<Rightarrow>
          if sp_Attributes sp = None then (IoNil, IoNil)
          else extractSpanInputOutput (sp_Attributes sp))"

section \<open>Tool execution details\<close>

definition first_string :: "gmap \<Rightarrow> string list \<Rightarrow> string" where
  "first_string attrs ks =
     (case List.map_filter (get_str attrs) ks of [] \<Rightarrow> [] | v # _ \<Rightarrow> v)"

definition tool_name :: "gmap \<Rightarrow> string" where
  "tool_name attrs = first_string attrs
     [''traceloop.entity.name'', ''tool.name'', ''tool_name'', ''function.name'', ''gen_ai.tool.name'']"

definition tool_input :: "gmap \<Rightarrow> string" where
  "tool_input attrs =
     (case get_str attrs ''traceloop.entity.input'' of
        Some (c # cs) \<Rightarrow>
          (case unmarshal_map (c # cs) of
             Some inputMap \<Rightarrow>
               (case map_of inputMap ''inputs'' of
                  Some inputs \<Rightarrow>
                    (case marshal inputs of Some inputsJSON \<Rightarrow> inputsJSON | None \<Rightarrow> c # cs)
                | None \<Rightarrow> c # cs)
           | None \<Rightarrow> c # cs)
      | _ \<Rightarrow> first_string attrs
          [''tool.input'', ''tool.arguments'', ''function.arguments'', ''gen_ai.tool.arguments''])"

definition tool_output :: "gmap \<Rightarrow> string" where
  "tool_output attrs = first_string attrs
     [''traceloop.entity.output'', ''tool.output'', ''tool.result'', ''function.result'',
      ''gen_ai.tool.output'']"

definition tool_status :: "gmap \<Rightarrow> string \<Rightarrow> string" where
  "tool_status attrs spanStatus =
     (case get_str attrs ''tool.status'' of
        Some toolStatus \<Rightarrow> toolStatus
      | None \<Rightarrow>
          if isErrorStatus spanStatus then ''error''
          else if spanStatus = ''OK'' \<or> spanStatus = ''1'' then ''success''
          else ''success'')"

definition ExtractToolExecutionDetails :: "gmap \<Rightarrow> string \<Rightarrow> string \<times> string \<times> string \<times> string" where
  "ExtractToolExecutionDetails attrs spanStatus =
     (tool_name attrs, tool_input attrs, tool_output attrs, tool_status attrs spanStatus)"

section \<open>System prompts\<close>

definition instruction_text :: "gmap \<Rightarrow> string option" where
  "instruction_text instruction =
     (if get_str instruction ''type'' = Some ''text'' then
        (case get_str instruction ''content'' of
           Some (c # cs) \<Rightarrow> Some (c # cs) | _ \<Rightarrow> None)
      else None)"

definition newline :: string where
  "newline = [CHR 0x0A]"

definition extractAgentSystemPrompt :: "gmap \<Rightarrow> string" where
  "extractAgentSystemPrompt attrs =
     (case get_str attrs ''gen_ai.system_instructions'' of
        Some (c # cs) \<Rightarrow>
          (case unmarshal_map_list (c # cs) of
             Some instructions \<Rightarrow>
               (let parts = List.map_filter instruction_text instructions in
                if length parts > 0 then join_with newline parts else c # cs)
           | None \<Rightarrow> c # cs)
      | _ \<Rightarrow>
          if get_str attrs ''gen_ai.prompt.0.role'' = Some ''system''
            \<and> get_str attrs ''gen_ai.prompt.0.content'' \<noteq> None
          then the (get_str attrs ''gen_ai.prompt.0.content'')
          else (case get_str attrs ''system_prompt'' of Some p \<Rightarrow> p | None \<Rightarrow> []))"

section \<open>CrewAI\<close>

definition io_string :: "string option \<Rightarrow> amp_io" where
  "io_string s = (case s of Some t \<Rightarrow> IoText t | None \<Rightarrow> IoNil)"

definition str_or_empty :: "gmap \<Rightarrow> string \<Rightarrow> string" where
  "str_or_empty attrs k = (case get_str attrs k of Some s \<Rightarrow> s | None \<Rightarrow> [])"

definition ExtractCrewAISpanInputOutput :: "gmap option \<Rightarrow> amp_io \<times> amp_io" where
  "ExtractCrewAISpanInputOutput m =
     (case m of
        None \<Rightarrow> (IoNil, IoNil)
      | Some attrs \<Rightarrow>
          (io_string (get_str attrs ''crewai.crew.tasks_output''),
           io_string (get_str attrs ''crewai.crew.result'')))"

definition ExtractCrewAIRootSpanInputOutput :: "Span option \<Rightarrow> amp_io \<times> amp_io" where
  "ExtractCrewAIRootSpanInputOutput rootSpan =
     (case rootSpan of
        None \<Rightarrow> (IoNil, IoNil)
      | Some sp \<Rightarrow>
          if sp_Attributes sp = None then (IoNil, IoNil)
          else ExtractCrewAISpanInputOutput (sp_Attributes sp))"

definition extractCrewAIAgentTools :: "gmap \<Rightarrow> ToolDefinition list" where
  "extractCrewAIAgentTools attrs =
     (case get_str attrs ''crewai.agent.tools'' of
        None \<Rightarrow> []
      | Some toolsJSON \<Rightarrow> if toolsJSON = [] then [] else parseToolsJSON toolsJSON)"

definition extractCrewAISystemPrompt :: "gmap \<Rightarrow> string" where
  "extractCrewAISystemPrompt attrs =
     (let role = trim_space (str_or_empty attrs ''crewai.agent.role'');
          goal = trim_space (str_or_empty attrs ''crewai.agent.goal'');
          backstory = trim_space (str_or_empty attrs ''crewai.agent.backstory'')
      in if role = [] \<and> goal = [] \<and> backstory = [] then []
         else trim_space
           ((if role \<noteq> [] then ''role: >'' @ newline @ ''  '' @ role @ newline else [])
            @ (if goal \<noteq> [] then ''goal: >'' @ newline @ ''  '' @ goal @ newline else [])
            @ (if backstory \<noteq> [] then ''backstory: >'' @ newline @ ''  '' @ backstory else [])))"

definition crewai_agent_data :: "gmap \<Rightarrow> AgentData" where
  "crewai_agent_data attrs =
     \<lparr>ad_Name = (case get_str attrs ''crewai.agent.role'' of
          Some name \<Rightarrow> trim_space name
        | None \<Rightarrow> str_or_empty attrs ''crewai.crew.name''),
      ad_Tools = extractCrewAIAgentTools attrs,
      ad_Model = [],
      ad_Framework = ''crewai'',
      ad_SystemPrompt = extractCrewAISystemPrompt attrs,
      ad_MaxIter = (case get_f64 attrs ''crewai.agent.max_iter'' of
          Some maxIter \<Rightarrow> f64_to_int maxIter | None \<Rightarrow> 0),
      ad_TokenUsage = (case get_str attrs ''crewai.crew.token_usage'' of
          Some tokenUsageStr \<Rightarrow> parseCrewAITokenUsage tokenUsageStr | None \<Rightarrow> None),
      ad_ConversationID = []\<rparr>"

definition PopulateCrewAIAgentAttributes :: "AmpAttributes \<Rightarrow> gmap \<Rightarrow> AmpAttributes" where
  "PopulateCrewAIAgentAttributes amp attrs =
     (let (inp, out) = ExtractCrewAISpanInputOutput (Some attrs)
      in amp\<lparr>amp_Input := inp, amp_Output := out, amp_Data := DataAgent (crewai_agent_data attrs)\<rparr>)"

section \<open>Populating the attributes of each kind\<close>

definition response_model :: "gmap \<Rightarrow> string" where
  "response_model attrs = first_string attrs [''gen_ai.response.model'', ''gen_ai.request.model'']"

definition populateLLMAttributes :: "go_lib \<Rightarrow> AmpAttributes \<Rightarrow> gmap \<Rightarrow> AmpAttributes option" where
  "populateLLMAttributes lib amp attrs = do {
     inp \<leftarrow> ExtractPromptMessages attrs;
     out \<leftarrow> ExtractCompletionMessages attrs;
     tools \<leftarrow> ExtractToolDefinitions attrs;
     Some (amp\<lparr>amp_Input := IoMessages inp, amp_Output := IoMessages out,
       amp_Data := DataLLM
         \<lparr>ld_Tools = tools,
          ld_Model = response_model attrs,
          ld_Vendor = str_or_empty attrs ''gen_ai.system'',
          ld_Temperature = Option.bind (map_of attrs ''gen_ai.request.temperature'')
             (extractFloatValue lib),
          ld_TokenUsage = extractTokenUsageFromAttributes attrs\<rparr>\<rparr>)
   }"

definition populateToolAttributes :: "AmpAttributes \<Rightarrow> gmap \<Rightarrow> string \<Rightarrow> AmpAttributes" where
  "populateToolAttributes amp attrs spanStatus =
     (let (name, toolInput, toolOutput, _) = ExtractToolExecutionDetails attrs spanStatus
      in amp\<lparr>amp_Input := IoText toolInput, amp_Output := IoText toolOutput,
             amp_Data := DataTool \<lparr>tld_Name = name\<rparr>\<rparr>)"

definition populateEmbeddingAttributes :: "AmpAttributes \<Rightarrow> gmap \<Rightarrow> AmpAttributes option" where
  "populateEmbeddingAttributes amp attrs = do {
     docs \<leftarrow> ExtractEmbeddingDocuments attrs;
     Some (amp\<lparr>amp_Input := IoDocuments docs,
       amp_Data := DataEmbedding
         \<lparr>ed_Model = response_model attrs,
          ed_Vendor = str_or_empty attrs ''gen_ai.system'',
          ed_TokenUsage = extractTokenUsageFromAttributes attrs\<rparr>\<rparr>)
   }"

definition populateRetrieverAttributes :: "AmpAttributes \<Rightarrow> gmap \<Rightarrow> AmpAttributes" where
  "populateRetrieverAttributes amp attrs =
     amp\<lparr>amp_Data := DataRetriever
       \<lparr>rd_VectorDB = str_or_empty attrs ''db.system'',
        rd_TopK = (case get_f64 attrs ''db.vector.query.top_k'' of
           Some topK \<Rightarrow> f64_to_int topK | None \<Rightarrow> 0)\<rparr>\<rparr>"

text \<open>A string attribute overwrites; the Traceloop attribute only fills what is still nil.\<close>

definition io_or :: "string option \<Rightarrow> amp_io \<Rightarrow> amp_io" where
  "io_or s io = (case s of Some t \<Rightarrow> IoText t | None \<Rightarrow> io)"

definition io_if_nil :: "string option \<Rightarrow> amp_io \<Rightarrow> amp_io" where
  "io_if_nil s io = (if io = IoNil then io_or s io else io)"

definition populateAgentAttributes :: "AmpAttributes \<Rightarrow> gmap \<Rightarrow> AmpAttributes" where
  "populateAgentAttributes amp attrs =
     amp\<lparr>amp_Input := io_if_nil (get_str attrs ''traceloop.entity.input'')
           (io_or (get_str attrs ''gen_ai.input.messages'') (amp_Input amp)),
         amp_Output := io_if_nil (get_str attrs ''traceloop.entity.output'')
           (io_or (get_str attrs ''gen_ai.output.messages'') (amp_Output amp)),
         amp_Data := DataAgent
           \<lparr>ad_Name = str_or_empty attrs ''gen_ai.agent.name'',
            ad_Tools = extractAgentTools attrs,
            ad_Model = str_or_empty attrs ''gen_ai.request.model'',
            ad_Framework = str_or_empty attrs ''gen_ai.system'',
            ad_SystemPrompt = extractAgentSystemPrompt attrs,
            ad_MaxIter = 0,
            ad_TokenUsage = extractTokenUsageFromAttributes attrs,
            ad_ConversationID = str_or_empty attrs ''gen_ai.conversation.id''\<rparr>\<rparr>"

definition populateChainAttributes :: "AmpAttributes \<Rightarrow> gmap \<Rightarrow> AmpAttributes" where
  "populateChainAttributes amp attrs =
     (let (inp, out) = (if IsCrewAISpan (Some attrs) then ExtractCrewAISpanInputOutput (Some attrs)
                        else extractSpanInputOutput (Some attrs))
      in amp\<lparr>amp_Input := inp, amp_Output := out\<rparr>)"

definition populateCrewAITaskAttributes :: "AmpAttributes \<Rightarrow> gmap \<Rightarrow> AmpAttributes" where
  "populateCrewAITaskAttributes amp attrs =
     amp\<lparr>amp_Input := IoNil,
         amp_Output := io_or (get_str attrs ''traceloop.entity.output'') (amp_Output amp),
         amp_Data := DataCrewAITask
           \<lparr>ctd_Name = str_or_empty attrs ''crewai.task.name'',
            ctd_Description = str_or_empty attrs ''crewai.task.description'',
            ctd_Tools = (case get_str attrs ''crewai.task.tools'' of
               None \<Rightarrow> []
             | Some toolsJSON \<Rightarrow> if toolsJSON = [] then [] else parseToolsJSON toolsJSON)\<rparr>\<rparr>"

section \<open>Properties\<close>

text \<open>Fixed-key lookups do not see the order of the attributes.\<close>

lemma same_map_io:
  assumes "same_map xs ys"
  shows "span_input xs = span_input ys" "span_output xs = span_output ys"
    "first_string xs ks = first_string ys ks" "str_or_empty xs k = str_or_empty ys k"
proof -
  have "get_str xs = get_str ys" using same_map_get(1)[OF assms] by blast
  then show "span_input xs = span_input ys" "span_output xs = span_output ys"
    "first_string xs ks = first_string ys ks" "str_or_empty xs k = str_or_empty ys k"
    by (simp_all only: span_input_def span_output_def first_string_def str_or_empty_def)
qed

lemma populate_same_map:
  assumes "same_map xs ys"
  shows "populateToolAttributes amp xs st = populateToolAttributes amp ys st"
    and "populateRetrieverAttributes amp xs = populateRetrieverAttributes amp ys"
    and "populateAgentAttributes amp xs = populateAgentAttributes amp ys"
    and "populateChainAttributes amp xs = populateChainAttributes amp ys"
    and "populateCrewAITaskAttributes amp xs = populateCrewAITaskAttributes amp ys"
    and "PopulateCrewAIAgentAttributes amp xs = PopulateCrewAIAgentAttributes amp ys"
proof -
  have s: "get_str xs = get_str ys" and f: "get_f64 xs = get_f64 ys"
    using same_map_get[OF assms] by blast+
  note eqs = same_map_io[OF assms] s f
  show "populateToolAttributes amp xs st = populateToolAttributes amp ys st"
    by (simp only: populateToolAttributes_def ExtractToolExecutionDetails_def tool_name_def
        tool_input_def tool_output_def tool_status_def eqs)
  show "populateRetrieverAttributes amp xs = populateRetrieverAttributes amp ys"
    by (simp only: populateRetrieverAttributes_def eqs)
  show "populateAgentAttributes amp xs = populateAgentAttributes amp ys"
    by (simp only: populateAgentAttributes_def extractAgentTools_def extractAgentSystemPrompt_def
        eqs span_tokens_same_map[OF assms])
  show "populateChainAttributes amp xs = populateChainAttributes amp ys"
    by (simp only: populateChainAttributes_def same_map_classifiers(9)[OF assms]
        ExtractCrewAISpanInputOutput_def extractSpanInputOutput_def eqs option.case)
  show "populateCrewAITaskAttributes amp xs = populateCrewAITaskAttributes amp ys"
    by (simp only: populateCrewAITaskAttributes_def eqs)
  show "PopulateCrewAIAgentAttributes amp xs = PopulateCrewAIAgentAttributes amp ys"
    by (simp only: PopulateCrewAIAgentAttributes_def crewai_agent_data_def
        extractCrewAIAgentTools_def extractCrewAISystemPrompt_def ExtractCrewAISpanInputOutput_def
        eqs option.case)
qed

text \<open>No pair of attributes collides in any of the four loops over the map.\<close>

definition loops_collision_free :: "gmap \<Rightarrow> bool" where
  "loops_collision_free attrs \<longleftrightarrow>
     no_collision (entry_slot ''gen_ai.prompt.'') attrs
     \<and> no_collision (entry_slot ''gen_ai.completion.'') attrs
     \<and> no_collision tool_slot attrs
     \<and> no_collision (\<lambda>kv. map_option fst (doc_entry kv)) attrs"

lemma populate_loops_same_map:
  assumes "same_map xs ys" and "loops_collision_free xs"
  shows "populateLLMAttributes lib amp xs = populateLLMAttributes lib amp ys"
    and "populateEmbeddingAttributes amp xs = populateEmbeddingAttributes amp ys"
proof -
  have s: "get_str xs = get_str ys" using same_map_get[OF assms(1)] by blast
  note eqs = same_map_io[OF assms(1)] s span_tokens_same_map[OF assms(1)] same_map_of[OF assms(1)]
  have msgs: "traceloop_messages ''gen_ai.prompt.'' xs = traceloop_messages ''gen_ai.prompt.'' ys"
    "traceloop_messages ''gen_ai.completion.'' xs = traceloop_messages ''gen_ai.completion.'' ys"
    using assms(2) traceloop_messages_order_free[OF assms(1)] by (simp_all add: loops_collision_free_def)
  have tools: "extractTraceloopToolDefinitions xs = extractTraceloopToolDefinitions ys"
    using assms(2) extractTraceloopToolDefinitions_order_free[OF assms(1)]
    by (simp add: loops_collision_free_def)
  have docs: "ExtractEmbeddingDocuments xs = ExtractEmbeddingDocuments ys"
    using assms(2) ExtractEmbeddingDocuments_order_free[OF assms(1)]
    by (simp add: loops_collision_free_def)
  show "populateLLMAttributes lib amp xs = populateLLMAttributes lib amp ys"
    by (simp only: populateLLMAttributes_def ExtractPromptMessages_def ExtractCompletionMessages_def
        extractTraceloopPromptMessages_def extractTraceloopCompletionMessages_def
        ExtractToolDefinitions_def response_model_def msgs tools eqs)
  show "populateEmbeddingAttributes amp xs = populateEmbeddingAttributes amp ys"
    by (simp only: populateEmbeddingAttributes_def response_model_def docs eqs)
qed

text \<open>No \<open>populate*\<close> function touches the kind or the status.\<close>

lemma populate_frame:
  "amp_Kind (populateToolAttributes amp attrs st) = amp_Kind amp"
  "amp_Kind (populateRetrieverAttributes amp attrs) = amp_Kind amp"
  "amp_Kind (populateAgentAttributes amp attrs) = amp_Kind amp"
  "amp_Kind (populateChainAttributes amp attrs) = amp_Kind amp"
  "amp_Kind (populateCrewAITaskAttributes amp attrs) = amp_Kind amp"
  "amp_Kind (PopulateCrewAIAgentAttributes amp attrs) = amp_Kind amp"
  by (simp_all add: populateToolAttributes_def populateRetrieverAttributes_def
      populateAgentAttributes_def populateChainAttributes_def populateCrewAITaskAttributes_def
      PopulateCrewAIAgentAttributes_def split: prod.split)

lemma populate_option_frame:
  "populateLLMAttributes lib amp attrs = Some a \<Longrightarrow> amp_Kind a = amp_Kind amp"
  "populateEmbeddingAttributes amp attrs = Some a \<Longrightarrow> amp_Kind a = amp_Kind amp"
  by (auto simp: populateLLMAttributes_def populateEmbeddingAttributes_def bind_eq_Some_conv)

end
