(* ===== verification/SpanRoundtrip.thy ===== *)
theory SpanRoundtrip
  imports SpanMessages
begin

text \<open>
  What the Traceloop extraction promises: messages laid out as attributes under their canonical
  keys come back as they were, in whatever order the map is met; and when the extraction panics.
\<close>

section \<open>Laying messages out as attributes\<close>

text \<open>
  The keys an instrumentation writes, \<open><prefix><i>.role\<close>, \<open><prefix><i>.content\<close> and
  \<open><prefix><i>.tool_calls.<j>.id|name|arguments\<close>, by the slot they hold.
\<close>

fun slot_suffix :: "slot \<Rightarrow> string" where
  "slot_suffix SlotRole = ''role''"
| "slot_suffix SlotContent = ''content''"
| "slot_suffix (SlotCallId j) = ''tool_calls.'' @ show_int j @ ''.id''"
| "slot_suffix (SlotCallName j) = ''tool_calls.'' @ show_int j @ ''.name''"
| "slot_suffix (SlotCallArguments j) = ''tool_calls.'' @ show_int j @ ''.arguments''"

definition slot_key :: "string \<Rightarrow> int \<Rightarrow> slot \<Rightarrow> string" where
  "slot_key pre i sl = pre @ show_int i @ ''.'' @ slot_suffix sl"

fun part_value :: "msg_part \<Rightarrow> string" where
  "part_value (PartRole s) = s"
| "part_value (PartContent s) = s"
| "part_value (PartCall j (CallId s)) = s"
| "part_value (PartCall j (CallName s)) = s"
| "part_value (PartCall j (CallArguments s)) = s"
| "part_value _ = []"

definition enc_part :: "string \<Rightarrow> int \<times> msg_part \<Rightarrow> string \<times> gval" where
  "enc_part pre ip = (slot_key pre (fst ip) (the (part_slot (snd ip))), VStr (part_value (snd ip)))"

definition call_parts :: "int \<Rightarrow> nat \<times> ToolCall \<Rightarrow> (int \<times> msg_part) list" where
  "call_parts i jc =
     [(i, PartCall (int (fst jc)) (CallId (tc_ID (snd jc)))),
      (i, PartCall (int (fst jc)) (CallName (tc_Name (snd jc)))),
      (i, PartCall (int (fst jc)) (CallArguments (tc_Arguments (snd jc))))]"

definition message_parts :: "nat \<times> PromptMessage \<Rightarrow> (int \<times> msg_part) list" where
  "message_parts im =
     (int (fst im), PartRole (pm_Role (snd im)))
     # (if pm_Content (snd im) = [] then [] else [(int (fst im), PartContent (pm_Content (snd im)))])
     @ concat (map (call_parts (int (fst im))) (enumerate 0 (pm_ToolCalls (snd im))))"

definition encode_messages :: "string \<Rightarrow> PromptMessage list \<Rightarrow> gmap" where
  "encode_messages pre ms = map (enc_part pre) (concat (map message_parts (enumerate 0 ms)))"

text \<open>
  The messages that can be laid out: a role, no content that reads as empty, tool calls with a
  name, and no more of either than a slice can hold.
\<close>

definition layable :: "PromptMessage \<Rightarrow> bool" where
  "layable m \<longleftrightarrow> pm_Role m \<noteq> [] \<and> pm_Content m \<noteq> empty_quotes
     \<and> (\<forall>tc \<in> set (pm_ToolCalls m). tc_Name tc \<noteq> [])
     \<and> 48 * int (length (pm_ToolCalls m)) \<le> max_alloc"

section \<open>Keys are read back\<close>

lemma split_on_append: "c \<notin> set a \<Longrightarrow> split_on c (a @ c # b) = a # split_on c b"
  by (induction a) (auto split: list.splits)

lemma split_on_clean: "c \<notin> set a \<Longrightarrow> split_on c a = [a]"
  by (induction a) (auto split: list.splits)

lemma show_int_no_dot: "CHR ''.'' \<notin> set (show_int i)"
proof
  assume "CHR ''.'' \<in> set (show_int i)"
  then obtain n where "0 \<le> n" "CHR ''.'' \<in> set (show_digits n)"
    by (cases "i < 0") (auto simp: show_int_def intro: that[of "- i"] that[of i])
  then have "is_digit CHR ''.''" using show_digits_digits by blast
  then show False by (simp add: is_digit_def less_eq_char_def)
qed

lemma sscanf_d_show: "in_int64 i \<Longrightarrow> sscanf_d (show_int i) = Some i"
  using sscanf_d_show_int[where n = i and rest = "[]"] by simp

definition msg_prefix :: "string \<Rightarrow> bool" where
  "msg_prefix pre \<longleftrightarrow> pre = ''gen_ai.prompt.'' \<or> pre = ''gen_ai.completion.''"

lemma split_prefix:
  assumes "msg_prefix pre"
  obtains a b where "\<And>x. split_on (CHR ''.'') (pre @ x) = a # b # split_on (CHR ''.'') x"
  using assms split_on_nonempty unfolding msg_prefix_def by (auto split: list.splits)

lemma split_slot_key:
  assumes "msg_prefix pre"
  obtains a b where "split_on (CHR ''.'') (slot_key pre i sl)
      = a # b # show_int i # split_on (CHR ''.'') (slot_suffix sl)"
proof -
  obtain a b where ab: "\<And>x. split_on (CHR ''.'') (pre @ x) = a # b # split_on (CHR ''.'') x"
    using split_prefix[OF assms] by metis
  have "split_on (CHR ''.'') (slot_key pre i sl)
      = a # b # show_int i # split_on (CHR ''.'') (slot_suffix sl)"
    using ab split_on_append[OF show_int_no_dot] by (simp add: slot_key_def)
  then show thesis by (rule that)
qed

lemma split_call_suffix:
  assumes "f \<in> {''id'', ''name'', ''arguments''}"
  shows "split_on (CHR ''.'') (''tool_calls.'' @ show_int j @ ''.'' @ f) = [''tool_calls'', show_int j, f]"
  using assms split_on_append[OF show_int_no_dot, of j f] by auto

lemma msg_entry_enc:
  assumes pre: "msg_prefix pre" and i: "in_int64 i"
    and sl: "part_slot p \<noteq> None"
    and content: "\<And>s. p = PartContent s \<Longrightarrow> s \<noteq> [] \<and> s \<noteq> empty_quotes"
    and call: "\<And>j c. p = PartCall j c \<Longrightarrow> in_int64 j"
  shows "msg_entry pre (enc_part pre (i, p)) = Some (i, p)"
proof -
  obtain a b where ab: "split_on (CHR ''.'') (slot_key pre i (the (part_slot p)))
      = a # b # show_int i # split_on (CHR ''.'') (slot_suffix (the (part_slot p)))"
    using split_slot_key[OF pre] by metis
  have "prefix pre (slot_key pre i (the (part_slot p)))" by (simp add: slot_key_def)
  with ab show ?thesis
  proof (cases p)
    case (PartCall j c)
    with call have j: "in_int64 j" by simp
    from PartCall sl show ?thesis
      using ab i j split_call_suffix[of "''id''" j] split_call_suffix[of "''name''" j]
        split_call_suffix[of "''arguments''" j] \<open>prefix pre _\<close>
      by (cases c) (simp_all add: msg_entry_def enc_part_def msg_part_of_def call_part_of_def
          sscanf_d_show)
  qed (use i sl content in
      \<open>simp_all add: msg_entry_def enc_part_def msg_part_of_def sscanf_d_show\<close>)
qed

section \<open>The loop on laid-out messages\<close>

definition call_table_of :: "ToolCall list \<Rightarrow> call_table" where
  "call_table_of cs =
     \<lparr>ct_at = (\<lambda>j. if 0 \<le> j \<and> j < int (length cs) then Some (cs ! nat j) else None),
      ct_max = int (length cs) - 1\<rparr>"

definition state_of :: "PromptMessage list \<Rightarrow> msg_state" where
  "state_of ms =
     \<lparr>ms_at = (\<lambda>i. if 0 \<le> i \<and> i < int (length ms)
          then Some ((ms ! nat i)\<lparr>pm_ToolCalls := []\<rparr>) else None),
      ms_calls = (\<lambda>i. if 0 \<le> i \<and> i < int (length ms)
          then call_table_of (pm_ToolCalls (ms ! nat i)) else call_table_of []),
      ms_called = {i. 0 \<le> i \<and> i < int (length ms) \<and> pm_ToolCalls (ms ! nat i) \<noteq> []},
      ms_max = int (length ms) - 1\<rparr>"

definition run_parts :: "(int \<times> msg_part) list \<Rightarrow> msg_state \<Rightarrow> msg_state" where
  "run_parts ps st = fold (\<lambda>(i, p). put_part i p) ps st"

lemma run_parts_append [simp]: "run_parts (ps @ qs) st = run_parts qs (run_parts ps st)"
  by (simp add: run_parts_def)

lemma state_of_Nil: "state_of [] = init_msg_state"
  by (simp add: state_of_def init_msg_state_def call_table_of_def fun_eq_iff)

text \<open>Three parts add one tool call at the end of a table.\<close>

lemma put_three:
  "put_call (int (length cs)) (CallArguments (tc_Arguments c))
     (put_call (int (length cs)) (CallName (tc_Name c))
       (put_call (int (length cs)) (CallId (tc_ID c)) (call_table_of cs)))
   = call_table_of (cs @ [c])"
  by (auto simp: put_call_def call_table_of_def call_or_new_def zero_tool_call_def fun_eq_iff
      nth_append)

text \<open>The state while the tool calls of the last message are being read.\<close>

definition with_calls :: "PromptMessage list \<Rightarrow> PromptMessage \<Rightarrow> ToolCall list \<Rightarrow> msg_state" where
  "with_calls ms m cs = state_of (ms @ [m\<lparr>pm_ToolCalls := cs\<rparr>])"

lemma run_call_parts:
  "run_parts (call_parts (int (length ms)) (length cs, c)) (with_calls ms m cs)
   = with_calls ms m (cs @ [c])"
proof -
  have *: "ms_calls (with_calls ms m cs) (int (length ms)) = call_table_of cs"
    and **: "ms_at (with_calls ms m cs) (int (length ms)) = Some (m\<lparr>pm_ToolCalls := []\<rparr>)"
    by (simp_all add: with_calls_def state_of_def)
  show ?thesis
    using put_three[of cs c]
    by (simp add: run_parts_def call_parts_def put_part_def put_calls_def * ** msg_or_new_def)
      (auto simp: with_calls_def state_of_def fun_eq_iff nth_append)
qed

lemma run_calls:
  "run_parts (concat (map (call_parts (int (length ms))) (enumerate (length ds) cs))) (with_calls ms m ds)
   = with_calls ms m (ds @ cs)"
proof (induction cs arbitrary: ds)
  case Nil
  then show ?case by (simp add: run_parts_def)
next
  case (Cons c cs)
  then show ?case using run_call_parts[of ms ds c m] Cons.IH[of "ds @ [c]"] by simp
qed

definition head_parts :: "int \<Rightarrow> PromptMessage \<Rightarrow> (int \<times> msg_part) list" where
  "head_parts i m = (i, PartRole (pm_Role m))
     # (if pm_Content m = [] then [] else [(i, PartContent (pm_Content m))])"

lemma run_head: "run_parts (head_parts (int (length ms)) m) (state_of ms) = with_calls ms m []"
  by (auto simp: head_parts_def run_parts_def put_part_def put_calls_def with_calls_def state_of_def
      msg_or_new_def zero_message_def fun_eq_iff nth_append call_table_of_def)

lemma message_parts_eq:
  "message_parts (n, m) =
     head_parts (int n) m @ concat (map (call_parts (int n)) (enumerate 0 (pm_ToolCalls m)))"
  by (simp add: message_parts_def head_parts_def)

lemma run_message:
  "run_parts (message_parts (length ms, m)) (state_of ms) = state_of (ms @ [m])"
  using run_calls[of ms "[]" "pm_ToolCalls m" m]
  by (simp add: message_parts_eq run_head with_calls_def)

lemma run_messages:
  "run_parts (concat (map message_parts (enumerate (length ns) ms))) (state_of ns) = state_of (ns @ ms)"
proof (induction ms arbitrary: ns)
  case Nil
  then show ?case by (simp add: run_parts_def)
next
  case (Cons m ms)
  then show ?case using run_message[of ns m] Cons.IH[of "ns @ [m]"] by simp
qed

section \<open>Reading the state out\<close>

lemma upto_int: "[0..int n - 1] = map int [0..<n]"
  by (induction n) (simp_all add: upto_rec2)

lemma in_order_list:
  "in_order (\<lambda>i. if 0 \<le> i \<and> i < int (length xs) then Some (xs ! nat i) else None) keep
     (int (length xs) - 1) = filter keep xs"
proof -
  have "List.map_filter (\<lambda>i. if 0 \<le> i \<and> i < int (length xs) then Some (xs ! nat i) else None)
      [0..int (length xs) - 1] = map (\<lambda>i. xs ! i) [0..<length xs]"
    unfolding upto_int by (simp add: List.map_filter_def comp_def)
  then show ?thesis by (simp add: in_order_def map_nth)
qed

lemma wrap64_length: "0 < k \<Longrightarrow> k * int n \<le> max_alloc \<Longrightarrow> wrap64 (int n) = int n"
  by (rule wrap64_id)
    (use mult_right_mono[of 1 k "int n"] in
      \<open>simp add: in_int64_def min_int64_def max_int64_def max_alloc_def\<close>)

lemma call_slice_table:
  assumes "\<forall>tc \<in> set cs. tc_Name tc \<noteq> []" and "48 * int (length cs) \<le> max_alloc"
  shows "call_slice (call_table_of cs) = Some cs"
proof (cases "cs = []")
  case True
  then show ?thesis by (simp add: call_slice_def call_table_of_def)
next
  case False
  have "ct_max (call_table_of cs) = int (length cs) - 1" by (simp add: call_table_of_def)
  moreover have "in_order (ct_at (call_table_of cs)) (\<lambda>tc. tc_Name tc \<noteq> []) (int (length cs) - 1) = cs"
    using assms(1) by (simp add: call_table_of_def in_order_list filter_id_conv)
  ultimately show ?thesis
    using False wrap64_length[OF _ assms(2)] makeslice_bind[OF _ assms(2)] by (simp add: call_slice_def)
qed

lemma attach_state_of:
  assumes "\<forall>m \<in> set ms. layable m"
  shows "attach_calls (state_of ms) =
    (\<lambda>i. if 0 \<le> i \<and> i < int (length ms) then Some (ms ! nat i) else None)"
proof
  fix i
  show "attach_calls (state_of ms) i = (if 0 \<le> i \<and> i < int (length ms) then Some (ms ! nat i) else None)"
  proof (cases "0 \<le> i \<and> i < int (length ms)")
    case True
    then have "layable (ms ! nat i)" using assms by auto
    then have "call_slice (call_table_of (pm_ToolCalls (ms ! nat i))) = Some (pm_ToolCalls (ms ! nat i))"
      by (intro call_slice_table) (auto simp: layable_def)
    with True show ?thesis by (simp add: attach_calls_def state_of_def)
  qed (auto simp: attach_calls_def state_of_def)
qed

lemma finish_state_of:
  assumes "\<forall>m \<in> set ms. layable m" and "56 * int (length ms) \<le> max_alloc"
  shows "finish_messages (state_of ms) = Some ms"
proof -
  have slices: "call_slice (ms_calls (state_of ms) i) \<noteq> None" if "i \<in> ms_called (state_of ms)" for i
  proof -
    from that have "0 \<le> i" "i < int (length ms)" by (auto simp: state_of_def)
    moreover then have "layable (ms ! nat i)" using assms(1) by auto
    ultimately show ?thesis
      using call_slice_table[of "pm_ToolCalls (ms ! nat i)"] by (auto simp: state_of_def layable_def)
  qed
  show ?thesis
  proof (cases "ms = []")
    case True
    then show ?thesis by (simp add: finish_messages_def state_of_def)
  next
    case False
    have "in_order (attach_calls (state_of ms)) (\<lambda>m. pm_Role m \<noteq> []) (int (length ms) - 1) = ms"
      using assms(1) by (simp add: attach_state_of in_order_list filter_id_conv layable_def)
    moreover have "ms_max (state_of ms) = int (length ms) - 1" by (simp add: state_of_def)
    ultimately show ?thesis
      using slices False wrap64_length[OF _ assms(2)] makeslice_bind[OF _ assms(2)]
      by (auto simp: finish_messages_def)
  qed
qed

section \<open>Round trip\<close>

definition all_parts :: "PromptMessage list \<Rightarrow> (int \<times> msg_part) list" where
  "all_parts ms = concat (map message_parts (enumerate 0 ms))"

lemma set_all_parts:
  assumes "(i, p) \<in> set (all_parts ms)"
  obtains k where "k < length ms" "i = int k" "p \<in> snd ` set (message_parts (k, ms ! k))"
proof -
  obtain k m where km: "(k, m) \<in> set (enumerate 0 ms)" "(i, p) \<in> set (message_parts (k, m))"
    using assms by (auto simp: all_parts_def)
  have "k < length ms" "m = ms ! k" using km(1) by (auto simp: in_set_enumerate_eq)
  moreover have "i = int k"
    using km(2) by (auto simp: message_parts_def call_parts_def split: if_splits)
  moreover have "p \<in> snd ` set (message_parts (k, m))" using km(2) by force
  ultimately show thesis using that by blast
qed

lemma snd_message_parts:
  "p \<in> snd ` set (message_parts (k, m)) \<longleftrightarrow>
     p = PartRole (pm_Role m) \<or> (pm_Content m \<noteq> [] \<and> p = PartContent (pm_Content m))
     \<or> (\<exists>j < length (pm_ToolCalls m). p \<in>
          {PartCall (int j) (CallId (tc_ID (pm_ToolCalls m ! j))),
           PartCall (int j) (CallName (tc_Name (pm_ToolCalls m ! j))),
           PartCall (int j) (CallArguments (tc_Arguments (pm_ToolCalls m ! j)))})"
proof -
  have "snd ` set (concat (map (call_parts i) (enumerate 0 cs))) =
     (\<Union>j < length cs. {PartCall (int j) (CallId (tc_ID (cs ! j))),
           PartCall (int j) (CallName (tc_Name (cs ! j))),
           PartCall (int j) (CallArguments (tc_Arguments (cs ! j)))})" for i cs
  proof -
    have "set (enumerate 0 cs) = (\<lambda>j. (j, cs ! j)) ` {..<length cs}"
      by (auto simp: in_set_enumerate_eq image_iff)
    then show ?thesis by (simp add: call_parts_def image_UN)
  qed
  then show ?thesis by (auto simp: message_parts_def image_Un)
qed

lemma all_parts_ok:
  assumes ms: "\<forall>m \<in> set ms. layable m" "56 * int (length ms) \<le> max_alloc"
    and ip: "(i, p) \<in> set (all_parts ms)" and pre: "msg_prefix pre"
  shows "msg_entry pre (enc_part pre (i, p)) = Some (i, p)" and "part_slot p \<noteq> None"
proof -
  obtain k where k: "k < length ms" "i = int k" "p \<in> snd ` set (message_parts (k, ms ! k))"
    using set_all_parts[OF ip] by metis
  have lay: "layable (ms ! k)" using ms(1) k(1) by simp
  have i: "in_int64 i"
    using k(1,2) ms(2) by (simp add: in_int64_def min_int64_def max_int64_def max_alloc_def)
  show slot: "part_slot p \<noteq> None"
    using k(3) unfolding snd_message_parts by auto
  show "msg_entry pre (enc_part pre (i, p)) = Some (i, p)"
  proof (rule msg_entry_enc[OF pre i slot])
    fix s assume "p = PartContent s"
    then show "s \<noteq> [] \<and> s \<noteq> empty_quotes"
      using k(3) lay unfolding snd_message_parts by (auto simp: layable_def)
  next
    fix j c assume "p = PartCall j c"
    then obtain n where "n < length (pm_ToolCalls (ms ! k))" "j = int n"
      using k(3) unfolding snd_message_parts by auto
    then show "in_int64 j"
      using lay by (simp add: layable_def in_int64_def min_int64_def max_int64_def max_alloc_def)
  qed
qed

lemma fold_encoded:
  assumes "\<And>ip. ip \<in> set ps \<Longrightarrow> msg_entry pre (enc_part pre ip) = Some ip"
  shows "fold (msg_step pre) (map (enc_part pre) ps) st = run_parts ps st"
  using assms by (induction ps arbitrary: st) (simp_all add: run_parts_def msg_step_def split: prod.split)

lemma fold_others:
  assumes "\<forall>kv \<in> set others. msg_entry pre kv = None"
  shows "fold (msg_step pre) others st = st"
  using assms by (induction others) (simp_all add: msg_step_def)

lemma encoded_no_collision:
  assumes ms: "\<forall>m \<in> set ms. layable m" "56 * int (length ms) \<le> max_alloc" and pre: "msg_prefix pre"
    and others: "\<forall>kv \<in> set others. msg_entry pre kv = None"
    and dist: "distinct (map fst (encode_messages pre ms @ others))"
  shows "no_collision (entry_slot pre) (encode_messages pre ms @ others)"
  unfolding no_collision_def
proof (intro ballI impI)
  fix x y
  assume x: "x \<in> set (encode_messages pre ms @ others)" and y: "y \<in> set (encode_messages pre ms @ others)"
    and xy: "x \<noteq> y"
  have slot: "entry_slot pre z = None \<or> (\<exists>i sl. entry_slot pre z = Some (i, sl) \<and> fst z = slot_key pre i sl)"
    if "z \<in> set (encode_messages pre ms @ others)" for z
  proof (cases "z \<in> set others")
    case True
    then show ?thesis using others by (simp add: entry_slot_def)
  next
    case False
    with that obtain i p where ip: "(i, p) \<in> set (all_parts ms)" "z = enc_part pre (i, p)"
      by (auto simp: encode_messages_def all_parts_def)
    then show ?thesis
      using all_parts_ok[OF ms ip(1) pre] by (auto simp: entry_slot_def enc_part_def)
  qed
  have "fst x \<noteq> fst y"
    using x y xy dist by (metis distinct_map inj_onD)
  with slot[OF x] slot[OF y] show "slots_apart (entry_slot pre) x y"
    by (auto simp: slots_apart_def)
qed

lemma encoded_messages_read_back:
  assumes ms: "\<forall>m \<in> set ms. layable m" "56 * int (length ms) \<le> max_alloc" and pre: "msg_prefix pre"
    and others: "\<forall>kv \<in> set others. msg_entry pre kv = None"
    and attrs: "same_map attrs (encode_messages pre ms @ others)"
  shows "traceloop_messages pre attrs = Some ms"
proof -
  have "no_collision (entry_slot pre) (encode_messages pre ms @ others)"
    using encoded_no_collision[OF ms pre others] attrs by (simp add: same_map_def)
  then have "traceloop_messages pre attrs = traceloop_messages pre (encode_messages pre ms @ others)"
    using traceloop_messages_order_free[OF same_map_sym[OF attrs]] by simp
  also have "fold (msg_step pre) (encode_messages pre ms @ others) init_msg_state = state_of ms"
  proof -
    have "fold (msg_step pre) (encode_messages pre ms) init_msg_state = run_parts (all_parts ms) init_msg_state"
      unfolding encode_messages_def all_parts_def[symmetric]
      by (rule fold_encoded) (use all_parts_ok[OF ms _ pre] in auto)
    also have "\<dots> = state_of ms"
      using run_messages[of "[]" ms] by (simp add: state_of_Nil all_parts_def)
    finally show ?thesis using fold_others[OF others] by simp
  qed
  then have "traceloop_messages pre (encode_messages pre ms @ others) = Some ms"
    using finish_state_of[OF ms] by (simp add: traceloop_messages_def)
  finally show ?thesis .
qed

end
