(* ===== verification/SpanPanics.thy ===== *)
theory SpanPanics
  imports SpanMessages
begin

text \<open>
  When the extraction loops panic. Each loop ends in a \<open>make\<close> whose capacity is the greatest index it
  met plus one (\<open>process.go\<close>, lines 1153, 1168, 1297, 1312, 1459 and 1581), so it panics exactly when an
  attribute key names an index that no slice of that element type can hold. The four loops keep
  their greatest index in the same way: the locale \<open>index_loop\<close> says how, and each is an
  interpretation of it. A capacity that passes the check of \<open>make\<close> is taken to be available:
  running out of memory is not modelled.
\<close>

definition oversize :: "int \<Rightarrow> int \<Rightarrow> bool" where
  "oversize sz i \<longleftrightarrow> max_alloc < sz * (i + 1)"

lemma oversize_above: "1 \<le> sz \<Longrightarrow> oversize sz i \<longleftrightarrow> max_alloc div sz - 1 < i"
proof -
  assume sz: "1 \<le> sz"
  have "sz * (i + 1) \<le> max_alloc \<longleftrightarrow> i + 1 \<le> max_alloc div sz"
  proof
    assume "sz * (i + 1) \<le> max_alloc"
    from zdiv_mono1[OF this, of sz] sz show "i + 1 \<le> max_alloc div sz" by simp
  next
    assume "i + 1 \<le> max_alloc div sz"
    then have "sz * (i + 1) \<le> sz * (max_alloc div sz)" using sz by (intro mult_left_mono) simp_all
    also have "\<dots> \<le> max_alloc" using sz pos_mod_sign[of sz max_alloc] mult_div_mod_eq[of sz max_alloc] by linarith
    finally show "sz * (i + 1) \<le> max_alloc" .
  qed
  then show ?thesis unfolding oversize_def by linarith
qed

lemma makeslice_of_index:
  assumes "0 \<le> m" "m \<le> max_int64" "1 \<le> sz"
  shows "makeslice sz (wrap64 (m + 1)) = None \<longleftrightarrow> oversize sz m"
proof (cases "m = max_int64")
  case True
  have "1 * (m + 1) \<le> sz * (m + 1)" using assms by (intro mult_right_mono) simp_all
  then have "oversize sz m" using True by (simp add: oversize_def max_alloc_def max_int64_def)
  moreover have "wrap64 (m + 1) < 0" using True by (simp add: max_int64_def wrap64_def)
  ultimately show ?thesis by simp
next
  case False
  with assms have "wrap64 (m + 1) = m + 1" by (intro wrap64_id in_int64_nonneg) simp_all
  with assms show ?thesis by (simp add: oversize_def)
qed

section \<open>Loops that keep their greatest index\<close>

locale index_loop =
  fixes step :: "'k \<Rightarrow> 's \<Rightarrow> 's" and top :: "'s \<Rightarrow> int" and index :: "'k \<Rightarrow> int option"
  assumes top_step: "top (step kv st) = (case index kv of None \<Rightarrow> top st | Some i \<Rightarrow> max (top st) i)"
    and index_range: "index kv = Some i \<Longrightarrow> in_int64 i"
begin

lemma top_above:
  "b < top (fold step kvs st) \<longleftrightarrow> b < top st \<or> (\<exists>kv \<in> set kvs. \<exists>i. index kv = Some i \<and> b < i)"
  by (induction kvs arbitrary: st) (auto simp: top_step less_max_iff_disj split: option.splits)

lemma make_panics:
  assumes "top st = -1" "1 \<le> sz"
  shows "0 \<le> top (fold step kvs st) \<and> makeslice sz (wrap64 (top (fold step kvs st) + 1)) = None
    \<longleftrightarrow> (\<exists>kv \<in> set kvs. \<exists>i. index kv = Some i \<and> oversize sz i)"
proof -
  let ?t = "top (fold step kvs st)"
  have "\<not> max_int64 < ?t" unfolding top_above using assms(1) index_range by (force simp: in_int64_def max_int64_def)
  moreover have low: "-1 \<le> max_alloc div sz - 1"
    using assms(2) pos_imp_zdiv_nonneg_iff[of sz max_alloc] by (simp add: max_alloc_def)
  then have "oversize sz ?t \<Longrightarrow> 0 \<le> ?t" using assms(2) by (simp add: oversize_above)
  ultimately have "0 \<le> ?t \<and> makeslice sz (wrap64 (?t + 1)) = None \<longleftrightarrow> oversize sz ?t"
    using makeslice_of_index[of ?t sz] assms(2) by auto
  also have "\<dots> \<longleftrightarrow> (\<exists>kv \<in> set kvs. \<exists>i. index kv = Some i \<and> oversize sz i)"
    using low assms by (simp only: oversize_above top_above) auto
  finally show ?thesis .
qed

end

section \<open>Messages\<close>

definition call_index :: "string \<Rightarrow> int \<Rightarrow> string \<times> gval \<Rightarrow> int option" where
  "call_index pre i kv =
     (case msg_entry pre kv of Some (i', PartCall j c) \<Rightarrow> if i' = i then Some j else None | _ \<Rightarrow> None)"

lemma msg_entry_range:
  assumes "msg_entry pre kv = Some (i, p)" shows "in_int64 i" "p = PartCall j c \<Longrightarrow> in_int64 j"
  using assms sscanf_d_range
  by (auto simp: msg_entry_def msg_part_of_def Let_def split: if_splits option.splits)

interpretation msg_top: index_loop "msg_step pre" ms_max "\<lambda>kv. map_option fst (msg_entry pre kv)" for pre
  by unfold_locales (auto simp: msg_step_def put_part_def msg_entry_range split: option.split)

interpretation call_top: index_loop "msg_step pre" "\<lambda>st. ct_max (ms_calls st i)" "call_index pre i" for pre i
proof
  show "ct_max (ms_calls (msg_step pre kv st) i) =
      (case call_index pre i kv of None \<Rightarrow> ct_max (ms_calls st i) | Some j \<Rightarrow> max (ct_max (ms_calls st i)) j)" for kv st
    by (auto simp: msg_step_def put_part_def put_calls_def put_call_def call_index_def
        split: option.splits msg_part.splits)
  show "call_index pre i kv = Some j \<Longrightarrow> in_int64 j" for kv j
    by (auto simp: call_index_def msg_entry_range(2) split: option.splits prod.splits msg_part.splits if_splits)
qed

text \<open>Only a message with a tool-call attribute has an index of one.\<close>

lemma uncalled_empty:
  assumes "\<And>i. i \<notin> ms_called st \<Longrightarrow> ct_max (ms_calls st i) = -1" and "i \<notin> ms_called (fold (msg_step pre) attrs st)"
  shows "ct_max (ms_calls (fold (msg_step pre) attrs st) i) = -1"
  using assms
proof (induction attrs arbitrary: st)
  case (Cons kv attrs)
  have "ct_max (ms_calls (msg_step pre kv st) k) = -1" if "k \<notin> ms_called (msg_step pre kv st)" for k
    using that Cons.prems(1)[of k]
    by (auto simp: msg_step_def put_part_def put_calls_def put_call_def split: option.splits msg_part.splits if_splits)
  with Cons show ?case by simp
qed simp

lemma call_slice_None:
  "call_slice ct = None \<longleftrightarrow> 0 \<le> ct_max ct \<and> makeslice 48 (wrap64 (ct_max ct + 1)) = None"
  by (auto simp: call_slice_def bind_eq_None_conv)

definition messages_oversize :: "string \<Rightarrow> gmap \<Rightarrow> bool" where
  "messages_oversize pre attrs \<longleftrightarrow>
     (\<exists>kv \<in> set attrs. \<exists>i p. msg_entry pre kv = Some (i, p)
        \<and> (oversize 56 i \<or> (\<exists>j c. p = PartCall j c \<and> oversize 48 j)))"

lemma traceloop_messages_panic: "traceloop_messages pre attrs = None \<longleftrightarrow> messages_oversize pre attrs"
proof -
  let ?st = "fold (msg_step pre) attrs init_msg_state"
  have called: "(\<exists>i \<in> ms_called ?st. call_slice (ms_calls ?st i) = None) \<longleftrightarrow> (\<exists>i. call_slice (ms_calls ?st i) = None)"
    using uncalled_empty[of init_msg_state] by (force simp: init_msg_state_def call_slice_def)
  have calls: "call_slice (ms_calls ?st i) = None \<longleftrightarrow> (\<exists>kv \<in> set attrs. \<exists>j. call_index pre i kv = Some j \<and> oversize 48 j)"
    for i
    unfolding call_slice_None by (rule call_top.make_panics) (simp_all add: init_msg_state_def)
  have msgs: "0 \<le> ms_max ?st \<and> makeslice 56 (wrap64 (ms_max ?st + 1)) = None
      \<longleftrightarrow> (\<exists>kv \<in> set attrs. \<exists>i. map_option fst (msg_entry pre kv) = Some i \<and> oversize 56 i)"
    by (rule msg_top.make_panics) (simp_all add: init_msg_state_def)
  have "traceloop_messages pre attrs = None \<longleftrightarrow> (\<exists>i. call_slice (ms_calls ?st i) = None)
      \<or> 0 \<le> ms_max ?st \<and> makeslice 56 (wrap64 (ms_max ?st + 1)) = None"
    unfolding traceloop_messages_def finish_messages_def called
    by (cases "\<exists>i. call_slice (ms_calls ?st i) = None")
      (auto simp: bind_eq_None_conv simp del: makeslice_None not_None_eq)
  also have "\<dots> \<longleftrightarrow> messages_oversize pre attrs"
    unfolding calls msgs messages_oversize_def
    by (fastforce simp: call_index_def split: option.splits prod.splits msg_part.splits if_splits)
  finally show ?thesis .
qed

section \<open>Tools and documents\<close>

interpretation tool_top: index_loop tool_step ts_max "\<lambda>kv. map_option fst (tool_entry kv)"
  by unfold_locales
    (auto simp: tool_step_def tool_entry_def Let_def sscanf_d_range split: option.splits if_splits)

interpretation doc_top: index_loop doc_step ds_max "\<lambda>kv. map_option fst (doc_entry kv)"
  by unfold_locales
    (auto simp: doc_step_def doc_entry_def Let_def sscanf_d_range split: option.splits if_splits)

definition tools_oversize :: "gmap \<Rightarrow> bool" where
  "tools_oversize attrs \<longleftrightarrow> (\<exists>kv \<in> set attrs. \<exists>i p. tool_entry kv = Some (i, p) \<and> oversize 48 i)"

definition documents_oversize :: "gmap \<Rightarrow> bool" where
  "documents_oversize attrs \<longleftrightarrow> (\<exists>kv \<in> set attrs. \<exists>i s. doc_entry kv = Some (i, s) \<and> oversize 16 i)"

lemma tool_definitions_panic: "extractTraceloopToolDefinitions attrs = None \<longleftrightarrow> tools_oversize attrs"
  using tool_top.make_panics[of "\<lparr>ts_at = (\<lambda>_. None), ts_max = -1\<rparr>" 48 attrs]
  by (auto simp: extractTraceloopToolDefinitions_def tools_oversize_def Let_def bind_eq_None_conv simp del: makeslice_None)

lemma documents_panic: "ExtractEmbeddingDocuments attrs = None \<longleftrightarrow> documents_oversize attrs"
  using doc_top.make_panics[of "\<lparr>ds_at = (\<lambda>_. None), ds_max = -1\<rparr>" 16 attrs]
  by (auto simp: ExtractEmbeddingDocuments_def documents_oversize_def Let_def bind_eq_None_conv simp del: makeslice_None)

section \<open>LLM spans\<close>

text \<open>
  A text in the OTEL format takes the place of the loop when it is there and yields something; an
  empty text, or one that does not, leaves the loop to run.
\<close>

definition otel_messages :: "gmap \<Rightarrow> string \<Rightarrow> bool" where
  "otel_messages attrs k \<longleftrightarrow> (\<exists>s. get_str attrs k = Some s \<and> s \<noteq> [] \<and> parseOTELMessages s \<noteq> [])"

definition otel_tools :: "gmap \<Rightarrow> bool" where
  "otel_tools attrs \<longleftrightarrow>
     (let text_of = (\<lambda>k. case get_str attrs k of Some t \<Rightarrow> t | None \<Rightarrow> []);
          s = (if text_of ''gen_ai.input.tools'' \<noteq> [] then text_of ''gen_ai.input.tools''
               else text_of ''gen_ai.tool.definitions'')
      in s \<noteq> [] \<and> parseOTELToolDefinitions s \<noteq> [])"

lemma extraction_panics:
  "ExtractPromptMessages attrs = None
     \<longleftrightarrow> \<not> otel_messages attrs ''gen_ai.input.messages'' \<and> messages_oversize ''gen_ai.prompt.'' attrs"
  "ExtractCompletionMessages attrs = None
     \<longleftrightarrow> \<not> otel_messages attrs ''gen_ai.output.messages'' \<and> messages_oversize ''gen_ai.completion.'' attrs"
  "ExtractToolDefinitions attrs = None \<longleftrightarrow> \<not> otel_tools attrs \<and> tools_oversize attrs"
  by (auto simp: ExtractPromptMessages_def ExtractCompletionMessages_def ExtractToolDefinitions_def otel_or_def
      otel_messages_def otel_tools_def extractTraceloopPromptMessages_def extractTraceloopCompletionMessages_def
      traceloop_messages_panic tool_definitions_panic Let_def split: option.split)

definition llm_oversize :: "gmap \<Rightarrow> bool" where
  "llm_oversize attrs \<longleftrightarrow>
     \<not> otel_messages attrs ''gen_ai.input.messages'' \<and> messages_oversize ''gen_ai.prompt.'' attrs
     \<or> \<not> otel_messages attrs ''gen_ai.output.messages'' \<and> messages_oversize ''gen_ai.completion.'' attrs
     \<or> \<not> otel_tools attrs \<and> tools_oversize attrs"

end
