(* ===== verification/SpanProcess.thy ===== *)
theory SpanProcess
  imports SpanPopulate SpanRoundtrip SpanPanics
begin

text \<open>
  From a source document or an observer answer to an enriched span: \<open>parseSpan\<close>, \<open>ParseSpans\<close>
  and \<open>ProcessSpan\<close> (\<open>process.go\<close>), \<open>ConvertSpanDetailsToSpan\<close> (\<open>observer/convert.go\<close>).
  \<open>None\<close> is the panic of an extraction loop.
\<close>

section \<open>A source document\<close>

text \<open>\<open>Time.Sub\<close> saturates at the ends of \<open>int64\<close>.\<close>

definition time_sub :: "int \<Rightarrow> int \<Rightarrow> int" where
  "time_sub t u = max min_int64 (min max_int64 (t - u))"

definition source_time :: "go_lib \<Rightarrow> gmap \<Rightarrow> string \<Rightarrow> int" where
  "source_time lib source k =
     (case Option.bind (get_str source k) (lib_parse_time lib) of Some t \<Rightarrow> t | None \<Rightarrow> 0)"

definition source_duration :: "gmap \<Rightarrow> int \<Rightarrow> int \<Rightarrow> int" where
  "source_duration source startTime endTime =
     (case get_f64 source ''durationInNanos'' of
        Some duration \<Rightarrow> f64_to_int duration
      | None \<Rightarrow>
          if startTime \<noteq> 0 \<and> endTime \<noteq> 0 then time_sub endTime startTime else 0)"

definition source_status :: "gmap \<Rightarrow> string" where
  "source_status source =
     (case get_obj source ''status'' of
        None \<Rightarrow> []
      | Some status \<Rightarrow>
          (case get_str status ''code'' of
             Some code \<Rightarrow> code
           | None \<Rightarrow>
               (case get_f64 status ''code'' of
                  Some code \<Rightarrow> show_int (f64_to_int code)
                | None \<Rightarrow> [])))"

definition component_uid :: "gmap \<Rightarrow> string" where
  "component_uid resource = str_or_empty resource ''openchoreo.dev/component-uid''"

definition source_fields :: "go_lib \<Rightarrow> gmap \<Rightarrow> Span" where
  "source_fields lib source =
     (let startTime = source_time lib source ''startTime'';
          endTime = source_time lib source ''endTime''
      in zero_span
       \<lparr>sp_TraceID := str_or_empty source ''traceId'',
        sp_SpanID := str_or_empty source ''spanId'',
        sp_ParentSpanID := str_or_empty source ''parentSpanId'',
        sp_Name := str_or_empty source ''name'',
        sp_Kind := str_or_empty source ''kind'',
        sp_Service := (case get_obj source ''resource'' of
           Some resource \<Rightarrow> component_uid resource | None \<Rightarrow> []),
        sp_Resource := get_obj source ''resource'',
        sp_StartTime := startTime,
        sp_EndTime := endTime,
        sp_DurationInNanos := source_duration source startTime endTime,
        sp_Status := source_status source,
        sp_Attributes := get_obj source ''attributes''\<rparr>)"

definition parseSpan :: "go_lib \<Rightarrow> gmap \<Rightarrow> Span option" where
  "parseSpan lib source =
     (let sp = source_fields lib source;
          spanType = DetermineSpanType sp;
          amp = new_amp (span_type_string spanType)
      in do {
        amp \<leftarrow> (case sp_Attributes sp of
            None \<Rightarrow> Some amp
          | Some attrs \<Rightarrow>
              (case spanType of
                 SpanTypeLLM \<Rightarrow> populateLLMAttributes lib amp attrs
               | SpanTypeTool \<Rightarrow> Some (populateToolAttributes amp attrs (sp_Status sp))
               | SpanTypeEmbedding \<Rightarrow> populateEmbeddingAttributes amp attrs
               | SpanTypeRetriever \<Rightarrow> Some (populateRetrieverAttributes amp attrs)
               | SpanTypeAgent \<Rightarrow>
                   Some (if IsCrewAISpan (Some attrs) then PopulateCrewAIAgentAttributes amp attrs
                         else populateAgentAttributes amp attrs)
               | SpanTypeCrewAITask \<Rightarrow> Some (populateCrewAITaskAttributes amp attrs)
               | SpanTypeChain \<Rightarrow> Some (populateChainAttributes amp attrs)
               | _ \<Rightarrow> Some amp));
        Some (sp\<lparr>sp_AmpAttributes :=
          Some (amp\<lparr>amp_Status := Some (extractSpanStatus (sp_Attributes sp) (sp_Status sp))\<rparr>)\<rparr>)
      })"

section \<open>A search response\<close>

definition span_key :: "Span \<Rightarrow> string option" where
  "span_key sp =
     (if sp_TraceID sp \<noteq> [] \<and> sp_SpanID sp \<noteq> [] then Some (sp_TraceID sp @ '':'' @ sp_SpanID sp)
      else None)"

fun parse_hits :: "go_lib \<Rightarrow> string set \<Rightarrow> gmap list \<Rightarrow> Span list option" where
  "parse_hits lib seen [] = Some []"
| "parse_hits lib seen (source # hits) =
     (case parseSpan lib source of
        None \<Rightarrow> None
      | Some sp \<Rightarrow>
          (case span_key sp of
             Some k \<Rightarrow>
               if k \<in> seen then parse_hits lib seen hits
               else map_option ((#) sp) (parse_hits lib (insert k seen) hits)
           | None \<Rightarrow> map_option ((#) sp) (parse_hits lib seen hits)))"

definition ParseSpans :: "go_lib \<Rightarrow> gmap list \<Rightarrow> Span list option" where
  "ParseSpans lib hits = parse_hits lib {} hits"

section \<open>An observer answer\<close>

definition ProcessSpan :: "go_lib \<Rightarrow> Span \<Rightarrow> Span option" where
  "ProcessSpan lib sp =
     (let spanType = DetermineSpanType sp; amp = new_amp (span_type_string spanType)
      in do {
        amp \<leftarrow> (case sp_Attributes sp of
            None \<Rightarrow> Some amp
          | Some attrs \<Rightarrow>
              (case spanType of
                 SpanTypeLLM \<Rightarrow> populateLLMAttributes lib amp attrs
               | SpanTypeTool \<Rightarrow> Some (populateToolAttributes amp attrs (sp_Status sp))
               | SpanTypeEmbedding \<Rightarrow> populateEmbeddingAttributes amp attrs
               | SpanTypeRetriever \<Rightarrow> Some (populateRetrieverAttributes amp attrs)
               | SpanTypeAgent \<Rightarrow>
                   Some (if IsCrewAISpan (Some attrs) then PopulateCrewAIAgentAttributes amp attrs
                         else populateAgentAttributes amp attrs)
               | SpanTypeCrewAITask \<Rightarrow> Some (populateCrewAITaskAttributes amp attrs)
               | SpanTypeChain \<Rightarrow> Some (populateChainAttributes amp attrs)
               | _ \<Rightarrow> Some amp));
        Some (sp\<lparr>sp_AmpAttributes :=
          Some (amp\<lparr>amp_Status := Some (extractSpanStatus (sp_Attributes sp) (sp_Status sp))\<rparr>)\<rparr>)
      })"

definition ConvertSpanDetailsToSpan :: "string \<Rightarrow> SpanDetailsResponse \<Rightarrow> Span" where
  "ConvertSpanDetailsToSpan traceID d =
     \<lparr>sp_TraceID = traceID, sp_SpanID = sd_SpanID d, sp_ParentSpanID = sd_ParentSpanID d,
      sp_Name = sd_SpanName d, sp_Service = component_uid (attrs_of (sd_ResourceAttributes d)),
      sp_StartTime = sd_StartTime d, sp_EndTime = sd_EndTime d,
      sp_DurationInNanos = sd_DurationNs d, sp_Kind = sd_Kind d, sp_Status = sd_Status d,
      sp_Attributes = sd_Attributes d, sp_Resource = sd_ResourceAttributes d,
      sp_AmpAttributes = None\<rparr>"

section \<open>Properties\<close>

text \<open>The attributes that a kind adds, as both code paths compute them.\<close>

definition amp_for :: "go_lib \<Rightarrow> SpanType \<Rightarrow> gmap option \<Rightarrow> string \<Rightarrow> AmpAttributes option" where
  "amp_for lib t m st =
     (let amp = new_amp (span_type_string t) in
      case m of
        None \<Rightarrow> Some amp
      | Some attrs \<Rightarrow>
          (case t of
             SpanTypeLLM \<Rightarrow> populateLLMAttributes lib amp attrs
           | SpanTypeTool \<Rightarrow> Some (populateToolAttributes amp attrs st)
           | SpanTypeEmbedding \<Rightarrow> populateEmbeddingAttributes amp attrs
           | SpanTypeRetriever \<Rightarrow> Some (populateRetrieverAttributes amp attrs)
           | SpanTypeAgent \<Rightarrow>
               Some (if IsCrewAISpan (Some attrs) then PopulateCrewAIAgentAttributes amp attrs
                     else populateAgentAttributes amp attrs)
           | SpanTypeCrewAITask \<Rightarrow> Some (populateCrewAITaskAttributes amp attrs)
           | SpanTypeChain \<Rightarrow> Some (populateChainAttributes amp attrs)
           | _ \<Rightarrow> Some amp))"

definition with_amp :: "Span \<Rightarrow> AmpAttributes \<Rightarrow> Span" where
  "with_amp sp a = sp\<lparr>sp_AmpAttributes :=
     Some (a\<lparr>amp_Status := Some (extractSpanStatus (sp_Attributes sp) (sp_Status sp))\<rparr>)\<rparr>"

lemma ProcessSpan_amp:
  "ProcessSpan lib sp =
     map_option (with_amp sp) (amp_for lib (DetermineSpanType sp) (sp_Attributes sp) (sp_Status sp))"
  unfolding ProcessSpan_def amp_for_def with_amp_def Let_def
  by (simp add: map_conv_bind_option comp_def)

lemma parseSpan_is_ProcessSpan: "parseSpan lib source = ProcessSpan lib (source_fields lib source)"
  unfolding parseSpan_def ProcessSpan_def Let_def ..

lemma amp_for_kind: "amp_for lib t m st = Some a \<Longrightarrow> amp_Kind a = span_type_string t"
  by (cases t)
    (auto simp: amp_for_def Let_def new_amp_def populate_frame dest!: populate_option_frame
      split: option.splits if_splits)

lemma ProcessSpan_frame:
  assumes "ProcessSpan lib sp = Some sp'"
  shows "\<exists>a. sp' = sp\<lparr>sp_AmpAttributes := Some a\<rparr>
      \<and> amp_Kind a = span_type_string (DetermineSpanType sp)
      \<and> amp_Status a = Some (extractSpanStatus (sp_Attributes sp) (sp_Status sp))"
proof -
  obtain a where "amp_for lib (DetermineSpanType sp) (sp_Attributes sp) (sp_Status sp) = Some a"
    and "sp' = with_amp sp a"
    using assms by (auto simp: ProcessSpan_amp)
  then show ?thesis
    using amp_for_kind by (auto simp: with_amp_def)
qed

lemma ProcessSpan_ignores_amp:
  "ProcessSpan lib (sp\<lparr>sp_AmpAttributes := a\<rparr>) = ProcessSpan lib sp"
  by (simp add: ProcessSpan_amp DetermineSpanType_frame with_amp_def fun_eq_iff
      map_conv_bind_option comp_def)

lemma ProcessSpan_idem:
  assumes "ProcessSpan lib sp = Some sp'"
  shows "ProcessSpan lib sp' = Some sp'"
  using ProcessSpan_frame[OF assms] ProcessSpan_ignores_amp assms by metis

lemma amp_for_same_map:
  assumes "same_map xs ys" and "loops_collision_free xs"
  shows "amp_for lib t (Some xs) st = amp_for lib t (Some ys) st"
  unfolding amp_for_def
  by (simp only: option.case populate_same_map[OF assms(1)] populate_loops_same_map[OF assms]
      same_map_classifiers(9)[OF assms(1)])

lemma ProcessSpan_same_map:
  assumes "same_map xs ys" and "loops_collision_free xs"
  shows "map_option sp_AmpAttributes (ProcessSpan lib (sp\<lparr>sp_Attributes := Some xs\<rparr>))
       = map_option sp_AmpAttributes (ProcessSpan lib (sp\<lparr>sp_Attributes := Some ys\<rparr>))"
  using amp_for_same_map[OF assms] DetermineSpanType_same_map[OF assms(1), of sp]
    status_same_map[OF assms(1)]
  by (simp add: ProcessSpan_amp option.map_comp comp_def with_amp_def)

subsection \<open>When processing panics\<close>

lemma ProcessSpan_panics:
  assumes "sp_Attributes sp = Some attrs"
  shows "DetermineSpanType sp = SpanTypeLLM \<Longrightarrow> ProcessSpan lib sp = None \<longleftrightarrow> llm_oversize attrs"
    and "DetermineSpanType sp = SpanTypeEmbedding \<Longrightarrow> ProcessSpan lib sp = None \<longleftrightarrow> documents_oversize attrs"
  using assms extraction_panics[of attrs] documents_panic[of attrs]
  by (auto simp: ProcessSpan_amp amp_for_def Let_def populateLLMAttributes_def populateEmbeddingAttributes_def
      llm_oversize_def bind_eq_None_conv simp del: not_None_eq)

subsection \<open>De-duplication\<close>

text \<open>Hits whose documents parse to spans with these keys; \<open>None\<close> is never a duplicate.\<close>

fun dedup_spans :: "string set \<Rightarrow> Span list \<Rightarrow> Span list" where
  "dedup_spans seen [] = []"
| "dedup_spans seen (sp # sps) =
     (case span_key sp of
        Some k \<Rightarrow> if k \<in> seen then dedup_spans seen sps else sp # dedup_spans (insert k seen) sps
      | None \<Rightarrow> sp # dedup_spans seen sps)"

lemma parse_hits_dedup:
  "parse_hits lib seen hits = map_option (dedup_spans seen) (seq_options (map (parseSpan lib) hits))"
proof (induction hits arbitrary: seen)
  case Nil
  then show ?case by simp
next
  case (Cons source hits)
  then show ?case
    by (cases "parseSpan lib source"; cases "seq_options (map (parseSpan lib) hits)")
      (simp_all split: option.split)
qed

lemma dedup_keys:
  "distinct (List.map_filter span_key (dedup_spans seen sps))
   \<and> set (List.map_filter span_key (dedup_spans seen sps)) \<inter> seen = {}"
  by (induction seen sps rule: dedup_spans.induct)
    (auto simp: List.map_filter_simps split: option.splits)

lemma dedup_subseq: "subseq (dedup_spans seen sps) sps"
  by (induction seen sps rule: dedup_spans.induct) (auto split: option.split)

lemma dedup_covers:
  "sp \<in> set sps \<Longrightarrow> sp \<in> set (dedup_spans seen sps)
     \<or> (\<exists>k. span_key sp = Some k \<and> k \<in> seen \<union> set (List.map_filter span_key (dedup_spans seen sps)))"
  by (induction seen sps rule: dedup_spans.induct)
    (auto simp: List.map_filter_simps split: option.splits)

text \<open>The first span of each key is the one that is kept.\<close>

lemma dedup_first:
  assumes "span_key sp = Some k" and "k \<notin> seen" and "k \<notin> set (List.map_filter span_key sps)"
  shows "sp \<in> set (dedup_spans seen (sps @ sp # rest))"
  using assms
  by (induction seen sps rule: dedup_spans.induct)
    (auto simp: List.map_filter_simps split: option.splits)

end
