(* ===== verification/TraceController.thy ===== *)
theory TraceController
  imports SpanProcess
begin

text \<open>
  The controller of the traces observer service (\<open>controllers/controller.go\<close>): overviews, span
  lists and span details. The observer service behind \<open>observer.Client\<close> is a parameter: a record
  of its three calls, each a function of its arguments that returns an error text (\<open>Inl\<close>) or an
  answer. The concurrent fetches of \<open>GetTraceOverviews\<close> write disjoint cells of a slice, so they
  are computed one after the other; the export, whose goroutines share a cancellation and an
  error, is a step relation of its own (theory \<open>TraceExport\<close>).
\<close>

section \<open>The observer client\<close>

record ComponentSearchScope =
  cs_Namespace :: string
  cs_Project :: "string option"
  cs_Component :: "string option"
  cs_Environment :: "string option"

record TracesQueryRequest =
  tq_StartTime :: int
  tq_EndTime :: int
  tq_Limit :: "int option"
  tq_SortOrder :: "string option"
  tq_SearchScope :: ComponentSearchScope

record observer_client =
  oc_QueryTraces :: "TracesQueryRequest \<Rightarrow> string + TracesQueryResponse"
  oc_QueryTraceSpans :: "string \<Rightarrow> TracesQueryRequest \<Rightarrow> string + TraceSpansQueryResponse"
  oc_GetSpanDetails :: "string \<Rightarrow> string \<Rightarrow> string + SpanDetailsResponse"

record TraceQueryParams =
  qp_Organization :: string
  qp_Project :: "string option"
  qp_Agent :: "string option"
  qp_Environment :: "string option"
  qp_StartTime :: int
  qp_EndTime :: int
  qp_Limit :: int
  qp_SortOrder :: string

definition search_scope :: "TraceQueryParams \<Rightarrow> ComponentSearchScope" where
  "search_scope params =
     \<lparr>cs_Namespace = qp_Organization params, cs_Project = qp_Project params,
      cs_Component = qp_Agent params, cs_Environment = qp_Environment params\<rparr>"

definition traces_request :: "TraceQueryParams \<Rightarrow> TracesQueryRequest" where
  "traces_request params =
     \<lparr>tq_StartTime = qp_StartTime params, tq_EndTime = qp_EndTime params,
      tq_Limit = Some (qp_Limit params), tq_SortOrder = Some (qp_SortOrder params),
      tq_SearchScope = search_scope params\<rparr>"

section \<open>Root spans\<close>

definition root_io :: "Span \<Rightarrow> amp_io \<times> amp_io" where
  "root_io rootSpan =
     (if IsCrewAISpan (sp_Attributes rootSpan) then ExtractCrewAIRootSpanInputOutput (Some rootSpan)
      else ExtractRootSpanInputOutput (Some rootSpan))"

text \<open>The fallback chain of the overview's token usage.\<close>

definition root_token_usage :: "Span \<Rightarrow> TokenUsage option" where
  "root_token_usage rootSpan =
     (let crew = (if IsCrewAISpan (sp_Attributes rootSpan)
                  then ExtractCrewAITraceTokenUsage rootSpan else None);
          entity = (if crew = None then ExtractTokenUsageFromEntityOutput rootSpan else crew)
      in if entity = None then ExtractTokenUsage [rootSpan] else entity)"

text \<open>
  The result cell of one trace: \<open>None\<close> when processing the span panics, \<open>Some None\<close> when the
  trace is skipped (no root span id, or the fetch failed).
\<close>

definition root_result :: "go_lib \<Rightarrow> observer_client \<Rightarrow> TraceInfo \<Rightarrow> Span option option" where
  "root_result lib oc t =
     (if ti_RootSpanID t = [] then Some None
      else
        (case oc_GetSpanDetails oc (ti_TraceID t) (ti_RootSpanID t) of
           Inl err \<Rightarrow> Some None
         | Inr details \<Rightarrow>
             map_option Some (ProcessSpan lib (ConvertSpanDetailsToSpan (ti_TraceID t) details))))"

definition overview_of :: "go_lib \<Rightarrow> TraceInfo \<Rightarrow> Span \<Rightarrow> TraceOverview" where
  "overview_of lib t rootSpan =
     (let (inp, out) = root_io rootSpan in
      \<lparr>to_TraceID = ti_TraceID t, to_RootSpanID = ti_RootSpanID t,
       to_RootSpanName = ti_RootSpanName t,
       to_RootSpanKind = span_type_string (DetermineSpanType rootSpan),
       to_StartTime = lib_format_time lib (ti_StartTime t),
       to_EndTime = lib_format_time lib (ti_EndTime t),
       to_DurationInNanos = ti_DurationNs t, to_SpanCount = ti_SpanCount t,
       to_TokenUsage = root_token_usage rootSpan,
       to_Status = Some (ExtractTraceStatus [rootSpan]),
       to_Input = inp, to_Output = out\<rparr>)"

text \<open>\<open>None\<close> is a panic in a goroutine, which ends the process.\<close>

definition GetTraceOverviews ::
  "go_lib \<Rightarrow> observer_client \<Rightarrow> TraceQueryParams \<Rightarrow> (string + TraceOverviewResponse) option" where
  "GetTraceOverviews lib oc params =
     (case oc_QueryTraces oc (traces_request params) of
        Inl err \<Rightarrow> Some (Inl err)
      | Inr tracesResp \<Rightarrow>
          if tqr_Traces tracesResp = []
          then Some (Inr \<lparr>tor_Traces = [], tor_TotalCount = tqr_Total tracesResp\<rparr>)
          else do {
            results \<leftarrow> seq_options (map (root_result lib oc) (tqr_Traces tracesResp));
            Some (Inr
              \<lparr>tor_Traces = List.map_filter (\<lambda>(t, res). map_option (overview_of lib t) res)
                 (zip (tqr_Traces tracesResp) results),
               tor_TotalCount = tqr_Total tracesResp\<rparr>)
          })"

section \<open>Span lists and span details\<close>

record SpanSummary =
  sm_SpanID :: string
  sm_SpanName :: string
  sm_ParentSpanID :: string
  sm_StartTime :: int
  sm_EndTime :: int
  sm_DurationNs :: int

record SpanListResponse =
  sl_Spans :: "SpanSummary list"
  sl_TotalCount :: int

definition span_summary :: "SpanInfo \<Rightarrow> SpanSummary" where
  "span_summary s =
     \<lparr>sm_SpanID = si_SpanID s, sm_SpanName = si_SpanName s, sm_ParentSpanID = si_ParentSpanID s,
      sm_StartTime = si_StartTime s, sm_EndTime = si_EndTime s, sm_DurationNs = si_DurationNs s\<rparr>"

definition GetTraceSpans ::
  "observer_client \<Rightarrow> string \<Rightarrow> TraceQueryParams \<Rightarrow> string + SpanListResponse" where
  "GetTraceSpans oc traceID params =
     map_sum id (\<lambda>spansResp. \<lparr>sl_Spans = map span_summary (tsq_Spans spansResp),
         sl_TotalCount = tsq_Total spansResp\<rparr>)
       (oc_QueryTraceSpans oc traceID (traces_request params))"

definition GetSpanDetail ::
  "go_lib \<Rightarrow> observer_client \<Rightarrow> string \<Rightarrow> string \<Rightarrow> (string + Span) option" where
  "GetSpanDetail lib oc traceID spanID =
     (case oc_GetSpanDetails oc traceID spanID of
        Inl err \<Rightarrow> Some (Inl err)
      | Inr details \<Rightarrow> map_option Inr (ProcessSpan lib (ConvertSpanDetailsToSpan traceID details)))"

section \<open>Properties\<close>

lemma seq_options_Some:
  "seq_options xs = Some ys \<longleftrightarrow> xs = map Some ys"
  by (induction xs arbitrary: ys) (auto simp: bind_eq_Some_conv split: option.splits)

lemma seq_options_None: "seq_options xs = None \<longleftrightarrow> None \<in> set xs"
  by (induction xs) (auto simp: bind_eq_None_conv eq_commute[of None])

lemma map_filter_zip_map:
  assumes "map f xs = map Some ys"
  shows "List.map_filter (\<lambda>(x, y). g x y) (zip xs ys)
       = List.map_filter (\<lambda>x. Option.bind (f x) (g x)) xs"
  using assms
proof (induction xs arbitrary: ys)
  case Nil
  then show ?case by (simp add: List.map_filter_simps)
next
  case (Cons x xs)
  then obtain y zs where "ys = y # zs" "f x = Some y" "map f xs = map Some zs" by (cases ys) auto
  with Cons.IH[of zs] show ?case by (simp add: List.map_filter_simps split: option.split)
qed

text \<open>
  The overviews are those of the traces whose root span was fetched, in the order of the traces:
  a trace that is skipped leaves the others as they are.
\<close>

lemma overviews_of_traces:
  assumes "GetTraceOverviews lib oc params = Some (Inr resp)"
  obtains tracesResp where "oc_QueryTraces oc (traces_request params) = Inr tracesResp"
    and "tor_TotalCount resp = tqr_Total tracesResp"
    and "tor_Traces resp = List.map_filter
      (\<lambda>t. Option.bind (root_result lib oc t) (map_option (overview_of lib t))) (tqr_Traces tracesResp)"
proof (cases "oc_QueryTraces oc (traces_request params)")
  case (Inl e)
  with assms show ?thesis by (simp add: GetTraceOverviews_def)
next
  case (Inr tr)
  show ?thesis
  proof (cases "tqr_Traces tr = []")
    case True
    with assms Inr show ?thesis
      by (intro that[OF Inr]) (auto simp: GetTraceOverviews_def List.map_filter_simps)
  next
    case False
    then obtain rs where rs: "seq_options (map (root_result lib oc) (tqr_Traces tr)) = Some rs"
      and resp: "resp = \<lparr>tor_Traces = List.map_filter (\<lambda>(t, res). map_option (overview_of lib t) res)
          (zip (tqr_Traces tr) rs), tor_TotalCount = tqr_Total tr\<rparr>"
      using assms Inr by (auto simp: GetTraceOverviews_def bind_eq_Some_conv)
    from rs have "map (root_result lib oc) (tqr_Traces tr) = map Some rs"
      by (simp add: seq_options_Some)
    from map_filter_zip_map[OF this] resp show ?thesis
      by (intro that[OF Inr]) simp_all
  qed
qed

lemma overviews_crash:
  "GetTraceOverviews lib oc params = None \<longleftrightarrow>
     (\<exists>tr t. oc_QueryTraces oc (traces_request params) = Inr tr \<and> t \<in> set (tqr_Traces tr)
        \<and> root_result lib oc t = None)"
proof (cases "oc_QueryTraces oc (traces_request params)")
  case (Inr tr)
  then show ?thesis
    using seq_options_None[of "map (root_result lib oc) (tqr_Traces tr)"]
    by (cases "seq_options (map (root_result lib oc) (tqr_Traces tr))")
      (auto simp: GetTraceOverviews_def image_iff eq_commute[of None])
qed (simp add: GetTraceOverviews_def)

end
