(* ===== verification/TraceExport.thy ===== *)
theory TraceExport
  imports TraceController "HOL-Library.Multiset"
begin

text \<open>
  \<open>ExportTraces\<close> (\<open>controllers/controller.go\<close>) as a step relation. One task per trace and one fetch
  per span run concurrently under two semaphores; the first error is kept (\<open>errOnce\<close>) and cancels
  the context that every goroutine looks at. The state holds what the goroutines share:

  \<^item> a task per trace: waiting for the outer semaphore, querying the span list, running its span
    fetches (those launched so far, and whether the launching loop was left), or finished with
    the cell \<open>results[idx]\<close>;
  \<^item> the first error, whether the caller's own context was cancelled, the truncation flag, and
    whether a goroutine panicked.

  The context is done when an error was recorded or the caller cancelled. A call to the observer
  under a done context may fail with any error. \<open>sort.Slice\<close> is not stable: the sorted spans are
  any permutation in order of start time.
\<close>

section \<open>One trace\<close>

definition MaxSpansPerRequest :: int where "MaxSpansPerRequest = 10000"
definition maxConcurrentFetches :: nat where "maxConcurrentFetches = 50"
definition maxConcurrentTraces :: nat where "maxConcurrentTraces = 10"

definition span_limit :: "TraceInfo \<Rightarrow> int" where
  "span_limit t =
     (if ti_SpanCount t \<le> 0 \<or> ti_SpanCount t > MaxSpansPerRequest then MaxSpansPerRequest
      else ti_SpanCount t)"

definition spans_request :: "TraceQueryParams \<Rightarrow> TraceInfo \<Rightarrow> TracesQueryRequest" where
  "spans_request params t =
     \<lparr>tq_StartTime = qp_StartTime params, tq_EndTime = qp_EndTime params,
      tq_Limit = Some (span_limit t), tq_SortOrder = None, tq_SearchScope = search_scope params\<rparr>"

definition query_spans ::
  "observer_client \<Rightarrow> TraceQueryParams \<Rightarrow> TraceInfo \<Rightarrow> string + TraceSpansQueryResponse" where
  "query_spans oc params t = oc_QueryTraceSpans oc (ti_TraceID t) (spans_request params t)"

definition find_root :: "TraceInfo \<Rightarrow> Span list \<Rightarrow> Span option" where
  "find_root t spans =
     (case find (\<lambda>s. sp_SpanID s = ti_RootSpanID t) spans of
        Some s \<Rightarrow> Some s
      | None \<Rightarrow> find (\<lambda>s. sp_ParentSpanID s = [] \<or> sp_ParentSpanID s = ''0000000000000000'') spans)"

definition baggage :: "Span \<Rightarrow> string \<Rightarrow> string" where
  "baggage rootSpan k = str_or_empty (attrs_of (sp_Attributes rootSpan)) k"

definition full_trace :: "go_lib \<Rightarrow> TraceInfo \<Rightarrow> Span list \<Rightarrow> Span \<Rightarrow> FullTrace" where
  "full_trace lib t spans rootSpan =
     (let (inp, out) = root_io rootSpan in
      \<lparr>ft_TraceID = ti_TraceID t, ft_RootSpanID = sp_SpanID rootSpan,
       ft_RootSpanName = sp_Name rootSpan,
       ft_RootSpanKind = span_type_string (DetermineSpanType rootSpan),
       ft_StartTime = lib_format_time lib (ti_StartTime t),
       ft_EndTime = lib_format_time lib (ti_EndTime t),
       ft_DurationInNanos = ti_DurationNs t, ft_SpanCount = ti_SpanCount t,
       ft_TokenUsage = ExtractTokenUsage spans, ft_Status = Some (ExtractTraceStatus spans),
       ft_Input = inp, ft_Output = out,
       ft_TaskId = baggage rootSpan ''task.id'', ft_TrialId = baggage rootSpan ''trial.id'',
       ft_Spans = spans\<rparr>)"

section \<open>The shared state\<close>

datatype fetch = InFlight | Returned "Span option"

datatype task =
    Waiting
  | Querying
  | Running "SpanInfo list" "fetch list" bool
  | Finished "FullTrace option"

record export_state =
  ex_tasks :: "task list"
  ex_err :: "string option"
  ex_parent :: bool
  ex_truncated :: bool
  ex_crashed :: bool

definition init_export :: "TraceInfo list \<Rightarrow> export_state" where
  "init_export traces =
     \<lparr>ex_tasks = map (\<lambda>_. Waiting) traces, ex_err = None, ex_parent = False,
      ex_truncated = False, ex_crashed = False\<rparr>"

definition ctx_done :: "export_state \<Rightarrow> bool" where
  "ctx_done st \<longleftrightarrow> ex_err st \<noteq> None \<or> ex_parent st"

definition record_err :: "string \<Rightarrow> export_state \<Rightarrow> export_state" where
  "record_err e st = st\<lparr>ex_err := (case ex_err st of None \<Rightarrow> Some e | Some e' \<Rightarrow> Some e')\<rparr>"

definition set_task :: "nat \<Rightarrow> task \<Rightarrow> export_state \<Rightarrow> export_state" where
  "set_task i t st = st\<lparr>ex_tasks := (ex_tasks st)[i := t]\<rparr>"

fun holds_outer :: "task \<Rightarrow> bool" where
  "holds_outer Querying = True"
| "holds_outer (Running _ _ _) = True"
| "holds_outer _ = False"

fun task_in_flight :: "task \<Rightarrow> nat" where
  "task_in_flight (Running _ fs _) = length (filter (\<lambda>f. f = InFlight) fs)"
| "task_in_flight _ = 0"

definition active :: "export_state \<Rightarrow> nat" where
  "active st = length (filter holds_outer (ex_tasks st))"

definition in_flight :: "export_state \<Rightarrow> nat" where
  "in_flight st = sum_list (map task_in_flight (ex_tasks st))"

definition query_error :: "TraceInfo \<Rightarrow> string \<Rightarrow> string" where
  "query_error t e = ''trace '' @ ti_TraceID t @ '': query spans: '' @ e"

definition details_error :: "TraceInfo \<Rightarrow> SpanInfo \<Rightarrow> string \<Rightarrow> string" where
  "details_error t s e =
     ''trace '' @ ti_TraceID t @ '' span '' @ si_SpanID s @ '': get details: '' @ e"

definition root_error :: "TraceInfo \<Rightarrow> string" where
  "root_error t = ''trace '' @ ti_TraceID t @ '': no root span found''"

definition enrich :: "go_lib \<Rightarrow> TraceInfo \<Rightarrow> SpanDetailsResponse \<Rightarrow> Span option" where
  "enrich lib t details = ProcessSpan lib (ConvertSpanDetailsToSpan (ti_TraceID t) details)"

definition fetched_spans :: "fetch list \<Rightarrow> Span list" where
  "fetched_spans fs = List.map_filter (\<lambda>f. case f of Returned r \<Rightarrow> r | InFlight \<Rightarrow> None) fs"

definition all_returned :: "SpanInfo list \<Rightarrow> fetch list \<Rightarrow> bool \<Rightarrow> bool" where
  "all_returned infos fs left \<longleftrightarrow> (left \<or> length fs = length infos) \<and> InFlight \<notin> set fs"

section \<open>The steps\<close>

inductive export_step ::
  "go_lib \<Rightarrow> observer_client \<Rightarrow> TraceQueryParams \<Rightarrow> TraceInfo list \<Rightarrow>
   export_state \<Rightarrow> export_state \<Rightarrow> bool"
  for lib oc params traces where
  start: "\<lbrakk>\<not> ex_crashed st; i < length traces; ex_tasks st ! i = Waiting;
      active st < maxConcurrentTraces; \<not> ctx_done st\<rbrakk>
    \<Longrightarrow> export_step lib oc params traces st (set_task i Querying st)"
| start_cancelled: "\<lbrakk>\<not> ex_crashed st; i < length traces; ex_tasks st ! i = Waiting;
      active st < maxConcurrentTraces; ctx_done st\<rbrakk>
    \<Longrightarrow> export_step lib oc params traces st (set_task i (Finished None) st)"
| query_ok: "\<lbrakk>\<not> ex_crashed st; i < length traces; ex_tasks st ! i = Querying;
      query_spans oc params (traces ! i) = Inr resp\<rbrakk>
    \<Longrightarrow> export_step lib oc params traces st
      (set_task i (Running (tsq_Spans resp) [] False)
        (st\<lparr>ex_truncated := ex_truncated st \<or> ti_SpanCount (traces ! i) > MaxSpansPerRequest\<rparr>))"
| query_err: "\<lbrakk>\<not> ex_crashed st; i < length traces; ex_tasks st ! i = Querying;
      query_spans oc params (traces ! i) = Inl e \<or> ctx_done st\<rbrakk>
    \<Longrightarrow> export_step lib oc params traces st
      (set_task i (Finished None) (record_err (query_error (traces ! i) e) st))"
| launch: "\<lbrakk>\<not> ex_crashed st; i < length traces; ex_tasks st ! i = Running infos fs False;
      length fs < length infos; in_flight st < maxConcurrentFetches\<rbrakk>
    \<Longrightarrow> export_step lib oc params traces st (set_task i (Running infos (fs @ [InFlight]) False) st)"
| leave_loop: "\<lbrakk>\<not> ex_crashed st; i < length traces; ex_tasks st ! i = Running infos fs False;
      length fs < length infos; ctx_done st\<rbrakk>
    \<Longrightarrow> export_step lib oc params traces st (set_task i (Running infos fs True) st)"
| fetch_skip: "\<lbrakk>\<not> ex_crashed st; i < length traces; ex_tasks st ! i = Running infos fs left;
      j < length fs; fs ! j = InFlight; ctx_done st\<rbrakk>
    \<Longrightarrow> export_step lib oc params traces st (set_task i (Running infos (fs[j := Returned None]) left) st)"
| fetch_ok: "\<lbrakk>\<not> ex_crashed st; i < length traces; ex_tasks st ! i = Running infos fs left;
      j < length fs; fs ! j = InFlight;
      oc_GetSpanDetails oc (ti_TraceID (traces ! i)) (si_SpanID (infos ! j)) = Inr details;
      enrich lib (traces ! i) details = Some sp\<rbrakk>
    \<Longrightarrow> export_step lib oc params traces st
      (set_task i (Running infos (fs[j := Returned (Some sp)]) left) st)"
| fetch_err: "\<lbrakk>\<not> ex_crashed st; i < length traces; ex_tasks st ! i = Running infos fs left;
      j < length fs; fs ! j = InFlight;
      oc_GetSpanDetails oc (ti_TraceID (traces ! i)) (si_SpanID (infos ! j)) = Inl e \<or> ctx_done st\<rbrakk>
    \<Longrightarrow> export_step lib oc params traces st
      (set_task i (Running infos (fs[j := Returned None]) left)
        (record_err (details_error (traces ! i) (infos ! j) e) st))"
| fetch_panic: "\<lbrakk>\<not> ex_crashed st; i < length traces; ex_tasks st ! i = Running infos fs left;
      j < length fs; fs ! j = InFlight;
      oc_GetSpanDetails oc (ti_TraceID (traces ! i)) (si_SpanID (infos ! j)) = Inr details;
      enrich lib (traces ! i) details = None\<rbrakk>
    \<Longrightarrow> export_step lib oc params traces st (st\<lparr>ex_crashed := True\<rparr>)"
| collect_cancelled: "\<lbrakk>\<not> ex_crashed st; i < length traces; ex_tasks st ! i = Running infos fs left;
      all_returned infos fs left; ctx_done st\<rbrakk>
    \<Longrightarrow> export_step lib oc params traces st (set_task i (Finished None) st)"
| collect: "\<lbrakk>\<not> ex_crashed st; i < length traces; ex_tasks st ! i = Running infos fs left;
      all_returned infos fs left; \<not> ctx_done st;
      mset spans = mset (fetched_spans fs); sorted (map sp_StartTime spans);
      find_root (traces ! i) spans = Some rootSpan\<rbrakk>
    \<Longrightarrow> export_step lib oc params traces st
      (set_task i (Finished (Some (full_trace lib (traces ! i) spans rootSpan))) st)"
| collect_no_root: "\<lbrakk>\<not> ex_crashed st; i < length traces; ex_tasks st ! i = Running infos fs left;
      all_returned infos fs left; \<not> ctx_done st;
      mset spans = mset (fetched_spans fs); sorted (map sp_StartTime spans);
      find_root (traces ! i) spans = None\<rbrakk>
    \<Longrightarrow> export_step lib oc params traces st
      (set_task i (Finished None) (record_err (root_error (traces ! i)) st))"
| parent_cancel: "\<lbrakk>\<not> ex_crashed st; \<not> ex_parent st\<rbrakk>
    \<Longrightarrow> export_step lib oc params traces st (st\<lparr>ex_parent := True\<rparr>)"



fun task_result :: "task \<Rightarrow> FullTrace option" where
  "task_result (Finished r) = r"
| "task_result _ = None"

fun is_finished :: "task \<Rightarrow> bool" where
  "is_finished (Finished _) = True"
| "is_finished _ = False"

definition export_final :: "export_state \<Rightarrow> bool" where
  "export_final st \<longleftrightarrow> list_all is_finished (ex_tasks st)"

definition export_response :: "int \<Rightarrow> export_state \<Rightarrow> string + TraceExportResponse" where
  "export_response tot st =
     (case ex_err st of
        Some e \<Rightarrow> Inl e
      | None \<Rightarrow> Inr \<lparr>ter_Traces = List.map_filter task_result (ex_tasks st),
          ter_TotalCount = tot, ter_Truncated = ex_truncated st\<rparr>)"

text \<open>
  What a call can return, and whether the caller cancelled on the way; \<open>None\<close> is the panic of a
  goroutine.
\<close>

inductive ExportTraces ::
  "go_lib \<Rightarrow> observer_client \<Rightarrow> TraceQueryParams \<Rightarrow> bool \<Rightarrow>
   (string + TraceExportResponse) option \<Rightarrow> bool"
  for lib oc params where
  query_failed: "oc_QueryTraces oc (traces_request params) = Inl err
    \<Longrightarrow> ExportTraces lib oc params cancelled (Some (Inl err))"
| no_traces: "\<lbrakk>oc_QueryTraces oc (traces_request params) = Inr tr; tqr_Traces tr = []\<rbrakk>
    \<Longrightarrow> ExportTraces lib oc params cancelled
      (Some (Inr \<lparr>ter_Traces = [], ter_TotalCount = tqr_Total tr, ter_Truncated = False\<rparr>))"
| returned: "\<lbrakk>oc_QueryTraces oc (traces_request params) = Inr tr; tqr_Traces tr \<noteq> [];
    (export_step lib oc params (tqr_Traces tr))\<^sup>*\<^sup>* (init_export (tqr_Traces tr)) st;
    export_final st; \<not> ex_crashed st\<rbrakk>
    \<Longrightarrow> ExportTraces lib oc params (ex_parent st) (Some (export_response (tqr_Total tr) st))"
| crashed: "\<lbrakk>oc_QueryTraces oc (traces_request params) = Inr tr; tqr_Traces tr \<noteq> [];
    (export_step lib oc params (tqr_Traces tr))\<^sup>*\<^sup>* (init_export (tqr_Traces tr)) st;
    ex_crashed st\<rbrakk>
    \<Longrightarrow> ExportTraces lib oc params (ex_parent st) None"

inductive_cases ExportTracesE: "ExportTraces lib oc params c out"


section \<open>What a finished task holds\<close>

definition fetch_span :: "go_lib \<Rightarrow> observer_client \<Rightarrow> TraceInfo \<Rightarrow> SpanInfo \<Rightarrow> Span option" where
  "fetch_span lib oc t s =
     (case oc_GetSpanDetails oc (ti_TraceID t) (si_SpanID s) of
        Inl e \<Rightarrow> None | Inr details \<Rightarrow> enrich lib t details)"

text \<open>
  The specification of an exported trace: every span of the trace, enriched, in order of start
  time, around a root span.
\<close>

definition exported ::
  "go_lib \<Rightarrow> observer_client \<Rightarrow> TraceQueryParams \<Rightarrow> TraceInfo \<Rightarrow> FullTrace \<Rightarrow> bool" where
  "exported lib oc params t ft \<longleftrightarrow>
     (\<exists>resp spans rootSpan. query_spans oc params t = Inr resp
        \<and> mset (map Some spans) = mset (map (fetch_span lib oc t) (tsq_Spans resp))
        \<and> sorted (map sp_StartTime spans)
        \<and> find_root t spans = Some rootSpan
        \<and> ft = full_trace lib t spans rootSpan)"

text \<open>A trace that can be exported: every call on its behalf succeeds and a root is found.\<close>

definition exportable :: "go_lib \<Rightarrow> observer_client \<Rightarrow> TraceQueryParams \<Rightarrow> TraceInfo \<Rightarrow> bool" where
  "exportable lib oc params t \<longleftrightarrow>
     (\<exists>resp spans. query_spans oc params t = Inr resp
        \<and> map (fetch_span lib oc t) (tsq_Spans resp) = map Some spans
        \<and> find_root t spans \<noteq> None)"

lemma find_root_None:
  "find_root t spans = None \<longleftrightarrow>
     (\<forall>s \<in> set spans. sp_SpanID s \<noteq> ti_RootSpanID t
        \<and> sp_ParentSpanID s \<noteq> [] \<and> sp_ParentSpanID s \<noteq> ''0000000000000000'')"
  by (auto simp: find_root_def find_None_iff find_Some_iff split: option.split)

fun task_ok ::
  "go_lib \<Rightarrow> observer_client \<Rightarrow> TraceQueryParams \<Rightarrow> bool \<Rightarrow> TraceInfo \<Rightarrow> task \<Rightarrow> bool" where
  "task_ok lib oc params cancelled t (Running infos fs left) \<longleftrightarrow>
     (\<exists>resp. query_spans oc params t = Inr resp \<and> infos = tsq_Spans resp)
     \<and> length fs \<le> length infos
     \<and> (\<forall>j < length fs. \<forall>s. fs ! j = Returned (Some s) \<longrightarrow> fetch_span lib oc t (infos ! j) = Some s)
     \<and> (\<not> cancelled \<longrightarrow> \<not> left \<and> Returned None \<notin> set fs)"
| "task_ok lib oc params cancelled t (Finished None) \<longleftrightarrow> cancelled"
| "task_ok lib oc params cancelled t (Finished (Some ft)) \<longleftrightarrow> exported lib oc params t ft"
| "task_ok lib oc params cancelled t _ \<longleftrightarrow> True"

lemma task_ok_mono: "task_ok lib oc params c t k \<Longrightarrow> (c \<Longrightarrow> c') \<Longrightarrow> task_ok lib oc params c' t k"
  by (induction lib oc params c t k rule: task_ok.induct) auto

definition tasks_ok ::
  "go_lib \<Rightarrow> observer_client \<Rightarrow> TraceQueryParams \<Rightarrow> TraceInfo list \<Rightarrow> export_state \<Rightarrow> bool" where
  "tasks_ok lib oc params traces st \<longleftrightarrow>
     list_all2 (task_ok lib oc params (ctx_done st)) traces (ex_tasks st)"

lemma state_simps [simp]:
  "ex_tasks (set_task i t st) = (ex_tasks st)[i := t]"
  "ex_err (set_task i t st) = ex_err st"
  "ex_parent (set_task i t st) = ex_parent st"
  "ex_truncated (set_task i t st) = ex_truncated st"
  "ex_crashed (set_task i t st) = ex_crashed st"
  "ctx_done (set_task i t st) = ctx_done st"
  "ex_tasks (record_err e st) = ex_tasks st"
  "ex_parent (record_err e st) = ex_parent st"
  "ex_truncated (record_err e st) = ex_truncated st"
  "ex_crashed (record_err e st) = ex_crashed st"
  "ctx_done (record_err e st)"
  "ex_err (record_err e st) \<noteq> None"
  "ctx_done (st\<lparr>ex_truncated := b\<rparr>) = ctx_done st"
  "ctx_done (st\<lparr>ex_crashed := b\<rparr>) = ctx_done st"
  "ctx_done (st\<lparr>ex_parent := True\<rparr>)"
  by (simp_all add: set_task_def record_err_def ctx_done_def split: option.splits)

lemma fetched_all:
  assumes "all_returned infos fs False" and "Returned None \<notin> set fs"
    and "\<And>j s. j < length fs \<Longrightarrow> fs ! j = Returned (Some s) \<Longrightarrow> f (infos ! j) = Some s"
  shows "map f infos = map Some (fetched_spans fs)"
  using assms
proof (induction fs arbitrary: infos)
  case Nil
  then show ?case by (simp add: all_returned_def fetched_spans_def List.map_filter_simps)
next
  case (Cons fe fs)
  then obtain i infos' where infos: "infos = i # infos'" by (cases infos) (auto simp: all_returned_def)
  have "fe \<noteq> InFlight" "fe \<noteq> Returned None"
    using Cons.prems(1,2) by (auto simp: all_returned_def)
  then obtain s where fe: "fe = Returned (Some s)" by (metis fetch.exhaust not_None_eq)
  have "map f infos' = map Some (fetched_spans fs)"
    using Cons.prems infos by (intro Cons.IH) (fastforce simp: all_returned_def)+
  moreover have "f i = Some s" using Cons.prems(3)[of 0 s] fe infos by simp
  ultimately show ?case
    using fe infos by (simp add: fetched_spans_def List.map_filter_simps)
qed

lemma list_all2_set:
  assumes "list_all2 (P c) xs ys" "i < length xs" "P c' (xs ! i) y"
    and "\<And>x z. P c x z \<Longrightarrow> P c' x z"
  shows "list_all2 (P c') xs (ys[i := y])"
  using assms by (auto simp: list_all2_conv_all_nth nth_list_update)

lemma step_task:
  assumes "tasks_ok lib oc params traces st" "i < length traces"
    and "ctx_done st \<Longrightarrow> ctx_done st'" "ex_tasks st' = (ex_tasks st)[i := k]"
    and "task_ok lib oc params (ctx_done st') (traces ! i) k"
  shows "tasks_ok lib oc params traces st'"
  unfolding tasks_ok_def assms(4)
  by (rule list_all2_set[where c = "ctx_done st"])
    (use assms in \<open>auto simp: tasks_ok_def intro: task_ok_mono\<close>)

lemma ok_at:
  "tasks_ok lib oc params traces st \<Longrightarrow> i < length traces \<Longrightarrow>
   task_ok lib oc params (ctx_done st) (traces ! i) (ex_tasks st ! i)"
  by (simp add: tasks_ok_def list_all2_conv_all_nth)

lemma collected_is_exported:
  assumes "task_ok lib oc params False t (Running infos fs left)" "all_returned infos fs left"
    and "mset spans = mset (fetched_spans fs)"
  shows "\<exists>resp. query_spans oc params t = Inr resp
      \<and> map (fetch_span lib oc t) (tsq_Spans resp) = map Some (fetched_spans fs)
      \<and> mset (map Some spans) = mset (map (fetch_span lib oc t) (tsq_Spans resp))"
proof -
  from assms(1) obtain resp where resp: "query_spans oc params t = Inr resp" "infos = tsq_Spans resp"
    and left: "\<not> left" "Returned None \<notin> set fs"
    and ok: "\<And>j s. j < length fs \<Longrightarrow> fs ! j = Returned (Some s) \<Longrightarrow>
        fetch_span lib oc t (infos ! j) = Some s"
    by auto
  have "map (fetch_span lib oc t) infos = map Some (fetched_spans fs)"
    by (rule fetched_all) (use assms(2) left ok in auto)
  moreover from this have "mset (map (fetch_span lib oc t) infos) = mset (map Some spans)"
    using assms(3) by (simp only: mset_map)
  ultimately show ?thesis using resp by metis
qed

lemma export_step_ok:
  assumes "export_step lib oc params traces st st'" and ok: "tasks_ok lib oc params traces st"
  shows "tasks_ok lib oc params traces st'"
  using assms(1)
proof cases
  case (launch i infos fs)
  with ok_at[OF ok, of i] show ?thesis
    by (intro step_task[OF ok, of i]) (auto simp: nth_append split: if_splits)
next
  case (fetch_skip i infos fs left j)
  with ok_at[OF ok, of i] show ?thesis
    by (intro step_task[OF ok, of i]) (auto simp: nth_list_update split: if_splits)
next
  case (fetch_ok i infos fs left j details sp)
  then have "fetch_span lib oc (traces ! i) (infos ! j) = Some sp" by (simp add: fetch_span_def)
  moreover have "Returned None \<notin> set (fs[j := Returned (Some sp)])" if "Returned None \<notin> set fs"
    using that set_update_subset_insert[of fs j "Returned (Some sp)"] by auto
  ultimately show ?thesis
    using ok_at[OF ok, of i] fetch_ok
    by (intro step_task[OF ok, of i]) (auto simp: nth_list_update split: if_splits)
next
  case (fetch_err i infos fs left j e)
  with ok_at[OF ok, of i] show ?thesis
    by (intro step_task[OF ok, of i]) (auto simp: nth_list_update split: if_splits)
next
  case (collect i infos fs left spans rootSpan)
  then have "exported lib oc params (traces ! i) (full_trace lib (traces ! i) spans rootSpan)"
    using collected_is_exported[of lib oc params "traces ! i" infos fs left spans] ok_at[OF ok, of i]
    unfolding exported_def by metis
  with collect show ?thesis by (intro step_task[OF ok, of i]) auto
next
  case parent_cancel
  with ok show ?thesis
    by (auto simp: tasks_ok_def elim!: list_all2_mono intro: task_ok_mono)
next
  case (fetch_panic i infos fs left j details)
  with ok show ?thesis by (simp add: tasks_ok_def)
next
  case (query_ok i resp)
  with ok show ?thesis by (intro step_task[OF ok, of i]) auto
next
  case (leave_loop i infos fs)
  with ok_at[OF ok, of i] show ?thesis by (intro step_task[OF ok, of i]) auto
next
  case (start i)
  with ok show ?thesis by (intro step_task[OF ok, of i]) auto
next
  case (start_cancelled i)
  with ok show ?thesis by (intro step_task[OF ok, of i]) auto
next
  case (query_err i e)
  with ok show ?thesis by (intro step_task[OF ok, of i]) auto
next
  case (collect_cancelled i infos fs left)
  with ok show ?thesis by (intro step_task[OF ok, of i]) auto
next
  case (collect_no_root i infos fs left spans)
  with ok show ?thesis by (intro step_task[OF ok, of i]) auto
qed


lemma init_ok: "tasks_ok lib oc params traces (init_export traces)"
  by (simp add: tasks_ok_def init_export_def list_all2_conv_all_nth)

lemma reachable_ok:
  "(export_step lib oc params traces)\<^sup>*\<^sup>* (init_export traces) st \<Longrightarrow> tasks_ok lib oc params traces st"
  by (induction rule: rtranclp_induct) (auto intro: init_ok export_step_ok)

text \<open>An error that was recorded ends in a failed call: a final state without one is complete.\<close>

lemma final_tasks:
  assumes "tasks_ok lib oc params traces st" "export_final st" "\<not> ctx_done st"
  shows "\<exists>fts. ex_tasks st = map (\<lambda>r. Finished (Some r)) fts \<and> list_all2 (exported lib oc params) traces fts"
proof -
  have ok: "list_all2 (task_ok lib oc params False) traces (ex_tasks st)"
    using assms by (simp add: tasks_ok_def)
  have "\<forall>k \<in> set (ex_tasks st). is_finished k" using assms(2) by (simp add: export_final_def list_all_iff)
  with ok show ?thesis
  proof (induction rule: list_all2_induct)
    case Nil
    then show ?case by simp
  next
    case (Cons t ts k ks)
    then obtain fts where fts: "ks = map (\<lambda>r. Finished (Some r)) fts" "list_all2 (exported lib oc params) ts fts"
      by auto
    from Cons.prems obtain r where "k = Finished r" by (cases k) auto
    with Cons.hyps(1) obtain ft where "k = Finished (Some ft)" "exported lib oc params t ft"
      by (cases r) auto
    with fts show ?case by (intro exI[of _ "ft # fts"]) simp
  qed
qed

lemma map_filter_finished: "List.map_filter task_result (map (\<lambda>r. Finished (Some r)) fts) = fts"
  by (induction fts) (simp_all add: List.map_filter_simps)

lemma export_all_or_nothing:
  assumes "ExportTraces lib oc params False (Some (Inr resp))"
    and "oc_QueryTraces oc (traces_request params) = Inr tr"
  shows "list_all2 (exported lib oc params) (tqr_Traces tr) (ter_Traces resp)"
  using assms(1)
proof cases
  case (returned tr' st)
  then have st: "tasks_ok lib oc params (tqr_Traces tr) st"
    using reachable_ok assms(2) by auto
  have err: "ex_err st = None"
    using returned by (cases "ex_err st") (simp_all add: export_response_def)
  then have "\<not> ctx_done st" using returned by (simp add: ctx_done_def)
  from final_tasks[OF st _ this] returned obtain fts
    where "ex_tasks st = map (\<lambda>r. Finished (Some r)) fts" "list_all2 (exported lib oc params) (tqr_Traces tr) fts"
    by auto
  moreover have "ter_Traces resp = List.map_filter task_result (ex_tasks st)"
    using returned err by (simp add: export_response_def)
  ultimately show ?thesis by (simp add: map_filter_finished)
qed (use assms in auto)

section \<open>No spurious failure\<close>

text \<open>
  When every trace can be exported and the caller does not cancel, no schedule records an error
  or panics.
\<close>

lemma exportable_step:
  assumes "\<forall>t \<in> set traces. exportable lib oc params t"
    and "export_step lib oc params traces st st'" and ok: "tasks_ok lib oc params traces st"
    and clean: "ex_err st = None" "\<not> ex_crashed st" and parent: "\<not> ex_parent st'"
  shows "ex_err st' = None \<and> \<not> ex_crashed st'"
proof -
  have spans: "\<exists>resp spans. query_spans oc params (traces ! i) = Inr resp
      \<and> map (fetch_span lib oc (traces ! i)) (tsq_Spans resp) = map Some spans
      \<and> find_root (traces ! i) spans \<noteq> None" if "i < length traces" for i
    using assms(1) that by (auto simp: exportable_def)
  have fetch: "fetch_span lib oc (traces ! i) (infos ! j) \<noteq> None"
    if i: "i < length traces" and run: "ex_tasks st ! i = Running infos fs left"
      and j: "j < length fs" for i infos fs left j
  proof -
    obtain resp where "query_spans oc params (traces ! i) = Inr resp" "infos = tsq_Spans resp"
      "length fs \<le> length infos"
      using ok_at[OF ok i] run by auto
    with spans[OF i] j show ?thesis
      by (metis Inr_inject length_map nth_map option.distinct(1) order_less_le_trans)
  qed
  from assms(2) show ?thesis
  proof cases
    case (query_err i e)
    with spans[of i] clean parent show ?thesis by (auto simp: ctx_done_def)
  next
    case (fetch_err i infos fs left j e)
    with fetch[of i infos fs left j] clean parent show ?thesis
      by (auto simp: ctx_done_def fetch_span_def)
  next
    case (fetch_panic i infos fs left j details)
    with fetch[of i infos fs left j] show ?thesis by (simp add: fetch_span_def)
  next
    case (collect_no_root i infos fs left ss)
    then have "task_ok lib oc params False (traces ! i) (Running infos fs left)"
      using ok_at[OF ok, of i] by simp
    from collected_is_exported[OF this] collect_no_root obtain resp
      where q: "query_spans oc params (traces ! i) = Inr resp"
        "map (fetch_span lib oc (traces ! i)) (tsq_Spans resp) = map Some (fetched_spans fs)" by blast
    with spans[of i] collect_no_root have "find_root (traces ! i) (fetched_spans fs) \<noteq> None"
      by (metis Inr_inject map_injective option.inject injI)
    moreover have "set ss = set (fetched_spans fs)" using collect_no_root by (metis set_mset_mset)
    ultimately show ?thesis using collect_no_root(9) by (simp only: find_root_None)
  qed (use clean in simp_all)
qed

lemma parent_kept:
  "(export_step lib oc params traces)\<^sup>*\<^sup>* st st' \<Longrightarrow> ex_parent st \<Longrightarrow> ex_parent st'"
  by (induction rule: rtranclp_induct) (auto elim: export_step.cases)

lemma exportable_runs_clean:
  assumes "\<forall>t \<in> set traces. exportable lib oc params t"
    and "(export_step lib oc params traces)\<^sup>*\<^sup>* (init_export traces) st" and "\<not> ex_parent st"
  shows "ex_err st = None \<and> \<not> ex_crashed st"
  using assms(2,3)
proof (induction rule: rtranclp_induct)
  case base
  then show ?case by (simp add: init_export_def)
next
  case (step st st')
  then have "\<not> ex_parent st" using parent_kept[of lib oc params traces st st'] by blast
  with step exportable_step[OF assms(1) step.hyps(2) reachable_ok[OF step.hyps(1)]] show ?case by blast
qed

lemma exportable_succeeds:
  assumes "oc_QueryTraces oc (traces_request params) = Inr tr"
    and "\<forall>t \<in> set (tqr_Traces tr). exportable lib oc params t"
    and "ExportTraces lib oc params False out"
  shows "\<exists>resp. out = Some (Inr resp)"
  using assms(3)
proof cases
  case (returned tr' st)
  then have "ex_err st = None" using exportable_runs_clean[of "tqr_Traces tr"] assms by auto
  with returned show ?thesis by (simp add: export_response_def)
next
  case (crashed tr' st)
  then show ?thesis using exportable_runs_clean[of "tqr_Traces tr"] assms by auto
qed (use assms in auto)


section \<open>The semaphores\<close>

definition within_limits :: "export_state \<Rightarrow> bool" where
  "within_limits st \<longleftrightarrow> active st \<le> maxConcurrentTraces \<and> in_flight st \<le> maxConcurrentFetches"

lemma active_set_task:
  assumes "i < length (ex_tasks st)"
  shows "active (set_task i k st) + (if holds_outer (ex_tasks st ! i) then 1 else 0)
       = active st + (if holds_outer k then 1 else 0)"
  using length_filter_update[OF assms, of holds_outer k] by (simp add: active_def)

lemma in_flight_set_task:
  assumes "i < length (ex_tasks st)"
  shows "in_flight (set_task i k st) + task_in_flight (ex_tasks st ! i) = in_flight st + task_in_flight k"
  using sum_list_update_nat[OF assms, of task_in_flight k] by (simp add: in_flight_def)

lemma counts_frame [simp]:
  "active (record_err e st) = active st" "in_flight (record_err e st) = in_flight st"
  "active (st\<lparr>ex_truncated := b\<rparr>) = active st" "in_flight (st\<lparr>ex_truncated := b\<rparr>) = in_flight st"
  "active (st\<lparr>ex_crashed := b\<rparr>) = active st" "in_flight (st\<lparr>ex_crashed := b\<rparr>) = in_flight st"
  "active (st\<lparr>ex_parent := b\<rparr>) = active st" "in_flight (st\<lparr>ex_parent := b\<rparr>) = in_flight st"
  by (simp_all add: active_def in_flight_def)

lemma in_flight_returned:
  assumes "j < length fs" "fs ! j = InFlight"
  shows "Suc (length (filter (\<lambda>f. f = InFlight) (fs[j := Returned r])))
       = length (filter (\<lambda>f. f = InFlight) fs)"
  using length_filter_update[OF assms(1), of "\<lambda>f. f = InFlight" "Returned r"] assms(2) by simp

lemma step_limits:
  assumes "export_step lib oc params traces st st'" and "within_limits st"
    and len: "length (ex_tasks st) = length traces"
  shows "within_limits st' \<and> length (ex_tasks st') = length traces"
  using assms(1)
proof cases
  case (launch i infos fs)
  then show ?thesis
    using active_set_task[of i st "Running infos (fs @ [InFlight]) False"] assms(2) len
      in_flight_set_task[of i st "Running infos (fs @ [InFlight]) False"]
    by (simp add: within_limits_def)
next
  case (fetch_skip i infos fs left j)
  then show ?thesis
    using active_set_task[of i st "Running infos (fs[j := Returned None]) left"] assms(2) len
      in_flight_set_task[of i st "Running infos (fs[j := Returned None]) left"]
      in_flight_returned[of j fs None]
    by (simp add: within_limits_def)
next
  case (fetch_ok i infos fs left j details sp)
  then show ?thesis
    using active_set_task[of i st "Running infos (fs[j := Returned (Some sp)]) left"] assms(2) len
      in_flight_set_task[of i st "Running infos (fs[j := Returned (Some sp)]) left"]
      in_flight_returned[of j fs "Some sp"]
    by (simp add: within_limits_def)
next
  case (fetch_err i infos fs left j e)
  let ?st = "record_err (details_error (traces ! i) (infos ! j) e) st"
  show ?thesis
    using fetch_err active_set_task[of i ?st "Running infos (fs[j := Returned None]) left"] assms(2) len
      in_flight_set_task[of i ?st "Running infos (fs[j := Returned None]) left"]
      in_flight_returned[of j fs None]
    by (simp add: within_limits_def)
next
  case (query_ok i resp)
  let ?st = "st\<lparr>ex_truncated := ex_truncated st \<or> ti_SpanCount (traces ! i) > MaxSpansPerRequest\<rparr>"
  show ?thesis
    using query_ok active_set_task[of i ?st "Running (tsq_Spans resp) [] False"] assms(2) len
      in_flight_set_task[of i ?st "Running (tsq_Spans resp) [] False"]
    by (simp add: within_limits_def)
next
  case (query_err i e)
  let ?st = "record_err (query_error (traces ! i) e) st"
  show ?thesis
    using query_err active_set_task[of i ?st "Finished None"] assms(2) len
      in_flight_set_task[of i ?st "Finished None"]
    by (simp add: within_limits_def)
next
  case (collect_no_root i infos fs left spans)
  let ?st = "record_err (root_error (traces ! i)) st"
  show ?thesis
    using collect_no_root active_set_task[of i ?st "Finished None"] assms(2) len
      in_flight_set_task[of i ?st "Finished None"]
    by (simp add: within_limits_def)
next
  case (collect i infos fs left spans rootSpan)
  let ?k = "Finished (Some (full_trace lib (traces ! i) spans rootSpan))"
  show ?thesis
    using collect active_set_task[of i st ?k] assms(2) len in_flight_set_task[of i st ?k]
    by (simp add: within_limits_def)
next
  case (start i)
  then show ?thesis
    using active_set_task[of i st Querying] assms(2) len in_flight_set_task[of i st Querying]
    by (simp add: within_limits_def)
next
  case (start_cancelled i)
  then show ?thesis
    using active_set_task[of i st "Finished None"] assms(2) len in_flight_set_task[of i st "Finished None"]
    by (simp add: within_limits_def)
next
  case (leave_loop i infos fs)
  then show ?thesis
    using active_set_task[of i st "Running infos fs True"] assms(2) len
      in_flight_set_task[of i st "Running infos fs True"]
    by (simp add: within_limits_def)
next
  case (collect_cancelled i infos fs left)
  then show ?thesis
    using active_set_task[of i st "Finished None"] assms(2) len in_flight_set_task[of i st "Finished None"]
    by (simp add: within_limits_def)
qed (use assms in \<open>simp_all add: within_limits_def\<close>)

lemma init_limits: "within_limits (init_export traces)"
proof -
  have "length (filter holds_outer (map (\<lambda>_. Waiting) traces)) = 0"
    and "sum_list (map task_in_flight (map (\<lambda>_. Waiting) traces)) = 0"
    by (induction traces) simp_all
  then show ?thesis
    by (simp only: within_limits_def active_def in_flight_def init_export_def export_state.simps le0 simp_thms)
qed

lemma reachable_limits:
  "(export_step lib oc params traces)\<^sup>*\<^sup>* (init_export traces) st \<Longrightarrow>
   within_limits st \<and> length (ex_tasks st) = length traces"
proof (induction rule: rtranclp_induct)
  case base
  show ?case using init_limits by (simp add: init_export_def)
next
  case (step st st')
  then show ?case using step_limits by blast
qed


section \<open>Every run ends\<close>

text \<open>
  A weight that every step lowers: what a task has left to do, given how many spans the observer
  lists for its trace.
\<close>

definition span_count :: "observer_client \<Rightarrow> TraceQueryParams \<Rightarrow> TraceInfo \<Rightarrow> nat" where
  "span_count oc params t =
     (case query_spans oc params t of Inl e \<Rightarrow> 0 | Inr resp \<Rightarrow> length (tsq_Spans resp))"

fun weight :: "observer_client \<Rightarrow> TraceQueryParams \<Rightarrow> TraceInfo \<times> task \<Rightarrow> nat" where
  "weight oc params (t, Waiting) = 2 * span_count oc params t + 4"
| "weight oc params (t, Querying) = 2 * span_count oc params t + 3"
| "weight oc params (t, Running infos fs left) =
     2 * (length infos - length fs) + length (filter (\<lambda>f. f = InFlight) fs)
       + (if left then 0 else 1) + 1"
| "weight oc params (t, Finished r) = 0"

definition flag_weight :: "export_state \<Rightarrow> nat" where
  "flag_weight st = (if ex_crashed st then 0 else 1) + (if ex_parent st then 0 else 1)"

definition export_weight ::
  "observer_client \<Rightarrow> TraceQueryParams \<Rightarrow> TraceInfo list \<Rightarrow> export_state \<Rightarrow> nat" where
  "export_weight oc params traces st =
     flag_weight st + sum_list (map (weight oc params) (zip traces (ex_tasks st)))"

lemma flag_weight_frame [simp]:
  "flag_weight (set_task i k st) = flag_weight st"
  "flag_weight (record_err e st) = flag_weight st"
  "flag_weight (st\<lparr>ex_truncated := b\<rparr>) = flag_weight st"
  by (simp_all add: flag_weight_def)

lemma lighter_task:
  assumes "length (ex_tasks st) = length traces" "i < length traces"
    and "ex_tasks st' = (ex_tasks st)[i := k]" "flag_weight st' = flag_weight st"
    and "weight oc params (traces ! i, k) < weight oc params (traces ! i, ex_tasks st ! i)"
  shows "export_weight oc params traces st' < export_weight oc params traces st"
proof -
  have "zip traces ((ex_tasks st)[i := k]) = (zip traces (ex_tasks st))[i := (traces ! i, k)]"
    by (simp add: update_zip)
  then show ?thesis
    using sum_list_update_nat[of i "zip traces (ex_tasks st)" "weight oc params" "(traces ! i, k)"] assms
    by (simp add: export_weight_def)
qed

lemma step_lighter:
  assumes "export_step lib oc params traces st st'" and len: "length (ex_tasks st) = length traces"
  shows "export_weight oc params traces st' < export_weight oc params traces st"
  using assms(1)
proof cases
  case (query_ok i resp)
  then show ?thesis
    by (intro lighter_task[OF len, of i _ "Running (tsq_Spans resp) [] False"])
      (auto simp: span_count_def)
next
  case (launch i infos fs)
  then show ?thesis
    by (intro lighter_task[OF len, of i _ "Running infos (fs @ [InFlight]) False"]) auto
next
  case (fetch_skip i infos fs left j)
  with in_flight_returned[of j fs None] show ?thesis
    by (intro lighter_task[OF len, of i _ "Running infos (fs[j := Returned None]) left"]) auto
next
  case (fetch_ok i infos fs left j details sp)
  with in_flight_returned[of j fs "Some sp"] show ?thesis
    by (intro lighter_task[OF len, of i _ "Running infos (fs[j := Returned (Some sp)]) left"]) auto
next
  case (fetch_err i infos fs left j e)
  with in_flight_returned[of j fs None] show ?thesis
    by (intro lighter_task[OF len, of i _ "Running infos (fs[j := Returned None]) left"]) auto
next
  case (start i)
  then show ?thesis by (intro lighter_task[OF len, of i _ Querying]) auto
next
  case (start_cancelled i)
  then show ?thesis by (intro lighter_task[OF len, of i _ "Finished None"]) auto
next
  case (query_err i e)
  then show ?thesis by (intro lighter_task[OF len, of i _ "Finished None"]) auto
next
  case (leave_loop i infos fs)
  then show ?thesis by (intro lighter_task[OF len, of i _ "Running infos fs True"]) auto
next
  case (collect_cancelled i infos fs left)
  then show ?thesis by (intro lighter_task[OF len, of i _ "Finished None"]) auto
next
  case (collect i infos fs left spans rootSpan)
  then show ?thesis
    by (intro lighter_task[OF len, of i _ "Finished (Some (full_trace lib (traces ! i) spans rootSpan))"]) auto
next
  case (collect_no_root i infos fs left spans)
  then show ?thesis by (intro lighter_task[OF len, of i _ "Finished None"]) auto
qed (simp_all add: export_weight_def flag_weight_def)

lemma run_bounded:
  assumes "(export_step lib oc params traces ^^ n) (init_export traces) st"
  shows "n + export_weight oc params traces st \<le> export_weight oc params traces (init_export traces)"
  using assms
proof (induction n arbitrary: st)
  case 0
  then show ?case by simp
next
  case (Suc n)
  then obtain st1 where run: "(export_step lib oc params traces ^^ n) (init_export traces) st1"
    and step: "export_step lib oc params traces st1 st" by auto
  have "length (ex_tasks st1) = length traces"
    using reachable_limits[of lib oc params traces st1] run by (blast intro: relpowp_imp_rtranclp)
  from step_lighter[OF step this] Suc.IH[OF run] show ?case by simp
qed

lemma init_weight:
  "export_weight oc params traces (init_export traces)
     = 2 + (\<Sum>t\<leftarrow>traces. 2 * span_count oc params t + 4)"
proof -
  have "sum_list (map (weight oc params) (zip traces (map (\<lambda>_. Waiting) traces)))
      = (\<Sum>t\<leftarrow>traces. 2 * span_count oc params t + 4)"
    by (induction traces) simp_all
  then show ?thesis by (simp add: export_weight_def init_export_def flag_weight_def)
qed

text \<open>No deadlock: a state that is not final has a step of a goroutine.\<close>

lemma fetch_progress:
  assumes "\<not> ex_crashed st" "i < length traces" "ex_tasks st ! i = Running infos fs left"
    and "j < length fs" "fs ! j = InFlight"
  shows "\<exists>st'. export_step lib oc params traces st st' \<and> ex_parent st' = ex_parent st"
proof (cases "oc_GetSpanDetails oc (ti_TraceID (traces ! i)) (si_SpanID (infos ! j))")
  case (Inl e)
  then show ?thesis using export_step.fetch_err[OF assms, of oc e lib params] by fastforce
next
  case (Inr details)
  show ?thesis
  proof (cases "enrich lib (traces ! i) details")
    case None
    show ?thesis by (intro exI conjI, rule export_step.fetch_panic[OF assms Inr None]) simp
  next
    case (Some sp)
    show ?thesis by (intro exI conjI, rule export_step.fetch_ok[OF assms Inr Some]) simp
  qed
qed

lemma collect_progress:
  assumes "\<not> ex_crashed st" "i < length traces" "ex_tasks st ! i = Running infos fs left"
    and "all_returned infos fs left"
  shows "\<exists>st'. export_step lib oc params traces st st' \<and> ex_parent st' = ex_parent st"
proof (cases "ctx_done st")
  case True
  then show ?thesis using export_step.collect_cancelled[OF assms True] by fastforce
next
  case False
  let ?spans = "sort_key sp_StartTime (fetched_spans fs)"
  have sorted: "mset ?spans = mset (fetched_spans fs)" "sorted (map sp_StartTime ?spans)" by simp_all
  show ?thesis
  proof (cases "find_root (traces ! i) ?spans")
    case None
    then show ?thesis using export_step.collect_no_root[OF assms False sorted None] by fastforce
  next
    case (Some rootSpan)
    then show ?thesis using export_step.collect[OF assms False sorted Some] by fastforce
  qed
qed

lemma export_progress:
  assumes reach: "(export_step lib oc params traces)\<^sup>*\<^sup>* (init_export traces) st"
    and "\<not> export_final st" and nc: "\<not> ex_crashed st"
  shows "\<exists>st'. export_step lib oc params traces st st' \<and> ex_parent st' = ex_parent st"
proof -
  have len: "length (ex_tasks st) = length traces" using reachable_limits[OF reach] by simp
  have ok: "tasks_ok lib oc params traces st" by (rule reachable_ok[OF reach])
  consider (query) i where "i < length traces" "ex_tasks st ! i = Querying"
    | (fetch) i infos fs left j where "i < length traces" "ex_tasks st ! i = Running infos fs left"
        "j < length fs" "fs ! j = InFlight"
    | (quiet) i infos fs left where "i < length traces" "ex_tasks st ! i = Running infos fs left"
        "\<forall>k \<in> set (ex_tasks st). task_in_flight k = 0"
    | (idle) i where "i < length traces" "ex_tasks st ! i = Waiting"
        "\<forall>k \<in> set (ex_tasks st). \<not> holds_outer k"
  proof -
    obtain i where i: "i < length traces" "\<not> is_finished (ex_tasks st ! i)"
      using assms(2) len by (auto simp: export_final_def list_all_length)
    show thesis
    proof (cases "\<exists>k \<in> set (ex_tasks st). holds_outer k")
      case True
      then obtain a where a: "a < length traces" "holds_outer (ex_tasks st ! a)"
        using len by (auto simp: in_set_conv_nth)
      show thesis
      proof (cases "ex_tasks st ! a")
        case (Running infos fs left)
        show thesis
        proof (cases "\<forall>k \<in> set (ex_tasks st). task_in_flight k = 0")
          case True
          with a Running show thesis by (blast intro: quiet)
        next
          case False
          then obtain b where b: "b < length traces" "task_in_flight (ex_tasks st ! b) \<noteq> 0"
            using len by (auto simp: in_set_conv_nth)
          then obtain infos' fs' left' where r: "ex_tasks st ! b = Running infos' fs' left'"
            by (cases "ex_tasks st ! b") auto
          with b(2) obtain j where "j < length fs'" "fs' ! j = InFlight"
            by (auto simp: filter_empty_conv in_set_conv_nth)
          with b(1) r show thesis by (blast intro: fetch)
        qed
      qed (use a query in auto)
    next
      case False
      then have "ex_tasks st ! i = Waiting"
        using i len nth_mem[of i "ex_tasks st"] by (cases "ex_tasks st ! i") auto
      with False i show thesis by (blast intro: idle)
    qed
  qed
  then show ?thesis
  proof cases
    case query
    show ?thesis
    proof (cases "query_spans oc params (traces ! i)")
      case (Inl e)
      then show ?thesis using export_step.query_err[OF nc query, of oc params e] by fastforce
    next
      case (Inr resp)
      show ?thesis using export_step.query_ok[OF nc query Inr] by fastforce
    qed
  next
    case fetch
    then show ?thesis by (rule fetch_progress[OF nc])
  next
    case quiet
    have fl: "in_flight st < maxConcurrentFetches"
    proof -
      have "sum_list (map task_in_flight (ex_tasks st)) = 0" using quiet(3) by simp
      then show ?thesis unfolding in_flight_def maxConcurrentFetches_def by linarith
    qed
    have none: "InFlight \<notin> set fs"
    proof -
      have "task_in_flight (ex_tasks st ! i) = 0" using quiet(1,3) len by (simp add: nth_mem)
      then show ?thesis using quiet(2) by (auto simp: filter_empty_conv)
    qed
    have "length fs \<le> length infos" using ok_at[OF ok quiet(1)] quiet(2) by simp
    show ?thesis
    proof (cases "\<not> left \<and> length fs < length infos")
      case True
      then have "ex_tasks st ! i = Running infos fs False" "length fs < length infos"
        using quiet(2) by auto
      from export_step.launch[OF nc quiet(1) this fl] show ?thesis by fastforce
    next
      case False
      then have "all_returned infos fs left"
        using none \<open>length fs \<le> length infos\<close> by (auto simp: all_returned_def)
      with quiet nc show ?thesis by (intro collect_progress)
    qed
  next
    case idle
    then have "active st < maxConcurrentTraces"
      by (simp add: active_def maxConcurrentTraces_def filter_False)
    then show ?thesis
      using export_step.start[OF nc idle(1,2)] export_step.start_cancelled[OF nc idle(1,2)]
      by (cases "ctx_done st") fastforce+
  qed
qed

section \<open>A caller that goes away\<close>

text \<open>
  When the caller's context is cancelled before any task starts, every task returns without
  recording an error: the call then succeeds with no trace at all.
\<close>

lemma update_replicates:
  "n < m \<Longrightarrow> (replicate n a @ replicate (m - n) b)[n := a] = replicate (Suc n) a @ replicate (m - Suc n) b"
proof -
  assume "n < m"
  then obtain k where "m = n + Suc k" using less_iff_Suc_add by auto
  then show ?thesis by (simp add: list_update_append replicate_app_Cons_same)
qed

lemma cancelled_tasks_finish:
  assumes "ex_parent st" "ex_err st = None" "\<not> ex_crashed st" "n \<le> length traces"
    and "ex_tasks st = replicate n (Finished None) @ replicate (length traces - n) Waiting"
  shows "\<exists>st'. (export_step lib oc params traces)\<^sup>*\<^sup>* st st'
      \<and> ex_tasks st' = replicate (length traces) (Finished None)
      \<and> ex_parent st' \<and> ex_err st' = None \<and> \<not> ex_crashed st' \<and> ex_truncated st' = ex_truncated st"
  using assms
proof (induction "length traces - n" arbitrary: n st)
  case 0
  then show ?case by (intro exI[of _ st]) auto
next
  case (Suc m)
  let ?st = "set_task n (Finished None) st"
  have n: "n < length traces" using Suc.hyps by simp
  have "ex_tasks st ! n = Waiting" using Suc.prems n by (simp add: nth_append)
  moreover have "active st < maxConcurrentTraces"
    using Suc.prems(5) by (simp add: active_def maxConcurrentTraces_def filter_False)
  ultimately have step: "export_step lib oc params traces st ?st"
    using Suc.prems n by (intro export_step.start_cancelled) (auto simp: ctx_done_def)
  have "ex_tasks ?st = replicate (Suc n) (Finished None) @ replicate (length traces - Suc n) Waiting"
    using Suc.prems(5) update_replicates[OF n] by (simp only: state_simps)
  moreover have "m = length traces - Suc n" using Suc.hyps(2) by simp
  ultimately have "\<exists>st'. (export_step lib oc params traces)\<^sup>*\<^sup>* ?st st'
      \<and> ex_tasks st' = replicate (length traces) (Finished None)
      \<and> ex_parent st' \<and> ex_err st' = None \<and> \<not> ex_crashed st' \<and> ex_truncated st' = ex_truncated ?st"
    using Suc.hyps(1)[of "Suc n" ?st] Suc.prems n by (simp only: state_simps Suc_le_eq simp_thms)
  then show ?case using converse_rtranclp_into_rtranclp[where r = "export_step lib oc params traces", OF step]
    by (simp only: state_simps) blast
qed

lemma cancelled_export_is_empty:
  assumes "oc_QueryTraces oc (traces_request params) = Inr tr"
  shows "ExportTraces lib oc params True
     (Some (Inr \<lparr>ter_Traces = [], ter_TotalCount = tqr_Total tr, ter_Truncated = False\<rparr>))"
proof (cases "tqr_Traces tr = []")
  case True
  with assms show ?thesis by (rule ExportTraces.no_traces)
next
  case False
  let ?traces = "tqr_Traces tr"
  let ?st = "(init_export ?traces)\<lparr>ex_parent := True\<rparr>"
  have step: "export_step lib oc params ?traces (init_export ?traces) ?st"
    by (rule export_step.parent_cancel) (simp_all add: init_export_def)
  have "ex_tasks ?st = replicate 0 (Finished None) @ replicate (length ?traces - 0) Waiting"
    by (simp add: init_export_def map_replicate_const)
  moreover have "ex_parent ?st" "ex_err ?st = None" "\<not> ex_crashed ?st" "\<not> ex_truncated ?st"
    by (simp_all add: init_export_def)
  ultimately obtain st' where st':
    "(export_step lib oc params ?traces)\<^sup>*\<^sup>* ?st st'"
    "ex_tasks st' = replicate (length ?traces) (Finished None)"
    "ex_parent st'" "ex_err st' = None" "\<not> ex_crashed st'" "\<not> ex_truncated st'"
    using cancelled_tasks_finish[of ?st 0 ?traces lib oc params] by blast
  have "List.map_filter task_result (replicate n (Finished None)) = []" for n
    by (induction n) (simp_all add: List.map_filter_simps)
  then have "export_response (tqr_Total tr) st'
      = Inr \<lparr>ter_Traces = [], ter_TotalCount = tqr_Total tr, ter_Truncated = False\<rparr>"
    using st' by (simp add: export_response_def)
  moreover have "export_final st'" using st'(2) by (simp add: export_final_def list_all_iff)
  ultimately show ?thesis
    using ExportTraces.returned[OF assms False converse_rtranclp_into_rtranclp[OF step st'(1)]] st'
    by auto
qed

end
