(* ===== verification/TraceProperties.thy ===== *)
theory TraceProperties
  imports TraceExport
begin

text \<open>
  What the traces observer service promises: properties of enriching spans, of the overviews and of
  the export, each with a concrete instance where it has hypotheses.
\<close>

section \<open>Messages\<close>

text \<open>C1. Messages written as Traceloop attributes are read back as they were, in whatever order the
  attribute map is met, for prompts and completions alike: messages with a role, with a content that is not just two
  quotes, and with tool calls that have a name (what is not so is left out by the reader), few enough of each for a slice.\<close>

theorem messages_round_trip:
  assumes "\<forall>m \<in> set ms. layable m" "56 * int (length ms) \<le> max_alloc"
    and "pre = ''gen_ai.prompt.'' \<or> pre = ''gen_ai.completion.''"
    and "\<forall>kv \<in> set others. msg_entry pre kv = None"
    and "same_map attrs (encode_messages pre ms @ others)"
  shows "traceloop_messages pre attrs = Some ms"
  using encoded_messages_read_back[OF assms(1,2) _ assms(4,5)] assms(3) by (simp add: msg_prefix_def)

definition sample_messages :: "PromptMessage list" where
  "sample_messages =
     [\<lparr>pm_Role = ''user'', pm_Content = ''hi'', pm_ToolCalls = []\<rparr>,
      \<lparr>pm_Role = ''assistant'', pm_Content = [],
       pm_ToolCalls = [\<lparr>tc_ID = ''a'', tc_Name = ''f'', tc_Arguments = ''{}''\<rparr>]\<rparr>]"

lemma sample_encoding:
  "encode_messages ''gen_ai.prompt.'' sample_messages =
     [(''gen_ai.prompt.0.role'', VStr ''user''), (''gen_ai.prompt.0.content'', VStr ''hi''),
      (''gen_ai.prompt.1.role'', VStr ''assistant''),
      (''gen_ai.prompt.1.tool_calls.0.id'', VStr ''a''), (''gen_ai.prompt.1.tool_calls.0.name'', VStr ''f''),
      (''gen_ai.prompt.1.tool_calls.0.arguments'', VStr ''{}'')]"
  by code_simp

theorem messages_round_trip_witness:
  "traceloop_messages ''gen_ai.prompt.''
     ([(''llm.x'', VBool True)] @ rev (encode_messages ''gen_ai.prompt.'' sample_messages)) = Some sample_messages"
proof (rule messages_round_trip[where others = "[(''llm.x'', VBool True)]"])
  show "\<forall>m \<in> set sample_messages. layable m"
    by (simp add: sample_messages_def layable_def empty_quotes_def max_alloc_def)
  show "56 * int (length sample_messages) \<le> max_alloc" by (simp add: sample_messages_def max_alloc_def)
  show "\<forall>kv \<in> set [(''llm.x'', VBool True)]. msg_entry ''gen_ai.prompt.'' kv = None"
    by (simp add: msg_entry_def)
  show "same_map ([(''llm.x'', VBool True)] @ rev (encode_messages ''gen_ai.prompt.'' sample_messages))
      (encode_messages ''gen_ai.prompt.'' sample_messages @ [(''llm.x'', VBool True)])"
    unfolding sample_encoding by (auto simp: same_map_def)
qed simp

section \<open>Enriched spans\<close>

definition plain_lib :: go_lib where
  "plain_lib = \<lparr>lib_parse_time = (\<lambda>_. None), lib_format_time = (\<lambda>_. []), lib_scan_float = (\<lambda>_. None)\<rparr>"

definition sample_attributes :: gmap where
  "sample_attributes =
     [(''traceloop.span.kind'', VStr ''llm''), (''gen_ai.prompt.0.role'', VStr ''user''),
      (''gen_ai.prompt.0.content'', VStr ''hi''), (''gen_ai.usage.input_tokens'', VF64 (Fin 3))]"

text \<open>C3. What enriching adds to a span does not depend on the order in which Go iterates over the
  attribute map, as long as no two keys address the same slot of the same message, tool or document.\<close>

theorem enrichment_ignores_map_order:
  assumes "same_map xs ys" and "loops_collision_free xs"
  shows "map_option sp_AmpAttributes (ProcessSpan lib (sp\<lparr>sp_Attributes := Some xs\<rparr>))
       = map_option sp_AmpAttributes (ProcessSpan lib (sp\<lparr>sp_Attributes := Some ys\<rparr>))"
  by (rule ProcessSpan_same_map[OF assms])

theorem enrichment_ignores_map_order_witness:
  "map_option sp_AmpAttributes (ProcessSpan plain_lib (zero_span\<lparr>sp_Attributes := Some sample_attributes\<rparr>))
   = map_option sp_AmpAttributes
       (ProcessSpan plain_lib (zero_span\<lparr>sp_Attributes := Some (rev sample_attributes)\<rparr>))"
proof (rule enrichment_ignores_map_order)
  show "same_map sample_attributes (rev sample_attributes)"
    by (auto simp: same_map_def sample_attributes_def)
  have "map (entry_slot ''gen_ai.prompt.'') sample_attributes = [None, Some (0, SlotRole), Some (0, SlotContent), None]"
    "map (entry_slot ''gen_ai.completion.'') sample_attributes = [None, None, None, None]"
    "map tool_slot sample_attributes = [None, None, None, None]"
    "map (\<lambda>kv. map_option fst (doc_entry kv)) sample_attributes = [None, None, Some 0, None]"
    by code_simp+
  then show "loops_collision_free sample_attributes"
    by (simp add: loops_collision_free_def no_collision_def slots_apart_def sample_attributes_def)
qed

text \<open>C4. Processing an LLM span panics exactly when one of its loops is entered with an index too large for its slice:
  the prompt or the completion loop, for a message or a tool call, or the tool loop, where no OTEL text that yields
  something takes the loop's place. An embedding span panics exactly when a document's index is too large. These are the
  panics of make; that the other kinds of span have no such loop is how they are modelled, and not a claim here.\<close>

theorem spans_panic_on_oversized_indices:
  assumes "sp_Attributes sp = Some attrs"
  shows "(DetermineSpanType sp = SpanTypeLLM \<longrightarrow> (ProcessSpan lib sp = None \<longleftrightarrow>
        \<not> otel_messages attrs ''gen_ai.input.messages'' \<and> messages_oversize ''gen_ai.prompt.'' attrs
        \<or> \<not> otel_messages attrs ''gen_ai.output.messages'' \<and> messages_oversize ''gen_ai.completion.'' attrs
        \<or> \<not> otel_tools attrs \<and> tools_oversize attrs))
    \<and> (DetermineSpanType sp = SpanTypeEmbedding \<longrightarrow> (ProcessSpan lib sp = None \<longleftrightarrow> documents_oversize attrs))"
  using ProcessSpan_panics[OF assms] by (simp add: llm_oversize_def)

definition llm_span :: "gmap \<Rightarrow> Span" where
  "llm_span attrs = zero_span\<lparr>sp_Attributes := Some ((''traceloop.span.kind'', VStr ''llm'') # attrs)\<rparr>"

theorem spans_panic_on_oversized_indices_witness:
  "ProcessSpan plain_lib (llm_span [(''gen_ai.completion.0.tool_calls.4611686018427387904.id'', VStr ''c'')]) = None
   \<and> ProcessSpan plain_lib (llm_span [(''gen_ai.prompt.7.role'', VStr ''user'')]) \<noteq> None"
proof -
  let ?big = "(''gen_ai.completion.0.tool_calls.4611686018427387904.id'', VStr ''c'')"
  let ?small = "(''gen_ai.prompt.7.role'', VStr ''user'')"
  let ?kind = "(''traceloop.span.kind'', VStr ''llm'')"
  note iff = spans_panic_on_oversized_indices[where lib = plain_lib, THEN conjunct1, rule_format]
  have llm: "sp_Attributes (llm_span attrs) = Some (?kind # attrs)" for attrs by (simp add: llm_span_def)
  have kinds: "DetermineSpanType (llm_span [?big]) = SpanTypeLLM" "DetermineSpanType (llm_span [?small]) = SpanTypeLLM"
    by code_simp+
  have entries: "msg_entry ''gen_ai.completion.'' ?big = Some (0, PartCall 4611686018427387904 (CallId ''c''))"
    "msg_entry ''gen_ai.prompt.'' ?small = Some (7, PartRole ''user'')" "msg_entry ''gen_ai.completion.'' ?small = None"
    "msg_entry ''gen_ai.prompt.'' ?kind = None" "msg_entry ''gen_ai.completion.'' ?kind = None"
    "tool_entry ?kind = None" "tool_entry ?small = None"
    by code_simp+
  have "\<not> otel_messages [?kind, ?big] ''gen_ai.output.messages''" by (simp add: otel_messages_def get_defs)
  moreover have "messages_oversize ''gen_ai.completion.'' [?kind, ?big]"
    using entries by (simp add: messages_oversize_def oversize_def max_alloc_def)
  ultimately have "ProcessSpan plain_lib (llm_span [?big]) = None" using iff[OF llm kinds(1)] by blast
  moreover have "\<not> messages_oversize ''gen_ai.prompt.'' [?kind, ?small]"
      "\<not> messages_oversize ''gen_ai.completion.'' [?kind, ?small]" "\<not> tools_oversize [?kind, ?small]"
    using entries by (simp_all add: messages_oversize_def tools_oversize_def oversize_def max_alloc_def)
  then have "ProcessSpan plain_lib (llm_span [?small]) \<noteq> None" using iff[OF llm kinds(2)] by blast
  ultimately show ?thesis by blast
qed

text \<open>Processing a span only fills in its enrichment, whose kind is the span's semantic kind and
  whose status is the span's error status; processing the result again changes nothing.\<close>

theorem processing_frame_and_idempotence:
  assumes "ProcessSpan lib sp = Some sp'"
  shows "ProcessSpan lib sp' = Some sp' \<and> (\<exists>a. sp' = sp\<lparr>sp_AmpAttributes := Some a\<rparr>
      \<and> amp_Kind a = span_type_string (DetermineSpanType sp)
      \<and> amp_Status a = Some (extractSpanStatus (sp_Attributes sp) (sp_Status sp)))"
  using ProcessSpan_idem[OF assms] ProcessSpan_frame[OF assms] by blast

definition failed_tool_span :: Span where
  "failed_tool_span = zero_span\<lparr>sp_Name := ''search.tool'', sp_Status := ''error'',
     sp_Attributes := Some [(''gen_ai.tool.name'', VStr ''search'')]\<rparr>"

theorem processing_frame_and_idempotence_witness:
  "\<exists>sp'. ProcessSpan plain_lib failed_tool_span = Some sp' \<and> ProcessSpan plain_lib sp' = Some sp'"
proof -
  have "ProcessSpan plain_lib failed_tool_span \<noteq> None" by code_simp
  then obtain sp' where p: "ProcessSpan plain_lib failed_tool_span = Some sp'" by blast
  show ?thesis using processing_frame_and_idempotence[OF p] p by blast
qed

text \<open>Parsing a search response keeps, in their order, the first span of every trace and span id
  and every span that lacks one of the two ids; it is the enrichment of the documents' fields followed by a
  de-duplication.\<close>

theorem parsed_spans_deduplicated:
  assumes "ParseSpans lib hits = Some spans"
  shows "\<exists>sps. map (\<lambda>h. ProcessSpan lib (source_fields lib h)) hits = map Some sps \<and> subseq spans sps
    \<and> distinct (List.map_filter span_key spans)
    \<and> (\<forall>sp \<in> set sps. sp \<in> set spans \<or> (\<exists>sp' \<in> set spans. span_key sp' = span_key sp \<and> span_key sp \<noteq> None))"
proof -
  from assms obtain sps where sps: "seq_options (map (parseSpan lib) hits) = Some sps"
    and spans: "spans = dedup_spans {} sps"
    by (auto simp: ParseSpans_def parse_hits_dedup)
  have "map (\<lambda>h. ProcessSpan lib (source_fields lib h)) hits = map Some sps"
    using sps by (simp add: seq_options_Some parseSpan_is_ProcessSpan[symmetric])
  moreover have "sp \<in> set spans \<or> (\<exists>sp' \<in> set spans. span_key sp' = span_key sp \<and> span_key sp \<noteq> None)"
    if "sp \<in> set sps" for sp
    using dedup_covers[OF that, of "{}"] by (auto simp: spans List.map_filter_def)
  ultimately show ?thesis using dedup_subseq[of "{}" sps] dedup_keys[of "{}" sps] spans by blast
qed

definition two_hits :: "gmap list" where
  "two_hits = [[(''traceId'', VStr ''t''), (''spanId'', VStr ''s''), (''name'', VStr ''first'')],
     [(''traceId'', VStr ''t''), (''spanId'', VStr ''s''), (''name'', VStr ''second'')]]"

theorem parsed_spans_deduplicated_witness:
  "\<exists>spans. ParseSpans plain_lib two_hits = Some spans \<and> map sp_Name spans = [''first'']
     \<and> distinct (List.map_filter span_key spans)"
proof -
  have "map_option (map sp_Name) (ParseSpans plain_lib two_hits) = Some [''first'']" by code_simp
  then obtain spans :: "Span list" where p: "ParseSpans plain_lib two_hits = Some spans" "map sp_Name spans = [''first'']"
    unfolding map_option_eq_Some by (elim exE conjE)
  have "distinct (List.map_filter span_key spans)" using parsed_spans_deduplicated[OF p(1)] by (elim exE conjE)
  with p show ?thesis by (intro exI[of _ spans] conjI)
qed

text \<open>The de-duplication joins the two ids with a colon, so spans of different traces are taken
  for one another when an id contains a colon: the second document is lost.\<close>

theorem ids_with_colons_collide:
  assumes "a \<noteq> []" "b \<noteq> []" "c \<noteq> []"
  shows "map_option (map (\<lambda>sp. (sp_TraceID sp, sp_SpanID sp)))
     (ParseSpans lib [[(''traceId'', VStr a), (''spanId'', VStr (b @ '':'' @ c))],
        [(''traceId'', VStr (a @ '':'' @ b)), (''spanId'', VStr c)]]) = Some [(a, b @ '':'' @ c)]"
proof -
  have p: "parseSpan lib [(''traceId'', VStr x), (''spanId'', VStr y)] = Some (zero_span\<lparr>sp_TraceID := x,
      sp_SpanID := y, sp_AmpAttributes := Some ((new_amp ''unknown'')\<lparr>amp_Status := Some (extractSpanStatus None [])\<rparr>)\<rparr>)"
    for x y
    by (simp add: parseSpan_def source_fields_def source_time_def source_duration_def source_status_def
        str_or_empty_def get_defs DetermineSpanType_def zero_span_def)
  show ?thesis using assms by (simp add: ParseSpans_def p span_key_def)
qed

theorem ids_with_colons_collide_witness:
  "map_option (map (\<lambda>sp. (sp_TraceID sp, sp_SpanID sp)))
     (ParseSpans plain_lib [[(''traceId'', VStr ''1''), (''spanId'', VStr (''2'' @ '':'' @ ''3''))],
        [(''traceId'', VStr (''1'' @ '':'' @ ''2'')), (''spanId'', VStr ''3'')]]) = Some [(''1'', ''2'' @ '':'' @ ''3'')]"
  by (rule ids_with_colons_collide) simp_all

section \<open>Traces\<close>

text \<open>The token usage of a trace is the sum over all of its spans, at 64 bits: a span without
  usage contributes nothing, and no usage is reported when neither sum is positive.\<close>

theorem trace_token_usage_sums:
  "ExtractTokenUsage spans =
     (let i = wrap64 (sum_list (map (fst \<circ> span_tokens) spans));
          j = wrap64 (sum_list (map (snd \<circ> span_tokens) spans))
      in if i > 0 \<or> j > 0
         then Some \<lparr>tu_InputTokens = i, tu_OutputTokens = j, tu_TotalTokens = wrap64 (i + j)\<rparr> else None)"
  using fold_add_usage[of 0 0 spans]
  by (simp add: ExtractTokenUsage_def in_int64_def min_int64_def max_int64_def Let_def)

text \<open>The error count of a trace is the number of its spans with an error status.\<close>

theorem trace_error_count:
  assumes "int (length spans) \<le> max_int64"
  shows "ts_ErrorCount (ExtractTraceStatus spans) =
    int (length (filter (\<lambda>sp. ss_Error (extractSpanStatus (sp_Attributes sp) (sp_Status sp))) spans))"
  using ExtractTraceStatus_acc[of 0 spans] assms by (simp add: ExtractTraceStatus_def)

theorem trace_error_count_witness:
  "ts_ErrorCount (ExtractTraceStatus [failed_tool_span, zero_span]) = 1"
proof -
  have "length (filter (\<lambda>sp. ss_Error (extractSpanStatus (sp_Attributes sp) (sp_Status sp)))
      [failed_tool_span, zero_span]) = 1" by code_simp
  then show ?thesis using trace_error_count[of "[failed_tool_span, zero_span]"] by (simp add: max_int64_def)
qed

text \<open>An explicit span kind decides the kind of a span whatever the other attributes and the name
  say; only a CrewAI task goes before it.\<close>

theorem explicit_span_kind_decides:
  assumes "sp_Attributes sp = Some attrs" and "get_str attrs ''traceloop.span.kind'' = Some k"
    and "traceloop_kind k = Some t"
  shows "DetermineSpanType sp =
    (if has_key_prefix attrs ''crewai.task'' \<and> to_lower k = ''task'' then SpanTypeCrewAITask else t)"
  using assms explicit_kind_wins[OF assms] by (auto simp: DetermineSpanType_def hasCrewAITask_iff)

definition agent_attributes :: gmap where
  "agent_attributes = [(''gen_ai.tool.name'', VStr ''f''), (''traceloop.span.kind'', VStr ''agent'')]"

theorem explicit_span_kind_decides_witness:
  "DetermineSpanType (zero_span\<lparr>sp_Name := ''x.llm'', sp_Attributes := Some agent_attributes\<rparr>) = SpanTypeAgent"
proof -
  have "get_str agent_attributes ''traceloop.span.kind'' = Some ''agent''"
    "traceloop_kind ''agent'' = Some SpanTypeAgent" "\<not> has_key_prefix agent_attributes ''crewai.task''"
    by code_simp+
  then show ?thesis
    using explicit_span_kind_decides[of "zero_span\<lparr>sp_Name := ''x.llm'', sp_Attributes := Some agent_attributes\<rparr>"]
    by simp
qed

section \<open>Overviews\<close>

text \<open>A trace whose root span cannot be read is left out of the overviews and disturbs no other:
  the answer lists, in the order of the traces, the overview of every trace whose root span was fetched,
  under the total the observer reported.\<close>

theorem overviews_skip_failed_roots:
  assumes "GetTraceOverviews lib oc params = Some (Inr resp)"
  shows "\<exists>tr. oc_QueryTraces oc (traces_request params) = Inr tr \<and> tor_TotalCount resp = tqr_Total tr
    \<and> tor_Traces resp = List.map_filter
        (\<lambda>t. Option.bind (root_result lib oc t) (map_option (overview_of lib t))) (tqr_Traces tr)"
  using overviews_of_traces[OF assms] by blast

definition sample_params :: TraceQueryParams where
  "sample_params = \<lparr>qp_Organization = ''o'', qp_Project = None, qp_Agent = None, qp_Environment = None,
     qp_StartTime = 0, qp_EndTime = 9, qp_Limit = 10, qp_SortOrder = ''desc''\<rparr>"

definition sample_trace :: "string \<Rightarrow> TraceInfo" where
  "sample_trace i = \<lparr>ti_TraceID = i, ti_TraceName = ''n'', ti_SpanCount = 1, ti_RootSpanID = ''r'',
     ti_RootSpanName = ''root'', ti_RootSpanKind = ''server'', ti_StartTime = 1, ti_EndTime = 2,
     ti_DurationNs = 1\<rparr>"

definition sample_details :: SpanDetailsResponse where
  "sample_details = \<lparr>sd_SpanID = ''r'', sd_SpanName = ''root'', sd_ParentSpanID = [], sd_StartTime = 1,
     sd_EndTime = 2, sd_DurationNs = 1, sd_Kind = ''server'', sd_Status = ''ok'', sd_Attributes = None,
     sd_ResourceAttributes = None\<rparr>"

text \<open>An observer with the traces given, whose trace \<open>bad\<close> has no span details.\<close>

definition sample_client :: "string list \<Rightarrow> observer_client" where
  "sample_client ts =
     \<lparr>oc_QueryTraces = (\<lambda>_. Inr \<lparr>tqr_Traces = map sample_trace ts, tqr_Total = 7, tqr_TookMs = 0\<rparr>),
      oc_QueryTraceSpans = (\<lambda>_ _. Inr \<lparr>tsq_Spans = [\<lparr>si_SpanID = ''r'', si_SpanName = ''root'',
         si_ParentSpanID = [], si_StartTime = 1, si_EndTime = 2, si_DurationNs = 1\<rparr>], tsq_Total = 1,
         tsq_TookMs = 0\<rparr>),
      oc_GetSpanDetails = (\<lambda>t _. if t = ''bad'' then Inl ''gone'' else Inr sample_details)\<rparr>"

theorem overviews_skip_failed_roots_witness:
  "\<exists>resp. GetTraceOverviews plain_lib (sample_client [''a'', ''bad'', ''b'']) sample_params = Some (Inr resp)
     \<and> tor_TotalCount resp = 7"
proof -
  have "case GetTraceOverviews plain_lib (sample_client [''a'', ''bad'', ''b'']) sample_params of
      Some (Inr _) \<Rightarrow> True | _ \<Rightarrow> False"
    by code_simp
  then obtain resp :: TraceOverviewResponse where
    r: "GetTraceOverviews plain_lib (sample_client [''a'', ''bad'', ''b'']) sample_params = Some (Inr resp)"
    by (auto split: option.splits sum.splits)
  show ?thesis using overviews_skip_failed_roots[OF r] r by (auto simp: sample_client_def)
qed

text \<open>C2. A message index beyond what a slice can hold, in an attribute key of an LLM span, makes the extraction panic
  wherever it stands in the map, unless a gen_ai.input.messages text that yields messages takes the loop's
  place. When the span is the root span of one listed trace, the call for the
  overviews of all the traces has no result: the model's None, a panic in one of its goroutines, which the code does not
  recover. Neither has GetSpanDetail for that span, where the panic is in the goroutine of the request.\<close>

theorem huge_message_index_panics:
  assumes listed: "oc_QueryTraces oc (traces_request params) = Inr tr" "t \<in> set (tqr_Traces tr)" "ti_RootSpanID t \<noteq> []"
    and details: "oc_GetSpanDetails oc (ti_TraceID t) (ti_RootSpanID t) = Inr d" "sd_Attributes d = Some attrs"
    and kind: "DetermineSpanType (ConvertSpanDetailsToSpan (ti_TraceID t) d) = SpanTypeLLM"
    and huge: "(k, v) \<in> set attrs" "msg_entry ''gen_ai.prompt.'' (k, v) = Some (i, p)" "56 * (i + 1) > max_alloc"
    and no_text: "\<forall>s. get_str attrs ''gen_ai.input.messages'' = Some s \<longrightarrow> s = [] \<or> parseOTELMessages s = []"
  shows "ExtractPromptMessages attrs = None \<and> GetSpanDetail lib oc (ti_TraceID t) (ti_RootSpanID t) = None
    \<and> GetTraceOverviews lib oc params = None"
proof -
  let ?sp = "ConvertSpanDetailsToSpan (ti_TraceID t) d"
  have "messages_oversize ''gen_ai.prompt.'' attrs"
    using huge by (auto simp: messages_oversize_def oversize_def)
  moreover have "\<not> otel_messages attrs ''gen_ai.input.messages''" using no_text by (auto simp: otel_messages_def)
  ultimately have over: "llm_oversize attrs" and prompt: "ExtractPromptMessages attrs = None"
    by (simp_all add: llm_oversize_def extraction_panics)
  have "sp_Attributes ?sp = Some attrs" using details(2) by (simp add: ConvertSpanDetailsToSpan_def)
  then have "ProcessSpan lib ?sp = None" using ProcessSpan_panics(1) kind over by blast
  then have "root_result lib oc t = None" "GetSpanDetail lib oc (ti_TraceID t) (ti_RootSpanID t) = None"
    using listed(3) details(1) by (simp_all add: root_result_def GetSpanDetail_def)
  moreover from this(1) have "GetTraceOverviews lib oc params = None"
    unfolding overviews_crash using listed(1,2) by (intro exI conjI)
  ultimately show ?thesis using prompt by blast
qed

definition huge_details :: SpanDetailsResponse where
  "huge_details = sample_details\<lparr>sd_Attributes :=
     Some [(''traceloop.span.kind'', VStr ''llm''), (''gen_ai.input.messages'', VStr ''[]''),
       (''gen_ai.prompt.4611686018427387904.role'', VStr ''user'')]\<rparr>"

theorem huge_message_index_panics_witness:
  "GetTraceOverviews plain_lib ((sample_client [''a'', ''b''])\<lparr>oc_GetSpanDetails :=
     (\<lambda>t _. Inr (if t = ''b'' then huge_details else sample_details))\<rparr>) sample_params = None"
proof (rule huge_message_index_panics[where t = "sample_trace ''b''" and d = huge_details
      and tr = "\<lparr>tqr_Traces = map sample_trace [''a'', ''b''], tqr_Total = 7, tqr_TookMs = 0\<rparr>"
      and attrs = "attrs_of (sd_Attributes huge_details)", THEN conjunct2, THEN conjunct2])
  show "DetermineSpanType (ConvertSpanDetailsToSpan (ti_TraceID (sample_trace ''b'')) huge_details) = SpanTypeLLM"
    by code_simp
  show "msg_entry ''gen_ai.prompt.'' (''gen_ai.prompt.4611686018427387904.role'', VStr ''user'')
      = Some (4611686018427387904, PartRole ''user'')" by code_simp
  have "parseOTELMessages ''[]'' = []" by code_simp
  then show "\<forall>s. get_str (attrs_of (sd_Attributes huge_details)) ''gen_ai.input.messages'' = Some s
      \<longrightarrow> s = [] \<or> parseOTELMessages s = []"
    by (simp add: huge_details_def get_defs)
qed (simp_all add: sample_client_def sample_trace_def huge_details_def max_alloc_def)

section \<open>The export\<close>

text \<open>One run of the export of a single trace, step by step.\<close>

abbreviation one_trace :: "TraceInfo list" where
  "one_trace \<equiv> [sample_trace ''a'']"

definition sample_span :: Span where
  "sample_span = the (enrich plain_lib (sample_trace ''a'') sample_details)"

lemma sample_enriched: "enrich plain_lib (sample_trace ''a'') sample_details = Some sample_span"
proof -
  have "enrich plain_lib (sample_trace ''a'') sample_details \<noteq> None" by code_simp
  then show ?thesis by (auto simp: sample_span_def)
qed

lemma sample_root: "sp_ParentSpanID sample_span = []" "find_root t [sample_span] \<noteq> None"
proof -
  show "sp_ParentSpanID sample_span = []" by code_simp
  then show "find_root t [sample_span] \<noteq> None" by (simp add: find_root_None)
qed

abbreviation sample_step :: "export_state \<Rightarrow> export_state \<Rightarrow> bool" where
  "sample_step \<equiv> export_step plain_lib (sample_client [''a'']) sample_params one_trace"

definition sample_state :: "task \<Rightarrow> export_state" where
  "sample_state k = (init_export one_trace)\<lparr>ex_tasks := [k]\<rparr>"

lemma sample_state_simps [simp]:
  "ex_tasks (sample_state k) = [k]" "ex_crashed (sample_state k) = False" "ctx_done (sample_state k) = False"
  "ex_err (sample_state k) = None" "ex_parent (sample_state k) = False" "ex_truncated (sample_state k) = False"
  "set_task 0 k' (sample_state k) = sample_state k'" "init_export one_trace = sample_state Waiting"
  by (simp_all add: sample_state_def init_export_def ctx_done_def set_task_def)

abbreviation sample_infos :: "SpanInfo list" where
  "sample_infos \<equiv> [\<lparr>si_SpanID = ''r'', si_SpanName = ''root'', si_ParentSpanID = [], si_StartTime = 1,
     si_EndTime = 2, si_DurationNs = 1\<rparr>]"

definition sample_export :: FullTrace where
  "sample_export = full_trace plain_lib (sample_trace ''a'') [sample_span]
     (the (find_root (sample_trace ''a'') [sample_span]))"

lemma sample_client_simps [simp]:
  "query_spans (sample_client ts) params t = Inr \<lparr>tsq_Spans = sample_infos, tsq_Total = 1, tsq_TookMs = 0\<rparr>"
  "oc_GetSpanDetails (sample_client ts) ''a'' i = Inr sample_details"
  "oc_QueryTraces (sample_client ts) q = Inr \<lparr>tqr_Traces = map sample_trace ts, tqr_Total = 7, tqr_TookMs = 0\<rparr>"
  "ti_SpanCount (sample_trace i) = 1" "ti_TraceID (sample_trace i) = i"
  "(sample_state k)\<lparr>ex_truncated := False\<rparr> = sample_state k"
  by (simp_all add: sample_client_def query_spans_def sample_trace_def sample_state_def init_export_def)

lemma sample_steps:
  "sample_step (sample_state Waiting) (sample_state Querying)"
  "sample_step (sample_state Querying) (sample_state (Running sample_infos [] False))"
  "sample_step (sample_state (Running sample_infos [] False)) (sample_state (Running sample_infos [InFlight] False))"
  "sample_step (sample_state (Running sample_infos [InFlight] False))
     (sample_state (Running sample_infos [Returned (Some sample_span)] False))"
  "sample_step (sample_state (Running sample_infos [Returned (Some sample_span)] False))
     (sample_state (Finished (Some sample_export)))"
proof -
  show "sample_step (sample_state Waiting) (sample_state Querying)"
    using export_step.start[of "sample_state Waiting" 0 one_trace]
    by (simp add: active_def maxConcurrentTraces_def)
  show "sample_step (sample_state Querying) (sample_state (Running sample_infos [] False))"
    using export_step.query_ok[of "sample_state Querying" 0 one_trace "sample_client [''a'']" sample_params
        "\<lparr>tsq_Spans = sample_infos, tsq_Total = 1, tsq_TookMs = 0\<rparr>"]
    by (simp add: MaxSpansPerRequest_def)
  show "sample_step (sample_state (Running sample_infos [] False)) (sample_state (Running sample_infos [InFlight] False))"
    using export_step.launch[of "sample_state (Running sample_infos [] False)" 0 one_trace sample_infos "[]"]
    by (simp add: in_flight_def maxConcurrentFetches_def)
  show "sample_step (sample_state (Running sample_infos [InFlight] False))
     (sample_state (Running sample_infos [Returned (Some sample_span)] False))"
    using export_step.fetch_ok[of "sample_state (Running sample_infos [InFlight] False)" 0 one_trace sample_infos
        "[InFlight]" False 0 "sample_client [''a'']" sample_details plain_lib sample_span]
    by (simp add: sample_enriched)
  show "sample_step (sample_state (Running sample_infos [Returned (Some sample_span)] False))
     (sample_state (Finished (Some sample_export)))"
    using sample_root(2)[of "sample_trace ''a''"]
      export_step.collect[of "sample_state (Running sample_infos [Returned (Some sample_span)] False)" 0 one_trace
        sample_infos "[Returned (Some sample_span)]" False "[sample_span]"]
    by (auto simp: sample_export_def all_returned_def fetched_spans_def List.map_filter_simps)
qed

lemma sample_run:
  "(sample_step ^^ 5) (init_export one_trace) (sample_state (Finished (Some sample_export)))"
  "sample_step\<^sup>*\<^sup>* (init_export one_trace) (sample_state (Running sample_infos [InFlight] False))"
  "sample_step\<^sup>*\<^sup>* (init_export one_trace) (sample_state (Finished (Some sample_export)))"
proof -
  show five: "(sample_step ^^ 5) (init_export one_trace) (sample_state (Finished (Some sample_export)))"
    using sample_steps by (simp add: numeral_eq_Suc) blast
  have three: "(sample_step ^^ 3) (init_export one_trace) (sample_state (Running sample_infos [InFlight] False))"
    using sample_steps by (simp add: numeral_eq_Suc) blast
  show "sample_step\<^sup>*\<^sup>* (init_export one_trace) (sample_state (Running sample_infos [InFlight] False))"
    using three by (rule relpowp_imp_rtranclp)
  show "sample_step\<^sup>*\<^sup>* (init_export one_trace) (sample_state (Finished (Some sample_export)))"
    using five by (rule relpowp_imp_rtranclp)
qed

lemma sample_exports:
  "ExportTraces plain_lib (sample_client [''a'']) sample_params False
     (Some (Inr \<lparr>ter_Traces = [sample_export], ter_TotalCount = 7, ter_Truncated = False\<rparr>))"
  using ExportTraces.returned[of "sample_client [''a'']" sample_params _ plain_lib
      "sample_state (Finished (Some sample_export))"] sample_run(3)
  by (simp add: export_final_def export_response_def List.map_filter_simps)

text \<open>C5. When the caller does not cancel, an export that returns traces returns all of them: one full
  trace per trace found, in their order, each with every span enriched, sorted by start time around its
  root span.\<close>

theorem export_is_complete:
  assumes "ExportTraces lib oc params False (Some (Inr resp))"
    and "oc_QueryTraces oc (traces_request params) = Inr tr"
  shows "list_all2 (exported lib oc params) (tqr_Traces tr) (ter_Traces resp)"
  by (rule export_all_or_nothing[OF assms])

theorem export_is_complete_witness:
  "list_all2 (exported plain_lib (sample_client [''a'']) sample_params) one_trace [sample_export]"
  using export_is_complete[OF sample_exports, of "\<lparr>tqr_Traces = one_trace, tqr_Total = 7, tqr_TookMs = 0\<rparr>"]
  by simp

text \<open>C6. An export whose traces can all be fetched, and that the caller does not cancel, succeeds on
  every schedule of its goroutines: it neither fails nor panics.\<close>

theorem exportable_traces_export:
  assumes "oc_QueryTraces oc (traces_request params) = Inr tr"
    and "\<forall>t \<in> set (tqr_Traces tr). exportable lib oc params t"
    and "ExportTraces lib oc params False out"
  shows "\<exists>resp. out = Some (Inr resp)"
  by (rule exportable_succeeds[OF assms])

lemma sample_exportable: "exportable plain_lib (sample_client ts) sample_params (sample_trace ''a'')"
  unfolding exportable_def using sample_enriched sample_root(2)
  by (intro exI[of _ "\<lparr>tsq_Spans = sample_infos, tsq_Total = 1, tsq_TookMs = 0\<rparr>"] exI[of _ "[sample_span]"])
    (simp add: fetch_span_def)

theorem exportable_traces_export_witness:
  "\<exists>resp. Some (Inr \<lparr>ter_Traces = [sample_export], ter_TotalCount = 7, ter_Truncated = False\<rparr>)
     = (Some (Inr resp) :: (string + TraceExportResponse) option)"
  by (rule exportable_traces_export[OF _ _ sample_exports,
        of "\<lparr>tqr_Traces = one_trace, tqr_Total = 7, tqr_TookMs = 0\<rparr>"]) (simp_all add: sample_exportable)

text \<open>C7. At every moment of an export at most 10 traces are being fetched and at most 50 span requests
  are in flight, over all traces together.\<close>

theorem export_respects_limits:
  assumes "(export_step lib oc params traces)\<^sup>*\<^sup>* (init_export traces) st"
  shows "length (filter holds_outer (ex_tasks st)) \<le> 10 \<and> sum_list (map task_in_flight (ex_tasks st)) \<le> 50"
  using reachable_limits[OF assms]
  by (simp add: within_limits_def active_def in_flight_def maxConcurrentTraces_def maxConcurrentFetches_def)

theorem export_respects_limits_witness:
  "sum_list (map task_in_flight (ex_tasks (sample_state (Running sample_infos [InFlight] False)))) \<le> 50"
  using export_respects_limits[OF sample_run(2)] by simp

text \<open>C8. Every export ends: whatever the schedule, it takes at most 2 steps, 4 for each trace and 2 for
  each span of a trace.\<close>

theorem export_terminates:
  assumes "(export_step lib oc params traces ^^ n) (init_export traces) st"
  shows "n \<le> 2 + (\<Sum>t\<leftarrow>traces. 2 * span_count oc params t + 4)"
  using run_bounded[OF assms] init_weight[of oc params traces] by simp

theorem export_terminates_witness:
  "5 \<le> 2 + (\<Sum>t\<leftarrow>one_trace. 2 * span_count (sample_client [''a'']) sample_params t + 4)"
  by (rule export_terminates[OF sample_run(1)])

text \<open>An export never gets stuck: until every task has finished some goroutine can go on, without
  the caller's help.\<close>

theorem export_never_stuck:
  assumes "(export_step lib oc params traces)\<^sup>*\<^sup>* (init_export traces) st"
    and "\<not> export_final st" and "\<not> ex_crashed st"
  shows "\<exists>st'. export_step lib oc params traces st st' \<and> ex_parent st' = ex_parent st"
  by (rule export_progress[OF assms])

theorem export_never_stuck_witness:
  "\<exists>st'. sample_step (sample_state (Running sample_infos [InFlight] False)) st' \<and> \<not> ex_parent st'"
  using export_never_stuck[OF sample_run(2)] by (simp add: export_final_def)

text \<open>C9. When the caller cancels, an export can report success with none of the traces, under the total
  count of all of them: the comment on the function says that any single failure aborts the entire export.\<close>

theorem cancelled_export_reports_success:
  assumes "oc_QueryTraces oc (traces_request params) = Inr tr"
  shows "ExportTraces lib oc params True
    (Some (Inr \<lparr>ter_Traces = [], ter_TotalCount = tqr_Total tr, ter_Truncated = False\<rparr>))"
  by (rule cancelled_export_is_empty[OF assms])

theorem cancelled_export_reports_success_witness:
  "ExportTraces plain_lib (sample_client [''a'']) sample_params True
    (Some (Inr \<lparr>ter_Traces = [], ter_TotalCount = 7, ter_Truncated = False\<rparr>))"
  using cancelled_export_reports_success[of "sample_client [''a'']" sample_params
      "\<lparr>tqr_Traces = one_trace, tqr_Total = 7, tqr_TookMs = 0\<rparr>"] by simp

end
