(* ===== verification/WsConnection.thy ===== *)
theory WsConnection
  imports GoNumbers "HOL-Library.Word"
begin

text \<open>
  One gateway connection and its delivery statistics
  (\<open>agent-manager-service/websocket/connection.go\<close> and \<open>stats.go\<close>). Every method runs under the
  connection's mutex, so it is one step on the connection's record.

  The transport is the third-party WebSocket: what a call to it answers is an argument of the
  method (\<open>None\<close> for no error), and the record keeps the frames that were handed to it. Times are
  nanoseconds since the zero time and are arguments too. The counters are \<open>uint64\<close>s.
\<close>

section \<open>Delivery statistics\<close>

record Stats =
  st_TotalEventsSent :: "64 word"
  st_FailedDeliveries :: "64 word"
  st_LastFailureTime :: "int option"
  st_LastFailureReason :: "string option"

definition NewStats :: Stats where
  "NewStats =
     \<lparr>st_TotalEventsSent = 0, st_FailedDeliveries = 0, st_LastFailureTime = None,
      st_LastFailureReason = None\<rparr>"

definition IncrementTotalSent :: "Stats \<Rightarrow> Stats" where
  "IncrementTotalSent s = s\<lparr>st_TotalEventsSent := st_TotalEventsSent s + 1\<rparr>"

definition IncrementFailed :: "int \<Rightarrow> string \<Rightarrow> Stats \<Rightarrow> Stats" where
  "IncrementFailed now reason s =
     s\<lparr>st_FailedDeliveries := st_FailedDeliveries s + 1, st_LastFailureTime := Some now,
       st_LastFailureReason := Some reason\<rparr>"

text \<open>
  A float operation on finite values: the exact result, rounded. The operands here are converted
  \<open>uint64\<close>s and quotients of them, so the cases of an infinite operand never arise.
\<close>

definition f64_of :: "rat \<Rightarrow> f64" where
  "f64_of q = (case round_f64 q of Some r \<Rightarrow> Fin r | None \<Rightarrow> if q > 0 then PosInf else NegInf)"

fun f64_div :: "f64 \<Rightarrow> f64 \<Rightarrow> f64" where
  "f64_div (Fin a) (Fin b) = (if b \<noteq> 0 then f64_of (a / b) else if a > 0 then PosInf else if a < 0 then NegInf else NaN)"
| "f64_div _ _ = NaN"

fun f64_mul :: "f64 \<Rightarrow> f64 \<Rightarrow> f64" where
  "f64_mul (Fin a) (Fin b) = f64_of (a * b)"
| "f64_mul _ _ = NaN"

definition GetSuccessRate :: "Stats \<Rightarrow> f64" where
  "GetSuccessRate s =
     (if st_TotalEventsSent s = 0 then Fin 100
      else
        (let successful = st_TotalEventsSent s - st_FailedDeliveries s
         in f64_mul (f64_div (f64_of (of_int (uint successful)))
                             (f64_of (of_int (uint (st_TotalEventsSent s))))) (Fin 100)))"

text \<open>The zero time and the empty string stand for "no failure yet".\<close>

definition GetLastFailure :: "Stats \<Rightarrow> int \<times> string" where
  "GetLastFailure s =
     (case st_LastFailureTime s of Some t \<Rightarrow> t | None \<Rightarrow> 0,
      case st_LastFailureReason s of Some r \<Rightarrow> r | None \<Rightarrow> [])"

section \<open>Connections\<close>

datatype frame = TextFrame string | PingFrame | CloseFrame int string

record Connection =
  cn_GatewayID :: string
  cn_ConnectionID :: string
  cn_ConnectedAt :: int
  cn_LastHeartbeat :: int
  cn_Transport :: "frame list"
  cn_AuthToken :: string
  cn_DeliveryStats :: Stats
  cn_closed :: bool

definition NewConnection :: "string \<Rightarrow> string \<Rightarrow> string \<Rightarrow> int \<Rightarrow> Connection" where
  "NewConnection gatewayID connectionID authToken now =
     \<lparr>cn_GatewayID = gatewayID, cn_ConnectionID = connectionID, cn_ConnectedAt = now,
      cn_LastHeartbeat = now, cn_Transport = [], cn_AuthToken = authToken,
      cn_DeliveryStats = NewStats, cn_closed = False\<rparr>"

definition ErrConnectionClosed :: string where
  "ErrConnectionClosed = ''connection is closed''"

definition to_transport :: "frame \<Rightarrow> Connection \<Rightarrow> Connection" where
  "to_transport f c = c\<lparr>cn_Transport := cn_Transport c @ [f]\<rparr>"

definition conn_Send :: "string \<Rightarrow> string option \<Rightarrow> Connection \<Rightarrow> Connection \<times> string option" where
  "conn_Send message answer c =
     (if cn_closed c then (c, Some ErrConnectionClosed)
      else (to_transport (TextFrame message) c, answer))"

definition conn_Close ::
  "int \<Rightarrow> string \<Rightarrow> string option \<Rightarrow> Connection \<Rightarrow> Connection \<times> string option" where
  "conn_Close code reason answer c =
     (if cn_closed c then (c, None)
      else (to_transport (CloseFrame code reason) (c\<lparr>cn_closed := True\<rparr>), answer))"

definition conn_SendPing :: "string option \<Rightarrow> Connection \<Rightarrow> Connection \<times> string option" where
  "conn_SendPing answer c =
     (if cn_closed c then (c, Some ErrConnectionClosed) else (to_transport PingFrame c, answer))"

definition UpdateHeartbeat :: "int \<Rightarrow> Connection \<Rightarrow> Connection" where
  "UpdateHeartbeat now c = c\<lparr>cn_LastHeartbeat := now\<rparr>"

text \<open>\<open>time.Since\<close> saturates like \<open>Time.Sub\<close>; a timeout is in range, so comparing is exact.\<close>

record ConnectionStatus =
  css_GatewayID :: string
  css_ConnectionID :: string
  css_ConnectedAt :: int
  css_LastHeartbeat :: int
  css_Status :: string

definition conn_GetStatus :: "int \<Rightarrow> int \<Rightarrow> Connection \<Rightarrow> ConnectionStatus" where
  "conn_GetStatus heartbeatTimeout now c =
     \<lparr>css_GatewayID = cn_GatewayID c, css_ConnectionID = cn_ConnectionID c,
      css_ConnectedAt = cn_ConnectedAt c, css_LastHeartbeat = cn_LastHeartbeat c,
      css_Status =
        (if cn_closed c then ''closed''
         else if now - cn_LastHeartbeat c > heartbeatTimeout then ''stale''
         else ''connected'')\<rparr>"

section \<open>Properties\<close>

lemma conn_ids [simp]:
  "cn_GatewayID (fst (conn_Send m a c)) = cn_GatewayID c"
  "cn_ConnectionID (fst (conn_Send m a c)) = cn_ConnectionID c"
  "cn_closed (fst (conn_Send m a c)) = cn_closed c"
  "cn_GatewayID (fst (conn_Close k r a c)) = cn_GatewayID c"
  "cn_ConnectionID (fst (conn_Close k r a c)) = cn_ConnectionID c"
  "cn_closed (fst (conn_Close k r a c))"
  "cn_GatewayID (fst (conn_SendPing a c)) = cn_GatewayID c"
  "cn_ConnectionID (fst (conn_SendPing a c)) = cn_ConnectionID c"
  "cn_closed (fst (conn_SendPing a c)) = cn_closed c"
  "cn_GatewayID (UpdateHeartbeat t c) = cn_GatewayID c"
  "cn_ConnectionID (UpdateHeartbeat t c) = cn_ConnectionID c"
  "cn_closed (UpdateHeartbeat t c) = cn_closed c"
  "cn_GatewayID (NewConnection g i tok t) = g" "cn_ConnectionID (NewConnection g i tok t) = i"
  "\<not> cn_closed (NewConnection g i tok t)"
  by (simp_all add: conn_Send_def conn_Close_def conn_SendPing_def UpdateHeartbeat_def
      to_transport_def NewConnection_def)

text \<open>
  After the close frame nothing reaches the transport: the close frame is the last one, and there
  is at most one. \<open>well_framed\<close> is kept by every method.
\<close>

fun is_close :: "frame \<Rightarrow> bool" where
  "is_close (CloseFrame _ _) = True"
| "is_close _ = False"

definition well_framed :: "Connection \<Rightarrow> bool" where
  "well_framed c \<longleftrightarrow>
     (if cn_closed c
      then \<exists>fs k r. cn_Transport c = fs @ [CloseFrame k r] \<and> \<not> list_ex is_close fs
      else \<not> list_ex is_close (cn_Transport c))"

datatype conn_op =
    DoSend string "string option"
  | DoClose int string "string option"
  | DoPing "string option"
  | DoPong int

fun conn_exec :: "conn_op \<Rightarrow> Connection \<Rightarrow> Connection" where
  "conn_exec (DoSend m a) c = fst (conn_Send m a c)"
| "conn_exec (DoClose k r a) c = fst (conn_Close k r a c)"
| "conn_exec (DoPing a) c = fst (conn_SendPing a c)"
| "conn_exec (DoPong t) c = UpdateHeartbeat t c"

interpretation conn_system: invariant_system conn_exec well_framed
proof
  fix s and op :: conn_op
  assume "well_framed s"
  then show "well_framed (conn_exec op s)"
    by (cases op) (auto simp: well_framed_def conn_Send_def conn_Close_def conn_SendPing_def
        UpdateHeartbeat_def to_transport_def)
qed

lemma closed_is_final: "cn_closed c \<Longrightarrow> cn_Transport (fold conn_exec ops c) = cn_Transport c
   \<and> cn_closed (fold conn_exec ops c)"
proof (induction ops arbitrary: c)
  case Nil
  then show ?case by simp
next
  case (Cons op ops)
  have "cn_closed (conn_exec op c)" "cn_Transport (conn_exec op c) = cn_Transport c"
    using Cons.prems by (cases op; simp add: conn_Send_def conn_Close_def conn_SendPing_def
        UpdateHeartbeat_def)+
  with Cons.IH[of "conn_exec op c"] show ?case by simp
qed

end
