(* ===== verification/WsManager.thy ===== *)
theory WsManager
  imports WsConnection
begin

text \<open>
  The connection registry (\<open>agent-manager-service/websocket/manager.go\<close>), one method call at a time;
  theory \<open>WsRace\<close> has their interleavings.

  Connections are shared through pointers, so the state has a heap: a pointer is an index into the
  list of all connections ever created. The registry maps a gateway to a slice of pointers, as an
  association list whose order is the order in which \<open>Range\<close> meets it. The ids that \<open>uuid.New\<close>
  draws are given by a function of the index, injective in the properties that need it.
\<close>

record Manager =
  mg_connections :: "(string \<times> nat list) list"
  mg_heap :: "Connection list"
  mg_connectionCount :: int
  mg_maxConnections :: int
  mg_heartbeatTimeout :: int
  mg_shutdown :: bool

definition NewManager :: "int \<Rightarrow> int \<Rightarrow> Manager" where
  "NewManager maxConnections heartbeatTimeout =
     \<lparr>mg_connections = [], mg_heap = [], mg_connectionCount = 0,
      mg_maxConnections = maxConnections, mg_heartbeatTimeout = heartbeatTimeout,
      mg_shutdown = False\<rparr>"

section \<open>Operations\<close>

definition registered :: "Manager \<Rightarrow> string \<Rightarrow> nat list" where
  "registered m gatewayID =
     (case map_of (mg_connections m) gatewayID of None \<Rightarrow> [] | Some conns \<Rightarrow> conns)"

definition limit_error :: "int \<Rightarrow> string" where
  "limit_error n = ''maximum connection limit reached ('' @ show_int n @ '')''"

definition Register ::
  "string \<Rightarrow> string \<Rightarrow> string \<Rightarrow> int \<Rightarrow> Manager \<Rightarrow> Manager \<times> (string + nat)" where
  "Register gatewayID authToken connectionID now m =
     (if mg_connectionCount m \<ge> mg_maxConnections m
      then (m, Inl (limit_error (mg_maxConnections m)))
      else
        (let conn = length (mg_heap m) in
         (m\<lparr>mg_connectionCount := mg_connectionCount m + 1,
            mg_heap := mg_heap m @ [NewConnection gatewayID connectionID authToken now],
            mg_connections :=
              AList.update gatewayID (registered m gatewayID @ [conn]) (mg_connections m)\<rparr>,
          Inr conn)))"

definition on_conn :: "nat \<Rightarrow> (Connection \<Rightarrow> Connection) \<Rightarrow> Manager \<Rightarrow> Manager" where
  "on_conn a f m = m\<lparr>mg_heap := (mg_heap m)[a := f (mg_heap m ! a)]\<rparr>"

definition has_id :: "Manager \<Rightarrow> string \<Rightarrow> nat \<Rightarrow> bool" where
  "has_id m connectionID a \<longleftrightarrow> cn_ConnectionID (mg_heap m ! a) = connectionID"

definition Unregister :: "string \<Rightarrow> string \<Rightarrow> string option \<Rightarrow> Manager \<Rightarrow> Manager" where
  "Unregister gatewayID connectionID answer m =
     (case map_of (mg_connections m) gatewayID of
        None \<Rightarrow> m
      | Some conns \<Rightarrow>
          (let updatedConns = filter (\<lambda>a. \<not> has_id m connectionID a) conns;
               matching = filter (has_id m connectionID) conns
           in if matching = [] then m
              else
                (let m1 = m\<lparr>mg_connections :=
                       (if updatedConns = [] then AList.delete gatewayID (mg_connections m)
                        else AList.update gatewayID updatedConns (mg_connections m))\<rparr>;
                     m2 = on_conn (last matching) (fst \<circ> conn_Close 1000 ''normal closure'' answer) m1
                 in m2\<lparr>mg_connectionCount := mg_connectionCount m2 - 1\<rparr>)))"

definition GetConnections :: "Manager \<Rightarrow> string \<Rightarrow> nat list" where
  "GetConnections m gatewayID =
     (case map_of (mg_connections m) gatewayID of None \<Rightarrow> [] | Some conns \<Rightarrow> conns)"

definition GetAllConnections :: "Manager \<Rightarrow> (string \<times> nat list) list" where
  "GetAllConnections m =
     fold (\<lambda>(gatewayID, conns) result. AList.update gatewayID conns result) (mg_connections m) []"

definition GetConnectionCount :: "Manager \<Rightarrow> int" where
  "GetConnectionCount m = mg_connectionCount m"

text \<open>
  One tick of \<open>monitorHeartbeat\<close>; the boolean says whether its loop goes on. The answers are those
  of the transport to the ping and to the closing.
\<close>

definition heartbeat_tick ::
  "nat \<Rightarrow> int \<Rightarrow> string option \<Rightarrow> string option \<Rightarrow> Manager \<Rightarrow> Manager \<times> bool" where
  "heartbeat_tick a now ping_answer close_answer m =
     (let conn = mg_heap m ! a in
      if cn_closed conn then (m, False)
      else if now - cn_LastHeartbeat conn > mg_heartbeatTimeout m
      then (Unregister (cn_GatewayID conn) (cn_ConnectionID conn) close_answer m, False)
      else
        (let (conn', err) = conn_SendPing ping_answer conn; m1 = on_conn a (\<lambda>_. conn') m in
         if err \<noteq> None
         then (Unregister (cn_GatewayID conn) (cn_ConnectionID conn) close_answer m1, False)
         else (m1, True)))"

definition Pong :: "nat \<Rightarrow> int \<Rightarrow> Manager \<Rightarrow> Manager" where
  "Pong a now m = on_conn a (UpdateHeartbeat now) m"

definition Shutdown :: "(nat \<Rightarrow> string option) \<Rightarrow> Manager \<Rightarrow> Manager" where
  "Shutdown answers m =
     fold (\<lambda>a. on_conn a (\<lambda>c. fst (conn_Close 1000 ''server shutdown'' (answers a) c)))
       (concat (map snd (mg_connections m))) (m\<lparr>mg_shutdown := True\<rparr>)"

section \<open>Lemmas on the registry\<close>

definition total_registered :: "(string \<times> nat list) list \<Rightarrow> int" where
  "total_registered reg = (\<Sum>e\<leftarrow>reg. int (length (snd e)))"

lemma total_simps [simp]:
  "total_registered [] = 0"
  "total_registered (e # reg) = int (length (snd e)) + total_registered reg"
  by (simp_all add: total_registered_def)

lemma total_nonneg: "0 \<le> total_registered reg"
  by (induction reg) simp_all

lemma total_update:
  "distinct (map fst reg) \<Longrightarrow>
   total_registered (AList.update k v reg) = total_registered reg + int (length v)
     - (case map_of reg k of None \<Rightarrow> 0 | Some u \<Rightarrow> int (length u))"
proof (induction reg)
  case (Cons e reg)
  then show ?case
    by (cases "fst e = k") (auto simp: map_of_eq_None_iff split: option.split)
qed simp

lemma total_delete:
  "distinct (map fst reg) \<Longrightarrow>
   total_registered (AList.delete k reg) = total_registered reg
     - (case map_of reg k of None \<Rightarrow> 0 | Some u \<Rightarrow> int (length u))"
proof (induction reg)
  case (Cons e reg)
  then have "fst e = k \<Longrightarrow> AList.delete k reg = reg"
    by (auto simp: delete_id)
  with Cons show ?case by (cases "fst e = k") (auto split: option.split)
qed simp

lemma on_conn_simps [simp]:
  "mg_connections (on_conn a f m) = mg_connections m"
  "mg_connectionCount (on_conn a f m) = mg_connectionCount m"
  "mg_maxConnections (on_conn a f m) = mg_maxConnections m"
  "mg_heartbeatTimeout (on_conn a f m) = mg_heartbeatTimeout m"
  "mg_shutdown (on_conn a f m) = mg_shutdown m"
  "length (mg_heap (on_conn a f m)) = length (mg_heap m)"
  by (simp_all add: on_conn_def)

section \<open>The invariant\<close>

text \<open>
  The registry is a map whose slices hold live pointers to connections of their gateway, no slice
  is empty, the counter counts them and respects the limit, the ids are the ones drawn, and
  outside a shutdown every registered connection is open.
\<close>

definition entry_ok :: "Manager \<Rightarrow> string \<times> nat list \<Rightarrow> bool" where
  "entry_ok m e \<longleftrightarrow> snd e \<noteq> [] \<and> distinct (snd e)
     \<and> (\<forall>a \<in> set (snd e). a < length (mg_heap m) \<and> cn_GatewayID (mg_heap m ! a) = fst e
          \<and> (mg_shutdown m \<or> \<not> cn_closed (mg_heap m ! a)))"

definition manager_inv :: "(nat \<Rightarrow> string) \<Rightarrow> Manager \<Rightarrow> bool" where
  "manager_inv newid m \<longleftrightarrow> inj newid
     \<and> distinct (map fst (mg_connections m))
     \<and> (\<forall>e \<in> set (mg_connections m). entry_ok m e)
     \<and> mg_connectionCount m = total_registered (mg_connections m)
     \<and> (mg_connectionCount m \<le> mg_maxConnections m \<or> mg_connectionCount m = 0)
     \<and> (\<forall>a < length (mg_heap m). cn_ConnectionID (mg_heap m ! a) = newid a)"

lemma init_manager_inv: "inj newid \<Longrightarrow> manager_inv newid (NewManager n t)"
  by (simp add: manager_inv_def NewManager_def)

lemma registered_eq: "registered m g = GetConnections m g"
  by (simp add: registered_def GetConnections_def)

lemma registered_ok:
  assumes "manager_inv newid m" "a \<in> set (GetConnections m g)"
  shows "a < length (mg_heap m) \<and> cn_GatewayID (mg_heap m ! a) = g
    \<and> (mg_shutdown m \<or> \<not> cn_closed (mg_heap m ! a))"
  using assms by (auto simp: GetConnections_def manager_inv_def entry_ok_def
      dest!: map_of_SomeD split: option.splits)

lemma register_inv:
  assumes inv: "manager_inv newid m"
  shows "manager_inv newid (fst (Register g tok (newid (length (mg_heap m))) now m))"
proof (cases "mg_connectionCount m \<ge> mg_maxConnections m")
  case True
  then show ?thesis using inv by (simp add: Register_def)
next
  case False
  let ?a = "length (mg_heap m)"
  let ?m = "fst (Register g tok (newid ?a) now m)"
  have fields: "mg_connections ?m = AList.update g (registered m g @ [?a]) (mg_connections m)"
    "mg_heap ?m = mg_heap m @ [NewConnection g (newid ?a) tok now]"
    "mg_connectionCount ?m = mg_connectionCount m + 1" "mg_shutdown ?m = mg_shutdown m"
    "mg_maxConnections ?m = mg_maxConnections m"
    using False by (simp_all add: Register_def Let_def)
  have old: "entry_ok ?m e" if "e \<in> set (mg_connections m)" for e
    using inv that by (fastforce simp: manager_inv_def entry_ok_def fields nth_append)
  have new: "entry_ok ?m (g, registered m g @ [?a])"
  proof -
    have "distinct (registered m g)"
      using inv by (auto simp: registered_def manager_inv_def entry_ok_def
          dest!: map_of_SomeD split: option.split)
    moreover have "a < ?a \<and> cn_GatewayID (mg_heap m ! a) = g \<and> (mg_shutdown m \<or> \<not> cn_closed (mg_heap m ! a))"
      if "a \<in> set (registered m g)" for a
      using registered_ok[OF inv] that by (simp add: registered_eq)
    ultimately show ?thesis by (auto simp: entry_ok_def fields nth_append less_Suc_eq)
  qed
  have "total_registered (mg_connections ?m) = total_registered (mg_connections m) + 1"
    using inv by (auto simp: fields total_update manager_inv_def registered_def split: option.split)
  moreover have "\<forall>e \<in> set (mg_connections ?m). entry_ok ?m e"
    using old new update_entries by (fastforce simp: fields)
  ultimately show ?thesis
    using inv False by (auto simp: manager_inv_def fields nth_append distinct_update less_Suc_eq)
qed

lemma same_heap_entry:
  assumes "length (mg_heap m') = length (mg_heap m)" "mg_shutdown m' = mg_shutdown m"
    and "\<And>a. a \<in> set (snd e) \<Longrightarrow> a < length (mg_heap m) \<Longrightarrow>
        cn_GatewayID (mg_heap m' ! a) = cn_GatewayID (mg_heap m ! a)
        \<and> (mg_shutdown m \<or> cn_closed (mg_heap m' ! a) = cn_closed (mg_heap m ! a))"
    and "entry_ok m e"
  shows "entry_ok m' e"
  using assms by (auto simp: entry_ok_def)

lemma on_conn_inv:
  assumes inv: "manager_inv newid m"
    and f: "\<And>c. cn_GatewayID (f c) = cn_GatewayID c" "\<And>c. cn_ConnectionID (f c) = cn_ConnectionID c"
      "\<And>c. cn_closed (f c) = cn_closed c"
  shows "manager_inv newid (on_conn a f m)"
proof -
  have "entry_ok (on_conn a f m) e" if "e \<in> set (mg_connections m)" for e
  proof (rule same_heap_entry[of _ m])
    show "entry_ok m e" using inv that by (simp add: manager_inv_def)
  qed (auto simp: on_conn_def nth_update_any f)
  then show ?thesis
    using inv by (auto simp: manager_inv_def on_conn_def nth_update_any f)
qed

text \<open>An id occurs at most once, so at most one pointer matches.\<close>

lemma matching_one:
  assumes "manager_inv newid m" "map_of (mg_connections m) g = Some conns"
    and "filter (has_id m cid) conns \<noteq> []"
  obtains a where "filter (has_id m cid) conns = [a]" "a \<in> set conns" "a < length (mg_heap m)"
    "cid = newid a"
proof -
  have e: "entry_ok m (g, conns)" "inj newid"
    and ids: "\<And>a. a < length (mg_heap m) \<Longrightarrow> cn_ConnectionID (mg_heap m ! a) = newid a"
    using assms(1,2) map_of_SomeD by (fastforce simp: manager_inv_def)+
  obtain a as where as: "filter (has_id m cid) conns = a # as"
    using assms(3) by (cases "filter (has_id m cid) conns") auto
  then have a: "a \<in> set conns" "has_id m cid a" by (auto dest: filter_eq_ConsD)
  have len: "b < length (mg_heap m)" if "b \<in> set conns" for b
    using e(1) that by (simp add: entry_ok_def)
  have same: "b = a" if "b \<in> set conns" "has_id m cid b" for b
  proof -
    have "newid b = newid a" using that a ids len by (simp add: has_id_def)
    then show ?thesis using e(2) by (simp add: inj_eq)
  qed
  have "distinct (a # as)" using e(1) as by (metis distinct_filter entry_ok_def snd_conv)
  moreover have "\<forall>b \<in> set as. b = a"
  proof
    fix b assume "b \<in> set as"
    then have "b \<in> set (filter (has_id m cid) conns)" unfolding as by simp
    then show "b = a" using same by simp
  qed
  ultimately have "as = []" by (cases as) auto
  with as a len ids show thesis using that by (auto simp: has_id_def)
qed

lemma unregister_inv:
  assumes inv: "manager_inv newid m"
  shows "manager_inv newid (Unregister g cid answer m)"
proof (cases "map_of (mg_connections m) g")
  case None
  then show ?thesis using inv by (simp add: Unregister_def)
next
  case (Some conns)
  show ?thesis
  proof (cases "filter (has_id m cid) conns = []")
    case True
    then show ?thesis using inv Some by (simp add: Unregister_def)
  next
    case False
    obtain a where a: "filter (has_id m cid) conns = [a]" "a \<in> set conns" "a < length (mg_heap m)"
      using matching_one[OF inv Some False] by metis
    define rest where "rest = filter (\<lambda>b. \<not> has_id m cid b) conns"
    let ?m = "Unregister g cid answer m"
    have fields: "mg_connections ?m = (if rest = [] then AList.delete g (mg_connections m)
          else AList.update g rest (mg_connections m))"
      "mg_heap ?m = (mg_heap m)[a := fst (conn_Close 1000 ''normal closure'' answer (mg_heap m ! a))]"
      "mg_connectionCount ?m = mg_connectionCount m - 1" "mg_shutdown ?m = mg_shutdown m"
      "mg_maxConnections ?m = mg_maxConnections m"
      using Some False a by (simp_all add: Unregister_def Let_def rest_def on_conn_def)
    have len: "length conns = Suc (length rest)"
      using sum_length_filter_compl[of "has_id m cid" conns] a(1) by (simp add: rest_def)
    have conns_ok: "entry_ok m (g, conns)"
      using inv Some map_of_SomeD by (fastforce simp: manager_inv_def)
    have dist: "distinct (map fst (mg_connections m))" using inv by (simp add: manager_inv_def)
    have other: "entry_ok ?m e" if "e \<in> set (mg_connections m)" "fst e \<noteq> g" for e
    proof (rule same_heap_entry[of _ m])
      show e: "entry_ok m e" using inv that by (simp add: manager_inv_def)
      fix b assume "b \<in> set (snd e)"
      then have "cn_GatewayID (mg_heap m ! b) \<noteq> g" using e that by (auto simp: entry_ok_def)
      then have "b \<noteq> a" using conns_ok a by (auto simp: entry_ok_def)
      then show "cn_GatewayID (mg_heap ?m ! b) = cn_GatewayID (mg_heap m ! b)
          \<and> (mg_shutdown m \<or> cn_closed (mg_heap ?m ! b) = cn_closed (mg_heap m ! b))"
        by (simp add: fields)
    qed (simp_all add: fields)
    have rest_ok: "entry_ok ?m (g, rest)" if "rest \<noteq> []"
    proof (rule same_heap_entry[of _ m])
      show "entry_ok m (g, rest)" using conns_ok that by (auto simp: entry_ok_def rest_def)
      fix b assume "b \<in> set (snd (g, rest))"
      then have "\<not> has_id m cid b" by (simp add: rest_def)
      moreover have "has_id m cid a" using a(1) by (metis Cons_eq_filterD)
      ultimately have "b \<noteq> a" by auto
      then show "cn_GatewayID (mg_heap ?m ! b) = cn_GatewayID (mg_heap m ! b)
          \<and> (mg_shutdown m \<or> cn_closed (mg_heap ?m ! b) = cn_closed (mg_heap m ! b))"
        by (simp add: fields)
    qed (simp_all add: fields)
    have "\<forall>e \<in> set (mg_connections ?m). entry_ok ?m e"
    proof
      fix e assume e: "e \<in> set (mg_connections ?m)"
      show "entry_ok ?m e"
      proof (cases "fst e = g")
        case True
        with e have "map_of (mg_connections ?m) g = Some (snd e)"
          using dist by (intro map_of_is_SomeI) (auto simp: fields distinct_update distinct_delete)
        then have "rest \<noteq> [] \<and> snd e = rest"
          by (auto simp: fields update_conv' delete_conv' split: if_splits)
        with rest_ok True show ?thesis by (metis prod.collapse)
      next
        case False
        with e have "e \<in> set (mg_connections m)"
          by (auto simp: fields split: if_splits simp: delete_entries dest: update_entries)
        with False other show ?thesis by blast
      qed
    qed
    moreover have "total_registered (mg_connections ?m) = total_registered (mg_connections m) - 1"
      using len Some dist by (simp add: fields total_update total_delete)
    ultimately show ?thesis
      using inv dist total_nonneg[of "mg_connections ?m"]
      by (auto simp: manager_inv_def fields nth_update_any distinct_update distinct_delete)
  qed
qed


lemma on_conn_const: "on_conn a (\<lambda>_. f (mg_heap m ! a)) m = on_conn a f m"
  by (simp add: on_conn_def)

lemma tick_inv:
  assumes inv: "manager_inv newid m"
  shows "manager_inv newid (fst (heartbeat_tick a now pa ca m))"
proof -
  have ping: "manager_inv newid (on_conn a (\<lambda>_. fst (conn_SendPing pa (mg_heap m ! a))) m)"
    unfolding on_conn_const[of a "\<lambda>c. fst (conn_SendPing pa c)" m]
    by (rule on_conn_inv[OF inv]) simp_all
  show ?thesis
    using inv ping unregister_inv
    by (auto simp: heartbeat_tick_def Let_def split: prod.split)
qed

lemma shutdown_fold:
  "manager_inv newid m \<Longrightarrow> mg_shutdown m \<Longrightarrow>
   manager_inv newid (fold (\<lambda>a. on_conn a (\<lambda>c. fst (conn_Close k r (answers a) c))) as m)"
proof (induction as arbitrary: m)
  case Nil
  then show ?case by simp
next
  case (Cons a as)
  let ?m = "on_conn a (\<lambda>c. fst (conn_Close k r (answers a) c)) m"
  have "entry_ok ?m e" if "e \<in> set (mg_connections m)" for e
    using Cons.prems that same_heap_entry[of ?m m e]
    by (auto simp: manager_inv_def on_conn_def nth_update_any)
  then have "manager_inv newid ?m"
    using Cons.prems by (auto simp: manager_inv_def on_conn_def nth_update_any)
  with Cons show ?case by simp
qed

section \<open>The registry as a system of operations\<close>

datatype manager_op =
    OpRegister string string int
  | OpUnregister string string "string option"
  | OpTick nat int "string option" "string option"
  | OpPong nat int
  | OpSend nat string "string option"
  | OpShutdown "nat \<Rightarrow> string option"

fun manager_exec :: "(nat \<Rightarrow> string) \<Rightarrow> manager_op \<Rightarrow> Manager \<Rightarrow> Manager" where
  "manager_exec newid (OpRegister g tok now) m =
     fst (Register g tok (newid (length (mg_heap m))) now m)"
| "manager_exec newid (OpUnregister g cid answer) m = Unregister g cid answer m"
| "manager_exec newid (OpTick a now pa ca) m = fst (heartbeat_tick a now pa ca m)"
| "manager_exec newid (OpPong a now) m = Pong a now m"
| "manager_exec newid (OpSend a msg answer) m = on_conn a (fst \<circ> conn_Send msg answer) m"
| "manager_exec newid (OpShutdown answers) m = Shutdown answers m"

interpretation manager_system: invariant_system "manager_exec newid" "manager_inv newid" for newid
proof
  fix s and op :: manager_op
  assume inv: "manager_inv newid s"
  have "manager_inv newid (s\<lparr>mg_shutdown := True\<rparr>)"
    using inv by (auto simp: manager_inv_def entry_ok_def)
  then have "manager_inv newid (Shutdown answers s)" for answers
    unfolding Shutdown_def by (rule shutdown_fold) simp
  then show "manager_inv newid (manager_exec newid op s)"
    using inv register_inv unregister_inv tick_inv on_conn_inv
    by (cases op) (simp_all add: Pong_def)
qed

section \<open>What the operations do\<close>

lemma Register_connections:
  assumes "Register g tok cid now m = (m', Inr a)"
  shows "a = length (mg_heap m)" "GetConnections m' g = GetConnections m g @ [a]"
    and "h \<noteq> g \<Longrightarrow> GetConnections m' h = GetConnections m h"
    and "mg_heap m' ! a = NewConnection g cid tok now"
    and "mg_connectionCount m' = mg_connectionCount m + 1"
  using assms
  by (auto simp: Register_def Let_def GetConnections_def registered_def update_conv'
      split: if_splits)

lemma Unregister_connections:
  assumes inv: "manager_inv newid m" and a: "a \<in> set (GetConnections m g)"
    and cid: "cn_ConnectionID (mg_heap m ! a) = cid"
  shows "GetConnections (Unregister g cid answer m) g = remove1 a (GetConnections m g)"
    and "h \<noteq> g \<Longrightarrow> GetConnections (Unregister g cid answer m) h = GetConnections m h"
    and "cn_closed (mg_heap (Unregister g cid answer m) ! a)"
    and "mg_connectionCount (Unregister g cid answer m) = mg_connectionCount m - 1"
proof -
  obtain conns where conns: "map_of (mg_connections m) g = Some conns" "a \<in> set conns"
    using a by (cases "map_of (mg_connections m) g") (auto simp: GetConnections_def)
  then have "filter (has_id m cid) conns \<noteq> []"
    using cid by (auto simp: has_id_def filter_empty_conv)
  then obtain b where b: "filter (has_id m cid) conns = [b]" "b < length (mg_heap m)"
    using matching_one[OF inv conns(1)] by metis
  have "a \<in> set (filter (has_id m cid) conns)" using conns(2) cid by (simp add: has_id_def)
  then have ab: "b = a" using b by simp
  have ok: "distinct conns" "distinct (map fst (mg_connections m))"
    using inv conns(1) map_of_SomeD by (fastforce simp: manager_inv_def entry_ok_def)+
  define rest where "rest = filter (\<lambda>b. \<not> has_id m cid b) conns"
  have iff: "has_id m cid x \<longleftrightarrow> x = a" if "x \<in> set conns" for x
  proof -
    have "has_id m cid x \<longleftrightarrow> x \<in> set (filter (has_id m cid) conns)" using that by simp
    then show ?thesis using b(1) ab by simp
  qed
  have rest: "rest = remove1 a conns"
    unfolding rest_def distinct_remove1_removeAll[OF ok(1)] removeAll_filter_not_eq
    by (rule filter_cong[OF refl]) (use iff in auto)
  have fields: "mg_connections (Unregister g cid answer m) =
      (if rest = [] then AList.delete g (mg_connections m) else AList.update g rest (mg_connections m))"
    "mg_heap (Unregister g cid answer m) =
      (mg_heap m)[a := fst (conn_Close 1000 ''normal closure'' answer (mg_heap m ! a))]"
    using conns b ab by (simp_all add: Unregister_def Let_def rest_def on_conn_def)
  show "GetConnections (Unregister g cid answer m) g = remove1 a (GetConnections m g)"
    using conns rest by (simp add: GetConnections_def fields update_conv' delete_conv')
  show "h \<noteq> g \<Longrightarrow> GetConnections (Unregister g cid answer m) h = GetConnections m h"
    by (simp add: GetConnections_def fields update_conv' delete_conv')
  show "cn_closed (mg_heap (Unregister g cid answer m) ! a)"
    using b ab by (simp add: fields)
  show "mg_connectionCount (Unregister g cid answer m) = mg_connectionCount m - 1"
    using conns b by (simp add: Unregister_def Let_def)
qed

lemma Unregister_unknown:
  assumes "\<forall>a \<in> set (GetConnections m g). cn_ConnectionID (mg_heap m ! a) \<noteq> cid"
  shows "Unregister g cid answer m = m"
  using assms
  by (auto simp: Unregister_def GetConnections_def has_id_def filter_empty_conv split: option.split)

lemma Unregister_idem:
  assumes inv: "manager_inv newid m"
  shows "Unregister g cid answer' (Unregister g cid answer m) = Unregister g cid answer m"
proof (cases "\<exists>a \<in> set (GetConnections m g). cn_ConnectionID (mg_heap m ! a) = cid")
  case False
  then show ?thesis using Unregister_unknown[of m g cid] by auto
next
  case True
  then obtain a where a: "a \<in> set (GetConnections m g)" "cn_ConnectionID (mg_heap m ! a) = cid" by blast
  let ?m = "Unregister g cid answer m"
  have inv': "manager_inv newid ?m" by (rule unregister_inv[OF inv])
  have conns: "GetConnections ?m g = remove1 a (GetConnections m g)"
    by (rule Unregister_connections(1)[OF inv a])
  have dist: "distinct (GetConnections m g)"
    using inv by (auto simp: GetConnections_def manager_inv_def entry_ok_def
        dest!: map_of_SomeD split: option.split)
  show ?thesis
  proof (rule Unregister_unknown, rule ballI)
    fix b assume b: "b \<in> set (GetConnections ?m g)"
    then have "b \<noteq> a" using conns dist by simp
    moreover have "cn_ConnectionID (mg_heap ?m ! b) = newid b"
      using inv' registered_ok[OF inv' b] by (simp add: manager_inv_def)
    moreover have "cid = newid a"
      using inv registered_ok[OF inv a(1)] a(2) by (simp add: manager_inv_def)
    ultimately show "cn_ConnectionID (mg_heap ?m ! b) \<noteq> cid"
      using inv by (simp add: manager_inv_def inj_eq)
  qed
qed

lemma GetAllConnections_eq:
  "distinct (map fst (mg_connections m)) \<Longrightarrow> map_of (GetAllConnections m) = map_of (mg_connections m)"
proof -
  have "map_of (fold (\<lambda>(g, conns) r. AList.update g conns r) reg acc) = map_of acc ++ map_of reg"
    if "distinct (map fst reg)" for reg acc :: "(string \<times> nat list) list"
    using that
  proof (induction reg arbitrary: acc)
    case (Cons e reg)
    then have "map_of reg (fst e) = None" by (auto simp: map_of_eq_None_iff)
    with Cons show ?case
      by (auto simp: update_conv' fun_eq_iff map_add_def split: option.split prod.split)
  qed simp
  moreover assume "distinct (map fst (mg_connections m))"
  ultimately show ?thesis by (simp add: GetAllConnections_def)
qed

text \<open>A connection without a pong for longer than the timeout is gone after the next tick.\<close>

lemma stale_is_dropped:
  assumes inv: "manager_inv newid m" and a: "a \<in> set (GetConnections m g)"
    and stale: "now - cn_LastHeartbeat (mg_heap m ! a) > mg_heartbeatTimeout m"
    and "\<not> mg_shutdown m" and tick: "heartbeat_tick a now pa ca m = (m', goes_on)"
  shows "a \<notin> set (GetConnections m' g) \<and> cn_closed (mg_heap m' ! a) \<and> \<not> goes_on
    \<and> mg_connectionCount m' = mg_connectionCount m - 1"
proof -
  have reg: "cn_GatewayID (mg_heap m ! a) = g" "\<not> cn_closed (mg_heap m ! a)"
    using registered_ok[OF inv a] assms(4) by auto
  have dist: "distinct (GetConnections m g)"
    using inv by (auto simp: GetConnections_def manager_inv_def entry_ok_def
        dest!: map_of_SomeD split: option.split)
  have "m' = Unregister g (cn_ConnectionID (mg_heap m ! a)) ca m" "\<not> goes_on"
    using tick stale reg by (auto simp: heartbeat_tick_def Let_def)
  with Unregister_connections[OF inv a refl, where answer = ca] dist show ?thesis by simp
qed

end
