(* ===== verification/WsRace.thy ===== *)
theory WsRace
  imports WsManager
begin

text \<open>
  Concurrent calls of \<open>Register\<close> and \<open>Unregister\<close> (\<open>websocket/manager.go\<close>). The counter is
  under a mutex and each call on the \<open>sync.Map\<close> is atomic, but a method reads a slice, changes its
  copy and stores it in separate steps; this theory has every interleaving of these steps.

  Each thread is one call. The appended slice is a copy of its own, as when \<open>append\<close> has to
  reallocate (the first registrations of a gateway, whose slice starts with capacity 0).
\<close>

datatype call_pc =
    RegCheck string
  | RegLoad string
  | RegStore string "nat list"
  | RegDone
  | RegRefused
  | UnregLoad string nat
  | UnregStore string nat "nat list"
  | UnregClose string nat
  | UnregCount string nat
  | UnregDone
  | UnregSkipped

record race_state =
  rc_conns :: "(string \<times> nat list) list"
  rc_count :: int
  rc_max :: int
  rc_closed :: "nat set"
  rc_threads :: "call_pc list"

definition rc_lookup :: "race_state \<Rightarrow> string \<Rightarrow> nat list option" where
  "rc_lookup st g = map_of (rc_conns st) g"

text \<open>
  The next step of the thread \<open>i\<close>; a finished thread stays as it is. The connection that the
  thread \<open>i\<close> registers is \<open>i\<close> itself, an id like any other.
\<close>

definition call_step :: "nat \<Rightarrow> race_state \<Rightarrow> race_state" where
  "call_step i st =
     (let go = (\<lambda>pc s. s\<lparr>rc_threads := (rc_threads s)[i := pc]\<rparr>) in
      case rc_threads st ! i of
        RegCheck g \<Rightarrow>
          if rc_count st \<ge> rc_max st then go RegRefused st
          else go (RegLoad g) (st\<lparr>rc_count := rc_count st + 1\<rparr>)
      | RegLoad g \<Rightarrow>
          (case rc_lookup st g of
             Some conns \<Rightarrow> go (RegStore g conns) st
           | None \<Rightarrow> go (RegStore g []) (st\<lparr>rc_conns := AList.update g [] (rc_conns st)\<rparr>))
      | RegStore g conns \<Rightarrow>
          go RegDone (st\<lparr>rc_conns := AList.update g (conns @ [i]) (rc_conns st)\<rparr>)
      | UnregLoad g c \<Rightarrow>
          (case rc_lookup st g of
             None \<Rightarrow> go UnregSkipped st
           | Some conns \<Rightarrow> if c \<in> set conns then go (UnregStore g c (removeAll c conns)) st
                           else go UnregSkipped st)
      | UnregStore g c updatedConns \<Rightarrow>
          go (UnregClose g c)
            (st\<lparr>rc_conns := (if updatedConns = [] then AList.delete g (rc_conns st)
                             else AList.update g updatedConns (rc_conns st))\<rparr>)
      | UnregClose g c \<Rightarrow> go (UnregCount g c) (st\<lparr>rc_closed := insert c (rc_closed st)\<rparr>)
      | UnregCount g c \<Rightarrow> go UnregDone (st\<lparr>rc_count := rc_count st - 1\<rparr>)
      | RegDone \<Rightarrow> st
      | RegRefused \<Rightarrow> st
      | UnregDone \<Rightarrow> st
      | UnregSkipped \<Rightarrow> st)"

definition run_calls :: "nat list \<Rightarrow> race_state \<Rightarrow> race_state" where
  "run_calls schedule st =
     fold (\<lambda>i s. if i < length (rc_threads s) then call_step i s else s) schedule st"

definition init_race :: "int \<Rightarrow> call_pc list \<Rightarrow> race_state" where
  "init_race n calls =
     \<lparr>rc_conns = [], rc_count = 0, rc_max = n, rc_closed = {}, rc_threads = calls\<rparr>"

section \<open>What holds under every interleaving\<close>

text \<open>Registrations past the limit check, and unregistrations past the decrement.\<close>

fun counted :: "call_pc \<Rightarrow> bool" where
  "counted (RegLoad g) = True"
| "counted (RegStore g conns) = True"
| "counted RegDone = True"
| "counted _ = False"

fun uncounted :: "call_pc \<Rightarrow> bool" where
  "uncounted UnregDone = True"
| "uncounted _ = False"

fun at_start :: "call_pc \<Rightarrow> bool" where
  "at_start (RegCheck g) = True"
| "at_start (UnregLoad g c) = True"
| "at_start _ = False"

definition race_inv :: "race_state \<Rightarrow> bool" where
  "race_inv st \<longleftrightarrow>
     rc_count st = int (length (filter counted (rc_threads st)))
                   - int (length (filter uncounted (rc_threads st)))
     \<and> (0 \<le> rc_max st \<longrightarrow> rc_count st \<le> rc_max st)"

lemma filter_count_update:
  "i < length xs \<Longrightarrow>
   int (length (filter P (xs[i := y]))) = int (length (filter P xs))
     - (if P (xs ! i) then 1 else 0) + (if P y then 1 else 0)"
  using length_filter_update[of i xs P y] by (auto split: if_splits)

lemma call_step_inv:
  assumes "race_inv st" "i < length (rc_threads st)"
  shows "race_inv (call_step i st)"
  using assms filter_count_update[OF assms(2), of counted] filter_count_update[OF assms(2), of uncounted]
  by (cases "rc_threads st ! i") (auto simp: race_inv_def call_step_def Let_def split: option.split)

interpretation race: invariant_system
  "\<lambda>i s. if i < length (rc_threads s) then call_step i s else s" race_inv
  by unfold_locales (simp add: call_step_inv)

lemma race_start:
  assumes "list_all at_start calls"
  shows "race_inv (init_race n calls)"
proof -
  have "filter counted calls = []" "filter uncounted calls = []"
    using assms by (induction calls; auto elim: at_start.elims)+
  then show ?thesis by (simp add: race_inv_def init_race_def)
qed

lemma call_step_max: "rc_max (call_step i st) = rc_max st"
  by (simp add: call_step_def Let_def split: call_pc.split option.split)

lemma run_calls_max: "rc_max (run_calls is st) = rc_max st"
proof (induction "is" arbitrary: st)
  case (Cons i is')
  then show ?case by (simp add: run_calls_def call_step_max)
qed (simp add: run_calls_def)

section \<open>What calls do when they are not interleaved\<close>

text \<open>
  Run to its end without another thread in between, a call has the effect that the operation of
  theory \<open>WsManager\<close> has on the registry and the counter.
\<close>

definition rc_get :: "race_state \<Rightarrow> string \<Rightarrow> nat list" where
  "rc_get st g = (case rc_lookup st g of None \<Rightarrow> [] | Some conns \<Rightarrow> conns)"

lemma Register_alone:
  assumes "i < length (rc_threads st)" "rc_threads st ! i = RegCheck g" "rc_count st < rc_max st"
  shows "rc_lookup (run_calls [i, i, i] st) = (rc_lookup st)(g \<mapsto> rc_get st g @ [i])"
    and "rc_count (run_calls [i, i, i] st) = rc_count st + 1"
  using assms
  by (cases "map_of (rc_conns st) g";
      simp add: run_calls_def call_step_def Let_def rc_lookup_def rc_get_def update_conv' fun_eq_iff)+

lemma Unregister_alone:
  assumes "i < length (rc_threads st)" "rc_threads st ! i = UnregLoad g c" "c \<in> set (rc_get st g)"
    and "distinct (map fst (rc_conns st))"
  shows "rc_get (run_calls [i, i, i, i] st) g = removeAll c (rc_get st g)"
    and "rc_count (run_calls [i, i, i, i] st) = rc_count st - 1"
    and "c \<in> rc_closed (run_calls [i, i, i, i] st)"
  using assms
  by (cases "map_of (rc_conns st) g";
      simp add: run_calls_def call_step_def Let_def rc_lookup_def rc_get_def update_conv' delete_conv')+

section \<open>What interleaved calls can do\<close>

text \<open>A thread keeps its place, and the copy it has loaded, while the others run.\<close>

lemma run_calls_simps:
  "run_calls [] st = st"
  "run_calls (i # s) st = run_calls s (if i < length (rc_threads st) then call_step i st else st)"
  "run_calls (s @ s') st = run_calls s' (run_calls s st)"
  by (simp_all add: run_calls_def)

lemma call_step_length [simp]: "length (rc_threads (call_step i st)) = length (rc_threads st)"
  by (simp add: call_step_def Let_def split: call_pc.split option.split)

lemma call_step_other: "k \<noteq> i \<Longrightarrow> rc_threads (call_step i st) ! k = rc_threads st ! k"
  by (simp add: call_step_def Let_def split: call_pc.split option.split)

lemma run_calls_length [simp]: "length (rc_threads (run_calls s st)) = length (rc_threads st)"
  by (induction s arbitrary: st) (simp_all add: run_calls_simps)

lemma run_calls_other: "k \<notin> set s \<Longrightarrow> rc_threads (run_calls s st) ! k = rc_threads st ! k"
  by (induction s arbitrary: st) (simp_all add: run_calls_simps call_step_other)

lemma run_calls_inv: "race_inv st \<Longrightarrow> race_inv (run_calls s st)"
  by (induction s arbitrary: st) (simp_all add: run_calls_simps call_step_inv)

text \<open>
  A registration that has loaded the slice stores its copy whatever the others did in between: what
  they added is lost, and unregistering a connection that was lost changes nothing.
\<close>

lemma store_loses:
  assumes "i < length (rc_threads st)" "rc_threads st ! i = RegStore g conns" "i \<notin> set s"
  shows "rc_get (run_calls (s @ [i]) st) g = conns @ [i]"
  using assms run_calls_other[of i s st]
  by (simp add: run_calls_simps call_step_def rc_get_def rc_lookup_def update_conv')

lemma unregister_lost:
  assumes "rc_threads st ! k = UnregLoad g c" "c \<notin> set (rc_get st g)"
  shows "call_step k st = st\<lparr>rc_threads := (rc_threads st)[k := UnregSkipped]\<rparr>"
  using assms by (auto simp: call_step_def rc_get_def split: option.splits)

text \<open>
  The heartbeat monitor and the request handler both unregister the connection. Once both have
  found it, each goes through its three remaining steps, \<open>unreg_phase\<close> counting them.
\<close>

fun unreg_phase :: "string \<Rightarrow> nat \<Rightarrow> nat list \<Rightarrow> nat \<Rightarrow> call_pc" where
  "unreg_phase g c u 0 = UnregStore g c u"
| "unreg_phase g c u (Suc 0) = UnregClose g c"
| "unreg_phase g c u (Suc (Suc 0)) = UnregCount g c"
| "unreg_phase g c u (Suc (Suc (Suc n))) = UnregDone"

lemma unreg_phase_step:
  assumes "i < length (rc_threads st)" "rc_threads st ! i = unreg_phase g c u n"
  shows "rc_threads (call_step i st) ! i = unreg_phase g c u (Suc n)"
    and "rc_count (call_step i st) = rc_count st - (if n = 2 then 1 else 0)"
    and "rc_get (call_step i st) g = (if n = 0 then u else rc_get st g)"
  using assms
  by (cases "(g, c, u, n)" rule: unreg_phase.cases;
      simp add: call_step_def Let_def rc_get_def rc_lookup_def update_conv' delete_conv')+

lemma unreg_pair_run:
  assumes "i < length (rc_threads st)" "j < length (rc_threads st)" "i \<noteq> j" "set s \<subseteq> {i, j}"
    and "rc_threads st ! i = unreg_phase g c u m" "rc_threads st ! j = unreg_phase g c u n"
    and "0 < m + n \<Longrightarrow> rc_get st g = u"
  shows "rc_threads (run_calls s st) ! i = unreg_phase g c u (m + count_list s i)
    \<and> rc_threads (run_calls s st) ! j = unreg_phase g c u (n + count_list s j)
    \<and> rc_count (run_calls s st) = rc_count st
        - (if m < 3 \<and> 3 \<le> m + count_list s i then 1 else 0) - (if n < 3 \<and> 3 \<le> n + count_list s j then 1 else 0)
    \<and> (0 < m + n + length s \<longrightarrow> rc_get (run_calls s st) g = u)"
  using assms
proof (induction s arbitrary: st m n)
  case (Cons k s)
  consider "k = i" | "k = j" using Cons.prems(4) by auto
  then show ?case
  proof cases
    case 1
    note step = unreg_phase_step[OF Cons.prems(1,5)]
    show ?thesis
      using Cons.IH[of "call_step i st" "Suc m" n] Cons.prems step call_step_other[of j i st] 1 by (auto simp: run_calls_simps)
  next
    case 2
    note step = unreg_phase_step[OF Cons.prems(2,6)]
    show ?thesis
      using Cons.IH[of "call_step j st" m "Suc n"] Cons.prems step call_step_other[of i j st] 2 by (auto simp: run_calls_simps)
  qed
qed (simp add: run_calls_simps)

lemma both_load:
  assumes "i < length (rc_threads st)" "j < length (rc_threads st)" "i \<noteq> j" "c \<in> set (rc_get st g)"
    and "rc_threads st ! i = UnregLoad g c" "rc_threads st ! j = UnregLoad g c"
  shows "\<exists>st2. run_calls [i, j] st = st2 \<and> length (rc_threads st2) = length (rc_threads st) \<and> rc_count st2 = rc_count st
    \<and> rc_threads st2 ! i = unreg_phase g c (removeAll c (rc_get st g)) 0
    \<and> rc_threads st2 ! j = unreg_phase g c (removeAll c (rc_get st g)) 0"
  using assms
  by (cases "map_of (rc_conns st) g") (simp_all add: run_calls_simps call_step_def Let_def rc_get_def rc_lookup_def)

lemma double_unregistration:
  assumes "i < length (rc_threads st)" "j < length (rc_threads st)" "i \<noteq> j" "c \<in> set (rc_get st g)"
    and "rc_threads st ! i = UnregLoad g c" "rc_threads st ! j = UnregLoad g c"
    and "set s \<subseteq> {i, j}" "3 \<le> count_list s i" "3 \<le> count_list s j"
  shows "rc_get (run_calls ([i, j] @ s) st) g = removeAll c (rc_get st g)
    \<and> rc_count (run_calls ([i, j] @ s) st) = rc_count st - 2
    \<and> rc_threads (run_calls ([i, j] @ s) st) ! i = UnregDone \<and> rc_threads (run_calls ([i, j] @ s) st) ! j = UnregDone"
proof -
  have ended: "unreg_phase g c u n = UnregDone" if "3 \<le> n" for u n
    using that by (cases "(g, c, u, n)" rule: unreg_phase.cases) auto
  have s: "s \<noteq> []" using assms(8) by auto
  obtain st2 where st2: "run_calls [i, j] st = st2" "length (rc_threads st2) = length (rc_threads st)"
      "rc_count st2 = rc_count st" "rc_threads st2 ! i = unreg_phase g c (removeAll c (rc_get st g)) 0"
      "rc_threads st2 ! j = unreg_phase g c (removeAll c (rc_get st g)) 0"
    using both_load[OF assms(1-6)] by blast
  have "run_calls ([i, j] @ s) st = run_calls s st2" using st2(1) by (simp only: run_calls_simps(3))
  then show ?thesis
    using unreg_pair_run[of i st2 j s g c "removeAll c (rc_get st g)" 0 0] st2(2-) assms s ended by simp
qed

end
