(* ===== verification/WsController.thy ===== *)
theory WsController
  imports WsManager GoJson
begin

text \<open>
  The WebSocket entry point (\<open>agent-manager-service/controllers/websocket_controller.go\<close>): the
  connection rate limiter and its periodic cleanup, the client address, and the \<open>Connect\<close> handler
  up to the point where it blocks in the read loop and from there to its end.

  Verifying the API key is the gateway service's work; its answer is an argument. Times are
  nanoseconds of the monotonic clock.
\<close>

section \<open>Rate limiting\<close>

definition one_minute :: int where
  "one_minute = 60 * 1000000000"

type_synonym rate_map = "(string \<times> int list) list"

definition recent :: "int \<Rightarrow> int list \<Rightarrow> int list" where
  "recent now attempts = filter (\<lambda>t. t > now - one_minute) attempts"

definition attempts_of :: "rate_map \<Rightarrow> string \<Rightarrow> int list" where
  "attempts_of rm key = (case map_of rm key of None \<Rightarrow> [] | Some attempts \<Rightarrow> attempts)"

definition checkRateLimit :: "int \<Rightarrow> string \<Rightarrow> int \<Rightarrow> rate_map \<Rightarrow> bool \<times> rate_map" where
  "checkRateLimit rateLimitCount key now rm =
     (let recentAttempts = recent now (attempts_of rm key) in
      if int (length recentAttempts) \<ge> rateLimitCount then (False, rm)
      else (True, AList.update key (recentAttempts @ [now]) rm))"

text \<open>One tick of the cleanup: the body of the loop over the map, entry by entry.\<close>

definition cleanup_entry :: "int \<Rightarrow> string \<times> int list \<Rightarrow> rate_map \<Rightarrow> rate_map" where
  "cleanup_entry now e rm =
     (let kept = recent now (snd e) in
      if length kept = 0 then AList.delete (fst e) rm
      else if length kept < length (snd e) then AList.update (fst e) kept rm
      else rm)"

definition cleanupRateLimitMap :: "int \<Rightarrow> rate_map \<Rightarrow> rate_map" where
  "cleanupRateLimitMap now rm = fold (cleanup_entry now) rm rm"

section \<open>The client address\<close>

definition last_index :: "char \<Rightarrow> string \<Rightarrow> nat option" where
  "last_index c s = (case index_of c (rev s) of None \<Rightarrow> None | Some i \<Rightarrow> Some (length s - 1 - i))"

definition getClientIP :: "string \<Rightarrow> string \<Rightarrow> string \<Rightarrow> string" where
  "getClientIP xff xri remoteAddr =
     (if xff \<noteq> [] then
        (case index_of (CHR '','') xff of
           Some idx \<Rightarrow> trim_space (take idx xff)
         | None \<Rightarrow> trim_space xff)
      else if xri \<noteq> [] then trim_space xri
      else (case last_index (CHR '':'') remoteAddr of
              Some idx \<Rightarrow> take idx remoteAddr
            | None \<Rightarrow> remoteAddr))"

section \<open>The Connect handler\<close>

record ws_state =
  wc_manager :: Manager
  wc_rateLimitMap :: rate_map
  wc_rateLimitCount :: int
  wc_active :: "(string \<times> bool) list"

datatype connect_result =
    Refused int string
  | UpgradeFailed
  | RegistrationFailed string
  | Connected nat

definition set_active :: "string \<Rightarrow> bool \<Rightarrow> ws_state \<Rightarrow> ws_state" where
  "set_active gatewayID b s = s\<lparr>wc_active := AList.update gatewayID b (wc_active s)\<rparr>"

definition json_member :: "string \<times> string \<Rightarrow> string" where
  "json_member kv = json_quote (fst kv) @ '':'' @ snd kv"

definition json_struct :: "(string \<times> string) list \<Rightarrow> string" where
  "json_struct ms = brackets (CHR 0x7B) (CHR 0x7D) (map json_member ms)"

definition connection_ack :: "string \<Rightarrow> string \<Rightarrow> string \<Rightarrow> string" where
  "connection_ack gatewayID connectionID timestamp =
     json_struct [(''type'', json_quote ''connection.ack''), (''gatewayId'', json_quote gatewayID),
       (''connectionId'', json_quote connectionID), (''timestamp'', json_quote timestamp)]"

definition api_key_required :: string where
  "api_key_required =
     ''API key is required. Provide '' @ [CHR 0x27] @ ''api-key'' @ [CHR 0x27] @ '' header.''"

text \<open>
  \<open>Connect\<close> until it blocks: \<open>verified\<close> is the gateway the API key belongs to, if any; the
  remaining arguments are the outcome of the upgrade, the drawn connection id, the time with its
  text, the transport's answer to the acknowledgement, and whether the status update succeeds (an
  error is only logged).
\<close>

definition Connect_open ::
  "string \<Rightarrow> string option \<Rightarrow> bool \<Rightarrow> string \<Rightarrow> int \<Rightarrow> string \<Rightarrow> string option \<Rightarrow> bool \<Rightarrow>
   ws_state \<Rightarrow> ws_state \<times> connect_result" where
  "Connect_open apiKey verified upgraded connectionID now timestamp answer updated s =
     (if apiKey = []
      then (s, Refused 401 api_key_required)
      else
        (case verified of
           None \<Rightarrow> (s, Refused 401 ''Invalid or expired API key'')
         | Some gatewayID \<Rightarrow>
             (let (allowed, rm) = checkRateLimit (wc_rateLimitCount s) gatewayID now (wc_rateLimitMap s);
                  s1 = s\<lparr>wc_rateLimitMap := rm\<rparr>
              in if \<not> allowed
                 then (s1, Refused 429 ''Connection rate limit exceeded. Please try again later.'')
                 else if \<not> upgraded then (s1, UpgradeFailed)
                 else
                   (case Register gatewayID apiKey connectionID now (wc_manager s1) of
                      (m, Inl err) \<Rightarrow> (s1\<lparr>wc_manager := m\<rparr>, RegistrationFailed err)
                    | (m, Inr conn) \<Rightarrow>
                        (let m1 = on_conn conn
                               (\<lambda>c. fst (conn_Send (connection_ack gatewayID connectionID timestamp) answer c)) m;
                             s2 = s1\<lparr>wc_manager := m1\<rparr>
                         in (if updated then set_active gatewayID True s2 else s2, Connected conn))))))"

text \<open>The end of \<open>Connect\<close>, when the read loop of the connection has returned.\<close>

definition Connect_close ::
  "string \<Rightarrow> string \<Rightarrow> string option \<Rightarrow> bool \<Rightarrow> ws_state \<Rightarrow> ws_state" where
  "Connect_close gatewayID connectionID answer updated s =
     (let s1 = s\<lparr>wc_manager := Unregister gatewayID connectionID answer (wc_manager s)\<rparr>
      in if updated then set_active gatewayID False s1 else s1)"


section \<open>The limiter over time\<close>

text \<open>Checks and cleanups in the order in which they hold the lock, with a log of what was allowed.\<close>

datatype limiter_op = Check string int | Cleanup int

fun op_time :: "limiter_op \<Rightarrow> int" where
  "op_time (Check k now) = now"
| "op_time (Cleanup now) = now"

fun limiter_exec ::
  "int \<Rightarrow> limiter_op \<Rightarrow> rate_map \<times> (string \<times> int) list \<Rightarrow> rate_map \<times> (string \<times> int) list" where
  "limiter_exec n (Check k now) (rm, acc) =
     (let (allowed, rm') = checkRateLimit n k now rm
      in (rm', if allowed then acc @ [(k, now)] else acc))"
| "limiter_exec n (Cleanup now) (rm, acc) = (cleanupRateLimitMap now rm, acc)"

definition limiter_run :: "int \<Rightarrow> limiter_op list \<Rightarrow> rate_map \<times> (string \<times> int) list" where
  "limiter_run n ops = fold (limiter_exec n) ops ([], [])"

definition times_of :: "string \<Rightarrow> (string \<times> int) list \<Rightarrow> int list" where
  "times_of k acc = map snd (filter (\<lambda>e. fst e = k) acc)"

definition window :: "int \<Rightarrow> int list \<Rightarrow> int list" where
  "window t ts = filter (\<lambda>s. t - one_minute < s \<and> s \<le> t) ts"

lemma attempts_update [simp]:
  "attempts_of (AList.update k v rm) k' = (if k' = k then v else attempts_of rm k')"
  by (simp add: attempts_of_def update_conv')

lemma attempts_delete [simp]:
  "attempts_of (AList.delete k rm) k' = (if k' = k then [] else attempts_of rm k')"
  by (simp add: attempts_of_def delete_conv')

lemma recent_all: "length ts \<le> length (recent now ts) \<Longrightarrow> recent now ts = ts"
  by (simp add: recent_def) (metis filter_id_conv le_antisym length_filter_le length_filter_less
      less_irrefl_nat)

lemma cleanup_entry_attempts:
  assumes "attempts_of rm (fst e) = snd e"
  shows "attempts_of (cleanup_entry now e rm) k
       = (if k = fst e then recent now (snd e) else attempts_of rm k)"
  using assms recent_all[of "snd e" now] by (auto simp: cleanup_entry_def Let_def)

lemma cleanup_attempts:
  assumes "distinct (map fst rm)"
  shows "attempts_of (cleanupRateLimitMap now rm) k = recent now (attempts_of rm k)"
proof -
  have "attempts_of (fold (cleanup_entry now) es rm') k
      = (if k \<in> fst ` set es then recent now (attempts_of rm' k) else attempts_of rm' k)"
    if "distinct (map fst es)" "\<forall>e \<in> set es. attempts_of rm' (fst e) = snd e" for es rm'
    using that
  proof (induction es arbitrary: rm')
    case Nil
    then show ?case by simp
  next
    case (Cons e es)
    let ?rm = "cleanup_entry now e rm'"
    have "\<forall>d \<in> set es. attempts_of ?rm (fst d) = snd d"
    proof
      fix d assume d: "d \<in> set es"
      then have "fst d \<noteq> fst e" using Cons.prems(1) by (metis distinct.simps(2) image_eqI list.simps(9) set_map)
      then show "attempts_of ?rm (fst d) = snd d"
        using d Cons.prems(2) cleanup_entry_attempts[of rm' e now] by simp
    qed
    with Cons cleanup_entry_attempts[of rm' e now k] show ?case by auto
  qed
  moreover have "\<forall>e \<in> set rm. attempts_of rm (fst e) = snd e"
    using assms by (auto simp: attempts_of_def)
  moreover have "k \<notin> fst ` set rm \<Longrightarrow> attempts_of rm k = []"
    using map_of_eq_None_iff[of rm k] by (simp add: attempts_of_def)
  ultimately show ?thesis using assms by (auto simp: cleanupRateLimitMap_def recent_def)
qed

lemma cleanup_distinct:
  assumes "distinct (map fst rm)"
  shows "distinct (map fst (cleanupRateLimitMap now rm))"
proof -
  have "distinct (map fst (fold (cleanup_entry now) es rm'))" if "distinct (map fst rm')" for es rm'
    using that by (induction es arbitrary: rm')
      (simp_all add: cleanup_entry_def Let_def distinct_update distinct_delete)
  then show ?thesis using assms by (simp add: cleanupRateLimitMap_def)
qed

definition limiter_inv :: "int \<Rightarrow> int \<Rightarrow> rate_map \<times> (string \<times> int) list \<Rightarrow> bool" where
  "limiter_inv n T s \<longleftrightarrow>
     distinct (map fst (fst s)) \<and> (\<forall>e \<in> set (snd s). snd e \<le> T)
     \<and> (\<forall>k t. T \<le> t \<longrightarrow> recent t (attempts_of (fst s) k) = recent t (times_of k (snd s)))
     \<and> (\<forall>k t. int (length (window t (times_of k (snd s)))) \<le> max 0 n)"

lemma recent_later: "now \<le> t \<Longrightarrow> recent t (recent now ts) = recent t ts"
  by (auto simp: recent_def intro: filter_cong)

lemma recent_shorter: "now \<le> t \<Longrightarrow> length (recent t ts) \<le> length (recent now ts)"
  by (induction ts) (auto simp: recent_def)

lemma window_recent: "\<forall>s \<in> set ts. s \<le> t \<Longrightarrow> window t ts = recent t ts"
  by (auto simp: window_def recent_def intro: filter_cong)

lemma limiter_step:
  assumes inv: "limiter_inv n T s" and T: "T \<le> op_time op"
  shows "limiter_inv n (op_time op) (limiter_exec n op s)"
proof (cases op)
  case (Cleanup now)
  obtain rm acc where s: "s = (rm, acc)" by (cases s)
  show ?thesis
    using inv T cleanup_distinct[of rm now] cleanup_attempts[of rm now]
    by (fastforce simp: s Cleanup limiter_inv_def recent_later)
next
  case (Check k now)
  obtain rm acc where s: "s = (rm, acc)" by (cases s)
  have now: "T \<le> now" using T Check by simp
  show ?thesis
  proof (cases "int (length (recent now (attempts_of rm k))) \<ge> n")
    case True
    with inv now show ?thesis by (fastforce simp: s Check limiter_inv_def checkRateLimit_def Let_def)
  next
    case False
    let ?rm = "AList.update k (recent now (attempts_of rm k) @ [now]) rm" and ?acc = "acc @ [(k, now)]"
    have exec: "limiter_exec n op s = (?rm, ?acc)"
      using False by (simp add: s Check checkRateLimit_def Let_def)
    have old: "e \<in> set acc \<Longrightarrow> snd e \<le> now" for e
      using inv now by (fastforce simp: s limiter_inv_def)
    have same: "now \<le> t \<Longrightarrow> recent t (attempts_of rm j) = recent t (times_of j acc)" for t j
      using inv now by (simp add: s limiter_inv_def)
    have "recent t (attempts_of ?rm j) = recent t (times_of j ?acc)" if "now \<le> t" for t j
      using that same[OF that, of j] recent_later[OF that, of "attempts_of rm k"]
      by (auto simp: times_of_def recent_def)
    moreover have "int (length (window t (times_of j ?acc))) \<le> max 0 n" for t j
    proof (cases "j = k \<and> t - one_minute < now \<and> now \<le> t")
      case True
      have "s \<le> t" if "s \<in> set (times_of k acc)" for s
        using that True old by (fastforce simp: times_of_def)
      then have "window t (times_of k acc) = recent t (times_of k acc)" by (intro window_recent) blast
      then have "length (window t (times_of k acc)) \<le> length (recent now (attempts_of rm k))"
        using True same[of t k] recent_shorter[of now t "attempts_of rm k"] by simp
      moreover have "length (window t (times_of j ?acc)) = Suc (length (window t (times_of k acc)))"
        using True by (simp add: times_of_def window_def)
      ultimately show ?thesis using False by linarith
    next
      case False
      then have "window t (times_of j ?acc) = window t (times_of j acc)"
        by (auto simp: times_of_def window_def)
      then show ?thesis using inv by (simp add: s limiter_inv_def)
    qed
    ultimately show ?thesis
      unfolding exec using inv old by (auto simp: s Check limiter_inv_def distinct_update)
  qed
qed

lemma limiter_run_inv:
  assumes "sorted (map op_time ops)" "ops \<noteq> []"
  shows "limiter_inv n (op_time (last ops)) (limiter_run n ops)"
  using assms
proof (induction ops rule: rev_induct)
  case Nil
  then show ?case by simp
next
  case (snoc op ops)
  show ?case
  proof (cases "ops = []")
    case True
    have "limiter_inv n (op_time op) ([], [])"
      by (simp add: limiter_inv_def attempts_of_def times_of_def recent_def window_def)
    from limiter_step[OF this] True show ?thesis by (simp add: limiter_run_def)
  next
    case False
    then have "op_time (last ops) \<le> op_time op" "sorted (map op_time ops)"
      using snoc.prems by (auto simp: sorted_append)
    with False snoc.IH limiter_step[of n "op_time (last ops)" "limiter_run n ops" op] show ?thesis
      by (simp add: limiter_run_def)
  qed
qed

section \<open>Connections and the active flag\<close>

text \<open>
  Closing one of several connections of a gateway marks the gateway inactive while the others are
  still registered.
\<close>

lemma close_marks_inactive:
  assumes "manager_inv newid (wc_manager s)"
    and "a \<in> set (GetConnections (wc_manager s) g)" "b \<in> set (GetConnections (wc_manager s) g)" "a \<noteq> b"
    and "cn_ConnectionID (mg_heap (wc_manager s) ! a) = cid"
  shows "map_of (wc_active (Connect_close g cid answer True s)) g = Some False
    \<and> b \<in> set (GetConnections (wc_manager (Connect_close g cid answer True s)) g)"
  using Unregister_connections(1)[OF assms(1,2,5)] assms(3,4)
  by (auto simp: Connect_close_def set_active_def update_conv' Let_def)

end
