(* ===== verification/GatewayEvents.thy ===== *)
theory GatewayEvents
  imports WsController
begin

text \<open>
  Broadcasting events to the connections of a gateway
  (\<open>agent-manager-service/services/gateway_events_service.go\<close>).

  The payload is the text that \<open>json.Marshal\<close> makes of the event struct (\<open>None\<close> when it fails);
  inside the event it is the same text again. The correlation id, the time with its text and what
  each connection's transport answers are arguments.
\<close>

definition MaxEventPayloadSize :: nat where
  "MaxEventPayloadSize = 1024 * 1024"

definition event_json :: "string \<Rightarrow> string \<Rightarrow> string \<Rightarrow> string \<Rightarrow> string" where
  "event_json eventType payload timestamp correlationID =
     json_struct [(''type'', json_quote eventType), (''payload'', payload),
       (''timestamp'', json_quote timestamp), (''correlationId'', json_quote correlationID)]"

record delivery =
  dl_manager :: Manager
  dl_success :: nat
  dl_failure :: nat
  dl_lastError :: "string option"

definition update_stats :: "nat \<Rightarrow> (Stats \<Rightarrow> Stats) \<Rightarrow> Manager \<Rightarrow> Manager" where
  "update_stats a f m = on_conn a (\<lambda>c. c\<lparr>cn_DeliveryStats := f (cn_DeliveryStats c)\<rparr>) m"

definition deliver_one ::
  "string \<Rightarrow> int \<Rightarrow> (nat \<Rightarrow> string option) \<Rightarrow> nat \<Rightarrow> delivery \<Rightarrow> delivery" where
  "deliver_one eventJSON now answers a d =
     (let (conn, err) = conn_Send eventJSON (answers a) (mg_heap (dl_manager d) ! a);
          m = on_conn a (\<lambda>_. conn) (dl_manager d)
      in case err of
           Some e \<Rightarrow>
             d\<lparr>dl_manager := update_stats a (IncrementFailed now (''send error: '' @ e)) m,
               dl_failure := dl_failure d + 1, dl_lastError := Some e\<rparr>
         | None \<Rightarrow>
             d\<lparr>dl_manager := update_stats a IncrementTotalSent m, dl_success := dl_success d + 1\<rparr>)"

definition deliver_all ::
  "string \<Rightarrow> int \<Rightarrow> (nat \<Rightarrow> string option) \<Rightarrow> nat list \<Rightarrow> Manager \<Rightarrow> delivery" where
  "deliver_all eventJSON now answers conns m =
     fold (deliver_one eventJSON now answers) conns
       \<lparr>dl_manager = m, dl_success = 0, dl_failure = 0, dl_lastError = None\<rparr>"

text \<open>The manager may be nil. The result is the error, \<open>None\<close> for none.\<close>

definition broadcastEvent ::
  "string \<Rightarrow> string \<Rightarrow> string option \<Rightarrow> string \<Rightarrow> int \<Rightarrow> string \<Rightarrow> (nat \<Rightarrow> string option) \<Rightarrow>
   Manager option \<Rightarrow> Manager option \<times> string option" where
  "broadcastEvent gatewayID eventType payload correlationID now timestamp answers mgr =
     (case payload of
        None \<Rightarrow> (mgr, Some (''failed to serialize '' @ eventType @ '' event''))
      | Some payloadJSON \<Rightarrow>
          if length payloadJSON > MaxEventPayloadSize
          then (mgr, Some (''event payload exceeds maximum size: '' @ show_int (int (length payloadJSON))
                 @ '' bytes (limit: '' @ show_int (int MaxEventPayloadSize) @ '')''))
          else
            (case mgr of
               None \<Rightarrow> (None, None)
             | Some m \<Rightarrow>
                 (let connections = GetConnections m gatewayID in
                  if connections = [] then (Some m, None)
                  else
                    (let d = deliver_all (event_json eventType payloadJSON timestamp correlationID)
                               now answers connections m
                     in (Some (dl_manager d),
                         if dl_success d = 0
                         then Some (''failed to deliver '' @ eventType @ '' event to any connection: ''
                                @ (case dl_lastError d of Some e \<Rightarrow> e | None \<Rightarrow> ''%!w(<nil>)''))
                         else None)))))"

section \<open>Properties\<close>

text \<open>A connection takes the message when it is open and its transport reports no error.\<close>

definition takes :: "Manager \<Rightarrow> (nat \<Rightarrow> string option) \<Rightarrow> nat \<Rightarrow> bool" where
  "takes m answers a \<longleftrightarrow> \<not> cn_closed (mg_heap m ! a) \<and> answers a = None"

text \<open>The heap cell of a connection after one delivery.\<close>

definition delivered_to ::
  "string \<Rightarrow> int \<Rightarrow> string option \<Rightarrow> Connection \<Rightarrow> Connection" where
  "delivered_to eventJSON now answer c =
     (let (c', err) = conn_Send eventJSON answer c in
      case err of
        Some e \<Rightarrow> c'\<lparr>cn_DeliveryStats := IncrementFailed now (''send error: '' @ e) (cn_DeliveryStats c')\<rparr>
      | None \<Rightarrow> c'\<lparr>cn_DeliveryStats := IncrementTotalSent (cn_DeliveryStats c')\<rparr>)"

lemma deliver_one_eq:
  assumes "a < length (mg_heap (dl_manager d))"
  shows "deliver_one js now answers a d =
    d\<lparr>dl_manager := on_conn a (delivered_to js now (answers a)) (dl_manager d),
      dl_success := dl_success d + (if takes (dl_manager d) answers a then 1 else 0),
      dl_failure := dl_failure d + (if takes (dl_manager d) answers a then 0 else 1),
      dl_lastError := (if takes (dl_manager d) answers a then dl_lastError d
         else snd (conn_Send js (answers a) (mg_heap (dl_manager d) ! a)))\<rparr>"
  using assms
  by (cases "answers a")
    (auto simp: deliver_one_def delivered_to_def update_stats_def on_conn_def takes_def conn_Send_def
      Let_def)

lemma delivered_frame [simp]:
  "cn_GatewayID (delivered_to js now ans c) = cn_GatewayID c"
  "cn_ConnectionID (delivered_to js now ans c) = cn_ConnectionID c"
  "cn_closed (delivered_to js now ans c) = cn_closed c"
  by (auto simp: delivered_to_def conn_Send_def to_transport_def split: option.split)

lemma deliver_one_heap:
  assumes "b < length (mg_heap (dl_manager d))"
  shows "mg_heap (dl_manager (deliver_one js now answers b d))
      = (mg_heap (dl_manager d))[b := delivered_to js now (answers b) (mg_heap (dl_manager d) ! b)]"
  using assms by (simp add: deliver_one_eq on_conn_def)

lemma deliver_one_takes:
  assumes "b < length (mg_heap (dl_manager d))"
  shows "takes (dl_manager (deliver_one js now answers b d)) answers a = takes (dl_manager d) answers a"
proof (cases "a = b")
  case True
  then show ?thesis using assms by (simp add: takes_def deliver_one_heap)
next
  case False
  then show ?thesis using assms by (simp add: takes_def deliver_one_heap)
qed

lemma deliver_counts:
  assumes "\<forall>a \<in> set conns. a < length (mg_heap (dl_manager d))"
  shows "dl_success (fold (deliver_one js now answers) conns d)
      = dl_success d + length (filter (takes (dl_manager d) answers) conns)"
  using assms
proof (induction conns arbitrary: d)
  case Nil
  then show ?case by simp
next
  case (Cons b bs)
  let ?d = "deliver_one js now answers b d"
  have "takes (dl_manager ?d) answers = takes (dl_manager d) answers"
    using deliver_one_takes Cons.prems by (intro ext) simp
  with Cons.IH[of ?d] Cons.prems show ?case by (simp add: deliver_one_heap) (simp add: deliver_one_eq)
qed

lemma deliver_heap:
  assumes "\<forall>a \<in> set conns. a < length (mg_heap (dl_manager d))" "distinct conns"
    and "a < length (mg_heap (dl_manager d))"
  shows "mg_heap (dl_manager (fold (deliver_one js now answers) conns d)) ! a
      = (if a \<in> set conns then delivered_to js now (answers a) (mg_heap (dl_manager d) ! a)
         else mg_heap (dl_manager d) ! a)"
  using assms
proof (induction conns arbitrary: d)
  case Nil
  then show ?case by simp
next
  case (Cons b bs)
  then show ?case
    using Cons.IH[of "deliver_one js now answers b d"]
    by (auto simp: deliver_one_heap nth_list_update)
qed

lemma deliver_all_counts:
  assumes "\<forall>a \<in> set conns. a < length (mg_heap m)" "distinct conns"
  shows "dl_success (deliver_all js now answers conns m) = length (filter (takes m answers) conns)"
    and "a < length (mg_heap m) \<Longrightarrow> mg_heap (dl_manager (deliver_all js now answers conns m)) ! a
      = (if a \<in> set conns then delivered_to js now (answers a) (mg_heap m ! a) else mg_heap m ! a)"
  using deliver_counts[of conns "\<lparr>dl_manager = m, dl_success = 0, dl_failure = 0, dl_lastError = None\<rparr>"]
    deliver_heap[of conns "\<lparr>dl_manager = m, dl_success = 0, dl_failure = 0, dl_lastError = None\<rparr>" a]
    assms by (simp_all add: deliver_all_def)

lemma connections_distinct:
  "manager_inv newid m \<Longrightarrow> distinct (GetConnections m g)"
  by (auto simp: GetConnections_def manager_inv_def entry_ok_def dest!: map_of_SomeD split: option.split)

lemma broadcast_delivers:
  assumes inv: "manager_inv newid m" and p: "length payload \<le> MaxEventPayloadSize"
    and b: "broadcastEvent g ty (Some payload) cid now ts answers (Some m) = (Some m', err)"
  shows "err = None \<longleftrightarrow> GetConnections m g = [] \<or> (\<exists>a \<in> set (GetConnections m g). takes m answers a)"
    and "\<forall>a < length (mg_heap m). mg_heap m' ! a =
      (if a \<in> set (GetConnections m g)
       then delivered_to (event_json ty payload ts cid) now (answers a) (mg_heap m ! a)
       else mg_heap m ! a)"
proof -
  let ?conns = "GetConnections m g"
  have ok: "\<forall>a \<in> set ?conns. a < length (mg_heap m)" "distinct ?conns"
    using registered_ok[OF inv] connections_distinct[OF inv] by auto
  note d = deliver_all_counts[OF ok, where js = "event_json ty payload ts cid" and now = now
      and answers = answers]
  show "err = None \<longleftrightarrow> ?conns = [] \<or> (\<exists>a \<in> set ?conns. takes m answers a)"
    using b p d(1) by (auto simp: broadcastEvent_def Let_def filter_empty_conv split: if_splits)
  show "\<forall>a < length (mg_heap m). mg_heap m' ! a = (if a \<in> set ?conns
      then delivered_to (event_json ty payload ts cid) now (answers a) (mg_heap m ! a) else mg_heap m ! a)"
    using b p d(2) by (auto simp: broadcastEvent_def Let_def split: if_splits)
qed

end
