(* ===== verification/GatewayProperties.thy ===== *)
theory GatewayProperties
  imports WsRace GatewayEvents
begin

text \<open>
  What the gateway connections promise: properties of the registry, of one connection, of the rate
  limiter and of event delivery, each with a concrete instance where it has hypotheses.
\<close>

section \<open>A registry to look at\<close>

definition unary_id :: "nat \<Rightarrow> string" where
  "unary_id n = replicate n (CHR ''x'')"

lemma inj_unary: "inj unary_id"
  by (auto simp: unary_id_def intro: injI dest: arg_cong[where f = length])

text \<open>Two connections of the gateway \<open>g\<close> and one of \<open>h\<close>.\<close>

definition sample_ops :: "manager_op list" where
  "sample_ops = [OpRegister ''g'' ''k'' 1, OpRegister ''g'' ''k'' 2, OpRegister ''h'' ''k'' 3]"

definition sample_manager :: Manager where
  "sample_manager = fold (manager_exec unary_id) sample_ops (NewManager 10 30)"

lemma sample_manager_inv: "manager_inv unary_id sample_manager"
  unfolding sample_manager_def by (intro manager_system.run_inv init_manager_inv inj_unary)

lemma sample_connections:
  "GetConnections sample_manager ''g'' = [0, 1]" "GetConnections sample_manager ''h'' = [2]"
  by code_simp+

section \<open>The registry\<close>

text \<open>C10. Whatever the sequence of registrations, unregistrations, heartbeats, sends and shutdowns, the
  counter equals the number of registered connections and stays within the limit, no gateway has an empty
  slice, and a registered connection belongs to its gateway and is open unless the service shuts down.\<close>

theorem registry_stays_consistent:
  assumes "inj newid"
  shows "let m = fold (manager_exec newid) ops (NewManager maxConnections timeout) in
    distinct (map fst (mg_connections m))
    \<and> mg_connectionCount m = (\<Sum>e\<leftarrow>mg_connections m. int (length (snd e)))
    \<and> (mg_connectionCount m \<le> mg_maxConnections m \<or> mg_connectionCount m = 0)
    \<and> list_all (\<lambda>(g, conns). conns \<noteq> [] \<and> distinct conns
        \<and> list_all (\<lambda>a. cn_GatewayID (mg_heap m ! a) = g \<and> (mg_shutdown m \<or> \<not> cn_closed (mg_heap m ! a))) conns)
      (mg_connections m)"
  using manager_system.run_inv[OF init_manager_inv[OF assms], of ops maxConnections timeout]
  unfolding manager_inv_def entry_ok_def total_registered_def Let_def list_all_iff by auto

theorem registry_stays_consistent_witness:
  "mg_connectionCount sample_manager = (\<Sum>e\<leftarrow>mg_connections sample_manager. int (length (snd e)))"
  using registry_stays_consistent[OF inj_unary, of sample_ops 10 30] unfolding sample_manager_def Let_def by simp

text \<open>Registering appends one open connection to its gateway's slice, and changes no other gateway
  and no existing connection; at the limit it is refused and changes nothing.\<close>

theorem register_appends_one:
  "case Register g tok cid now m of
     (m', Inr a) \<Rightarrow> mg_connectionCount m < mg_maxConnections m \<and> a = length (mg_heap m)
        \<and> (\<forall>h. GetConnections m' h = GetConnections m h @ (if h = g then [a] else []))
        \<and> mg_heap m' = mg_heap m @ [NewConnection g cid tok now] \<and> mg_connectionCount m' = mg_connectionCount m + 1
   | (m', Inl e) \<Rightarrow> mg_connectionCount m \<ge> mg_maxConnections m \<and> m' = m"
proof (cases "Register g tok cid now m")
  case (Pair m' r)
  show ?thesis
  proof (cases r)
    case (Inl e)
    then show ?thesis using Pair by (auto simp: Register_def Let_def split: if_splits)
  next
    case (Inr a)
    note reg = Register_connections[OF Pair[unfolded Inr]]
    have "mg_connectionCount m < mg_maxConnections m" "mg_heap m' = mg_heap m @ [NewConnection g cid tok now]"
      using Pair Inr by (auto simp: Register_def Let_def split: if_splits)
    then show ?thesis using Pair Inr reg by simp
  qed
qed

text \<open>Unregistering a connection takes exactly it out of its gateway's slice and the count, and closes
  it; the other gateways keep theirs, and doing it again changes nothing.\<close>

theorem unregister_removes_one:
  assumes "manager_inv newid m" and "a \<in> set (GetConnections m g)"
    and "cn_ConnectionID (mg_heap m ! a) = cid"
  shows "let m' = Unregister g cid answer m in
    GetConnections m' g = remove1 a (GetConnections m g)
    \<and> (\<forall>h. h \<noteq> g \<longrightarrow> GetConnections m' h = GetConnections m h)
    \<and> cn_closed (mg_heap m' ! a) \<and> mg_connectionCount m' = mg_connectionCount m - 1
    \<and> Unregister g cid answer' m' = m'"
  using Unregister_connections[OF assms] Unregister_idem[OF assms(1)] by (simp add: Let_def)

theorem unregister_removes_one_witness:
  "GetConnections (Unregister ''g'' (unary_id 0) None sample_manager) ''g'' = [1]"
proof -
  have "cn_ConnectionID (mg_heap sample_manager ! 0) = unary_id 0" by code_simp
  then show ?thesis
    using unregister_removes_one[OF sample_manager_inv, of 0 "''g''" "unary_id 0" None None]
    by (simp add: sample_connections Let_def)
qed

text \<open>A connection whose last sign of life is older than the timeout is unregistered and closed at the
  next tick of its monitor, which then ends.\<close>

theorem stale_connection_is_dropped:
  assumes "manager_inv newid m" and "a \<in> set (GetConnections m g)"
    and "now - cn_LastHeartbeat (mg_heap m ! a) > mg_heartbeatTimeout m" and "\<not> mg_shutdown m"
  shows "case heartbeat_tick a now pa ca m of (m', goes_on) \<Rightarrow>
    a \<notin> set (GetConnections m' g) \<and> cn_closed (mg_heap m' ! a) \<and> \<not> goes_on
    \<and> mg_connectionCount m' = mg_connectionCount m - 1"
  using stale_is_dropped[OF assms] by (cases "heartbeat_tick a now pa ca m") auto

theorem stale_connection_is_dropped_witness:
  "\<not> snd (heartbeat_tick 0 32 None None sample_manager)"
proof -
  have "cn_LastHeartbeat (mg_heap sample_manager ! 0) = 1" "mg_heartbeatTimeout sample_manager = 30"
    "\<not> mg_shutdown sample_manager" by code_simp+
  then show ?thesis
    using stale_connection_is_dropped[OF sample_manager_inv, of 0 "''g''" 32 None None]
    by (simp add: sample_connections split: prod.splits)
qed

section \<open>One connection\<close>

text \<open>C11. Whatever is done with a connection, it hands at most one close frame to the transport, nothing
  after it, and it has handed one exactly when it is closed.\<close>

theorem frames_end_with_close:
  "let c = fold conn_exec ops (NewConnection g cid tok now) in
   (if cn_closed c then \<exists>fs k r. cn_Transport c = fs @ [CloseFrame k r] \<and> \<not> list_ex is_close fs
    else \<not> list_ex is_close (cn_Transport c))"
proof -
  have "well_framed (NewConnection g cid tok now)" by (simp add: well_framed_def NewConnection_def)
  then show ?thesis using conn_system.run_inv unfolding Let_def well_framed_def by blast
qed

lemmas f64_eval = f64_of_def round_f64_def round_f64_pos_def ilog2_def quotient_of_number bitlen_def
  compute_floorlog pow2_def round_half_even_def Let_def

lemma floor_max_uint64: "\<lfloor>18446744073709551615 / 2048 :: rat\<rfloor> = 9007199254740991"
  by (simp add: floor_eq_iff)

lemma f64_values:
  "f64_of 1 = Fin 1" "f64_of 18446744073709551615 = Fin 18446744073709551616"
  "f64_of 18446744073709551616 = Fin 18446744073709551616"
  "f64_of 1844674407370955161600 = Fin 1844674407370955161600"
  by (simp_all add: f64_eval floor_max_uint64)

lemma minus_one_uint: "unsigned (- 1 :: 64 word) = (18446744073709551615 :: rat)"
proof -
  have "uint (- 1 :: 64 word) = 18446744073709551615"
    by (simp add: unsigned_minus_1_eq_mask mask_eq_exp_minus_1)
  then show ?thesis by (metis of_int_numeral of_int_uint)
qed

text \<open>The success rate divides the deliveries that succeeded minus those that failed by those that
  succeeded, at 64 unsigned bits: after one delivery and two failures it is 1844674407370955161600 percent.\<close>

theorem success_rate_underflows:
  "GetSuccessRate (IncrementFailed t2 r2 (IncrementFailed t1 r1 (IncrementTotalSent NewStats)))
     = Fin 1844674407370955161600"
  by (simp add: GetSuccessRate_def IncrementFailed_def IncrementTotalSent_def NewStats_def f64_values
      minus_one_uint)

section \<open>Concurrent calls\<close>

text \<open>Under every interleaving of registrations and unregistrations the counter is the number of
  registrations past the limit check less the unregistrations past the decrement, and it never exceeds the
  limit.\<close>

theorem counter_under_interleaving:
  assumes "list_all at_start calls" and "0 \<le> n"
  shows "let st = run_calls schedule (init_race n calls) in
    rc_count st = int (length (filter counted (rc_threads st))) - int (length (filter uncounted (rc_threads st)))
    \<and> rc_count st \<le> n"
proof -
  have "race_inv (run_calls schedule (init_race n calls))"
    unfolding run_calls_def by (rule race.run_inv[OF race_start[OF assms(1)]])
  moreover have "rc_max (run_calls schedule (init_race n calls)) = n"
    unfolding run_calls_max by (simp add: init_race_def)
  ultimately show ?thesis using assms(2) by (simp add: race_inv_def Let_def)
qed

theorem counter_under_interleaving_witness:
  "rc_count (run_calls [0, 1, 0, 1, 2, 1] (init_race 2 [RegCheck ''g'', RegCheck ''g'', RegCheck ''h''])) \<le> 2"
  using counter_under_interleaving[of "[RegCheck ''g'', RegCheck ''g'', RegCheck ''h'']" 2 "[0, 1, 0, 1, 2, 1]"]
  by (simp add: Let_def)

text \<open>C12. The registry is not safe under interleaving, though the counter is. A registration that has loaded its gateway's
  slice stores its own copy whatever the other threads did since: a connection of the gateway whose registration
  succeeded in between, and so is counted, is in the slice no more, and unregistering it is skipped and leaves the counter as it
  is. Two unregistrations that both find the connection before either stores both complete, in every order of their
  remaining steps: one connection leaves the slice, and the counter falls by two. (Each append copies the slice here, as it
  does when the slice is full.)\<close>

theorem interleavings_corrupt_the_registry:
  assumes inv: "race_inv st" and threads: "i < length (rc_threads st)" "j < length (rc_threads st)" "i \<noteq> j"
  shows "(\<forall>conns s st'. rc_threads st ! i = RegStore g conns \<and> j \<notin> set conns
        \<and> (rc_threads st ! j = RegLoad g \<or> (\<exists>conns'. rc_threads st ! j = RegStore g conns'))
        \<and> i \<notin> set s \<and> st' = run_calls (s @ [i]) st \<and> rc_threads st' ! j = RegDone \<longrightarrow>
      rc_get st' g = conns @ [i] \<and> j \<notin> set (rc_get st' g)
      \<and> rc_count st' = int (length (filter counted (rc_threads st'))) - int (length (filter uncounted (rc_threads st')))
      \<and> (\<forall>k. rc_threads st' ! k = UnregLoad g j \<longrightarrow>
           call_step k st' = st'\<lparr>rc_threads := (rc_threads st')[k := UnregSkipped]\<rparr>))
    \<and> (\<forall>c s st'. rc_threads st ! i = UnregLoad g c \<and> rc_threads st ! j = UnregLoad g c \<and> c \<in> set (rc_get st g)
        \<and> set s \<subseteq> {i, j} \<and> 3 \<le> count_list s i \<and> 3 \<le> count_list s j \<and> st' = run_calls ([i, j] @ s) st \<longrightarrow>
      rc_threads st' ! i = UnregDone \<and> rc_threads st' ! j = UnregDone
      \<and> rc_get st' g = removeAll c (rc_get st g) \<and> rc_count st' = rc_count st - 2)"
proof (intro conjI allI impI; elim conjE)
  fix conns s st'
  assume store: "rc_threads st ! i = RegStore g conns" "i \<notin> set s" and j: "j \<notin> set conns"
    and st': "st' = run_calls (s @ [i]) st"
  show get: "rc_get st' g = conns @ [i]" using store_loses[OF threads(1) store] st' by simp
  with j threads(3) show lost: "j \<notin> set (rc_get st' g)" by simp
  show "rc_count st' = int (length (filter counted (rc_threads st'))) - int (length (filter uncounted (rc_threads st')))"
    using run_calls_inv[OF inv, of "s @ [i]"] st' by (simp add: race_inv_def)
  show "call_step k st' = st'\<lparr>rc_threads := (rc_threads st')[k := UnregSkipped]\<rparr>"
    if "rc_threads st' ! k = UnregLoad g j" for k
    using unregister_lost[OF that lost] .
qed (use double_unregistration threads in blast)+

theorem interleavings_corrupt_the_registry_witness:
  "rc_get (run_calls [0, 1, 0, 1, 0, 1] (init_race 1000 [RegCheck ''g'', RegCheck ''g'', UnregLoad ''g'' 0])) ''g'' = [1]
   \<and> rc_count (run_calls [0, 0, 0, 1, 2, 1, 2, 1, 2, 1, 2] (init_race 1000 [RegCheck ''g'', UnregLoad ''g'' 0, UnregLoad ''g'' 0])) = -1"
proof -
  let ?st = "\<lparr>rc_conns = [(''g'', [])], rc_count = 2, rc_max = 1000, rc_closed = {},
      rc_threads = [RegStore ''g'' [], RegStore ''g'' [], UnregLoad ''g'' 0]\<rparr>"
  let ?st2 = "\<lparr>rc_conns = [(''g'', [0])], rc_count = 1, rc_max = 1000, rc_closed = {},
      rc_threads = [RegDone, UnregLoad ''g'' 0, UnregLoad ''g'' 0]\<rparr>"
  have starts: "run_calls [0, 1, 0, 1] (init_race 1000 [RegCheck ''g'', RegCheck ''g'', UnregLoad ''g'' 0]) = ?st"
    "run_calls [0, 0, 0] (init_race 1000 [RegCheck ''g'', UnregLoad ''g'' 0, UnregLoad ''g'' 0]) = ?st2"
    by (simp_all add: run_calls_simps init_race_def call_step_def Let_def rc_lookup_def)
  have runs: "run_calls [0, 1, 0, 1, 0, 1] (init_race 1000 [RegCheck ''g'', RegCheck ''g'', UnregLoad ''g'' 0])
      = run_calls ([0] @ [1]) ?st"
    "run_calls [0, 0, 0, 1, 2, 1, 2, 1, 2, 1, 2] (init_race 1000 [RegCheck ''g'', UnregLoad ''g'' 0, UnregLoad ''g'' 0])
      = run_calls ([1, 2] @ [1, 2, 1, 2, 1, 2]) ?st2"
    unfolding starts[symmetric] by (simp_all only: run_calls_simps append.simps)
  have "race_inv ?st" "race_inv ?st2" by (simp_all add: race_inv_def)
  moreover have "rc_threads (run_calls ([0] @ [1]) ?st) ! 0 = RegDone"
    by (simp add: run_calls_simps call_step_def Let_def)
  ultimately have "rc_get (run_calls ([0] @ [1]) ?st) ''g'' = [] @ [1]"
    "rc_count (run_calls ([1, 2] @ [1, 2, 1, 2, 1, 2]) ?st2) = rc_count ?st2 - 2"
    using interleavings_corrupt_the_registry[THEN conjunct1, of ?st 1 0, rule_format, of "''g''" "[]" "[0]" "run_calls ([0] @ [1]) ?st"]
      interleavings_corrupt_the_registry[THEN conjunct2, of ?st2 1 2, rule_format,
        of "''g''" 0 "[1, 2, 1, 2, 1, 2]" "run_calls ([1, 2] @ [1, 2, 1, 2, 1, 2]) ?st2"]
    by (simp_all add: rc_get_def rc_lookup_def)
  then show ?thesis unfolding runs by simp
qed

section \<open>The rate limiter\<close>

text \<open>C13. With checks and cleanups in the order of their times, no key is allowed more than the limit of
  connections within any window of one minute.\<close>

theorem limiter_bounds_every_window:
  assumes "sorted (map op_time ops)" and "0 \<le> n"
  shows "int (length (window t (times_of k (snd (limiter_run n ops))))) \<le> n"
proof (cases "ops = []")
  case True
  then show ?thesis using assms(2) by (simp add: limiter_run_def times_of_def window_def)
next
  case False
  then show ?thesis using limiter_run_inv[OF assms(1), of n] assms(2) by (simp add: limiter_inv_def)
qed

theorem limiter_bounds_every_window_witness:
  "int (length (window 5 (times_of ''k'' (snd (limiter_run 2 [Check ''k'' 1, Check ''k'' 2, Cleanup 3, Check ''k'' 4]))))) \<le> 2"
  by (rule limiter_bounds_every_window) simp_all

section \<open>Closing and broadcasting\<close>

text \<open>When one of several connections of a gateway ends, the gateway is marked inactive although the
  other connections are still registered.\<close>

theorem closing_one_marks_inactive:
  assumes "manager_inv newid (wc_manager s)" and "a \<in> set (GetConnections (wc_manager s) g)"
    and "b \<in> set (GetConnections (wc_manager s) g)" and "a \<noteq> b"
    and "cn_ConnectionID (mg_heap (wc_manager s) ! a) = cid"
  shows "map_of (wc_active (Connect_close g cid answer True s)) g = Some False
    \<and> b \<in> set (GetConnections (wc_manager (Connect_close g cid answer True s)) g)"
  by (rule close_marks_inactive[OF assms])

definition sample_ws :: ws_state where
  "sample_ws = \<lparr>wc_manager = sample_manager, wc_rateLimitMap = [], wc_rateLimitCount = 5, wc_active = [(''g'', True)]\<rparr>"

theorem closing_one_marks_inactive_witness:
  "map_of (wc_active (Connect_close ''g'' (unary_id 0) None True sample_ws)) ''g'' = Some False"
proof -
  have "cn_ConnectionID (mg_heap sample_manager ! 0) = unary_id 0" by code_simp
  then show ?thesis
    using closing_one_marks_inactive[of unary_id sample_ws 0 "''g''" 1 "unary_id 0" None]
    by (simp add: sample_ws_def sample_connections sample_manager_inv)
qed

text \<open>Broadcasting an event of at most 1 MB offers it to every connection of the gateway and to no
  other, and fails exactly when the gateway has connections and none of them takes it.\<close>

theorem broadcast_reaches_the_gateway:
  assumes "manager_inv newid m" and "length payload \<le> MaxEventPayloadSize"
    and "broadcastEvent g ty (Some payload) cid now ts answers (Some m) = (Some m', err)"
  shows "(err = None \<longleftrightarrow> GetConnections m g = [] \<or> (\<exists>a \<in> set (GetConnections m g). takes m answers a))
    \<and> (\<forall>a < length (mg_heap m). mg_heap m' ! a =
        (if a \<in> set (GetConnections m g)
         then delivered_to (event_json ty payload ts cid) now (answers a) (mg_heap m ! a) else mg_heap m ! a))"
  using broadcast_delivers[OF assms] by blast

theorem broadcast_reaches_the_gateway_witness:
  "snd (broadcastEvent ''g'' ''e'' (Some ''{}'') ''c'' 7 ''t'' (\<lambda>a. if a = 0 then Some ''broken'' else None)
     (Some sample_manager)) = None"
proof -
  obtain m' err where b: "broadcastEvent ''g'' ''e'' (Some ''{}'') ''c'' 7 ''t''
      (\<lambda>a. if a = 0 then Some ''broken'' else None) (Some sample_manager) = (Some m', err)"
    by (auto simp: broadcastEvent_def MaxEventPayloadSize_def sample_connections Let_def)
  have "takes sample_manager (\<lambda>a. if a = 0 then Some ''broken'' else None) 1" by code_simp
  then show ?thesis
    using broadcast_reaches_the_gateway[OF sample_manager_inv _ b] b
    by (simp add: MaxEventPayloadSize_def sample_connections)
qed

end
