(* ===== verification/DeployPolicies.thy ===== *)
theory DeployPolicies
  imports SpanMessages "HOL-Library.Word"
begin

text \<open>
  The gateway configuration that deploying an LLM provider generates
  (\<open>generateLLMProviderDeploymentYAML\<close> and its helpers in
  \<open>agent-manager-service/services/llm_deployment_service.go\<close>), with the provider's configuration
  (\<open>models/llm_provider.go\<close>, \<open>models/upstream.go\<close>).

  The third-party \<open>yaml.Marshal\<close> is an argument. A pointer is an option; a parameter map is a list
  of entries.
\<close>

section \<open>Errors\<close>

text \<open>
  \<open>Errorf\<close> keeps the format and the texts it is applied to, \<open>Wrapf\<close> the error it wraps too;
  \<open>Database\<close> is an error of a statement.
\<close>

datatype deploy_error =
    ErrDeploymentBaseRequired
  | ErrDeploymentGatewayIDRequired
  | ErrDeploymentNameRequired
  | ErrGatewayNotFound
  | ErrLLMProviderNotFound
  | ErrLLMProviderTemplateNotFound
  | ErrInvalidInput
  | ErrBaseDeploymentNotFound
  | ErrDeploymentNotFound
  | ErrGatewayIDMismatch
  | ErrDeploymentNotActive
  | ErrDeploymentAlreadyDeployed
  | ErrDeploymentIsDeployed
  | ErrInvalidDeploymentStatus
  | ErrRecordNotFound
  | ErrGatewayAlreadyExists
  | ErrGatewayHasDeployments
  | ErrLLMProxyNotFound
  | ErrMonitorNotFound
  | ErrMonitorAlreadyExists
  | ErrMonitorAlreadyStopped
  | ErrMonitorAlreadyActive
  | ErrMonitorRunNotFound
  | ErrEvaluatorNotFound
  | ErrCustomEvaluatorNotFound
  | ErrCustomEvaluatorAlreadyExists
  | ErrCustomEvaluatorIdentifierTaken
  | ErrCustomEvaluatorInUse
  | ErrLLMProviderExists
  | ErrLLMProviderHasProxies
  | ErrLLMProxyExists
  | ErrArtifactNotFound
  | ErrInvalidKeySize
  | ErrInvalidCiphertext
  | Database string
  | PgError string string
  | Errorf string "string list"
  | Wrapf string "string list" deploy_error

text \<open>\<open>errors.Is\<close>: the error itself or one that it wraps.\<close>

fun error_is :: "deploy_error \<Rightarrow> deploy_error \<Rightarrow> bool" where
  "error_is t (Wrapf text args e) \<longleftrightarrow> Wrapf text args e = t \<or> error_is t e"
| "error_is t e \<longleftrightarrow> e = t"

definition andThen :: "'e + 'a \<Rightarrow> ('a \<Rightarrow> 'e + 'b) \<Rightarrow> 'e + 'b" where
  "andThen r f = (case r of Inl e \<Rightarrow> Inl e | Inr x \<Rightarrow> f x)"

definition wrap_error :: "string \<Rightarrow> deploy_error + 'a \<Rightarrow> deploy_error + 'a" where
  "wrap_error text r = map_sum (Wrapf text []) id r"

lemma andThen_simps [simp]: "andThen (Inl e) f = Inl e" "andThen (Inr x) f = f x"
  by (simp_all add: andThen_def)

lemma wrap_error_simps [simp]:
  "wrap_error t (Inl e) = Inl (Wrapf t [] e)" "wrap_error t (Inr x) = Inr x"
  by (simp_all add: wrap_error_def)

lemma andThen_Inr: "andThen r f = Inr y \<longleftrightarrow> (\<exists>x. r = Inr x \<and> f x = Inr y)"
  by (cases r) simp_all

lemma map_sum_Inr: "map_sum f g r = Inr y \<longleftrightarrow> (\<exists>x. r = Inr x \<and> y = g x)"
  by (cases r) auto

lemma wrap_error_Inr: "wrap_error t r = Inr y \<longleftrightarrow> r = Inr y"
  by (cases r) simp_all

section \<open>The configuration of a provider\<close>

record UpstreamAuth =
  ua_Type :: "string option"
  ua_Header :: "string option"
  ua_Value :: "string option"
  ua_SecretRef :: "string option"

record UpstreamEndpoint =
  ue_URL :: string
  ue_Ref :: string
  ue_Auth :: "UpstreamAuth option"

record UpstreamConfig =
  uc_Main :: "UpstreamEndpoint option"
  uc_Sandbox :: "UpstreamEndpoint option"

record RouteException =
  re_Path :: string
  re_Methods :: "string list"

record LLMAccessControl =
  ac_Mode :: string
  ac_Exceptions :: "RouteException list"

record LLMPolicyPath =
  pp_Path :: string
  pp_Methods :: "string list"
  pp_Params :: gmap

record LLMPolicy =
  po_Name :: string
  po_Version :: string
  po_Paths :: "LLMPolicyPath list"

record RateLimitResetWindow =
  rw_Duration :: int
  rw_Unit :: string

text \<open>\<open>RequestRateLimit\<close> and \<open>TokenRateLimit\<close> have the same fields.\<close>

record CountRateLimit =
  rl_Enabled :: bool
  rl_Count :: int
  rl_Reset :: RateLimitResetWindow

record RateLimitingLimitConfig =
  lc_Request :: "CountRateLimit option"
  lc_Token :: "CountRateLimit option"

record RateLimitingResourceLimit =
  rr_Resource :: string
  rr_Limit :: RateLimitingLimitConfig

record ResourceWiseRateLimitingConfig =
  rc_Default :: RateLimitingLimitConfig
  rc_Resources :: "RateLimitingResourceLimit list"

record RateLimitingScopeConfig =
  sc_Global :: "RateLimitingLimitConfig option"
  sc_ResourceWise :: "ResourceWiseRateLimitingConfig option"

record LLMRateLimitingConfig =
  rlc_ProviderLevel :: "RateLimitingScopeConfig option"
  rlc_ConsumerLevel :: "RateLimitingScopeConfig option"

record APIKeySecurity =
  ak_Enabled :: "bool option"
  ak_Key :: string
  ak_In :: string

record SecurityConfig =
  sec_Enabled :: "bool option"
  sec_APIKey :: "APIKeySecurity option"

record LLMProviderConfig =
  cf_Name :: string
  cf_Handle :: string
  cf_Version :: string
  cf_Context :: "string option"
  cf_VHost :: "string option"
  cf_Template :: string
  cf_Upstream :: "UpstreamConfig option"
  cf_AccessControl :: "LLMAccessControl option"
  cf_RateLimiting :: "LLMRateLimitingConfig option"
  cf_Policies :: "LLMPolicy list"
  cf_Security :: "SecurityConfig option"

text \<open>
  The fields of \<open>LLMProvider\<close> that a deployment reads. The query that loads a provider joins its
  artifact, so \<open>Artifact\<close> is not nil and the record holds the artifact's handle itself.
\<close>

record LLMProvider =
  pv_UUID :: "128 word"
  pv_TemplateHandle :: string
  pv_ModelList :: string
  pv_Configuration :: LLMProviderConfig
  pv_ArtifactHandle :: string

section \<open>Helpers\<close>

definition isBoolTrue :: "bool option \<Rightarrow> bool" where
  "isBoolTrue v \<longleftrightarrow> v = Some True"

definition formatRateLimitDuration :: "int \<Rightarrow> string \<Rightarrow> deploy_error + string" where
  "formatRateLimitDuration duration u =
     (if duration \<le> 0 then Inl (Errorf ''duration must be positive, got %d'' [show_int duration])
      else
        (let k = to_lower (trim_space u) in
         if k = ''minute'' then Inr (show_int duration @ ''m'')
         else if k = ''hour'' then Inr (show_int duration @ ''h'')
         else if k = ''day'' then Inr (show_int (wrap64 (duration * 24)) @ ''h'')
         else if k = ''week'' then Inr (show_int (wrap64 (duration * 24 * 7)) @ ''h'')
         else if k = ''month'' then Inr (show_int (wrap64 (duration * 24 * 30)) @ ''h'')
         else Inl (Errorf ''unsupported reset unit: %q'' [u])))"

definition cut_index :: "char \<Rightarrow> string \<Rightarrow> string" where
  "cut_index c s = (case index_of c s of Some idx \<Rightarrow> take idx s | None \<Rightarrow> s)"

definition normalizePolicyVersionToMajor :: "string \<Rightarrow> string" where
  "normalizePolicyVersionToMajor version =
     (let trimmedVersion = trim_space version in
      if trimmedVersion = [] then trimmedVersion
      else
        (let versionWithoutPrefix =
               (if prefix ''v'' (to_lower trimmedVersion) then drop 1 trimmedVersion else trimmedVersion)
         in if versionWithoutPrefix = [] then trimmedVersion
            else
              (let majorVersion = trim_space
                     (cut_index (CHR ''-'') (cut_index (CHR ''.'') versionWithoutPrefix))
               in if majorVersion = [] then trimmedVersion
                  else if atoi majorVersion = None then trimmedVersion
                  else ''v'' @ majorVersion)))"

definition pathsAreEqual :: "LLMPolicyPath \<Rightarrow> LLMPolicyPath \<Rightarrow> bool" where
  "pathsAreEqual a b \<longleftrightarrow>
     (if pp_Path a \<noteq> pp_Path b then False
      else
        (let aMethodsSet = remdups (pp_Methods a); bMethodsSet = remdups (pp_Methods b) in
         if length aMethodsSet \<noteq> length bMethodsSet then False
         else if \<not> list_all (\<lambda>m. m \<in> set bMethodsSet) aMethodsSet then False
         else if length (pp_Params a) \<noteq> length (pp_Params b) then False
         else list_all (\<lambda>(k, v). case map_of (pp_Params b) k of
             None \<Rightarrow> False | Some bv \<Rightarrow> sprint v = sprint bv) (pp_Params a)))"

fun addOrAppendPolicyPath ::
  "LLMPolicy list \<Rightarrow> string \<Rightarrow> string \<Rightarrow> LLMPolicyPath \<Rightarrow> LLMPolicy list" where
  "addOrAppendPolicyPath [] name version path =
     [\<lparr>po_Name = name, po_Version = version, po_Paths = [path]\<rparr>]"
| "addOrAppendPolicyPath (p # ps) name version path =
     (if po_Name p = name \<and> po_Version p = version then
        (if list_ex (\<lambda>existingPath. pathsAreEqual existingPath path) (po_Paths p) then p # ps
         else p\<lparr>po_Paths := po_Paths p @ [path]\<rparr> # ps)
      else p # addOrAppendPolicyPath ps name version path)"

section \<open>The parts of the configuration\<close>

definition tokenBasedRateLimitPolicyName :: string where
  "tokenBasedRateLimitPolicyName = ''token-based-ratelimit''"
definition advancedRateLimitPolicyName :: string where
  "advancedRateLimitPolicyName = ''advanced-ratelimit''"
definition apiKeyAuthPolicyName :: string where
  "apiKeyAuthPolicyName = ''api-key-auth''"
definition rateLimitPolicyVersion :: string where
  "rateLimitPolicyVersion = ''v1''"
definition apiKeyAuthPolicyVersion :: string where
  "apiKeyAuthPolicyVersion = ''v1''"

definition upstream_main :: "LLMProvider \<Rightarrow> deploy_error + UpstreamEndpoint" where
  "upstream_main provider =
     (if pv_TemplateHandle provider = [] then Inl ErrLLMProviderTemplateNotFound
      else
        (case Option.bind (cf_Upstream (pv_Configuration provider)) uc_Main of
           None \<Rightarrow> Inl (Wrapf ''upstream.main configuration is required: %w'' [] ErrInvalidInput)
         | Some main \<Rightarrow>
             if ue_URL main = [] \<and> ue_Ref main = []
             then Inl (Wrapf ''upstream.main must have either url or ref: %w'' [] ErrInvalidInput)
             else Inr main))"

definition context_value :: "LLMProvider \<Rightarrow> string" where
  "context_value provider =
     (case cf_Context (pv_Configuration provider) of
        Some (c # cs) \<Rightarrow> c # cs | _ \<Rightarrow> ''/'')"

definition vhost_value :: "LLMProvider \<Rightarrow> string" where
  "vhost_value provider =
     (case cf_VHost (pv_Configuration provider) of Some v \<Rightarrow> v | None \<Rightarrow> [])"

definition access_control :: "LLMProvider \<Rightarrow> LLMAccessControl" where
  "access_control provider =
     (case cf_AccessControl (pv_Configuration provider) of
        None \<Rightarrow> \<lparr>ac_Mode = ''deny_all'', ac_Exceptions = []\<rparr>
      | Some ac \<Rightarrow>
          if ac_Mode ac \<noteq> ''allow_all'' \<and> ac_Mode ac \<noteq> ''deny_all''
          then ac\<lparr>ac_Mode := ''deny_all''\<rparr> else ac)"

definition all_paths :: "gmap \<Rightarrow> LLMPolicyPath" where
  "all_paths params = \<lparr>pp_Path = ''/*'', pp_Methods = [''*''], pp_Params = params\<rparr>"

definition single_quoted :: "string \<Rightarrow> string" where
  "single_quoted s = [CHR 0x27] @ s @ [CHR 0x27]"

text \<open>The policy for API keys: the same code for providers and for proxies.\<close>

definition api_key_policies :: "SecurityConfig option \<Rightarrow> deploy_error + LLMPolicy list" where
  "api_key_policies config =
     (case config of
        None \<Rightarrow> Inr []
      | Some security \<Rightarrow>
          if \<not> isBoolTrue (sec_Enabled security) then Inr []
          else
            (case sec_APIKey security of
               None \<Rightarrow> Inr []
             | Some apiKey \<Rightarrow>
                 if \<not> isBoolTrue (ak_Enabled apiKey) then Inr []
                 else
                   (let key = trim_space (ak_Key apiKey);
                        loc = to_lower (trim_space (ak_In apiKey))
                    in if key = []
                       then Inl (Errorf ''invalid api key security configuration: key is required'' [])
                       else if loc \<noteq> ''header'' \<and> loc \<noteq> ''query''
                       then Inl (Errorf (''invalid api key security configuration: in must be '' @ single_quoted ''header''
                              @ '' or '' @ single_quoted ''query'' @ '', got %q'') [ak_In apiKey])
                       else Inr (addOrAppendPolicyPath [] apiKeyAuthPolicyName apiKeyAuthPolicyVersion
                              (all_paths [(''key'', VStr key), (''in'', VStr loc)])))))"

definition security_policies :: "LLMProvider \<Rightarrow> deploy_error + LLMPolicy list" where
  "security_policies provider = api_key_policies (cf_Security (pv_Configuration provider))"

definition token_params :: "int \<Rightarrow> string \<Rightarrow> gmap" where
  "token_params count duration =
     [(''totalTokenLimits'',
       VArr [VObj [(''count'', VInt count), (''duration'', VStr duration)]])]"

definition request_params :: "int \<Rightarrow> string \<Rightarrow> gmap" where
  "request_params count duration =
     [(''quotas'',
       VArr [VObj [(''name'', VStr ''request-limit''),
         (''limits'', VArr [VObj [(''limit'', VInt count), (''duration'', VStr duration)]])]])]"

definition enabled_limit :: "CountRateLimit option \<Rightarrow> CountRateLimit option" where
  "enabled_limit l = (case l of Some r \<Rightarrow> if rl_Enabled r then Some r else None | None \<Rightarrow> None)"

definition reset_window :: "string \<Rightarrow> string list \<Rightarrow> CountRateLimit \<Rightarrow> deploy_error + string" where
  "reset_window text args l =
     map_sum (Wrapf text args) id
       (formatRateLimitDuration (rw_Duration (rl_Reset l)) (rw_Unit (rl_Reset l)))"

text \<open>
  The token and the request limit of one level, each appended as a policy of its own: the same code
  for the global limits and for the default of the resource-wise limits.
\<close>

definition level_policies ::
  "RateLimitingLimitConfig \<Rightarrow> LLMPolicy list \<Rightarrow> deploy_error + LLMPolicy list" where
  "level_policies cfg policies =
     andThen (case enabled_limit (lc_Token cfg) of
            None \<Rightarrow> Inr policies
          | Some l \<Rightarrow>
              andThen (reset_window ''invalid token reset window: %w'' [] l)
                (\<lambda>duration. Inr (policies @
                  [\<lparr>po_Name = tokenBasedRateLimitPolicyName, po_Version = rateLimitPolicyVersion,
                    po_Paths = [all_paths (token_params (rl_Count l) duration)]\<rparr>])))
       (\<lambda>policies. case enabled_limit (lc_Request cfg) of
            None \<Rightarrow> Inr policies
          | Some l \<Rightarrow>
              andThen (reset_window ''invalid request reset window: %w'' [] l)
                (\<lambda>duration. Inr (policies @
                  [\<lparr>po_Name = advancedRateLimitPolicyName, po_Version = rateLimitPolicyVersion,
                    po_Paths = [all_paths (request_params (rl_Count l) duration)]\<rparr>])))"

definition resource_path :: "string \<Rightarrow> gmap \<Rightarrow> LLMPolicyPath" where
  "resource_path resource params =
     \<lparr>pp_Path = resource, pp_Methods = [''*''], pp_Params = params\<rparr>"

definition resource_policies ::
  "RateLimitingResourceLimit \<Rightarrow> LLMPolicy list \<Rightarrow> deploy_error + LLMPolicy list" where
  "resource_policies r policies =
     andThen (case enabled_limit (lc_Token (rr_Limit r)) of
            None \<Rightarrow> Inr policies
          | Some l \<Rightarrow>
              andThen (reset_window ''invalid token reset window for resource %s: %w'' [rr_Resource r] l)
                (\<lambda>duration. Inr (addOrAppendPolicyPath policies tokenBasedRateLimitPolicyName
                  rateLimitPolicyVersion (resource_path (rr_Resource r) (token_params (rl_Count l) duration)))))
       (\<lambda>policies. case enabled_limit (lc_Request (rr_Limit r)) of
            None \<Rightarrow> Inr policies
          | Some l \<Rightarrow>
              andThen (reset_window ''invalid request reset window for resource %s: %w'' [rr_Resource r] l)
                (\<lambda>duration. Inr (addOrAppendPolicyPath policies advancedRateLimitPolicyName
                  rateLimitPolicyVersion (resource_path (rr_Resource r) (request_params (rl_Count l) duration)))))"

fun all_resources ::
  "RateLimitingResourceLimit list \<Rightarrow> LLMPolicy list \<Rightarrow> deploy_error + LLMPolicy list" where
  "all_resources [] policies = Inr policies"
| "all_resources (r # rs) policies = andThen (resource_policies r policies) (all_resources rs)"

definition rate_limit_policies ::
  "LLMProvider \<Rightarrow> LLMPolicy list \<Rightarrow> deploy_error + LLMPolicy list" where
  "rate_limit_policies provider policies =
     (case Option.bind (cf_RateLimiting (pv_Configuration provider)) rlc_ProviderLevel of
        None \<Rightarrow> Inr policies
      | Some providerLevel \<Rightarrow>
          (case sc_Global providerLevel of
             Some global \<Rightarrow> level_policies global policies
           | None \<Rightarrow>
               (case sc_ResourceWise providerLevel of
                  Some rw \<Rightarrow> andThen (level_policies (rc_Default rw) policies) (all_resources (rc_Resources rw))
                | None \<Rightarrow> Inr policies)))"

definition normalized_policies :: "LLMPolicy list \<Rightarrow> LLMPolicy list" where
  "normalized_policies policies = map (\<lambda>p. p\<lparr>po_Version := normalizePolicyVersionToMajor (po_Version p)\<rparr>) policies"

definition user_policies :: "LLMProvider \<Rightarrow> LLMPolicy list" where
  "user_policies provider = normalized_policies (cf_Policies (pv_Configuration provider))"

section \<open>The deployment document\<close>

record LLMProviderDeploymentYAML =
  yd_ApiVersion :: string
  yd_Kind :: string
  yd_MetadataName :: string
  yd_DisplayName :: string
  yd_Version :: string
  yd_Context :: string
  yd_VHost :: string
  yd_Template :: string
  yd_Upstream :: UpstreamEndpoint
  yd_AccessControl :: LLMAccessControl
  yd_Policies :: "LLMPolicy list"

definition provider_policies :: "LLMProvider \<Rightarrow> deploy_error + LLMPolicy list" where
  "provider_policies provider =
     andThen (security_policies provider)
       (\<lambda>policies. andThen (rate_limit_policies provider policies)
         (\<lambda>policies. Inr (policies @ user_policies provider)))"

definition deployment_document :: "LLMProvider \<Rightarrow> deploy_error + LLMProviderDeploymentYAML" where
  "deployment_document provider =
     andThen (upstream_main provider)
       (\<lambda>main. andThen (provider_policies provider)
         (\<lambda>policies. Inr
           \<lparr>yd_ApiVersion = ''gateway.api-platform.wso2.com/v1alpha1'', yd_Kind = ''LlmProvider'',
            yd_MetadataName = pv_ArtifactHandle provider,
            yd_DisplayName = cf_Name (pv_Configuration provider),
            yd_Version = cf_Version (pv_Configuration provider),
            yd_Context = context_value provider, yd_VHost = vhost_value provider,
            yd_Template = pv_TemplateHandle provider,
            yd_Upstream = main, yd_AccessControl = access_control provider,
            yd_Policies = policies\<rparr>))"

definition generateLLMProviderDeploymentYAML ::
  "(LLMProviderDeploymentYAML \<Rightarrow> string + string) \<Rightarrow> LLMProvider option \<Rightarrow> deploy_error + string" where
  "generateLLMProviderDeploymentYAML yaml provider =
     (case provider of
        None \<Rightarrow> Inl (Errorf ''provider is required'' [])
      | Some p \<Rightarrow>
          andThen (deployment_document p)
            (\<lambda>doc. map_sum (\<lambda>e. Wrapf ''failed to marshal to YAML: %w'' [] (Errorf e [])) id (yaml doc)))"

section \<open>Policy versions\<close>

lemma space_rune_head: "r \<in> set space_runes \<Longrightarrow> \<exists>c cs. r = c # cs \<and> c \<noteq> CHR ''v''"
  by (auto simp: space_runes_def)

lemma trim_v:
  assumes "trim_space m = m" "m \<noteq> []"
  shows "trim_space (''v'' @ m) = ''v'' @ m"
proof (rule trim_space_fix)
  show "lead_space (''v'' @ m) = 0"
    unfolding lead_space_0 using space_rune_head by fastforce
  have "trail_space m = 0" using trim_space_clean(2)[of m] assms(1) by simp
  then have none: "\<not> suffix r m" if "r \<in> set space_runes" for r
    using that by (simp add: trail_space_0)
  show "trail_space (''v'' @ m) = 0"
    unfolding trail_space_0
  proof
    fix r assume r: "r \<in> set space_runes"
    from space_rune_head[OF r] obtain c cs where "r = c # cs" "c \<noteq> CHR ''v''" by blast
    then show "\<not> suffix r (''v'' @ m)" using none[OF r] by (auto simp: suffix_Cons)
  qed
qed

lemma cut_index_takeWhile: "cut_index c s = takeWhile (\<lambda>x. x \<noteq> c) s"
  using cut_at_takeWhile[of c s] by (simp add: cut_index_def cut_at_def)

lemma cut_index_clean: "c \<notin> set s \<Longrightarrow> cut_index c s = s"
  by (auto simp: cut_index_takeWhile takeWhile_eq_all_conv)

lemma set_trim_space: "set (trim_space s) \<subseteq> set s"
proof -
  have l: "set (trim_left s) \<subseteq> set s" for s
    by (induction s rule: trim_left.induct)
      (metis order_refl order_trans set_drop_subset trim_left.simps)
  have "set (trim_right s) \<subseteq> set s" for s
    by (rule set_mono_prefix[OF trim_right_prefix])
  with l show ?thesis by (metis order_trans trim_space_def)
qed

lemma major_clean:
  assumes "major = trim_space (cut_index (CHR ''-'') (cut_index (CHR ''.'') s))"
  shows "cut_index (CHR ''-'') (cut_index (CHR ''.'') major) = major" "trim_space major = major"
proof -
  let ?cut = "cut_index (CHR ''-'') (cut_index (CHR ''.'') s)"
  have "CHR ''.'' \<notin> set ?cut" "CHR ''-'' \<notin> set ?cut"
    unfolding cut_index_takeWhile by (auto dest: set_takeWhileD)
  then have "CHR ''.'' \<notin> set major" "CHR ''-'' \<notin> set major"
    using set_trim_space[of ?cut] assms by auto
  then show "cut_index (CHR ''-'') (cut_index (CHR ''.'') major) = major"
    by (simp add: cut_index_clean)
  show "trim_space major = major" using assms by simp
qed

lemma to_lower_v: "to_lower (''v'' @ s) = ''v'' @ to_lower s"
  by (simp add: lower_char_def)

lemma normalize_v:
  assumes "major = trim_space (cut_index (CHR ''-'') (cut_index (CHR ''.'') s))"
    and "major \<noteq> []" "atoi major \<noteq> None"
  shows "normalizePolicyVersionToMajor (''v'' @ major) = ''v'' @ major"
  unfolding normalizePolicyVersionToMajor_def trim_v[OF major_clean(2)[OF assms(1)] assms(2)] to_lower_v
  using assms(2,3) major_clean[OF assms(1)] by (simp add: Let_def lower_char_def)

lemma normalize_trim: "normalizePolicyVersionToMajor (trim_space s) = normalizePolicyVersionToMajor s"
  by (simp add: normalizePolicyVersionToMajor_def)

lemma normalize_cases:
  "normalizePolicyVersionToMajor s = trim_space s
   \<or> (\<exists>major t. major = trim_space (cut_index (CHR ''-'') (cut_index (CHR ''.'') t))
        \<and> major \<noteq> [] \<and> atoi major \<noteq> None \<and> normalizePolicyVersionToMajor s = ''v'' @ major)"
proof -
  define tv where "tv = trim_space s"
  define t where "t = (if prefix ''v'' (to_lower tv) then drop 1 tv else tv)"
  define major where "major = trim_space (cut_index (CHR ''-'') (cut_index (CHR ''.'') t))"
  have "normalizePolicyVersionToMajor s =
      (if tv = [] then tv else if t = [] then tv else if major = [] then tv
       else if atoi major = None then tv else ''v'' @ major)"
    unfolding normalizePolicyVersionToMajor_def Let_def tv_def t_def major_def ..
  then show ?thesis unfolding tv_def[symmetric] using major_def
    by (cases "tv = [] \<or> t = [] \<or> major = [] \<or> atoi major = None") auto
qed

lemma normalize_idem:
  "normalizePolicyVersionToMajor (normalizePolicyVersionToMajor s) = normalizePolicyVersionToMajor s"
  using normalize_cases[of s] normalize_trim[of s] normalize_v by metis

section \<open>Equal paths\<close>

text \<open>A parameter list is a Go map when its keys are distinct.\<close>

definition path_ok :: "LLMPolicyPath \<Rightarrow> bool" where
  "path_ok p \<longleftrightarrow> distinct (map fst (pp_Params p))"

lemma methods_equal:
  "length (remdups xs) = length (remdups ys) \<and> (\<forall>m \<in> set xs. m \<in> set ys) \<longleftrightarrow> set xs = set ys"
proof -
  have sub: "set xs \<subseteq> set ys \<Longrightarrow> card (set xs) = card (set ys) \<Longrightarrow> set xs = set ys"
    by (rule card_subset_eq) simp
  show ?thesis unfolding length_remdups_card_conv subset_code(1)[symmetric] using sub by (metis order_refl)
qed

lemma pathsAreEqual_iff:
  "pathsAreEqual a b \<longleftrightarrow> pp_Path a = pp_Path b \<and> set (pp_Methods a) = set (pp_Methods b)
     \<and> length (pp_Params a) = length (pp_Params b)
     \<and> (\<forall>(k, v) \<in> set (pp_Params a). \<exists>w. map_of (pp_Params b) k = Some w \<and> sprint v = sprint w)"
  using methods_equal[of "pp_Methods a" "pp_Methods b"]
  by (auto simp: pathsAreEqual_def Let_def list_all_iff split: option.splits)

lemma pathsAreEqual_maps:
  assumes "path_ok a" "path_ok b"
  shows "pathsAreEqual a b \<longleftrightarrow> pp_Path a = pp_Path b \<and> set (pp_Methods a) = set (pp_Methods b)
     \<and> map_option sprint \<circ> map_of (pp_Params a) = map_option sprint \<circ> map_of (pp_Params b)"
proof -
  let ?A = "pp_Params a" and ?B = "pp_Params b"
  have d: "distinct (map fst ?A)" "distinct (map fst ?B)" using assms by (simp_all add: path_ok_def)
  have "length ?A = length ?B
      \<and> (\<forall>(k, v) \<in> set ?A. \<exists>w. map_of ?B k = Some w \<and> sprint v = sprint w)
    \<longleftrightarrow> map_option sprint \<circ> map_of ?A = map_option sprint \<circ> map_of ?B" (is "?L \<longleftrightarrow> ?R")
  proof
    assume L: ?L
    have cards: "card (fst ` set ?A) = card (fst ` set ?B)"
      using L d by (metis distinct_card length_map set_map)
    have "fst ` set ?A \<subseteq> fst ` set ?B"
    proof
      fix k assume "k \<in> fst ` set ?A"
      then obtain v where "(k, v) \<in> set ?A" by auto
      with L obtain w where "map_of ?B k = Some w" by blast
      then show "k \<in> fst ` set ?B" by (metis map_of_SomeD fst_conv image_eqI)
    qed
    then have keys: "fst ` set ?A = fst ` set ?B" using cards by (simp add: card_subset_eq)
    show ?R
    proof
      fix k
      show "(map_option sprint \<circ> map_of ?A) k = (map_option sprint \<circ> map_of ?B) k"
      proof (cases "map_of ?A k")
        case None
        then have "map_of ?B k = None" using keys by (simp add: map_of_eq_None_iff)
        with None show ?thesis by simp
      next
        case (Some v)
        with L map_of_SomeD[OF Some] show ?thesis by fastforce
      qed
    qed
  next
    assume R: ?R
    have R': "map_option sprint (map_of ?A k) = map_option sprint (map_of ?B k)" for k
      using fun_cong[OF R, of k] by simp
    have "map_of ?A k = None \<longleftrightarrow> map_of ?B k = None" for k
      using R'[of k] by (metis map_option_is_None)
    then have "fst ` set ?A = fst ` set ?B" by (auto simp: map_of_eq_None_iff)
    then have "length ?A = length ?B" using d by (metis distinct_card length_map set_map)
    moreover have "\<exists>w. map_of ?B k = Some w \<and> sprint v = sprint w" if "(k, v) \<in> set ?A" for k v
      using R'[of k] that d(1) by (cases "map_of ?B k") auto
    ultimately show ?L by blast
  qed
  then show ?thesis unfolding pathsAreEqual_iff by blast
qed

lemma pathsAreEqual_equiv:
  "path_ok a \<Longrightarrow> pathsAreEqual a a"
  "path_ok a \<Longrightarrow> path_ok b \<Longrightarrow> pathsAreEqual a b \<Longrightarrow> pathsAreEqual b a"
  "path_ok a \<Longrightarrow> path_ok b \<Longrightarrow> path_ok c \<Longrightarrow> pathsAreEqual a b \<Longrightarrow> pathsAreEqual b c \<Longrightarrow>
   pathsAreEqual a c"
  by (simp_all add: pathsAreEqual_maps)

section \<open>Adding paths\<close>

text \<open>The paths that a policy list has under a name and a version.\<close>

definition paths_under :: "LLMPolicy list \<Rightarrow> string \<Rightarrow> string \<Rightarrow> LLMPolicyPath list" where
  "paths_under ps n v = (case find (\<lambda>p. po_Name p = n \<and> po_Version p = v) ps of
     None \<Rightarrow> [] | Some p \<Rightarrow> po_Paths p)"

lemma add_path_under:
  "paths_under (addOrAppendPolicyPath ps n v path) n v =
     (if list_ex (\<lambda>x. pathsAreEqual x path) (paths_under ps n v) then paths_under ps n v
      else paths_under ps n v @ [path])"
  by (induction ps) (auto simp: paths_under_def)

lemma add_path_others:
  "(n', v') \<noteq> (n, v) \<Longrightarrow> paths_under (addOrAppendPolicyPath ps n v path) n' v' = paths_under ps n' v'"
  by (induction ps) (auto simp: paths_under_def)

lemma add_path_idem:
  assumes "path_ok path"
  shows "addOrAppendPolicyPath (addOrAppendPolicyPath ps n v path) n v path
       = addOrAppendPolicyPath ps n v path"
  using pathsAreEqual_equiv(1)[OF assms] by (induction ps) auto

lemma add_path_names:
  "map (\<lambda>p. (po_Name p, po_Version p)) (addOrAppendPolicyPath ps n v path) =
     (if (n, v) \<in> set (map (\<lambda>p. (po_Name p, po_Version p)) ps)
      then map (\<lambda>p. (po_Name p, po_Version p)) ps
      else map (\<lambda>p. (po_Name p, po_Version p)) ps @ [(n, v)])"
  by (induction ps) auto

section \<open>The document\<close>

lemma document_parts:
  assumes "deployment_document p = Inr doc"
  obtains main policies where "upstream_main p = Inr main" "provider_policies p = Inr policies"
    "yd_Upstream doc = main" "yd_Policies doc = policies" "yd_Context doc = context_value p"
    "yd_AccessControl doc = access_control p" "yd_Template doc = pv_TemplateHandle p"
  using assms by (auto simp: deployment_document_def andThen_Inr)

lemma access_control_mode: "ac_Mode (access_control p) \<in> {''allow_all'', ''deny_all''}"
  by (simp add: access_control_def split: option.split)

lemma upstream_main_ok:
  assumes "upstream_main p = Inr main"
  shows "ue_URL main \<noteq> [] \<or> ue_Ref main \<noteq> []" "pv_TemplateHandle p \<noteq> []"
    "Option.bind (cf_Upstream (pv_Configuration p)) uc_Main = Some main"
  using assms by (auto simp: upstream_main_def split: if_splits option.splits)

lemma user_policies_last:
  assumes "provider_policies p = Inr policies"
  shows "suffix (user_policies p) policies"
  using assms by (auto simp: provider_policies_def andThen_Inr suffix_def)

text \<open>Global limits make the resource-wise ones irrelevant.\<close>

lemma global_wins:
  assumes "cf_RateLimiting (pv_Configuration p) = Some rl" "rlc_ProviderLevel rl = Some lv"
    and "sc_Global lv = Some g"
  shows "rate_limit_policies p ps = level_policies g ps"
  using assms by (simp add: rate_limit_policies_def)

subsection \<open>Durations\<close>

lemma duration_error:
  "(\<exists>e. formatRateLimitDuration d u = Inl e) \<longleftrightarrow>
     d \<le> 0 \<or> to_lower (trim_space u) \<notin> {''minute'', ''hour'', ''day'', ''week'', ''month''}"
  by (simp add: formatRateLimitDuration_def Let_def)

fun hours_in :: "string \<Rightarrow> int" where
  "hours_in u = (if u = ''hour'' then 1 else if u = ''day'' then 24
     else if u = ''week'' then 168 else if u = ''month'' then 720 else 0)"

lemma duration_hours:
  assumes "to_lower (trim_space u) \<in> {''hour'', ''day'', ''week'', ''month''}"
    and "0 < d" and "d * hours_in (to_lower (trim_space u)) \<le> max_int64"
  shows "formatRateLimitDuration d u = Inr (show_int (d * hours_in (to_lower (trim_space u))) @ ''h'')"
  using assms
  by (auto simp: formatRateLimitDuration_def Let_def wrap64_id in_int64_def min_int64_def
      algebra_simps)

end
