(* ===== verification/DeployRepo.thy ===== *)
theory DeployRepo
  imports DeployPolicies
begin

text \<open>
  The deployment repository
  (\<open>agent-manager-service/repositories/deployment_repository.go\<close>, rows of
  \<open>models/deployment.go\<close>) on the tables \<open>deployments\<close> and \<open>deployment_status\<close>.

  A table is the list of its rows. The statements are modelled with the constraints that the
  migration \<open>003_create_artifacts_and_apis.go\<close> declares: primary keys, the check on the status,
  and the foreign keys with their actions on deletion. A statement fails with an error of its own
  when its number is in the fault plan \<open>de_fault\<close>, and then changes nothing; a transaction that
  fails leaves the tables as they were. \<open>Scan\<close> into a struct reports no error for an empty result
  and leaves the struct zero, as \<open>llm_proxy_repository.go\<close> notes.

  UUIDs are 128-bit words. \<open>uuid.Parse\<close>, \<open>UUID.String\<close> and PostgreSQL's cast from text are
  arguments.
\<close>

type_synonym uuid = "128 word"

record uuid_lib =
  ul_parse :: "string \<Rightarrow> uuid option"
  ul_show :: "uuid \<Rightarrow> string"
  ul_cast :: "string \<Rightarrow> uuid option"

text \<open>
  The documented behaviour: both read the printed form back, and a text that both accept denotes
  the same UUID for both.
\<close>

definition uuid_laws :: "uuid_lib \<Rightarrow> bool" where
  "uuid_laws ul \<longleftrightarrow>
     (\<forall>u. ul_parse ul (ul_show ul u) = Some u \<and> ul_cast ul (ul_show ul u) = Some u) \<and>
     (\<forall>s u v. ul_parse ul s = Some u \<longrightarrow> ul_cast ul s = Some v \<longrightarrow> u = v)"

section \<open>Rows and tables\<close>

definition StatusDeployed :: string where "StatusDeployed = ''DEPLOYED''"
definition StatusUndeployed :: string where "StatusUndeployed = ''UNDEPLOYED''"
definition StatusArchived :: string where "StatusArchived = ''ARCHIVED''"

lemmas status_defs [go_eval] = StatusDeployed_def StatusUndeployed_def StatusArchived_def

record Deployment =
  dp_DeploymentID :: uuid
  dp_Name :: string
  dp_ArtifactUUID :: uuid
  dp_OrganizationName :: string
  dp_GatewayUUID :: uuid
  dp_BaseDeploymentID :: "uuid option"
  dp_Content :: string
  dp_Metadata :: "gmap option"
  dp_CreatedAt :: int
  dp_Status :: "string option"
  dp_UpdatedAt :: "int option"

definition zero_deployment :: Deployment where
  "zero_deployment =
     \<lparr>dp_DeploymentID = 0, dp_Name = [], dp_ArtifactUUID = 0, dp_OrganizationName = [],
      dp_GatewayUUID = 0, dp_BaseDeploymentID = None, dp_Content = [], dp_Metadata = None,
      dp_CreatedAt = 0, dp_Status = None, dp_UpdatedAt = None\<rparr>"

record StatusRecord =
  sr_ArtifactUUID :: uuid
  sr_OrganizationName :: string
  sr_GatewayUUID :: uuid
  sr_DeploymentID :: uuid
  sr_Status :: string
  sr_UpdatedAt :: int

text \<open>
  The two tables, and the keys of the tables they refer to. The columns \<open>status\<close> and
  \<open>status_updated_at\<close> of a deployment are not stored.
\<close>

record deploy_db =
  db_deployments :: "Deployment list"
  db_status :: "StatusRecord list"
  db_artifacts :: "uuid list"
  db_gateways :: "uuid list"

record deploy_env =
  de_uuid :: uuid_lib
  de_fault :: "nat \<Rightarrow> string option"

definition statement :: "deploy_env \<Rightarrow> nat \<Rightarrow> deploy_error + 'a \<Rightarrow> deploy_error + 'a" where
  "statement env n r = (case de_fault env n of Some e \<Rightarrow> Inl (Database e) | None \<Rightarrow> r)"

definition cast_uuid :: "deploy_env \<Rightarrow> string \<Rightarrow> deploy_error + uuid" where
  "cast_uuid env s = (case ul_cast (de_uuid env) s of
     Some u \<Rightarrow> Inr u | None \<Rightarrow> Inl (Database ''invalid input syntax for type uuid''))"

definition parse_uuid :: "deploy_env \<Rightarrow> string \<Rightarrow> deploy_error + uuid" where
  "parse_uuid env s = (case ul_parse (de_uuid env) s of
     Some u \<Rightarrow> Inr u | None \<Rightarrow> Inl (Errorf ''invalid UUID'' [s]))"

section \<open>Statements on the tables\<close>

definition same_target :: "uuid \<Rightarrow> string \<Rightarrow> uuid \<Rightarrow> Deployment \<Rightarrow> bool" where
  "same_target artifact org gw d \<longleftrightarrow>
     dp_ArtifactUUID d = artifact \<and> dp_OrganizationName d = org \<and> dp_GatewayUUID d = gw"

definition status_key :: "StatusRecord \<Rightarrow> uuid \<times> string \<times> uuid" where
  "status_key s = (sr_ArtifactUUID s, sr_OrganizationName s, sr_GatewayUUID s)"

definition target :: "Deployment \<Rightarrow> uuid \<times> string \<times> uuid" where
  "target d = (dp_ArtifactUUID d, dp_OrganizationName d, dp_GatewayUUID d)"

text \<open>The status row that the joins attach to a deployment.\<close>

definition joined :: "deploy_db \<Rightarrow> Deployment \<Rightarrow> StatusRecord option" where
  "joined db d =
     find (\<lambda>s. sr_DeploymentID s = dp_DeploymentID d \<and> status_key s = target d) (db_status db)"

definition delete_deployment :: "uuid \<Rightarrow> deploy_db \<Rightarrow> deploy_db" where
  "delete_deployment i db =
     db\<lparr>db_deployments := map (\<lambda>d. if dp_BaseDeploymentID d = Some i
            then d\<lparr>dp_BaseDeploymentID := None\<rparr> else d)
          (filter (\<lambda>d. dp_DeploymentID d \<noteq> i) (db_deployments db)),
        db_status := filter (\<lambda>s. sr_DeploymentID s \<noteq> i) (db_status db)\<rparr>"

definition ids :: "deploy_db \<Rightarrow> uuid set" where
  "ids db = dp_DeploymentID ` set (db_deployments db)"

definition insert_deployment :: "Deployment \<Rightarrow> deploy_db \<Rightarrow> deploy_error + deploy_db" where
  "insert_deployment d db =
     (if dp_DeploymentID d \<in> ids db
      then Inl (Database ''duplicate key value violates unique constraint deployments_pkey'')
      else if dp_ArtifactUUID d \<notin> set (db_artifacts db)
      then Inl (Database ''insert violates foreign key constraint fk_deployment_artifact'')
      else if dp_GatewayUUID d \<notin> set (db_gateways db)
      then Inl (Database ''insert violates foreign key constraint fk_deployment_gateway'')
      else if (case dp_BaseDeploymentID d of None \<Rightarrow> False
               | Some b \<Rightarrow> b \<notin> ids db \<and> b \<noteq> dp_DeploymentID d)
      then Inl (Database ''insert violates foreign key constraint fk_deployment_base'')
      else Inr (db\<lparr>db_deployments := db_deployments db @
          [d\<lparr>dp_Status := None, dp_UpdatedAt := None\<rparr>]\<rparr>))"

definition upsert_row :: "StatusRecord \<Rightarrow> StatusRecord list \<Rightarrow> StatusRecord list" where
  "upsert_row r rows =
     (if list_ex (\<lambda>s. status_key s = status_key r) rows
      then map (\<lambda>s. if status_key s = status_key r then r else s) rows
      else rows @ [r])"

definition upsert_status :: "StatusRecord \<Rightarrow> deploy_db \<Rightarrow> deploy_error + deploy_db" where
  "upsert_status r db =
     (if sr_Status r \<notin> {StatusDeployed, StatusUndeployed}
      then Inl (Database ''new row violates check constraint chk_deployment_status'')
      else if sr_ArtifactUUID r \<notin> set (db_artifacts db)
      then Inl (Database ''insert violates foreign key constraint fk_deployment_status_artifact'')
      else if sr_GatewayUUID r \<notin> set (db_gateways db)
      then Inl (Database ''insert violates foreign key constraint fk_deployment_status_gateway'')
      else if sr_DeploymentID r \<notin> ids db
      then Inl (Database ''insert violates foreign key constraint fk_deployment_status_deployment'')
      else Inr (db\<lparr>db_status := upsert_row r (db_status db)\<rparr>))"

section \<open>The repository\<close>

text \<open>
  \<open>CreateWithLimitEnforcement\<close>: \<open>newid\<close> is what \<open>uuid.New\<close> draws, \<open>created\<close> and \<open>updated\<close> the two
  readings of the clock. Of rows created at the same time, the earlier row counts as older. The
  statements are numbered 10 (count), 11 (ids), 12 and up (deletions), 20 (insert), 21 (upsert),
  22 (commit).
\<close>

definition prepared :: "uuid \<Rightarrow> int \<Rightarrow> int \<Rightarrow> Deployment \<Rightarrow> Deployment" where
  "prepared newid created updated d =
     d\<lparr>dp_DeploymentID := (if dp_DeploymentID d = 0 then newid else dp_DeploymentID d),
       dp_CreatedAt := created,
       dp_Status := (case dp_Status d of None \<Rightarrow> Some StatusDeployed | Some s \<Rightarrow> Some s),
       dp_UpdatedAt := Some updated\<rparr>"

definition deployments_for :: "uuid \<times> string \<times> uuid \<Rightarrow> deploy_db \<Rightarrow> Deployment list" where
  "deployments_for t db = filter (\<lambda>d. target d = t) (db_deployments db)"

definition oldest_archived :: "uuid \<times> string \<times> uuid \<Rightarrow> deploy_db \<Rightarrow> uuid list" where
  "oldest_archived t db =
     map dp_DeploymentID
       (take 5 (sort_key dp_CreatedAt (filter (\<lambda>d. joined db d = None) (deployments_for t db))))"

fun delete_all :: "deploy_env \<Rightarrow> nat \<Rightarrow> uuid list \<Rightarrow> deploy_db \<Rightarrow> deploy_error + deploy_db" where
  "delete_all env n [] db = Inr db"
| "delete_all env n (i # is) db =
     andThen (statement env n (Inr (delete_deployment i db))) (delete_all env (Suc n) is)"

definition make_room :: "deploy_env \<Rightarrow> nat \<Rightarrow> uuid \<times> string \<times> uuid \<Rightarrow> deploy_db \<Rightarrow> deploy_error + deploy_db" where
  "make_room env hardLimit t db =
     andThen (statement env 10 (Inr (length (deployments_for t db))))
       (\<lambda>count. if count \<ge> hardLimit
          then andThen (statement env 11 (Inr (oldest_archived t db)))
                 (\<lambda>idsToDelete. delete_all env 12 idsToDelete db)
          else Inr db)"

definition CreateWithLimitEnforcement ::
  "deploy_env \<Rightarrow> uuid \<Rightarrow> int \<Rightarrow> int \<Rightarrow> Deployment \<Rightarrow> nat \<Rightarrow> deploy_db \<Rightarrow>
   deploy_error + (Deployment \<times> deploy_db)" where
  "CreateWithLimitEnforcement env newid created updated deployment hardLimit db =
     (let d = prepared newid created updated deployment in
      andThen (make_room env hardLimit (target d) db)
        (\<lambda>db. andThen (statement env 20 (insert_deployment d db))
        (\<lambda>db. andThen (statement env 21 (upsert_status
            \<lparr>sr_ArtifactUUID = dp_ArtifactUUID d, sr_OrganizationName = dp_OrganizationName d,
             sr_GatewayUUID = dp_GatewayUUID d, sr_DeploymentID = dp_DeploymentID d,
             sr_Status = the (dp_Status d), sr_UpdatedAt = the (dp_UpdatedAt d)\<rparr> db))
        (\<lambda>db. statement env 22 (Inr (d, db))))))"

definition find_deployment :: "uuid \<Rightarrow> uuid \<Rightarrow> string \<Rightarrow> deploy_db \<Rightarrow> Deployment option" where
  "find_deployment i artifact org db =
     find (\<lambda>d. dp_DeploymentID d = i \<and> dp_ArtifactUUID d = artifact \<and> dp_OrganizationName d = org)
       (db_deployments db)"

definition GetWithContent ::
  "deploy_env \<Rightarrow> nat \<Rightarrow> string \<Rightarrow> string \<Rightarrow> string \<Rightarrow> deploy_db \<Rightarrow> deploy_error + Deployment" where
  "GetWithContent env n deploymentID artifactUUID org db =
     statement env n
       (andThen (cast_uuid env deploymentID)
         (\<lambda>i. andThen (cast_uuid env artifactUUID)
           (\<lambda>a. case find_deployment i a org db of
              Some d \<Rightarrow> Inr d
            | None \<Rightarrow> Inl (Errorf ''deployment not found'' []))))"

definition repo_Delete ::
  "deploy_env \<Rightarrow> nat \<Rightarrow> string \<Rightarrow> string \<Rightarrow> string \<Rightarrow> deploy_db \<Rightarrow> deploy_error + deploy_db" where
  "repo_Delete env n deploymentID artifactUUID org db =
     statement env n
       (andThen (cast_uuid env deploymentID)
         (\<lambda>i. andThen (cast_uuid env artifactUUID)
           (\<lambda>a. case find_deployment i a org db of
              Some d \<Rightarrow> Inr (delete_deployment (dp_DeploymentID d) db)
            | None \<Rightarrow> Inl (Errorf ''deployment not found'' []))))"

text \<open>A deployment as the joins return it.\<close>

definition with_state :: "deploy_db \<Rightarrow> Deployment \<Rightarrow> Deployment" where
  "with_state db d =
     d\<lparr>dp_Status := map_option sr_Status (joined db d),
       dp_UpdatedAt := map_option sr_UpdatedAt (joined db d)\<rparr>"

definition archived_if_null :: "Deployment \<Rightarrow> Deployment" where
  "archived_if_null d = (if dp_Status d = None then d\<lparr>dp_Status := Some StatusArchived\<rparr> else d)"

definition scan_row :: "Deployment option \<Rightarrow> Deployment" where
  "scan_row r = (case r of Some d \<Rightarrow> d | None \<Rightarrow> zero_deployment)"

definition GetWithState ::
  "deploy_env \<Rightarrow> nat \<Rightarrow> string \<Rightarrow> string \<Rightarrow> string \<Rightarrow> deploy_db \<Rightarrow> deploy_error + Deployment" where
  "GetWithState env n deploymentID artifactUUID org db =
     statement env n
       (andThen (cast_uuid env deploymentID)
         (\<lambda>i. andThen (cast_uuid env artifactUUID)
           (\<lambda>a. Inr (archived_if_null (scan_row
              (map_option (\<lambda>d. (with_state db d)\<lparr>dp_Content := []\<rparr>) (find_deployment i a org db)))))))"

definition GetCurrentByGateway ::
  "deploy_env \<Rightarrow> nat \<Rightarrow> string \<Rightarrow> string \<Rightarrow> string \<Rightarrow> deploy_db \<Rightarrow> deploy_error + Deployment" where
  "GetCurrentByGateway env n artifactUUID gatewayID org db =
     statement env n
       (andThen (cast_uuid env artifactUUID)
         (\<lambda>a. andThen (cast_uuid env gatewayID)
           (\<lambda>g. Inr (scan_row
              (case rev (sort_key dp_CreatedAt
                  (filter (\<lambda>d. dp_Status d = Some StatusDeployed)
                    (map (with_state db) (deployments_for (a, org, g) db)))) of
                 [] \<Rightarrow> None | d # _ \<Rightarrow> Some d)))))"

definition SetCurrent ::
  "deploy_env \<Rightarrow> nat \<Rightarrow> int \<Rightarrow> string \<Rightarrow> string \<Rightarrow> string \<Rightarrow> string \<Rightarrow> string \<Rightarrow> deploy_db \<Rightarrow>
   deploy_error + (int \<times> deploy_db)" where
  "SetCurrent env n now artifactUUID org gatewayID deploymentID status db =
     andThen (parse_uuid env artifactUUID)
       (\<lambda>a. andThen (parse_uuid env gatewayID)
         (\<lambda>g. andThen (parse_uuid env deploymentID)
           (\<lambda>i. andThen (statement env n (upsert_status
               \<lparr>sr_ArtifactUUID = a, sr_OrganizationName = org, sr_GatewayUUID = g,
                sr_DeploymentID = i, sr_Status = status, sr_UpdatedAt = now\<rparr> db))
             (\<lambda>db. Inr (now, db)))))"

definition UpdateStatusByDeploymentID ::
  "deploy_env \<Rightarrow> nat \<Rightarrow> int \<Rightarrow> string \<Rightarrow> string \<Rightarrow> string \<Rightarrow> deploy_db \<Rightarrow> deploy_error + deploy_db" where
  "UpdateStatusByDeploymentID env n now deploymentID gatewayUUID status db =
     statement env n
       (andThen (cast_uuid env deploymentID)
         (\<lambda>i. andThen (cast_uuid env gatewayUUID)
           (\<lambda>g. let hit = (\<lambda>s. sr_DeploymentID s = i \<and> sr_GatewayUUID s = g) in
              if \<not> list_ex hit (db_status db)
              then Inl (Errorf ''deployment_status not found for deploymentID %s'' [deploymentID])
              else if status \<notin> {StatusDeployed, StatusUndeployed}
              then Inl (Database ''new row violates check constraint chk_deployment_status'')
              else Inr (db\<lparr>db_status := map (\<lambda>s. if hit s
                     then s\<lparr>sr_Status := status, sr_UpdatedAt := now\<rparr> else s) (db_status db)\<rparr>))))"

text \<open>An empty result leaves the three variables zero.\<close>

definition GetStatus ::
  "deploy_env \<Rightarrow> nat \<Rightarrow> string \<Rightarrow> string \<Rightarrow> string \<Rightarrow> deploy_db \<Rightarrow>
   deploy_error + (string \<times> string \<times> int)" where
  "GetStatus env n artifactUUID org gatewayID db =
     statement env n
       (andThen (cast_uuid env artifactUUID)
         (\<lambda>a. andThen (cast_uuid env gatewayID)
           (\<lambda>g. Inr (case find (\<lambda>s. status_key s = (a, org, g)) (db_status db) of
              Some s \<Rightarrow> (ul_show (de_uuid env) (sr_DeploymentID s), sr_Status s, sr_UpdatedAt s)
            | None \<Rightarrow> ([], [], 0)))))"

definition DeleteStatus ::
  "deploy_env \<Rightarrow> nat \<Rightarrow> string \<Rightarrow> string \<Rightarrow> string \<Rightarrow> deploy_db \<Rightarrow> deploy_error + deploy_db" where
  "DeleteStatus env n artifactUUID org gatewayID db =
     statement env n
       (andThen (cast_uuid env artifactUUID)
         (\<lambda>a. andThen (cast_uuid env gatewayID)
           (\<lambda>g. Inr (db\<lparr>db_status := filter (\<lambda>s. status_key s \<noteq> (a, org, g)) (db_status db)\<rparr>))))"

text \<open>
  \<open>GetDeploymentsWithState\<close>: per gateway the rows with a status first, then the newest; the first
  \<open>maxPerAPIGW\<close> of each gateway, filtered by status, in order of gateway and rank.
\<close>

definition ranked :: "deploy_db \<Rightarrow> Deployment list \<Rightarrow> Deployment list" where
  "ranked db ds =
     sort_key (\<lambda>d. uint (dp_GatewayUUID d))
       (sort_key (\<lambda>d. if joined db d \<noteq> None then (0 :: nat) else 1)
         (sort_key (\<lambda>d. - dp_CreatedAt d) ds))"

definition top_per_gateway :: "nat \<Rightarrow> Deployment list \<Rightarrow> Deployment list" where
  "top_per_gateway n ds =
     concat (map (\<lambda>g. take n (filter (\<lambda>d. dp_GatewayUUID d = g) ds)) (remdups (map dp_GatewayUUID ds)))"

definition status_matches :: "string option \<Rightarrow> Deployment \<Rightarrow> bool" where
  "status_matches status d =
     (case status of
        None \<Rightarrow> True
      | Some st \<Rightarrow> if st = StatusArchived then dp_Status d = None else dp_Status d = Some st)"

definition select_rows :: "uuid \<Rightarrow> string \<Rightarrow> uuid option \<Rightarrow> deploy_db \<Rightarrow> Deployment list" where
  "select_rows artifact org gateway db =
     filter (\<lambda>d. dp_ArtifactUUID d = artifact \<and> dp_OrganizationName d = org
        \<and> (gateway = None \<or> gateway = Some (dp_GatewayUUID d))) (db_deployments db)"

definition GetDeploymentsWithState ::
  "deploy_env \<Rightarrow> nat \<Rightarrow> string \<Rightarrow> string \<Rightarrow> string option \<Rightarrow> string option \<Rightarrow> nat \<Rightarrow> deploy_db \<Rightarrow>
   deploy_error + Deployment list" where
  "GetDeploymentsWithState env n artifactUUID org gatewayID status maxPerAPIGW db =
     (if (case status of Some st \<Rightarrow> st \<notin> {StatusDeployed, StatusUndeployed, StatusArchived} | None \<Rightarrow> False)
      then Inl (Errorf ''invalid deployment status: %s'' [the status])
      else statement env n
       (andThen (cast_uuid env artifactUUID)
         (\<lambda>a. andThen (case gatewayID of None \<Rightarrow> Inr None
                        | Some s \<Rightarrow> map_sum id Some (cast_uuid env s))
           (\<lambda>g. Inr (map (\<lambda>d. archived_if_null (d\<lparr>dp_Content := []\<rparr>))
              (filter (status_matches status)
                (map (with_state db)
                  (top_per_gateway maxPerAPIGW (ranked db (select_rows a org g db))))))))))"

definition GetDeployedGatewaysByProvider ::
  "deploy_env \<Rightarrow> nat \<Rightarrow> uuid \<Rightarrow> string \<Rightarrow> deploy_db \<Rightarrow> deploy_error + string list" where
  "GetDeployedGatewaysByProvider env n artifact org db =
     statement env n (Inr (map (\<lambda>s. ul_show (de_uuid env) (sr_GatewayUUID s))
       (filter (\<lambda>s. sr_ArtifactUUID s = artifact \<and> sr_OrganizationName s = org
          \<and> sr_Status s = StatusDeployed) (db_status db))))"

definition GetDeployedProvidersByGateway ::
  "deploy_env \<Rightarrow> nat \<Rightarrow> uuid \<Rightarrow> string \<Rightarrow> deploy_db \<Rightarrow> deploy_error + string list" where
  "GetDeployedProvidersByGateway env n gw org db =
     statement env n (Inr (map (\<lambda>s. ul_show (de_uuid env) (sr_ArtifactUUID s))
       (filter (\<lambda>s. sr_GatewayUUID s = gw \<and> sr_OrganizationName s = org
          \<and> sr_Status s = StatusDeployed) (db_status db))))"

definition IsProviderDeployedToGateway ::
  "deploy_env \<Rightarrow> nat \<Rightarrow> uuid \<Rightarrow> uuid \<Rightarrow> string \<Rightarrow> deploy_db \<Rightarrow> deploy_error + bool" where
  "IsProviderDeployedToGateway env n artifact gw org db =
     statement env n (Inr (length (filter (\<lambda>s. status_key s = (artifact, org, gw)
         \<and> sr_Status s = StatusDeployed) (db_status db)) > 0))"

text \<open>\<open>Row().Scan\<close> on an empty result is \<open>sql.ErrNoRows\<close>, which is not \<open>gorm.ErrRecordNotFound\<close>.\<close>

definition GetByArtifactAndGateway ::
  "deploy_env \<Rightarrow> nat \<Rightarrow> string \<Rightarrow> string \<Rightarrow> string \<Rightarrow> deploy_db \<Rightarrow> deploy_error + Deployment" where
  "GetByArtifactAndGateway env n artifactUUID gatewayUUID org db =
     wrap_error ''failed to query deployment status: %w''
       (statement env n
         (andThen (cast_uuid env artifactUUID)
           (\<lambda>a. andThen (cast_uuid env gatewayUUID)
             (\<lambda>g. case find (\<lambda>s. status_key s = (a, org, g)) (db_status db) of
                Some s \<Rightarrow> Inr (zero_deployment\<lparr>dp_Status := Some (sr_Status s),
                    dp_UpdatedAt := Some (sr_UpdatedAt s)\<rparr>)
              | None \<Rightarrow> Inl (Errorf ''sql: no rows in result set'' [])))))"

section \<open>Outcomes of statements and texts of UUIDs\<close>

lemma statement_Inr: "statement env n r = Inr x \<longleftrightarrow> de_fault env n = None \<and> r = Inr x"
  by (auto simp: statement_def split: option.split)

lemma shown_uuid [simp]:
  assumes "uuid_laws (de_uuid env)"
  shows "ul_parse (de_uuid env) (ul_show (de_uuid env) u) = Some u"
    and "ul_cast (de_uuid env) (ul_show (de_uuid env) u) = Some u"
    and "cast_uuid env (ul_show (de_uuid env) u) = Inr u"
  using assms by (auto simp: uuid_laws_def cast_uuid_def)

lemma cast_uuid_Inr: "cast_uuid env s = Inr u \<longleftrightarrow> ul_cast (de_uuid env) s = Some u"
  by (auto simp: cast_uuid_def split: option.split)

lemma uuid_laws_agree:
  "uuid_laws ul \<Longrightarrow> ul_parse ul s = Some u \<Longrightarrow> ul_cast ul s = Some v \<Longrightarrow> u = v"
  unfolding uuid_laws_def by blast

end
