(* ===== verification/GoCrypto.thy ===== *)
theory GoCrypto
  imports GoJson "HOL-Library.Word"
begin

text \<open>
  The standard library functions that gateway tokens and stored secrets are made with: \<open>encoding/hex\<close>, \<open>encoding/base64\<close>
  (the URL alphabet without padding, the standard one with it), \<open>crypto/sha256\<close> and \<open>strings.SplitN\<close>. Byte slices are strings.
\<close>

unbundle bit_operations_syntax

section \<open>Hexadecimal text\<close>

fun hex_EncodeToString :: "string \<Rightarrow> string" where
  "hex_EncodeToString [] = []"
| "hex_EncodeToString (c # s) =
     hex_digit (of_char c div 16) # hex_digit (of_char c mod 16) # hex_EncodeToString s"

fun hex_DecodeString :: "string \<Rightarrow> string option" where
  "hex_DecodeString [] = Some []"
| "hex_DecodeString [c] = None"
| "hex_DecodeString (a # b # s) = do {
     x \<leftarrow> hex_val a; y \<leftarrow> hex_val b; r \<leftarrow> hex_DecodeString s;
     Some (char_of (16 * x + y) # r)
   }"

lemma hex_val_digit: "n < 16 \<Longrightarrow> hex_val (hex_digit n) = Some n"
  by (auto simp: hex_val_def hex_digit_def byte_in_def Let_def)

theorem hex_round_trip: "hex_DecodeString (hex_EncodeToString s) = Some s"
proof (induction s)
  case (Cons c s)
  have "(of_char c :: nat) < 256" by simp
  then have "of_char c div 16 < (16 :: nat)" by (simp add: less_mult_imp_div_less)
  with Cons show ?case by (simp add: hex_val_digit)
qed simp

section \<open>Base64\<close>

definition base64_char :: "nat \<Rightarrow> char" where
  "base64_char n =
     (if n < 26 then char_of (65 + n) else if n < 52 then char_of (71 + n)
      else if n < 62 then char_of (n - 4) else if n = 62 then CHR ''-'' else CHR ''_'')"

fun base64_RawURLEncode :: "string \<Rightarrow> string" where
  "base64_RawURLEncode (a # b # c # s) =
     (let n = 65536 * of_char a + 256 * of_char b + of_char c :: nat
      in [base64_char (n div 262144), base64_char (n div 4096 mod 64), base64_char (n div 64 mod 64),
          base64_char (n mod 64)] @ base64_RawURLEncode s)"
| "base64_RawURLEncode [a, b] =
     (let n = 1024 * of_char a + 4 * of_char b :: nat
      in [base64_char (n div 4096), base64_char (n div 64 mod 64), base64_char (n mod 64)])"
| "base64_RawURLEncode [a] =
     (let n = 16 * of_char a :: nat in [base64_char (n div 64), base64_char (n mod 64)])"
| "base64_RawURLEncode [] = []"

text \<open>
  The standard alphabet with padding. \<open>DecodeString\<close> ignores line ends, takes padding only at the end and
  does not look at the unused bits before it.
\<close>

definition std_char :: "nat \<Rightarrow> char" where
  "std_char n =
     (if n < 26 then char_of (65 + n) else if n < 52 then char_of (71 + n)
      else if n < 62 then char_of (n - 4) else if n = 62 then CHR ''+'' else CHR ''/'')"

definition std_val :: "char \<Rightarrow> nat option" where
  "std_val c =
     (let n = of_char c :: nat in
      if 65 \<le> n \<and> n < 91 then Some (n - 65) else if 97 \<le> n \<and> n < 123 then Some (n - 71)
      else if 48 \<le> n \<and> n < 58 then Some (n + 4) else if n = 43 then Some 62 else if n = 47 then Some 63
      else None)"

definition std_pad :: char where
  "std_pad = CHR ''=''"

fun base64_StdEncode :: "string \<Rightarrow> string" where
  "base64_StdEncode (a # b # c # s) =
     (let x = of_char a; y = of_char b; z = of_char c :: nat
      in [std_char (x div 4), std_char (x mod 4 * 16 + y div 16), std_char (y mod 16 * 4 + z div 64),
          std_char (z mod 64)] @ base64_StdEncode s)"
| "base64_StdEncode [a, b] =
     (let x = of_char a; y = of_char b :: nat
      in [std_char (x div 4), std_char (x mod 4 * 16 + y div 16), std_char (y mod 16 * 4), std_pad])"
| "base64_StdEncode [a] =
     (let x = of_char a :: nat in [std_char (x div 4), std_char (x mod 4 * 16), std_pad, std_pad])"
| "base64_StdEncode [] = []"

fun base64_quads :: "string \<Rightarrow> string option" where
  "base64_quads [] = Some []"
| "base64_quads (a # b # c # d # s) = do {
     x \<leftarrow> std_val a; y \<leftarrow> std_val b;
     if d = std_pad
     then (if s \<noteq> [] then None
           else if c = std_pad then Some [char_of (x * 4 + y div 16)]
           else do { z \<leftarrow> std_val c; Some [char_of (x * 4 + y div 16), char_of (y mod 16 * 16 + z div 4)] })
     else do {
       z \<leftarrow> std_val c; w \<leftarrow> std_val d; r \<leftarrow> base64_quads s;
       Some (char_of (x * 4 + y div 16) # char_of (y mod 16 * 16 + z div 4) # char_of (z mod 4 * 64 + w) # r)
     }
   }"
| "base64_quads _ = None"

definition base64_StdDecode :: "string \<Rightarrow> string option" where
  "base64_StdDecode s = base64_quads (filter (\<lambda>c. c \<notin> {CHR 0x0A, CHR 0x0D}) s)"

lemma std_val_char: "n < 64 \<Longrightarrow> std_val (std_char n) = Some n"
  by (auto simp: std_val_def std_char_def Let_def)

lemma std_char_not_val: "std_val c = None \<Longrightarrow> n < 64 \<Longrightarrow> std_char n \<noteq> c"
  using std_val_char by (metis option.distinct(1))

lemma std_char_plain [simp]:
  assumes "n < 64"
  shows "std_char n \<noteq> std_pad" "std_char n \<noteq> CHR 0x0A" "std_char n \<noteq> CHR 0x0D"
  using assms by (intro std_char_not_val; simp add: std_val_def std_pad_def)+

text \<open>A byte, split into the parts that go to neighbouring characters.\<close>

lemma byte_parts:
  "(of_char c :: nat) div 4 < 64" "(of_char c :: nat) div 16 < 16" "(of_char c :: nat) div 64 < 4"
  by (simp_all add: less_mult_imp_div_less)

lemma sextets [simp]:
  "(of_char a :: nat) div 4 < 64" "(of_char a :: nat) mod 4 * 16 + of_char b div 16 < 64"
  "(of_char a :: nat) mod 16 * 4 + of_char b div 64 < 64" "(of_char a :: nat) mod 4 * 16 < 64"
  "(of_char a :: nat) mod 16 * 4 < 64"
proof -
  have m: "(of_char a :: nat) mod 4 < 4" "(of_char a :: nat) mod 16 < 16" by simp_all
  show "(of_char a :: nat) div 4 < 64" by (rule byte_parts)
  show "(of_char a :: nat) mod 4 * 16 < 64" "(of_char a :: nat) mod 16 * 4 < 64" using m by linarith+
  show "(of_char a :: nat) mod 4 * 16 + of_char b div 16 < 64" using m byte_parts(2)[of b] by linarith
  show "(of_char a :: nat) mod 16 * 4 + of_char b div 64 < 64" using m byte_parts(3)[of b] by linarith
qed

lemma octets [simp]:
  "(of_char c :: nat) div 16 div 16 = 0" "(of_char c :: nat) div 64 div 4 = 0"
  "(of_char c :: nat) div 16 mod 16 * 16 + of_char c mod 16 = of_char c"
  "(of_char c :: nat) div 64 mod 4 * 64 + of_char c mod 64 = of_char c"
  using byte_parts(2,3)[of c] by simp_all

lemma base64_plain: "filter (\<lambda>c. c \<notin> {CHR 0x0A, CHR 0x0D}) (base64_StdEncode s) = base64_StdEncode s"
  by (induction s rule: base64_StdEncode.induct) (auto simp: Let_def std_pad_def)

lemma quads_encode: "base64_quads (base64_StdEncode s) = Some s"
  by (induction s rule: base64_StdEncode.induct) (simp_all add: Let_def std_val_char)

theorem base64_round_trip: "base64_StdDecode (base64_StdEncode s) = Some s"
  unfolding base64_StdDecode_def base64_plain by (rule quads_encode)

section \<open>SHA-256\<close>

definition be_bytes :: "nat \<Rightarrow> nat \<Rightarrow> string" where
  "be_bytes n x = map (\<lambda>i. char_of (x div 256 ^ (n - 1 - i))) [0 ..< n]"

definition sha256_pad :: "string \<Rightarrow> string" where
  "sha256_pad m =
     m @ [CHR 0x80] @ replicate (nat ((55 - int (length m)) mod 64)) (CHR 0x00)
       @ be_bytes 8 (8 * length m mod 2 ^ 64)"

fun be_words :: "string \<Rightarrow> 32 word list" where
  "be_words (a # b # c # d # s) =
     of_nat (16777216 * of_char a + 65536 * of_char b + 256 * of_char c + of_char d) # be_words s"
| "be_words _ = []"

function sha256_blocks :: "32 word list \<Rightarrow> 32 word list list" where
  "sha256_blocks ws = (if ws = [] then [] else take 16 ws # sha256_blocks (drop 16 ws))"
  by pat_completeness auto
termination by (relation "measure length") (auto simp: neq_Nil_conv)

declare sha256_blocks.simps [simp del]

text \<open>
  The constants are the first 32 bits after the point of the cube roots of the first 64 primes and of the
  square roots of the first 8.
\<close>

definition small_primes :: "nat list" where
  "small_primes = filter (\<lambda>n. list_all (\<lambda>d. n mod d \<noteq> 0) [2 ..< n]) [2 ..< 312]"

text \<open>The root of order \<open>k\<close> of \<open>x\<close>, rounded down, bit by bit from above.\<close>

fun int_root :: "nat \<Rightarrow> nat \<Rightarrow> nat \<Rightarrow> nat \<Rightarrow> nat" where
  "int_root k x 0 r = r"
| "int_root k x (Suc b) r = int_root k x b (if (r + 2 ^ b) ^ k \<le> x then r + 2 ^ b else r)"

definition sha256_K :: "32 word list" where
  "sha256_K = map (\<lambda>p. of_nat (int_root 3 (p * 2 ^ 96) 35 0)) small_primes"

definition sha256_H :: "32 word list" where
  "sha256_H = map (\<lambda>p. of_nat (int_root 2 (p * 2 ^ 64) 35 0)) (take 8 small_primes)"

definition sha256_schedule :: "32 word list \<Rightarrow> 32 word list" where
  "sha256_schedule block =
     foldl (\<lambda>w t.
         let x = w ! (t - 15); y = w ! (t - 2);
             s0 = word_rotr 7 x XOR word_rotr 18 x XOR drop_bit 3 x;
             s1 = word_rotr 17 y XOR word_rotr 19 y XOR drop_bit 10 y
         in w @ [s1 + w ! (t - 7) + s0 + w ! (t - 16)]) block [16 ..< 64]"

fun sha256_round :: "32 word list \<Rightarrow> 32 word \<times> 32 word \<Rightarrow> 32 word list" where
  "sha256_round [a, b, c, d, e, f, g, h] (k, w) =
     (let s1 = word_rotr 6 e XOR word_rotr 11 e XOR word_rotr 25 e;
          ch = (e AND f) XOR (NOT e AND g);
          t1 = h + s1 + ch + k + w;
          s0 = word_rotr 2 a XOR word_rotr 13 a XOR word_rotr 22 a;
          maj = (a AND b) XOR (a AND c) XOR (b AND c)
      in [t1 + (s0 + maj), a, b, c, d + t1, e, f, g])"
| "sha256_round st _ = st"

definition sha256_compress :: "32 word list \<Rightarrow> 32 word list \<Rightarrow> 32 word list" where
  "sha256_compress hs block =
     map2 (+) hs (foldl sha256_round hs (zip sha256_K (sha256_schedule block)))"

definition sha256_Sum :: "string \<Rightarrow> string" where
  "sha256_Sum m =
     concat (map (\<lambda>w. be_bytes 4 (unat w))
       (foldl sha256_compress sha256_H (sha256_blocks (be_words (sha256_pad m)))))"

section \<open>Splitting at most n times\<close>

text \<open>\<open>strings.SplitN(s, c, n)\<close> for one byte and a positive \<open>n\<close>.\<close>

fun split_n :: "nat \<Rightarrow> char \<Rightarrow> string \<Rightarrow> string list" where
  "split_n 0 c s = []"
| "split_n (Suc 0) c s = [s]"
| "split_n (Suc (Suc n)) c s =
     (case index_of c s of
        None \<Rightarrow> [s] | Some i \<Rightarrow> take i s # split_n (Suc n) c (drop (Suc i) s))"

lemma index_of_append: "c \<notin> set s \<Longrightarrow> index_of c (s @ c # t) = Some (length s)"
  by (induction s) auto

lemma split_n_step:
  "c \<notin> set s \<Longrightarrow> split_n (Suc (Suc n)) c (s @ c # t) = s # split_n (Suc n) c t"
  by (simp add: index_of_append)

text \<open>A text with exactly \<open>n\<close> separators, followed by a separator and anything, is the first parts.\<close>

lemma split_n_prefix:
  assumes "count_list s c = n"
  shows "\<exists>ps. split_n (n + 2) c (s @ c # t) = ps @ [t] \<and> length ps = n + 1 \<and> join_with [c] ps = s"
  using assms
proof (induction n arbitrary: s)
  case 0
  then have "c \<notin> set s" by (simp add: count_list_0_iff)
  then have "split_n (0 + 2) c (s @ c # t) = [s] @ [t]"
    using split_n_step[of c s 0 t] by (simp add: numeral_2_eq_2)
  then show ?case by (intro exI[of _ "[s]"]) simp
next
  case (Suc n)
  then have "c \<in> set s" by (metis count_list_0_iff nat.distinct(1))
  then obtain u v where s: "s = u @ c # v" "c \<notin> set u" by (meson split_list_first)
  then have "count_list v c = n" using Suc.prems by (simp add: count_list_0_iff[THEN iffD2])
  from Suc.IH[OF this] obtain ps where ps: "split_n (n + 2) c (v @ c # t) = ps @ [t]"
    "length ps = n + 1" "join_with [c] ps = v" by blast
  have "split_n (Suc n + 2) c (s @ c # t) = (u # ps) @ [t]"
    using split_n_step[OF s(2), of "Suc n" "v @ c # t"] ps(1) s(1) by simp
  moreover have "join_with [c] (u # ps) = s" using ps(2,3) s(1) by (cases ps) auto
  ultimately show ?case using ps(2) by (intro exI[of _ "u # ps"]) simp
qed

end
