(* ===== verification/GatewayStore.thy ===== *)
theory GatewayStore
  imports DeployRepo GoCrypto
begin

text \<open>
  The gateway repository (\<open>agent-manager-service/repositories/gateway_repository.go\<close>, rows of
  \<open>models/gateway.go\<close>) on the tables \<open>gateways\<close>, \<open>gateway_tokens\<close>, \<open>gateway_environment_mappings\<close>
  and \<open>association_mappings\<close>, beside the deployment tables of theory \<open>DeployRepo\<close>, which refer to
  gateways.

  The constraints are those of the migrations 002, 003 and 009; deletions cascade as they declare.
  Statements are numbered and may fail as in theory \<open>DeployRepo\<close>. No row is soft-deleted, since
  \<open>Delete\<close> is unscoped. Ties in \<open>created_at\<close> keep the order of the rows.
\<close>

section \<open>Rows and tables\<close>

record Gateway =
  gy_UUID :: uuid
  gy_OrganizationName :: string
  gy_Name :: string
  gy_DisplayName :: string
  gy_Description :: string
  gy_Properties :: gmap
  gy_Vhost :: string
  gy_IsCritical :: bool
  gy_FunctionalityType :: string
  gy_IsActive :: bool
  gy_CreatedAt :: int
  gy_UpdatedAt :: int

record GatewayToken =
  gt_UUID :: uuid
  gt_GatewayUUID :: uuid
  gt_TokenPrefix :: string
  gt_TokenHash :: string
  gt_Salt :: string
  gt_Status :: string
  gt_CreatedAt :: int
  gt_RevokedAt :: "int option"

record EnvironmentMapping =
  em_GatewayUUID :: uuid
  em_EnvironmentUUID :: uuid

record AssociationMapping =
  am_ArtifactUUID :: uuid
  am_OrganizationName :: string
  am_ResourceUUID :: uuid
  am_AssociationType :: string

record gateway_db =
  gd_gateways :: "Gateway list"
  gd_tokens :: "GatewayToken list"
  gd_mappings :: "EnvironmentMapping list"
  gd_associations :: "AssociationMapping list"
  gd_deploy :: deploy_db

definition token_active :: "GatewayToken \<Rightarrow> bool" where
  "token_active t \<longleftrightarrow> gt_Status t = ''active''"

section \<open>Gateways\<close>

definition insert_gateway :: "Gateway \<Rightarrow> gateway_db \<Rightarrow> deploy_error + gateway_db" where
  "insert_gateway g db =
     (if gy_UUID g \<in> gy_UUID ` set (gd_gateways db)
      then Inl (Database ''duplicate key value violates unique constraint gateways_pkey'')
      else if list_ex (\<lambda>h. gy_OrganizationName h = gy_OrganizationName g \<and> gy_Name h = gy_Name g)
                (gd_gateways db)
      then Inl (Database ''duplicate key value violates unique constraint uq_gateway_org_name_active'')
      else if gy_FunctionalityType g \<notin> {''regular'', ''ai''}
      then Inl (Database ''new row violates check constraint chk_gateway_functionality_type'')
      else Inr (db\<lparr>gd_gateways := gd_gateways db @ [g],
        gd_deploy := (gd_deploy db)\<lparr>db_gateways := db_gateways (gd_deploy db) @ [gy_UUID g]\<rparr>\<rparr>))"

definition gateway_Create ::
  "deploy_env \<Rightarrow> nat \<Rightarrow> int \<Rightarrow> Gateway \<Rightarrow> gateway_db \<Rightarrow> deploy_error + (Gateway \<times> gateway_db)" where
  "gateway_Create env n now g db =
     (let g' = g\<lparr>gy_CreatedAt := now, gy_UpdatedAt := now, gy_IsActive := False\<rparr> in
      map_sum id (Pair g') (statement env n (insert_gateway g' db)))"

definition GetByUUID :: "deploy_env \<Rightarrow> nat \<Rightarrow> string \<Rightarrow> gateway_db \<Rightarrow> deploy_error + Gateway" where
  "GetByUUID env n gatewayId db =
     statement env n
       (andThen (cast_uuid env gatewayId)
         (\<lambda>u. case find (\<lambda>g. gy_UUID g = u) (gd_gateways db) of
            Some g \<Rightarrow> Inr g | None \<Rightarrow> Inl ErrRecordNotFound))"

definition newest_first :: "Gateway list \<Rightarrow> Gateway list" where
  "newest_first gs = sort_key (\<lambda>g. - gy_CreatedAt g) gs"

definition GetByOrganizationID ::
  "deploy_env \<Rightarrow> nat \<Rightarrow> string \<Rightarrow> gateway_db \<Rightarrow> deploy_error + Gateway list" where
  "GetByOrganizationID env n org db =
     statement env n (Inr (newest_first (filter (\<lambda>g. gy_OrganizationName g = org) (gd_gateways db))))"

definition GetByNameAndOrgID ::
  "deploy_env \<Rightarrow> nat \<Rightarrow> string \<Rightarrow> string \<Rightarrow> gateway_db \<Rightarrow> deploy_error + Gateway" where
  "GetByNameAndOrgID env n name org db =
     statement env n
       (case find (\<lambda>g. gy_Name g = name \<and> gy_OrganizationName g = org) (gd_gateways db) of
          Some g \<Rightarrow> Inr g | None \<Rightarrow> Inl ErrGatewayNotFound)"

definition ListGateways_all :: "deploy_env \<Rightarrow> nat \<Rightarrow> gateway_db \<Rightarrow> deploy_error + Gateway list" where
  "ListGateways_all env n db = statement env n (Inr (newest_first (gd_gateways db)))"

record GatewayFilterOptions =
  fo_OrganizationID :: string
  fo_FunctionalityType :: "string option"
  fo_Status :: "bool option"
  fo_EnvironmentID :: "string option"
  fo_Limit :: int
  fo_Offset :: int

definition wanted :: "string option \<Rightarrow> string option" where
  "wanted f = (case f of Some (c # cs) \<Rightarrow> Some (c # cs) | _ \<Rightarrow> None)"

text \<open>The rows a filter selects; only the filter by environment has to cast a text to a UUID.\<close>

definition buildFilterQuery ::
  "deploy_env \<Rightarrow> GatewayFilterOptions \<Rightarrow> gateway_db \<Rightarrow> deploy_error + Gateway list" where
  "buildFilterQuery env f db =
     map_sum id
       (\<lambda>e. filter (\<lambda>g.
          (fo_OrganizationID f \<noteq> [] \<longrightarrow> gy_OrganizationName g = fo_OrganizationID f)
          \<and> (case wanted (fo_FunctionalityType f) of None \<Rightarrow> True | Some t \<Rightarrow> gy_FunctionalityType g = t)
          \<and> (case fo_Status f of None \<Rightarrow> True | Some b \<Rightarrow> gy_IsActive g = b)
          \<and> (case e of None \<Rightarrow> True
             | Some u \<Rightarrow> list_ex (\<lambda>m. em_GatewayUUID m = gy_UUID g \<and> em_EnvironmentUUID m = u)
                 (gd_mappings db))) (gd_gateways db))
       (case wanted (fo_EnvironmentID f) of
          None \<Rightarrow> Inr None | Some s \<Rightarrow> map_sum id Some (cast_uuid env s))"

definition ListWithFilters ::
  "deploy_env \<Rightarrow> nat \<Rightarrow> GatewayFilterOptions \<Rightarrow> gateway_db \<Rightarrow> deploy_error + Gateway list" where
  "ListWithFilters env n f db =
     statement env n
       (map_sum id
         (\<lambda>gs. (if fo_Limit f > 0 then take (nat (fo_Limit f)) else id)
            ((if fo_Offset f > 0 then drop (nat (fo_Offset f)) else id) (newest_first gs)))
         (buildFilterQuery env f db))"

definition CountWithFilters ::
  "deploy_env \<Rightarrow> nat \<Rightarrow> GatewayFilterOptions \<Rightarrow> gateway_db \<Rightarrow> deploy_error + int" where
  "CountWithFilters env n f db =
     statement env n
       (map_sum id (\<lambda>gs. int (length gs)) (buildFilterQuery env (f\<lparr>fo_Limit := 0, fo_Offset := 0\<rparr>) db))"

text \<open>Deleting a gateway deletes its tokens, mappings, deployments and deployment states.\<close>

definition delete_gateway_deploy :: "uuid \<Rightarrow> deploy_db \<Rightarrow> deploy_db" where
  "delete_gateway_deploy u db =
     fold delete_deployment
       (map dp_DeploymentID (filter (\<lambda>d. dp_GatewayUUID d = u) (db_deployments db)))
       (db\<lparr>db_status := filter (\<lambda>s. sr_GatewayUUID s \<noteq> u) (db_status db),
           db_gateways := removeAll u (db_gateways db)\<rparr>)"

definition delete_gateway :: "uuid \<Rightarrow> gateway_db \<Rightarrow> gateway_db" where
  "delete_gateway u db =
     db\<lparr>gd_gateways := filter (\<lambda>g. gy_UUID g \<noteq> u) (gd_gateways db),
        gd_tokens := filter (\<lambda>t. gt_GatewayUUID t \<noteq> u) (gd_tokens db),
        gd_mappings := filter (\<lambda>m. em_GatewayUUID m \<noteq> u) (gd_mappings db),
        gd_deploy := delete_gateway_deploy u (gd_deploy db)\<rparr>"

definition gateway_Delete ::
  "deploy_env \<Rightarrow> nat \<Rightarrow> string \<Rightarrow> string \<Rightarrow> gateway_db \<Rightarrow> deploy_error + gateway_db" where
  "gateway_Delete env n gatewayID org db =
     andThen (cast_uuid env gatewayID)
       (\<lambda>u. andThen (statement env n (Inr (db\<lparr>gd_associations :=
               filter (\<lambda>a. \<not> (am_ResourceUUID a = u \<and> am_AssociationType a = ''gateway''
                  \<and> am_OrganizationName a = org)) (gd_associations db)\<rparr>)))
         (\<lambda>db1. statement env (Suc n)
            (if list_ex (\<lambda>g. gy_UUID g = u \<and> gy_OrganizationName g = org) (gd_gateways db1)
             then Inr (delete_gateway u db1) else Inl ErrGatewayNotFound)))"

definition update_gateway :: "uuid \<Rightarrow> (Gateway \<Rightarrow> Gateway) \<Rightarrow> gateway_db \<Rightarrow> deploy_error + gateway_db" where
  "update_gateway u f db =
     (if u \<in> gy_UUID ` set (gd_gateways db)
      then Inr (db\<lparr>gd_gateways := map (\<lambda>g. if gy_UUID g = u then f g else g) (gd_gateways db)\<rparr>)
      else Inl ErrRecordNotFound)"

definition UpdateGateway_row ::
  "deploy_env \<Rightarrow> nat \<Rightarrow> int \<Rightarrow> Gateway \<Rightarrow> gateway_db \<Rightarrow> deploy_error + gateway_db" where
  "UpdateGateway_row env n now gateway db =
     statement env n (update_gateway (gy_UUID gateway)
       (\<lambda>g. g\<lparr>gy_DisplayName := gy_DisplayName gateway, gy_Description := gy_Description gateway,
          gy_IsCritical := gy_IsCritical gateway, gy_Properties := gy_Properties gateway,
          gy_UpdatedAt := now\<rparr>) db)"

definition UpdateActiveStatus ::
  "deploy_env \<Rightarrow> nat \<Rightarrow> int \<Rightarrow> string \<Rightarrow> bool \<Rightarrow> gateway_db \<Rightarrow> deploy_error + gateway_db" where
  "UpdateActiveStatus env n now gatewayId isActive db =
     statement env n
       (andThen (cast_uuid env gatewayId)
         (\<lambda>u. update_gateway u (\<lambda>g. g\<lparr>gy_IsActive := isActive, gy_UpdatedAt := now\<rparr>) db))"

section \<open>Tokens\<close>

definition insert_token :: "GatewayToken \<Rightarrow> gateway_db \<Rightarrow> deploy_error + gateway_db" where
  "insert_token t db =
     (if gt_UUID t \<in> gt_UUID ` set (gd_tokens db)
      then Inl (Database ''duplicate key value violates unique constraint gateway_tokens_pkey'')
      else if gt_GatewayUUID t \<notin> gy_UUID ` set (gd_gateways db)
      then Inl (Database ''insert violates foreign key constraint fk_gateway_token_gateway'')
      else if gt_Status t \<notin> {''active'', ''revoked''}
      then Inl (Database ''new row violates check constraint chk_gateway_token_status'')
      else if gt_RevokedAt t \<noteq> None \<and> gt_Status t \<noteq> ''revoked''
      then Inl (Database ''new row violates check constraint chk_gateway_token_revoked'')
      else if token_active t \<and> list_ex (\<lambda>s. token_active s \<and> gt_TokenPrefix s = gt_TokenPrefix t)
                (gd_tokens db)
      then Inl (Database ''duplicate key value violates unique constraint idx_gateway_tokens_prefix_active'')
      else Inr (db\<lparr>gd_tokens := gd_tokens db @ [t]\<rparr>))"

definition CreateToken ::
  "deploy_env \<Rightarrow> nat \<Rightarrow> int \<Rightarrow> GatewayToken \<Rightarrow> gateway_db \<Rightarrow> deploy_error + gateway_db" where
  "CreateToken env n now t db = statement env n (insert_token (t\<lparr>gt_CreatedAt := now\<rparr>) db)"

definition GetActiveTokensByGatewayUUID ::
  "deploy_env \<Rightarrow> nat \<Rightarrow> string \<Rightarrow> gateway_db \<Rightarrow> deploy_error + GatewayToken list" where
  "GetActiveTokensByGatewayUUID env n gatewayId db =
     statement env n
       (andThen (cast_uuid env gatewayId)
         (\<lambda>u. Inr (sort_key (\<lambda>t. - gt_CreatedAt t)
            (filter (\<lambda>t. gt_GatewayUUID t = u \<and> token_active t) (gd_tokens db)))))"

definition GetTokenByUUID ::
  "deploy_env \<Rightarrow> nat \<Rightarrow> string \<Rightarrow> gateway_db \<Rightarrow> deploy_error + GatewayToken" where
  "GetTokenByUUID env n tokenId db =
     statement env n
       (andThen (cast_uuid env tokenId)
         (\<lambda>u. case find (\<lambda>t. gt_UUID t = u) (gd_tokens db) of
            Some t \<Rightarrow> Inr t | None \<Rightarrow> Inl ErrRecordNotFound))"

definition GetActiveTokenByPrefix ::
  "deploy_env \<Rightarrow> nat \<Rightarrow> string \<Rightarrow> gateway_db \<Rightarrow> deploy_error + GatewayToken" where
  "GetActiveTokenByPrefix env n tokenPrefix db =
     statement env n
       (case find (\<lambda>t. gt_TokenPrefix t = tokenPrefix \<and> token_active t) (gd_tokens db) of
          Some t \<Rightarrow> Inr t | None \<Rightarrow> Inl ErrRecordNotFound)"

definition RevokeToken ::
  "deploy_env \<Rightarrow> nat \<Rightarrow> int \<Rightarrow> string \<Rightarrow> gateway_db \<Rightarrow> deploy_error + gateway_db" where
  "RevokeToken env n now tokenId db =
     statement env n
       (andThen (cast_uuid env tokenId)
         (\<lambda>u. if u \<in> gt_UUID ` set (gd_tokens db)
              then Inr (db\<lparr>gd_tokens := map (\<lambda>t. if gt_UUID t = u
                     then t\<lparr>gt_Status := ''revoked'', gt_RevokedAt := Some now\<rparr> else t) (gd_tokens db)\<rparr>)
              else Inl ErrRecordNotFound))"

definition CountActiveTokens ::
  "deploy_env \<Rightarrow> nat \<Rightarrow> string \<Rightarrow> gateway_db \<Rightarrow> deploy_error + nat" where
  "CountActiveTokens env n gatewayId db =
     statement env n
       (andThen (cast_uuid env gatewayId)
         (\<lambda>u. Inr (length (filter (\<lambda>t. gt_GatewayUUID t = u \<and> token_active t) (gd_tokens db)))))"

section \<open>What refers to a gateway\<close>

definition HasGatewayDeployments ::
  "deploy_env \<Rightarrow> nat \<Rightarrow> string \<Rightarrow> string \<Rightarrow> gateway_db \<Rightarrow> deploy_error + bool" where
  "HasGatewayDeployments env n gatewayID org db =
     statement env n
       (andThen (cast_uuid env gatewayID)
         (\<lambda>u. Inr (length (filter (\<lambda>s. sr_GatewayUUID s = u \<and> sr_OrganizationName s = org)
            (db_status (gd_deploy db))) > 0)))"

definition HasGatewayAssociations ::
  "deploy_env \<Rightarrow> nat \<Rightarrow> string \<Rightarrow> string \<Rightarrow> gateway_db \<Rightarrow> deploy_error + bool" where
  "HasGatewayAssociations env n gatewayID org db =
     statement env n
       (andThen (cast_uuid env gatewayID)
         (\<lambda>u. Inr (length (filter (\<lambda>a. am_ResourceUUID a = u \<and> am_AssociationType a = ''gateway''
            \<and> am_OrganizationName a = org) (gd_associations db)) > 0)))"

definition HasGatewayAssociationsOrDeployments ::
  "deploy_env \<Rightarrow> nat \<Rightarrow> string \<Rightarrow> string \<Rightarrow> gateway_db \<Rightarrow> deploy_error + bool" where
  "HasGatewayAssociationsOrDeployments env n gatewayID org db =
     andThen (HasGatewayDeployments env n gatewayID org db)
       (\<lambda>hasDeployments. if hasDeployments then Inr True
          else HasGatewayAssociations env (Suc n) gatewayID org db)"

section \<open>Environments\<close>

definition CreateEnvironmentMapping ::
  "deploy_env \<Rightarrow> nat \<Rightarrow> EnvironmentMapping \<Rightarrow> gateway_db \<Rightarrow> deploy_error + gateway_db" where
  "CreateEnvironmentMapping env n m db =
     statement env n
       (if em_GatewayUUID m \<notin> gy_UUID ` set (gd_gateways db)
        then Inl (Database ''insert violates foreign key constraint fk_gateway_env_mapping_gateway'')
        else if m \<in> set (gd_mappings db)
        then Inl (Database ''duplicate key value violates unique constraint'')
        else Inr (db\<lparr>gd_mappings := gd_mappings db @ [m]\<rparr>))"

definition DeleteEnvironmentMapping ::
  "deploy_env \<Rightarrow> nat \<Rightarrow> string \<Rightarrow> string \<Rightarrow> gateway_db \<Rightarrow> deploy_error + gateway_db" where
  "DeleteEnvironmentMapping env n gatewayID environmentID db =
     statement env n
       (andThen (cast_uuid env gatewayID)
         (\<lambda>g. andThen (cast_uuid env environmentID)
           (\<lambda>e. let m = \<lparr>em_GatewayUUID = g, em_EnvironmentUUID = e\<rparr> in
              if m \<in> set (gd_mappings db)
              then Inr (db\<lparr>gd_mappings := removeAll m (gd_mappings db)\<rparr>)
              else Inl ErrRecordNotFound)))"

definition GetEnvironmentMappingsByGatewayID ::
  "deploy_env \<Rightarrow> nat \<Rightarrow> string \<Rightarrow> gateway_db \<Rightarrow> deploy_error + EnvironmentMapping list" where
  "GetEnvironmentMappingsByGatewayID env n gatewayID db =
     statement env n
       (andThen (cast_uuid env gatewayID)
         (\<lambda>u. Inr (filter (\<lambda>m. em_GatewayUUID m = u) (gd_mappings db))))"

fun cast_all :: "deploy_env \<Rightarrow> string list \<Rightarrow> deploy_error + uuid list" where
  "cast_all env [] = Inr []"
| "cast_all env (s # ss) =
     andThen (cast_uuid env s) (\<lambda>u. andThen (cast_all env ss) (\<lambda>us. Inr (u # us)))"

text \<open>The mappings grouped by the text of their gateway.\<close>

definition group_mapping ::
  "deploy_env \<Rightarrow> EnvironmentMapping \<Rightarrow> (string \<times> EnvironmentMapping list) list \<Rightarrow>
   (string \<times> EnvironmentMapping list) list" where
  "group_mapping env m result =
     (let gwID = ul_show (de_uuid env) (em_GatewayUUID m);
          old = (case map_of result gwID of Some ms \<Rightarrow> ms | None \<Rightarrow> [])
      in AList.update gwID (old @ [m]) result)"

definition GetEnvironmentMappingsByGatewayIDs ::
  "deploy_env \<Rightarrow> nat \<Rightarrow> string list \<Rightarrow> gateway_db \<Rightarrow>
   deploy_error + (string \<times> EnvironmentMapping list) list" where
  "GetEnvironmentMappingsByGatewayIDs env n gatewayIDs db =
     (if gatewayIDs = [] then Inr []
      else statement env n
        (andThen (cast_all env gatewayIDs)
          (\<lambda>us. Inr (fold (group_mapping env)
             (filter (\<lambda>m. em_GatewayUUID m \<in> set us) (gd_mappings db)) []))))"

definition GetEnvironmentMappingsByEnvironmentID ::
  "deploy_env \<Rightarrow> nat \<Rightarrow> string \<Rightarrow> gateway_db \<Rightarrow> deploy_error + EnvironmentMapping list" where
  "GetEnvironmentMappingsByEnvironmentID env n environmentID db =
     statement env n
       (andThen (cast_uuid env environmentID)
         (\<lambda>u. Inr (filter (\<lambda>m. em_EnvironmentUUID m = u) (gd_mappings db))))"

definition EnvironmentMappingExists ::
  "deploy_env \<Rightarrow> nat \<Rightarrow> string \<Rightarrow> string \<Rightarrow> gateway_db \<Rightarrow> deploy_error + bool" where
  "EnvironmentMappingExists env n gatewayID environmentID db =
     statement env n
       (andThen (cast_uuid env gatewayID)
         (\<lambda>g. andThen (cast_uuid env environmentID)
           (\<lambda>e. Inr (length (filter (\<lambda>m. em_GatewayUUID m = g \<and> em_EnvironmentUUID m = e)
              (gd_mappings db)) > 0))))"

end
