(* ===== verification/GatewayService.thy ===== *)
theory GatewayService
  imports GatewayStore WsController
begin

text \<open>
  The gateway service (\<open>agent-manager-service/services/platform_gateway_service.go\<close>) and its cache of
  verified tokens (\<open>services/token_cache.go\<close>): registering, listing, changing and deleting gateways,
  issuing, verifying and revoking their tokens, and assigning them to environments.

  What an operation reads besides its parameters is in \<open>token_env\<close>: the fault plan with the UUID
  functions, the time at its beginning and at its end, the UUIDs that \<open>uuid.New\<close> draws and the bytes
  that \<open>rand.Read\<close> fills in (\<open>None\<close> when it fails).
\<close>

record token_env =
  ke_repo :: deploy_env
  ke_now :: int
  ke_later :: int
  ke_uuid :: uuid
  ke_tokenID :: uuid
  ke_random :: "string option"
  ke_salt :: "string option"

definition ke_show :: "token_env \<Rightarrow> uuid \<Rightarrow> string" where
  "ke_show env u = ul_show (de_uuid (ke_repo env)) u"

definition ke_parse :: "token_env \<Rightarrow> string \<Rightarrow> uuid option" where
  "ke_parse env s = ul_parse (de_uuid (ke_repo env)) s"

section \<open>The token cache\<close>

record TokenCacheEntry =
  te_GatewayUUID :: uuid
  te_Gateway :: Gateway
  te_TokenHash :: string
  te_Salt :: string
  te_CachedAt :: int

record TokenCache =
  kc_tokens :: "(string \<times> TokenCacheEntry) list"
  kc_lastRefresh :: int
  kc_ttl :: int

definition NewTokenCache :: "int \<Rightarrow> TokenCache" where
  "NewTokenCache ttl = \<lparr>kc_tokens = [], kc_lastRefresh = 0, kc_ttl = ttl\<rparr>"

definition cache_Get :: "int \<Rightarrow> string \<Rightarrow> TokenCache \<Rightarrow> TokenCacheEntry option" where
  "cache_Get now tokenPrefix c =
     (case map_of (kc_tokens c) tokenPrefix of
        None \<Rightarrow> None
      | Some entry \<Rightarrow> if now - te_CachedAt entry > kc_ttl c then None else Some entry)"

definition cache_Set ::
  "int \<Rightarrow> string \<Rightarrow> uuid \<Rightarrow> Gateway \<Rightarrow> string \<Rightarrow> string \<Rightarrow> TokenCache \<Rightarrow> TokenCache" where
  "cache_Set now tokenPrefix gatewayUUID gateway tokenHash salt c =
     c\<lparr>kc_tokens := AList.update tokenPrefix
         \<lparr>te_GatewayUUID = gatewayUUID, te_Gateway = gateway, te_TokenHash = tokenHash,
          te_Salt = salt, te_CachedAt = now\<rparr> (kc_tokens c)\<rparr>"

definition cache_Invalidate :: "string \<Rightarrow> TokenCache \<Rightarrow> TokenCache" where
  "cache_Invalidate tokenPrefix c = c\<lparr>kc_tokens := AList.delete tokenPrefix (kc_tokens c)\<rparr>"

definition cache_InvalidateGateway :: "uuid \<Rightarrow> TokenCache \<Rightarrow> TokenCache" where
  "cache_InvalidateGateway gatewayUUID c =
     c\<lparr>kc_tokens := filter (\<lambda>(_, entry). te_GatewayUUID entry \<noteq> gatewayUUID) (kc_tokens c)\<rparr>"

definition cache_Clear :: "TokenCache \<Rightarrow> TokenCache" where
  "cache_Clear c = c\<lparr>kc_tokens := [], kc_lastRefresh := 0\<rparr>"

definition cache_Size :: "TokenCache \<Rightarrow> nat" where
  "cache_Size c = length (kc_tokens c)"

definition cache_Refresh :: "int \<Rightarrow> (string \<times> TokenCacheEntry) list \<Rightarrow> TokenCache \<Rightarrow> TokenCache" where
  "cache_Refresh now tokens c = c\<lparr>kc_tokens := tokens, kc_lastRefresh := now\<rparr>"

definition cache_NeedsRefresh :: "int \<Rightarrow> TokenCache \<Rightarrow> bool" where
  "cache_NeedsRefresh now c \<longleftrightarrow> now - kc_lastRefresh c > kc_ttl c"

record gateway_state =
  ks_db :: gateway_db
  ks_cache :: TokenCache

section \<open>Tokens\<close>

definition hashToken :: "string \<Rightarrow> string \<Rightarrow> string" where
  "hashToken plainToken salt = hex_EncodeToString (sha256_Sum (plainToken @ salt))"

definition verifyToken :: "string \<Rightarrow> string \<Rightarrow> string \<Rightarrow> bool" where
  "verifyToken plainToken storedHashHex storedSaltHex =
     (case hex_DecodeString storedSaltHex of
        None \<Rightarrow> False
      | Some storedSalt \<Rightarrow>
          (case hex_DecodeString storedHashHex of
             None \<Rightarrow> False
           | Some storedHash \<Rightarrow> sha256_Sum (plainToken @ storedSalt) = storedHash))"

text \<open>The token and its prefix.\<close>

definition generateToken :: "token_env \<Rightarrow> deploy_error + (string \<times> string)" where
  "generateToken env =
     (let pre = ke_show env (ke_uuid env) in
      case ke_random env of
        None \<Rightarrow> Inl (Errorf ''failed to generate secure random bytes'' [])
      | Some randomBytes \<Rightarrow> Inr (pre @ ''-'' @ base64_RawURLEncode randomBytes, pre))"

definition generateSalt :: "token_env \<Rightarrow> deploy_error + string" where
  "generateSalt env =
     (case ke_salt env of
        None \<Rightarrow> Inl (Errorf ''failed to generate secure random salt'' []) | Some salt \<Rightarrow> Inr salt)"

text \<open>\<open>VerifyToken\<close> in its three phases: the prefix of the token, the cache, the database.\<close>

definition token_prefix :: "token_env \<Rightarrow> string \<Rightarrow> deploy_error + string" where
  "token_prefix env plainToken =
     (if plainToken = [] then Inl (Errorf ''token is required'' [])
      else
        (let parts = split_n 6 (CHR ''-'') plainToken; tokenPrefix = join_with ''-'' (take 5 parts) in
         if length parts < 6 then Inl (Errorf ''invalid token'' [])
         else if ke_parse env tokenPrefix = None then Inl (Errorf ''invalid token'' [])
         else Inr tokenPrefix))"

definition cached_gateway :: "int \<Rightarrow> string \<Rightarrow> string \<Rightarrow> TokenCache \<Rightarrow> Gateway option \<times> TokenCache" where
  "cached_gateway now plainToken tokenPrefix c =
     (case cache_Get now tokenPrefix c of
        None \<Rightarrow> (None, c)
      | Some entry \<Rightarrow>
          if verifyToken plainToken (te_TokenHash entry) (te_Salt entry)
          then (Some (te_Gateway entry), c)
          else (None, cache_Invalidate tokenPrefix c))"

definition lookup_token ::
  "token_env \<Rightarrow> string \<Rightarrow> string \<Rightarrow> gateway_db \<Rightarrow> deploy_error + (GatewayToken \<times> Gateway)" where
  "lookup_token env plainToken tokenPrefix db =
     andThen (wrap_error ''failed to verify token: %w''
         (GetActiveTokenByPrefix (ke_repo env) 1 tokenPrefix db))
       (\<lambda>token.
          if \<not> verifyToken plainToken (gt_TokenHash token) (gt_Salt token)
          then Inl (Errorf ''invalid token'' [])
          else andThen (wrap_error ''failed to get gateway: %w''
              (GetByUUID (ke_repo env) 2 (ke_show env (gt_GatewayUUID token)) db))
            (\<lambda>gateway. Inr (token, gateway)))"

definition remember_token :: "int \<Rightarrow> string \<Rightarrow> GatewayToken \<Rightarrow> Gateway \<Rightarrow> TokenCache \<Rightarrow> TokenCache" where
  "remember_token now tokenPrefix token gateway c =
     cache_Set now tokenPrefix (gt_GatewayUUID token) gateway (gt_TokenHash token) (gt_Salt token) c"

definition VerifyToken ::
  "token_env \<Rightarrow> string \<Rightarrow> gateway_state \<Rightarrow> gateway_state \<times> (deploy_error + Gateway)" where
  "VerifyToken env plainToken st =
     (case token_prefix env plainToken of
        Inl e \<Rightarrow> (st, Inl e)
      | Inr tokenPrefix \<Rightarrow>
          (case cached_gateway (ke_now env) plainToken tokenPrefix (ks_cache st) of
             (Some gateway, _) \<Rightarrow> (st, Inr gateway)
           | (None, cache) \<Rightarrow>
               (case lookup_token env plainToken tokenPrefix (ks_db st) of
                  Inl e \<Rightarrow> (st\<lparr>ks_cache := cache\<rparr>, Inl e)
                | Inr (token, gateway) \<Rightarrow>
                    (st\<lparr>ks_cache := remember_token (ke_later env) tokenPrefix token gateway cache\<rparr>,
                     Inr gateway))))"

text \<open>A gateway of the organization, as most operations look it up first.\<close>

definition gateway_of_org ::
  "string \<Rightarrow> token_env \<Rightarrow> string \<Rightarrow> string \<Rightarrow> gateway_db \<Rightarrow> deploy_error + Gateway" where
  "gateway_of_org text env gatewayID org db =
     andThen ((if text = [] then id else wrap_error text) (GetByUUID (ke_repo env) 1 gatewayID db))
       (\<lambda>gateway. if gy_OrganizationName gateway \<noteq> org then Inl ErrGatewayNotFound else Inr gateway)"

record TokenRotationResponse =
  tr_ID :: string
  tr_Token :: string
  tr_CreatedAt :: int

definition maximum_reached :: string where
  "maximum_reached = ''maximum 2 active tokens allowed. Revoke old tokens before rotating''"

text \<open>\<open>uuid.MustParse\<close> panics on a text that the database accepts as a UUID and the library does not.\<close>

definition new_token ::
  "token_env \<Rightarrow> string \<Rightarrow> string \<Rightarrow> gateway_db \<Rightarrow> deploy_error + (string \<times> string \<times> string)" where
  "new_token env gatewayID org db =
     andThen (gateway_of_org ''failed to query gateway: %w'' env gatewayID org db)
       (\<lambda>_. andThen (wrap_error ''failed to count active tokens: %w''
             (CountActiveTokens (ke_repo env) 2 gatewayID db))
         (\<lambda>activeCount.
            if activeCount \<ge> 2 then Inl (Errorf maximum_reached [])
            else andThen (wrap_error ''failed to generate token: %w'' (generateToken env))
              (\<lambda>(plainToken, tokenPrefix).
                 andThen (wrap_error ''failed to generate salt: %w'' (generateSalt env))
                   (\<lambda>salt. Inr (plainToken, tokenPrefix, salt)))))"

definition RotateToken ::
  "token_env \<Rightarrow> string \<Rightarrow> string \<Rightarrow> gateway_state \<Rightarrow>
   (gateway_state \<times> (deploy_error + TokenRotationResponse)) option" where
  "RotateToken env gatewayID org st =
     (case new_token env gatewayID org (ks_db st) of
        Inl e \<Rightarrow> Some (st, Inl e)
      | Inr (plainToken, tokenPrefix, salt) \<Rightarrow>
          (case ke_parse env gatewayID of
             None \<Rightarrow> None
           | Some gatewayUUID \<Rightarrow>
               (case wrap_error ''failed to create token: %w''
                   (CreateToken (ke_repo env) 3 (ke_later env)
                     \<lparr>gt_UUID = ke_tokenID env, gt_GatewayUUID = gatewayUUID,
                      gt_TokenPrefix = tokenPrefix, gt_TokenHash = hashToken plainToken salt,
                      gt_Salt = hex_EncodeToString salt, gt_Status = ''active'',
                      gt_CreatedAt = ke_now env, gt_RevokedAt = None\<rparr> (ks_db st)) of
                  Inl e \<Rightarrow> Some (st, Inl e)
                | Inr db \<Rightarrow> Some (st\<lparr>ks_db := db\<rparr>,
                    Inr \<lparr>tr_ID = ke_show env (ke_tokenID env), tr_Token = plainToken,
                         tr_CreatedAt = ke_later env\<rparr>))))"

text \<open>A missing row becomes an error of its own text, any other error is wrapped.\<close>

definition missing_as :: "string \<Rightarrow> string \<Rightarrow> deploy_error + 'a \<Rightarrow> deploy_error + 'a" where
  "missing_as absent text r =
     map_sum (\<lambda>e. if e = ErrRecordNotFound then Errorf absent [] else Wrapf text [] e) id r"

definition revoked_token ::
  "token_env \<Rightarrow> string \<Rightarrow> string \<Rightarrow> string \<Rightarrow> gateway_db \<Rightarrow> deploy_error + (GatewayToken \<times> gateway_db)" where
  "revoked_token env tokenID gatewayID org db =
     andThen (gateway_of_org ''failed to query gateway: %w'' env gatewayID org db)
       (\<lambda>_. andThen (missing_as ''token not found'' ''failed to get token: %w''
             (GetTokenByUUID (ke_repo env) 2 tokenID db))
         (\<lambda>token.
            if ke_show env (gt_GatewayUUID token) \<noteq> gatewayID
            then Inl (Errorf ''token does not belong to this gateway'' [])
            else map_sum id (Pair token)
              (missing_as ''token not found'' ''failed to revoke token: %w''
                (RevokeToken (ke_repo env) 3 (ke_now env) tokenID db))))"

definition RevokeTokenByID ::
  "token_env \<Rightarrow> string \<Rightarrow> string \<Rightarrow> string \<Rightarrow> gateway_state \<Rightarrow>
   gateway_state \<times> (deploy_error + unit)" where
  "RevokeTokenByID env tokenID gatewayID org st =
     (case revoked_token env tokenID gatewayID org (ks_db st) of
        Inl e \<Rightarrow> (st, Inl e)
      | Inr (token, db) \<Rightarrow>
          (\<lparr>ks_db = db, ks_cache = cache_Invalidate (gt_TokenPrefix token) (ks_cache st)\<rparr>, Inr ()))"

record GatewayTokenInfo =
  gi_ID :: string
  gi_Status :: string
  gi_CreatedAt :: int
  gi_RevokedAt :: "int option"

definition ListTokens ::
  "token_env \<Rightarrow> string \<Rightarrow> string \<Rightarrow> gateway_db \<Rightarrow> deploy_error + (nat \<times> GatewayTokenInfo list)" where
  "ListTokens env gatewayID org db =
     andThen (gateway_of_org ''failed to query gateway: %w'' env gatewayID org db)
       (\<lambda>_. andThen (wrap_error ''failed to get tokens: %w''
             (GetActiveTokensByGatewayUUID (ke_repo env) 2 gatewayID db))
         (\<lambda>activeTokens.
            let tokens = map (\<lambda>t. \<lparr>gi_ID = ke_show env (gt_UUID t), gi_Status = gt_Status t,
                    gi_CreatedAt = gt_CreatedAt t, gi_RevokedAt = gt_RevokedAt t\<rparr>) activeTokens
            in Inr (length tokens, tokens)))"

definition InvalidateGatewayTokensCache :: "uuid \<Rightarrow> gateway_state \<Rightarrow> gateway_state" where
  "InvalidateGatewayTokensCache u st = st\<lparr>ks_cache := cache_InvalidateGateway u (ks_cache st)\<rparr>"

section \<open>Gateways\<close>

record GatewayResponse =
  gr_ID :: string
  gr_OrganizationID :: string
  gr_Name :: string
  gr_DisplayName :: string
  gr_Description :: string
  gr_Properties :: gmap
  gr_Vhost :: string
  gr_IsCritical :: bool
  gr_FunctionalityType :: string
  gr_IsActive :: bool
  gr_CreatedAt :: int
  gr_UpdatedAt :: int

definition gateway_response :: "token_env \<Rightarrow> Gateway \<Rightarrow> GatewayResponse" where
  "gateway_response env g =
     \<lparr>gr_ID = ke_show env (gy_UUID g), gr_OrganizationID = gy_OrganizationName g,
      gr_Name = gy_Name g, gr_DisplayName = gy_DisplayName g, gr_Description = gy_Description g,
      gr_Properties = gy_Properties g, gr_Vhost = gy_Vhost g, gr_IsCritical = gy_IsCritical g,
      gr_FunctionalityType = gy_FunctionalityType g, gr_IsActive = gy_IsActive g,
      gr_CreatedAt = gy_CreatedAt g, gr_UpdatedAt = gy_UpdatedAt g\<rparr>"

definition name_char :: "char \<Rightarrow> bool" where
  "name_char c \<longleftrightarrow> byte_in 97 122 c \<or> byte_in 48 57 c \<or> c = CHR ''-''"

definition validateGatewayInput ::
  "string \<Rightarrow> string \<Rightarrow> string \<Rightarrow> string \<Rightarrow> string \<Rightarrow> string option" where
  "validateGatewayInput orgName name displayName vhost functionalityType =
     (let n = trim_space name; d = trim_space displayName; t = trim_space functionalityType in
      if trim_space orgName = [] then Some ''organization name is required''
      else if n = [] then Some ''gateway name is required''
      else if length n < 3 then Some ''gateway name must be at least 3 characters''
      else if length n > 64 then Some ''gateway name must not exceed 64 characters''
      else if \<not> list_all name_char n
      then Some ''gateway name must contain only lowercase letters, numbers, and hyphens''
      else if hd n = CHR ''-'' \<or> last n = CHR ''-''
      then Some ''gateway name cannot start or end with a hyphen''
      else if d = [] then Some ''display name is required''
      else if length d > 128 then Some ''display name must not exceed 128 characters''
      else if trim_space vhost = [] then Some ''vhost is required''
      else if t = [] then Some ''gateway functionality type is required''
      else if to_lower t \<notin> {''regular'', ''ai'', ''event''}
      then Some ''gateway type must be one of: Regular, AI, Event''
      else None)"

record gateway_input =
  in_Name :: string
  in_DisplayName :: string
  in_Description :: string
  in_Vhost :: string
  in_IsCritical :: bool
  in_FunctionalityType :: string
  in_Properties :: "gmap option"

definition new_gateway ::
  "token_env \<Rightarrow> string \<Rightarrow> gateway_input \<Rightarrow> gateway_db \<Rightarrow> deploy_error + (Gateway \<times> gateway_db)" where
  "new_gateway env org i db =
     (case ke_parse env (ke_show env (ke_uuid env)) of
        None \<Rightarrow> Inl (Errorf ''invalid gateway UUID: %w'' [])
      | Some u \<Rightarrow>
          wrap_error ''error while registering gateway: %w''
            (gateway_Create (ke_repo env) 2 (ke_later env)
              \<lparr>gy_UUID = u, gy_OrganizationName = org, gy_Name = in_Name i,
               gy_DisplayName = in_DisplayName i, gy_Description = in_Description i,
               gy_Properties = (case in_Properties i of Some p \<Rightarrow> p | None \<Rightarrow> []),
               gy_Vhost = in_Vhost i, gy_IsCritical = in_IsCritical i,
               gy_FunctionalityType = to_lower (in_FunctionalityType i),
               gy_IsActive = False, gy_CreatedAt = ke_now env, gy_UpdatedAt = ke_now env\<rparr> db))"

definition registered_gateway ::
  "token_env \<Rightarrow> string \<Rightarrow> gateway_input \<Rightarrow> gateway_db \<Rightarrow> deploy_error + (Gateway \<times> gateway_db)" where
  "registered_gateway env org i db =
     (case validateGatewayInput org (in_Name i) (in_DisplayName i) (in_Vhost i) (in_FunctionalityType i) of
        Some e \<Rightarrow> Inl (Errorf e [])
      | None \<Rightarrow>
          (case GetByNameAndOrgID (ke_repo env) 1 (in_Name i) org db of
             Inr _ \<Rightarrow> Inl ErrGatewayAlreadyExists
           | Inl e \<Rightarrow>
               if e = ErrGatewayNotFound then new_gateway env org i db
               else Inl (Wrapf ''failed to check gateway name uniqueness: %w'' [] e)))"

definition RegisterGateway ::
  "token_env \<Rightarrow> string \<Rightarrow> gateway_input \<Rightarrow> gateway_state \<Rightarrow>
   gateway_state \<times> (deploy_error + GatewayResponse)" where
  "RegisterGateway env org i st =
     (case registered_gateway env org i (ks_db st) of
        Inl e \<Rightarrow> (st, Inl e)
      | Inr (g, db) \<Rightarrow> (st\<lparr>ks_db := db\<rparr>, Inr (gateway_response env g)))"

record GatewayListResponse =
  gl_Count :: nat
  gl_List :: "GatewayResponse list"
  gl_Total :: int
  gl_Offset :: int
  gl_Limit :: int

definition ListGateways ::
  "token_env \<Rightarrow> string option \<Rightarrow> (string option \<times> bool option \<times> string option) option \<Rightarrow> int \<Rightarrow> int \<Rightarrow>
   gateway_db \<Rightarrow> deploy_error + GatewayListResponse" where
  "ListGateways env orgName filters limit offset db =
     (let (ty, status, environment) = (case filters of Some f \<Rightarrow> f | None \<Rightarrow> (None, None, None));
          filterOpts = \<lparr>fo_OrganizationID = (case orgName of Some o' \<Rightarrow> o' | None \<Rightarrow> []),
            fo_FunctionalityType = ty, fo_Status = status, fo_EnvironmentID = environment,
            fo_Limit = limit, fo_Offset = offset\<rparr>
      in andThen (wrap_error ''failed to count gateways: %w'' (CountWithFilters (ke_repo env) 1 filterOpts db))
        (\<lambda>tot. andThen (wrap_error ''failed to list gateways: %w'' (ListWithFilters (ke_repo env) 2 filterOpts db))
          (\<lambda>gateways. let responses = map (gateway_response env) gateways in
             Inr \<lparr>gl_Count = length responses, gl_List = responses, gl_Total = tot,
                  gl_Offset = offset, gl_Limit = limit\<rparr>)))"

definition GetGateway ::
  "token_env \<Rightarrow> string \<Rightarrow> string \<Rightarrow> gateway_db \<Rightarrow> deploy_error + GatewayResponse" where
  "GetGateway env gatewayID org db =
     (if ke_parse env gatewayID = None then Inl (Errorf ''invalid UUID format'' [])
      else map_sum id (gateway_response env)
        (gateway_of_org ''failed to get gateway: %w'' env gatewayID org db))"

record gateway_change =
  ch_Description :: "string option"
  ch_DisplayName :: "string option"
  ch_IsCritical :: "bool option"
  ch_Properties :: "gmap option"

definition changed_gateway :: "gateway_change \<Rightarrow> Gateway \<Rightarrow> Gateway" where
  "changed_gateway ch g =
     g\<lparr>gy_Description := (case ch_Description ch of Some x \<Rightarrow> x | None \<Rightarrow> gy_Description g),
       gy_DisplayName := (case ch_DisplayName ch of Some x \<Rightarrow> x | None \<Rightarrow> gy_DisplayName g),
       gy_IsCritical := (case ch_IsCritical ch of Some x \<Rightarrow> x | None \<Rightarrow> gy_IsCritical g),
       gy_Properties := (case ch_Properties ch of Some x \<Rightarrow> x | None \<Rightarrow> gy_Properties g)\<rparr>"

definition updated_gateway ::
  "token_env \<Rightarrow> string \<Rightarrow> string \<Rightarrow> gateway_change \<Rightarrow> gateway_db \<Rightarrow> deploy_error + (Gateway \<times> gateway_db)" where
  "updated_gateway env gatewayID org ch db =
     andThen (gateway_of_org [] env gatewayID org db)
       (\<lambda>g. let g' = (changed_gateway ch g)\<lparr>gy_UpdatedAt := ke_later env\<rparr> in
          map_sum id (Pair g') (UpdateGateway_row (ke_repo env) 2 (ke_later env) g' db))"

definition UpdateGateway ::
  "token_env \<Rightarrow> string \<Rightarrow> string \<Rightarrow> gateway_change \<Rightarrow> gateway_state \<Rightarrow>
   gateway_state \<times> (deploy_error + GatewayResponse)" where
  "UpdateGateway env gatewayID org ch st =
     (case updated_gateway env gatewayID org ch (ks_db st) of
        Inl e \<Rightarrow> (st, Inl e)
      | Inr (g', db) \<Rightarrow> (st\<lparr>ks_db := db\<rparr>, Inr (gateway_response env g')))"

definition deleted_gateway ::
  "token_env \<Rightarrow> string \<Rightarrow> string \<Rightarrow> gateway_db \<Rightarrow> deploy_error + (Gateway \<times> gateway_db)" where
  "deleted_gateway env gatewayID org db =
     (if ke_parse env gatewayID = None then Inl (Errorf ''invalid UUID format'' [])
      else andThen (gateway_of_org [] env gatewayID org db)
        (\<lambda>g. andThen (wrap_error ''failed to check gateway deployments: %w''
             (HasGatewayDeployments (ke_repo env) 2 gatewayID org db))
           (\<lambda>hasDeployments.
              if hasDeployments then Inl ErrGatewayHasDeployments
              else map_sum id (Pair g) (gateway_Delete (ke_repo env) 3 gatewayID org db))))"

definition DeleteGateway ::
  "token_env \<Rightarrow> string \<Rightarrow> string \<Rightarrow> gateway_state \<Rightarrow> gateway_state \<times> (deploy_error + unit)" where
  "DeleteGateway env gatewayID org st =
     (case deleted_gateway env gatewayID org (ks_db st) of
        Inl e \<Rightarrow> (st, Inl e)
      | Inr (g, db) \<Rightarrow>
          (\<lparr>ks_db = db, ks_cache = cache_InvalidateGateway (gy_UUID g) (ks_cache st)\<rparr>, Inr ()))"

definition GetGatewayStatus ::
  "token_env \<Rightarrow> string \<Rightarrow> string option \<Rightarrow> gateway_db \<Rightarrow>
   deploy_error + (string \<times> string \<times> bool \<times> bool) list" where
  "GetGatewayStatus env org gatewayID db =
     (if trim_space org = [] then Inl (Errorf ''organization name is required'' [])
      else map_sum id
        (map (\<lambda>g. (ke_show env (gy_UUID g), gy_Name g, gy_IsActive g, gy_IsCritical g)))
        (case gatewayID of
           Some (c # cs) \<Rightarrow>
             map_sum id (\<lambda>g. [g]) (gateway_of_org ''failed to get gateway: %w'' env (c # cs) org db)
         | _ \<Rightarrow> wrap_error ''failed to list gateways: %w'' (GetByOrganizationID (ke_repo env) 1 org db)))"

text \<open>An operation that changes the tables only.\<close>

definition on_tables ::
  "(gateway_db \<Rightarrow> deploy_error + gateway_db) \<Rightarrow> gateway_state \<Rightarrow> gateway_state \<times> (deploy_error + unit)" where
  "on_tables f st =
     (case f (ks_db st) of Inl e \<Rightarrow> (st, Inl e) | Inr db \<Rightarrow> (st\<lparr>ks_db := db\<rparr>, Inr ()))"

definition UpdateGatewayActiveStatus ::
  "token_env \<Rightarrow> string \<Rightarrow> bool \<Rightarrow> gateway_state \<Rightarrow> gateway_state \<times> (deploy_error + unit)" where
  "UpdateGatewayActiveStatus env gatewayID isActive =
     on_tables (UpdateActiveStatus (ke_repo env) 1 (ke_now env) gatewayID isActive)"

section \<open>Environments\<close>

definition need_uuid :: "token_env \<Rightarrow> string \<Rightarrow> string \<Rightarrow> deploy_error + uuid" where
  "need_uuid env text s =
     (case ke_parse env s of None \<Rightarrow> Inl (Wrapf text [] (Errorf ''invalid UUID'' [s])) | Some u \<Rightarrow> Inr u)"

definition AssignGatewayToEnvironment ::
  "token_env \<Rightarrow> string \<Rightarrow> string \<Rightarrow> gateway_state \<Rightarrow> gateway_state \<times> (deploy_error + unit)" where
  "AssignGatewayToEnvironment env gatewayID environmentID =
     on_tables (\<lambda>db. andThen (need_uuid env ''invalid gateway UUID: %w'' gatewayID)
         (\<lambda>g. andThen (need_uuid env ''invalid environment UUID: %w'' environmentID)
           (\<lambda>e. andThen (wrap_error ''failed to check existing mapping: %w''
                 (EnvironmentMappingExists (ke_repo env) 1 gatewayID environmentID db))
             (\<lambda>exists. if exists then Inr db
                else wrap_error ''failed to create gateway-environment mapping: %w''
                  (CreateEnvironmentMapping (ke_repo env) 2
                     \<lparr>em_GatewayUUID = g, em_EnvironmentUUID = e\<rparr> db)))))"

definition RemoveGatewayFromEnvironment ::
  "token_env \<Rightarrow> string \<Rightarrow> string \<Rightarrow> gateway_state \<Rightarrow> gateway_state \<times> (deploy_error + unit)" where
  "RemoveGatewayFromEnvironment env gatewayID environmentID =
     on_tables (\<lambda>db. andThen (need_uuid env ''invalid gateway UUID: %w'' gatewayID)
         (\<lambda>_. andThen (need_uuid env ''invalid environment UUID: %w'' environmentID)
           (\<lambda>_. missing_as ''gateway-environment mapping not found''
              ''failed to remove gateway from environment: %w''
              (DeleteEnvironmentMapping (ke_repo env) 1 gatewayID environmentID db))))"

definition GetGatewayEnvironmentMappings ::
  "token_env \<Rightarrow> string \<Rightarrow> gateway_db \<Rightarrow> deploy_error + EnvironmentMapping list" where
  "GetGatewayEnvironmentMappings env gatewayID db =
     andThen (need_uuid env ''invalid gateway UUID: %w'' gatewayID)
       (\<lambda>_. wrap_error ''failed to get gateway environment mappings: %w''
          (GetEnvironmentMappingsByGatewayID (ke_repo env) 1 gatewayID db))"

definition GetGatewayEnvironmentMappingsBulk ::
  "token_env \<Rightarrow> string list \<Rightarrow> gateway_db \<Rightarrow>
   deploy_error + (string \<times> EnvironmentMapping list) list" where
  "GetGatewayEnvironmentMappingsBulk env gatewayIDs db =
     (case find (\<lambda>i. ke_parse env i = None) gatewayIDs of
        Some i \<Rightarrow> Inl (Errorf ''invalid gateway UUID: %s: %w'' [i])
      | None \<Rightarrow> wrap_error ''failed to get gateway environment mappings in bulk: %w''
          (GetEnvironmentMappingsByGatewayIDs (ke_repo env) 1 gatewayIDs db))"

text \<open>A mapping that cannot be deleted is skipped. The deletions are the statements 2 and up.\<close>

fun delete_mappings :: "token_env \<Rightarrow> nat \<Rightarrow> uuid \<Rightarrow> EnvironmentMapping list \<Rightarrow> gateway_db \<Rightarrow> gateway_db" where
  "delete_mappings env n g [] db = db"
| "delete_mappings env n g (m # ms) db =
     delete_mappings env (Suc n) g ms
       (case DeleteEnvironmentMapping (ke_repo env) n (ke_show env g)
            (ke_show env (em_EnvironmentUUID m)) db of Inl e \<Rightarrow> db | Inr db' \<Rightarrow> db')"

definition DeleteGatewayEnvironmentMappings ::
  "token_env \<Rightarrow> string \<Rightarrow> gateway_state \<Rightarrow> gateway_state \<times> (deploy_error + unit)" where
  "DeleteGatewayEnvironmentMappings env gatewayID =
     on_tables (\<lambda>db. andThen (need_uuid env ''invalid gateway UUID: %w'' gatewayID)
         (\<lambda>g. andThen (wrap_error ''failed to get gateway environment mappings: %w''
               (GetEnvironmentMappingsByGatewayID (ke_repo env) 1 gatewayID db))
           (\<lambda>ms. Inr (delete_mappings env 2 g ms db))))"

section \<open>Connecting with a token\<close>

text \<open>
  The first half of \<open>Connect\<close> with the verification it starts with (theory \<open>WsController\<close> takes
  its answer as an argument).
\<close>

definition Connect_with_token ::
  "token_env \<Rightarrow> string \<Rightarrow> bool \<Rightarrow> string \<Rightarrow> int \<Rightarrow> string \<Rightarrow> string option \<Rightarrow> bool \<Rightarrow>
   gateway_state \<times> ws_state \<Rightarrow> (gateway_state \<times> ws_state) \<times> connect_result" where
  "Connect_with_token env apiKey upgraded connectionID now timestamp answer updated s =
     (let (st, r) = (if apiKey = [] then (fst s, Inl (Errorf [] [])) else VerifyToken env apiKey (fst s));
          verified = (case r of Inl _ \<Rightarrow> None | Inr gateway \<Rightarrow> Some (ke_show env (gy_UUID gateway)));
          (ws, result) = Connect_open apiKey verified upgraded connectionID now timestamp answer updated (snd s)
      in ((st, ws), result))"

end
