(* ===== verification/GatewayAuth.thy ===== *)
theory GatewayAuth
  imports GatewayService
begin

text \<open>
  What keeps the authentication of gateways sound: an invariant of the token tables and the cache that
  every operation of the gateway service keeps, what a verified token tells, and what a revoked one
  can no longer do.
\<close>

section \<open>The invariant\<close>

definition active_of :: "uuid \<Rightarrow> gateway_db \<Rightarrow> GatewayToken list" where
  "active_of u db = filter (\<lambda>t. gt_GatewayUUID t = u \<and> token_active t) (gd_tokens db)"

definition tokens_ok :: "gateway_db \<Rightarrow> bool" where
  "tokens_ok db \<longleftrightarrow>
     distinct (map gy_UUID (gd_gateways db))
     \<and> distinct (map (\<lambda>g. (gy_OrganizationName g, gy_Name g)) (gd_gateways db))
     \<and> distinct (map gt_UUID (gd_tokens db))
     \<and> distinct (map gt_TokenPrefix (filter token_active (gd_tokens db)))
     \<and> (\<forall>t \<in> set (gd_tokens db). gt_GatewayUUID t \<in> gy_UUID ` set (gd_gateways db))
     \<and> (\<forall>u. length (active_of u db) \<le> 2)"

text \<open>The fields of a gateway that no operation changes.\<close>

definition same_gateway :: "Gateway \<Rightarrow> Gateway \<Rightarrow> bool" where
  "same_gateway g h \<longleftrightarrow> gy_UUID g = gy_UUID h \<and> gy_OrganizationName g = gy_OrganizationName h
     \<and> gy_Name g = gy_Name h"

definition token_row :: "gateway_db \<Rightarrow> string \<Rightarrow> string \<Rightarrow> string \<Rightarrow> uuid \<Rightarrow> bool" where
  "token_row db tokenPrefix hash salt u \<longleftrightarrow>
     (\<exists>t \<in> set (gd_tokens db). token_active t \<and> gt_TokenPrefix t = tokenPrefix \<and> gt_TokenHash t = hash
        \<and> gt_Salt t = salt \<and> gt_GatewayUUID t = u)"

definition known_gateway :: "gateway_db \<Rightarrow> Gateway \<Rightarrow> bool" where
  "known_gateway db h \<longleftrightarrow> (\<exists>g \<in> set (gd_gateways db). same_gateway g h)"

definition backed :: "gateway_db \<Rightarrow> string \<times> TokenCacheEntry \<Rightarrow> bool" where
  "backed db pe \<longleftrightarrow>
     token_row db (fst pe) (te_TokenHash (snd pe)) (te_Salt (snd pe)) (te_GatewayUUID (snd pe))
     \<and> gy_UUID (te_Gateway (snd pe)) = te_GatewayUUID (snd pe) \<and> known_gateway db (te_Gateway (snd pe))"

definition auth_inv :: "gateway_state \<Rightarrow> bool" where
  "auth_inv st \<longleftrightarrow> tokens_ok (ks_db st) \<and> distinct (map fst (kc_tokens (ks_cache st)))
     \<and> (\<forall>pe \<in> set (kc_tokens (ks_cache st)). backed (ks_db st) pe)"

section \<open>Statements\<close>

lemmas outcome_simps = statement_Inr cast_uuid_Inr map_sum_Inr andThen_Inr wrap_error_Inr

lemma GetByUUID_Inr:
  "GetByUUID env n s db = Inr g \<longleftrightarrow>
     de_fault env n = None \<and> (\<exists>u. ul_cast (de_uuid env) s = Some u \<and> find (\<lambda>g. gy_UUID g = u) (gd_gateways db) = Some g)"
  by (auto simp: GetByUUID_def outcome_simps split: option.splits)

lemma GetByUUID_found:
  assumes "GetByUUID env n s db = Inr g"
  shows "g \<in> set (gd_gateways db)" "ul_cast (de_uuid env) s = Some (gy_UUID g)"
  using assms unfolding GetByUUID_Inr by (auto simp: find_Some_iff)

lemma gateway_of_org_found:
  assumes "gateway_of_org text env s org db = Inr g"
  shows "g \<in> set (gd_gateways db)" "ul_cast (de_uuid (ke_repo env)) s = Some (gy_UUID g)"
    "gy_OrganizationName g = org"
  using assms GetByUUID_found[of "ke_repo env" 1 s db g]
  by (auto simp: gateway_of_org_def outcome_simps split: if_splits)

section \<open>Changes of the tables that keep the invariant\<close>

lemma row_kept:
  assumes "token_row db p h s u" and "filter token_active (gd_tokens db') = filter token_active (gd_tokens db)"
  shows "token_row db' p h s u"
proof -
  have "{t \<in> set (gd_tokens db'). token_active t} = {t \<in> set (gd_tokens db). token_active t}"
    by (metis assms(2) set_filter)
  then show ?thesis using assms(1) unfolding token_row_def by blast
qed

lemma known_kept:
  assumes "known_gateway db h" and "\<And>g. g \<in> set (gd_gateways db) \<Longrightarrow> \<exists>g' \<in> set (gd_gateways db'). same_gateway g' g"
  shows "known_gateway db' h"
  using assms unfolding known_gateway_def same_gateway_def by metis

lemma insert_gateway_ok:
  assumes "tokens_ok db" and "insert_gateway g db = Inr db'"
  shows "tokens_ok db'" "backed db pe \<Longrightarrow> backed db' pe"
proof -
  from assms(2) have db': "gd_gateways db' = gd_gateways db @ [g]" "gd_tokens db' = gd_tokens db"
    "gy_UUID g \<notin> gy_UUID ` set (gd_gateways db)"
    "\<not> list_ex (\<lambda>h. gy_OrganizationName h = gy_OrganizationName g \<and> gy_Name h = gy_Name g) (gd_gateways db)"
    by (auto simp: insert_gateway_def split: if_splits)
  show "tokens_ok db'"
    using assms(1) db' unfolding tokens_ok_def active_of_def by (auto simp: list_ex_iff)
  show "backed db pe \<Longrightarrow> backed db' pe"
    using db' row_kept[of db _ _ _ _ db'] known_kept[of db _ db'] unfolding backed_def
    by (metis Un_iff same_gateway_def set_append)
qed

lemma update_gateway_ok:
  assumes "tokens_ok db" and "update_gateway u f db = Inr db'" and "\<And>g. same_gateway (f g) g"
  shows "tokens_ok db'" "backed db pe \<Longrightarrow> backed db' pe"
proof -
  let ?f = "\<lambda>g. if gy_UUID g = u then f g else g"
  from assms(2) have db': "gd_gateways db' = map ?f (gd_gateways db)" "gd_tokens db' = gd_tokens db"
    by (auto simp: update_gateway_def split: if_splits)
  have same: "gy_UUID (f g) = gy_UUID g" "gy_OrganizationName (f g) = gy_OrganizationName g"
    "gy_Name (f g) = gy_Name g" for g
    using assms(3)[of g] by (simp_all add: same_gateway_def)
  have "map gy_UUID (gd_gateways db') = map gy_UUID (gd_gateways db)"
    "map (\<lambda>g. (gy_OrganizationName g, gy_Name g)) (gd_gateways db')
       = map (\<lambda>g. (gy_OrganizationName g, gy_Name g)) (gd_gateways db)"
    using same by (auto simp: db'(1))
  moreover from this(1) have "gy_UUID ` set (gd_gateways db') = gy_UUID ` set (gd_gateways db)"
    by (metis set_map)
  ultimately show "tokens_ok db'"
    using assms(1) db'(2) unfolding tokens_ok_def active_of_def by simp
  have "\<exists>g' \<in> set (gd_gateways db'). same_gateway g' g" if "g \<in> set (gd_gateways db)" for g
    using that same by (intro bexI[of _ "?f g"]) (simp_all add: db'(1) same_gateway_def)
  then show "backed db pe \<Longrightarrow> backed db' pe"
    using db'(2) row_kept[of db _ _ _ _ db'] known_kept[of db _ db'] unfolding backed_def by simp
qed

lemma insert_token_ok:
  assumes "tokens_ok db" and "insert_token t db = Inr db'" and "length (active_of (gt_GatewayUUID t) db) < 2"
  shows "tokens_ok db'" "backed db pe \<Longrightarrow> backed db' pe" "gd_tokens db' = gd_tokens db @ [t]"
    "gd_gateways db' = gd_gateways db"
proof -
  from assms(2) have db': "gd_tokens db' = gd_tokens db @ [t]" "gd_gateways db' = gd_gateways db"
    and new: "gt_UUID t \<notin> gt_UUID ` set (gd_tokens db)" "gt_GatewayUUID t \<in> gy_UUID ` set (gd_gateways db)"
      "\<not> (token_active t \<and> list_ex (\<lambda>s. token_active s \<and> gt_TokenPrefix s = gt_TokenPrefix t) (gd_tokens db))"
    by (auto simp: insert_token_def split: if_splits)
  show "gd_tokens db' = gd_tokens db @ [t]" "gd_gateways db' = gd_gateways db" by (fact db')+
  have "length (active_of u db') \<le> 2" for u
    using assms(1,3) by (cases "u = gt_GatewayUUID t") (auto simp: tokens_ok_def active_of_def db')
  then show "tokens_ok db'"
    using assms(1) db' new unfolding tokens_ok_def by (auto simp: list_ex_iff)
  show "backed db pe \<Longrightarrow> backed db' pe"
    unfolding backed_def token_row_def known_gateway_def db' by auto
qed

text \<open>Revoking a token and deleting a gateway.\<close>

definition revoke_rows :: "uuid \<Rightarrow> int \<Rightarrow> gateway_db \<Rightarrow> gateway_db" where
  "revoke_rows u now db = db\<lparr>gd_tokens := map (\<lambda>t. if gt_UUID t = u
     then t\<lparr>gt_Status := ''revoked'', gt_RevokedAt := Some now\<rparr> else t) (gd_tokens db)\<rparr>"

lemma revoked_active:
  "filter token_active (gd_tokens (revoke_rows u now db)) = filter (\<lambda>t. token_active t \<and> gt_UUID t \<noteq> u) (gd_tokens db)"
proof -
  have "filter token_active (map (\<lambda>t. if gt_UUID t = u then t\<lparr>gt_Status := ''revoked'', gt_RevokedAt := Some now\<rparr> else t) ts)
      = filter (\<lambda>t. token_active t \<and> gt_UUID t \<noteq> u) ts" for ts
    by (induction ts) (auto simp: token_active_def)
  then show ?thesis by (simp add: revoke_rows_def)
qed

lemma active_of_eq: "active_of u db = filter (\<lambda>t. gt_GatewayUUID t = u) (filter token_active (gd_tokens db))"
  by (simp add: active_of_def conj_commute)

lemma tokens_ok_gateways:
  "tokens_ok db \<longleftrightarrow>
     distinct (map gy_UUID (gd_gateways db))
     \<and> distinct (map (\<lambda>g. (gy_OrganizationName g, gy_Name g)) (gd_gateways db))
     \<and> distinct (map gt_UUID (gd_tokens db))
     \<and> distinct (map gt_TokenPrefix (filter token_active (gd_tokens db)))
     \<and> set (map gt_GatewayUUID (gd_tokens db)) \<subseteq> gy_UUID ` set (gd_gateways db)
     \<and> (\<forall>u. length (active_of u db) \<le> 2)"
  unfolding tokens_ok_def by (simp add: image_subset_iff)

lemma revoke_ok:
  assumes "tokens_ok db"
  shows "tokens_ok (revoke_rows u now db)"
proof -
  let ?db = "revoke_rows u now db"
  have act: "filter token_active (gd_tokens ?db) = filter (\<lambda>t. gt_UUID t \<noteq> u) (filter token_active (gd_tokens db))"
    using revoked_active[of u now db] by (simp add: conj_commute)
  have "map gt_UUID (gd_tokens ?db) = map gt_UUID (gd_tokens db)"
    "set (map gt_GatewayUUID (gd_tokens ?db)) = set (map gt_GatewayUUID (gd_tokens db))"
    by (simp_all add: revoke_rows_def image_image if_distrib cong: if_cong image_cong)
  moreover have "distinct (map gt_TokenPrefix (filter token_active (gd_tokens ?db)))"
    unfolding act by (rule distinct_map_filter) (use assms in \<open>simp add: tokens_ok_def\<close>)
  moreover have "length (active_of v ?db) \<le> 2" for v
  proof -
    have "active_of v ?db = filter (\<lambda>t. gt_UUID t \<noteq> u) (active_of v db)"
      unfolding active_of_eq act by (simp add: conj_ac)
    moreover have "length (active_of v db) \<le> 2" using assms by (simp add: tokens_ok_def)
    ultimately show ?thesis by (metis le_trans length_filter_le)
  qed
  moreover have "gd_gateways ?db = gd_gateways db" by (simp add: revoke_rows_def)
  ultimately show ?thesis
    using assms unfolding tokens_ok_gateways by simp
qed

lemma revoke_backed:
  assumes "tokens_ok db" and "backed db pe" and "t \<in> set (gd_tokens db)" "gt_UUID t = u"
    and "fst pe \<noteq> gt_TokenPrefix t"
  shows "backed (revoke_rows u now db) pe"
proof -
  from assms(2) obtain s where s: "s \<in> set (gd_tokens db)" "token_active s" "gt_TokenPrefix s = fst pe"
    "gt_TokenHash s = te_TokenHash (snd pe)" "gt_Salt s = te_Salt (snd pe)" "gt_GatewayUUID s = te_GatewayUUID (snd pe)"
    unfolding backed_def token_row_def by blast
  have "gt_UUID s \<noteq> u"
  proof
    assume "gt_UUID s = u"
    moreover have "distinct (map gt_UUID (gd_tokens db))" using assms(1) by (simp add: tokens_ok_def)
    ultimately have "s = t" using s(1) assms(3,4) by (metis (no_types, lifting) distinct_map inj_on_def)
    then show False using s(3) assms(5) by simp
  qed
  then have "s \<in> set (filter token_active (gd_tokens (revoke_rows u now db)))"
    unfolding revoked_active using s by simp
  moreover have "gd_gateways (revoke_rows u now db) = gd_gateways db" by (simp add: revoke_rows_def)
  ultimately show ?thesis
    using assms(2) s unfolding backed_def token_row_def known_gateway_def by auto
qed

lemma delete_gateway_ok:
  assumes "tokens_ok db"
  shows "tokens_ok (delete_gateway u db)"
    "backed db pe \<Longrightarrow> te_GatewayUUID (snd pe) \<noteq> u \<Longrightarrow> backed (delete_gateway u db) pe"
proof -
  have "length (active_of v (delete_gateway u db)) \<le> 2" for v
  proof -
    have "active_of v (delete_gateway u db) = filter (\<lambda>t. gt_GatewayUUID t \<noteq> u) (active_of v db)"
      by (auto simp: active_of_def delete_gateway_def intro: filter_cong)
    moreover have "length (active_of v db) \<le> 2" using assms by (simp add: tokens_ok_def)
    ultimately show ?thesis by (metis le_trans length_filter_le)
  qed
  moreover have "distinct (map gt_TokenPrefix (filter token_active (filter (\<lambda>t. gt_GatewayUUID t \<noteq> u) (gd_tokens db))))"
    using assms distinct_map_filter[of gt_TokenPrefix "filter token_active (gd_tokens db)" "\<lambda>t. gt_GatewayUUID t \<noteq> u"]
    by (simp add: tokens_ok_def conj_commute)
  ultimately show "tokens_ok (delete_gateway u db)"
    using assms unfolding tokens_ok_def by (auto simp: delete_gateway_def distinct_map_filter simp del: filter_filter)
  show "backed db pe \<Longrightarrow> te_GatewayUUID (snd pe) \<noteq> u \<Longrightarrow> backed (delete_gateway u db) pe"
    unfolding backed_def token_row_def known_gateway_def same_gateway_def by (auto simp: delete_gateway_def)
qed

section \<open>The operations\<close>

definition keeps :: "gateway_db \<Rightarrow> gateway_db \<Rightarrow> bool" where
  "keeps db db' \<longleftrightarrow> (tokens_ok db \<longrightarrow> tokens_ok db' \<and> (\<forall>pe. backed db pe \<longrightarrow> backed db' pe))
     \<and> gd_tokens db' = gd_tokens db"

lemma keeps_refl [simp]: "keeps db db"
  by (simp add: keeps_def)

lemma keeps_trans: "keeps a b \<Longrightarrow> keeps b c \<Longrightarrow> keeps a c"
  by (simp add: keeps_def)

lemma keeps_gateway:
  assumes "insert_gateway g db = Inr db'"
  shows "keeps db db'"
proof -
  have "gd_tokens db' = gd_tokens db" using assms by (auto simp: insert_gateway_def split: if_splits)
  then show ?thesis using insert_gateway_ok[OF _ assms] unfolding keeps_def by blast
qed

lemma keeps_update:
  assumes "update_gateway u f db = Inr db'" and "\<And>g. same_gateway (f g) g"
  shows "keeps db db'"
proof -
  have "gd_tokens db' = gd_tokens db" using assms(1) by (auto simp: update_gateway_def split: if_splits)
  then show ?thesis using update_gateway_ok[OF _ assms] unfolding keeps_def by blast
qed

lemma keeps_mappings [simp]: "keeps db (db\<lparr>gd_mappings := ms\<rparr>)"
  by (simp add: keeps_def tokens_ok_def active_of_def backed_def token_row_def known_gateway_def)

lemma associations_ok [simp]:
  "tokens_ok (db\<lparr>gd_associations := as\<rparr>) = tokens_ok db" "backed (db\<lparr>gd_associations := as\<rparr>) pe = backed db pe"
  by (simp_all add: tokens_ok_def active_of_def backed_def token_row_def known_gateway_def)

lemma auth_inv_keeps: "auth_inv st \<Longrightarrow> keeps (ks_db st) db \<Longrightarrow> auth_inv (st\<lparr>ks_db := db\<rparr>)"
  unfolding auth_inv_def keeps_def by (simp del: split_paired_All)

lemma on_tables_inv:
  assumes "auth_inv st" and "\<And>db'. f (ks_db st) = Inr db' \<Longrightarrow> keeps (ks_db st) db'"
  shows "auth_inv (fst (on_tables f st))"
  using assms auth_inv_keeps by (auto simp: on_tables_def split: sum.split)

lemma registered_keeps:
  assumes "registered_gateway env org i db = Inr (g, db')"
  shows "keeps db db'"
proof -
  from assms have "\<exists>g. insert_gateway g db = Inr db'"
    unfolding registered_gateway_def new_gateway_def gateway_Create_def Let_def
    by (auto simp: outcome_simps split: option.splits sum.splits if_splits)
  then show ?thesis using keeps_gateway by blast
qed

lemma updated_keeps:
  assumes "updated_gateway env s org ch db = Inr (g, db')"
  shows "keeps db db'"
  using assms unfolding updated_gateway_def UpdateGateway_row_def Let_def
  by (auto simp: outcome_simps same_gateway_def intro: keeps_update)

lemma active_keeps:
  assumes "UpdateActiveStatus env n now s b db = Inr db'"
  shows "keeps db db'"
  using assms unfolding UpdateActiveStatus_def
  by (auto simp: outcome_simps same_gateway_def intro: keeps_update)

lemma create_mapping_keeps: "CreateEnvironmentMapping env n m db = Inr db' \<Longrightarrow> keeps db db'"
  by (auto simp: CreateEnvironmentMapping_def outcome_simps split: if_splits)

lemma delete_mapping_keeps: "DeleteEnvironmentMapping env n s t db = Inr db' \<Longrightarrow> keeps db db'"
  by (auto simp: DeleteEnvironmentMapping_def outcome_simps Let_def split: if_splits)

lemma delete_mappings_keeps: "keeps db (delete_mappings env n u ms db)"
  by (induction ms arbitrary: n db) (auto split: sum.split intro: keeps_trans delete_mapping_keeps)

lemma deleted_Inr:
  assumes "deleted_gateway env s org db = Inr (g, db')"
  shows "\<exists>as. db' = delete_gateway (gy_UUID g) (db\<lparr>gd_associations := as\<rparr>)"
    and "g \<in> set (gd_gateways db)" and "gy_OrganizationName g = org"
    and "ul_cast (de_uuid (ke_repo env)) s = Some (gy_UUID g)"
  using assms gateway_of_org_found[of "[]" env s org db g] unfolding deleted_gateway_def gateway_Delete_def
  by (auto simp: outcome_simps split: if_splits)

lemma GetTokenByUUID_Inr:
  "GetTokenByUUID env n s db = Inr t \<longleftrightarrow>
     de_fault env n = None \<and> (\<exists>u. ul_cast (de_uuid env) s = Some u \<and> find (\<lambda>t. gt_UUID t = u) (gd_tokens db) = Some t)"
  by (auto simp: GetTokenByUUID_def outcome_simps split: option.splits)

lemma missing_as_Inr [simp]: "missing_as a t r = Inr x \<longleftrightarrow> r = Inr x"
  by (cases r) (auto simp: missing_as_def)

lemma revoked_Inr:
  assumes "revoked_token env tokenID s org db = Inr (t, db')"
  shows "db' = revoke_rows (gt_UUID t) (ke_now env) db" and "t \<in> set (gd_tokens db)"
    and "ul_cast (de_uuid (ke_repo env)) tokenID = Some (gt_UUID t)" and "ke_show env (gt_GatewayUUID t) = s"
  using assms unfolding revoked_token_def GetTokenByUUID_Inr RevokeToken_def revoke_rows_def
  by (auto simp: outcome_simps GetTokenByUUID_Inr find_Some_iff split: if_splits)

text \<open>The cache.\<close>

lemma auth_inv_cache:
  assumes "auth_inv st" and "tokens_ok db" and "distinct (map fst es)"
    and "\<And>pe. pe \<in> set es \<Longrightarrow> backed db pe"
  shows "auth_inv \<lparr>ks_db = db, ks_cache = (ks_cache st)\<lparr>kc_tokens := es\<rparr>\<rparr>"
  using assms by (simp add: auth_inv_def)

lemma delete_keys [simp]: "distinct (map fst es) \<Longrightarrow> distinct (map fst (AList.delete k es))"
  by (rule distinct_delete)

lemma Delete_inv:
  assumes "auth_inv st"
  shows "auth_inv (fst (DeleteGateway env s org st))"
proof (cases "deleted_gateway env s org (ks_db st)")
  case (Inl e)
  then show ?thesis using assms by (simp add: DeleteGateway_def)
next
  case (Inr gdb)
  obtain g db where gdb: "gdb = (g, db)" by (cases gdb)
  obtain as where db: "db = delete_gateway (gy_UUID g) ((ks_db st)\<lparr>gd_associations := as\<rparr>)"
    using deleted_Inr(1) Inr gdb by blast
  let ?es = "filter (\<lambda>(_, entry). te_GatewayUUID entry \<noteq> gy_UUID g) (kc_tokens (ks_cache st))"
  have "auth_inv \<lparr>ks_db = db, ks_cache = (ks_cache st)\<lparr>kc_tokens := ?es\<rparr>\<rparr>"
    using assms delete_gateway_ok[where db = "(ks_db st)\<lparr>gd_associations := as\<rparr>" and u = "gy_UUID g"]
    by (intro auth_inv_cache) (auto simp: auth_inv_def db distinct_map_filter)
  then show ?thesis
    using Inr gdb by (simp add: DeleteGateway_def cache_InvalidateGateway_def)
qed

lemma Revoke_inv:
  assumes "auth_inv st"
  shows "auth_inv (fst (RevokeTokenByID env tokenID s org st))"
proof (cases "revoked_token env tokenID s org (ks_db st)")
  case (Inl e)
  then show ?thesis using assms by (simp add: RevokeTokenByID_def)
next
  case (Inr tdb)
  obtain t db where tdb: "tdb = (t, db)" by (cases tdb)
  note r = revoked_Inr[OF Inr[unfolded tdb]]
  have "auth_inv \<lparr>ks_db = db, ks_cache = (ks_cache st)
      \<lparr>kc_tokens := AList.delete (gt_TokenPrefix t) (kc_tokens (ks_cache st))\<rparr>\<rparr>"
    using assms revoke_ok[of "ks_db st"] revoke_backed[of "ks_db st" _ t] r(2)
    by (intro auth_inv_cache) (auto simp: auth_inv_def r(1) delete_entries)
  then show ?thesis
    using Inr tdb by (simp add: RevokeTokenByID_def cache_Invalidate_def)
qed

lemma lookup_token_Inr:
  assumes "lookup_token env plain p db = Inr (t, g)"
  shows "t \<in> set (gd_tokens db)" "token_active t" "gt_TokenPrefix t = p"
    "verifyToken plain (gt_TokenHash t) (gt_Salt t)" "g \<in> set (gd_gateways db)"
    "ul_cast (de_uuid (ke_repo env)) (ke_show env (gt_GatewayUUID t)) = Some (gy_UUID g)"
  using assms GetByUUID_found[of "ke_repo env" 2 "ke_show env (gt_GatewayUUID t)" db g]
  unfolding lookup_token_def GetActiveTokenByPrefix_def
  by (auto simp: outcome_simps find_Some_iff split: if_splits option.splits)

lemma remembered_backed:
  assumes "lookup_token env plain p db = Inr (t, g)" and "uuid_laws (de_uuid (ke_repo env))"
  shows "backed db (p, \<lparr>te_GatewayUUID = gt_GatewayUUID t, te_Gateway = g, te_TokenHash = gt_TokenHash t,
    te_Salt = gt_Salt t, te_CachedAt = now\<rparr>)" and "gy_UUID g = gt_GatewayUUID t"
proof -
  note l = lookup_token_Inr[OF assms(1)]
  show u: "gy_UUID g = gt_GatewayUUID t" using l(6) assms(2) by (simp add: ke_show_def)
  show "backed db (p, \<lparr>te_GatewayUUID = gt_GatewayUUID t, te_Gateway = g, te_TokenHash = gt_TokenHash t,
    te_Salt = gt_Salt t, te_CachedAt = now\<rparr>)"
    using l u unfolding backed_def token_row_def known_gateway_def same_gateway_def by auto
qed

lemma cached_inv:
  assumes "auth_inv st" and "cached_gateway now plain p (ks_cache st) = (r, c)"
  shows "auth_inv (st\<lparr>ks_cache := c\<rparr>)"
  using assms
  by (auto simp: cached_gateway_def cache_Invalidate_def auth_inv_def delete_entries
      split: option.splits if_splits)

lemma remember_inv:
  assumes "auth_inv st" and "lookup_token env plain p (ks_db st) = Inr (t, g)"
    and "uuid_laws (de_uuid (ke_repo env))"
  shows "auth_inv (st\<lparr>ks_cache := remember_token now p t g (ks_cache st)\<rparr>)"
  using assms remembered_backed(1)[OF assms(2,3)]
  by (auto simp: remember_token_def cache_Set_def auth_inv_def distinct_update dest: update_entries)

lemma Verify_inv:
  assumes "auth_inv st" and "uuid_laws (de_uuid (ke_repo env))"
  shows "auth_inv (fst (VerifyToken env plain st))"
proof -
  have "auth_inv (st\<lparr>ks_cache := remember_token now p t g c\<rparr>)"
    if "cached_gateway now' plain p (ks_cache st) = (None, c)" "lookup_token env plain p (ks_db st) = Inr (t, g)"
    for now now' p c t g
    using remember_inv[of "st\<lparr>ks_cache := c\<rparr>"] cached_inv[OF assms(1) that(1)] that(2) assms(2) by simp
  then show ?thesis
    using assms(1) cached_inv[OF assms(1)]
    by (auto simp: VerifyToken_def split: sum.split prod.split option.split)
qed

lemma new_token_Inr:
  assumes "new_token env s org db = Inr (plain, p, salt)"
  shows "\<exists>u. ul_cast (de_uuid (ke_repo env)) s = Some u \<and> length (active_of u db) < 2"
    and "generateToken env = Inr (plain, p)" and "ke_salt env = Some salt"
  using assms unfolding new_token_def CountActiveTokens_def active_of_def
  by (auto simp: outcome_simps generateSalt_def split: if_splits option.splits)

definition issued_token :: "token_env \<Rightarrow> string \<Rightarrow> string \<Rightarrow> string \<Rightarrow> uuid \<Rightarrow> GatewayToken" where
  "issued_token env plain p salt u =
     \<lparr>gt_UUID = ke_tokenID env, gt_GatewayUUID = u, gt_TokenPrefix = p, gt_TokenHash = hashToken plain salt,
      gt_Salt = hex_EncodeToString salt, gt_Status = ''active'', gt_CreatedAt = ke_later env,
      gt_RevokedAt = None\<rparr>"

lemma rotated:
  assumes "RotateToken env s org st = Some (st', r)"
  shows "st' = st \<or> (\<exists>plain p salt u db. new_token env s org (ks_db st) = Inr (plain, p, salt)
     \<and> ke_parse env s = Some u \<and> insert_token (issued_token env plain p salt u) (ks_db st) = Inr db
     \<and> st' = st\<lparr>ks_db := db\<rparr>)"
proof (cases "new_token env s org (ks_db st)")
  case (Inl e)
  then show ?thesis using assms by (simp add: RotateToken_def)
next
  case (Inr n)
  obtain plain p salt where n: "n = (plain, p, salt)" by (cases n)
  then obtain u where u: "ke_parse env s = Some u"
    using assms Inr by (cases "ke_parse env s") (simp_all add: RotateToken_def)
  show ?thesis
  proof (cases "wrap_error ''failed to create token: %w'' (CreateToken (ke_repo env) 3 (ke_later env)
      (issued_token env plain p salt u\<lparr>gt_CreatedAt := ke_now env\<rparr>) (ks_db st))")
    case (Inl e)
    then show ?thesis using assms Inr n u by (simp add: RotateToken_def issued_token_def)
  next
    case c: (Inr db)
    then have "insert_token (issued_token env plain p salt u) (ks_db st) = Inr db"
      by (simp add: CreateToken_def outcome_simps issued_token_def)
    moreover have "st' = st\<lparr>ks_db := db\<rparr>"
      using assms Inr n u c by (simp add: RotateToken_def issued_token_def)
    ultimately show ?thesis using Inr n u by blast
  qed
qed

lemma Rotate_inv:
  assumes "auth_inv st" and "uuid_laws (de_uuid (ke_repo env))"
    and "RotateToken env s org st = Some (st', r)"
  shows "auth_inv st'"
  using rotated[OF assms(3)]
proof (elim disjE exE conjE)
  assume "st' = st" then show ?thesis using assms(1) by simp
next
  fix plain p salt u db
  assume n: "new_token env s org (ks_db st) = Inr (plain, p, salt)" and u: "ke_parse env s = Some u"
    and ins: "insert_token (issued_token env plain p salt u) (ks_db st) = Inr db" and st': "st' = st\<lparr>ks_db := db\<rparr>"
  have "length (active_of u (ks_db st)) < 2"
    using new_token_Inr(1)[OF n] u uuid_laws_agree[OF assms(2)] unfolding ke_parse_def by metis
  then have "tokens_ok (ks_db st) \<Longrightarrow> tokens_ok db \<and> (\<forall>pe. backed (ks_db st) pe \<longrightarrow> backed db pe)"
    using insert_token_ok[OF _ ins] by (simp add: issued_token_def)
  then show ?thesis using assms(1) st' unfolding auth_inv_def by (simp del: split_paired_All)
qed

lemma Assign_inv: "auth_inv st \<Longrightarrow> auth_inv (fst (AssignGatewayToEnvironment env s t st))"
  unfolding AssignGatewayToEnvironment_def
  by (rule on_tables_inv) (auto simp: outcome_simps split: if_splits intro: create_mapping_keeps)

lemma Remove_inv: "auth_inv st \<Longrightarrow> auth_inv (fst (RemoveGatewayFromEnvironment env s t st))"
  unfolding RemoveGatewayFromEnvironment_def
  by (rule on_tables_inv) (auto simp: outcome_simps intro: delete_mapping_keeps)

lemma DeleteMappings_inv: "auth_inv st \<Longrightarrow> auth_inv (fst (DeleteGatewayEnvironmentMappings env s st))"
  unfolding DeleteGatewayEnvironmentMappings_def
  by (rule on_tables_inv) (auto simp: outcome_simps intro: delete_mappings_keeps)

lemma SetActive_inv: "auth_inv st \<Longrightarrow> auth_inv (fst (UpdateGatewayActiveStatus env s b st))"
  unfolding UpdateGatewayActiveStatus_def by (rule on_tables_inv) (auto intro: active_keeps)

lemma Register_inv: "auth_inv st \<Longrightarrow> auth_inv (fst (RegisterGateway env org i st))"
  by (auto simp: RegisterGateway_def split: sum.split intro!: auth_inv_keeps registered_keeps)

lemma Update_inv: "auth_inv st \<Longrightarrow> auth_inv (fst (UpdateGateway env s org ch st))"
  by (auto simp: UpdateGateway_def split: sum.split intro!: auth_inv_keeps updated_keeps)

lemma Invalidate_inv: "auth_inv st \<Longrightarrow> auth_inv (InvalidateGatewayTokensCache u st)"
  by (auto simp: InvalidateGatewayTokensCache_def cache_InvalidateGateway_def auth_inv_def distinct_map_filter)

end
