(* ===== verification/GatewayRuns.thy ===== *)
theory GatewayRuns
  imports GatewayAuth
begin

text \<open>
  Sequences of the operations of the gateway service. Each operation brings its own environment, so
  its faults, times, drawn UUIDs and random bytes are arbitrary. An operation is lawful when its UUID
  functions satisfy \<open>uuid_laws\<close>. A rotation that panics leaves the state as it is.
\<close>

datatype gateway_op =
    Op_Register token_env string gateway_input
  | Op_Update token_env string string gateway_change
  | Op_SetActive token_env string bool
  | Op_Delete token_env string string
  | Op_Rotate token_env string string
  | Op_Revoke token_env string string string
  | Op_Verify token_env string
  | Op_Assign token_env string string
  | Op_Remove token_env string string
  | Op_DeleteMappings token_env string
  | Op_Invalidate uuid

fun gateway_exec :: "gateway_op \<Rightarrow> gateway_state \<Rightarrow> gateway_state" where
  "gateway_exec (Op_Register env org i) st = fst (RegisterGateway env org i st)"
| "gateway_exec (Op_Update env gatewayID org ch) st = fst (UpdateGateway env gatewayID org ch st)"
| "gateway_exec (Op_SetActive env gatewayID b) st = fst (UpdateGatewayActiveStatus env gatewayID b st)"
| "gateway_exec (Op_Delete env gatewayID org) st = fst (DeleteGateway env gatewayID org st)"
| "gateway_exec (Op_Rotate env gatewayID org) st =
     (case RotateToken env gatewayID org st of None \<Rightarrow> st | Some (st', _) \<Rightarrow> st')"
| "gateway_exec (Op_Revoke env tokenID gatewayID org) st = fst (RevokeTokenByID env tokenID gatewayID org st)"
| "gateway_exec (Op_Verify env plain) st = fst (VerifyToken env plain st)"
| "gateway_exec (Op_Assign env gatewayID environmentID) st =
     fst (AssignGatewayToEnvironment env gatewayID environmentID st)"
| "gateway_exec (Op_Remove env gatewayID environmentID) st =
     fst (RemoveGatewayFromEnvironment env gatewayID environmentID st)"
| "gateway_exec (Op_DeleteMappings env gatewayID) st = fst (DeleteGatewayEnvironmentMappings env gatewayID st)"
| "gateway_exec (Op_Invalidate u) st = InvalidateGatewayTokensCache u st"

fun lawful_gateway_op :: "gateway_op \<Rightarrow> bool" where
  "lawful_gateway_op (Op_Rotate env _ _) = uuid_laws (de_uuid (ke_repo env))"
| "lawful_gateway_op (Op_Verify env _) = uuid_laws (de_uuid (ke_repo env))"
| "lawful_gateway_op _ = True"

definition no_gateways :: "int \<Rightarrow> deploy_db \<Rightarrow> gateway_state" where
  "no_gateways ttl deploy = \<lparr>ks_db = \<lparr>gd_gateways = [], gd_tokens = [], gd_mappings = [],
     gd_associations = [], gd_deploy = deploy\<rparr>, ks_cache = NewTokenCache ttl\<rparr>"

lemma no_gateways_inv: "auth_inv (no_gateways ttl deploy)"
  by (simp add: no_gateways_def NewTokenCache_def auth_inv_def tokens_ok_def active_of_def)

lemmas operation_inv = Register_inv Update_inv SetActive_inv Delete_inv Revoke_inv Verify_inv
  Assign_inv Remove_inv DeleteMappings_inv Invalidate_inv

interpretation auth_system: guarded_system gateway_exec lawful_gateway_op auth_inv
proof
  fix op st
  assume "lawful_gateway_op op" "auth_inv st"
  then show "auth_inv (gateway_exec op st)"
    by (cases op) (auto intro: operation_inv Rotate_inv split: option.split)
qed

section \<open>Prefixes without an active token\<close>

definition silent :: "string \<Rightarrow> gateway_db \<Rightarrow> bool" where
  "silent p db \<longleftrightarrow> (\<forall>t \<in> set (gd_tokens db). gt_TokenPrefix t = p \<longrightarrow> \<not> token_active t)"

text \<open>The operation does not issue a token with the prefix.\<close>

fun draws_other :: "string \<Rightarrow> gateway_op \<Rightarrow> bool" where
  "draws_other p (Op_Rotate env _ _) \<longleftrightarrow> ke_show env (ke_uuid env) \<noteq> p"
| "draws_other p _ \<longleftrightarrow> True"

lemma silent_keeps: "silent p db \<Longrightarrow> keeps db db' \<Longrightarrow> silent p db'"
  by (simp add: silent_def keeps_def)

lemma silent_on_tables:
  assumes "silent p (ks_db st)" and "\<And>db'. f (ks_db st) = Inr db' \<Longrightarrow> keeps (ks_db st) db'"
  shows "silent p (ks_db (fst (on_tables f st)))"
  using assms silent_keeps by (auto simp: on_tables_def split: sum.split)

lemma silent_revoke: "silent p db \<Longrightarrow> silent p (revoke_rows u now db)"
  by (auto simp: silent_def revoke_rows_def token_active_def)

lemma silent_delete: "silent p db \<Longrightarrow> silent p (delete_gateway u (db\<lparr>gd_associations := as\<rparr>))"
  by (auto simp: silent_def delete_gateway_def)

lemma silent_Revoke: "silent p (ks_db st) \<Longrightarrow> silent p (ks_db (fst (RevokeTokenByID env tokenID s org st)))"
  by (auto simp: RevokeTokenByID_def silent_revoke split: sum.split dest!: revoked_Inr(1))

lemma silent_Delete:
  assumes "silent p (ks_db st)" shows "silent p (ks_db (fst (DeleteGateway env s org st)))"
  using assms deleted_Inr(1)[of env s org "ks_db st"] silent_delete[of p "ks_db st"]
  by (fastforce simp: DeleteGateway_def split: sum.split)

lemma Verify_db [simp]: "ks_db (fst (VerifyToken env plain st)) = ks_db st"
  by (simp add: VerifyToken_def split: sum.split prod.split option.split)

lemma silent_Rotate:
  assumes "RotateToken env s org st = Some (st', r)" and "silent p (ks_db st)"
    and "ke_show env (ke_uuid env) \<noteq> p"
  shows "silent p (ks_db st')"
  using rotated[OF assms(1)]
proof (elim disjE exE conjE)
  assume "st' = st" then show ?thesis using assms(2) by simp
next
  fix plain q salt u db
  assume n: "new_token env s org (ks_db st) = Inr (plain, q, salt)"
    and ins: "insert_token (issued_token env plain q salt u) (ks_db st) = Inr db" and st': "st' = st\<lparr>ks_db := db\<rparr>"
  have "q = ke_show env (ke_uuid env)"
    using new_token_Inr(2)[OF n] by (auto simp: generateToken_def Let_def split: option.splits)
  moreover have "gd_tokens db = gd_tokens (ks_db st) @ [issued_token env plain q salt u]"
    using ins by (auto simp: insert_token_def split: if_splits)
  ultimately show ?thesis using assms(2,3) st' by (auto simp: silent_def issued_token_def)
qed

lemma silent_exec:
  assumes "draws_other p op" and "silent p (ks_db st)"
  shows "silent p (ks_db (gateway_exec op st))"
proof (cases op)
  case (Op_Register env org i)
  then show ?thesis using assms(2)
    by (auto simp: RegisterGateway_def split: sum.split intro: silent_keeps registered_keeps)
next
  case (Op_Update env s org ch)
  then show ?thesis using assms(2)
    by (auto simp: UpdateGateway_def split: sum.split intro: silent_keeps updated_keeps)
next
  case (Op_SetActive env s b)
  then show ?thesis using assms active_keeps
    by (auto simp: UpdateGatewayActiveStatus_def intro!: silent_on_tables)
next
  case (Op_Delete env s org)
  then show ?thesis using assms silent_Delete by simp
next
  case (Op_Rotate env s org)
  then show ?thesis using assms silent_Rotate by (auto split: option.split)
next
  case (Op_Revoke env tokenID s org)
  then show ?thesis using assms silent_Revoke by simp
next
  case (Op_Verify env plain)
  then show ?thesis using assms by simp
next
  case (Op_Assign env s t)
  then show ?thesis using assms create_mapping_keeps
    by (auto simp: AssignGatewayToEnvironment_def outcome_simps intro!: silent_on_tables split: if_splits)
next
  case (Op_Remove env s t)
  then show ?thesis using assms delete_mapping_keeps
    by (auto simp: RemoveGatewayFromEnvironment_def outcome_simps intro!: silent_on_tables)
next
  case (Op_DeleteMappings env s)
  then show ?thesis using assms delete_mappings_keeps
    by (auto simp: DeleteGatewayEnvironmentMappings_def outcome_simps intro!: silent_on_tables)
next
  case (Op_Invalidate u)
  then show ?thesis using assms by (simp add: InvalidateGatewayTokensCache_def)
qed

interpretation silent_system: guarded_system gateway_exec
  "\<lambda>op. lawful_gateway_op op \<and> draws_other p op" "\<lambda>st. auth_inv st \<and> silent p (ks_db st)" for p
  by unfold_locales (auto intro: auth_system.legal_inv silent_exec)

section \<open>Verified tokens\<close>

lemma cached_gateway_Some:
  assumes "cached_gateway now plain p c = (Some g, c')"
  obtains entry where "(p, entry) \<in> set (kc_tokens c)" "te_Gateway entry = g"
    "verifyToken plain (te_TokenHash entry) (te_Salt entry)" "now - te_CachedAt entry \<le> kc_ttl c"
  using assms by (auto simp: cached_gateway_def cache_Get_def dest: map_of_SomeD split: option.splits if_splits)

lemma verified_token:
  assumes "auth_inv st" and "uuid_laws (de_uuid (ke_repo env))"
    and "VerifyToken env plain st = (st', Inr g)"
  shows "\<exists>t \<in> set (gd_tokens (ks_db st)). token_active t \<and> token_prefix env plain = Inr (gt_TokenPrefix t)
     \<and> verifyToken plain (gt_TokenHash t) (gt_Salt t) \<and> gt_GatewayUUID t = gy_UUID g"
    and "known_gateway (ks_db st) g"
proof -
  let ?db = "ks_db st"
  have "\<exists>p. token_prefix env plain = Inr p \<and> known_gateway ?db g
      \<and> (\<exists>t \<in> set (gd_tokens ?db). token_active t \<and> gt_TokenPrefix t = p
          \<and> verifyToken plain (gt_TokenHash t) (gt_Salt t) \<and> gt_GatewayUUID t = gy_UUID g)"
  proof (cases "token_prefix env plain")
    case (Inl e)
    then show ?thesis using assms(3) by (simp add: VerifyToken_def)
  next
    case p: (Inr p)
    show ?thesis
    proof (cases "cached_gateway (ke_now env) plain p (ks_cache st)")
      case (Pair r c)
      show ?thesis
      proof (cases r)
        case (Some h)
        then obtain entry where e: "(p, entry) \<in> set (kc_tokens (ks_cache st))" "te_Gateway entry = h"
          "verifyToken plain (te_TokenHash entry) (te_Salt entry)"
          using Pair cached_gateway_Some by blast
        have "h = g" using assms(3) p Pair Some by (simp add: VerifyToken_def)
        moreover have "backed ?db (p, entry)" using assms(1) e(1) unfolding auth_inv_def by blast
        ultimately show ?thesis using p e(2,3) unfolding backed_def token_row_def by fastforce
      next
        case None
        then obtain t where l: "lookup_token env plain p ?db = Inr (t, g)"
          using assms(3) p Pair by (auto simp: VerifyToken_def split: sum.splits)
        note r = lookup_token_Inr[OF l]
        have "gt_GatewayUUID t = gy_UUID g" using remembered_backed(2)[OF l assms(2)] by simp
        moreover have "known_gateway ?db g"
          using r(5) unfolding known_gateway_def same_gateway_def by blast
        ultimately show ?thesis using p r by blast
      qed
    qed
  qed
  then show "known_gateway ?db g" "\<exists>t \<in> set (gd_tokens ?db). token_active t
     \<and> token_prefix env plain = Inr (gt_TokenPrefix t)
     \<and> verifyToken plain (gt_TokenHash t) (gt_Salt t) \<and> gt_GatewayUUID t = gy_UUID g"
    by auto
qed

lemma silent_refused:
  assumes "auth_inv st" and "silent p (ks_db st)" and "uuid_laws (de_uuid (ke_repo env))"
    and "token_prefix env plain = Inr p"
  shows "\<exists>e. snd (VerifyToken env plain st) = Inl e"
proof (cases "snd (VerifyToken env plain st)")
  case (Inr g)
  then have "VerifyToken env plain st = (fst (VerifyToken env plain st), Inr g)" by (metis prod.collapse)
  from verified_token(1)[OF assms(1,3) this] assms(2,4) show ?thesis by (auto simp: silent_def)
qed simp

end
