(* ===== verification/AuthProperties.thy ===== *)
theory AuthProperties
  imports GatewayRuns
begin

text \<open>
  What gateway tokens promise: the invariant over all sequences of operations, that a verified token is
  active, that an issued token verifies, that a revoked one no longer does, where that fails under
  interleaving, and the listing and registering of gateways; each with a concrete instance.
\<close>

section \<open>A service to look at\<close>

text \<open>UUIDs whose printed form has four dashes, as those of \<open>uuid.UUID.String\<close> do.\<close>

definition dash_law :: "uuid_lib \<Rightarrow> bool" where
  "dash_law ul \<longleftrightarrow> (\<forall>u. count_list (ul_show ul u) (CHR ''-'') = 4)"

definition dashed_uuids :: uuid_lib where
  "dashed_uuids = \<lparr>ul_parse = (\<lambda>s. Some (of_nat (length s - 4))),
     ul_show = (\<lambda>u. ''----'' @ replicate (unat u) (CHR ''x'')),
     ul_cast = (\<lambda>s. Some (of_nat (length s - 4)))\<rparr>"

lemma dashed_laws: "uuid_laws dashed_uuids"
  by (simp add: uuid_laws_def dashed_uuids_def)

lemma count_list_replicate: "c \<noteq> d \<Longrightarrow> count_list (replicate n d) c = 0"
  by (induction n) auto

lemma dashed_dashes: "dash_law dashed_uuids"
  by (simp add: dash_law_def dashed_uuids_def count_list_replicate)

definition sample_tokens :: "uuid \<Rightarrow> token_env" where
  "sample_tokens i = \<lparr>ke_repo = \<lparr>de_uuid = dashed_uuids, de_fault = (\<lambda>_. None)\<rparr>, ke_now = uint i,
     ke_later = uint i, ke_uuid = i, ke_tokenID = i, ke_random = Some ''r'', ke_salt = Some ''s''\<rparr>"

definition sample_gateway :: Gateway where
  "sample_gateway = \<lparr>gy_UUID = 7, gy_OrganizationName = ''o'', gy_Name = ''gw1'', gy_DisplayName = ''G'',
     gy_Description = [], gy_Properties = [], gy_Vhost = ''h'', gy_IsCritical = False,
     gy_FunctionalityType = ''ai'', gy_IsActive = False, gy_CreatedAt = 0, gy_UpdatedAt = 0\<rparr>"

definition one_gateway :: gateway_state where
  "one_gateway = \<lparr>ks_db = \<lparr>gd_gateways = [sample_gateway], gd_tokens = [], gd_mappings = [],
     gd_associations = [], gd_deploy = \<lparr>db_deployments = [], db_status = [], db_artifacts = [],
     db_gateways = [7]\<rparr>\<rparr>, ks_cache = NewTokenCache 300\<rparr>"

lemma one_gateway_inv: "auth_inv one_gateway"
  by (simp add: one_gateway_def NewTokenCache_def auth_inv_def tokens_ok_def active_of_def)

lemma sample_env_fields [simp]:
  "de_uuid (ke_repo (sample_tokens i)) = dashed_uuids" "de_fault (ke_repo (sample_tokens i)) n = None"
  "ke_uuid (sample_tokens i) = i" "ke_tokenID (sample_tokens i) = i" "ke_random (sample_tokens i) = Some ''r''"
  "ke_salt (sample_tokens i) = Some ''s''" "ke_now (sample_tokens i) = uint i" "ke_later (sample_tokens i) = uint i"
  by (simp_all add: sample_tokens_def)

abbreviation id7 :: string where "id7 \<equiv> ''----xxxxxxx''"
abbreviation id3 :: string where "id3 \<equiv> ''----xxx''"

definition token3 :: string where "token3 = id3 @ ''-'' @ base64_RawURLEncode ''r''"

lemma dashed_eval [simp]:
  "ul_cast dashed_uuids s = Some (of_nat (length s - 4))" "ul_parse dashed_uuids s = Some (of_nat (length s - 4))"
  by (simp_all add: dashed_uuids_def)

lemma ids_shown: "ul_show dashed_uuids 7 = id7" "ul_show dashed_uuids 3 = id3"
proof -
  have "replicate 7 c = [c, c, c, c, c, c, c]" "replicate 3 c = [c, c, c]" for c :: char
    by (simp_all add: numeral_eq_Suc)
  then show "ul_show dashed_uuids 7 = id7" "ul_show dashed_uuids 3 = id3" by (simp_all add: dashed_uuids_def)
qed

definition row3 :: GatewayToken where
  "row3 = issued_token (sample_tokens 3) token3 id3 ''s'' 7"

definition with_token :: gateway_state where
  "with_token = one_gateway\<lparr>ks_db := (ks_db one_gateway)\<lparr>gd_tokens := [row3]\<rparr>\<rparr>"

lemma sample_rotation:
  "RotateToken (sample_tokens 3) id7 ''o'' one_gateway
     = Some (with_token, Inr \<lparr>tr_ID = id3, tr_Token = token3, tr_CreatedAt = 3\<rparr>)"
proof -
  have "new_token (sample_tokens 3) id7 ''o'' (ks_db one_gateway) = Inr (token3, id3, ''s'')"
    unfolding new_token_def gateway_of_org_def GetByUUID_def CountActiveTokens_def generateToken_def
      generateSalt_def ke_show_def statement_def cast_uuid_def Let_def
    by (simp add: one_gateway_def token3_def ids_shown) (simp add: sample_gateway_def)
  then show ?thesis
    by (simp add: RotateToken_def ke_parse_def ke_show_def CreateToken_def statement_def insert_token_def
        ids_shown with_token_def row3_def issued_token_def one_gateway_def token_active_def
        sample_gateway_def)
qed

lemma with_token_inv: "auth_inv with_token"
  using Rotate_inv[OF one_gateway_inv _ sample_rotation] by (simp add: dashed_laws)

section \<open>The tables and the cache over time\<close>

text \<open>C14. Whatever the sequence of operations of the gateway service, with whatever failing statements, random
  bytes and drawn UUIDs, no two gateways of an organization share a name, active tokens have distinct
  prefixes, a gateway has at most two of them, and every cached token is an active token in the table.\<close>

theorem tokens_stay_consistent:
  assumes "list_all lawful_gateway_op ops"
  shows "let st = fold gateway_exec ops (no_gateways ttl deploy); db = ks_db st in
    distinct (map (\<lambda>g. (gy_OrganizationName g, gy_Name g)) (gd_gateways db))
    \<and> distinct (map gt_TokenPrefix (filter token_active (gd_tokens db)))
    \<and> (\<forall>u. length (filter (\<lambda>t. gt_GatewayUUID t = u \<and> token_active t) (gd_tokens db)) \<le> 2)
    \<and> (\<forall>(p, entry) \<in> set (kc_tokens (ks_cache st)).
         \<exists>t \<in> set (gd_tokens db). token_active t \<and> gt_TokenPrefix t = p \<and> gt_TokenHash t = te_TokenHash entry
           \<and> gt_GatewayUUID t = gy_UUID (te_Gateway entry))"
proof -
  have "auth_inv (fold gateway_exec ops (no_gateways ttl deploy))"
    using auth_system.legal_run[OF assms no_gateways_inv] .
  then show ?thesis
    unfolding auth_inv_def tokens_ok_def active_of_def backed_def token_row_def Let_def by fastforce
qed

theorem tokens_stay_consistent_witness:
  "length (filter (\<lambda>t. gt_GatewayUUID t = 7 \<and> token_active t) (gd_tokens (ks_db
     (fold gateway_exec [Op_Rotate (sample_tokens 3) id7 ''o'', Op_Verify (sample_tokens 4) token3]
       (no_gateways 300 (gd_deploy (ks_db one_gateway))))))) \<le> 2"
  using tokens_stay_consistent[of "[Op_Rotate (sample_tokens 3) id7 ''o'', Op_Verify (sample_tokens 4) token3]"
      300 "gd_deploy (ks_db one_gateway)"]
  unfolding Let_def by (simp add: dashed_laws del: fold_simps gateway_exec.simps)

section \<open>Verifying tokens\<close>

text \<open>C15. A token verifies only if the table holds an active token with its prefix and the SHA-256 hash of the
  token with the row's salt, also when the answer comes from the cache; the answer is the gateway that
  the token was issued to, of the organization and with the name that it has in the table.\<close>

theorem verified_token_is_active:
  assumes "auth_inv st" and "uuid_laws (de_uuid (ke_repo env))"
    and "VerifyToken env plain st = (st', Inr g)"
  shows "\<exists>t \<in> set (gd_tokens (ks_db st)). \<exists>h \<in> set (gd_gateways (ks_db st)).
     token_active t \<and> token_prefix env plain = Inr (gt_TokenPrefix t)
     \<and> (\<exists>salt. hex_DecodeString (gt_Salt t) = Some salt
          \<and> hex_DecodeString (gt_TokenHash t) = Some (sha256_Sum (plain @ salt)))
     \<and> gt_GatewayUUID t = gy_UUID h \<and> gy_UUID g = gy_UUID h
     \<and> gy_OrganizationName g = gy_OrganizationName h \<and> gy_Name g = gy_Name h"
proof -
  obtain h where "h \<in> set (gd_gateways (ks_db st))" "same_gateway h g"
    using verified_token(2)[OF assms] unfolding known_gateway_def by blast
  moreover have "\<exists>salt. hex_DecodeString s = Some salt \<and> hex_DecodeString hash = Some (sha256_Sum (plain @ salt))"
    if "verifyToken plain hash s" for hash s
    using that by (auto simp: verifyToken_def split: option.splits)
  ultimately show ?thesis
    using verified_token(1)[OF assms] unfolding same_gateway_def by metis
qed

lemma find_SomeD: "find P xs = Some x \<Longrightarrow> x \<in> set xs" "find P xs = Some x \<Longrightarrow> P x"
  by (auto simp: find_Some_iff)

lemma find_snoc: "\<forall>y \<in> set xs. \<not> P y \<Longrightarrow> P x \<Longrightarrow> find P (xs @ [x]) = Some x"
  by (induction xs) auto

text \<open>A token that an operation has just issued.\<close>

lemma issued_verifies: "verifyToken plain (hashToken plain salt) (hex_EncodeToString salt)"
  by (simp add: verifyToken_def hashToken_def hex_round_trip)

lemma generated_prefix:
  assumes "generateToken env = Inr (plain, p)" and "uuid_laws (de_uuid (ke_repo env))"
    and "dash_law (de_uuid (ke_repo env))" and "de_uuid (ke_repo env') = de_uuid (ke_repo env)"
  shows "token_prefix env' plain = Inr p" and "p = ke_show env (ke_uuid env)"
proof -
  from assms(1) obtain r where p: "p = ke_show env (ke_uuid env)"
    and plain: "plain = p @ CHR ''-'' # base64_RawURLEncode r"
    by (auto simp: generateToken_def Let_def split: option.splits)
  show "p = ke_show env (ke_uuid env)" by (rule p)
  have "count_list p (CHR ''-'') = 4" using assms(3) p by (simp add: dash_law_def ke_show_def)
  from split_n_prefix[OF this] obtain ps where ps: "split_n 6 (CHR ''-'') plain = ps @ [base64_RawURLEncode r]"
    "length ps = 5" "join_with ''-'' ps = p"
    by (fastforce simp: plain)
  moreover have "ke_parse env' p \<noteq> None" using assms(2,4) p by (simp add: ke_parse_def ke_show_def)
  ultimately show "token_prefix env' plain = Inr p"
    by (simp add: token_prefix_def Let_def plain)
qed

lemma rotated_Inr:
  assumes "RotateToken env s org st = Some (st', Inr r)"
  shows "\<exists>p salt u db. new_token env s org (ks_db st) = Inr (tr_Token r, p, salt) \<and> ke_parse env s = Some u
     \<and> insert_token (issued_token env (tr_Token r) p salt u) (ks_db st) = Inr db \<and> st' = st\<lparr>ks_db := db\<rparr>"
  using assms unfolding RotateToken_def CreateToken_def
  by (auto simp: outcome_simps issued_token_def split: sum.splits option.splits)

lemma rotated_verifies:
  assumes "auth_inv st" and "uuid_laws (de_uuid (ke_repo env))" and "dash_law (de_uuid (ke_repo env))"
    and "RotateToken env s org st = Some (st', Inr r)"
    and "de_uuid (ke_repo env') = de_uuid (ke_repo env)" and "\<And>n. de_fault (ke_repo env') n = None"
  shows "\<exists>st'' g. VerifyToken env' (tr_Token r) st' = (st'', Inr g) \<and> ke_parse env s = Some (gy_UUID g)
     \<and> gy_OrganizationName g = org"
proof -
  obtain p salt u db where n: "new_token env s org (ks_db st) = Inr (tr_Token r, p, salt)"
    and u: "ke_parse env s = Some u" and ins: "insert_token (issued_token env (tr_Token r) p salt u) (ks_db st) = Inr db"
    and st': "st' = st\<lparr>ks_db := db\<rparr>"
    using rotated_Inr[OF assms(4)] by blast
  let ?t = "issued_token env (tr_Token r) p salt u"
  have p: "token_prefix env' (tr_Token r) = Inr p"
    using generated_prefix(1)[OF new_token_Inr(2)[OF n] assms(2,3,5)] .
  have t: "gd_tokens db = gd_tokens (ks_db st) @ [?t]" "gd_gateways db = gd_gateways (ks_db st)"
    and fresh: "silent p (ks_db st)" and u_in: "u \<in> gy_UUID ` set (gd_gateways db)"
    using ins by (auto simp: insert_token_def silent_def list_ex_iff token_active_def issued_token_def split: if_splits)
  obtain g0 where g0: "g0 \<in> set (gd_gateways (ks_db st))" "gy_UUID g0 = u" "gy_OrganizationName g0 = org"
    using new_token_Inr(2)[OF n] n gateway_of_org_found[of _ env s org "ks_db st"] u uuid_laws_agree[OF assms(2)]
    unfolding new_token_def outcome_simps ke_parse_def by blast
  have uniq: "g = g0" if "g \<in> set (gd_gateways db)" "gy_UUID g = u" for g
    using that g0 assms(1) unfolding auth_inv_def tokens_ok_def t(2) by (metis (no_types, lifting) distinct_map inj_onD)
  have "map_of (kc_tokens (ks_cache st)) p = None"
    using assms(1) fresh unfolding auth_inv_def backed_def token_row_def silent_def
    by (fastforce simp: map_of_eq_None_iff)
  then have cache: "cached_gateway (ke_now env') (tr_Token r) p (ks_cache st) = (None, ks_cache st)"
    by (simp add: cached_gateway_def cache_Get_def)
  have "find (\<lambda>t. gt_TokenPrefix t = p \<and> token_active t) (gd_tokens db) = Some ?t"
    using fresh unfolding t(1)
    by (intro find_snoc) (auto simp: silent_def issued_token_def token_active_def)
  moreover obtain h where h: "find (\<lambda>g. gy_UUID g = u) (gd_gateways db) = Some h"
    using u_in by (cases "find (\<lambda>g. gy_UUID g = u) (gd_gateways db)") (auto simp: find_None_iff)
  then have "h = g0" using uniq[of h] find_SomeD[OF h] by simp
  moreover have "cast_uuid (ke_repo env') (ul_show (de_uuid (ke_repo env)) u) = Inr u"
    using shown_uuid(2)[OF assms(2)] assms(5) by (simp add: cast_uuid_def)
  ultimately have "lookup_token env' (tr_Token r) p db = Inr (?t, g0)"
    using h assms(2,5,6) issued_verifies
    by (simp add: lookup_token_def GetActiveTokenByPrefix_def GetByUUID_def statement_def issued_token_def ke_show_def)
  then show ?thesis
    using p cache g0 u st' by (auto simp: VerifyToken_def)
qed

text \<open>C16. The token that a rotation hands out verifies at once, and on whatever later moment the cache is
  asked, as the gateway it was issued to, unless the database fails.\<close>

theorem rotated_token_verifies:
  assumes "auth_inv st" and "uuid_laws (de_uuid (ke_repo env))" and "dash_law (de_uuid (ke_repo env))"
    and "RotateToken env s org st = Some (st', Inr r)"
    and "de_uuid (ke_repo env') = de_uuid (ke_repo env)" and "\<And>n. de_fault (ke_repo env') n = None"
  shows "\<exists>st'' g. VerifyToken env' (tr_Token r) st' = (st'', Inr g) \<and> ke_parse env s = Some (gy_UUID g)
     \<and> gy_OrganizationName g = org"
  using rotated_verifies[OF assms] .

theorem rotated_token_verifies_witness:
  "\<exists>st g. VerifyToken (sample_tokens 4) token3 with_token = (st, Inr g) \<and> gy_UUID g = 7"
  using rotated_token_verifies[OF one_gateway_inv _ _ sample_rotation, of "sample_tokens 4"]
  by (auto simp: dashed_laws dashed_dashes ke_parse_def)

lemma sample_verifies: "\<exists>st g. VerifyToken (sample_tokens 4) token3 with_token = (st, Inr g) \<and> gy_UUID g = 7"
  using rotated_verifies[OF one_gateway_inv _ _ sample_rotation, of "sample_tokens 4"]
  by (auto simp: dashed_laws dashed_dashes ke_parse_def)

theorem verified_token_is_active_witness:
  "\<exists>t \<in> set (gd_tokens (ks_db with_token)). token_active t \<and> gt_GatewayUUID t = 7"
proof -
  have "\<exists>st g. VerifyToken (sample_tokens 4) token3 with_token = (st, Inr g)"
    using sample_verifies by blast
  then obtain st g where "VerifyToken (sample_tokens 4) token3 with_token = (st, Inr g)" by blast
  from verified_token_is_active[OF with_token_inv _ this] show ?thesis
    by (auto simp: dashed_laws with_token_def one_gateway_def sample_gateway_def)
qed

section \<open>Revoking tokens\<close>

lemma active_unique:
  assumes "tokens_ok db" and "s \<in> set (gd_tokens db)" "token_active s" "t \<in> set (gd_tokens db)" "token_active t"
    and "gt_TokenPrefix s = gt_TokenPrefix t"
  shows "s = t"
  using assms unfolding tokens_ok_def distinct_map inj_on_def by simp

lemma revoke_silences:
  assumes "tokens_ok db" and "t \<in> set (gd_tokens db)" and "token_active t"
  shows "silent (gt_TokenPrefix t) (revoke_rows (gt_UUID t) now db)"
  using active_unique[OF assms(1) _ _ assms(2,3)]
  by (auto simp: silent_def revoke_rows_def token_active_def)

lemma delete_silences:
  assumes "tokens_ok db" and "t \<in> set (gd_tokens db)" and "token_active t"
  shows "silent (gt_TokenPrefix t) (delete_gateway (gt_GatewayUUID t) (db\<lparr>gd_associations := as\<rparr>))"
  using active_unique[OF assms(1) _ _ assms(2,3)] by (auto simp: silent_def delete_gateway_def)

text \<open>C17. Once an active token has been revoked, or its gateway deleted, no token with its prefix verifies and
  no connection with one is accepted, whatever other operations follow that do not issue a token with
  that very prefix again.\<close>

theorem revoked_token_stays_refused:
  assumes "auth_inv st" and "t \<in> set (gd_tokens (ks_db st))" and "token_active t"
    and "uuid_laws (de_uuid (ke_repo env))"
    and "RevokeTokenByID env tokenID s org st = (st', Inr ()) \<and> ul_cast (de_uuid (ke_repo env)) tokenID = Some (gt_UUID t)
      \<or> DeleteGateway env s org st = (st', Inr ()) \<and> ul_cast (de_uuid (ke_repo env)) s = Some (gt_GatewayUUID t)"
    and "list_all (\<lambda>op. lawful_gateway_op op \<and> draws_other (gt_TokenPrefix t) op) ops"
    and "uuid_laws (de_uuid (ke_repo env'))" and "token_prefix env' plain = Inr (gt_TokenPrefix t)"
  shows "(\<exists>e. snd (VerifyToken env' plain (fold gateway_exec ops st')) = Inl e)
    \<and> snd (Connect_with_token env' plain upgraded connectionID now timestamp answer updated
        (fold gateway_exec ops st', ws)) = Refused 401 ''Invalid or expired API key''"
proof -
  have ok: "tokens_ok (ks_db st)" using assms(1) by (simp add: auth_inv_def)
  from assms(5) have "auth_inv st' \<and> silent (gt_TokenPrefix t) (ks_db st')"
  proof (elim disjE conjE)
    assume r: "RevokeTokenByID env tokenID s org st = (st', Inr ())"
      and i: "ul_cast (de_uuid (ke_repo env)) tokenID = Some (gt_UUID t)"
    then obtain a db where a: "revoked_token env tokenID s org (ks_db st) = Inr (a, db)" and st': "ks_db st' = db"
      by (auto simp: RevokeTokenByID_def split: sum.splits)
    have "db = revoke_rows (gt_UUID t) (ke_now env) (ks_db st)" using revoked_Inr(1,3)[OF a] i by simp
    then have "silent (gt_TokenPrefix t) (ks_db st')"
      using revoke_silences[OF ok assms(2,3)] st' by simp
    then show ?thesis using Revoke_inv[OF assms(1), of env tokenID s org] r by simp
  next
    assume d: "DeleteGateway env s org st = (st', Inr ())"
      and i: "ul_cast (de_uuid (ke_repo env)) s = Some (gt_GatewayUUID t)"
    then obtain g db where g: "deleted_gateway env s org (ks_db st) = Inr (g, db)" and st': "ks_db st' = db"
      by (auto simp: DeleteGateway_def split: sum.splits)
    then have "gy_UUID g = gt_GatewayUUID t" using i deleted_Inr(4) by fastforce
    then have "silent (gt_TokenPrefix t) (ks_db st')"
      using delete_silences[OF ok assms(2,3)] deleted_Inr(1)[OF g] st' by auto
    then show ?thesis using Delete_inv[OF assms(1), of env s org] d by simp
  qed
  from silent_system.legal_run[OF assms(6) this]
  have "\<exists>e. snd (VerifyToken env' plain (fold gateway_exec ops st')) = Inl e"
    using silent_refused[OF _ _ assms(7,8)] by blast
  moreover from this have "snd (Connect_with_token env' plain upgraded connectionID now timestamp answer updated
      (fold gateway_exec ops st', ws)) = Refused 401 ''Invalid or expired API key''"
    using assms(8)
    by (auto simp: Connect_with_token_def Connect_open_def token_prefix_def split: prod.splits if_splits)
  ultimately show ?thesis ..
qed

definition revoked_state :: gateway_state where
  "revoked_state = with_token\<lparr>ks_db := revoke_rows 3 5 (ks_db with_token)\<rparr>"

lemma row3_fields [simp]:
  "gt_UUID row3 = 3" "gt_GatewayUUID row3 = 7" "gt_TokenPrefix row3 = id3" "token_active row3"
  by (simp_all add: row3_def issued_token_def token_active_def)

lemma with_token_db:
  "gd_tokens (ks_db with_token) = [row3]" "gd_gateways (ks_db with_token) = [sample_gateway]"
  "ks_cache with_token = NewTokenCache 300"
  by (simp_all add: with_token_def one_gateway_def)

lemma sample_revokes: "RevokeTokenByID (sample_tokens 5) id3 id7 ''o'' with_token = (revoked_state, Inr ())"
proof -
  have "gateway_of_org ''failed to query gateway: %w'' (sample_tokens 5) id7 ''o'' (ks_db with_token) = Inr sample_gateway"
    by (simp add: gateway_of_org_def GetByUUID_def statement_def cast_uuid_def with_token_db)
      (simp add: sample_gateway_def)
  moreover have "GetTokenByUUID (ke_repo (sample_tokens 5)) 2 id3 (ks_db with_token) = Inr row3"
    by (simp add: GetTokenByUUID_def statement_def cast_uuid_def with_token_db)
  moreover have "RevokeToken (ke_repo (sample_tokens 5)) 3 5 id3 (ks_db with_token) = Inr (revoke_rows 3 5 (ks_db with_token))"
    by (simp add: RevokeToken_def statement_def cast_uuid_def with_token_db revoke_rows_def)
  ultimately have "revoked_token (sample_tokens 5) id3 id7 ''o'' (ks_db with_token) = Inr (row3, revoke_rows 3 5 (ks_db with_token))"
    by (simp add: revoked_token_def missing_as_def ke_show_def ids_shown)
  then show ?thesis
    by (simp add: RevokeTokenByID_def revoked_state_def cache_Invalidate_def with_token_db NewTokenCache_def with_token_def one_gateway_def)
qed

lemma token3_prefix: "token_prefix (sample_tokens i) token3 = Inr id3"
  by (rule generated_prefix(1)[of "sample_tokens 3"])
    (simp_all add: generateToken_def token3_def ke_show_def ids_shown dashed_laws dashed_dashes)

theorem revoked_token_stays_refused_witness:
  "\<exists>e. snd (VerifyToken (sample_tokens 6) token3 (fold gateway_exec [Op_Verify (sample_tokens 6) token3] revoked_state)) = Inl e"
  using revoked_token_stays_refused[OF with_token_inv, of row3 "sample_tokens 5" id3 id7 "''o''" revoked_state
      "[Op_Verify (sample_tokens 6) token3]" "sample_tokens 6" token3]
  by (simp add: with_token_db sample_revokes token3_prefix dashed_laws del: gateway_exec.simps fold_simps)

section \<open>Verification and revocation under interleaving\<close>

text \<open>C18. When a token is revoked between the moment another request has read it from the table and the moment
  that request stores it in the cache, the cached entry outlives the revocation: although no active
  token is left, the token keeps verifying for as long as the entry is younger than the cache's time
  to live.\<close>

theorem revocation_lost_to_a_race:
  assumes "token_prefix env plain = Inr p" and "lookup_token env plain p (ks_db st) = Inr (t, g)"
    and "auth_inv st" and "RevokeTokenByID env1 tokenID s org st = (st1, Inr ())"
    and "ul_cast (de_uuid (ke_repo env1)) tokenID = Some (gt_UUID t)"
    and "st2 = st1\<lparr>ks_cache := remember_token (ke_later env) p t g (ks_cache st1)\<rparr>"
    and "token_prefix env2 plain = Inr p" and "ke_now env2 - ke_later env \<le> kc_ttl (ks_cache st1)"
  shows "silent p (ks_db st2) \<and> VerifyToken env2 plain st2 = (st2, Inr g)"
proof
  note l = lookup_token_Inr[OF assms(2)]
  obtain a db where a: "revoked_token env1 tokenID s org (ks_db st) = Inr (a, db)" and st1: "ks_db st1 = db"
    using assms(4) by (auto simp: RevokeTokenByID_def split: sum.splits)
  have "db = revoke_rows (gt_UUID t) (ke_now env1) (ks_db st)"
    using revoked_Inr(1,3)[OF a] assms(5) by simp
  then show "silent p (ks_db st2)"
    using revoke_silences[of "ks_db st" t] l(1-3) assms(3,6) st1 by (simp add: auth_inv_def)
  have "cache_Get (ke_now env2) p (ks_cache st2) = Some \<lparr>te_GatewayUUID = gt_GatewayUUID t, te_Gateway = g,
      te_TokenHash = gt_TokenHash t, te_Salt = gt_Salt t, te_CachedAt = ke_later env\<rparr>"
    using assms(6,8) by (simp add: cache_Get_def remember_token_def cache_Set_def update_conv)
  then show "VerifyToken env2 plain st2 = (st2, Inr g)"
    using assms(7) l(4) by (simp add: VerifyToken_def cached_gateway_def)
qed

lemma sample_lookup: "lookup_token (sample_tokens 4) token3 id3 (ks_db with_token) = Inr (row3, sample_gateway)"
proof -
  have "verifyToken token3 (gt_TokenHash row3) (gt_Salt row3)"
    using issued_verifies by (simp add: row3_def issued_token_def del: hex_EncodeToString.simps)
  moreover have "gy_UUID sample_gateway = 7" by (simp add: sample_gateway_def)
  ultimately show ?thesis
    by (simp add: lookup_token_def GetActiveTokenByPrefix_def GetByUUID_def statement_def with_token_db
        ke_show_def ids_shown cast_uuid_def)
qed

theorem revocation_lost_to_a_race_witness:
  "snd (VerifyToken (sample_tokens 6) token3
     (revoked_state\<lparr>ks_cache := remember_token 4 id3 row3 sample_gateway (ks_cache revoked_state)\<rparr>)) = Inr sample_gateway"
  using revocation_lost_to_a_race[OF token3_prefix sample_lookup with_token_inv sample_revokes _ _ token3_prefix, of _ 6]
  by (simp add: revoked_state_def with_token_db NewTokenCache_def)

section \<open>Registering and listing gateways\<close>

definition registered_row :: "token_env \<Rightarrow> string \<Rightarrow> gateway_input \<Rightarrow> Gateway" where
  "registered_row env org i = \<lparr>gy_UUID = ke_uuid env, gy_OrganizationName = org, gy_Name = in_Name i,
     gy_DisplayName = in_DisplayName i, gy_Description = in_Description i,
     gy_Properties = (case in_Properties i of Some p \<Rightarrow> p | None \<Rightarrow> []), gy_Vhost = in_Vhost i,
     gy_IsCritical = in_IsCritical i, gy_FunctionalityType = to_lower (in_FunctionalityType i),
     gy_IsActive = False, gy_CreatedAt = ke_later env, gy_UpdatedAt = ke_later env\<rparr>"

text \<open>A registration that passes the validation, under a name that is free in the organization and with a
  working database, appends exactly one inactive gateway when its functionality type in lower case is
  regular or ai; otherwise, although it passed the validation (as event, or with blanks around), the table
  refuses it and nothing changes.\<close>

theorem registration_outcome:
  assumes "validateGatewayInput org (in_Name i) (in_DisplayName i) (in_Vhost i) (in_FunctionalityType i) = None"
    and "uuid_laws (de_uuid (ke_repo env))" and "\<And>n. de_fault (ke_repo env) n = None"
    and "\<not> list_ex (\<lambda>g. gy_OrganizationName g = org \<and> gy_Name g = in_Name i) (gd_gateways (ks_db st))"
    and "ke_uuid env \<notin> gy_UUID ` set (gd_gateways (ks_db st))"
  shows "case RegisterGateway env org i st of (st', r) \<Rightarrow>
    if to_lower (in_FunctionalityType i) \<in> {''regular'', ''ai''}
    then gd_gateways (ks_db st') = gd_gateways (ks_db st) @ [registered_row env org i]
      \<and> gd_tokens (ks_db st') = gd_tokens (ks_db st) \<and> ks_cache st' = ks_cache st
      \<and> r = Inr (gateway_response env (registered_row env org i))
    else st' = st \<and> r = Inl (Wrapf ''error while registering gateway: %w'' []
      (Database ''new row violates check constraint chk_gateway_functionality_type''))"
proof -
  have "find (\<lambda>g. gy_Name g = in_Name i \<and> gy_OrganizationName g = org) (gd_gateways (ks_db st)) = None"
    using assms(4) by (auto simp: find_None_iff list_ex_iff)
  then have free: "GetByNameAndOrgID (ke_repo env) 1 (in_Name i) org (ks_db st) = Inl ErrGatewayNotFound"
    using assms(3) by (simp add: GetByNameAndOrgID_def statement_def)
  have drawn: "ke_parse env (ke_show env (ke_uuid env)) = Some (ke_uuid env)"
    using assms(2) by (simp add: ke_parse_def ke_show_def)
  have row: "gateway_Create (ke_repo env) 2 (ke_later env) g (ks_db st)
      = map_sum id (Pair (registered_row env org i)) (insert_gateway (registered_row env org i) (ks_db st))"
    if "g = (registered_row env org i)\<lparr>gy_CreatedAt := ke_now env, gy_UpdatedAt := ke_now env\<rparr>" for g
    using assms(3) by (simp add: gateway_Create_def statement_def that registered_row_def Let_def)
  have "registered_gateway env org i (ks_db st) = wrap_error ''error while registering gateway: %w''
      (map_sum id (Pair (registered_row env org i)) (insert_gateway (registered_row env org i) (ks_db st)))"
    using assms(1) free drawn
    by (simp add: registered_gateway_def new_gateway_def row registered_row_def)
  then show ?thesis
    using assms(4,5)
    by (simp add: RegisterGateway_def insert_gateway_def registered_row_def wrap_error_def list_ex_iff)
qed

definition sample_input :: gateway_input where
  "sample_input = \<lparr>in_Name = ''gw2'', in_DisplayName = ''G'', in_Description = [], in_Vhost = ''h'',
     in_IsCritical = False, in_FunctionalityType = ''Event'', in_Properties = None\<rparr>"

theorem registration_outcome_witness:
  "fst (RegisterGateway (sample_tokens 8) ''o'' sample_input one_gateway) = one_gateway"
proof -
  have "validateGatewayInput ''o'' ''gw2'' ''G'' ''h'' ''Event'' = None" by code_simp
  moreover have "to_lower ''Event'' = ''event''" by code_simp
  ultimately show ?thesis
    using registration_outcome[of "''o''" sample_input "sample_tokens 8" one_gateway]
    by (simp add: sample_input_def dashed_laws one_gateway_def sample_gateway_def split: prod.splits)
qed

lemma pages_concat: "concat (map (\<lambda>k. take n (drop (k * n) xs)) [0 ..< K]) = take (K * n) xs"
  by (induction K) (simp_all add: take_add add.commute[of n])

text \<open>The pages of a gateway listing with a fixed positive limit, laid end to end, are the unlimited
  listing, each gateway once and in its order, and every page reports the same total.\<close>

theorem pages_cover_the_listing:
  assumes "ListGateways env org filters 0 0 db = Inr whole" and "limit > 0"
    and "gl_Total whole \<le> int K * limit"
  shows "\<exists>pages. map (\<lambda>k. ListGateways env org filters limit (int k * limit) db) [0 ..< K] = map Inr pages
    \<and> concat (map gl_List pages) = gl_List whole \<and> gl_Total whole = int (length (gl_List whole))
    \<and> list_all (\<lambda>p. gl_Total p = gl_Total whole) pages"
proof -
  let ?ty = "case filters of Some f \<Rightarrow> f | None \<Rightarrow> (None, None, None)"
  obtain ty status environment where f: "?ty = (ty, status, environment)" by (cases ?ty)
  let ?opts = "\<lambda>l o'. \<lparr>fo_OrganizationID = (case org of Some o' \<Rightarrow> o' | None \<Rightarrow> []),
      fo_FunctionalityType = ty, fo_Status = status, fo_EnvironmentID = environment, fo_Limit = l, fo_Offset = o'\<rparr>"
  have q: "buildFilterQuery (ke_repo env) (?opts l o') db = buildFilterQuery (ke_repo env) (?opts 0 0) db" for l o'
    by (simp add: buildFilterQuery_def)
  obtain gs where gs: "buildFilterQuery (ke_repo env) (?opts 0 0) db = Inr gs"
    and ok: "de_fault (ke_repo env) 1 = None" "de_fault (ke_repo env) 2 = None"
    and whole: "whole = \<lparr>gl_Count = length (newest_first gs), gl_List = map (gateway_response env) (newest_first gs),
        gl_Total = int (length gs), gl_Offset = 0, gl_Limit = 0\<rparr>"
    using assms(1) f unfolding ListGateways_def CountWithFilters_def ListWithFilters_def
    by (auto simp: outcome_simps Let_def)
  let ?xs = "map (gateway_response env) (newest_first gs)" and ?n = "nat limit"
  let ?page = "\<lambda>k. \<lparr>gl_Count = length (take ?n (drop (k * ?n) ?xs)), gl_List = take ?n (drop (k * ?n) ?xs),
      gl_Total = int (length gs), gl_Offset = int k * limit, gl_Limit = limit\<rparr>"
  have "ListGateways env org filters limit (int k * limit) db = Inr (?page k)" for k
  proof -
    have "nat (int k * limit) = k * ?n" using assms(2) by (simp add: nat_mult_distrib)
    moreover have "0 < int k * limit \<longleftrightarrow> k \<noteq> 0" using assms(2) by (simp add: zero_less_mult_iff)
    ultimately show ?thesis
      using gs ok assms(2) f q[of limit "int k * limit"] q[of limit 0] q[of 0 "int k * limit"]
      by (cases "k = 0") (simp_all add: ListGateways_def CountWithFilters_def ListWithFilters_def statement_def Let_def take_map drop_map)
  qed
  moreover have "length ?xs = length gs" by (simp add: newest_first_def)
  moreover have "length gs \<le> K * ?n"
    using assms(2,3) whole by (simp add: nat_le_iff[symmetric]) (metis int_nat_eq less_le nat_int nat_mult_distrib of_nat_0_le_iff of_nat_le_iff of_nat_mult)
  ultimately show ?thesis
    using pages_concat[of ?n ?xs K] whole
    by (intro exI[of _ "map ?page [0 ..< K]"]) (simp add: list_all_iff comp_def)
qed

theorem pages_cover_the_listing_witness:
  "\<exists>pages. map (\<lambda>k. ListGateways (sample_tokens 4) None None 1 (int k) (ks_db one_gateway)) [0 ..< 2] = map Inr pages
    \<and> concat (map gl_List pages) = [gateway_response (sample_tokens 4) sample_gateway]"
proof -
  let ?whole = "\<lparr>gl_Count = 1, gl_List = [gateway_response (sample_tokens 4) sample_gateway], gl_Total = 1,
      gl_Offset = 0, gl_Limit = 0\<rparr>"
  have "ListGateways (sample_tokens 4) None None 0 0 (ks_db one_gateway) = Inr ?whole"
    by (simp add: ListGateways_def CountWithFilters_def ListWithFilters_def buildFilterQuery_def statement_def
        wanted_def newest_first_def one_gateway_def Let_def)
  from pages_cover_the_listing[OF this, of 1 2] show ?thesis by auto
qed

end
