(* ===== verification/DeployTables.thy ===== *)
theory DeployTables
  imports DeployRepo
begin

text \<open>
  What the statements keep of the two deployment tables: the invariant \<open>db_ok\<close>, the rows that a
  deletion leaves, and the transaction of \<open>CreateWithLimitEnforcement\<close> as a whole.
\<close>

section \<open>The invariant\<close>

text \<open>
  Primary keys are unique, a status row refers to a deployment of its own target, stored states are
  DEPLOYED or UNDEPLOYED (ARCHIVED is the absence of a row), and a base is a deployment.
\<close>

definition status_ok :: "deploy_db \<Rightarrow> StatusRecord \<Rightarrow> bool" where
  "status_ok db s \<longleftrightarrow> sr_Status s \<in> {StatusDeployed, StatusUndeployed} \<and>
     (sr_DeploymentID s, status_key s) \<in> (\<lambda>d. (dp_DeploymentID d, target d)) ` set (db_deployments db)"

definition db_ok :: "deploy_db \<Rightarrow> bool" where
  "db_ok db \<longleftrightarrow>
     distinct (map dp_DeploymentID (db_deployments db)) \<and>
     distinct (map status_key (db_status db)) \<and>
     (\<forall>s \<in> set (db_status db). status_ok db s) \<and>
     (\<forall>d \<in> set (db_deployments db). \<forall>b. dp_BaseDeploymentID d = Some b \<longrightarrow> b \<in> ids db)"

definition clear_base :: "uuid \<Rightarrow> Deployment \<Rightarrow> Deployment" where
  "clear_base i d =
     (if dp_BaseDeploymentID d = Some i then d\<lparr>dp_BaseDeploymentID := None\<rparr> else d)"

lemma clear_base_simps [simp]:
  "dp_DeploymentID (clear_base i d) = dp_DeploymentID d" "target (clear_base i d) = target d"
  "dp_CreatedAt (clear_base i d) = dp_CreatedAt d" "dp_Content (clear_base i d) = dp_Content d"
  "dp_Name (clear_base i d) = dp_Name d"
  "dp_BaseDeploymentID (clear_base i d) = Some b \<longleftrightarrow> b \<noteq> i \<and> dp_BaseDeploymentID d = Some b"
  by (auto simp: clear_base_def target_def)

lemma delete_deployment_eq:
  "db_deployments (delete_deployment i db) =
     map (clear_base i) (filter (\<lambda>d. dp_DeploymentID d \<noteq> i) (db_deployments db))"
  "db_status (delete_deployment i db) = filter (\<lambda>s. sr_DeploymentID s \<noteq> i) (db_status db)"
  "db_artifacts (delete_deployment i db) = db_artifacts db"
  "db_gateways (delete_deployment i db) = db_gateways db"
  by (simp_all add: delete_deployment_def clear_base_def)

lemma ids_delete [simp]: "ids (delete_deployment i db) = ids db - {i}"
  by (auto simp: ids_def delete_deployment_eq image_image)

lemma status_ok_delete:
  "status_ok db s \<Longrightarrow> sr_DeploymentID s \<noteq> i \<Longrightarrow> status_ok (delete_deployment i db) s"
  by (auto simp: status_ok_def delete_deployment_eq image_iff)

lemma distinct_map_filter_same: "distinct (map f xs) \<Longrightarrow> distinct (map f (filter P xs))"
  by (induction xs) auto

lemma delete_ok: "db_ok db \<Longrightarrow> db_ok (delete_deployment i db)"
  unfolding db_ok_def
  by (auto simp: delete_deployment_eq(1,2) status_ok_delete distinct_map_filter_same comp_def)

lemma fold_delete_ok: "db_ok db \<Longrightarrow> db_ok (fold delete_deployment is db)"
  by (induction "is" arbitrary: db) (auto intro: delete_ok)

lemma insert_deployment_Inr:
  "insert_deployment d db = Inr db' \<longleftrightarrow>
     dp_DeploymentID d \<notin> ids db \<and> dp_ArtifactUUID d \<in> set (db_artifacts db) \<and>
     dp_GatewayUUID d \<in> set (db_gateways db) \<and>
     (\<forall>b. dp_BaseDeploymentID d = Some b \<longrightarrow> b \<in> ids db \<or> b = dp_DeploymentID d) \<and>
     db' = db\<lparr>db_deployments := db_deployments db @ [d\<lparr>dp_Status := None, dp_UpdatedAt := None\<rparr>]\<rparr>"
  by (auto simp: insert_deployment_def split: option.splits)

lemma insert_ok:
  assumes "db_ok db" "insert_deployment d db = Inr db'"
  shows "db_ok db'"
  using assms unfolding db_ok_def insert_deployment_Inr
  by (auto simp: ids_def status_ok_def image_iff)

lemma upsert_row_cases:
  obtains (update) "\<exists>s \<in> set rows. status_key s = status_key r"
      "upsert_row r rows = map (\<lambda>s. if status_key s = status_key r then r else s) rows"
    | (insert) "\<forall>s \<in> set rows. status_key s \<noteq> status_key r" "upsert_row r rows = rows @ [r]"
  by (auto simp: upsert_row_def list_ex_iff)

lemma map_status_key_update:
  "map status_key (map (\<lambda>s. if status_key s = status_key r then r else s) rows) = map status_key rows"
  by (induction rows) auto

lemma upsert_row_keys:
  "distinct (map status_key rows) \<Longrightarrow> distinct (map status_key (upsert_row r rows))"
  by (rule upsert_row_cases[of rows r]) (auto simp: map_status_key_update simp del: map_map)

lemma upsert_row_set:
  "set (upsert_row r rows) = insert r {s \<in> set rows. status_key s \<noteq> status_key r}"
  by (rule upsert_row_cases[of rows r]) auto

lemma upsert_status_Inr:
  "upsert_status r db = Inr db' \<longleftrightarrow>
     sr_Status r \<in> {StatusDeployed, StatusUndeployed} \<and> sr_ArtifactUUID r \<in> set (db_artifacts db) \<and>
     sr_GatewayUUID r \<in> set (db_gateways db) \<and> sr_DeploymentID r \<in> ids db \<and>
     db' = db\<lparr>db_status := upsert_row r (db_status db)\<rparr>"
  by (auto simp: upsert_status_def)

lemma upsert_ok:
  assumes "db_ok db" "upsert_status r db = Inr db'" "status_ok db r"
  shows "db_ok db'"
  using assms unfolding db_ok_def upsert_status_Inr
  by (auto simp: upsert_row_keys upsert_row_set status_ok_def ids_def)

section \<open>The current deployment of a target\<close>

text \<open>The abstract content of the status table: per target the deployment and its state.\<close>

definition current :: "deploy_db \<Rightarrow> uuid \<times> string \<times> uuid \<Rightarrow> (uuid \<times> string) option" where
  "current db t =
     map_option (\<lambda>s. (sr_DeploymentID s, sr_Status s)) (find (\<lambda>s. status_key s = t) (db_status db))"

lemma find_unique:
  assumes "distinct (map f xs)" "x \<in> set xs"
  shows "find (\<lambda>y. f y = f x) xs = Some x"
  using assms by (induction xs) (auto simp: rev_image_eqI)

lemma find_key:
  assumes "distinct (map f xs)"
  shows "find (\<lambda>y. f y = k) xs = Some x \<longleftrightarrow> x \<in> set xs \<and> f x = k"
  using assms find_unique[of f xs x] by (auto simp: find_Some_iff)

lemma current_Some:
  assumes "db_ok db"
  shows "current db t = Some (i, st) \<longleftrightarrow>
    (\<exists>s \<in> set (db_status db). status_key s = t \<and> sr_DeploymentID s = i \<and> sr_Status s = st)"
  using assms find_key[of status_key "db_status db" t] by (auto simp: current_def db_ok_def)

lemma current_eqI:
  assumes "db_ok db" "db_ok db'"
    and "\<And>s. status_key s = t \<Longrightarrow> s \<in> set (db_status db) \<longleftrightarrow> s \<in> set (db_status db')"
  shows "current db t = current db' t"
proof -
  have "current db t = Some p \<longleftrightarrow> current db' t = Some p" for p
    using assms by (cases p) (auto simp: current_Some)
  then show ?thesis by (metis not_Some_eq)
qed

lemma current_upsert:
  assumes ok: "db_ok db" and u: "upsert_status r db = Inr db'" and r: "status_ok db r"
  shows "current db' = (current db)(status_key r \<mapsto> (sr_DeploymentID r, sr_Status r))"
proof
  fix t
  have ok': "db_ok db'" using upsert_ok[OF ok u r] .
  have rows: "set (db_status db') = insert r {s \<in> set (db_status db). status_key s \<noteq> status_key r}"
    using u by (auto simp: upsert_status_Inr upsert_row_set)
  show "current db' t = ((current db)(status_key r \<mapsto> (sr_DeploymentID r, sr_Status r))) t"
  proof (cases "t = status_key r")
    case True
    then show ?thesis using current_Some[OF ok', of t "sr_DeploymentID r" "sr_Status r"] rows by auto
  next
    case False
    then show ?thesis using current_eqI[OF ok' ok, of t] rows by auto
  qed
qed

lemma option_eqI: "(\<And>p. x = Some p \<longleftrightarrow> y = Some p) \<Longrightarrow> x = y"
  by (metis not_Some_eq)

lemma current_delete:
  assumes "db_ok db"
  shows "current (delete_deployment i db) t =
    (case current db t of Some (j, st) \<Rightarrow> if j = i then None else Some (j, st) | None \<Rightarrow> None)"
proof -
  let ?r = "case current db t of Some (j, st) \<Rightarrow> if j = i then None else Some (j, st) | None \<Rightarrow> None"
  have "current (delete_deployment i db) t = Some p \<longleftrightarrow> current db t = Some p \<and> fst p \<noteq> i" for p
    using current_Some[OF assms] current_Some[OF delete_ok[OF assms]]
    by (cases p) (auto simp: delete_deployment_eq(2))
  moreover have "?r = Some p \<longleftrightarrow> current db t = Some p \<and> fst p \<noteq> i" for p
    by (auto split: option.splits prod.splits)
  ultimately show ?thesis by (intro option_eqI) simp
qed

text \<open>The status that the joins attach is that of the current deployment.\<close>

lemma joined_current:
  assumes ok: "db_ok db" and d: "d \<in> set (db_deployments db)"
  shows "map_option sr_Status (joined db d) =
    (case current db (target d) of Some (j, st) \<Rightarrow> if j = dp_DeploymentID d then Some st else None
     | None \<Rightarrow> None)"
proof (cases "joined db d")
  case None
  then have "\<not> (\<exists>s \<in> set (db_status db). sr_DeploymentID s = dp_DeploymentID d \<and> status_key s = target d)"
    by (auto simp: joined_def find_None_iff)
  then have "current db (target d) \<noteq> Some (dp_DeploymentID d, st)" for st
    using current_Some[OF ok] by auto
  then show ?thesis using None by (auto split: option.split)
next
  case (Some s)
  then have "s \<in> set (db_status db)" "sr_DeploymentID s = dp_DeploymentID d" "status_key s = target d"
    by (auto simp: joined_def find_Some_iff)
  then have "current db (target d) = Some (dp_DeploymentID d, sr_Status s)"
    using current_Some[OF ok] by auto
  then show ?thesis using Some by simp
qed

section \<open>Making room\<close>

lemma deployments_for_delete:
  "map dp_DeploymentID (deployments_for t (fold delete_deployment is db)) =
   filter (\<lambda>i. i \<notin> set is) (map dp_DeploymentID (deployments_for t db))"
proof (induction "is" arbitrary: db)
  case Nil
  then show ?case by simp
next
  case (Cons i "is")
  have "map dp_DeploymentID (deployments_for t (delete_deployment i db))
      = filter (\<lambda>j. j \<noteq> i) (map dp_DeploymentID (deployments_for t db))"
    by (simp add: deployments_for_def delete_deployment_eq(1) filter_map comp_def conj_commute)
  then show ?case using Cons.IH[of "delete_deployment i db"]
    by (simp add: conj_commute)
qed

lemma delete_all_Inr: "delete_all env n is db = Inr db' \<Longrightarrow> db' = fold delete_deployment is db"
  by (induction env n "is" db rule: delete_all.induct)
    (auto simp: andThen_Inr statement_def split: option.splits)

lemma make_room_Inr:
  "make_room env hardLimit t db = Inr db' \<Longrightarrow>
     db' = (if length (deployments_for t db) \<ge> hardLimit
            then fold delete_deployment (oldest_archived t db) db else db)"
  by (auto simp: make_room_def andThen_Inr statement_Inr split: if_splits dest: delete_all_Inr)

text \<open>At most one deployment of a target has a state.\<close>

lemma joined_unique:
  assumes ok: "db_ok db" and d: "d \<in> set (deployments_for t db)" "joined db d \<noteq> None"
    and e: "e \<in> set (deployments_for t db)" "joined db e \<noteq> None"
  shows "d = e"
proof -
  have "current db t = Some (dp_DeploymentID x, the (map_option sr_Status (joined db x)))"
    if "x \<in> set (deployments_for t db)" "joined db x \<noteq> None" for x
    using that joined_current[OF ok, of x]
    by (auto simp: deployments_for_def split: option.splits if_splits)
  from this[OF d] this[OF e] have "dp_DeploymentID d = dp_DeploymentID e" by simp
  then show ?thesis using ok d(1) e(1)
    by (auto simp: db_ok_def deployments_for_def distinct_map dest: inj_onD)
qed

lemma length_at_most_one: "distinct xs \<Longrightarrow> (\<And>x y. x \<in> set xs \<Longrightarrow> y \<in> set xs \<Longrightarrow> x = y) \<Longrightarrow> length xs \<le> 1"
  using card_le_Suc0_iff_eq[of "set xs"] distinct_card[of xs] by auto

lemma archived_count:
  assumes ok: "db_ok db"
  shows "length (deployments_for t db) \<le> Suc (length (filter (\<lambda>d. joined db d = None) (deployments_for t db)))"
proof -
  let ?ds = "deployments_for t db"
  have "distinct ?ds" using ok by (auto simp: db_ok_def deployments_for_def distinct_map)
  then have "length (filter (\<lambda>d. joined db d \<noteq> None) ?ds) \<le> 1"
    by (intro length_at_most_one) (simp_all add: joined_unique[OF ok, of _ t])
  then show ?thesis using sum_length_filter_compl[of "\<lambda>d. joined db d = None" ?ds] by simp
qed

lemma oldest_archived_props:
  assumes ok: "db_ok db"
  shows "distinct (oldest_archived t db)"
    and "set (oldest_archived t db) \<subseteq> set (map dp_DeploymentID (deployments_for t db))"
    and "length (oldest_archived t db) =
      min 5 (length (filter (\<lambda>d. joined db d = None) (deployments_for t db)))"
proof -
  let ?xs = "filter (\<lambda>d. joined db d = None) (deployments_for t db)"
  have "distinct (map dp_DeploymentID ?xs)"
    using ok by (auto simp: db_ok_def deployments_for_def intro!: distinct_map_filter_same)
  then have "distinct (map dp_DeploymentID (sort_key dp_CreatedAt ?xs))"
    by (simp add: distinct_map)
  then show "distinct (oldest_archived t db)"
    unfolding oldest_archived_def by (metis distinct_take take_map)
  show "set (oldest_archived t db) \<subseteq> set (map dp_DeploymentID (deployments_for t db))"
    by (auto simp: oldest_archived_def dest!: in_set_takeD)
  show "length (oldest_archived t db) = min 5 (length ?xs)"
    by (simp add: oldest_archived_def)
qed

lemma length_filter_notin:
  "distinct is \<Longrightarrow> set is \<subseteq> set xs \<Longrightarrow> distinct xs \<Longrightarrow>
   length (filter (\<lambda>i. i \<notin> set is) xs) = length xs - length is"
proof -
  assume a: "distinct is" "set is \<subseteq> set xs" "distinct xs"
  have "length (filter (\<lambda>i. i \<notin> set is) xs) = card (set xs - set is)"
    using distinct_card[OF distinct_filter[OF a(3)]] by (simp add: set_diff_eq)
  then show ?thesis using a by (simp add: card_Diff_subset distinct_card)
qed

lemma room_count:
  assumes ok: "db_ok db" and room: "make_room env hardLimit t db = Inr db'" and limit: "6 \<le> hardLimit"
  shows "length (deployments_for t db') < max hardLimit (length (deployments_for t db) - 4)"
proof (cases "length (deployments_for t db) \<ge> hardLimit")
  case False
  then show ?thesis using make_room_Inr[OF room] by simp
next
  case True
  let ?is = "oldest_archived t db" and ?xs = "map dp_DeploymentID (deployments_for t db)"
  have d: "distinct ?xs"
    using ok by (auto simp: db_ok_def deployments_for_def intro!: distinct_map_filter_same)
  have "length ?is = 5"
    using oldest_archived_props(3)[OF ok, of t] archived_count[OF ok, of t] True limit by simp
  moreover have "db' = fold delete_deployment ?is db" using make_room_Inr[OF room] True by simp
  then have "map dp_DeploymentID (deployments_for t db') = filter (\<lambda>i. i \<notin> set ?is) ?xs"
    by (simp only: deployments_for_delete)
  then have "length (deployments_for t db') = length ?xs - length ?is"
    using length_filter_notin[OF oldest_archived_props(1,2)[OF ok] d]
    by (metis length_map)
  ultimately show ?thesis using True limit by simp
qed

lemma archived_not_current:
  assumes ok: "db_ok db" and i: "i \<in> set (oldest_archived t db)" and s: "s \<in> set (db_status db)"
  shows "sr_DeploymentID s \<noteq> i"
proof
  assume si: "sr_DeploymentID s = i"
  from i obtain d where d: "d \<in> set (db_deployments db)" "joined db d = None" "dp_DeploymentID d = i"
    by (auto simp: oldest_archived_def deployments_for_def dest!: in_set_takeD)
  from ok s have "status_ok db s" by (auto simp: db_ok_def)
  then obtain e where e: "e \<in> set (db_deployments db)" "dp_DeploymentID e = i" "target e = status_key s"
    using si by (auto simp: status_ok_def)
  have "inj_on dp_DeploymentID (set (db_deployments db))" using ok by (simp add: db_ok_def distinct_map)
  then have "e = d" using d e by (metis inj_onD)
  then show False using d(2,3) e s si by (auto simp: joined_def find_None_iff)
qed

lemma status_fold_delete:
  "db_status (fold delete_deployment is db) = filter (\<lambda>s. sr_DeploymentID s \<notin> set is) (db_status db)"
  by (induction "is" arbitrary: db) (auto simp: delete_deployment_eq(2) conj_commute)

lemma room_keeps_status:
  assumes ok: "db_ok db" and room: "make_room env hardLimit t db = Inr db'"
  shows "db_status db' = db_status db"
  using make_room_Inr[OF room] archived_not_current[OF ok, of _ t]
  by (auto simp: status_fold_delete filter_id_conv)

lemma room_ok: "db_ok db \<Longrightarrow> make_room env hardLimit t db = Inr db' \<Longrightarrow> db_ok db'"
  by (drule make_room_Inr) (simp add: fold_delete_ok)

section \<open>The transaction as a whole\<close>

definition status_row :: "Deployment \<Rightarrow> StatusRecord" where
  "status_row d =
     \<lparr>sr_ArtifactUUID = dp_ArtifactUUID d, sr_OrganizationName = dp_OrganizationName d,
      sr_GatewayUUID = dp_GatewayUUID d, sr_DeploymentID = dp_DeploymentID d,
      sr_Status = the (dp_Status d), sr_UpdatedAt = the (dp_UpdatedAt d)\<rparr>"

lemma status_row_simps [simp]:
  "status_key (status_row d) = target d" "sr_DeploymentID (status_row d) = dp_DeploymentID d"
  "sr_Status (status_row d) = the (dp_Status d)"
  by (simp_all add: status_row_def status_key_def target_def)

lemma target_prepared [simp]: "target (prepared newid created updated d) = target d"
  by (simp add: prepared_def target_def)

lemma create_Inr:
  assumes "CreateWithLimitEnforcement env newid created updated deployment hardLimit db = Inr (d, db')"
  obtains room ins where "d = prepared newid created updated deployment"
    "make_room env hardLimit (target d) db = Inr room" "insert_deployment d room = Inr ins"
    "upsert_status (status_row d) ins = Inr db'"
  using assms
  by (auto simp: CreateWithLimitEnforcement_def Let_def andThen_Inr statement_Inr status_row_def)

lemma inserted_status_ok:
  "insert_deployment d room = Inr ins \<Longrightarrow> the (dp_Status d) \<in> {StatusDeployed, StatusUndeployed} \<Longrightarrow>
   status_ok ins (status_row d)"
  by (auto simp: insert_deployment_Inr status_ok_def target_def)

lemma create_steps:
  assumes ok: "db_ok db"
    and c: "CreateWithLimitEnforcement env newid created updated deployment hardLimit db = Inr (d, db')"
  shows "db_ok db'" and "current db' = (current db)(target d \<mapsto> (dp_DeploymentID d, the (dp_Status d)))"
proof -
  from c obtain room ins where d: "d = prepared newid created updated deployment"
    and room: "make_room env hardLimit (target d) db = Inr room"
    and ins: "insert_deployment d room = Inr ins" and up: "upsert_status (status_row d) ins = Inr db'"
    by (rule create_Inr)
  have okr: "db_ok room" by (rule room_ok[OF ok room])
  have oki: "db_ok ins" by (rule insert_ok[OF okr ins])
  have row: "status_ok ins (status_row d)"
    using up by (intro inserted_status_ok[OF ins]) (simp add: upsert_status_Inr)
  show "db_ok db'" by (rule upsert_ok[OF oki up row])
  have "current ins = current db"
    using room_keeps_status[OF ok room] ins by (auto simp: current_def insert_deployment_Inr)
  then show "current db' = (current db)(target d \<mapsto> (dp_DeploymentID d, the (dp_Status d)))"
    using current_upsert[OF oki up row] by simp
qed

lemma create_count:
  assumes ok: "db_ok db" and limit: "6 \<le> hardLimit"
    and c: "CreateWithLimitEnforcement env newid created updated deployment hardLimit db = Inr (d, db')"
  shows "length (deployments_for (target d) db')
    \<le> max hardLimit (length (deployments_for (target d) db) - 4)"
proof -
  from c obtain room ins where room: "make_room env hardLimit (target d) db = Inr room"
    and ins: "insert_deployment d room = Inr ins" and up: "upsert_status (status_row d) ins = Inr db'"
    by (rule create_Inr)
  have "length (deployments_for (target d) db') = Suc (length (deployments_for (target d) room))"
    using ins up by (auto simp: insert_deployment_Inr upsert_status_Inr deployments_for_def target_def)
  then show ?thesis using room_count[OF ok room limit] by simp
qed

lemma create_rows:
  assumes c: "CreateWithLimitEnforcement env newid created updated deployment hardLimit db = Inr (d, db')"
  shows "map dp_DeploymentID (deployments_for t db') =
    filter (\<lambda>i. \<not> (length (deployments_for (target d) db) \<ge> hardLimit \<and> i \<in> set (oldest_archived (target d) db)))
      (map dp_DeploymentID (deployments_for t db)) @ (if t = target d then [dp_DeploymentID d] else [])"
proof -
  from c obtain room ins where room: "make_room env hardLimit (target d) db = Inr room"
    and ins: "insert_deployment d room = Inr ins" and up: "upsert_status (status_row d) ins = Inr db'"
    by (rule create_Inr)
  have "map dp_DeploymentID (deployments_for t db') = map dp_DeploymentID (deployments_for t room)
      @ (if t = target d then [dp_DeploymentID d] else [])"
    using ins up by (auto simp: insert_deployment_Inr upsert_status_Inr deployments_for_def target_def)
  then show ?thesis
    using make_room_Inr[OF room] deployments_for_delete[of t "oldest_archived (target d) db" db]
    by (simp split: if_splits)
qed

text \<open>What is removed for space is archived, and no archived deployment that stays is older.\<close>

lemma oldest_archived_age:
  assumes i: "i \<in> set (oldest_archived t db)" and e: "e \<in> set (deployments_for t db)"
    "joined db e = None" "dp_DeploymentID e \<notin> set (oldest_archived t db)"
  shows "\<exists>d \<in> set (deployments_for t db). dp_DeploymentID d = i \<and> joined db d = None
    \<and> dp_CreatedAt d \<le> dp_CreatedAt e"
proof -
  let ?xs = "sort_key dp_CreatedAt (filter (\<lambda>d. joined db d = None) (deployments_for t db))"
  from i obtain d where d: "d \<in> set (take 5 ?xs)" "dp_DeploymentID d = i"
    by (auto simp: oldest_archived_def)
  have "e \<in> set ?xs" using e(1,2) by simp
  moreover have "e \<notin> set (take 5 ?xs)" using e(3) by (auto simp: oldest_archived_def)
  ultimately have "e \<in> set (drop 5 ?xs)" by (metis Un_iff append_take_drop_id set_append)
  moreover have "sorted (map dp_CreatedAt (take 5 ?xs @ drop 5 ?xs))" by simp
  ultimately have "dp_CreatedAt d \<le> dp_CreatedAt e"
    using d(1) unfolding map_append sorted_append by auto
  then show ?thesis using d by (auto dest!: in_set_takeD)
qed

section \<open>The other statements\<close>

lemma SetCurrent_Inr:
  "SetCurrent env n now artifact org gw deployment status db = Inr (u, db') \<longleftrightarrow>
     (\<exists>a g i. ul_parse (de_uuid env) artifact = Some a \<and> ul_parse (de_uuid env) gw = Some g \<and>
        ul_parse (de_uuid env) deployment = Some i \<and> de_fault env n = None \<and> u = now \<and>
        upsert_status \<lparr>sr_ArtifactUUID = a, sr_OrganizationName = org, sr_GatewayUUID = g,
          sr_DeploymentID = i, sr_Status = status, sr_UpdatedAt = now\<rparr> db = Inr db')"
  by (auto simp: SetCurrent_def andThen_Inr statement_Inr parse_uuid_def split: option.splits)

lemma UpdateStatus_Inr:
  "UpdateStatusByDeploymentID env n now deployment gw status db = Inr db' \<longleftrightarrow>
     (\<exists>i g. ul_cast (de_uuid env) deployment = Some i \<and> ul_cast (de_uuid env) gw = Some g \<and>
        de_fault env n = None \<and> status \<in> {StatusDeployed, StatusUndeployed} \<and>
        (\<exists>s \<in> set (db_status db). sr_DeploymentID s = i \<and> sr_GatewayUUID s = g) \<and>
        db' = db\<lparr>db_status := map (\<lambda>s. if sr_DeploymentID s = i \<and> sr_GatewayUUID s = g
          then s\<lparr>sr_Status := status, sr_UpdatedAt := now\<rparr> else s) (db_status db)\<rparr>)"
  by (auto simp: UpdateStatusByDeploymentID_def andThen_Inr statement_Inr cast_uuid_def Let_def
      list_ex_iff split: option.splits)

lemma status_key_update [simp]: "status_key (s\<lparr>sr_Status := st, sr_UpdatedAt := u\<rparr>) = status_key s"
  by (simp add: status_key_def)

lemma update_status_ok:
  assumes ok: "db_ok db" and u: "UpdateStatusByDeploymentID env n now deployment gw status db = Inr db'"
  shows "db_ok db'"
proof -
  have "map status_key (db_status db') = map status_key (db_status db)"
    using u by (auto simp: UpdateStatus_Inr)
  moreover have "status_ok db' s'" if s': "s' \<in> set (db_status db')" for s'
  proof -
    from s' u obtain s where "s \<in> set (db_status db)" "sr_DeploymentID s' = sr_DeploymentID s"
      "status_key s' = status_key s" "sr_Status s' \<in> {sr_Status s, status}"
      by (auto simp: UpdateStatus_Inr)
    moreover have "status \<in> {StatusDeployed, StatusUndeployed}" "db_deployments db' = db_deployments db"
      using u by (auto simp: UpdateStatus_Inr)
    ultimately show ?thesis using ok by (auto simp: db_ok_def status_ok_def)
  qed
  ultimately show ?thesis using ok u by (auto simp: db_ok_def UpdateStatus_Inr ids_def)
qed

lemma update_status_current:
  assumes ok: "db_ok db" and u: "UpdateStatusByDeploymentID env n now deployment gw status db = Inr db'"
    and i: "ul_cast (de_uuid env) deployment = Some i" and g: "ul_cast (de_uuid env) gw = Some g"
  shows "current db' t = (case current db t of
      Some (j, st) \<Rightarrow> Some (j, if j = i \<and> snd (snd t) = g then status else st) | None \<Rightarrow> None)"
proof -
  let ?f = "\<lambda>s. if sr_DeploymentID s = i \<and> sr_GatewayUUID s = g
      then s\<lparr>sr_Status := status, sr_UpdatedAt := now\<rparr> else s"
  have rows: "db_status db' = map ?f (db_status db)" using u i g by (auto simp: UpdateStatus_Inr)
  have find: "find (\<lambda>s. status_key s = t) (map ?f xs) = map_option ?f (find (\<lambda>s. status_key s = t) xs)" for xs
    by (induction xs) auto
  show ?thesis
  proof (cases "find (\<lambda>s. status_key s = t) (db_status db)")
    case None
    then show ?thesis unfolding current_def rows find by simp
  next
    case (Some s)
    then have "status_key s = t" by (metis (mono_tags, lifting) find_Some_iff)
    then show ?thesis using Some unfolding current_def rows find by (auto simp: status_key_def)
  qed
qed

end
