(* ===== verification/DeployService.thy ===== *)
theory DeployService
  imports DeployRepo GatewayEvents
begin

text \<open>
  Deploying LLM providers to gateways
  (\<open>agent-manager-service/services/llm_deployment_service.go\<close>, the operations of
  \<open>LLMProviderDeploymentService\<close>) and the acknowledgements that come back
  (\<open>deployment_ack_handler.go\<close>).

  The state is the database and the connection manager that events go through. What a request reads
  besides its parameters is in \<open>service_env\<close>: the fault plan, the rows of the two tables it only
  reads, the UUID that \<open>uuid.New\<close> draws (never nil), the readings of the clock and what the
  transports answer.
\<close>

section \<open>State and environment\<close>

record deploy_state =
  sv_db :: deploy_db
  sv_manager :: "Manager option"

record service_env =
  se_repo :: deploy_env
  se_providers :: "(string \<times> LLMProvider) list"
  se_gateways :: "(uuid \<times> string) list"
  se_yaml :: "LLMProviderDeploymentYAML \<Rightarrow> string + string"
  se_newid :: uuid
  se_created :: int
  se_updated :: int
  se_performedAt :: string
  se_correlationID :: string
  se_timestamp :: string
  se_now :: int
  se_answers :: "nat \<Rightarrow> string option"

record DeployAPIRequest =
  rq_Name :: string
  rq_Base :: string
  rq_GatewayID :: string
  rq_Metadata :: "gmap option"

definition parses :: "service_env \<Rightarrow> string \<Rightarrow> uuid option" where
  "parses env s = ul_parse (de_uuid (se_repo env)) s"

definition shows_uuid :: "service_env \<Rightarrow> uuid \<Rightarrow> string" where
  "shows_uuid env u = ul_show (de_uuid (se_repo env)) u"

section \<open>Lookups\<close>

text \<open>
  \<open>First\<close> reports an empty result as \<open>gorm.ErrRecordNotFound\<close>. A provider's row carries its
  organization; a gateway's row is its key and its organization. Statement 1 reads the gateway, 2 the
  provider.
\<close>

definition first_row :: "'a option \<Rightarrow> deploy_error + 'a" where
  "first_row r = (case r of Some x \<Rightarrow> Inr x | None \<Rightarrow> Inl ErrRecordNotFound)"

definition gateway_GetByUUID :: "service_env \<Rightarrow> string \<Rightarrow> deploy_error + string" where
  "gateway_GetByUUID env gatewayId =
     statement (se_repo env) 1
       (andThen (cast_uuid (se_repo env) gatewayId)
         (\<lambda>g. first_row (map_of (se_gateways env) g)))"

definition provider_GetByUUID :: "service_env \<Rightarrow> string \<Rightarrow> string \<Rightarrow> deploy_error + LLMProvider" where
  "provider_GetByUUID env providerID org =
     statement (se_repo env) 2
       (andThen (cast_uuid (se_repo env) providerID)
         (\<lambda>u. first_row (map_option snd
            (find (\<lambda>(o', p). pv_UUID p = u \<and> o' = org) (se_providers env)))))"

definition provider_GetByHandle :: "service_env \<Rightarrow> string \<Rightarrow> string \<Rightarrow> deploy_error + LLMProvider" where
  "provider_GetByHandle env handle org =
     statement (se_repo env) 2
       (first_row (map_option snd
          (find (\<lambda>(o', p). pv_ArtifactHandle p = handle \<and> o' = org) (se_providers env))))"

definition resolveProvider :: "service_env \<Rightarrow> string \<Rightarrow> string \<Rightarrow> deploy_error + LLMProvider" where
  "resolveProvider env identifier org =
     (case parses env identifier of
        Some _ \<Rightarrow> provider_GetByUUID env identifier org
      | None \<Rightarrow> provider_GetByHandle env identifier org)"

definition get_provider :: "service_env \<Rightarrow> string \<Rightarrow> string \<Rightarrow> deploy_error + LLMProvider" where
  "get_provider env providerID org =
     wrap_error ''failed to get provider: %w'' (resolveProvider env providerID org)"

section \<open>The model list of a provider\<close>

text \<open>
  \<open>json.Unmarshal\<close> into structs: a member goes to the field whose name it equals up to case folding
  (\<open>fold_name\<close> of theory \<open>SpanMessages\<close>), \<open>null\<close> leaves a field as it is, a value of
  another type is an error, and of several members for a field the last one counts.
\<close>

definition field_values :: "string \<Rightarrow> (string \<times> json) list \<Rightarrow> json list" where
  "field_values name ms = map snd (filter (\<lambda>(k, _). fold_name k = fold_name name) ms)"

fun is_string_or_null :: "json \<Rightarrow> bool" where
  "is_string_or_null (JStr _) = True"
| "is_string_or_null JNull = True"
| "is_string_or_null _ = False"

definition string_field_ok :: "string \<Rightarrow> (string \<times> json) list \<Rightarrow> bool" where
  "string_field_ok name ms \<longleftrightarrow> list_all is_string_or_null (field_values name ms)"

fun string_value :: "string \<Rightarrow> json \<Rightarrow> string" where
  "string_value old (JStr s) = s"
| "string_value old _ = old"

definition string_field :: "string \<Rightarrow> (string \<times> json) list \<Rightarrow> string" where
  "string_field name ms = foldl string_value [] (field_values name ms)"

fun decodes_model :: "json \<Rightarrow> bool" where
  "decodes_model (JObj ms) =
     list_all (\<lambda>name. string_field_ok name ms) [''id'', ''name'', ''description'']"
| "decodes_model JNull = True"
| "decodes_model _ = False"

fun decodes_models :: "json \<Rightarrow> bool" where
  "decodes_models (JArr xs) = list_all decodes_model xs"
| "decodes_models JNull = True"
| "decodes_models _ = False"

fun decodes_model_provider :: "json \<Rightarrow> bool" where
  "decodes_model_provider (JObj ms) \<longleftrightarrow>
     list_all (\<lambda>name. string_field_ok name ms) [''id'', ''name''] \<and>
     list_all decodes_models (field_values ''models'' ms)"
| "decodes_model_provider JNull = True"
| "decodes_model_provider _ = False"

definition model_providers_ok :: "string \<Rightarrow> bool" where
  "model_providers_ok modelList =
     (case json_parse modelList of
        Some (JArr xs) \<Rightarrow> list_all decodes_model_provider xs
      | Some JNull \<Rightarrow> True
      | _ \<Rightarrow> False)"

section \<open>Events\<close>

definition deployment_event :: "service_env \<Rightarrow> string \<Rightarrow> string \<Rightarrow> string \<Rightarrow> string \<Rightarrow> string" where
  "deployment_event env providerID deploymentID gatewayID org =
     json_struct [(''providerId'', json_quote providerID), (''deploymentId'', json_quote deploymentID),
       (''performedAt'', json_quote (se_performedAt env)), (''gatewayId'', json_quote gatewayID),
       (''organizationId'', json_quote org), (''status'', json_quote StatusDeployed)]"

definition undeployment_event :: "service_env \<Rightarrow> string \<Rightarrow> string \<Rightarrow> string \<Rightarrow> string \<Rightarrow> string" where
  "undeployment_event env providerID deploymentID gatewayID org =
     json_struct [(''providerId'', json_quote providerID), (''deploymentId'', json_quote deploymentID),
       (''performedAt'', json_quote (se_performedAt env)), (''gatewayId'', json_quote gatewayID),
       (''organizationId'', json_quote org)]"

text \<open>A failed broadcast is only logged; the manager keeps what the attempts did.\<close>

definition announce ::
  "service_env \<Rightarrow> string \<Rightarrow> string \<Rightarrow> string \<Rightarrow> Manager option \<Rightarrow> Manager option" where
  "announce env gatewayID eventType payload mgr =
     fst (broadcastEvent gatewayID eventType (Some payload) (se_correlationID env) (se_now env)
            (se_timestamp env) (se_answers env) mgr)"

section \<open>The operations\<close>

definition hard_limit :: nat where
  "hard_limit = 20 + 5"

text \<open>The content of a new deployment, with its base.\<close>

definition current_content :: "service_env \<Rightarrow> LLMProvider \<Rightarrow> deploy_error + string" where
  "current_content env provider =
     (if pv_ModelList provider \<noteq> [] \<and> \<not> model_providers_ok (pv_ModelList provider)
      then Inl (Errorf ''failed to parse model providers: %w'' [])
      else wrap_error ''failed to generate deployment YAML: %w''
        (generateLLMProviderDeploymentYAML (se_yaml env) (Some provider)))"

definition deployment_source ::
  "service_env \<Rightarrow> LLMProvider \<Rightarrow> string \<Rightarrow> string \<Rightarrow> deploy_db \<Rightarrow>
   deploy_error + (uuid option \<times> string)" where
  "deployment_source env provider base org db =
     (if base = ''current''
      then andThen (current_content env provider) (\<lambda>content. Inr (None, content))
      else
        (case parses env base of
           None \<Rightarrow> Inl (Errorf ''invalid base deployment ID: %w'' [base])
         | Some baseUUID \<Rightarrow>
             (case GetWithContent (se_repo env) 3 base (shows_uuid env (pv_UUID provider)) org db of
                Inl _ \<Rightarrow> Inl ErrBaseDeploymentNotFound
              | Inr d \<Rightarrow> Inr (Some baseUUID, dp_Content d))))"

definition new_deployment ::
  "service_env \<Rightarrow> string \<Rightarrow> DeployAPIRequest \<Rightarrow> string \<Rightarrow> deploy_db \<Rightarrow> deploy_error + Deployment" where
  "new_deployment env providerID req org db =
     (if rq_Base req = [] then Inl ErrDeploymentBaseRequired
      else if rq_GatewayID req = [] then Inl ErrDeploymentGatewayIDRequired
      else if rq_Name req = [] then Inl ErrDeploymentNameRequired
      else
        (case parses env (rq_GatewayID req) of
           None \<Rightarrow> Inl (Errorf ''invalid gateway UUID: %w'' [rq_GatewayID req])
         | Some gatewayUUID \<Rightarrow>
             andThen (wrap_error ''failed to get gateway: %w'' (gateway_GetByUUID env (rq_GatewayID req)))
               (\<lambda>gatewayOrg.
                  if gatewayOrg \<noteq> org then Inl ErrGatewayNotFound
                  else andThen (get_provider env providerID org)
                    (\<lambda>provider. andThen (deployment_source env provider (rq_Base req) org db)
                      (\<lambda>(base, content). Inr
                         \<lparr>dp_DeploymentID = se_newid env, dp_Name = rq_Name req,
                          dp_ArtifactUUID = pv_UUID provider, dp_OrganizationName = org,
                          dp_GatewayUUID = gatewayUUID, dp_BaseDeploymentID = base,
                          dp_Content = content, dp_Metadata = rq_Metadata req, dp_CreatedAt = 0,
                          dp_Status = Some StatusDeployed, dp_UpdatedAt = None\<rparr>)))))"

definition DeployLLMProvider ::
  "service_env \<Rightarrow> string \<Rightarrow> DeployAPIRequest \<Rightarrow> string \<Rightarrow> deploy_state \<Rightarrow>
   deploy_state \<times> (deploy_error + Deployment)" where
  "DeployLLMProvider env providerID req org st =
     (case andThen (new_deployment env providerID req org (sv_db st))
         (\<lambda>d. wrap_error ''failed to create deployment: %w''
            (CreateWithLimitEnforcement (se_repo env) (se_newid env) (se_created env) (se_updated env)
               d hard_limit (sv_db st))) of
        Inl e \<Rightarrow> (st, Inl e)
      | Inr (d, db) \<Rightarrow>
          (\<lparr>sv_db = db,
            sv_manager = announce env (rq_GatewayID req) ''llmprovider.deployed''
              (deployment_event env providerID (shows_uuid env (se_newid env)) (rq_GatewayID req) org)
              (sv_manager st)\<rparr>, Inr d))"

definition UndeployLLMProviderDeployment ::
  "service_env \<Rightarrow> string \<Rightarrow> string \<Rightarrow> string \<Rightarrow> string \<Rightarrow> deploy_state \<Rightarrow>
   deploy_state \<times> (deploy_error + Deployment)" where
  "UndeployLLMProviderDeployment env providerID deploymentID gatewayID org st =
     (case andThen (get_provider env providerID org)
         (\<lambda>provider. let artifact = shows_uuid env (pv_UUID provider) in
            andThen (wrap_error ''failed to get deployment: %w''
                (GetWithState (se_repo env) 3 deploymentID artifact org (sv_db st)))
              (\<lambda>d. if shows_uuid env (dp_GatewayUUID d) \<noteq> gatewayID then Inl ErrGatewayIDMismatch
                   else if dp_Status d \<noteq> Some StatusDeployed then Inl ErrDeploymentNotActive
                   else andThen (wrap_error ''failed to undeploy: %w''
                       (SetCurrent (se_repo env) 4 (se_updated env) artifact org gatewayID deploymentID
                          StatusUndeployed (sv_db st)))
                     (\<lambda>(updatedAt, db). Inr (d\<lparr>dp_Status := Some StatusUndeployed,
                        dp_UpdatedAt := Some updatedAt\<rparr>, db)))) of
        Inl e \<Rightarrow> (st, Inl e)
      | Inr (d, db) \<Rightarrow>
          (\<lparr>sv_db = db,
            sv_manager = announce env gatewayID ''llmprovider.undeployed''
              (undeployment_event env providerID deploymentID gatewayID org) (sv_manager st)\<rparr>, Inr d))"

definition RestoreLLMProviderDeployment ::
  "service_env \<Rightarrow> string \<Rightarrow> string \<Rightarrow> string \<Rightarrow> string \<Rightarrow> deploy_state \<Rightarrow>
   deploy_state \<times> (deploy_error + Deployment)" where
  "RestoreLLMProviderDeployment env providerID deploymentID gatewayID org st =
     (case andThen (get_provider env providerID org)
         (\<lambda>provider. let artifact = shows_uuid env (pv_UUID provider) in
            andThen (wrap_error ''failed to get deployment: %w''
                (GetWithContent (se_repo env) 3 deploymentID artifact org (sv_db st)))
              (\<lambda>d. if shows_uuid env (dp_GatewayUUID d) \<noteq> gatewayID then Inl ErrGatewayIDMismatch
                   else andThen (wrap_error ''failed to get deployment status: %w''
                       (GetStatus (se_repo env) 4 artifact org gatewayID (sv_db st)))
                     (\<lambda>(currentDeploymentID, status, _).
                        if currentDeploymentID = deploymentID \<and> status = StatusDeployed
                        then Inl ErrDeploymentAlreadyDeployed
                        else andThen (wrap_error ''failed to restore deployment: %w''
                            (SetCurrent (se_repo env) 5 (se_updated env) artifact org gatewayID
                               deploymentID StatusDeployed (sv_db st)))
                          (\<lambda>(updatedAt, db). Inr (d\<lparr>dp_Status := Some StatusDeployed,
                             dp_UpdatedAt := Some updatedAt\<rparr>, db))))) of
        Inl e \<Rightarrow> (st, Inl e)
      | Inr (d, db) \<Rightarrow>
          (\<lparr>sv_db = db,
            sv_manager = announce env gatewayID ''llmprovider.deployed''
              (deployment_event env providerID deploymentID gatewayID org) (sv_manager st)\<rparr>, Inr d))"

definition GetLLMProviderDeployments ::
  "service_env \<Rightarrow> string \<Rightarrow> string \<Rightarrow> string option \<Rightarrow> string option \<Rightarrow> deploy_db \<Rightarrow>
   deploy_error + Deployment list" where
  "GetLLMProviderDeployments env providerID org gatewayID status db =
     andThen (get_provider env providerID org)
       (\<lambda>provider.
          if (case status of Some st \<Rightarrow> st \<notin> {StatusDeployed, StatusUndeployed, StatusArchived} | None \<Rightarrow> False)
          then Inl ErrInvalidDeploymentStatus
          else wrap_error ''failed to get deployments: %w''
            (GetDeploymentsWithState (se_repo env) 3 (shows_uuid env (pv_UUID provider)) org gatewayID
               status 20 db))"

definition GetLLMProviderDeployment ::
  "service_env \<Rightarrow> string \<Rightarrow> string \<Rightarrow> string \<Rightarrow> deploy_db \<Rightarrow> deploy_error + Deployment" where
  "GetLLMProviderDeployment env providerID deploymentID org db =
     andThen (get_provider env providerID org)
       (\<lambda>provider. wrap_error ''failed to get deployment: %w''
          (GetWithState (se_repo env) 3 deploymentID (shows_uuid env (pv_UUID provider)) org db))"

definition DeleteLLMProviderDeployment ::
  "service_env \<Rightarrow> string \<Rightarrow> string \<Rightarrow> string \<Rightarrow> deploy_state \<Rightarrow>
   deploy_state \<times> (deploy_error + unit)" where
  "DeleteLLMProviderDeployment env providerID deploymentID org st =
     (case andThen (get_provider env providerID org)
         (\<lambda>provider. let artifact = shows_uuid env (pv_UUID provider) in
            andThen (wrap_error ''failed to get deployment: %w''
                (GetWithState (se_repo env) 3 deploymentID artifact org (sv_db st)))
              (\<lambda>d. if dp_Status d = Some StatusDeployed then Inl ErrDeploymentIsDeployed
                   else wrap_error ''failed to delete deployment: %w''
                     (repo_Delete (se_repo env) 4 deploymentID artifact org (sv_db st)))) of
        Inl e \<Rightarrow> (st, Inl e)
      | Inr db \<Rightarrow> (st\<lparr>sv_db := db\<rparr>, Inr ()))"

section \<open>Acknowledgements\<close>

text \<open>
  Whether the value of \<open>performedAt\<close> is a time is an argument, as is the current time. The result is
  whether the message was handled.
\<close>

record DeploymentAckPayload =
  ap_DeploymentID :: string
  ap_ArtifactID :: string
  ap_ResourceType :: string
  ap_Action :: string
  ap_Status :: string
  ap_ErrorCode :: string

fun decode_ack :: "(json \<Rightarrow> bool) \<Rightarrow> json \<Rightarrow> DeploymentAckPayload option" where
  "decode_ack time_ok (JObj ms) =
     (if list_all (\<lambda>name. string_field_ok name ms)
           [''deploymentId'', ''artifactId'', ''resourceType'', ''action'', ''status'', ''errorCode'']
         \<and> list_all time_ok (field_values ''performedAt'' ms)
      then Some \<lparr>ap_DeploymentID = string_field ''deploymentId'' ms,
             ap_ArtifactID = string_field ''artifactId'' ms,
             ap_ResourceType = string_field ''resourceType'' ms,
             ap_Action = string_field ''action'' ms, ap_Status = string_field ''status'' ms,
             ap_ErrorCode = string_field ''errorCode'' ms\<rparr>
      else None)"
| "decode_ack time_ok JNull = Some \<lparr>ap_DeploymentID = [], ap_ArtifactID = [], ap_ResourceType = [],
     ap_Action = [], ap_Status = [], ap_ErrorCode = []\<rparr>"
| "decode_ack time_ok _ = None"

text \<open>The status an acknowledgement asks for, if any.\<close>

definition ack_status :: "DeploymentAckPayload \<Rightarrow> string option" where
  "ack_status ack =
     (if ap_Action ack = ''deploy'' \<and> ap_Status ack = ''success'' then Some StatusDeployed
      else if ap_Action ack = ''undeploy'' \<and> ap_Status ack = ''success'' then Some StatusUndeployed
      else if ap_Action ack = ''deploy'' \<and> ap_Status ack = ''failed'' then Some StatusUndeployed
      else if ap_Action ack = ''undeploy'' \<and> ap_Status ack = ''failed'' then Some StatusDeployed
      else None)"

definition handleDeploymentAck ::
  "deploy_env \<Rightarrow> (json \<Rightarrow> bool) \<Rightarrow> int \<Rightarrow> string \<Rightarrow> json option \<Rightarrow> deploy_db \<Rightarrow> deploy_db" where
  "handleDeploymentAck env time_ok now gatewayID payload db =
     (case Option.bind payload (decode_ack time_ok) of
        None \<Rightarrow> db
      | Some ack \<Rightarrow>
          if ap_ResourceType ack = ''llmprovider'' \<or> ap_ResourceType ack = ''llmproxy''
          then (if ap_DeploymentID ack = [] then db
                else (case ack_status ack of
                   None \<Rightarrow> db
                 | Some status \<Rightarrow>
                     (case UpdateStatusByDeploymentID env 1 now (ap_DeploymentID ack) gatewayID status db of
                        Inl _ \<Rightarrow> db | Inr db' \<Rightarrow> db')))
          else db)"

fun last_value :: "json list \<Rightarrow> json option" where
  "last_value [] = None"
| "last_value vs = Some (last vs)"

definition HandleMessage ::
  "deploy_env \<Rightarrow> (json \<Rightarrow> bool) \<Rightarrow> int \<Rightarrow> string \<Rightarrow> string \<Rightarrow> deploy_db \<Rightarrow> deploy_db \<times> bool" where
  "HandleMessage env time_ok now gatewayID data db =
     (case json_parse data of
        Some (JObj ms) \<Rightarrow>
          if string_field_ok ''type'' ms \<and> string_field ''type'' ms = ''deployment.ack''
          then (handleDeploymentAck env time_ok now gatewayID (last_value (field_values ''payload'' ms)) db,
                True)
          else (db, False)
      | _ \<Rightarrow> (db, False))"

end
