(* ===== verification/ProxyService.thy ===== *)
theory ProxyService
  imports DeployService
begin

text \<open>
  Deploying LLM proxies to gateways
  (\<open>agent-manager-service/services/llm_proxy_deployment_service.go\<close>, the lookup of
  \<open>repositories/llm_proxy_repository.go\<close>). A proxy stands in front of a provider; its deployments are
  rows of the same two tables as those of providers, under the UUID of the proxy's artifact.

  The environment adds the proxies and the printer of their document to that of theory \<open>DeployService\<close>.
  Statement 0 reads the proxy, the others are numbered as there.
\<close>

section \<open>Proxies\<close>

record LLMProxyConfig =
  xc_Name :: string
  xc_Version :: string
  xc_Context :: "string option"
  xc_Vhost :: "string option"
  xc_Provider :: string
  xc_UpstreamAuth :: "UpstreamAuth option"
  xc_Policies :: "LLMPolicy list"
  xc_Security :: "SecurityConfig option"

text \<open>A row of \<open>llm_proxies\<close> joined with its artifact, without the columns a deployment does not read.\<close>

record proxyWithArtifact =
  pa_UUID :: uuid
  pa_ArtifactHandle :: string
  pa_ArtifactOrg :: string
  pa_Configuration :: LLMProxyConfig

record LLMProxyDeploymentYAML =
  xd_ApiVersion :: string
  xd_Kind :: string
  xd_MetadataName :: string
  xd_DisplayName :: string
  xd_Version :: string
  xd_Context :: string
  xd_VHost :: string
  xd_ProviderID :: string
  xd_ProviderAuth :: "UpstreamAuth option"
  xd_Policies :: "LLMPolicy list"

record proxy_env =
  pe_service :: service_env
  pe_proxies :: "proxyWithArtifact list"
  pe_yaml :: "LLMProxyDeploymentYAML \<Rightarrow> string + string"

abbreviation pe_repo :: "proxy_env \<Rightarrow> deploy_env" where
  "pe_repo env \<equiv> se_repo (pe_service env)"

definition proxy_GetByID :: "proxy_env \<Rightarrow> string \<Rightarrow> string \<Rightarrow> deploy_error + proxyWithArtifact" where
  "proxy_GetByID env proxyID org =
     statement (pe_repo env) 0
       (andThen (first_row (find (\<lambda>p. pa_ArtifactHandle p = proxyID \<and> pa_ArtifactOrg p = org) (pe_proxies env)))
         (\<lambda>p. if pa_UUID p = 0 then Inl ErrRecordNotFound else Inr p))"

definition get_proxy :: "proxy_env \<Rightarrow> string \<Rightarrow> string \<Rightarrow> deploy_error + proxyWithArtifact" where
  "get_proxy env proxyID org = wrap_error ''failed to get proxy: %w'' (proxy_GetByID env proxyID org)"

definition proxy_vhost :: "proxyWithArtifact \<Rightarrow> string" where
  "proxy_vhost proxy = (case xc_Vhost (pa_Configuration proxy) of Some v \<Rightarrow> v | None \<Rightarrow> [])"

section \<open>The deployment document\<close>

definition proxy_context :: "proxyWithArtifact \<Rightarrow> string" where
  "proxy_context proxy = (case xc_Context (pa_Configuration proxy) of Some (c # cs) \<Rightarrow> c # cs | _ \<Rightarrow> ''/'')"

definition proxy_document :: "proxy_env \<Rightarrow> proxyWithArtifact \<Rightarrow> string \<Rightarrow> deploy_error + LLMProxyDeploymentYAML" where
  "proxy_document env proxy org =
     (let config = pa_Configuration proxy in
      if xc_Provider config = [] then Inl ErrInvalidInput
      else andThen (wrap_error ''failed to get provider: %w'' (provider_GetByUUID (pe_service env) (xc_Provider config) org))
        (\<lambda>provider. andThen (api_key_policies (xc_Security config))
          (\<lambda>policies. Inr
            \<lparr>xd_ApiVersion = ''gateway.api-platform.wso2.com/v1alpha1'', xd_Kind = ''LlmProxy'',
             xd_MetadataName = pa_ArtifactHandle proxy, xd_DisplayName = xc_Name config,
             xd_Version = xc_Version config, xd_Context = proxy_context proxy, xd_VHost = proxy_vhost proxy,
             xd_ProviderID = pv_ArtifactHandle provider, xd_ProviderAuth = xc_UpstreamAuth config,
             xd_Policies = policies @ normalized_policies (xc_Policies config)\<rparr>)))"

definition generateLLMProxyDeploymentYAML ::
  "proxy_env \<Rightarrow> proxyWithArtifact option \<Rightarrow> string \<Rightarrow> deploy_error + string" where
  "generateLLMProxyDeploymentYAML env proxy org =
     (case proxy of
        None \<Rightarrow> Inl (Errorf ''proxy is required'' [])
      | Some p \<Rightarrow>
          andThen (proxy_document env p org)
            (\<lambda>doc. map_sum (\<lambda>e. Wrapf ''failed to marshal to YAML: %w'' [] (Errorf e [])) id (pe_yaml env doc)))"

section \<open>Events\<close>

definition proxy_deployment_event :: "string \<Rightarrow> string \<Rightarrow> string \<Rightarrow> string \<Rightarrow> string \<Rightarrow> string" where
  "proxy_deployment_event proxyID deploymentID vhost gatewayID org =
     json_struct [(''proxyId'', json_quote proxyID), (''deploymentId'', json_quote deploymentID),
       (''vhost'', json_quote vhost), (''environment'', json_quote ''production''),
       (''gatewayId'', json_quote gatewayID), (''organizationId'', json_quote org),
       (''status'', json_quote StatusDeployed)]"

definition proxy_undeployment_event :: "string \<Rightarrow> string \<Rightarrow> string \<Rightarrow> string \<Rightarrow> string" where
  "proxy_undeployment_event proxyID vhost gatewayID org =
     json_struct [(''proxyId'', json_quote proxyID), (''vhost'', json_quote vhost),
       (''environment'', json_quote ''production''), (''gatewayId'', json_quote gatewayID),
       (''organizationId'', json_quote org)]"

section \<open>The operations\<close>

definition proxy_source ::
  "proxy_env \<Rightarrow> proxyWithArtifact \<Rightarrow> string \<Rightarrow> string \<Rightarrow> deploy_db \<Rightarrow>
   deploy_error + (uuid option \<times> string)" where
  "proxy_source env proxy base org db =
     (if base = ''current''
      then andThen (wrap_error ''failed to generate deployment YAML: %w''
             (generateLLMProxyDeploymentYAML env (Some proxy) org)) (\<lambda>content. Inr (None, content))
      else
        (case parses (pe_service env) base of
           None \<Rightarrow> Inl (Errorf ''invalid base deployment ID: %w'' [base])
         | Some baseUUID \<Rightarrow>
             (case GetWithContent (pe_repo env) 3 base (shows_uuid (pe_service env) (pa_UUID proxy)) org db of
                Inl _ \<Rightarrow> Inl ErrBaseDeploymentNotFound
              | Inr d \<Rightarrow> Inr (Some baseUUID, dp_Content d))))"

definition new_proxy_deployment ::
  "proxy_env \<Rightarrow> string \<Rightarrow> DeployAPIRequest \<Rightarrow> string \<Rightarrow> deploy_db \<Rightarrow>
   deploy_error + (proxyWithArtifact \<times> Deployment)" where
  "new_proxy_deployment env proxyID req org db =
     (if rq_Base req = [] then Inl ErrDeploymentBaseRequired
      else if rq_GatewayID req = [] then Inl ErrDeploymentGatewayIDRequired
      else if rq_Name req = [] then Inl ErrDeploymentNameRequired
      else
        (case parses (pe_service env) (rq_GatewayID req) of
           None \<Rightarrow> Inl (Errorf ''invalid gateway UUID: %w'' [rq_GatewayID req])
         | Some gatewayUUID \<Rightarrow>
             andThen (wrap_error ''failed to get gateway: %w'' (gateway_GetByUUID (pe_service env) (rq_GatewayID req)))
               (\<lambda>gatewayOrg.
                  if gatewayOrg \<noteq> org then Inl ErrGatewayNotFound
                  else andThen (get_proxy env proxyID org)
                    (\<lambda>proxy. andThen (proxy_source env proxy (rq_Base req) org db)
                      (\<lambda>(base, content). Inr (proxy,
                         \<lparr>dp_DeploymentID = se_newid (pe_service env), dp_Name = rq_Name req,
                          dp_ArtifactUUID = pa_UUID proxy, dp_OrganizationName = org,
                          dp_GatewayUUID = gatewayUUID, dp_BaseDeploymentID = base,
                          dp_Content = content, dp_Metadata = rq_Metadata req, dp_CreatedAt = 0,
                          dp_Status = Some StatusDeployed, dp_UpdatedAt = None\<rparr>))))))"

definition DeployLLMProxy ::
  "proxy_env \<Rightarrow> string \<Rightarrow> DeployAPIRequest \<Rightarrow> string \<Rightarrow> deploy_state \<Rightarrow>
   deploy_state \<times> (deploy_error + Deployment)" where
  "DeployLLMProxy env proxyID req org st =
     (let sv = pe_service env in
      case andThen (new_proxy_deployment env proxyID req org (sv_db st))
         (\<lambda>(proxy, d). map_sum id (Pair proxy) (wrap_error ''failed to create deployment: %w''
            (CreateWithLimitEnforcement (se_repo sv) (se_newid sv) (se_created sv) (se_updated sv)
               d hard_limit (sv_db st)))) of
        Inl e \<Rightarrow> (st, Inl e)
      | Inr (proxy, d, db) \<Rightarrow>
          (\<lparr>sv_db = db,
            sv_manager = announce sv (rq_GatewayID req) ''llmproxy.deployed''
              (proxy_deployment_event proxyID (shows_uuid sv (se_newid sv)) (proxy_vhost proxy) (rq_GatewayID req) org)
              (sv_manager st)\<rparr>, Inr d))"

definition UndeployLLMProxyDeployment ::
  "proxy_env \<Rightarrow> string \<Rightarrow> string \<Rightarrow> string \<Rightarrow> string \<Rightarrow> deploy_state \<Rightarrow>
   deploy_state \<times> (deploy_error + Deployment)" where
  "UndeployLLMProxyDeployment env proxyID deploymentID gatewayID org st =
     (let sv = pe_service env in
      case andThen (get_proxy env proxyID org)
         (\<lambda>proxy. let artifact = shows_uuid sv (pa_UUID proxy) in
            andThen (wrap_error ''failed to get deployment: %w''
                (GetWithState (se_repo sv) 3 deploymentID artifact org (sv_db st)))
              (\<lambda>d. if shows_uuid sv (dp_GatewayUUID d) \<noteq> gatewayID then Inl ErrGatewayIDMismatch
                   else if dp_Status d \<noteq> Some StatusDeployed then Inl ErrDeploymentNotActive
                   else andThen (wrap_error ''failed to undeploy: %w''
                       (SetCurrent (se_repo sv) 4 (se_updated sv) artifact org gatewayID deploymentID
                          StatusUndeployed (sv_db st)))
                     (\<lambda>(updatedAt, db). Inr (proxy, d\<lparr>dp_Status := Some StatusUndeployed,
                        dp_UpdatedAt := Some updatedAt\<rparr>, db)))) of
        Inl e \<Rightarrow> (st, Inl e)
      | Inr (proxy, d, db) \<Rightarrow>
          (\<lparr>sv_db = db,
            sv_manager = announce sv gatewayID ''llmproxy.undeployed''
              (proxy_undeployment_event proxyID (proxy_vhost proxy) gatewayID org) (sv_manager st)\<rparr>, Inr d))"

definition RestoreLLMProxyDeployment ::
  "proxy_env \<Rightarrow> string \<Rightarrow> string \<Rightarrow> string \<Rightarrow> string \<Rightarrow> deploy_state \<Rightarrow>
   deploy_state \<times> (deploy_error + Deployment)" where
  "RestoreLLMProxyDeployment env proxyID deploymentID gatewayID org st =
     (let sv = pe_service env in
      case andThen (get_proxy env proxyID org)
         (\<lambda>proxy. let artifact = shows_uuid sv (pa_UUID proxy) in
            andThen (wrap_error ''failed to get deployment: %w''
                (GetWithContent (se_repo sv) 3 deploymentID artifact org (sv_db st)))
              (\<lambda>d. if shows_uuid sv (dp_GatewayUUID d) \<noteq> gatewayID then Inl ErrGatewayIDMismatch
                   else andThen (wrap_error ''failed to get deployment status: %w''
                       (GetStatus (se_repo sv) 4 artifact org gatewayID (sv_db st)))
                     (\<lambda>(currentDeploymentID, status, _).
                        if currentDeploymentID = deploymentID \<and> status = StatusDeployed
                        then Inl ErrDeploymentAlreadyDeployed
                        else andThen (wrap_error ''failed to restore deployment: %w''
                            (SetCurrent (se_repo sv) 5 (se_updated sv) artifact org gatewayID
                               deploymentID StatusDeployed (sv_db st)))
                          (\<lambda>(updatedAt, db). Inr (proxy, d\<lparr>dp_Status := Some StatusDeployed,
                             dp_UpdatedAt := Some updatedAt\<rparr>, db))))) of
        Inl e \<Rightarrow> (st, Inl e)
      | Inr (proxy, d, db) \<Rightarrow>
          (\<lparr>sv_db = db,
            sv_manager = announce sv gatewayID ''llmproxy.deployed''
              (proxy_deployment_event proxyID deploymentID (proxy_vhost proxy) gatewayID org) (sv_manager st)\<rparr>, Inr d))"

definition service_GetDeployedGatewaysByProvider ::
  "proxy_env \<Rightarrow> uuid \<Rightarrow> string \<Rightarrow> deploy_db \<Rightarrow> deploy_error + string list" where
  "service_GetDeployedGatewaysByProvider env providerUUID org db =
     GetDeployedGatewaysByProvider (pe_repo env) 1 providerUUID org db"

definition GetLLMProxyDeployments ::
  "proxy_env \<Rightarrow> string \<Rightarrow> string \<Rightarrow> string option \<Rightarrow> string option \<Rightarrow> deploy_db \<Rightarrow>
   deploy_error + Deployment list" where
  "GetLLMProxyDeployments env proxyID org gatewayID status db =
     andThen (get_proxy env proxyID org)
       (\<lambda>proxy.
          if (case status of Some st \<Rightarrow> st \<notin> {StatusDeployed, StatusUndeployed, StatusArchived} | None \<Rightarrow> False)
          then Inl ErrInvalidDeploymentStatus
          else wrap_error ''failed to get deployments: %w''
            (GetDeploymentsWithState (pe_repo env) 3 (shows_uuid (pe_service env) (pa_UUID proxy)) org gatewayID
               status 20 db))"

definition GetLLMProxyDeployment ::
  "proxy_env \<Rightarrow> string \<Rightarrow> string \<Rightarrow> string \<Rightarrow> deploy_db \<Rightarrow> deploy_error + Deployment" where
  "GetLLMProxyDeployment env proxyID deploymentID org db =
     andThen (get_proxy env proxyID org)
       (\<lambda>proxy. wrap_error ''failed to get deployment: %w''
          (GetWithState (pe_repo env) 3 deploymentID (shows_uuid (pe_service env) (pa_UUID proxy)) org db))"

definition DeleteLLMProxyDeployment ::
  "proxy_env \<Rightarrow> string \<Rightarrow> string \<Rightarrow> string \<Rightarrow> deploy_state \<Rightarrow>
   deploy_state \<times> (deploy_error + unit)" where
  "DeleteLLMProxyDeployment env proxyID deploymentID org st =
     (case andThen (get_proxy env proxyID org)
         (\<lambda>proxy. let artifact = shows_uuid (pe_service env) (pa_UUID proxy) in
            andThen (wrap_error ''failed to get deployment: %w''
                (GetWithState (pe_repo env) 3 deploymentID artifact org (sv_db st)))
              (\<lambda>d. if dp_Status d = Some StatusDeployed then Inl ErrDeploymentIsDeployed
                   else wrap_error ''failed to delete deployment: %w''
                     (repo_Delete (pe_repo env) 4 deploymentID artifact org (sv_db st)))) of
        Inl e \<Rightarrow> (st, Inl e)
      | Inr db \<Rightarrow> (st\<lparr>sv_db := db\<rparr>, Inr ()))"

end
