(* ===== verification/DeployLifecycle.thy ===== *)
theory DeployLifecycle
  imports DeployTables ProxyService
begin

text \<open>
  The life cycle of deployments: what each operation of the deployment service does to the current
  deployment of a target, as an abstract transition system that the service refines, and the
  invariants that every sequence of operations keeps.
\<close>

section \<open>Rows that lookups find\<close>

lemma shows_uuid_inj: "uuid_laws (de_uuid (se_repo env)) \<Longrightarrow> shows_uuid env u = shows_uuid env v \<longleftrightarrow> u = v"
  unfolding shows_uuid_def by (metis option.inject shown_uuid(1))

definition row_for :: "deploy_db \<Rightarrow> uuid \<Rightarrow> uuid \<Rightarrow> string \<Rightarrow> Deployment \<Rightarrow> bool" where
  "row_for db i artifact org d \<longleftrightarrow> d \<in> set (db_deployments db) \<and> dp_DeploymentID d = i \<and>
     dp_ArtifactUUID d = artifact \<and> dp_OrganizationName d = org"

lemma find_deployment_Some: "find_deployment i a org db = Some d \<Longrightarrow> row_for db i a org d"
  by (auto simp: find_deployment_def row_for_def find_Some_iff)

lemma row_for_unique: "db_ok db \<Longrightarrow> row_for db i a org d \<Longrightarrow> row_for db i a' org' e \<Longrightarrow> d = e"
  unfolding row_for_def db_ok_def distinct_map by (metis inj_onD)

lemma case_option_Inr:
  "(case r of None \<Rightarrow> Inl e | Some x \<Rightarrow> Inr (f x)) = Inr y \<longleftrightarrow> (\<exists>x. r = Some x \<and> y = f x)"
  by (auto split: option.split)

lemma GetWithContent_Inr:
  "GetWithContent env n deployment artifact org db = Inr d \<longleftrightarrow> de_fault env n = None \<and>
     (\<exists>i a. ul_cast (de_uuid env) deployment = Some i \<and> ul_cast (de_uuid env) artifact = Some a \<and>
        find_deployment i a org db = Some d)"
  by (auto simp: GetWithContent_def andThen_Inr statement_Inr cast_uuid_Inr case_option_Inr)

lemma GetWithState_Inr:
  "GetWithState env n deployment artifact org db = Inr d \<longleftrightarrow> de_fault env n = None \<and>
     (\<exists>i a. ul_cast (de_uuid env) deployment = Some i \<and> ul_cast (de_uuid env) artifact = Some a \<and>
        d = archived_if_null (scan_row (map_option (\<lambda>d. (with_state db d)\<lparr>dp_Content := []\<rparr>)
              (find_deployment i a org db))))"
  by (auto simp: GetWithState_def andThen_Inr statement_Inr cast_uuid_Inr)

lemma repo_Delete_Inr:
  "repo_Delete env n deployment artifact org db = Inr db' \<longleftrightarrow> de_fault env n = None \<and>
     (\<exists>i a d. ul_cast (de_uuid env) deployment = Some i \<and> ul_cast (de_uuid env) artifact = Some a \<and>
        find_deployment i a org db = Some d \<and> db' = delete_deployment (dp_DeploymentID d) db)"
  by (auto simp: repo_Delete_def andThen_Inr statement_Inr cast_uuid_Inr case_option_Inr)

lemma state_fields [simp]:
  "dp_DeploymentID (archived_if_null ((with_state db d)\<lparr>dp_Content := []\<rparr>)) = dp_DeploymentID d"
  "dp_GatewayUUID (archived_if_null ((with_state db d)\<lparr>dp_Content := []\<rparr>)) = dp_GatewayUUID d"
  "target (archived_if_null ((with_state db d)\<lparr>dp_Content := []\<rparr>)) = target d"
  by (simp_all add: archived_if_null_def with_state_def target_def)

lemma zero_not_deployed: "dp_Status (archived_if_null zero_deployment) = Some StatusArchived"
  by (simp add: archived_if_null_def zero_deployment_def)

text \<open>The state a lookup reports is DEPLOYED exactly for the deployed current deployment.\<close>

lemma reported_deployed:
  assumes "db_ok db" "d \<in> set (db_deployments db)"
  shows "dp_Status (archived_if_null ((with_state db d)\<lparr>dp_Content := []\<rparr>)) = Some StatusDeployed \<longleftrightarrow>
    current db (target d) = Some (dp_DeploymentID d, StatusDeployed)"
  using joined_current[OF assms]
  by (auto simp: archived_if_null_def with_state_def status_defs split: option.splits prod.splits if_splits)

section \<open>The operations, inverted\<close>

lemma undeploy_Inr:
  assumes "UndeployLLMProviderDeployment env providerID deploymentID gatewayID org st = (st', Inr d)"
  shows "\<exists>p d0 u. get_provider env providerID org = Inr p \<and>
    GetWithState (se_repo env) 3 deploymentID (shows_uuid env (pv_UUID p)) org (sv_db st) = Inr d0 \<and>
    shows_uuid env (dp_GatewayUUID d0) = gatewayID \<and> dp_Status d0 = Some StatusDeployed \<and>
    SetCurrent (se_repo env) 4 (se_updated env) (shows_uuid env (pv_UUID p)) org gatewayID deploymentID
      StatusUndeployed (sv_db st) = Inr (u, sv_db st') \<and>
    d = d0\<lparr>dp_Status := Some StatusUndeployed, dp_UpdatedAt := Some u\<rparr>"
  using assms unfolding UndeployLLMProviderDeployment_def
  by (clarsimp simp: andThen_Inr wrap_error_Inr Let_def split: sum.splits if_splits prod.splits)

lemma restore_Inr:
  assumes "RestoreLLMProviderDeployment env providerID deploymentID gatewayID org st = (st', Inr d)"
  shows "\<exists>p d0 u. get_provider env providerID org = Inr p \<and>
    GetWithContent (se_repo env) 3 deploymentID (shows_uuid env (pv_UUID p)) org (sv_db st) = Inr d0 \<and>
    shows_uuid env (dp_GatewayUUID d0) = gatewayID \<and>
    SetCurrent (se_repo env) 5 (se_updated env) (shows_uuid env (pv_UUID p)) org gatewayID deploymentID
      StatusDeployed (sv_db st) = Inr (u, sv_db st') \<and>
    d = d0\<lparr>dp_Status := Some StatusDeployed, dp_UpdatedAt := Some u\<rparr>"
  using assms unfolding RestoreLLMProviderDeployment_def
  by (clarsimp simp: andThen_Inr wrap_error_Inr Let_def split: sum.splits if_splits prod.splits) blast

lemma delete_Inr:
  assumes "DeleteLLMProviderDeployment env providerID deploymentID org st = (st', Inr r)"
  shows "\<exists>p d0. get_provider env providerID org = Inr p \<and>
    GetWithState (se_repo env) 3 deploymentID (shows_uuid env (pv_UUID p)) org (sv_db st) = Inr d0 \<and>
    dp_Status d0 \<noteq> Some StatusDeployed \<and>
    repo_Delete (se_repo env) 4 deploymentID (shows_uuid env (pv_UUID p)) org (sv_db st) = Inr (sv_db st')"
  using assms unfolding DeleteLLMProviderDeployment_def
  by (clarsimp simp: andThen_Inr wrap_error_Inr Let_def split: sum.splits if_splits prod.splits)

lemma deploy_Inr:
  assumes "DeployLLMProvider env providerID req org st = (st', Inr d)"
  shows "\<exists>d0. new_deployment env providerID req org (sv_db st) = Inr d0 \<and>
    CreateWithLimitEnforcement (se_repo env) (se_newid env) (se_created env) (se_updated env) d0 hard_limit
      (sv_db st) = Inr (d, sv_db st')"
  using assms unfolding DeployLLMProvider_def
  by (clarsimp simp: andThen_Inr wrap_error_Inr split: sum.splits prod.splits)

lemma proxy_undeploy_Inr:
  assumes "UndeployLLMProxyDeployment env proxyID deploymentID gatewayID org st = (st', Inr d)"
  shows "\<exists>p d0 u. get_proxy env proxyID org = Inr p \<and>
    GetWithState (pe_repo env) 3 deploymentID (shows_uuid (pe_service env) (pa_UUID p)) org (sv_db st) = Inr d0 \<and>
    shows_uuid (pe_service env) (dp_GatewayUUID d0) = gatewayID \<and> dp_Status d0 = Some StatusDeployed \<and>
    SetCurrent (pe_repo env) 4 (se_updated (pe_service env)) (shows_uuid (pe_service env) (pa_UUID p)) org gatewayID
      deploymentID StatusUndeployed (sv_db st) = Inr (u, sv_db st') \<and>
    d = d0\<lparr>dp_Status := Some StatusUndeployed, dp_UpdatedAt := Some u\<rparr>"
  using assms unfolding UndeployLLMProxyDeployment_def
  by (clarsimp simp: andThen_Inr wrap_error_Inr Let_def split: sum.splits if_splits prod.splits)

lemma proxy_restore_Inr:
  assumes "RestoreLLMProxyDeployment env proxyID deploymentID gatewayID org st = (st', Inr d)"
  shows "\<exists>p d0 u. get_proxy env proxyID org = Inr p \<and>
    GetWithContent (pe_repo env) 3 deploymentID (shows_uuid (pe_service env) (pa_UUID p)) org (sv_db st) = Inr d0 \<and>
    shows_uuid (pe_service env) (dp_GatewayUUID d0) = gatewayID \<and>
    SetCurrent (pe_repo env) 5 (se_updated (pe_service env)) (shows_uuid (pe_service env) (pa_UUID p)) org gatewayID
      deploymentID StatusDeployed (sv_db st) = Inr (u, sv_db st') \<and>
    d = d0\<lparr>dp_Status := Some StatusDeployed, dp_UpdatedAt := Some u\<rparr>"
  using assms unfolding RestoreLLMProxyDeployment_def
  by (clarsimp simp: andThen_Inr wrap_error_Inr Let_def split: sum.splits if_splits prod.splits) blast

lemma proxy_delete_Inr:
  assumes "DeleteLLMProxyDeployment env proxyID deploymentID org st = (st', Inr r)"
  shows "\<exists>p d0. get_proxy env proxyID org = Inr p \<and>
    GetWithState (pe_repo env) 3 deploymentID (shows_uuid (pe_service env) (pa_UUID p)) org (sv_db st) = Inr d0 \<and>
    dp_Status d0 \<noteq> Some StatusDeployed \<and>
    repo_Delete (pe_repo env) 4 deploymentID (shows_uuid (pe_service env) (pa_UUID p)) org (sv_db st) = Inr (sv_db st')"
  using assms unfolding DeleteLLMProxyDeployment_def
  by (clarsimp simp: andThen_Inr wrap_error_Inr Let_def split: sum.splits if_splits prod.splits)

text \<open>Both services create rows in the same way.\<close>

definition creates :: "service_env \<Rightarrow> deploy_db \<Rightarrow> Deployment \<Rightarrow> deploy_db \<Rightarrow> bool" where
  "creates env db d db' \<longleftrightarrow> (\<exists>d0. dp_Status d0 = Some StatusDeployed \<and>
     CreateWithLimitEnforcement (se_repo env) (se_newid env) (se_created env) (se_updated env) d0 hard_limit db
       = Inr (d, db'))"

lemma deploy_creates:
  assumes "DeployLLMProvider env providerID req org st = (st', Inr d)"
  shows "creates env (sv_db st) d (sv_db st')"
proof -
  from deploy_Inr[OF assms] obtain d0 :: Deployment where new: "new_deployment env providerID req org (sv_db st) = Inr d0"
    and c: "CreateWithLimitEnforcement (se_repo env) (se_newid env) (se_created env) (se_updated env) d0 hard_limit
      (sv_db st) = Inr (d, sv_db st')" by blast
  have "dp_Status d0 = Some StatusDeployed"
    using new by (auto simp: new_deployment_def andThen_Inr split: if_splits option.splits prod.splits)
  then show ?thesis using c by (auto simp: creates_def)
qed

lemma proxy_deploy_creates:
  assumes "DeployLLMProxy env proxyID req org st = (st', Inr d)"
  shows "creates (pe_service env) (sv_db st) d (sv_db st')"
proof -
  let ?sv = "pe_service env"
  obtain proxy d0 where new: "new_proxy_deployment env proxyID req org (sv_db st) = Inr (proxy, d0)"
    and c: "CreateWithLimitEnforcement (se_repo ?sv) (se_newid ?sv) (se_created ?sv) (se_updated ?sv) d0 hard_limit
      (sv_db st) = Inr (d, sv_db st')"
    using assms unfolding DeployLLMProxy_def Let_def
    by (clarsimp simp: andThen_Inr map_sum_Inr wrap_error_Inr split: sum.splits prod.splits)
  have "dp_Status d0 = Some StatusDeployed"
    using new by (auto simp: new_proxy_deployment_def andThen_Inr split: if_splits option.splits prod.splits)
  then show ?thesis using c by (auto simp: creates_def)
qed

text \<open>An operation that reports an error leaves the database and the connections as they were.\<close>

lemma errors_change_nothing:
  "DeployLLMProvider env providerID req org st = (st', Inl e) \<Longrightarrow> st' = st"
  "UndeployLLMProviderDeployment env providerID deploymentID gatewayID org st = (st', Inl e) \<Longrightarrow> st' = st"
  "RestoreLLMProviderDeployment env providerID deploymentID gatewayID org st = (st', Inl e) \<Longrightarrow> st' = st"
  "DeleteLLMProviderDeployment env providerID deploymentID org st = (st', Inl e) \<Longrightarrow> st' = st"
  "DeployLLMProxy penv proxyID req org st = (st', Inl e) \<Longrightarrow> st' = st"
  "UndeployLLMProxyDeployment penv proxyID deploymentID gatewayID org st = (st', Inl e) \<Longrightarrow> st' = st"
  "RestoreLLMProxyDeployment penv proxyID deploymentID gatewayID org st = (st', Inl e) \<Longrightarrow> st' = st"
  "DeleteLLMProxyDeployment penv proxyID deploymentID org st = (st', Inl e) \<Longrightarrow> st' = st"
  unfolding DeployLLMProvider_def UndeployLLMProviderDeployment_def RestoreLLMProviderDeployment_def
    DeleteLLMProviderDeployment_def DeployLLMProxy_def UndeployLLMProxyDeployment_def RestoreLLMProxyDeployment_def
    DeleteLLMProxyDeployment_def Let_def
  by (simp_all split: sum.splits prod.splits)

section \<open>The operations on the abstract state\<close>

text \<open>The status row that \<open>SetCurrent\<close> writes for a deployment that a lookup has found.\<close>

lemma set_current_steps:
  assumes laws: "uuid_laws (de_uuid (se_repo env))" and ok: "db_ok db"
    and i: "ul_cast (de_uuid (se_repo env)) deploymentID = Some i"
    and row: "row_for db i a org e"
    and set: "SetCurrent (se_repo env) n now (shows_uuid env a) org
      (shows_uuid env (dp_GatewayUUID e)) deploymentID status db = Inr (u, db')"
  shows "db_ok db'" and "db_deployments db' = db_deployments db"
    and "current db' = (current db)(target e \<mapsto> (dp_DeploymentID e, status))"
proof -
  let ?row = "\<lparr>sr_ArtifactUUID = a, sr_OrganizationName = org, sr_GatewayUUID = dp_GatewayUUID e,
    sr_DeploymentID = i, sr_Status = status, sr_UpdatedAt = now\<rparr>"
  have up: "upsert_status ?row db = Inr db'"
    using set laws i uuid_laws_agree[OF laws] by (auto simp: SetCurrent_Inr shows_uuid_def)
  have key: "status_key ?row = target e" "dp_DeploymentID e = i" "e \<in> set (db_deployments db)"
    using row by (auto simp: status_key_def target_def row_for_def)
  moreover have "status \<in> {StatusDeployed, StatusUndeployed}" using up by (simp add: upsert_status_Inr)
  ultimately have row_ok: "status_ok db ?row" by (auto simp: status_ok_def image_iff)
  show "db_ok db'" by (rule upsert_ok[OF ok up row_ok])
  show "db_deployments db' = db_deployments db" using up by (auto simp: upsert_status_Inr)
  show "current db' = (current db)(target e \<mapsto> (dp_DeploymentID e, status))"
    using current_upsert[OF ok up row_ok] key by simp
qed

text \<open>The steps of both services, for the artifact \<open>a\<close> of a provider or a proxy.\<close>

lemma undeploy_core:
  assumes laws: "uuid_laws (de_uuid (se_repo env))" and ok: "db_ok db"
    and get: "GetWithState (se_repo env) 3 deploymentID (shows_uuid env a) org db = Inr d0"
    and gw: "shows_uuid env (dp_GatewayUUID d0) = gatewayID" and dep: "dp_Status d0 = Some StatusDeployed"
    and set: "SetCurrent (se_repo env) 4 (se_updated env) (shows_uuid env a) org gatewayID deploymentID
      StatusUndeployed db = Inr (v, db')"
    and d: "d = d0\<lparr>dp_Status := Some StatusUndeployed, dp_UpdatedAt := Some v\<rparr>"
  shows "db_ok db'" and "db_deployments db' = db_deployments db"
    and "current db (target d) = Some (dp_DeploymentID d, StatusDeployed)"
    and "current db' = (current db)(target d \<mapsto> (dp_DeploymentID d, StatusUndeployed))"
proof -
  let ?env = "se_repo env"
  let ?read = "\<lambda>r. archived_if_null (scan_row (map_option (\<lambda>d. (with_state db d)\<lparr>dp_Content := []\<rparr>) r))"
  from get laws obtain k where k: "ul_cast (de_uuid ?env) deploymentID = Some k"
    and d0: "d0 = ?read (find_deployment k a org db)"
    by (auto simp: GetWithState_Inr shows_uuid_def)
  from d0 dep obtain e where e: "find_deployment k a org db = Some e"
    by (cases "find_deployment k a org db") (auto simp: scan_row_def zero_not_deployed status_defs)
  note row = find_deployment_Some[OF e]
  have d0e: "d0 = archived_if_null ((with_state db e)\<lparr>dp_Content := []\<rparr>)" using d0 e by (simp add: scan_row_def)
  have f: "dp_DeploymentID d = dp_DeploymentID e" "target d = target e" "dp_GatewayUUID d0 = dp_GatewayUUID e"
    using d d0e state_fields[of db e] by (auto simp: target_def)
  note s = set_current_steps[OF laws ok k row set[folded gw, unfolded f(3)]]
  show "db_ok db'" "db_deployments db' = db_deployments db" by (rule s(1), rule s(2))
  show "current db (target d) = Some (dp_DeploymentID d, StatusDeployed)"
    using reported_deployed[OF ok, of e] row dep d0e f by (simp add: row_for_def)
  show "current db' = (current db)(target d \<mapsto> (dp_DeploymentID d, StatusUndeployed))"
    using s(3) f by simp
qed

lemma restore_core:
  assumes laws: "uuid_laws (de_uuid (se_repo env))" and ok: "db_ok db"
    and get: "GetWithContent (se_repo env) 3 deploymentID (shows_uuid env a) org db = Inr d0"
    and gw: "shows_uuid env (dp_GatewayUUID d0) = gatewayID"
    and set: "SetCurrent (se_repo env) 5 (se_updated env) (shows_uuid env a) org gatewayID deploymentID
      StatusDeployed db = Inr (v, db')"
    and d: "d = d0\<lparr>dp_Status := Some StatusDeployed, dp_UpdatedAt := Some v\<rparr>"
  shows "db_ok db'" and "db_deployments db' = db_deployments db"
    and "dp_DeploymentID d \<in> set (map dp_DeploymentID (deployments_for (target d) db))"
    and "current db' = (current db)(target d \<mapsto> (dp_DeploymentID d, StatusDeployed))"
proof -
  from get laws obtain k where k: "ul_cast (de_uuid (se_repo env)) deploymentID = Some k"
    and e: "find_deployment k a org db = Some d0"
    by (auto simp: GetWithContent_Inr shows_uuid_def)
  note row = find_deployment_Some[OF e]
  have f: "dp_DeploymentID d = dp_DeploymentID d0" "target d = target d0"
    using d by (auto simp: target_def)
  note s = set_current_steps[OF laws ok k row set[folded gw]]
  show "db_ok db'" "db_deployments db' = db_deployments db" by (rule s(1), rule s(2))
  show "dp_DeploymentID d \<in> set (map dp_DeploymentID (deployments_for (target d) db))"
    using row f(2) unfolding f(1) by (auto simp: row_for_def deployments_for_def)
  show "current db' = (current db)(target d \<mapsto> (dp_DeploymentID d, StatusDeployed))"
    using s(3) f by simp
qed

lemma delete_core:
  assumes laws: "uuid_laws (de_uuid (se_repo env))" and ok: "db_ok db"
    and get: "GetWithState (se_repo env) 3 deploymentID (shows_uuid env a) org db = Inr d0"
    and nd: "dp_Status d0 \<noteq> Some StatusDeployed"
    and del: "repo_Delete (se_repo env) 4 deploymentID (shows_uuid env a) org db = Inr db'"
  shows "\<exists>e \<in> set (db_deployments db). db' = delete_deployment (dp_DeploymentID e) db
    \<and> (\<forall>t. current db t \<noteq> Some (dp_DeploymentID e, StatusDeployed))"
proof -
  let ?env = "se_repo env"
  from del laws obtain k e where k: "ul_cast (de_uuid ?env) deploymentID = Some k"
    and e: "find_deployment k a org db = Some e"
    and st': "db' = delete_deployment (dp_DeploymentID e) db"
    by (auto simp: repo_Delete_Inr shows_uuid_def)
  have row: "e \<in> set (db_deployments db)" using find_deployment_Some[OF e] by (simp add: row_for_def)
  have "d0 = archived_if_null ((with_state db e)\<lparr>dp_Content := []\<rparr>)"
    using get k e laws by (auto simp: GetWithState_Inr shows_uuid_def scan_row_def)
  then have n: "current db (target e) \<noteq> Some (dp_DeploymentID e, StatusDeployed)"
    using nd reported_deployed[OF ok row] by simp
  have "current db t \<noteq> Some (dp_DeploymentID e, StatusDeployed)" for t
  proof
    assume c: "current db t = Some (dp_DeploymentID e, StatusDeployed)"
    then obtain s where s: "s \<in> set (db_status db)" "status_key s = t" "sr_DeploymentID s = dp_DeploymentID e"
      using current_Some[OF ok] by auto
    then have "status_ok db s" using ok by (auto simp: db_ok_def)
    then obtain d where "d \<in> set (db_deployments db)" "dp_DeploymentID d = dp_DeploymentID e" "target d = t"
      using s by (auto simp: status_ok_def)
    then have "target e = t" using row ok unfolding db_ok_def distinct_map by (metis inj_onD)
    then show False using c n by simp
  qed
  then show ?thesis using row st' by blast
qed

lemma undeploy_steps:
  assumes laws: "uuid_laws (de_uuid (se_repo env))" and ok: "db_ok (sv_db st)"
    and u: "UndeployLLMProviderDeployment env providerID deploymentID gatewayID org st = (st', Inr d)"
  shows "db_ok (sv_db st')" and "db_deployments (sv_db st') = db_deployments (sv_db st)"
    and "current (sv_db st) (target d) = Some (dp_DeploymentID d, StatusDeployed)"
    and "current (sv_db st') = (current (sv_db st))(target d \<mapsto> (dp_DeploymentID d, StatusUndeployed))"
proof -
  from undeploy_Inr[OF u] obtain p :: LLMProvider and d0 v where
    get: "GetWithState (se_repo env) 3 deploymentID (shows_uuid env (pv_UUID p)) org (sv_db st) = Inr d0"
    and gw: "shows_uuid env (dp_GatewayUUID d0) = gatewayID" and dep: "dp_Status d0 = Some StatusDeployed"
    and set: "SetCurrent (se_repo env) 4 (se_updated env) (shows_uuid env (pv_UUID p)) org gatewayID
      deploymentID StatusUndeployed (sv_db st) = Inr (v, sv_db st')"
    and d: "d = d0\<lparr>dp_Status := Some StatusUndeployed, dp_UpdatedAt := Some v\<rparr>"
    by blast
  note s = undeploy_core[OF laws ok get gw dep set d]
  show "db_ok (sv_db st')" "db_deployments (sv_db st') = db_deployments (sv_db st)"
    "current (sv_db st) (target d) = Some (dp_DeploymentID d, StatusDeployed)"
    "current (sv_db st') = (current (sv_db st))(target d \<mapsto> (dp_DeploymentID d, StatusUndeployed))"
    by (rule s(1), rule s(2), rule s(3), rule s(4))
qed

lemma proxy_undeploy_steps:
  assumes laws: "uuid_laws (de_uuid (se_repo (pe_service env)))" and ok: "db_ok (sv_db st)"
    and u: "UndeployLLMProxyDeployment env proxyID deploymentID gatewayID org st = (st', Inr d)"
  shows "db_ok (sv_db st')" and "db_deployments (sv_db st') = db_deployments (sv_db st)"
    and "current (sv_db st) (target d) = Some (dp_DeploymentID d, StatusDeployed)"
    and "current (sv_db st') = (current (sv_db st))(target d \<mapsto> (dp_DeploymentID d, StatusUndeployed))"
proof -
  from proxy_undeploy_Inr[OF u] obtain p :: proxyWithArtifact and d0 v where
    get: "GetWithState (se_repo (pe_service env)) 3 deploymentID (shows_uuid (pe_service env) (pa_UUID p)) org (sv_db st) = Inr d0"
    and gw: "shows_uuid (pe_service env) (dp_GatewayUUID d0) = gatewayID" and dep: "dp_Status d0 = Some StatusDeployed"
    and set: "SetCurrent (se_repo (pe_service env)) 4 (se_updated (pe_service env)) (shows_uuid (pe_service env) (pa_UUID p)) org gatewayID
      deploymentID StatusUndeployed (sv_db st) = Inr (v, sv_db st')"
    and d: "d = d0\<lparr>dp_Status := Some StatusUndeployed, dp_UpdatedAt := Some v\<rparr>"
    by blast
  note s = undeploy_core[OF laws ok get gw dep set d]
  show "db_ok (sv_db st')" "db_deployments (sv_db st') = db_deployments (sv_db st)"
    "current (sv_db st) (target d) = Some (dp_DeploymentID d, StatusDeployed)"
    "current (sv_db st') = (current (sv_db st))(target d \<mapsto> (dp_DeploymentID d, StatusUndeployed))"
    by (rule s(1), rule s(2), rule s(3), rule s(4))
qed

lemma restore_steps:
  assumes laws: "uuid_laws (de_uuid (se_repo env))" and ok: "db_ok (sv_db st)"
    and r: "RestoreLLMProviderDeployment env providerID deploymentID gatewayID org st = (st', Inr d)"
  shows "db_ok (sv_db st')" and "db_deployments (sv_db st') = db_deployments (sv_db st)"
    and "dp_DeploymentID d \<in> set (map dp_DeploymentID (deployments_for (target d) (sv_db st)))"
    and "current (sv_db st') = (current (sv_db st))(target d \<mapsto> (dp_DeploymentID d, StatusDeployed))"
proof -
  from restore_Inr[OF r] obtain p :: LLMProvider and d0 v where
    get: "GetWithContent (se_repo env) 3 deploymentID (shows_uuid env (pv_UUID p)) org (sv_db st) = Inr d0"
    and gw: "shows_uuid env (dp_GatewayUUID d0) = gatewayID"
    and set: "SetCurrent (se_repo env) 5 (se_updated env) (shows_uuid env (pv_UUID p)) org gatewayID
      deploymentID StatusDeployed (sv_db st) = Inr (v, sv_db st')"
    and d: "d = d0\<lparr>dp_Status := Some StatusDeployed, dp_UpdatedAt := Some v\<rparr>"
    by blast
  note s = restore_core[OF laws ok get gw set d]
  show "db_ok (sv_db st')" "db_deployments (sv_db st') = db_deployments (sv_db st)"
    "dp_DeploymentID d \<in> set (map dp_DeploymentID (deployments_for (target d) (sv_db st)))"
    "current (sv_db st') = (current (sv_db st))(target d \<mapsto> (dp_DeploymentID d, StatusDeployed))"
    by (rule s(1), rule s(2), rule s(3), rule s(4))
qed

lemma proxy_restore_steps:
  assumes laws: "uuid_laws (de_uuid (se_repo (pe_service env)))" and ok: "db_ok (sv_db st)"
    and r: "RestoreLLMProxyDeployment env proxyID deploymentID gatewayID org st = (st', Inr d)"
  shows "db_ok (sv_db st')" and "db_deployments (sv_db st') = db_deployments (sv_db st)"
    and "dp_DeploymentID d \<in> set (map dp_DeploymentID (deployments_for (target d) (sv_db st)))"
    and "current (sv_db st') = (current (sv_db st))(target d \<mapsto> (dp_DeploymentID d, StatusDeployed))"
proof -
  from proxy_restore_Inr[OF r] obtain p :: proxyWithArtifact and d0 v where
    get: "GetWithContent (se_repo (pe_service env)) 3 deploymentID (shows_uuid (pe_service env) (pa_UUID p)) org (sv_db st) = Inr d0"
    and gw: "shows_uuid (pe_service env) (dp_GatewayUUID d0) = gatewayID"
    and set: "SetCurrent (se_repo (pe_service env)) 5 (se_updated (pe_service env)) (shows_uuid (pe_service env) (pa_UUID p)) org gatewayID
      deploymentID StatusDeployed (sv_db st) = Inr (v, sv_db st')"
    and d: "d = d0\<lparr>dp_Status := Some StatusDeployed, dp_UpdatedAt := Some v\<rparr>"
    by blast
  note s = restore_core[OF laws ok get gw set d]
  show "db_ok (sv_db st')" "db_deployments (sv_db st') = db_deployments (sv_db st)"
    "dp_DeploymentID d \<in> set (map dp_DeploymentID (deployments_for (target d) (sv_db st)))"
    "current (sv_db st') = (current (sv_db st))(target d \<mapsto> (dp_DeploymentID d, StatusDeployed))"
    by (rule s(1), rule s(2), rule s(3), rule s(4))
qed

lemma delete_steps:
  assumes laws: "uuid_laws (de_uuid (se_repo env))" and ok: "db_ok (sv_db st)"
    and r: "DeleteLLMProviderDeployment env providerID deploymentID org st = (st', Inr v)"
  shows "\<exists>e \<in> set (db_deployments (sv_db st)). sv_db st' = delete_deployment (dp_DeploymentID e) (sv_db st)
    \<and> (\<forall>t. current (sv_db st) t \<noteq> Some (dp_DeploymentID e, StatusDeployed))"
proof -
  from delete_Inr[OF r] obtain p :: LLMProvider and d0 where
    get: "GetWithState (se_repo env) 3 deploymentID (shows_uuid env (pv_UUID p)) org (sv_db st) = Inr d0"
    and nd: "dp_Status d0 \<noteq> Some StatusDeployed"
    and del: "repo_Delete (se_repo env) 4 deploymentID (shows_uuid env (pv_UUID p)) org (sv_db st) = Inr (sv_db st')"
    by blast
  show ?thesis by (rule delete_core[OF laws ok get nd del])
qed

lemma proxy_delete_steps:
  assumes laws: "uuid_laws (de_uuid (se_repo (pe_service env)))" and ok: "db_ok (sv_db st)"
    and r: "DeleteLLMProxyDeployment env proxyID deploymentID org st = (st', Inr v)"
  shows "\<exists>e \<in> set (db_deployments (sv_db st)). sv_db st' = delete_deployment (dp_DeploymentID e) (sv_db st)
    \<and> (\<forall>t. current (sv_db st) t \<noteq> Some (dp_DeploymentID e, StatusDeployed))"
proof -
  from proxy_delete_Inr[OF r] obtain p :: proxyWithArtifact and d0 where
    get: "GetWithState (se_repo (pe_service env)) 3 deploymentID (shows_uuid (pe_service env) (pa_UUID p)) org (sv_db st) = Inr d0"
    and nd: "dp_Status d0 \<noteq> Some StatusDeployed"
    and del: "repo_Delete (se_repo (pe_service env)) 4 deploymentID (shows_uuid (pe_service env) (pa_UUID p)) org (sv_db st) = Inr (sv_db st')"
    by blast
  show ?thesis by (rule delete_core[OF laws ok get nd del])
qed

lemma creates_steps:
  assumes ok: "db_ok db" and r: "creates env db d db'"
  shows "db_ok db'"
    and "current db' = (current db)(target d \<mapsto> (dp_DeploymentID d, StatusDeployed))"
    and "length (deployments_for (target d) db') \<le> max 25 (length (deployments_for (target d) db) - 4)"
    and "t \<noteq> target d \<Longrightarrow> length (deployments_for t db') \<le> length (deployments_for t db)"
proof -
  from r obtain d0 :: Deployment where st: "dp_Status d0 = Some StatusDeployed"
    and c: "CreateWithLimitEnforcement (se_repo env) (se_newid env) (se_created env) (se_updated env) d0
      hard_limit db = Inr (d, db')"
    by (auto simp: creates_def)
  have "d = prepared (se_newid env) (se_created env) (se_updated env) d0" using c by (rule create_Inr)
  then have dep: "the (dp_Status d) = StatusDeployed" using st by (simp add: prepared_def)
  show "db_ok db'" by (rule create_steps(1)[OF ok c])
  show "current db' = (current db)(target d \<mapsto> (dp_DeploymentID d, StatusDeployed))"
    using create_steps(2)[OF ok c] dep by simp
  show "length (deployments_for (target d) db') \<le> max 25 (length (deployments_for (target d) db) - 4)"
    using create_count[OF ok _ c] by (simp add: hard_limit_def)
  assume "t \<noteq> target d"
  then have "map dp_DeploymentID (deployments_for t db') = filter
      (\<lambda>i. \<not> (length (deployments_for (target d) db) \<ge> hard_limit \<and> i \<in> set (oldest_archived (target d) db)))
      (map dp_DeploymentID (deployments_for t db))"
    using create_rows[OF c, of t] by simp
  then show "length (deployments_for t db') \<le> length (deployments_for t db)"
    by (metis length_filter_le length_map)
qed

lemmas deploy_steps = creates_steps[OF _ deploy_creates]
lemmas proxy_deploy_steps = creates_steps[OF _ proxy_deploy_creates]

text \<open>What a deployment removes for space.\<close>

lemma ids_fold_delete: "ids (fold delete_deployment is db) = ids db - set is"
  by (induction "is" arbitrary: db) auto

lemma create_ids:
  assumes "CreateWithLimitEnforcement env newid created updated deployment hardLimit db = Inr (d, db')"
  shows "ids db' = insert (dp_DeploymentID d) (if hardLimit \<le> length (deployments_for (target d) db)
      then ids db - set (oldest_archived (target d) db) else ids db)"
proof -
  from assms obtain room ins where room: "make_room env hardLimit (target d) db = Inr room"
    and ins: "insert_deployment d room = Inr ins" and up: "upsert_status (status_row d) ins = Inr db'"
    by (rule create_Inr)
  have "ids db' = insert (dp_DeploymentID d) (ids room)"
    using ins up by (auto simp: insert_deployment_Inr upsert_status_Inr ids_def)
  then show ?thesis using make_room_Inr[OF room] by (simp add: ids_fold_delete)
qed

lemma creates_removes:
  assumes ok: "db_ok db" and r: "creates env db d db'"
    and fresh: "dp_DeploymentID d \<notin> ids db"
  shows "\<forall>e \<in> set (db_deployments db). dp_DeploymentID e \<in> ids db'
    \<or> (target e = target d \<and> joined db e = None
        \<and> 25 \<le> length (deployments_for (target d) db)
        \<and> (\<forall>e' \<in> set (deployments_for (target d) db). joined db e' = None
            \<and> dp_DeploymentID e' \<in> ids db' \<longrightarrow> dp_CreatedAt e \<le> dp_CreatedAt e'))"
proof (intro ballI disjCI)
  fix e
  let ?t = "target d" and ?full = "hard_limit \<le> length (deployments_for (target d) db)"
  assume e: "e \<in> set (db_deployments db)"
  from r obtain d0 :: Deployment where
    c: "CreateWithLimitEnforcement (se_repo env) (se_newid env) (se_created env) (se_updated env) d0
      hard_limit db = Inr (d, db')" by (auto simp: creates_def)
  have rows: "set (map dp_DeploymentID (deployments_for t db')) \<supseteq>
      {i \<in> set (map dp_DeploymentID (deployments_for t db)). \<not> (?full \<and> i \<in> set (oldest_archived ?t db))}" for t
    unfolding create_rows[OF c, of t] by auto
  have in_ids: "i \<in> set (map dp_DeploymentID (deployments_for t db)) \<Longrightarrow> i \<in> ids db" for i t db
    by (auto simp: ids_def deployments_for_def)
  assume gone: "\<not> (target e = ?t \<and> joined db e = None \<and> 25 \<le> length (deployments_for ?t db)
    \<and> (\<forall>e' \<in> set (deployments_for ?t db). joined db e' = None
        \<and> dp_DeploymentID e' \<in> ids db' \<longrightarrow> dp_CreatedAt e \<le> dp_CreatedAt e'))"
  show "dp_DeploymentID e \<in> ids db'"
  proof (cases "?full \<and> dp_DeploymentID e \<in> set (oldest_archived ?t db)")
    case False
    then show ?thesis using rows[of "target e"] e in_ids[of _ "target e" db'] by (auto simp: deployments_for_def)
  next
    case True
    have inj: "inj_on dp_DeploymentID (set (db_deployments db))" using ok by (simp add: db_ok_def distinct_map)
    from True obtain x where x: "x \<in> set (deployments_for ?t db)" "dp_DeploymentID x = dp_DeploymentID e"
      "joined db x = None" by (auto simp: oldest_archived_def dest!: in_set_takeD)
    then have "x = e" using inj e by (auto simp: deployments_for_def dest: inj_onD)
    then have t: "target e = ?t" "joined db e = None" using x by (auto simp: deployments_for_def)
    from gone t True obtain e' where e': "e' \<in> set (deployments_for ?t db)" "joined db e' = None"
      "dp_DeploymentID e' \<in> ids db'" "\<not> dp_CreatedAt e \<le> dp_CreatedAt e'"
      by (auto simp: hard_limit_def)
    have "dp_DeploymentID e' \<in> set (oldest_archived ?t db)"
      using oldest_archived_age[of "dp_DeploymentID e" ?t db e'] True e' e inj
      by (auto simp: deployments_for_def dest: inj_onD)
    moreover have "dp_DeploymentID e' \<in> ids db" using e'(1) by (simp add: ids_def deployments_for_def)
    then have "dp_DeploymentID e' \<noteq> dp_DeploymentID d" using fresh by metis
    ultimately show ?thesis using create_ids[OF c] True e'(3) by auto
  qed
qed

lemmas deploy_removes = creates_removes[OF _ deploy_creates]

section \<open>The abstract life cycle\<close>

text \<open>
  One step of the abstract machine on the current deployments: a deployment or a restore puts a
  deployment in charge of its target, an undeployment turns the one in charge off, a deletion forgets
  a deployment that is not deployed, and an acknowledgement sets the state of a deployment on the
  gateway that sent it.
\<close>

type_synonym currents = "uuid \<times> string \<times> uuid \<Rightarrow> (uuid \<times> string) option"

inductive lifecycle :: "currents \<Rightarrow> currents \<Rightarrow> bool" where
  stay: "lifecycle c c"
| activate: "lifecycle c (c(t \<mapsto> (i, StatusDeployed)))"
| deactivate: "c t = Some (i, StatusDeployed) \<Longrightarrow> lifecycle c (c(t \<mapsto> (i, StatusUndeployed)))"
| forget: "(\<forall>t. c t \<noteq> Some (i, StatusDeployed)) \<Longrightarrow>
    lifecycle c (\<lambda>t. case c t of Some (j, st) \<Rightarrow> if j = i then None else Some (j, st) | None \<Rightarrow> None)"
| acknowledge: "st \<in> {StatusDeployed, StatusUndeployed} \<Longrightarrow>
    lifecycle c (\<lambda>t. case c t of
      Some (j, old) \<Rightarrow> Some (j, if j = i \<and> snd (snd t) = g then st else old) | None \<Rightarrow> None)"

text \<open>The operations of the two services and the messages of the gateways, with their environments.\<close>

datatype deploy_op =
    OpDeploy service_env string DeployAPIRequest string
  | OpUndeploy service_env string string string string
  | OpRestore service_env string string string string
  | OpDelete service_env string string string
  | OpProxyDeploy proxy_env string DeployAPIRequest string
  | OpProxyUndeploy proxy_env string string string string
  | OpProxyRestore proxy_env string string string string
  | OpProxyDelete proxy_env string string string
  | OpMessage deploy_env "json \<Rightarrow> bool" int string string

fun deploy_exec :: "deploy_op \<Rightarrow> deploy_state \<Rightarrow> deploy_state" where
  "deploy_exec (OpDeploy env providerID req org) st = fst (DeployLLMProvider env providerID req org st)"
| "deploy_exec (OpUndeploy env providerID deploymentID gatewayID org) st =
     fst (UndeployLLMProviderDeployment env providerID deploymentID gatewayID org st)"
| "deploy_exec (OpRestore env providerID deploymentID gatewayID org) st =
     fst (RestoreLLMProviderDeployment env providerID deploymentID gatewayID org st)"
| "deploy_exec (OpDelete env providerID deploymentID org) st =
     fst (DeleteLLMProviderDeployment env providerID deploymentID org st)"
| "deploy_exec (OpProxyDeploy env proxyID req org) st = fst (DeployLLMProxy env proxyID req org st)"
| "deploy_exec (OpProxyUndeploy env proxyID deploymentID gatewayID org) st =
     fst (UndeployLLMProxyDeployment env proxyID deploymentID gatewayID org st)"
| "deploy_exec (OpProxyRestore env proxyID deploymentID gatewayID org) st =
     fst (RestoreLLMProxyDeployment env proxyID deploymentID gatewayID org st)"
| "deploy_exec (OpProxyDelete env proxyID deploymentID org) st =
     fst (DeleteLLMProxyDeployment env proxyID deploymentID org st)"
| "deploy_exec (OpMessage env time_ok now gatewayID data) st =
     st\<lparr>sv_db := fst (HandleMessage env time_ok now gatewayID data (sv_db st))\<rparr>"

fun lawful_op :: "deploy_op \<Rightarrow> bool" where
  "lawful_op (OpDeploy env _ _ _) = uuid_laws (de_uuid (se_repo env))"
| "lawful_op (OpUndeploy env _ _ _ _) = uuid_laws (de_uuid (se_repo env))"
| "lawful_op (OpRestore env _ _ _ _) = uuid_laws (de_uuid (se_repo env))"
| "lawful_op (OpDelete env _ _ _) = uuid_laws (de_uuid (se_repo env))"
| "lawful_op (OpProxyDeploy env _ _ _) = uuid_laws (de_uuid (pe_repo env))"
| "lawful_op (OpProxyUndeploy env _ _ _ _) = uuid_laws (de_uuid (pe_repo env))"
| "lawful_op (OpProxyRestore env _ _ _ _) = uuid_laws (de_uuid (pe_repo env))"
| "lawful_op (OpProxyDelete env _ _ _) = uuid_laws (de_uuid (pe_repo env))"
| "lawful_op (OpMessage env _ _ _ _) = uuid_laws (de_uuid env)"

text \<open>What one operation does, in one place.\<close>

definition good_step :: "deploy_db \<Rightarrow> deploy_db \<Rightarrow> bool" where
  "good_step db db' \<longleftrightarrow> db_ok db' \<and> lifecycle (current db) (current db') \<and>
     (\<forall>t. length (deployments_for t db') \<le> max 25 (length (deployments_for t db))) \<and>
     dp_ArtifactUUID ` set (db_deployments db') \<subseteq> dp_ArtifactUUID ` set (db_deployments db) \<union> set (db_artifacts db)"

lemma good_step_refl: "db_ok db \<Longrightarrow> good_step db db"
  by (auto simp: good_step_def intro: lifecycle.stay)

lemma ack_cases:
  "handleDeploymentAck env time_ok now gatewayID payload db = db \<or>
   (\<exists>i st. UpdateStatusByDeploymentID env 1 now i gatewayID st db =
      Inr (handleDeploymentAck env time_ok now gatewayID payload db))"
  unfolding handleDeploymentAck_def by (simp split: option.split sum.split) blast

lemma message_cases:
  "fst (HandleMessage env time_ok now gatewayID data db) = db \<or>
   (\<exists>i st. UpdateStatusByDeploymentID env 1 now i gatewayID st db =
      Inr (fst (HandleMessage env time_ok now gatewayID data db)))"
proof -
  have "fst (HandleMessage env time_ok now gatewayID data db) = db \<or>
    (\<exists>payload. fst (HandleMessage env time_ok now gatewayID data db)
       = handleDeploymentAck env time_ok now gatewayID payload db)"
    by (auto simp: HandleMessage_def split: option.split json.split)
  then show ?thesis using ack_cases by metis
qed

lemma message_good:
  assumes ok: "db_ok db"
  shows "good_step db (fst (HandleMessage env time_ok now gatewayID data db))"
proof (cases "fst (HandleMessage env time_ok now gatewayID data db) = db")
  case True
  then show ?thesis using good_step_refl[OF ok] by simp
next
  case False
  then obtain i st db' where u: "UpdateStatusByDeploymentID env 1 now i gatewayID st db = Inr db'"
    and r: "fst (HandleMessage env time_ok now gatewayID data db) = db'"
    using message_cases by blast
  from u obtain k g where k: "ul_cast (de_uuid env) i = Some k" "ul_cast (de_uuid env) gatewayID = Some g"
    and st: "st \<in> {StatusDeployed, StatusUndeployed}" and rows: "db_deployments db' = db_deployments db"
    by (auto simp: UpdateStatus_Inr)
  have "current db' = (\<lambda>t. case current db t of
      Some (j, old) \<Rightarrow> Some (j, if j = k \<and> snd (snd t) = g then st else old) | None \<Rightarrow> None)"
    using update_status_current[OF ok u k] by (intro ext) simp
  then have "lifecycle (current db) (current db')" using acknowledge[OF st, of "current db" k g] by simp
  then show ?thesis using update_status_ok[OF ok u] rows r by (simp add: good_step_def deployments_for_def)
qed

lemma activate_good:
  assumes "db_ok db'" and "db_deployments db' = db_deployments db" and "current db' = (current db)(t \<mapsto> (i, StatusDeployed))"
  shows "good_step db db'"
  using assms by (simp add: good_step_def lifecycle.activate deployments_for_def)

lemma deactivate_good:
  assumes "db_ok db'" and "db_deployments db' = db_deployments db" and "current db t = Some (i, StatusDeployed)"
    and "current db' = (current db)(t \<mapsto> (i, StatusUndeployed))"
  shows "good_step db db'"
  using assms by (simp add: good_step_def lifecycle.deactivate deployments_for_def)

lemma artifact_clear_base [simp]: "dp_ArtifactUUID (clear_base i d) = dp_ArtifactUUID d"
  by (simp add: clear_base_def)

lemma delete_frame:
  "dp_ArtifactUUID ` set (db_deployments (delete_deployment i db)) \<subseteq> dp_ArtifactUUID ` set (db_deployments db)"
  "db_artifacts (delete_deployment i db) = db_artifacts db"
  by (auto simp: delete_deployment_eq)

lemma fold_delete_frame:
  "dp_ArtifactUUID ` set (db_deployments (fold delete_deployment is db)) \<subseteq> dp_ArtifactUUID ` set (db_deployments db)"
  "db_artifacts (fold delete_deployment is db) = db_artifacts db"
proof (induction "is" arbitrary: db)
  case (Cons i "is")
  { case 1 show ?case using Cons(1)[of "delete_deployment i db"] delete_frame(1)[of i db] by auto }
  { case 2 show ?case using Cons(2)[of "delete_deployment i db"] by (simp add: delete_frame) }
qed simp_all

lemma creates_artifacts:
  assumes "creates env db d db'"
  shows "dp_ArtifactUUID ` set (db_deployments db') \<subseteq> dp_ArtifactUUID ` set (db_deployments db) \<union> set (db_artifacts db)"
proof -
  from assms obtain d0 :: Deployment where
    c: "CreateWithLimitEnforcement (se_repo env) (se_newid env) (se_created env) (se_updated env) d0 hard_limit db
      = Inr (d, db')" by (auto simp: creates_def)
  from c obtain room ins where room: "make_room (se_repo env) hard_limit (target d) db = Inr room"
    and ins: "insert_deployment d room = Inr ins" and up: "upsert_status (status_row d) ins = Inr db'"
    by (rule create_Inr)
  have r: "dp_ArtifactUUID ` set (db_deployments room) \<subseteq> dp_ArtifactUUID ` set (db_deployments db)"
    "db_artifacts room = db_artifacts db"
    using make_room_Inr[OF room] fold_delete_frame[of _ db] by auto
  have "db_deployments db' = db_deployments ins" using up by (auto simp: upsert_status_Inr)
  then show ?thesis using ins r by (auto simp: insert_deployment_Inr)
qed

lemma creates_good:
  assumes ok: "db_ok db" and r: "creates env db d db'"
  shows "good_step db db'"
proof -
  note s = creates_steps[OF assms]
  have "length (deployments_for t db') \<le> max 25 (length (deployments_for t db))" for t
    using s(3) s(4)[of t] by (cases "t = target d") auto
  then show ?thesis using s(1,2) creates_artifacts[OF r] by (simp add: good_step_def lifecycle.activate)
qed

lemma delete_good:
  assumes ok: "db_ok db"
    and r: "\<exists>e \<in> set (db_deployments db). db' = delete_deployment (dp_DeploymentID e) db
      \<and> (\<forall>t. current db t \<noteq> Some (dp_DeploymentID e, StatusDeployed))"
  shows "good_step db db'"
proof -
  from r obtain k where k: "db' = delete_deployment k db" "\<forall>t. current db t \<noteq> Some (k, StatusDeployed)"
    by blast
  have "current db' = (\<lambda>t. case current db t of
      Some (j, st) \<Rightarrow> if j = k then None else Some (j, st) | None \<Rightarrow> None)"
    unfolding k(1) using current_delete[OF ok] by (intro ext)
  then have "lifecycle (current db) (current db')" using lifecycle.forget[OF k(2)] by simp
  moreover have "length (deployments_for t db') \<le> length (deployments_for t db)" for t
    using deployments_for_delete[of t "[k]" db] k(1) by simp (metis length_filter_le length_map)
  moreover have "dp_ArtifactUUID ` set (db_deployments db') \<subseteq> dp_ArtifactUUID ` set (db_deployments db) \<union> set (db_artifacts db)"
    using delete_frame(1)[of k db] k(1) by auto
  ultimately show ?thesis using delete_ok[OF ok, of k] k(1) by (simp add: good_step_def le_max_iff_disj)
qed

text \<open>An operation is a good step when its successes are and its errors change nothing.\<close>

lemma outcome_good:
  assumes "db_ok (sv_db st)"
    and "\<And>st' e. f = (st', Inl e) \<Longrightarrow> st' = st"
    and "\<And>st' d. f = (st', Inr d) \<Longrightarrow> good_step (sv_db st) (sv_db st')"
  shows "good_step (sv_db st) (sv_db (fst f))"
proof (cases f)
  case (Pair st' r)
  show ?thesis
  proof (cases r)
    case (Inl e)
    then show ?thesis using assms(2)[of st' e] Pair good_step_refl[OF assms(1)] by simp
  next
    case (Inr d)
    then show ?thesis using assms(3)[of st' d] Pair by simp
  qed
qed

lemma provider_exec_good:
  assumes ok: "db_ok (sv_db st)"
  shows "good_step (sv_db st) (sv_db (fst (DeployLLMProvider env i req org st)))"
    and "uuid_laws (de_uuid (se_repo env)) \<Longrightarrow>
      good_step (sv_db st) (sv_db (fst (UndeployLLMProviderDeployment env i j g org st)))"
    and "uuid_laws (de_uuid (se_repo env)) \<Longrightarrow>
      good_step (sv_db st) (sv_db (fst (RestoreLLMProviderDeployment env i j g org st)))"
    and "uuid_laws (de_uuid (se_repo env)) \<Longrightarrow>
      good_step (sv_db st) (sv_db (fst (DeleteLLMProviderDeployment env i j org st)))"
proof -
  show "good_step (sv_db st) (sv_db (fst (DeployLLMProvider env i req org st)))"
    by (rule outcome_good[OF ok errors_change_nothing(1) creates_good[OF ok deploy_creates]])
  assume laws: "uuid_laws (de_uuid (se_repo env))"
  show "good_step (sv_db st) (sv_db (fst (UndeployLLMProviderDeployment env i j g org st)))"
    by (rule outcome_good[OF ok errors_change_nothing(2)], assumption)
      (rule deactivate_good[OF undeploy_steps[OF laws ok]])
  show "good_step (sv_db st) (sv_db (fst (RestoreLLMProviderDeployment env i j g org st)))"
    by (rule outcome_good[OF ok errors_change_nothing(3)], assumption)
      (rule activate_good[OF restore_steps(1,2,4)[OF laws ok]])
  show "good_step (sv_db st) (sv_db (fst (DeleteLLMProviderDeployment env i j org st)))"
    by (rule outcome_good[OF ok errors_change_nothing(4)], assumption)
      (rule delete_good[OF ok delete_steps[OF laws ok]])
qed

lemma proxy_exec_good:
  assumes ok: "db_ok (sv_db st)"
  shows "good_step (sv_db st) (sv_db (fst (DeployLLMProxy env i req org st)))"
    and "uuid_laws (de_uuid (pe_repo env)) \<Longrightarrow>
      good_step (sv_db st) (sv_db (fst (UndeployLLMProxyDeployment env i j g org st)))"
    and "uuid_laws (de_uuid (pe_repo env)) \<Longrightarrow>
      good_step (sv_db st) (sv_db (fst (RestoreLLMProxyDeployment env i j g org st)))"
    and "uuid_laws (de_uuid (pe_repo env)) \<Longrightarrow>
      good_step (sv_db st) (sv_db (fst (DeleteLLMProxyDeployment env i j org st)))"
proof -
  show "good_step (sv_db st) (sv_db (fst (DeployLLMProxy env i req org st)))"
    by (rule outcome_good[OF ok errors_change_nothing(5) creates_good[OF ok proxy_deploy_creates]])
  assume laws: "uuid_laws (de_uuid (pe_repo env))"
  show "good_step (sv_db st) (sv_db (fst (UndeployLLMProxyDeployment env i j g org st)))"
    by (rule outcome_good[OF ok errors_change_nothing(6)], assumption)
      (rule deactivate_good[OF proxy_undeploy_steps[OF laws ok]])
  show "good_step (sv_db st) (sv_db (fst (RestoreLLMProxyDeployment env i j g org st)))"
    by (rule outcome_good[OF ok errors_change_nothing(7)], assumption)
      (rule activate_good[OF proxy_restore_steps(1,2,4)[OF laws ok]])
  show "good_step (sv_db st) (sv_db (fst (DeleteLLMProxyDeployment env i j org st)))"
    by (rule outcome_good[OF ok errors_change_nothing(8)], assumption)
      (rule delete_good[OF ok proxy_delete_steps[OF laws ok]])
qed

lemma exec_good:
  assumes law: "lawful_op op" and ok: "db_ok (sv_db st)"
  shows "good_step (sv_db st) (sv_db (deploy_exec op st))"
  using law provider_exec_good[OF ok] proxy_exec_good[OF ok] message_good[OF ok] by (cases op) simp_all

text \<open>The service keeps the tables in order and every target within the limit of 25 deployments.\<close>

definition service_inv :: "deploy_state \<Rightarrow> bool" where
  "service_inv st \<longleftrightarrow> db_ok (sv_db st) \<and> (\<forall>t. length (deployments_for t (sv_db st)) \<le> 25)"

interpretation deploy_system: guarded_system deploy_exec lawful_op service_inv
proof unfold_locales
  fix op st
  assume "lawful_op op" and inv: "service_inv st"
  then have g: "good_step (sv_db st) (sv_db (deploy_exec op st))"
    by (intro exec_good) (simp_all add: service_inv_def)
  have "length (deployments_for t (sv_db (deploy_exec op st))) \<le> 25" for t
  proof -
    have "length (deployments_for t (sv_db (deploy_exec op st)))
        \<le> max 25 (length (deployments_for t (sv_db st)))" using g unfolding good_step_def by blast
    moreover have "length (deployments_for t (sv_db st)) \<le> 25" using inv unfolding service_inv_def by blast
    ultimately show ?thesis by simp
  qed
  then show "service_inv (deploy_exec op st)" using g by (simp add: service_inv_def good_step_def)
qed

end
