(* ===== verification/DeployProperties.thy ===== *)
theory DeployProperties
  imports DeployLifecycle
begin

text \<open>
  What deploying LLM providers and proxies promises: the invariants of the tables over every sequence of
  operations, the refinement of the abstract life cycle, the effect of each operation, and the
  configuration that is generated; each with a concrete instance where it has hypotheses.
\<close>

section \<open>A service to look at\<close>

text \<open>A reading of UUIDs that satisfies the laws: the number of characters.\<close>

definition unary_uuids :: uuid_lib where
  "unary_uuids = \<lparr>ul_parse = (\<lambda>s. Some (of_nat (length s))), ul_show = (\<lambda>u. replicate (unat u) (CHR ''x'')),
     ul_cast = (\<lambda>s. Some (of_nat (length s)))\<rparr>"

lemma unary_laws: "uuid_laws unary_uuids"
  by (simp add: uuid_laws_def unary_uuids_def)

definition sample_provider :: LLMProvider where
  "sample_provider = \<lparr>pv_UUID = 1, pv_TemplateHandle = ''openai'', pv_ModelList = [],
     pv_Configuration = \<lparr>cf_Name = ''n'', cf_Handle = ''p'', cf_Version = ''v1'', cf_Context = None, cf_VHost = None,
       cf_Template = ''openai'', cf_Upstream = Some \<lparr>uc_Main = Some \<lparr>ue_URL = ''https://u'', ue_Ref = [], ue_Auth = None\<rparr>, uc_Sandbox = None\<rparr>,
       cf_AccessControl = None, cf_RateLimiting = None, cf_Policies = [], cf_Security = None\<rparr>,
     pv_ArtifactHandle = ''p''\<rparr>"

definition sample_env :: "uuid \<Rightarrow> service_env" where
  "sample_env newid = \<lparr>se_repo = \<lparr>de_uuid = unary_uuids, de_fault = (\<lambda>_. None)\<rparr>,
     se_providers = [(''o'', sample_provider)], se_gateways = [(2, ''o'')], se_yaml = (\<lambda>_. Inr ''yaml''),
     se_newid = newid, se_created = uint newid, se_updated = uint newid, se_performedAt = ''t'',
     se_correlationID = ''c'', se_timestamp = ''t'', se_now = 5, se_answers = (\<lambda>_. None)\<rparr>"

definition empty_state :: deploy_state where
  "empty_state = \<lparr>sv_db = \<lparr>db_deployments = [], db_status = [], db_artifacts = [1], db_gateways = [2]\<rparr>,
     sv_manager = None\<rparr>"

definition sample_request :: DeployAPIRequest where
  "sample_request = \<lparr>rq_Name = ''d'', rq_Base = ''current'', rq_GatewayID = ''xx'', rq_Metadata = None\<rparr>"

abbreviation deploy_sample :: "uuid \<Rightarrow> deploy_op" where
  "deploy_sample i \<equiv> OpDeploy (sample_env i) ''x'' sample_request ''o''"

definition deployed_state :: deploy_state where
  "deployed_state = fold deploy_exec [deploy_sample 3, deploy_sample 4] empty_state"

lemma sample_lawful [simp]: "uuid_laws (de_uuid (se_repo (sample_env i)))"
  by (simp add: sample_env_def unary_laws)

lemma empty_state_inv: "service_inv empty_state"
  by (simp add: service_inv_def db_ok_def empty_state_def deployments_for_def)

lemma deployed_state_inv: "service_inv deployed_state"
  unfolding deployed_state_def by (rule deploy_system.legal_run[OF _ empty_state_inv]) simp

lemma deployed_state_ok: "db_ok (sv_db deployed_state)"
  using deployed_state_inv by (simp add: service_inv_def)

lemma sample_yaml: "generateLLMProviderDeploymentYAML (\<lambda>_. Inr ''yaml'') (Some sample_provider) = Inr ''yaml''"
  by code_simp

lemmas sample_defs = sample_env_def unary_uuids_def sample_request_def parses_def shows_uuid_def
  statement_def cast_uuid_def first_row_def

definition sample_deployment :: "uuid \<Rightarrow> Deployment" where
  "sample_deployment i = \<lparr>dp_DeploymentID = i, dp_Name = ''d'', dp_ArtifactUUID = 1,
     dp_OrganizationName = ''o'', dp_GatewayUUID = 2, dp_BaseDeploymentID = None, dp_Content = ''yaml'',
     dp_Metadata = None, dp_CreatedAt = 0, dp_Status = Some StatusDeployed, dp_UpdatedAt = None\<rparr>"

lemma sample_found: "get_provider (sample_env i) ''x'' ''o'' = Inr sample_provider"
  by (simp add: get_provider_def resolveProvider_def provider_GetByUUID_def sample_defs)
    (simp add: sample_provider_def)

lemma sample_new:
  "new_deployment (sample_env i) ''x'' sample_request ''o'' db = Inr (sample_deployment i)"
proof -
  have "current_content (sample_env i) sample_provider = Inr ''yaml''"
    using sample_yaml by (simp add: current_content_def sample_env_def) (simp add: sample_provider_def)
  then have "deployment_source (sample_env i) sample_provider ''current'' ''o'' db = Inr (None, ''yaml'')"
    by (simp add: deployment_source_def)
  moreover have "parses (sample_env i) ''xx'' = Some 2" by (simp add: sample_defs)
  moreover have "gateway_GetByUUID (sample_env i) ''xx'' = Inr ''o''"
    by (simp add: gateway_GetByUUID_def sample_defs)
  moreover have "pv_UUID sample_provider = 1" by (simp add: sample_provider_def)
  ultimately show ?thesis using sample_found
    by (simp add: new_deployment_def sample_deployment_def sample_request_def) (simp add: sample_env_def)
qed

definition stored :: "uuid \<Rightarrow> Deployment" where
  "stored i = (sample_deployment i)\<lparr>dp_CreatedAt := uint i, dp_Status := None\<rparr>"

definition sample_status :: "uuid \<Rightarrow> StatusRecord" where
  "sample_status i = \<lparr>sr_ArtifactUUID = 1, sr_OrganizationName = ''o'', sr_GatewayUUID = 2,
     sr_DeploymentID = i, sr_Status = StatusDeployed, sr_UpdatedAt = uint i\<rparr>"

lemma env_fields [simp]:
  "se_newid (sample_env i) = i" "se_created (sample_env i) = uint i" "se_updated (sample_env i) = uint i"
  "de_fault (se_repo (sample_env i)) = (\<lambda>_. None)"
  by (simp_all add: sample_env_def)

lemma sample_exec:
  assumes "i \<noteq> 0" "i \<notin> ids (sv_db st)" "1 \<in> set (db_artifacts (sv_db st))" "2 \<in> set (db_gateways (sv_db st))"
    and "length (deployments_for (1, ''o'', 2) (sv_db st)) < 25"
  shows "\<exists>d. DeployLLMProvider (sample_env i) ''x'' sample_request ''o'' st =
      (deploy_exec (deploy_sample i) st, Inr d) \<and> dp_DeploymentID d = i \<and> target d = (1, ''o'', 2)"
    and "sv_db (deploy_exec (deploy_sample i) st) = (sv_db st)\<lparr>db_deployments := db_deployments (sv_db st) @ [stored i],
      db_status := upsert_row (sample_status i) (db_status (sv_db st))\<rparr>"
proof -
  let ?d = "prepared i (uint i) (uint i) (sample_deployment i)"
  let ?db = "(sv_db st)\<lparr>db_deployments := db_deployments (sv_db st) @ [stored i],
      db_status := upsert_row (sample_status i) (db_status (sv_db st))\<rparr>"
  have t: "target ?d = (1, ''o'', 2)" "dp_DeploymentID ?d = i"
    by (simp_all add: sample_deployment_def target_def prepared_def)
  have "CreateWithLimitEnforcement (se_repo (sample_env i)) i (uint i) (uint i) (sample_deployment i) hard_limit
      (sv_db st) = Inr (?d, ?db)"
    using assms t by (auto simp: CreateWithLimitEnforcement_def Let_def make_room_def hard_limit_def
      insert_deployment_def upsert_status_def statement_def sample_deployment_def prepared_def stored_def
      sample_status_def ids_def)
  then have r: "DeployLLMProvider (sample_env i) ''x'' sample_request ''o'' st = (\<lparr>sv_db = ?db,
      sv_manager = announce (sample_env i) (rq_GatewayID sample_request) ''llmprovider.deployed''
        (deployment_event (sample_env i) ''x'' (shows_uuid (sample_env i) i) (rq_GatewayID sample_request) ''o'')
        (sv_manager st)\<rparr>, Inr ?d)"
    by (simp add: DeployLLMProvider_def sample_new)
  show "\<exists>d. DeployLLMProvider (sample_env i) ''x'' sample_request ''o'' st =
      (deploy_exec (deploy_sample i) st, Inr d) \<and> dp_DeploymentID d = i \<and> target d = (1, ''o'', 2)"
    using r t by simp
  show "sv_db (deploy_exec (deploy_sample i) st) = ?db" using r by simp
qed

lemma deployed_db:
  "sv_db deployed_state = \<lparr>db_deployments = [stored 3, stored 4], db_status = [sample_status 4],
     db_artifacts = [1], db_gateways = [2]\<rparr>"
proof -
  have one: "sv_db (deploy_exec (deploy_sample 3) empty_state) = \<lparr>db_deployments = [stored 3],
     db_status = [sample_status 3], db_artifacts = [1], db_gateways = [2]\<rparr>"
    by (subst sample_exec(2)) (simp_all add: empty_state_def ids_def deployments_for_def upsert_row_def)
  show ?thesis unfolding deployed_state_def
    by (simp del: deploy_exec.simps, subst sample_exec(2))
     (simp_all add: one ids_def deployments_for_def upsert_row_def stored_def sample_deployment_def
        sample_status_def status_key_def del: deploy_exec.simps)
qed

lemma sample_current: "current (sv_db deployed_state) (1, ''o'', 2) = Some (4, StatusDeployed)"
  by (simp add: current_def deployed_db sample_status_def status_key_def)

lemma sample_undeploys:
  "\<exists>st d. UndeployLLMProviderDeployment (sample_env 5) ''x'' ''xxxx'' ''xx'' ''o'' deployed_state = (st, Inr d)"
proof -
  have "GetWithState (se_repo (sample_env 5)) 3 ''xxxx'' ''x'' ''o'' (sv_db deployed_state)
      = Inr ((stored 4)\<lparr>dp_Status := Some StatusDeployed, dp_UpdatedAt := Some 4, dp_Content := []\<rparr>)"
    by (simp add: GetWithState_def statement_def cast_uuid_def find_deployment_def deployed_db with_state_def joined_def)
      (simp add: sample_env_def unary_uuids_def stored_def sample_deployment_def sample_status_def status_key_def
        target_def archived_if_null_def scan_row_def)
  moreover have "\<exists>db. SetCurrent (se_repo (sample_env 5)) 4 (uint (5 :: uuid)) ''x'' ''o'' ''xx'' ''xxxx'' StatusUndeployed
      (sv_db deployed_state) = Inr (5, db)"
    by (simp add: SetCurrent_def statement_def parse_uuid_def upsert_status_def deployed_db ids_def)
      (simp add: sample_env_def unary_uuids_def stored_def sample_deployment_def ids_def)
  moreover have two: "replicate 2 c = [c, c]" for c :: char by (simp add: numeral_2_eq_2)
  have "shows_uuid (sample_env 5) (dp_GatewayUUID (stored 4)) = ''xx''"
    "shows_uuid (sample_env 5) (pv_UUID sample_provider) = ''x''"
    by (simp_all add: sample_defs stored_def sample_deployment_def sample_provider_def two)
  ultimately show ?thesis
    by (auto simp: UndeployLLMProviderDeployment_def sample_found Let_def)
qed

lemma words: "replicate 2 c = [c, c]" "replicate 3 c = [c, c, c]" "replicate 4 c = [c, c, c, c]" for c :: char
  by (simp_all add: numeral_eq_Suc)

lemma sample_ids:
  "shows_uuid (sample_env i) (dp_GatewayUUID (stored j)) = ''xx''"
  "shows_uuid (sample_env i) (pv_UUID sample_provider) = ''x''"
  "cast_uuid (se_repo (sample_env i)) s = Inr (of_nat (length s))"
  by (simp_all add: sample_defs stored_def sample_deployment_def sample_provider_def words)

lemma sample_restores:
  "\<exists>st d. RestoreLLMProviderDeployment (sample_env 5) ''x'' ''xxx'' ''xx'' ''o'' deployed_state = (st, Inr d)"
proof -
  have "GetWithContent (se_repo (sample_env 5)) 3 ''xxx'' ''x'' ''o'' (sv_db deployed_state) = Inr (stored 3)"
    by (simp add: GetWithContent_def statement_def sample_ids find_deployment_def deployed_db)
      (simp add: stored_def sample_deployment_def)
  moreover have "GetStatus (se_repo (sample_env 5)) 4 ''x'' ''o'' ''xx'' (sv_db deployed_state)
      = Inr (''xxxx'', StatusDeployed, 4)"
    by (simp add: GetStatus_def statement_def sample_ids deployed_db status_key_def sample_status_def)
      (simp add: sample_env_def unary_uuids_def words)
  moreover have "\<exists>db. SetCurrent (se_repo (sample_env 5)) 5 (uint (5 :: uuid)) ''x'' ''o'' ''xx'' ''xxx'' StatusDeployed
      (sv_db deployed_state) = Inr (5, db)"
    by (simp add: SetCurrent_def statement_def parse_uuid_def upsert_status_def deployed_db ids_def)
      (simp add: sample_env_def unary_uuids_def stored_def sample_deployment_def ids_def)
  ultimately show ?thesis
    by (auto simp: RestoreLLMProviderDeployment_def sample_found Let_def sample_ids)
qed

lemma sample_deletes:
  "\<exists>st. DeleteLLMProviderDeployment (sample_env 5) ''x'' ''xxx'' ''o'' deployed_state = (st, Inr ())"
proof -
  have row: "find_deployment 3 1 ''o'' (sv_db deployed_state) = Some (stored 3)"
    by (simp add: find_deployment_def deployed_db) (simp add: stored_def sample_deployment_def)
  then have "\<exists>db. repo_Delete (se_repo (sample_env 5)) 4 ''xxx'' ''x'' ''o'' (sv_db deployed_state) = Inr db"
    by (simp add: repo_Delete_def statement_def sample_ids)
  moreover have "joined (sv_db deployed_state) (stored 3) = None"
    by (simp add: joined_def deployed_db sample_status_def stored_def sample_deployment_def)
  then have "\<exists>d. GetWithState (se_repo (sample_env 5)) 3 ''xxx'' ''x'' ''o'' (sv_db deployed_state) = Inr d
      \<and> dp_Status d = Some StatusArchived"
    using row by (simp add: GetWithState_def statement_def sample_ids scan_row_def with_state_def archived_if_null_def)
  ultimately show ?thesis
    by (auto simp: DeleteLLMProviderDeployment_def sample_found Let_def sample_ids status_defs)
qed

section \<open>A proxy to look at\<close>

text \<open>A proxy in front of the provider above, with its own artifact.\<close>

definition sample_proxy :: proxyWithArtifact where
  "sample_proxy = \<lparr>pa_UUID = 6, pa_ArtifactHandle = ''px'', pa_ArtifactOrg = ''o'',
     pa_Configuration = \<lparr>xc_Name = ''n'', xc_Version = ''v1'', xc_Context = None, xc_Vhost = None, xc_Provider = ''x'',
       xc_UpstreamAuth = None, xc_Policies = [], xc_Security = None\<rparr>\<rparr>"

definition sample_proxy_env :: "uuid \<Rightarrow> proxy_env" where
  "sample_proxy_env newid = \<lparr>pe_service = sample_env newid, pe_proxies = [sample_proxy], pe_yaml = (\<lambda>_. Inr ''yaml'')\<rparr>"

definition proxy_state :: deploy_state where
  "proxy_state = \<lparr>sv_db = \<lparr>db_deployments = [], db_status = [], db_artifacts = [1, 6], db_gateways = [2]\<rparr>,
     sv_manager = None\<rparr>"

definition proxy_deployment :: Deployment where
  "proxy_deployment = (sample_deployment 3)\<lparr>dp_ArtifactUUID := 6\<rparr>"

lemma proxy_env_fields [simp]: "pe_service (sample_proxy_env i) = sample_env i"
  by (simp add: sample_proxy_env_def)

lemma sample_proxy_found: "get_proxy (sample_proxy_env i) ''px'' ''o'' = Inr sample_proxy"
  by (simp add: get_proxy_def proxy_GetByID_def sample_defs) (simp add: sample_proxy_env_def sample_proxy_def)

lemma sample_proxy_yaml: "generateLLMProxyDeploymentYAML (sample_proxy_env i) (Some sample_proxy) ''o'' = Inr ''yaml''"
proof -
  have "provider_GetByUUID (sample_env i) ''x'' ''o'' = Inr sample_provider"
    by (simp add: provider_GetByUUID_def sample_defs) (simp add: sample_provider_def)
  then have "\<exists>doc. proxy_document (sample_proxy_env i) sample_proxy ''o'' = Inr doc"
    by (simp add: proxy_document_def Let_def api_key_policies_def) (simp add: sample_proxy_def)
  then show ?thesis by (auto simp: generateLLMProxyDeploymentYAML_def) (simp add: sample_proxy_env_def)
qed

lemma sample_proxy_new:
  "new_proxy_deployment (sample_proxy_env 3) ''px'' sample_request ''o'' db = Inr (sample_proxy, proxy_deployment)"
proof -
  have "proxy_source (sample_proxy_env 3) sample_proxy ''current'' ''o'' db = Inr (None, ''yaml'')"
    by (simp add: proxy_source_def sample_proxy_yaml)
  moreover have "parses (sample_env 3) ''xx'' = Some 2" by (simp add: sample_defs)
  moreover have "gateway_GetByUUID (sample_env 3) ''xx'' = Inr ''o''"
    by (simp add: gateway_GetByUUID_def sample_defs)
  moreover have "pa_UUID sample_proxy = 6" by (simp add: sample_proxy_def)
  ultimately show ?thesis using sample_proxy_found
    by (simp add: new_proxy_deployment_def proxy_deployment_def sample_deployment_def sample_request_def)
qed

lemma sample_proxy_deploys:
  "\<exists>st d. DeployLLMProxy (sample_proxy_env 3) ''px'' sample_request ''o'' proxy_state = (st, Inr d)
     \<and> dp_DeploymentID d = 3 \<and> target d = (6, ''o'', 2)"
proof -
  let ?d = "prepared 3 3 3 proxy_deployment"
  have t: "target ?d = (6, ''o'', 2)" "dp_DeploymentID ?d = 3"
    by (simp_all add: proxy_deployment_def sample_deployment_def target_def prepared_def)
  moreover have "\<exists>db. CreateWithLimitEnforcement (se_repo (sample_env 3)) 3 3 3 proxy_deployment hard_limit
      (sv_db proxy_state) = Inr (?d, db)"
    using t by (auto simp: CreateWithLimitEnforcement_def Let_def make_room_def hard_limit_def proxy_state_def
      insert_deployment_def upsert_status_def statement_def deployments_for_def ids_def)
     (auto simp: proxy_deployment_def sample_deployment_def prepared_def)
  ultimately show ?thesis by (auto simp: DeployLLMProxy_def Let_def sample_proxy_new)
qed

section \<open>The tables over time\<close>

text \<open>C32. Whatever the sequence of deployments, undeployments, restores, deletions of providers and proxies and
  of gateway messages, with whatever failing statements, deployment ids stay unique, a target has at most one status row, which
  is DEPLOYED or UNDEPLOYED and refers to a deployment of that very target, bases exist, and no target has
  more than 25 deployments.\<close>

theorem deployments_stay_consistent:
  assumes "list_all lawful_op ops" and "db_deployments (sv_db st) = []" "db_status (sv_db st) = []"
  shows "let db = sv_db (fold deploy_exec ops st) in
    distinct (map dp_DeploymentID (db_deployments db)) \<and> distinct (map status_key (db_status db))
    \<and> (\<forall>s \<in> set (db_status db). sr_Status s \<in> {StatusDeployed, StatusUndeployed}
        \<and> (\<exists>d \<in> set (db_deployments db). dp_DeploymentID d = sr_DeploymentID s \<and> target d = status_key s))
    \<and> (\<forall>d \<in> set (db_deployments db). \<forall>b. dp_BaseDeploymentID d = Some b \<longrightarrow> b \<in> ids db)
    \<and> (\<forall>t. length (deployments_for t db) \<le> 25)"
proof -
  have "service_inv st" using assms(2,3) by (simp add: service_inv_def db_ok_def deployments_for_def)
  from deploy_system.legal_run[OF assms(1) this] show ?thesis
    unfolding service_inv_def db_ok_def status_ok_def Let_def by fastforce
qed

theorem deployments_stay_consistent_witness:
  "length (deployments_for (1, ''o'', 2) (sv_db deployed_state)) \<le> 25"
  using deployments_stay_consistent[of "[deploy_sample 3, deploy_sample 4]" empty_state]
  unfolding deployed_state_def Let_def by (simp add: empty_state_def del: fold_simps deploy_exec.simps)

text \<open>C33. Every operation of the provider and the proxy service and every gateway message, successful or
  not, is a step of the abstract life cycle on the current deployments: the tables refine it.\<close>

theorem operations_refine_life_cycle:
  assumes "lawful_op op" and "db_ok (sv_db st)"
  shows "lifecycle (current (sv_db st)) (current (sv_db (deploy_exec op st)))"
  using exec_good[OF assms] by (simp add: good_step_def)

theorem operations_refine_life_cycle_witness:
  "lifecycle (current (sv_db deployed_state)) (current (sv_db (deploy_exec
     (OpUndeploy (sample_env 5) ''x'' ''xxxx'' ''xx'' ''o'') deployed_state)))"
  by (rule operations_refine_life_cycle[OF _ deployed_state_ok]) simp

text \<open>An operation of either service that reports an error has changed neither the tables nor the connections, also when
  a statement in the middle of its transaction failed.\<close>

theorem failed_operations_change_nothing:
  "(case DeployLLMProvider env providerID req org st of (st', Inl e) \<Rightarrow> st' = st | _ \<Rightarrow> True)
   \<and> (case UndeployLLMProviderDeployment env providerID deploymentID gatewayID org st of
        (st', Inl e) \<Rightarrow> st' = st | _ \<Rightarrow> True)
   \<and> (case RestoreLLMProviderDeployment env providerID deploymentID gatewayID org st of
        (st', Inl e) \<Rightarrow> st' = st | _ \<Rightarrow> True)
   \<and> (case DeleteLLMProviderDeployment env providerID deploymentID org st of (st', Inl e) \<Rightarrow> st' = st | _ \<Rightarrow> True)
   \<and> (case DeployLLMProxy penv proxyID req org st of (st', Inl e) \<Rightarrow> st' = st | _ \<Rightarrow> True)
   \<and> (case UndeployLLMProxyDeployment penv proxyID deploymentID gatewayID org st of
        (st', Inl e) \<Rightarrow> st' = st | _ \<Rightarrow> True)
   \<and> (case RestoreLLMProxyDeployment penv proxyID deploymentID gatewayID org st of
        (st', Inl e) \<Rightarrow> st' = st | _ \<Rightarrow> True)
   \<and> (case DeleteLLMProxyDeployment penv proxyID deploymentID org st of (st', Inl e) \<Rightarrow> st' = st | _ \<Rightarrow> True)"
  by (intro conjI) (auto split: prod.split sum.split dest: errors_change_nothing)

section \<open>The operations\<close>

text \<open>C34. A successful deployment of a provider or a proxy puts the new deployment, DEPLOYED, in charge of its target and of nothing
  else. It removes deployments only of that target, only when the target has 25 of them, and only archived
  ones of which no older one stays.\<close>

theorem deploying_takes_over:
  assumes "db_ok (sv_db st)"
    and "DeployLLMProvider env ref req org st = (st', Inr d) \<or> DeployLLMProxy penv ref req org st = (st', Inr d)"
    and "dp_DeploymentID d \<notin> ids (sv_db st)"
  shows "current (sv_db st') = (current (sv_db st))(target d \<mapsto> (dp_DeploymentID d, StatusDeployed))
    \<and> (\<forall>e \<in> set (db_deployments (sv_db st)). dp_DeploymentID e \<in> ids (sv_db st')
        \<or> (target e = target d \<and> joined (sv_db st) e = None
            \<and> 25 \<le> length (deployments_for (target d) (sv_db st))
            \<and> (\<forall>e' \<in> set (deployments_for (target d) (sv_db st)). joined (sv_db st) e' = None
                \<and> dp_DeploymentID e' \<in> ids (sv_db st') \<longrightarrow> dp_CreatedAt e \<le> dp_CreatedAt e')))"
proof -
  obtain sv where c: "creates sv (sv_db st) d (sv_db st')"
    using assms(2) deploy_creates proxy_deploy_creates by blast
  show ?thesis using creates_steps(2)[OF assms(1) c] creates_removes[OF assms(1) c assms(3)] by blast
qed

theorem deploying_takes_over_witness:
  "current (sv_db (deploy_exec (deploy_sample 3) empty_state)) (1, ''o'', 2) = Some (3, StatusDeployed)
   \<and> current (sv_db (deploy_exec (OpProxyDeploy (sample_proxy_env 3) ''px'' sample_request ''o'') proxy_state))
       (6, ''o'', 2) = Some (3, StatusDeployed)"
proof
  obtain d :: Deployment where d: "DeployLLMProvider (sample_env 3) ''x'' sample_request ''o'' empty_state =
      (deploy_exec (deploy_sample 3) empty_state, Inr d)" "dp_DeploymentID d = 3" "target d = (1, ''o'', 2)"
    using sample_exec(1)[of 3 empty_state] by (auto simp: empty_state_def ids_def deployments_for_def)
  have "db_ok (sv_db empty_state)" using empty_state_inv by (simp add: service_inv_def)
  then show "current (sv_db (deploy_exec (deploy_sample 3) empty_state)) (1, ''o'', 2) = Some (3, StatusDeployed)"
    using deploying_takes_over[OF _ disjI1[OF d(1)]] d by (simp add: ids_def empty_state_def)
  obtain st and e :: Deployment where e: "DeployLLMProxy (sample_proxy_env 3) ''px'' sample_request ''o'' proxy_state
      = (st, Inr e)" "dp_DeploymentID e = 3" "target e = (6, ''o'', 2)"
    using sample_proxy_deploys by blast
  have "db_ok (sv_db proxy_state)" by (simp add: db_ok_def proxy_state_def)
  then show "current (sv_db (deploy_exec (OpProxyDeploy (sample_proxy_env 3) ''px'' sample_request ''o'') proxy_state))
       (6, ''o'', 2) = Some (3, StatusDeployed)"
    using deploying_takes_over[OF _ disjI2[OF e(1)]] e by (simp add: ids_def proxy_state_def)
qed

text \<open>Undeploying succeeds only on the deployment in charge of its target, when it is DEPLOYED; it then
  is UNDEPLOYED, and no other target and no deployment is touched.\<close>

theorem undeploying_turns_off:
  assumes "uuid_laws (de_uuid (se_repo env))" and "db_ok (sv_db st)"
    and "UndeployLLMProviderDeployment env providerID deploymentID gatewayID org st = (st', Inr d)"
  shows "current (sv_db st) (target d) = Some (dp_DeploymentID d, StatusDeployed)
    \<and> current (sv_db st') = (current (sv_db st))(target d \<mapsto> (dp_DeploymentID d, StatusUndeployed))
    \<and> db_deployments (sv_db st') = db_deployments (sv_db st)"
  using undeploy_steps[OF assms] by blast

theorem undeploying_turns_off_witness:
  "\<exists>t. current (sv_db (deploy_exec (OpUndeploy (sample_env 5) ''x'' ''xxxx'' ''xx'' ''o'') deployed_state)) t
     = Some (4, StatusUndeployed)"
proof -
  obtain st and d :: Deployment where u: "UndeployLLMProviderDeployment (sample_env 5) ''x'' ''xxxx'' ''xx'' ''o''
      deployed_state = (st, Inr d)"
    using sample_undeploys by blast
  note s = undeploying_turns_off[OF _ deployed_state_ok u]
  have "current (sv_db deployed_state) (target d) = Some (dp_DeploymentID d, StatusDeployed)" using s by simp
  then have "dp_DeploymentID d = 4" by (auto simp: current_def deployed_db sample_status_def split: if_splits)
  then show ?thesis using s u by (intro exI[of _ "target d"]) simp
qed

text \<open>Restoring puts an existing deployment of the target in charge of it again, DEPLOYED; no
  other target and no deployment is touched.\<close>

theorem restoring_takes_over:
  assumes "uuid_laws (de_uuid (se_repo env))" and "db_ok (sv_db st)"
    and "RestoreLLMProviderDeployment env providerID deploymentID gatewayID org st = (st', Inr d)"
  shows "dp_DeploymentID d \<in> set (map dp_DeploymentID (deployments_for (target d) (sv_db st)))
    \<and> current (sv_db st') = (current (sv_db st))(target d \<mapsto> (dp_DeploymentID d, StatusDeployed))
    \<and> db_deployments (sv_db st') = db_deployments (sv_db st)"
  using restore_steps[OF assms] by blast

theorem restoring_takes_over_witness:
  "db_deployments (sv_db (deploy_exec (OpRestore (sample_env 5) ''x'' ''xxx'' ''xx'' ''o'') deployed_state))
   = db_deployments (sv_db deployed_state)"
proof -
  obtain st and d :: Deployment where r: "RestoreLLMProviderDeployment (sample_env 5) ''x'' ''xxx'' ''xx'' ''o''
      deployed_state = (st, Inr d)"
    using sample_restores by blast
  show ?thesis using restoring_takes_over[OF _ deployed_state_ok r] r by simp
qed

text \<open>C35. Deleting, of either service, succeeds only on a deployment that is not DEPLOYED, and removes it and the status row
  that refers to it, nothing else: a running deployment cannot be deleted.\<close>

theorem deleting_spares_deployed:
  assumes "uuid_laws (de_uuid (se_repo env))" and "uuid_laws (de_uuid (pe_repo penv))" and "db_ok (sv_db st)"
    and "DeleteLLMProviderDeployment env ref deploymentID org st = (st', Inr ())
      \<or> DeleteLLMProxyDeployment penv ref deploymentID org st = (st', Inr ())"
  shows "\<exists>i \<in> ids (sv_db st). (\<forall>t. current (sv_db st) t \<noteq> Some (i, StatusDeployed))
    \<and> ids (sv_db st') = ids (sv_db st) - {i}
    \<and> (\<forall>t. current (sv_db st') t = (case current (sv_db st) t of
          Some (j, status) \<Rightarrow> if j = i then None else Some (j, status) | None \<Rightarrow> None))"
proof -
  obtain e where e: "e \<in> set (db_deployments (sv_db st))"
    "sv_db st' = delete_deployment (dp_DeploymentID e) (sv_db st)"
    "\<forall>t. current (sv_db st) t \<noteq> Some (dp_DeploymentID e, StatusDeployed)"
    using assms(4) delete_steps[OF assms(1,3)] proxy_delete_steps[OF assms(2,3)] by blast
  show ?thesis
    using e current_delete[OF assms(3), of "dp_DeploymentID e"]
    by (intro bexI[of _ "dp_DeploymentID e"]) (simp_all add: ids_def[of "sv_db st"])
qed

theorem deleting_spares_deployed_witness:
  "\<exists>i \<in> ids (sv_db deployed_state).
     ids (sv_db (deploy_exec (OpDelete (sample_env 5) ''x'' ''xxx'' ''o'') deployed_state)) = ids (sv_db deployed_state) - {i}"
proof -
  obtain st where r: "DeleteLLMProviderDeployment (sample_env 5) ''x'' ''xxx'' ''o'' deployed_state = (st, Inr ())"
    using sample_deletes by blast
  show ?thesis using deleting_spares_deployed[OF _ _ deployed_state_ok disjI1[OF r], of "sample_proxy_env 5"] r by auto
qed

text \<open>An acknowledgement for a provider or proxy sets the state of the deployment it names where that
  one is in charge of a target on the gateway that sent it, to what the gateway now runs, and changes no
  other target.\<close>

theorem acknowledgement_sets_state:
  assumes "db_ok db" and "decode_ack time_ok payload = Some ack" and "ap_DeploymentID ack \<noteq> []"
    and "ap_ResourceType ack = ''llmprovider'' \<or> ap_ResourceType ack = ''llmproxy''"
    and "ack_status ack = Some status" and "de_fault env 1 = None"
    and "ul_cast (de_uuid env) (ap_DeploymentID ack) = Some i" "ul_cast (de_uuid env) gatewayID = Some g"
    and "current db t0 = Some (i, old)" "snd (snd t0) = g"
  shows "current (handleDeploymentAck env time_ok now gatewayID (Some payload) db) t =
    (case current db t of
       Some (j, st) \<Rightarrow> Some (j, if j = i \<and> snd (snd t) = g then status else st) | None \<Rightarrow> None)"
proof -
  have "status \<in> {StatusDeployed, StatusUndeployed}"
    using assms(5) by (auto simp: ack_status_def split: if_splits)
  moreover have "\<exists>s \<in> set (db_status db). sr_DeploymentID s = i \<and> sr_GatewayUUID s = g"
    using assms(9,10) current_Some[OF assms(1)] by (auto simp: status_key_def)
  ultimately obtain db' where
    u: "UpdateStatusByDeploymentID env 1 now (ap_DeploymentID ack) gatewayID status db = Inr db'"
    using assms(6-8) unfolding UpdateStatus_Inr by blast
  then have "handleDeploymentAck env time_ok now gatewayID (Some payload) db = db'"
    using assms(2-5) by (simp add: handleDeploymentAck_def)
  then show ?thesis using update_status_current[OF assms(1) u assms(7,8)] by simp
qed

definition failed_ack :: json where
  "failed_ack = JObj [(''deploymentId'', JStr ''xxxx''), (''resourceType'', JStr ''llmprovider''),
     (''action'', JStr ''deploy''), (''status'', JStr ''failed'')]"

theorem acknowledgement_sets_state_witness:
  "current (handleDeploymentAck (se_repo (sample_env 5)) (\<lambda>_. True) 9 ''xx'' (Some failed_ack) (sv_db deployed_state))
     (1, ''o'', 2) = Some (4, StatusUndeployed)"
proof -
  let ?ack = "\<lparr>ap_DeploymentID = ''xxxx'', ap_ArtifactID = [], ap_ResourceType = ''llmprovider'',
    ap_Action = ''deploy'', ap_Status = ''failed'', ap_ErrorCode = []\<rparr>"
  have "decode_ack (\<lambda>_. True) failed_ack = Some ?ack" "ack_status ?ack = Some StatusUndeployed"
    by (simp_all add: lower_char_def byte_in_def failed_ack_def string_field_ok_def field_values_def string_field_def ack_status_def)
  moreover have "ul_cast (de_uuid (se_repo (sample_env 5))) s = Some (of_nat (length s))" for s
    by (simp add: sample_env_def unary_uuids_def)
  ultimately show ?thesis
    using acknowledgement_sets_state[OF deployed_state_ok, of "\<lambda>_. True" failed_ack ?ack StatusUndeployed
        "se_repo (sample_env 5)" 4 "''xx''" 2 "(1, ''o'', 2)" StatusDeployed 9 "(1, ''o'', 2)"]
    by (simp add: sample_current)
qed

text \<open>A deployment that does not exist reads as an archived deployment with the nil id: the service
  returns it instead of the error for a missing deployment, which no lookup ever gives.\<close>

theorem missing_deployment_reads_as_archived:
  assumes "get_provider env providerID org = Inr p" and "de_fault (se_repo env) 3 = None"
    and "ul_cast (de_uuid (se_repo env)) deploymentID = Some i"
    and "ul_cast (de_uuid (se_repo env)) (shows_uuid env (pv_UUID p)) = Some a"
    and "find_deployment i a org db = None"
  shows "GetLLMProviderDeployment env providerID deploymentID org db
    = Inr (zero_deployment\<lparr>dp_Status := Some StatusArchived\<rparr>)"
  using assms by (simp add: GetLLMProviderDeployment_def GetWithState_def statement_def cast_uuid_def
      scan_row_def archived_if_null_def zero_deployment_def)

theorem missing_deployment_reads_as_archived_witness:
  "GetLLMProviderDeployment (sample_env 5) ''x'' ''xxxxxxx'' ''o'' (sv_db empty_state)
     = Inr (zero_deployment\<lparr>dp_Status := Some StatusArchived\<rparr>)"
  by (rule missing_deployment_reads_as_archived[where i = 7 and a = 1, OF sample_found])
    (simp_all add: sample_ids, simp_all add: sample_env_def unary_uuids_def find_deployment_def empty_state_def)

section \<open>The generated configuration\<close>

text \<open>Adding a path to a policy keeps one policy per name and version and no path twice: the path is
  appended under its policy unless an equal one is there, every other policy keeps its paths, and adding it
  again changes nothing.\<close>

theorem adding_policy_paths:
  assumes "path_ok path"
  shows "let ps' = addOrAppendPolicyPath ps n v path in
    paths_under ps' n v = (if list_ex (\<lambda>x. pathsAreEqual x path) (paths_under ps n v) then paths_under ps n v
        else paths_under ps n v @ [path])
    \<and> (\<forall>n' v'. (n', v') \<noteq> (n, v) \<longrightarrow> paths_under ps' n' v' = paths_under ps n' v')
    \<and> map (\<lambda>p. (po_Name p, po_Version p)) ps' = (let ks = map (\<lambda>p. (po_Name p, po_Version p)) ps in
        if (n, v) \<in> set ks then ks else ks @ [(n, v)])
    \<and> addOrAppendPolicyPath ps' n v path = ps'"
  unfolding Let_def using add_path_under add_path_others add_path_names add_path_idem[OF assms] by simp

definition sample_path :: LLMPolicyPath where
  "sample_path = \<lparr>pp_Path = ''/chat'', pp_Methods = [''POST'', ''GET''], pp_Params = [(''in'', VStr ''header'')]\<rparr>"

theorem adding_policy_paths_witness:
  "addOrAppendPolicyPath (addOrAppendPolicyPath [] ''api-key-auth'' ''v1'' sample_path) ''api-key-auth'' ''v1'' sample_path
   = addOrAppendPolicyPath [] ''api-key-auth'' ''v1'' sample_path"
proof -
  have "path_ok sample_path" by (simp add: path_ok_def sample_path_def)
  from adding_policy_paths[OF this, of "[]"] show ?thesis unfolding Let_def by blast
qed

text \<open>The duration of a rate limit is the requested number of hours, days, weeks or 30-day months in
  hours, as long as that number of hours fits in 64 bits.\<close>

theorem rate_limit_durations:
  assumes "to_lower (trim_space u) \<in> {''hour'', ''day'', ''week'', ''month''}"
    and "0 < d" and "d * hours_in (to_lower (trim_space u)) \<le> max_int64"
  shows "formatRateLimitDuration d u = Inr (show_int (d * hours_in (to_lower (trim_space u))) @ ''h'')"
  by (rule duration_hours[OF assms])

theorem rate_limit_durations_witness: "formatRateLimitDuration 2 '' Week '' = Inr ''336h''"
proof -
  have "to_lower (trim_space '' Week '') = ''week''" "hours_in ''week'' = 168" "show_int 336 = ''336''" by code_simp+
  then show ?thesis using rate_limit_durations[of "'' Week ''" 2] by (simp add: max_int64_def)
qed

text \<open>Normalising a policy version to its major version is idempotent, whatever the text.\<close>

theorem version_normalisation_idempotent:
  "normalizePolicyVersionToMajor (normalizePolicyVersionToMajor s) = normalizePolicyVersionToMajor s"
  by (rule normalize_idem)

end
