(* ===== verification/MonitorStore.thy ===== *)
theory MonitorStore
  imports DeployRepo
begin

text \<open>
  The monitor repository (\<open>agent-manager-service/repositories/monitor_repository.go\<close>, rows of
  \<open>models/monitor.go\<close>) and the repository of the LLM proxies of monitors
  (\<open>monitor_llm_mapping_repository.go\<close>), on the tables \<open>monitors\<close>, \<open>monitor_runs\<close>,
  \<open>monitor_llm_mapping\<close> and \<open>llm_proxies\<close>.

  The constraints are those of the migrations 005 and 013, without the lengths of texts. Statements are
  numbered and may fail as in theory \<open>DeployRepo\<close>. Times are nanoseconds. What the database does to a
  time it stores and to the sampling rate, a decimal with two places, are the parameters \<open>ms_column\<close>
  and \<open>ms_decimal\<close>. Rows that a query does not order come in the order of the table.
\<close>

section \<open>Rows and tables\<close>

record MonitorEvaluator =
  ev_Identifier :: string
  ev_DisplayName :: string
  ev_Config :: gmap

record Monitor =
  mo_ID :: uuid
  mo_Name :: string
  mo_DisplayName :: string
  mo_Description :: string
  mo_Type :: string
  mo_OrgName :: string
  mo_ProjectName :: string
  mo_AgentName :: string
  mo_AgentID :: string
  mo_EnvironmentName :: string
  mo_EnvironmentID :: string
  mo_Evaluators :: "MonitorEvaluator list"
  mo_IntervalMinutes :: "int option"
  mo_NextRunTime :: "int option"
  mo_TraceStart :: "int option"
  mo_TraceEnd :: "int option"
  mo_SamplingRate :: rat
  mo_CreatedAt :: int
  mo_UpdatedAt :: int

record MonitorRun =
  mr_ID :: uuid
  mr_MonitorID :: uuid
  mr_Name :: string
  mr_Evaluators :: "MonitorEvaluator list"
  mr_TraceStart :: int
  mr_TraceEnd :: int
  mr_StartedAt :: "int option"
  mr_CompletedAt :: "int option"
  mr_Status :: string
  mr_ErrorMessage :: "string option"
  mr_CreatedAt :: int

record MonitorLLMMapping =
  ml_MonitorID :: uuid
  ml_LLMProxyUUID :: uuid
  ml_SecretKVPath :: string
  ml_SecretKey :: string

record LLMProxy =
  lx_UUID :: uuid
  lx_ProviderUUID :: uuid
  lx_Context :: "string option"

record monitor_db =
  md_monitors :: "Monitor list"
  md_runs :: "MonitorRun list"
  md_mappings :: "MonitorLLMMapping list"
  md_proxies :: "LLMProxy list"

definition MonitorTypeFuture :: string where "MonitorTypeFuture = ''future''"
definition MonitorTypePast :: string where "MonitorTypePast = ''past''"

definition RunStatusPending :: string where "RunStatusPending = ''pending''"
definition RunStatusRunning :: string where "RunStatusRunning = ''running''"
definition RunStatusSuccess :: string where "RunStatusSuccess = ''success''"
definition RunStatusFailed :: string where "RunStatusFailed = ''failed''"

lemmas run_status_defs = RunStatusPending_def RunStatusRunning_def RunStatusSuccess_def RunStatusFailed_def

record store_env =
  ms_repo :: deploy_env
  ms_column :: "int \<Rightarrow> int"
  ms_decimal :: "rat \<Rightarrow> rat"

section \<open>Monitors\<close>

text \<open>A monitor as the table holds it.\<close>

definition monitor_row :: "store_env \<Rightarrow> Monitor \<Rightarrow> Monitor" where
  "monitor_row env m =
     m\<lparr>mo_NextRunTime := map_option (ms_column env) (mo_NextRunTime m),
       mo_TraceStart := map_option (ms_column env) (mo_TraceStart m),
       mo_TraceEnd := map_option (ms_column env) (mo_TraceEnd m),
       mo_SamplingRate := ms_decimal env (mo_SamplingRate m),
       mo_CreatedAt := ms_column env (mo_CreatedAt m),
       mo_UpdatedAt := ms_column env (mo_UpdatedAt m)\<rparr>"

definition monitor_scope :: "Monitor \<Rightarrow> string \<times> string \<times> string \<times> string" where
  "monitor_scope m = (mo_Name m, mo_OrgName m, mo_ProjectName m, mo_AgentName m)"

definition monitor_violation :: "Monitor \<Rightarrow> Monitor list \<Rightarrow> string option" where
  "monitor_violation m others =
     (if monitor_scope m \<in> monitor_scope ` set others
      then Some ''duplicate key value violates unique constraint uq_monitor_name_org_project_agent''
      else if mo_Type m \<notin> {MonitorTypeFuture, MonitorTypePast}
      then Some ''new row violates check constraint monitors_type_check''
      else if \<not> (0 < mo_SamplingRate m \<and> mo_SamplingRate m \<le> 1)
      then Some ''new row violates check constraint monitors_sampling_rate_check''
      else None)"

definition insert_monitor :: "Monitor \<Rightarrow> monitor_db \<Rightarrow> deploy_error + monitor_db" where
  "insert_monitor m db =
     (if mo_ID m \<in> mo_ID ` set (md_monitors db)
      then Inl (Database ''duplicate key value violates unique constraint monitors_pkey'')
      else
        (case monitor_violation m (md_monitors db) of
           Some e \<Rightarrow> Inl (Database e)
         | None \<Rightarrow> Inr (db\<lparr>md_monitors := md_monitors db @ [m]\<rparr>)))"

definition CreateMonitor_row ::
  "store_env \<Rightarrow> nat \<Rightarrow> int \<Rightarrow> Monitor \<Rightarrow> monitor_db \<Rightarrow> deploy_error + (Monitor \<times> monitor_db)" where
  "CreateMonitor_row env n now m db =
     (let m' = m\<lparr>mo_CreatedAt := now, mo_UpdatedAt := now\<rparr> in
      map_sum id (Pair m') (statement (ms_repo env) n (insert_monitor (monitor_row env m') db)))"

definition GetMonitorByName ::
  "store_env \<Rightarrow> nat \<Rightarrow> string \<Rightarrow> string \<Rightarrow> string \<Rightarrow> string \<Rightarrow> monitor_db \<Rightarrow> deploy_error + Monitor" where
  "GetMonitorByName env n org project agent name db =
     statement (ms_repo env) n
       (case find (\<lambda>m. monitor_scope m = (name, org, project, agent)) (md_monitors db) of
          Some m \<Rightarrow> Inr m | None \<Rightarrow> Inl ErrRecordNotFound)"

definition GetMonitorByID :: "store_env \<Rightarrow> nat \<Rightarrow> uuid \<Rightarrow> monitor_db \<Rightarrow> deploy_error + Monitor" where
  "GetMonitorByID env n i db =
     statement (ms_repo env) n
       (case find (\<lambda>m. mo_ID m = i) (md_monitors db) of
          Some m \<Rightarrow> Inr m | None \<Rightarrow> Inl ErrRecordNotFound)"

definition ListMonitorsByAgent ::
  "store_env \<Rightarrow> nat \<Rightarrow> string \<Rightarrow> string \<Rightarrow> string \<Rightarrow> monitor_db \<Rightarrow> deploy_error + Monitor list" where
  "ListMonitorsByAgent env n org project agent db =
     statement (ms_repo env) n
       (Inr (sort_key (\<lambda>m. - mo_CreatedAt m)
          (filter (\<lambda>m. mo_OrgName m = org \<and> mo_ProjectName m = project \<and> mo_AgentName m = agent)
             (md_monitors db))))"

definition change_monitor :: "uuid \<Rightarrow> (Monitor \<Rightarrow> Monitor) \<Rightarrow> monitor_db \<Rightarrow> monitor_db" where
  "change_monitor i f db =
     db\<lparr>md_monitors := map (\<lambda>m. if mo_ID m = i then f m else m) (md_monitors db)\<rparr>"

text \<open>\<open>Save\<close> writes every column, and inserts the row when there is none.\<close>

definition UpdateMonitor_row ::
  "store_env \<Rightarrow> nat \<Rightarrow> int \<Rightarrow> Monitor \<Rightarrow> monitor_db \<Rightarrow> deploy_error + monitor_db" where
  "UpdateMonitor_row env n now m db =
     (let row = monitor_row env (m\<lparr>mo_UpdatedAt := now\<rparr>);
          others = filter (\<lambda>x. mo_ID x \<noteq> mo_ID m) (md_monitors db)
      in statement (ms_repo env) n
        (case monitor_violation row others of
           Some e \<Rightarrow> Inl (Database e)
         | None \<Rightarrow>
             Inr (if mo_ID m \<in> mo_ID ` set (md_monitors db)
                  then change_monitor (mo_ID m) (\<lambda>_. row) db
                  else db\<lparr>md_monitors := md_monitors db @ [row]\<rparr>)))"

text \<open>The runs and the mapping of a deleted monitor go with it.\<close>

definition DeleteMonitor_row :: "store_env \<Rightarrow> nat \<Rightarrow> uuid \<Rightarrow> monitor_db \<Rightarrow> deploy_error + monitor_db" where
  "DeleteMonitor_row env n i db =
     statement (ms_repo env) n
       (Inr (db\<lparr>md_monitors := filter (\<lambda>m. mo_ID m \<noteq> i) (md_monitors db),
                md_runs := filter (\<lambda>r. mr_MonitorID r \<noteq> i) (md_runs db),
                md_mappings := filter (\<lambda>x. ml_MonitorID x \<noteq> i) (md_mappings db)\<rparr>))"

definition UpdateNextRunTime ::
  "store_env \<Rightarrow> nat \<Rightarrow> int \<Rightarrow> uuid \<Rightarrow> int option \<Rightarrow> monitor_db \<Rightarrow> deploy_error + monitor_db" where
  "UpdateNextRunTime env n now i t db =
     statement (ms_repo env) n
       (Inr (change_monitor i
          (\<lambda>m. m\<lparr>mo_NextRunTime := map_option (ms_column env) t, mo_UpdatedAt := ms_column env now\<rparr>) db))"

definition due_at :: "store_env \<Rightarrow> int \<Rightarrow> Monitor \<Rightarrow> bool" where
  "due_at env dueBy m = (case mo_NextRunTime m of None \<Rightarrow> False | Some t \<Rightarrow> t \<le> ms_column env dueBy)"

definition ListDueMonitors ::
  "store_env \<Rightarrow> nat \<Rightarrow> string \<Rightarrow> int \<Rightarrow> monitor_db \<Rightarrow> deploy_error + Monitor list" where
  "ListDueMonitors env n monitorType dueBy db =
     statement (ms_repo env) n
       (Inr (filter (\<lambda>m. mo_Type m = monitorType \<and> due_at env dueBy m) (md_monitors db)))"

definition FindActiveMonitorsByEvaluatorIdentifier ::
  "store_env \<Rightarrow> nat \<Rightarrow> string \<Rightarrow> string \<Rightarrow> monitor_db \<Rightarrow> deploy_error + Monitor list" where
  "FindActiveMonitorsByEvaluatorIdentifier env n org identifier db =
     statement (ms_repo env) n
       (Inr (filter (\<lambda>m. mo_OrgName m = org \<and> list_ex (\<lambda>e. ev_Identifier e = identifier) (mo_Evaluators m))
          (md_monitors db)))"

section \<open>Runs\<close>

definition run_row :: "store_env \<Rightarrow> MonitorRun \<Rightarrow> MonitorRun" where
  "run_row env r =
     r\<lparr>mr_TraceStart := ms_column env (mr_TraceStart r), mr_TraceEnd := ms_column env (mr_TraceEnd r),
       mr_StartedAt := map_option (ms_column env) (mr_StartedAt r),
       mr_CompletedAt := map_option (ms_column env) (mr_CompletedAt r),
       mr_CreatedAt := ms_column env (mr_CreatedAt r)\<rparr>"



definition insert_run :: "MonitorRun \<Rightarrow> monitor_db \<Rightarrow> deploy_error + monitor_db" where
  "insert_run r db =
     (if mr_ID r \<in> mr_ID ` set (md_runs db)
      then Inl (Database ''duplicate key value violates unique constraint monitor_runs_pkey'')
      else if mr_MonitorID r \<notin> mo_ID ` set (md_monitors db)
      then Inl (Database ''insert violates foreign key constraint monitor_runs_monitor_id_fkey'')
      else if mr_Status r \<notin> {RunStatusPending, RunStatusRunning, RunStatusSuccess, RunStatusFailed}
      then Inl (Database ''new row violates check constraint monitor_runs_status_check'')
      else Inr (db\<lparr>md_runs := md_runs db @ [r]\<rparr>))"

definition CreateMonitorRun ::
  "store_env \<Rightarrow> nat \<Rightarrow> int \<Rightarrow> MonitorRun \<Rightarrow> monitor_db \<Rightarrow> deploy_error + (MonitorRun \<times> monitor_db)" where
  "CreateMonitorRun env n now r db =
     (let r' = r\<lparr>mr_CreatedAt := now\<rparr> in
      map_sum id (Pair r') (statement (ms_repo env) n (insert_run (run_row env r') db)))"

definition GetMonitorRunByID ::
  "store_env \<Rightarrow> nat \<Rightarrow> uuid \<Rightarrow> uuid \<Rightarrow> monitor_db \<Rightarrow> deploy_error + MonitorRun" where
  "GetMonitorRunByID env n runID monitorID db =
     statement (ms_repo env) n
       (case find (\<lambda>r. mr_ID r = runID \<and> mr_MonitorID r = monitorID) (md_runs db) of
          Some r \<Rightarrow> Inr r | None \<Rightarrow> Inl ErrRecordNotFound)"

definition runs_of :: "uuid \<Rightarrow> monitor_db \<Rightarrow> MonitorRun list" where
  "runs_of i db = filter (\<lambda>r. mr_MonitorID r = i) (md_runs db)"

definition latest_first :: "MonitorRun list \<Rightarrow> MonitorRun list" where
  "latest_first rs = sort_key (\<lambda>r. - mr_CreatedAt r) rs"

definition ListMonitorRuns_rows ::
  "store_env \<Rightarrow> nat \<Rightarrow> uuid \<Rightarrow> int \<Rightarrow> int \<Rightarrow> monitor_db \<Rightarrow> deploy_error + MonitorRun list" where
  "ListMonitorRuns_rows env n i limit offset db =
     statement (ms_repo env) n
       (Inr (if limit > 0 then take (nat limit) (drop (nat offset) (latest_first (runs_of i db)))
             else latest_first (runs_of i db)))"

definition CountMonitorRuns :: "store_env \<Rightarrow> nat \<Rightarrow> uuid \<Rightarrow> monitor_db \<Rightarrow> deploy_error + int" where
  "CountMonitorRuns env n i db = statement (ms_repo env) n (Inr (int (length (runs_of i db))))"

definition GetMonitorRunsByMonitorID ::
  "store_env \<Rightarrow> nat \<Rightarrow> uuid \<Rightarrow> monitor_db \<Rightarrow> deploy_error + MonitorRun list" where
  "GetMonitorRunsByMonitorID env n i db = statement (ms_repo env) n (Inr (runs_of i db))"

text \<open>\<open>First\<close> orders by the primary key where the creation times are equal.\<close>

definition latest_run :: "uuid \<Rightarrow> monitor_db \<Rightarrow> MonitorRun option" where
  "latest_run i db =
     (case latest_first (sort_key (\<lambda>r. uint (mr_ID r)) (runs_of i db)) of
        [] \<Rightarrow> None | r # _ \<Rightarrow> Some r)"

definition GetLatestMonitorRun :: "store_env \<Rightarrow> nat \<Rightarrow> uuid \<Rightarrow> monitor_db \<Rightarrow> deploy_error + MonitorRun" where
  "GetLatestMonitorRun env n i db =
     statement (ms_repo env) n
       (case latest_run i db of Some r \<Rightarrow> Inr r | None \<Rightarrow> Inl ErrRecordNotFound)"

text \<open>The result is a map; where several runs share the greatest creation time the last row wins.\<close>

definition GetLatestMonitorRuns ::
  "store_env \<Rightarrow> nat \<Rightarrow> uuid list \<Rightarrow> monitor_db \<Rightarrow> deploy_error + (uuid \<times> MonitorRun) list" where
  "GetLatestMonitorRuns env n is db =
     (if is = [] then Inr []
      else statement (ms_repo env) n
        (Inr (fold (\<lambda>r result. AList.update (mr_MonitorID r) r result)
           (filter (\<lambda>r. mr_MonitorID r \<in> set is
              \<and> list_all (\<lambda>q. mr_CreatedAt q \<le> mr_CreatedAt r) (runs_of (mr_MonitorID r) db)) (md_runs db))
           [])))"

record run_updates =
  ru_status :: "string option"
  ru_completed_at :: "int option"
  ru_error_message :: "string option"

definition updated_run :: "store_env \<Rightarrow> run_updates \<Rightarrow> MonitorRun \<Rightarrow> MonitorRun" where
  "updated_run env u r =
     r\<lparr>mr_Status := (case ru_status u of Some s \<Rightarrow> s | None \<Rightarrow> mr_Status r),
       mr_CompletedAt := (case ru_completed_at u of Some t \<Rightarrow> Some (ms_column env t) | None \<Rightarrow> mr_CompletedAt r),
       mr_ErrorMessage := (case ru_error_message u of Some e \<Rightarrow> Some e | None \<Rightarrow> mr_ErrorMessage r)\<rparr>"

definition UpdateMonitorRun ::
  "store_env \<Rightarrow> nat \<Rightarrow> uuid \<Rightarrow> run_updates \<Rightarrow> monitor_db \<Rightarrow> deploy_error + monitor_db" where
  "UpdateMonitorRun env n runID u db =
     statement (ms_repo env) n
       (if ru_status u \<noteq> None \<and> the (ru_status u) \<notin> {RunStatusPending, RunStatusRunning, RunStatusSuccess, RunStatusFailed}
          \<and> runID \<in> mr_ID ` set (md_runs db)
        then Inl (Database ''new row violates check constraint monitor_runs_status_check'')
        else Inr (db\<lparr>md_runs := map (\<lambda>r. if mr_ID r = runID then updated_run env u r else r) (md_runs db)\<rparr>))"

definition run_open :: "MonitorRun \<Rightarrow> bool" where
  "run_open r \<longleftrightarrow> mr_Status r = RunStatusPending \<or> mr_Status r = RunStatusRunning"

definition ListPendingOrRunningRuns ::
  "store_env \<Rightarrow> nat \<Rightarrow> int \<Rightarrow> monitor_db \<Rightarrow> deploy_error + MonitorRun list" where
  "ListPendingOrRunningRuns env n limit db =
     statement (ms_repo env) n
       (Inr ((if limit > 0 then take (nat limit) else id)
          (sort_key mr_CreatedAt (filter run_open (md_runs db)))))"

section \<open>Mappings to LLM proxies\<close>

definition mapping_Create ::
  "store_env \<Rightarrow> nat \<Rightarrow> MonitorLLMMapping \<Rightarrow> monitor_db \<Rightarrow> deploy_error + monitor_db" where
  "mapping_Create env n x db =
     statement (ms_repo env) n
       (if ml_MonitorID x \<in> ml_MonitorID ` set (md_mappings db)
          \<or> ml_LLMProxyUUID x \<in> ml_LLMProxyUUID ` set (md_mappings db)
        then Inl (Database ''duplicate key value violates unique constraint uq_monitor_llm_mapping'')
        else if ml_MonitorID x \<notin> mo_ID ` set (md_monitors db)
          \<or> ml_LLMProxyUUID x \<notin> lx_UUID ` set (md_proxies db)
        then Inl (Database ''insert violates foreign key constraint fk_monitor_llm_mapping'')
        else Inr (db\<lparr>md_mappings := md_mappings db @ [x]\<rparr>))"

text \<open>Mappings with their preloaded proxy.\<close>

definition ListByMonitorID ::
  "store_env \<Rightarrow> nat \<Rightarrow> uuid \<Rightarrow> monitor_db \<Rightarrow> deploy_error + (MonitorLLMMapping \<times> LLMProxy option) list" where
  "ListByMonitorID env n i db =
     statement (ms_repo env) n
       (Inr (map (\<lambda>x. (x, find (\<lambda>p. lx_UUID p = ml_LLMProxyUUID x) (md_proxies db)))
          (filter (\<lambda>x. ml_MonitorID x = i) (md_mappings db))))"

definition DeleteByMonitorID :: "store_env \<Rightarrow> nat \<Rightarrow> uuid \<Rightarrow> monitor_db \<Rightarrow> deploy_error + monitor_db" where
  "DeleteByMonitorID env n i db =
     statement (ms_repo env) n
       (Inr (db\<lparr>md_mappings := filter (\<lambda>x. ml_MonitorID x \<noteq> i) (md_mappings db)\<rparr>))"

definition DeleteByMonitorIDAndProxyUUID ::
  "store_env \<Rightarrow> nat \<Rightarrow> uuid \<Rightarrow> uuid \<Rightarrow> monitor_db \<Rightarrow> deploy_error + monitor_db" where
  "DeleteByMonitorIDAndProxyUUID env n i proxy db =
     statement (ms_repo env) n
       (Inr (db\<lparr>md_mappings := filter (\<lambda>x. \<not> (ml_MonitorID x = i \<and> ml_LLMProxyUUID x = proxy))
          (md_mappings db)\<rparr>))"

end
