(* ===== verification/MonitorEvaluators.thy ===== *)
theory MonitorEvaluators
  imports MonitorStore WsController
begin

text \<open>
  The evaluators of a monitor: the catalog of built-in evaluators
  (\<open>agent-manager-service/catalog/catalog.go\<close>, \<open>litellm_provider_prefixes.go\<close>), the validation of their
  configuration (\<open>services/monitor_manager.go\<close>) and the JSON that is handed to the evaluation job
  (\<open>serializeEvaluators\<close> in \<open>services/monitor_executor.go\<close>).

  The entries of the catalog are generated code and a parameter. A configuration is a map in one
  iteration order.
\<close>

section \<open>The catalog\<close>

record EvaluatorConfigParam =
  cp_Key :: string
  cp_Type :: string
  cp_Description :: string
  cp_Required :: bool
  cp_Default :: gval
  cp_Min :: "f64 option"
  cp_Max :: "f64 option"
  cp_EnumValues :: "string list"

record Entry =
  en_Identifier :: string
  en_DisplayName :: string
  en_Description :: string
  en_Version :: string
  en_Provider :: string
  en_ClassName :: string
  en_Level :: string
  en_Tags :: "string list"
  en_ConfigSchema :: "EvaluatorConfigParam list"
  en_Type :: string
  en_Source :: string

definition catalog_Get :: "Entry list \<Rightarrow> string \<Rightarrow> Entry option" where
  "catalog_Get entries identifier = find (\<lambda>e. en_Identifier e = identifier) entries"

definition matchesTags :: "Entry \<Rightarrow> string list \<Rightarrow> bool" where
  "matchesTags e tags \<longleftrightarrow> list_all (\<lambda>t. list_ex (\<lambda>et. et = t) (en_Tags e)) tags"

definition matchesProvider :: "Entry \<Rightarrow> string \<Rightarrow> bool" where
  "matchesProvider e provider \<longleftrightarrow> provider = [] \<or> en_Provider e = provider"

definition str_contains :: "string \<Rightarrow> string \<Rightarrow> bool" where
  "str_contains s sub \<longleftrightarrow> list_ex (prefix sub) (suffixes s)"

definition matchesSearch :: "Entry \<Rightarrow> string \<Rightarrow> bool" where
  "matchesSearch e search \<longleftrightarrow>
     search = [] \<or> str_contains (to_lower (en_DisplayName e)) (to_lower search)
       \<or> str_contains (to_lower (en_Description e)) (to_lower search)"

definition catalog_List :: "Entry list \<Rightarrow> string list \<Rightarrow> string \<Rightarrow> string \<Rightarrow> Entry list" where
  "catalog_List entries tags provider search =
     filter (\<lambda>e. matchesTags e tags \<and> matchesProvider e provider \<and> matchesSearch e search) entries"

definition liteLLMProviderPrefixes :: "(string \<times> string) list" where
  "liteLLMProviderPrefixes =
     [(''openai'', ''openai''), (''anthropic'', ''anthropic''), (''gemini'', ''gemini''), (''groq'', ''groq''),
      (''mistral'', ''mistral''), (''mistralai'', ''mistral''), (''awsbedrock'', ''bedrock''),
      (''azure-openai'', ''azure''), (''azureai-foundry'', ''azure_ai'')]"

definition GetLiteLLMPrefix :: "string \<Rightarrow> string option" where
  "GetLiteLLMPrefix templateHandle = map_of liteLLMProviderPrefixes templateHandle"

section \<open>Numbers\<close>

fun f64_less :: "f64 \<Rightarrow> f64 \<Rightarrow> bool" where
  "f64_less NaN _ = False"
| "f64_less _ NaN = False"
| "f64_less (Fin a) (Fin b) = (a < b)"
| "f64_less NegInf b = (b \<noteq> NegInf)"
| "f64_less (Fin _) b = (b = PosInf)"
| "f64_less PosInf _ = False"

definition f64_of_int :: "int \<Rightarrow> f64" where
  "f64_of_int i = (case round_f64 (of_int i) of Some r \<Rightarrow> Fin r | None \<Rightarrow> if i < 0 then NegInf else PosInf)"

fun toFloat64 :: "gval \<Rightarrow> f64 option" where
  "toFloat64 (VF64 f) = Some f"
| "toFloat64 (VF32 f) = Some f"
| "toFloat64 (VInt i) = Some (f64_of_int i)"
| "toFloat64 (VInt64 i) = Some (f64_of_int i)"
| "toFloat64 _ = None"

section \<open>Validating a configuration\<close>

definition invalid :: "string \<Rightarrow> string list \<Rightarrow> deploy_error" where
  "invalid text args = Wrapf text args ErrInvalidInput"

definition checkMinMax :: "string \<Rightarrow> EvaluatorConfigParam \<Rightarrow> f64 \<Rightarrow> deploy_error option" where
  "checkMinMax pre param num =
     (if (case cp_Min param of None \<Rightarrow> False | Some m \<Rightarrow> f64_less num m)
      then Some (invalid ''%s: config %q must be >= %v: %w'' [pre, cp_Key param])
      else if (case cp_Max param of None \<Rightarrow> False | Some m \<Rightarrow> f64_less m num)
      then Some (invalid ''%s: config %q must be <= %v: %w'' [pre, cp_Key param])
      else None)"

definition must_be :: "string \<Rightarrow> string \<Rightarrow> EvaluatorConfigParam \<Rightarrow> deploy_error" where
  "must_be what pre param = invalid (''%s: config %q must be '' @ what @ '': %w'') [pre, cp_Key param]"

definition check_enum :: "string \<Rightarrow> EvaluatorConfigParam \<Rightarrow> string \<Rightarrow> deploy_error option" where
  "check_enum pre param s =
     (if s \<in> set (cp_EnumValues param) then None
      else Some (invalid ''%s: config %q must be one of %v: %w''
        [pre, cp_Key param, sprint (VArr (map VStr (cp_EnumValues param)))]))"

definition validateConfigValue :: "string \<Rightarrow> EvaluatorConfigParam \<Rightarrow> gval \<Rightarrow> deploy_error option" where
  "validateConfigValue pre param v =
     (if cp_Type param = ''string''
      then (case as_str v of
              None \<Rightarrow> Some (must_be ''a string'' pre param)
            | Some s \<Rightarrow> if cp_EnumValues param = [] then None else check_enum pre param s)
      else if cp_Type param = ''integer''
      then (case toFloat64 v of
              None \<Rightarrow> Some (must_be ''an integer'' pre param)
            | Some num \<Rightarrow>
                if num \<noteq> Fin (of_int (f64_to_int num)) then Some (must_be ''an integer'' pre param)
                else checkMinMax pre param num)
      else if cp_Type param = ''float''
      then (case toFloat64 v of
              None \<Rightarrow> Some (must_be ''a float'' pre param) | Some num \<Rightarrow> checkMinMax pre param num)
      else if cp_Type param = ''boolean''
      then (case v of VBool _ \<Rightarrow> None | _ \<Rightarrow> Some (must_be ''a boolean'' pre param))
      else if cp_Type param = ''array''
      then (case v of VArr _ \<Rightarrow> None | _ \<Rightarrow> Some (must_be ''an array'' pre param))
      else if cp_Type param = ''enum''
      then (case as_str v of
              None \<Rightarrow> Some (must_be ''a string'' pre param) | Some s \<Rightarrow> check_enum pre param s)
      else None)"

text \<open>The schema of a key; of two parameters with the same key the later one.\<close>

definition schema_of :: "EvaluatorConfigParam list \<Rightarrow> string \<Rightarrow> EvaluatorConfigParam option" where
  "schema_of schema = map_of (rev (map (\<lambda>p. (cp_Key p, p)) schema))"

text \<open>Required parameters without a default must be there; missing ones get their default.\<close>

fun apply_defaults ::
  "string \<Rightarrow> string \<Rightarrow> EvaluatorConfigParam list \<Rightarrow> gmap \<Rightarrow> deploy_error + gmap" where
  "apply_defaults pre identifier [] config = Inr config"
| "apply_defaults pre identifier (param # schema) config =
     (if map_of config (cp_Key param) \<noteq> None then apply_defaults pre identifier schema config
      else if cp_Required param \<and> cp_Default param = VNull
      then Inl (invalid ''%s: required config %q is missing for evaluator %q: %w''
             [pre, cp_Key param, identifier])
      else apply_defaults pre identifier schema
        (if cp_Default param = VNull then config
         else AList.update (cp_Key param) (cp_Default param) config))"

definition index_prefix :: "nat \<Rightarrow> string" where
  "index_prefix i = ''evaluators['' @ show_int (int i) @ '']''"

fun first_error :: "('a \<Rightarrow> 'e option) \<Rightarrow> 'a list \<Rightarrow> 'e option" where
  "first_error f [] = None"
| "first_error f (x # xs) = (case f x of Some e \<Rightarrow> Some e | None \<Rightarrow> first_error f xs)"

definition key_error ::
  "string \<Rightarrow> string \<Rightarrow> EvaluatorConfigParam list \<Rightarrow> string \<times> gval \<Rightarrow> deploy_error option" where
  "key_error pre identifier schema kv =
     (if schema_of schema (fst kv) = None
      then Some (invalid ''%s: config key %q is not defined in evaluator %q schema: %w''
             [pre, fst kv, identifier])
      else None)"

definition value_error :: "string \<Rightarrow> EvaluatorConfigParam list \<Rightarrow> string \<times> gval \<Rightarrow> deploy_error option" where
  "value_error pre schema kv =
     (case schema_of schema (fst kv) of
        None \<Rightarrow> None | Some param \<Rightarrow> validateConfigValue pre param (snd kv))"

definition validateAndApplyDefaults ::
  "nat \<Rightarrow> string \<Rightarrow> gmap \<Rightarrow> EvaluatorConfigParam list \<Rightarrow> deploy_error + gmap" where
  "validateAndApplyDefaults idx identifier config schema =
     (let pre = index_prefix idx in
      case first_error (key_error pre identifier schema) config of
        Some e \<Rightarrow> Inl e
      | None \<Rightarrow> andThen (apply_defaults pre identifier schema config)
          (\<lambda>config'. case first_error (value_error pre schema) config' of
             Some e \<Rightarrow> Inl e | None \<Rightarrow> Inr config'))"

text \<open>
  \<open>lookup\<close> is the evaluator service: the type and the schema of an evaluator. The result is whether
  one of them is an LLM judge, and the evaluators with their defaults filled in.
\<close>

fun duplicate_name :: "nat \<Rightarrow> string list \<Rightarrow> MonitorEvaluator list \<Rightarrow> deploy_error option" where
  "duplicate_name i seen [] = None"
| "duplicate_name i seen (e # es) =
     (if ev_DisplayName e \<in> set seen
      then Some (invalid ''evaluators[%d]: duplicate displayName %q (also used by evaluators[%d]): %w''
             [show_int (int i), ev_DisplayName e])
      else duplicate_name (Suc i) (ev_DisplayName e # seen) es)"

fun validate_each ::
  "(string \<Rightarrow> deploy_error + (string \<times> EvaluatorConfigParam list)) \<Rightarrow> nat \<Rightarrow> MonitorEvaluator list \<Rightarrow>
   deploy_error + (bool \<times> MonitorEvaluator list)" where
  "validate_each lookup i [] = Inr (False, [])"
| "validate_each lookup i (e # es) =
     (case lookup (ev_Identifier e) of
        Inl err \<Rightarrow>
          Inl (if error_is ErrEvaluatorNotFound err
               then invalid ''%s: evaluator %q not found in catalog: %w'' [index_prefix i, ev_Identifier e]
               else Wrapf ''%s: failed to look up evaluator %q: %w'' [index_prefix i, ev_Identifier e] err)
      | Inr (ty, schema) \<Rightarrow>
          andThen (validateAndApplyDefaults i (ev_Identifier e) (ev_Config e) schema)
            (\<lambda>config. andThen (validate_each lookup (Suc i) es)
              (\<lambda>(judge, es'). Inr (ty = ''llm_judge'' \<or> judge, e\<lparr>ev_Config := config\<rparr> # es'))))"

definition validateEvaluators ::
  "(string \<Rightarrow> deploy_error + (string \<times> EvaluatorConfigParam list)) \<Rightarrow> MonitorEvaluator list \<Rightarrow>
   deploy_error + (bool \<times> MonitorEvaluator list)" where
  "validateEvaluators lookup evaluators =
     (case duplicate_name 0 [] evaluators of
        Some e \<Rightarrow> Inl e | None \<Rightarrow> validate_each lookup 0 evaluators)"

section \<open>The evaluators of a job\<close>

record CustomEvaluator =
  cu_ID :: uuid
  cu_OrgName :: string
  cu_Identifier :: string
  cu_DisplayName :: string
  cu_Description :: string
  cu_Version :: string
  cu_Type :: string
  cu_Level :: string
  cu_Source :: string
  cu_ConfigSchema :: "EvaluatorConfigParam list"
  cu_Tags :: "string list"
  cu_CreatedAt :: int
  cu_UpdatedAt :: int
  cu_DeletedAt :: "int option"

record evalJobEvaluator =
  je_Identifier :: string
  je_DisplayName :: string
  je_Config :: gmap
  je_Type :: string
  je_Level :: string
  je_Source :: string
  je_ConfigSchema :: "EvaluatorConfigParam list"

text \<open>With a proxy, the model is a bare name, prefixed by the provider where LiteLLM has a prefix.\<close>

definition bare_model :: "string \<Rightarrow> string" where
  "bare_model m = (case index_of (CHR ''/'') m of None \<Rightarrow> m | Some i \<Rightarrow> drop (Suc i) m)"

definition job_config :: "string \<Rightarrow> gmap \<Rightarrow> gmap" where
  "job_config templateHandle config =
     (case map_of config ''model'' of
        Some (VStr m) \<Rightarrow>
          if m \<noteq> [] \<and> templateHandle \<noteq> []
          then AList.update ''model''
            (VStr (case GetLiteLLMPrefix templateHandle of
                     Some p \<Rightarrow> p @ ''/'' @ bare_model m | None \<Rightarrow> bare_model m)) config
          else config
      | _ \<Rightarrow> config)"

text \<open>The later of two custom evaluators with the same identifier counts. The flag tells an LLM judge.\<close>

definition job_evaluator ::
  "Entry list \<Rightarrow> CustomEvaluator list \<Rightarrow> string \<Rightarrow> MonitorEvaluator \<Rightarrow>
   deploy_error + (evalJobEvaluator \<times> bool)" where
  "job_evaluator entries customs templateHandle e =
     (let je = \<lparr>je_Identifier = ev_Identifier e, je_DisplayName = ev_DisplayName e,
            je_Config = job_config templateHandle (ev_Config e), je_Type = [], je_Level = [],
            je_Source = [], je_ConfigSchema = []\<rparr>
      in case find (\<lambda>c. cu_Identifier c = ev_Identifier e) (rev customs) of
           Some ce \<Rightarrow>
             Inr (je\<lparr>je_Type := cu_Type ce, je_Level := cu_Level ce, je_Source := cu_Source ce,
                     je_ConfigSchema := cu_ConfigSchema ce\<rparr>, cu_Type ce = ''llm_judge'')
         | None \<Rightarrow>
             (case catalog_Get entries (ev_Identifier e) of
                None \<Rightarrow> Inl (Errorf ''custom evaluator %q not found'' [ev_Identifier e])
              | Some entry \<Rightarrow>
                  if en_Type entry = ''llm_judge''
                  then (if en_Source entry = []
                        then Inl (Errorf ''builtin LLM-judge evaluator %q has no prompt template in catalog''
                               [ev_Identifier e])
                        else Inr (je\<lparr>je_Type := en_Type entry, je_Level := en_Level entry,
                               je_Source := en_Source entry, je_ConfigSchema := en_ConfigSchema entry\<rparr>, True))
                  else Inr (je\<lparr>je_ConfigSchema := en_ConfigSchema entry\<rparr>, False)))"

fun job_evaluators ::
  "Entry list \<Rightarrow> CustomEvaluator list \<Rightarrow> string \<Rightarrow> MonitorEvaluator list \<Rightarrow>
   deploy_error + (evalJobEvaluator list \<times> bool)" where
  "job_evaluators entries customs templateHandle [] = Inr ([], False)"
| "job_evaluators entries customs templateHandle (e # es) =
     andThen (job_evaluator entries customs templateHandle e)
       (\<lambda>(je, judge). andThen (job_evaluators entries customs templateHandle es)
         (\<lambda>(jes, judges). Inr (je # jes, judge \<or> judges)))"

text \<open>The JSON; members with \<open>omitempty\<close> are left out when they are empty.\<close>

definition member :: "string \<Rightarrow> bool \<Rightarrow> string option \<Rightarrow> (string \<times> string) list option" where
  "member name present v = (if present then map_option (\<lambda>t. [(name, t)]) v else Some [])"

definition json_list :: "string list \<Rightarrow> string" where
  "json_list xs = brackets (CHR 0x5B) (CHR 0x5D) xs"

definition json_object :: "(string \<times> string) list option list \<Rightarrow> string option" where
  "json_object ms = map_option (\<lambda>xs. json_struct (concat xs)) (seq_options ms)"

definition json_bound :: "f64 option \<Rightarrow> string option" where
  "json_bound b = (case b of None \<Rightarrow> Some [] | Some f \<Rightarrow> json_float f)"

definition json_param :: "EvaluatorConfigParam \<Rightarrow> string option" where
  "json_param p = json_object
     [member ''key'' True (Some (json_quote (cp_Key p))),
      member ''type'' True (Some (json_quote (cp_Type p))),
      member ''description'' True (Some (json_quote (cp_Description p))),
      member ''required'' True (marshal (VBool (cp_Required p))),
      member ''default'' (cp_Default p \<noteq> VNull) (marshal (cp_Default p)),
      member ''min'' (cp_Min p \<noteq> None) (json_bound (cp_Min p)),
      member ''max'' (cp_Max p \<noteq> None) (json_bound (cp_Max p)),
      member ''enum_values'' (cp_EnumValues p \<noteq> []) (marshal (VArr (map VStr (cp_EnumValues p))))]"

definition json_job_evaluator :: "evalJobEvaluator \<Rightarrow> string option" where
  "json_job_evaluator je = json_object
     [member ''identifier'' True (Some (json_quote (je_Identifier je))),
      member ''displayName'' True (Some (json_quote (je_DisplayName je))),
      member ''config'' True (marshal (VObj (je_Config je))),
      member ''type'' (je_Type je \<noteq> []) (Some (json_quote (je_Type je))),
      member ''level'' (je_Level je \<noteq> []) (Some (json_quote (je_Level je))),
      member ''source'' (je_Source je \<noteq> []) (Some (json_quote (je_Source je))),
      member ''configSchema'' (je_ConfigSchema je \<noteq> [])
        (map_option json_list (seq_options (map json_param (je_ConfigSchema je))))]"

text \<open>\<open>fetch\<close> is the repository of custom evaluators, asked only when some evaluator is not built in.\<close>

definition serializeEvaluators ::
  "Entry list \<Rightarrow> (string list \<Rightarrow> deploy_error + CustomEvaluator list) \<Rightarrow> MonitorEvaluator list \<Rightarrow> string \<Rightarrow>
   deploy_error + (string \<times> bool)" where
  "serializeEvaluators entries fetch evaluators templateHandle =
     (let customIdentifiers = filter (\<lambda>i. catalog_Get entries i = None) (map ev_Identifier evaluators) in
      andThen (if customIdentifiers = [] then Inr []
               else wrap_error ''failed to resolve custom evaluators: %w'' (fetch customIdentifiers))
        (\<lambda>customs. andThen (job_evaluators entries customs templateHandle evaluators)
          (\<lambda>(jes, judge).
             case seq_options (map json_job_evaluator jes) of
               None \<Rightarrow> Inl (Errorf ''failed to serialize evaluators: %w'' [])
             | Some ts \<Rightarrow> Inr (json_list ts, judge))))"

end
