(* ===== verification/MonitorExecutor.thy ===== *)
theory MonitorExecutor
  imports MonitorEvaluators GatewayService
begin

text \<open>
  Executing a monitor (\<open>agent-manager-service/services/monitor_executor.go\<close>): resolving its LLM proxy,
  building the workflow run and recording it.

  The environment holds the answers of what is not modelled: the OpenChoreo client, the repositories of
  LLM providers, custom evaluators and publisher credentials, and the printing of times. The tables of
  the gateway repository are only read.
\<close>

record publisher_credential =
  pc_ClientID :: string
  pc_SecretKVPath :: string
  pc_SecretKey :: string

record workflow_request =
  wr_Name :: string
  wr_WorkflowName :: string
  wr_Parameters :: gmap

record executor_env =
  xe_store :: store_env
  xe_gateways :: gateway_db
  xe_template :: "string \<Rightarrow> string \<Rightarrow> deploy_error + string"
  xe_catalog :: "Entry list"
  xe_customs :: "string \<Rightarrow> string list \<Rightarrow> deploy_error + CustomEvaluator list"
  xe_credential :: "string \<Rightarrow> deploy_error + publisher_credential"
  xe_workflow :: "string \<Rightarrow> workflow_request \<Rightarrow> deploy_error + string"
  xe_format :: "int \<Rightarrow> string"
  xe_newid :: uuid
  xe_started :: int

definition xe_show :: "executor_env \<Rightarrow> uuid \<Rightarrow> string" where
  "xe_show env u = ul_show (de_uuid (ms_repo (xe_store env))) u"

text \<open>The tables, and the workflow runs that were created or expired outside, in order.\<close>

datatype workflow_call = Created string string | Expired string string

record monitor_state =
  mt_db :: monitor_db
  mt_calls :: "workflow_call list"

section \<open>The name of a workflow run\<close>

function replace_runs :: "string \<Rightarrow> string" where
  "replace_runs [] = []"
| "replace_runs (c # s) =
     (if name_char c then c # replace_runs s
      else CHR ''-'' # replace_runs (dropWhile (\<lambda>c. \<not> name_char c) s))"
  by pat_completeness auto
termination by (relation "measure length") (auto simp: le_imp_less_Suc length_dropWhile_le)

definition trim_dashes :: "string \<Rightarrow> string" where
  "trim_dashes s = rev (dropWhile (\<lambda>c. c = CHR ''-'') (rev (dropWhile (\<lambda>c. c = CHR ''-'') s)))"

definition name_base :: "string \<Rightarrow> string" where
  "name_base monitorName =
     (let base = trim_dashes (replace_runs (to_lower monitorName));
          base = (if length base > 54 then trim_dashes (take 54 base) else base)
      in if base = [] then ''monitor'' else base)"

definition buildWorkflowRunName :: "string \<Rightarrow> string \<Rightarrow> string" where
  "buildWorkflowRunName monitorName runID = name_base monitorName @ ''-'' @ take 8 runID"

section \<open>The LLM proxy\<close>

definition buildProxyURL :: "string \<Rightarrow> string option \<Rightarrow> string" where
  "buildProxyURL vhost contextPath = (case contextPath of Some p \<Rightarrow> vhost @ p | None \<Rightarrow> vhost)"

definition gateway_filter :: "string \<Rightarrow> string option \<Rightarrow> string \<Rightarrow> GatewayFilterOptions" where
  "gateway_filter org ty environmentID =
     \<lparr>fo_OrganizationID = org, fo_FunctionalityType = ty, fo_Status = Some True,
      fo_EnvironmentID = Some environmentID, fo_Limit = 1, fo_Offset = 0\<rparr>"

definition resolveProxyURL ::
  "executor_env \<Rightarrow> nat \<Rightarrow> string \<Rightarrow> string \<Rightarrow> LLMProxy option \<Rightarrow> deploy_error + string" where
  "resolveProxyURL env n org environmentID proxy =
     (case proxy of
        None \<Rightarrow> Inl (Errorf ''LLM proxy not preloaded for mapping'' [])
      | Some p \<Rightarrow>
          andThen (wrap_error ''failed to query AI gateways for environment %s: %w''
              (ListWithFilters (ms_repo (xe_store env)) n (gateway_filter org (Some ''ai'') environmentID)
                 (xe_gateways env)))
            (\<lambda>ai. andThen (if ai \<noteq> [] then Inr ai
                else wrap_error ''failed to find gateway for environment %s: %w''
                  (ListWithFilters (ms_repo (xe_store env)) (Suc n) (gateway_filter org None environmentID)
                     (xe_gateways env)))
              (\<lambda>gateways. case gateways of
                 [] \<Rightarrow> Inl (Errorf ''no active gateway found for environment %s'' [environmentID])
               | g # _ \<Rightarrow> Inr (buildProxyURL (gy_Vhost g) (lx_Context p)))))"

record llm_config =
  lc_secretPath :: string
  lc_apiBase :: string
  lc_template :: string

definition resolveLLMProxyConfig ::
  "executor_env \<Rightarrow> nat \<Rightarrow> Monitor \<Rightarrow> monitor_db \<Rightarrow> deploy_error + llm_config" where
  "resolveLLMProxyConfig env n monitor db =
     andThen (wrap_error ''failed to list monitor LLM mappings: %w''
         (ListByMonitorID (xe_store env) n (mo_ID monitor) db))
       (\<lambda>mappings. case mappings of
          [] \<Rightarrow> Inr \<lparr>lc_secretPath = [], lc_apiBase = [], lc_template = []\<rparr>
        | (x, proxy) # _ \<Rightarrow>
            if ml_SecretKVPath x = []
            then Inl (Errorf ''monitor LLM mapping for monitor %s has no secret KV path''
                   [xe_show env (mo_ID monitor)])
            else andThen (wrap_error ''failed to resolve proxy URL: %w''
                (resolveProxyURL env (Suc n) (mo_OrgName monitor) (mo_EnvironmentID monitor) proxy))
              (\<lambda>url. Inr \<lparr>lc_secretPath = ml_SecretKVPath x, lc_apiBase = url,
                 lc_template = (case proxy of None \<Rightarrow> []
                   | Some p \<Rightarrow> (case xe_template env (xe_show env (lx_ProviderUUID p)) (mo_OrgName monitor) of
                       Inl _ \<Rightarrow> [] | Inr t \<Rightarrow> t))\<rparr>))"

section \<open>The workflow run request\<close>

definition buildPublishingParams :: "executor_env \<Rightarrow> Monitor \<Rightarrow> deploy_error + gmap" where
  "buildPublishingParams env monitor =
     (let params = [(''monitorId'', VStr (xe_show env (mo_ID monitor))),
            (''runId'', VStr (xe_show env (xe_newid env)))];
          with = (\<lambda>c. params @ [(''clientId'', VStr (pc_ClientID c)),
            (''secretKVPath'', VStr (pc_SecretKVPath c)), (''secretKey'', VStr (pc_SecretKey c))])
      in case xe_credential env (mo_OrgName monitor) of
           Inr cred \<Rightarrow> Inr (with cred)
         | Inl e \<Rightarrow>
             if error_is ErrRecordNotFound e
             then Inr (with \<lparr>pc_ClientID = ''amp-publisher-client'',
               pc_SecretKVPath = ''amp-publisher-client-secret'', pc_SecretKey = ''value''\<rparr>)
             else Inl (Wrapf ''failed to look up publisher credentials for org %s: %w'' [mo_OrgName monitor] e))"

definition MonitorWorkflowName :: string where
  "MonitorWorkflowName = ''monitor-evaluation-workflow''"

definition buildWorkflowRunRequest ::
  "executor_env \<Rightarrow> Monitor \<Rightarrow> int \<Rightarrow> int \<Rightarrow> MonitorEvaluator list \<Rightarrow> llm_config \<Rightarrow>
   deploy_error + workflow_request" where
  "buildWorkflowRunRequest env monitor startTime endTime evaluators llm =
     andThen (serializeEvaluators (xe_catalog env) (xe_customs env (mo_OrgName monitor)) evaluators (lc_template llm))
       (\<lambda>(evaluatorsJSON, hasLLMJudge).
          if hasLLMJudge \<and> lc_secretPath llm = []
          then Inl (Errorf ''monitor %s has llm_judge evaluators but no LLM proxy is configured'' [mo_Name monitor])
          else andThen (buildPublishingParams env monitor)
            (\<lambda>publishing. Inr
               \<lparr>wr_Name = buildWorkflowRunName (mo_Name monitor) (xe_show env (xe_newid env)),
                wr_WorkflowName = MonitorWorkflowName,
                wr_Parameters =
                 [(''monitor'', VObj [(''name'', VStr (mo_Name monitor)),
                    (''displayName'', VStr (mo_DisplayName monitor))]),
                  (''organization'', VStr (mo_OrgName monitor)),
                  (''project'', VStr (mo_ProjectName monitor)),
                  (''agent'', VObj [(''id'', VStr (mo_AgentID monitor)), (''name'', VStr (mo_AgentName monitor))]),
                  (''environment'', VObj [(''id'', VStr (mo_EnvironmentID monitor)),
                    (''name'', VStr (mo_EnvironmentName monitor))]),
                  (''evaluation'', VObj [(''evaluators'', VStr evaluatorsJSON),
                    (''llmProxySecretPath'', VStr (lc_secretPath llm)),
                    (''llmApiBase'', VStr (lc_apiBase llm)),
                    (''samplingRate'', VF64 (Fin (mo_SamplingRate monitor))),
                    (''traceStart'', VStr (xe_format env startTime)),
                    (''traceEnd'', VStr (xe_format env endTime))]),
                  (''publishing'', VObj publishing)]\<rparr>))"

section \<open>Executing\<close>

definition prepare_run ::
  "executor_env \<Rightarrow> nat \<Rightarrow> Monitor \<Rightarrow> int \<Rightarrow> int \<Rightarrow> MonitorEvaluator list \<Rightarrow> monitor_db \<Rightarrow>
   deploy_error + workflow_request" where
  "prepare_run env n monitor startTime endTime evaluators db =
     (if evaluators = [] then Inl (Errorf ''evaluators must not be empty for monitor %s'' [mo_Name monitor])
      else andThen (wrap_error ''failed to resolve LLM proxy config: %w''
          (resolveLLMProxyConfig env n monitor db))
        (\<lambda>llm. wrap_error ''failed to build WorkflowRun request: %w''
          (buildWorkflowRunRequest env monitor startTime endTime evaluators llm)))"

definition new_run :: "executor_env \<Rightarrow> Monitor \<Rightarrow> string \<Rightarrow> int \<Rightarrow> int \<Rightarrow> MonitorEvaluator list \<Rightarrow> MonitorRun" where
  "new_run env monitor name startTime endTime evaluators =
     \<lparr>mr_ID = xe_newid env, mr_MonitorID = mo_ID monitor, mr_Name = name, mr_Evaluators = evaluators,
      mr_TraceStart = startTime, mr_TraceEnd = endTime, mr_StartedAt = Some (xe_started env),
      mr_CompletedAt = None, mr_Status = RunStatusPending, mr_ErrorMessage = None, mr_CreatedAt = 0\<rparr>"

text \<open>The statements are \<open>n\<close> to \<open>n + 3\<close>.\<close>

definition ExecuteMonitorRun ::
  "executor_env \<Rightarrow> nat \<Rightarrow> string \<Rightarrow> Monitor \<Rightarrow> int \<Rightarrow> int \<Rightarrow> MonitorEvaluator list \<Rightarrow> monitor_state \<Rightarrow>
   monitor_state \<times> (deploy_error + MonitorRun)" where
  "ExecuteMonitorRun env n org monitor startTime endTime evaluators st =
     (case prepare_run env n monitor startTime endTime evaluators (mt_db st) of
        Inl e \<Rightarrow> (st, Inl e)
      | Inr request \<Rightarrow>
          (case xe_workflow env org request of
             Inl e \<Rightarrow> (st, Inl (Wrapf ''failed to create WorkflowRun: %w'' [] e))
           | Inr name \<Rightarrow>
               (let st1 = st\<lparr>mt_calls := mt_calls st @ [Created org name]\<rparr> in
                case wrap_error ''failed to create monitor run entry: %w''
                    (CreateMonitorRun (xe_store env) (n + 3) (xe_started env)
                      (new_run env monitor name startTime endTime evaluators) (mt_db st)) of
                  Inl e \<Rightarrow> (st1, Inl e)
                | Inr (run, db) \<Rightarrow> (st1\<lparr>mt_db := db\<rparr>, Inr run))))"

definition executor_UpdateNextRunTime ::
  "executor_env \<Rightarrow> nat \<Rightarrow> uuid \<Rightarrow> int \<Rightarrow> monitor_db \<Rightarrow> deploy_error + monitor_db" where
  "executor_UpdateNextRunTime env n monitorID nextRunTime db =
     wrap_error ''failed to update next_run_time: %w''
       (UpdateNextRunTime (xe_store env) n (xe_started env) monitorID (Some nextRunTime) db)"

end
