(* ===== verification/EvaluatorStore.thy ===== *)
theory EvaluatorStore
  imports MonitorEvaluators MonitorExecutor
begin

text \<open>
  Custom evaluators: the repository (\<open>agent-manager-service/repositories/custom_evaluator_repository.go\<close>,
  rows of \<open>models/custom_evaluator.go\<close>) and the evaluator service (\<open>services/evaluator_manager.go\<close>), which
  merges them with the built-in catalog.

  The table \<open>custom_evaluators\<close> has the constraints of migration 010, without the lengths of texts; rows are
  only ever marked as deleted. A search pattern is matched as PostgreSQL documents \<open>ILIKE\<close>, with letters
  folded in ASCII only. The catalog, the parameters that every LLM judge inherits and the UUID of a catalog
  entry are generated code and parameters.
\<close>

section \<open>Identifiers\<close>

definition alnum_char :: "char \<Rightarrow> bool" where
  "alnum_char c \<longleftrightarrow> byte_in 97 122 c \<or> byte_in 48 57 c"

text \<open>\<open>^[a-z0-9]+(?:-[a-z0-9]+)*$\<close>\<close>

fun IdentifierRegex :: "string \<Rightarrow> bool" and identifier_rest :: "string \<Rightarrow> bool" where
  "IdentifierRegex [] \<longleftrightarrow> False"
| "IdentifierRegex (c # s) \<longleftrightarrow> alnum_char c \<and> identifier_rest s"
| "identifier_rest [] \<longleftrightarrow> True"
| "identifier_rest (c # s) \<longleftrightarrow> (if alnum_char c then identifier_rest s else c = CHR ''-'' \<and> IdentifierRegex s)"

definition slugify :: "string \<Rightarrow> string" where
  "slugify name =
     (let s = trim_dashes (replace_runs (to_lower (trim_space name)));
          s = (if length s > 128 then trim_dashes (take 128 s) else s)
      in if s = [] then ''unnamed-evaluator'' else s)"

section \<open>Search patterns\<close>

definition replace_char :: "char \<Rightarrow> string \<Rightarrow> string \<Rightarrow> string" where
  "replace_char c r s = concat (map (\<lambda>x. if x = c then r else [x]) s)"

definition escapeLikePattern :: "string \<Rightarrow> string" where
  "escapeLikePattern s =
     replace_char (CHR ''_'') [CHR 0x5C, CHR ''_''] (replace_char (CHR ''%'') [CHR 0x5C, CHR ''%'']
       (replace_char (CHR 0x5C) [CHR 0x5C, CHR 0x5C] s))"

text \<open>\<open>LIKE\<close>: a percent sign stands for any text, an underscore for one byte, a backslash quotes.\<close>

fun like_match :: "string \<Rightarrow> string \<Rightarrow> bool" where
  "like_match [] t \<longleftrightarrow> t = []"
| "like_match (p # ps) [] \<longleftrightarrow> p = CHR ''%'' \<and> like_match ps []"
| "like_match (p # ps) (c # t) \<longleftrightarrow>
     (if p = CHR ''%'' then like_match ps (c # t) \<or> like_match (p # ps) t
      else if p = CHR ''_'' then like_match ps t
      else if p = CHR 0x5C then (case ps of [] \<Rightarrow> False | q # qs \<Rightarrow> c = q \<and> like_match qs t)
      else c = p \<and> like_match ps t)"

definition ilike :: "string \<Rightarrow> string \<Rightarrow> bool" where
  "ilike t pattern \<longleftrightarrow> like_match (map lower_char pattern) (map lower_char t)"

section \<open>The repository\<close>

record CustomEvaluatorFilters =
  cuf_Limit :: int
  cuf_Offset :: int
  cuf_Type :: string
  cuf_Level :: string
  cuf_Search :: string
  cuf_Tags :: "string list"

record evaluator_env =
  ee_store :: store_env
  ee_now :: int
  ee_newid :: uuid
  ee_catalog :: "Entry list"
  ee_base :: "EvaluatorConfigParam list"
  ee_entryID :: "string \<Rightarrow> uuid"

abbreviation ee_repo :: "evaluator_env \<Rightarrow> deploy_env" where
  "ee_repo env \<equiv> ms_repo (ee_store env)"

definition CustomEvaluatorTypeCode :: string where "CustomEvaluatorTypeCode = ''code''"
definition CustomEvaluatorTypeLLMJudge :: string where "CustomEvaluatorTypeLLMJudge = ''llm_judge''"

definition active_custom :: "CustomEvaluator \<Rightarrow> bool" where
  "active_custom c \<longleftrightarrow> cu_DeletedAt c = None"

definition custom_key :: "CustomEvaluator \<Rightarrow> string \<times> string" where
  "custom_key c = (cu_OrgName c, cu_Identifier c)"

definition custom_violation :: "CustomEvaluator \<Rightarrow> CustomEvaluator list \<Rightarrow> string option" where
  "custom_violation c others =
     (if active_custom c \<and> custom_key c \<in> custom_key ` set (filter active_custom others)
      then Some ''duplicate key value violates unique constraint uq_custom_evaluator_org_identifier''
      else if cu_Type c \<notin> {CustomEvaluatorTypeCode, CustomEvaluatorTypeLLMJudge}
      then Some ''new row violates check constraint custom_evaluators_type_check''
      else if cu_Level c \<notin> {''trace'', ''agent'', ''llm''}
      then Some ''new row violates check constraint custom_evaluators_level_check''
      else None)"

definition custom_row :: "evaluator_env \<Rightarrow> CustomEvaluator \<Rightarrow> CustomEvaluator" where
  "custom_row env c =
     c\<lparr>cu_CreatedAt := ms_column (ee_store env) (cu_CreatedAt c), cu_UpdatedAt := ms_column (ee_store env) (cu_UpdatedAt c),
       cu_DeletedAt := map_option (ms_column (ee_store env)) (cu_DeletedAt c)\<rparr>"

text \<open>The database draws the id and fills in the version; the created row is read back.\<close>

definition custom_Create ::
  "evaluator_env \<Rightarrow> nat \<Rightarrow> CustomEvaluator \<Rightarrow> CustomEvaluator list \<Rightarrow>
   deploy_error + (CustomEvaluator \<times> CustomEvaluator list)" where
  "custom_Create env n c db =
     (let c' = c\<lparr>cu_ID := ee_newid env, cu_Version := (if cu_Version c = [] then ''1.0'' else cu_Version c),
                 cu_CreatedAt := ee_now env, cu_UpdatedAt := ee_now env\<rparr>
      in statement (ee_repo env) n
        (if ee_newid env \<in> cu_ID ` set db
         then Inl (Database ''duplicate key value violates unique constraint custom_evaluators_pkey'')
         else case custom_violation c' db of
             Some e \<Rightarrow> Inl (Database e) | None \<Rightarrow> Inr (c', db @ [custom_row env c'])))"

definition GetByIdentifier ::
  "evaluator_env \<Rightarrow> nat \<Rightarrow> string \<Rightarrow> string \<Rightarrow> CustomEvaluator list \<Rightarrow> deploy_error + CustomEvaluator" where
  "GetByIdentifier env n org identifier db =
     statement (ee_repo env) n
       (case find (\<lambda>c. custom_key c = (org, identifier) \<and> active_custom c) db of
          Some c \<Rightarrow> Inr c | None \<Rightarrow> Inl ErrRecordNotFound)"

definition custom_matches :: "string \<Rightarrow> CustomEvaluatorFilters \<Rightarrow> CustomEvaluator \<Rightarrow> bool" where
  "custom_matches org f c \<longleftrightarrow>
     cu_OrgName c = org \<and> active_custom c
     \<and> (cuf_Type f = [] \<or> cu_Type c = cuf_Type f) \<and> (cuf_Level f = [] \<or> cu_Level c = cuf_Level f)
     \<and> (cuf_Search f = [] \<or> (let search = ''%'' @ escapeLikePattern (cuf_Search f) @ ''%'' in
          ilike (cu_Identifier c) search \<or> ilike (cu_DisplayName c) search \<or> ilike (cu_Description c) search))
     \<and> list_all (\<lambda>t. t \<in> set (cu_Tags c)) (cuf_Tags f)"

text \<open>The statements are \<open>n\<close> (count) and \<open>n + 1\<close>.\<close>

definition custom_List ::
  "evaluator_env \<Rightarrow> nat \<Rightarrow> string \<Rightarrow> CustomEvaluatorFilters \<Rightarrow> CustomEvaluator list \<Rightarrow>
   deploy_error + (CustomEvaluator list \<times> int)" where
  "custom_List env n org f db =
     (let hits = filter (custom_matches org f) db;
          ordered = sort_key (\<lambda>c. - cu_CreatedAt c) hits
      in andThen (statement (ee_repo env) n (Inr (int (length hits))))
        (\<lambda>tot. statement (ee_repo env) (Suc n)
          (Inr (if cuf_Limit f > 0 then take (nat (cuf_Limit f)) (drop (nat (cuf_Offset f)) ordered) else ordered, tot))))"

text \<open>\<open>Save\<close> writes every column of the row with the id.\<close>

definition custom_Update ::
  "evaluator_env \<Rightarrow> nat \<Rightarrow> CustomEvaluator \<Rightarrow> CustomEvaluator list \<Rightarrow> deploy_error + CustomEvaluator list" where
  "custom_Update env n c db =
     (let row = custom_row env (c\<lparr>cu_UpdatedAt := ee_now env\<rparr>) in
      statement (ee_repo env) n
        (case custom_violation row (filter (\<lambda>x. cu_ID x \<noteq> cu_ID c) db) of
           Some e \<Rightarrow> Inl (Database e)
         | None \<Rightarrow> Inr (if cu_ID c \<in> cu_ID ` set db then map (\<lambda>x. if cu_ID x = cu_ID c then row else x) db
                        else db @ [row])))"

definition SoftDelete ::
  "evaluator_env \<Rightarrow> nat \<Rightarrow> CustomEvaluator \<Rightarrow> CustomEvaluator list \<Rightarrow> deploy_error + CustomEvaluator list" where
  "SoftDelete env n c db = custom_Update env n (c\<lparr>cu_DeletedAt := Some (ee_now env)\<rparr>) db"

definition GetByIdentifiers ::
  "evaluator_env \<Rightarrow> nat \<Rightarrow> string \<Rightarrow> string list \<Rightarrow> CustomEvaluator list \<Rightarrow> deploy_error + CustomEvaluator list" where
  "GetByIdentifiers env n org identifiers db =
     (if identifiers = [] then Inr []
      else statement (ee_repo env) n
        (Inr (filter (\<lambda>c. cu_OrgName c = org \<and> cu_Identifier c \<in> set identifiers \<and> active_custom c) db)))"

end
