(* ===== verification/MonitorScheduler.thy ===== *)
theory MonitorScheduler
  imports MonitorExecutor
begin

text \<open>
  The scheduler of monitors (\<open>agent-manager-service/services/monitor_scheduler.go\<close>): one cycle triggers
  the monitors that are due and then brings the status of open runs up to date.

  The \<open>k\<close>-th monitor or run of a loop has an environment of its own. \<open>sc_client\<close> is the error of
  getting an OpenChoreo client for an organization, \<open>sc_status\<close> the status that the client reports for
  a workflow run, \<open>sc_locked\<close> whether the transaction has begun and the advisory lock was free.
\<close>

record cycle_env =
  sc_locked :: bool
  sc_now :: int
  sc_store :: store_env
  sc_exec :: "nat \<Rightarrow> executor_env"
  sc_triggered :: "nat \<Rightarrow> int"
  sc_synced :: "nat \<Rightarrow> int"
  sc_client :: "string \<Rightarrow> deploy_error option"
  sc_status :: "string \<Rightarrow> string \<Rightarrow> deploy_error + string"

section \<open>Durations\<close>

definition minute_ns :: int where "minute_ns = 60000000000"

text \<open>The \<open>float64\<close> nearest to 0.05.\<close>

definition SafetyDeltaPercent :: rat where
  "SafetyDeltaPercent = 3602879701896397 / 2 ^ 56"

text \<open>
  \<open>time.Duration(float64(minutes) * SafetyDeltaPercent)\<close>, a number of whole minutes. The column
  \<open>interval_minutes\<close> has 32 bits, so the conversion of the minutes is exact.
\<close>

definition safety_minutes :: "int \<Rightarrow> int" where
  "safety_minutes minutes =
     (case round_f64 (of_int minutes * SafetyDeltaPercent) of
        Some x \<Rightarrow> f64_to_int (Fin x) | None \<Rightarrow> min_int64)"

definition safety_delta :: "int \<Rightarrow> int" where
  "safety_delta minutes = wrap64 (safety_minutes minutes * minute_ns)"

definition interval_of :: "int \<Rightarrow> int" where
  "interval_of minutes = wrap64 (minutes * minute_ns)"

section \<open>Triggering\<close>

definition triggerMonitor ::
  "cycle_env \<Rightarrow> nat \<Rightarrow> Monitor \<Rightarrow> monitor_state \<Rightarrow> monitor_state \<times> (deploy_error + unit)" where
  "triggerMonitor env k monitor st =
     (case mo_IntervalMinutes monitor of
        None \<Rightarrow> (st, Inl (Errorf ''interval_minutes is nil for monitor %s'' [mo_Name monitor]))
      | Some minutes \<Rightarrow>
          (case mo_NextRunTime monitor of
             None \<Rightarrow> (st, Inl (Errorf ''next_run_time is nil for monitor %s'' [mo_Name monitor]))
           | Some next \<Rightarrow>
               (let startTime = next - interval_of minutes;
                    endTime = sc_triggered env k - safety_delta minutes;
                    nextRunTime = endTime + interval_of minutes
                in case sc_client env (mo_OrgName monitor) of
                     Some e \<Rightarrow> (st, Inl (Wrapf ''failed to get OC client for org %s: %w'' [mo_OrgName monitor] e))
                   | None \<Rightarrow>
                       (case ExecuteMonitorRun (sc_exec env k) 1 (mo_OrgName monitor) monitor startTime endTime
                            (mo_Evaluators monitor) st of
                          (st1, Inl e) \<Rightarrow> (st1, Inl e)
                        | (st1, Inr run) \<Rightarrow>
                            (case executor_UpdateNextRunTime (sc_exec env k) 5 (mo_ID monitor) nextRunTime (mt_db st1) of
                               Inl e \<Rightarrow> (st1, Inl (Wrapf ''failed to update next_run_time for monitor %s: %w''
                                  [mo_Name monitor] e))
                             | Inr db \<Rightarrow> (st1\<lparr>mt_db := db\<rparr>, Inr ()))))))"

text \<open>A monitor that fails does not stop the loop.\<close>

fun trigger_each :: "cycle_env \<Rightarrow> nat \<Rightarrow> Monitor list \<Rightarrow> monitor_state \<Rightarrow> monitor_state" where
  "trigger_each env k [] st = st"
| "trigger_each env k (m # ms) st = trigger_each env (Suc k) ms (fst (triggerMonitor env k m st))"

definition triggerPendingMonitors ::
  "cycle_env \<Rightarrow> monitor_state \<Rightarrow> monitor_state \<times> (deploy_error + unit)" where
  "triggerPendingMonitors env st =
     (case wrap_error ''failed to query pending monitors: %w''
          (ListDueMonitors (sc_store env) 1 MonitorTypeFuture (sc_now env) (mt_db st)) of
        Inl e \<Rightarrow> (st, Inl e)
      | Inr monitors \<Rightarrow> (trigger_each env 0 monitors st, Inr ()))"

section \<open>The status of runs\<close>

definition status_updates :: "int \<Rightarrow> MonitorRun \<Rightarrow> string \<Rightarrow> run_updates option" where
  "status_updates now run status =
     (if status = ''Succeeded''
      then Some \<lparr>ru_status = Some RunStatusSuccess, ru_completed_at = Some now, ru_error_message = None\<rparr>
      else if status = ''Failed'' \<or> status = ''Error''
      then Some \<lparr>ru_status = Some RunStatusFailed, ru_completed_at = Some now,
             ru_error_message = Some ''workflow completed with failure''\<rparr>
      else if status = ''Running'' \<and> mr_Status run \<noteq> RunStatusRunning
      then Some \<lparr>ru_status = Some RunStatusRunning, ru_completed_at = None, ru_error_message = None\<rparr>
      else None)"

text \<open>The store of the \<open>k\<close>-th run is that of the \<open>k\<close>-th executor; its statements are 7 and 8.\<close>

definition syncSingleRunStatus ::
  "cycle_env \<Rightarrow> nat \<Rightarrow> MonitorRun \<Rightarrow> monitor_db \<Rightarrow> monitor_db \<times> (deploy_error + unit)" where
  "syncSingleRunStatus env k run db =
     (let store = xe_store (sc_exec env k) in
      case GetMonitorByID store 7 (mr_MonitorID run) db of
        Inl e \<Rightarrow> (db, Inl (Wrapf ''failed to get monitor: %w'' [] e))
      | Inr monitor \<Rightarrow>
          (case sc_client env (mo_OrgName monitor) of
             Some e \<Rightarrow> (db, Inl (Wrapf ''failed to get OC client for org %s: %w'' [mo_OrgName monitor] e))
           | None \<Rightarrow>
               (case sc_status env (mo_OrgName monitor) (mr_Name run) of
                  Inl e \<Rightarrow> (db, Inl (Wrapf ''failed to get workflow run: %w'' [] e))
                | Inr status \<Rightarrow>
                    (case status_updates (sc_synced env k) run status of
                       None \<Rightarrow> (db, Inr ())
                     | Some u \<Rightarrow>
                         (case UpdateMonitorRun store 8 (mr_ID run) u db of
                            Inl e \<Rightarrow> (db, Inl (Wrapf ''failed to update run status: %w'' [] e))
                          | Inr db' \<Rightarrow> (db', Inr ()))))))"

fun sync_each :: "cycle_env \<Rightarrow> nat \<Rightarrow> MonitorRun list \<Rightarrow> monitor_db \<Rightarrow> monitor_db" where
  "sync_each env k [] db = db"
| "sync_each env k (r # rs) db = sync_each env (Suc k) rs (fst (syncSingleRunStatus env k r db))"

definition syncRunStatus :: "cycle_env \<Rightarrow> monitor_db \<Rightarrow> monitor_db \<times> (deploy_error + unit)" where
  "syncRunStatus env db =
     (case wrap_error ''failed to query pending/running runs: %w''
          (ListPendingOrRunningRuns (sc_store env) 6 100 db) of
        Inl e \<Rightarrow> (db, Inl e)
      | Inr runs \<Rightarrow> (sync_each env 0 runs db, Inr ()))"

text \<open>Errors are logged; the two halves are independent of each other.\<close>

definition runSchedulerCycle :: "cycle_env \<Rightarrow> monitor_state \<Rightarrow> monitor_state" where
  "runSchedulerCycle env st =
     (if sc_locked env
      then (let st1 = fst (triggerPendingMonitors env st)
            in st1\<lparr>mt_db := fst (syncRunStatus env (mt_db st1))\<rparr>)
      else st)"

end
