(* ===== verification/MonitorManager.thy ===== *)
theory MonitorManager
  imports MonitorScheduler
begin

text \<open>
  The monitor service (\<open>agent-manager-service/services/monitor_manager.go\<close>): creating, changing,
  starting, stopping, rerunning, deleting and listing monitors.

  The requests modelled do not name an LLM provider: provisioning a proxy through the gateway and the
  secret store is left out, taking one down (\<open>cleanupLLMProxies\<close>) is not. The environment holds the
  answers of the clients and repositories that are not modelled. An operation that can dereference a nil
  pointer returns an \<open>option\<close>, \<open>None\<close> for the panic.
\<close>

record provider_info =
  pi_ProviderName :: string
  pi_DisplayName :: string
  pi_TemplateHandle :: string

record EvaluatorScoreSummary =
  es_EvaluatorName :: string
  es_Level :: string
  es_Count :: int
  es_SkippedCount :: int
  es_Aggregations :: gmap

record manager_env =
  mm_exec :: executor_env
  mm_now :: int
  mm_lookup :: "string \<Rightarrow> deploy_error + (string \<times> EvaluatorConfigParam list)"
  mm_component :: "deploy_error + string"
  mm_environment :: "deploy_error + (string \<times> string)"
  mm_thunder :: bool
  mm_orgUUID :: string
  mm_credentials :: "deploy_error option"
  mm_newid :: uuid
  mm_cleanup :: "LLMProxy \<Rightarrow> deploy_error option"
  mm_deleteSecret :: "deploy_error option"
  mm_provider :: "string \<Rightarrow> string \<Rightarrow> deploy_error + (bool \<times> provider_info)"
  mm_scores :: "uuid list \<Rightarrow> deploy_error + (uuid \<times> EvaluatorScoreSummary) list"
  mm_logs :: "string \<Rightarrow> string \<Rightarrow> deploy_error + string list"

abbreviation mm_store :: "manager_env \<Rightarrow> store_env" where
  "mm_store env \<equiv> xe_store (mm_exec env)"

section \<open>Status\<close>

datatype MonitorStatus = StatusActive | StatusSuspended | StatusFailed | StatusUnknown

definition run_status_of :: "string \<Rightarrow> MonitorStatus" where
  "run_status_of s =
     (if s = RunStatusSuccess then StatusActive
      else if s = RunStatusFailed then StatusFailed
      else if s = RunStatusPending \<or> s = RunStatusRunning then StatusActive
      else StatusUnknown)"

definition getMonitorStatus ::
  "manager_env \<Rightarrow> nat \<Rightarrow> uuid \<Rightarrow> string \<Rightarrow> int option \<Rightarrow> monitor_db \<Rightarrow> MonitorStatus" where
  "getMonitorStatus env n i monitorType next db =
     (if monitorType = MonitorTypeFuture
      then (case next of Some _ \<Rightarrow> StatusActive | None \<Rightarrow> StatusSuspended)
      else
        (case GetLatestMonitorRun (mm_store env) n i db of
           Inl _ \<Rightarrow> StatusUnknown | Inr run \<Rightarrow> run_status_of (mr_Status run)))"

definition deriveMonitorStatus :: "string \<Rightarrow> int option \<Rightarrow> MonitorRun option \<Rightarrow> MonitorStatus" where
  "deriveMonitorStatus monitorType next latest =
     (if monitorType = MonitorTypeFuture
      then (case next of Some _ \<Rightarrow> StatusActive | None \<Rightarrow> StatusSuspended)
      else (case latest of None \<Rightarrow> StatusUnknown | Some run \<Rightarrow> run_status_of (mr_Status run)))"

definition getLatestRun :: "manager_env \<Rightarrow> nat \<Rightarrow> uuid \<Rightarrow> monitor_db \<Rightarrow> MonitorRun option" where
  "getLatestRun env n i db =
     (case GetLatestMonitorRun (mm_store env) n i db of Inl _ \<Rightarrow> None | Inr run \<Rightarrow> Some run)"

section \<open>Responses\<close>

text \<open>The provider of the first mapping whose proxy and provider can be found.\<close>

fun first_provider ::
  "manager_env \<Rightarrow> string \<Rightarrow> (MonitorLLMMapping \<times> LLMProxy option) list \<Rightarrow> provider_info option" where
  "first_provider env org [] = None"
| "first_provider env org ((x, None) # xs) = first_provider env org xs"
| "first_provider env org ((x, Some p) # xs) =
     (case mm_provider env (xe_show (mm_exec env) (lx_ProviderUUID p)) org of
        Inl _ \<Rightarrow> first_provider env org xs
      | Inr (hasArtifact, info) \<Rightarrow> if hasArtifact then Some info else first_provider env org xs)"

definition buildMonitorLLMProviderInfo ::
  "manager_env \<Rightarrow> nat \<Rightarrow> uuid \<Rightarrow> string \<Rightarrow> monitor_db \<Rightarrow> deploy_error + provider_info option" where
  "buildMonitorLLMProviderInfo env n i org db =
     map_sum id (first_provider env org) (ListByMonitorID (mm_store env) n i db)"

text \<open>A response has the columns of the row (\<open>rs_Fields\<close>), with the id as a text.\<close>

record MonitorResponse =
  rs_ID :: string
  rs_Fields :: Monitor
  rs_Status :: MonitorStatus
  rs_LatestRun :: "MonitorRun option"
  rs_LLMProvider :: "provider_info option"

definition ToResponse ::
  "manager_env \<Rightarrow> Monitor \<Rightarrow> MonitorStatus \<Rightarrow> MonitorRun option \<Rightarrow> MonitorResponse" where
  "ToResponse env m status latest =
     \<lparr>rs_ID = xe_show (mm_exec env) (mo_ID m), rs_Fields = m, rs_Status = status, rs_LatestRun = latest,
      rs_LLMProvider = None\<rparr>"

definition enriched ::
  "manager_env \<Rightarrow> nat \<Rightarrow> string \<Rightarrow> monitor_db \<Rightarrow> MonitorResponse \<Rightarrow> MonitorResponse" where
  "enriched env n org db resp =
     (case buildMonitorLLMProviderInfo env n (mo_ID (rs_Fields resp)) org db of
        Inl _ \<Rightarrow> resp | Inr info \<Rightarrow> resp\<lparr>rs_LLMProvider := info\<rparr>)"

definition monitor_response :: "manager_env \<Rightarrow> nat \<Rightarrow> string \<Rightarrow> Monitor \<Rightarrow> monitor_db \<Rightarrow> MonitorResponse" where
  "monitor_response env n org m db =
     enriched env (n + 2) org db
       (ToResponse env m (getMonitorStatus env (n + 1) (mo_ID m) (mo_Type m) (mo_NextRunTime m) db)
          (getLatestRun env n (mo_ID m) db))"

section \<open>Validation\<close>

definition MinIntervalMinutes :: int where "MinIntervalMinutes = 5"
definition DefaultIntervalMinutes :: int where "DefaultIntervalMinutes = 60"
definition DefaultSamplingRate :: rat where "DefaultSamplingRate = 1"

definition validateTraceWindow :: "int \<Rightarrow> int \<Rightarrow> int \<Rightarrow> deploy_error option" where
  "validateTraceWindow now traceStart traceEnd =
     (if \<not> traceEnd > traceStart then Some (invalid ''traceEnd must be after traceStart: %w'' [])
      else if traceEnd > now then Some (invalid ''traceEnd must not be in the future: %w'' [])
      else if now - traceStart > 30 * 24 * 60 * minute_ns
      then Some (invalid ''traceStart cannot be more than 30 days ago: %w'' [])
      else None)"

definition check_interval :: "int option \<Rightarrow> deploy_error option" where
  "check_interval i =
     (case i of
        Some m \<Rightarrow> if m < MinIntervalMinutes then Some (invalid ''intervalMinutes must be at least %d: %w'' []) else None
      | None \<Rightarrow> None)"

definition check_rate :: "rat option \<Rightarrow> deploy_error option" where
  "check_rate r =
     (case r of
        Some x \<Rightarrow>
          if x \<le> 0 \<or> x > 1
          then Some (invalid ''samplingRate must be between 0 (exclusive) and 1 (inclusive): %w'' []) else None
      | None \<Rightarrow> None)"

definition or_else :: "'a option \<Rightarrow> 'a option \<Rightarrow> 'a option" where
  "or_else a b = (case a of Some x \<Rightarrow> Some x | None \<Rightarrow> b)"

record CreateMonitorRequest =
  cr_Name :: string
  cr_DisplayName :: string
  cr_Description :: string
  cr_ProjectName :: string
  cr_AgentName :: string
  cr_EnvironmentName :: string
  cr_Evaluators :: "MonitorEvaluator list"
  cr_Type :: string
  cr_IntervalMinutes :: "int option"
  cr_TraceStart :: "int option"
  cr_TraceEnd :: "int option"
  cr_SamplingRate :: "rat option"

definition trace_window_error :: "int \<Rightarrow> int option \<Rightarrow> int option \<Rightarrow> deploy_error option" where
  "trace_window_error now a b =
     (case (a, b) of
        (Some s, Some e) \<Rightarrow> validateTraceWindow now s e
      | _ \<Rightarrow> Some (invalid ''traceStart and traceEnd are required for past monitors: %w'' []))"

definition validateCreateRequest :: "int \<Rightarrow> CreateMonitorRequest \<Rightarrow> deploy_error option" where
  "validateCreateRequest now req =
     or_else (if cr_Type req = MonitorTypePast then trace_window_error now (cr_TraceStart req) (cr_TraceEnd req)
              else None)
       (or_else (check_interval (cr_IntervalMinutes req)) (check_rate (cr_SamplingRate req)))"

section \<open>Creating\<close>

text \<open>The run of a past monitor starts at once, over the window of the monitor.\<close>

definition run_past ::
  "manager_env \<Rightarrow> nat \<Rightarrow> string \<Rightarrow> Monitor \<Rightarrow> monitor_state \<Rightarrow>
   (monitor_state \<times> (deploy_error + MonitorRun)) option" where
  "run_past env n org m st =
     (case (mo_TraceStart m, mo_TraceEnd m) of
        (Some s, Some e) \<Rightarrow> Some (ExecuteMonitorRun (mm_exec env) n org m s e (mo_Evaluators m) st)
      | _ \<Rightarrow> None)"

definition prepared_monitor :: "manager_env \<Rightarrow> string \<Rightarrow> CreateMonitorRequest \<Rightarrow> deploy_error + Monitor" where
  "prepared_monitor env org req =
     (case validateCreateRequest (mm_now env) req of
        Some e \<Rightarrow> Inl e
      | None \<Rightarrow> andThen (validateEvaluators (mm_lookup env) (cr_Evaluators req))
         (\<lambda>(hasLLMJudge, evaluators).
            if hasLLMJudge
            then Inl (invalid ''llmProvider is required when using llm_judge evaluators: %w'' [])
            else andThen (wrap_error ''failed to resolve agent: %w'' (mm_component env))
              (\<lambda>agentID. andThen (wrap_error ''failed to resolve environment: %w'' (mm_environment env))
                (\<lambda>(environmentName, environmentID).
                   if mm_thunder env \<and> mm_orgUUID env = []
                   then Inl (Errorf ''missing organization unit ID (ouId) in token'' [])
                   else case mm_credentials env of
                     Some e \<Rightarrow> Inl (Wrapf ''failed to provision publisher credentials: %w'' [] e)
                   | None \<Rightarrow> Inr
                       \<lparr>mo_ID = mm_newid env, mo_Name = cr_Name req, mo_DisplayName = cr_DisplayName req,
                        mo_Description = cr_Description req, mo_Type = cr_Type req, mo_OrgName = org,
                        mo_ProjectName = cr_ProjectName req, mo_AgentName = cr_AgentName req,
                        mo_AgentID = agentID, mo_EnvironmentName = environmentName,
                        mo_EnvironmentID = environmentID, mo_Evaluators = evaluators,
                        mo_IntervalMinutes = (if cr_Type req = MonitorTypeFuture
                          then or_else (cr_IntervalMinutes req) (Some DefaultIntervalMinutes) else None),
                        mo_NextRunTime = (if cr_Type req = MonitorTypeFuture then Some (mm_now env) else None),
                        mo_TraceStart = cr_TraceStart req, mo_TraceEnd = cr_TraceEnd req,
                        mo_SamplingRate = (case cr_SamplingRate req of Some x \<Rightarrow> x | None \<Rightarrow> DefaultSamplingRate),
                        mo_CreatedAt = 0, mo_UpdatedAt = 0\<rparr>))))"

fun error_text :: "deploy_error \<Rightarrow> string" where
  "error_text (Database s) = s"
| "error_text _ = []"

definition created_monitor ::
  "manager_env \<Rightarrow> string \<Rightarrow> CreateMonitorRequest \<Rightarrow> monitor_db \<Rightarrow> deploy_error + (Monitor \<times> monitor_db)" where
  "created_monitor env org req db =
     andThen (prepared_monitor env org req)
       (\<lambda>m. map_sum (\<lambda>e. if str_contains (error_text e) ''duplicate key'' then ErrMonitorAlreadyExists
                          else Wrapf ''failed to save monitor: %w'' [] e) id
          (CreateMonitor_row (mm_store env) 1 (mm_now env) m db))"

section \<open>Taking down LLM proxies\<close>

definition cleanupLLMProxies ::
  "manager_env \<Rightarrow> nat \<Rightarrow> uuid \<Rightarrow> monitor_db \<Rightarrow> deploy_error + monitor_db" where
  "cleanupLLMProxies env n i db =
     andThen (wrap_error ''failed to list monitor LLM mappings: %w'' (ListByMonitorID (mm_store env) n i db))
       (\<lambda>mappings.
          if List.map_filter (mm_cleanup env) (List.map_filter snd mappings) \<noteq> []
          then Inl (Errorf ''one or more LLM proxy cleanups failed: %w'' [])
          else case (if mappings \<noteq> [] then mm_deleteSecret env else None) of
            Some e \<Rightarrow> Inl (Wrapf ''failed to delete composite LLM proxy secret: %w'' [] e)
          | None \<Rightarrow> wrap_error ''failed to delete monitor LLM mappings: %w''
              (DeleteByMonitorID (mm_store env) (Suc n) i db))"

definition if_ok :: "deploy_error + monitor_db \<Rightarrow> monitor_db \<Rightarrow> monitor_db" where
  "if_ok r db = (case r of Inl _ \<Rightarrow> db | Inr db' \<Rightarrow> db')"

text \<open>When the run of a past monitor cannot be started the monitor is taken back, if that works.\<close>

definition CreateMonitor ::
  "manager_env \<Rightarrow> string \<Rightarrow> CreateMonitorRequest \<Rightarrow> monitor_state \<Rightarrow>
   (monitor_state \<times> (deploy_error + MonitorResponse)) option" where
  "CreateMonitor env org req st =
     (case created_monitor env org req (mt_db st) of
        Inl e \<Rightarrow> Some (st, Inl e)
      | Inr (m, db) \<Rightarrow>
          (let st1 = st\<lparr>mt_db := db\<rparr>;
               reply = (\<lambda>latest s. (s, Inr (enriched env 10 org (mt_db s) (ToResponse env m StatusActive latest))))
           in if mo_Type m = MonitorTypePast
              then map_option
                (\<lambda>(st2, r). case r of
                   Inr run \<Rightarrow> reply (Some run) st2
                 | Inl e \<Rightarrow>
                     (let db1 = if_ok (cleanupLLMProxies env 6 (mo_ID m) (mt_db st2)) (mt_db st2);
                          db2 = if_ok (DeleteMonitor_row (mm_store env) 8 (mo_ID m) db1) db1
                      in (st2\<lparr>mt_db := db2\<rparr>, Inl e)))
                (run_past env 2 org m st1)
              else Some (reply None st1)))"

section \<open>Looking up, starting and stopping\<close>

definition monitor_named ::
  "manager_env \<Rightarrow> string \<Rightarrow> string \<Rightarrow> string \<Rightarrow> string \<Rightarrow> monitor_db \<Rightarrow> deploy_error + Monitor" where
  "monitor_named env org project agent name db =
     map_sum (\<lambda>e. if e = ErrRecordNotFound then ErrMonitorNotFound
                   else Wrapf ''failed to get monitor: %w'' [] e) id
       (GetMonitorByName (mm_store env) 1 org project agent name db)"

definition GetMonitor ::
  "manager_env \<Rightarrow> string \<Rightarrow> string \<Rightarrow> string \<Rightarrow> string \<Rightarrow> monitor_db \<Rightarrow> deploy_error + MonitorResponse" where
  "GetMonitor env org project agent name db =
     map_sum id (\<lambda>m. monitor_response env 2 org m db) (monitor_named env org project agent name db)"

text \<open>The mappings of the \<open>k\<close>-th monitor are read by statement \<open>k + 3\<close>.\<close>

definition ListMonitors ::
  "manager_env \<Rightarrow> string \<Rightarrow> string \<Rightarrow> string \<Rightarrow> monitor_db \<Rightarrow> deploy_error + MonitorResponse list" where
  "ListMonitors env org project agent db =
     andThen (wrap_error ''failed to list monitors: %w'' (ListMonitorsByAgent (mm_store env) 1 org project agent db))
       (\<lambda>ms. let latest = (case GetLatestMonitorRuns (mm_store env) 2 (map mo_ID ms) db of
                  Inl _ \<Rightarrow> [] | Inr l \<Rightarrow> l)
         in Inr (map (\<lambda>(k, m). let run = map_of latest (mo_ID m) in
              enriched env (k + 3) org db
                (ToResponse env m (deriveMonitorStatus (mo_Type m) (mo_NextRunTime m) run) run))
              (enumerate 0 ms)))"

text \<open>Setting or clearing the time of the next run, and reading the monitor back.\<close>

definition reschedule ::
  "manager_env \<Rightarrow> string \<Rightarrow> string \<Rightarrow> string \<Rightarrow> string \<Rightarrow> string \<Rightarrow> uuid \<Rightarrow> int option \<Rightarrow> monitor_db \<Rightarrow>
   monitor_db \<times> (deploy_error + MonitorResponse)" where
  "reschedule env text org project agent name i next db =
     (case wrap_error text (UpdateNextRunTime (mm_store env) 2 (mm_now env) i next db) of
        Inl e \<Rightarrow> (db, Inl e)
      | Inr db1 \<Rightarrow>
          (db1, map_sum id (\<lambda>m. monitor_response env 4 org m db1)
             (wrap_error ''failed to reload monitor: %w''
               (GetMonitorByName (mm_store env) 3 org project agent name db1))))"

definition StopMonitor ::
  "manager_env \<Rightarrow> string \<Rightarrow> string \<Rightarrow> string \<Rightarrow> string \<Rightarrow> monitor_db \<Rightarrow>
   monitor_db \<times> (deploy_error + MonitorResponse)" where
  "StopMonitor env org project agent name db =
     (case monitor_named env org project agent name db of
        Inl e \<Rightarrow> (db, Inl e)
      | Inr m \<Rightarrow>
          if mo_Type m \<noteq> MonitorTypeFuture then (db, Inl (invalid ''cannot stop past monitor: %w'' []))
          else if mo_NextRunTime m = None then (db, Inl ErrMonitorAlreadyStopped)
          else reschedule env ''failed to stop monitor: %w'' org project agent name (mo_ID m) None db)"

definition StartMonitor ::
  "manager_env \<Rightarrow> string \<Rightarrow> string \<Rightarrow> string \<Rightarrow> string \<Rightarrow> monitor_db \<Rightarrow>
   monitor_db \<times> (deploy_error + MonitorResponse)" where
  "StartMonitor env org project agent name db =
     (case monitor_named env org project agent name db of
        Inl e \<Rightarrow> (db, Inl e)
      | Inr m \<Rightarrow>
          if mo_Type m \<noteq> MonitorTypeFuture then (db, Inl (invalid ''cannot start past monitor: %w'' []))
          else if mo_NextRunTime m \<noteq> None then (db, Inl ErrMonitorAlreadyActive)
          else reschedule env ''failed to start monitor: %w'' org project agent name (mo_ID m)
                 (Some (mm_now env)) db)"

section \<open>Changing\<close>

record UpdateMonitorRequest =
  ur_DisplayName :: "string option"
  ur_Evaluators :: "MonitorEvaluator list option"
  ur_ClearLLMProvider :: bool
  ur_IntervalMinutes :: "int option"
  ur_TraceStart :: "int option"
  ur_TraceEnd :: "int option"
  ur_SamplingRate :: "rat option"

text \<open>The evaluators of the request, with their defaults, when the request has some.\<close>

definition checked_evaluators ::
  "manager_env \<Rightarrow> Monitor \<Rightarrow> UpdateMonitorRequest \<Rightarrow> monitor_db \<Rightarrow> deploy_error + MonitorEvaluator list" where
  "checked_evaluators env m req db =
     (if ur_Evaluators req = None \<and> \<not> ur_ClearLLMProvider req then Inr (mo_Evaluators m)
      else andThen (validateEvaluators (mm_lookup env)
             (case ur_Evaluators req of Some es \<Rightarrow> es | None \<Rightarrow> mo_Evaluators m))
        (\<lambda>(hasLLMJudge, evaluators).
           if \<not> hasLLMJudge then Inr evaluators
           else if ur_ClearLLMProvider req
           then Inl (invalid ''cannot remove llmProvider while llm_judge evaluators are configured: %w'' [])
           else andThen (wrap_error ''failed to check existing LLM provider mapping: %w''
               (ListByMonitorID (mm_store env) 2 (mo_ID m) db))
             (\<lambda>existing. if existing = []
                then Inl (invalid ''llmProvider is required when using llm_judge evaluators: %w'' [])
                else Inr evaluators)))"

definition update_window_error :: "int \<Rightarrow> Monitor \<Rightarrow> UpdateMonitorRequest \<Rightarrow> deploy_error option" where
  "update_window_error now m req =
     (if mo_Type m = MonitorTypePast \<and> (ur_TraceStart req \<noteq> None \<or> ur_TraceEnd req \<noteq> None)
      then trace_window_error now (or_else (ur_TraceStart req) (mo_TraceStart m))
             (or_else (ur_TraceEnd req) (mo_TraceEnd m))
      else None)"

definition changed_monitor ::
  "manager_env \<Rightarrow> Monitor \<Rightarrow> UpdateMonitorRequest \<Rightarrow> monitor_db \<Rightarrow> deploy_error + Monitor" where
  "changed_monitor env m req db =
     andThen (checked_evaluators env m req db)
       (\<lambda>evaluators.
          case or_else (check_interval (ur_IntervalMinutes req))
                 (or_else (check_rate (ur_SamplingRate req)) (update_window_error (mm_now env) m req)) of
            Some e \<Rightarrow> Inl e
          | None \<Rightarrow> Inr (m\<lparr>mo_DisplayName := (case ur_DisplayName req of Some d \<Rightarrow> d | None \<Rightarrow> mo_DisplayName m),
              mo_Evaluators := evaluators,
              mo_IntervalMinutes := or_else (ur_IntervalMinutes req) (mo_IntervalMinutes m),
              mo_TraceStart := or_else (ur_TraceStart req) (mo_TraceStart m),
              mo_TraceEnd := or_else (ur_TraceEnd req) (mo_TraceEnd m),
              mo_SamplingRate := (case ur_SamplingRate req of Some x \<Rightarrow> x | None \<Rightarrow> mo_SamplingRate m)\<rparr>))"

text \<open>The second half of \<open>UpdateMonitor\<close>: writing back what the first half has read.\<close>

definition save_monitor ::
  "manager_env \<Rightarrow> string \<Rightarrow> Monitor \<Rightarrow> UpdateMonitorRequest \<Rightarrow> monitor_state \<Rightarrow>
   (monitor_state \<times> (deploy_error + MonitorResponse)) option" where
  "save_monitor env org m req st =
     (let db1 = (if ur_ClearLLMProvider req
            then if_ok (cleanupLLMProxies env 3 (mo_ID m) (mt_db st)) (mt_db st) else mt_db st)
      in case wrap_error ''failed to update monitor: %w''
           (UpdateMonitor_row (mm_store env) 5 (mm_now env) m db1) of
           Inl e \<Rightarrow> Some (st\<lparr>mt_db := db1\<rparr>, Inl e)
         | Inr db2 \<Rightarrow>
             (let st2 = st\<lparr>mt_db := db2\<rparr> in
              if mo_Type m = MonitorTypePast
              then map_option
                (\<lambda>(st3, r). (st3, map_sum (Wrapf ''monitor updated but failed to trigger evaluation run: %w'' [])
                   (\<lambda>run. enriched env 12 org (mt_db st3) (ToResponse env m
                      (getMonitorStatus env 11 (mo_ID m) (mo_Type m) (mo_NextRunTime m) (mt_db st3)) (Some run))) r))
                (run_past env 6 org m st2)
              else Some (st2, Inr (monitor_response env 10 org m db2))))"

definition UpdateMonitor ::
  "manager_env \<Rightarrow> string \<Rightarrow> string \<Rightarrow> string \<Rightarrow> string \<Rightarrow> UpdateMonitorRequest \<Rightarrow> monitor_state \<Rightarrow>
   (monitor_state \<times> (deploy_error + MonitorResponse)) option" where
  "UpdateMonitor env org project agent name req st =
     (case andThen (monitor_named env org project agent name (mt_db st))
             (\<lambda>m. changed_monitor env m req (mt_db st)) of
        Inl e \<Rightarrow> Some (st, Inl e) | Inr m \<Rightarrow> save_monitor env org m req st)"

section \<open>Deleting\<close>

definition DeleteMonitor ::
  "manager_env \<Rightarrow> string \<Rightarrow> string \<Rightarrow> string \<Rightarrow> string \<Rightarrow> monitor_state \<Rightarrow>
   monitor_state \<times> (deploy_error + unit)" where
  "DeleteMonitor env org project agent name st =
     (case monitor_named env org project agent name (mt_db st) of
        Inl e \<Rightarrow> (st, Inl e)
      | Inr m \<Rightarrow>
          (let db1 = if_ok (cleanupLLMProxies env 2 (mo_ID m) (mt_db st)) (mt_db st);
               runs = (case GetMonitorRunsByMonitorID (mm_store env) 4 (mo_ID m) db1 of Inl _ \<Rightarrow> [] | Inr rs \<Rightarrow> rs)
           in case wrap_error ''failed to delete monitor from DB: %w''
                (DeleteMonitor_row (mm_store env) 5 (mo_ID m) db1) of
                Inl e \<Rightarrow> (st\<lparr>mt_db := db1\<rparr>, Inl e)
              | Inr db2 \<Rightarrow> (\<lparr>mt_db = db2, mt_calls = mt_calls st @ map (\<lambda>r. Expired org (mr_Name r)) runs\<rparr>,
                  Inr ())))"

section \<open>Runs\<close>

definition run_named ::
  "manager_env \<Rightarrow> string \<Rightarrow> string \<Rightarrow> string \<Rightarrow> string \<Rightarrow> string \<Rightarrow> monitor_db \<Rightarrow>
   deploy_error + (Monitor \<times> MonitorRun)" where
  "run_named env org project agent name runID db =
     (case ul_parse (de_uuid (ms_repo (mm_store env))) runID of
        None \<Rightarrow> Inl (invalid ''invalid run ID: %w'' [])
      | Some u \<Rightarrow> andThen (monitor_named env org project agent name db)
          (\<lambda>m. map_sum (\<lambda>e. if e = ErrRecordNotFound then ErrMonitorRunNotFound
                              else Wrapf ''failed to get monitor run: %w'' [] e) (Pair m)
             (GetMonitorRunByID (mm_store env) 2 u (mo_ID m) db)))"

definition RerunMonitor ::
  "manager_env \<Rightarrow> string \<Rightarrow> string \<Rightarrow> string \<Rightarrow> string \<Rightarrow> string \<Rightarrow> monitor_state \<Rightarrow>
   monitor_state \<times> (deploy_error + MonitorRun)" where
  "RerunMonitor env org project agent name runID st =
     (case run_named env org project agent name runID (mt_db st) of
        Inl e \<Rightarrow> (st, Inl e)
      | Inr (m, original) \<Rightarrow>
          ExecuteMonitorRun (mm_exec env) 3 org m (mr_TraceStart original) (mr_TraceEnd original)
            (mr_Evaluators original) st)"

definition GetMonitorRunLogs ::
  "manager_env \<Rightarrow> string \<Rightarrow> string \<Rightarrow> string \<Rightarrow> string \<Rightarrow> string \<Rightarrow> monitor_db \<Rightarrow>
   deploy_error + string list" where
  "GetMonitorRunLogs env org project agent name runID db =
     andThen (run_named env org project agent name runID db)
       (\<lambda>(m, run). wrap_error ''failed to get workflow run logs: %w'' (mm_logs env (mr_Name run) org))"

text \<open>When every evaluation was skipped the aggregations are cleared.\<close>

definition score_summary :: "EvaluatorScoreSummary \<Rightarrow> EvaluatorScoreSummary" where
  "score_summary s =
     (if es_Count s > 0 \<and> es_SkippedCount s \<ge> es_Count s then s\<lparr>es_Aggregations := []\<rparr> else s)"

record MonitorRunsListResponse =
  rl_Runs :: "(MonitorRun \<times> EvaluatorScoreSummary list) list"
  rl_Total :: int

definition ListMonitorRuns ::
  "manager_env \<Rightarrow> string \<Rightarrow> string \<Rightarrow> string \<Rightarrow> string \<Rightarrow> int \<Rightarrow> int \<Rightarrow> bool \<Rightarrow> monitor_db \<Rightarrow>
   deploy_error + MonitorRunsListResponse" where
  "ListMonitorRuns env org project agent name limit offset includeScores db =
     andThen (monitor_named env org project agent name db)
       (\<lambda>m. andThen (wrap_error ''failed to count monitor runs: %w'' (CountMonitorRuns (mm_store env) 2 (mo_ID m) db))
         (\<lambda>tot. andThen (wrap_error ''failed to list monitor runs: %w''
               (ListMonitorRuns_rows (mm_store env) 3 (mo_ID m) limit offset db))
           (\<lambda>runs.
              let scores = (if includeScores \<and> runs \<noteq> []
                     then (case mm_scores env (map mr_ID runs) of Inl _ \<Rightarrow> [] | Inr ss \<Rightarrow> ss) else [])
              in Inr \<lparr>rl_Runs = map (\<lambda>r. (r, map (score_summary \<circ> snd) (filter (\<lambda>s. fst s = mr_ID r) scores))) runs,
                      rl_Total = tot\<rparr>)))"

end
