(* ===== verification/EvaluatorManager.thy ===== *)
theory EvaluatorManager
  imports EvaluatorStore MonitorManager
begin

text \<open>
  The evaluator service (\<open>agent-manager-service/services/evaluator_manager.go\<close>): the listing that merges
  the built-in catalog with the custom evaluators, the operations on custom evaluators, and the lookups that
  monitors use. An operation that writes returns the table next to its result. The update is split where it
  has read the row, because other requests may come in between.
\<close>

section \<open>Responses\<close>

record EvaluatorResponse =
  er_ID :: uuid
  er_Identifier :: string
  er_DisplayName :: string
  er_Description :: string
  er_Version :: string
  er_Provider :: string
  er_Level :: string
  er_Tags :: "string list"
  er_IsBuiltin :: bool
  er_ConfigSchema :: "EvaluatorConfigParam list"
  er_Type :: string
  er_Source :: string

definition CustomProviderCode :: string where "CustomProviderCode = ''custom_code''"
definition CustomProviderLLMJudge :: string where "CustomProviderLLMJudge = ''custom_llm_judge''"

text \<open>The parameters of an LLM judge come after the inherited ones that they do not override.\<close>

definition ToEvaluatorResponse :: "EvaluatorConfigParam list \<Rightarrow> CustomEvaluator \<Rightarrow> EvaluatorResponse" where
  "ToEvaluatorResponse base ce =
     (let judge = cu_Type ce = CustomEvaluatorTypeLLMJudge;
          userKeys = map cp_Key (cu_ConfigSchema ce)
      in \<lparr>er_ID = cu_ID ce, er_Identifier = cu_Identifier ce, er_DisplayName = cu_DisplayName ce,
          er_Description = cu_Description ce, er_Version = cu_Version ce,
          er_Provider = (if judge then CustomProviderLLMJudge else CustomProviderCode),
          er_Level = cu_Level ce, er_Tags = cu_Tags ce, er_IsBuiltin = False,
          er_ConfigSchema = (if judge then filter (\<lambda>p. cp_Key p \<notin> set userKeys) base @ cu_ConfigSchema ce
                             else cu_ConfigSchema ce),
          er_Type = cu_Type ce, er_Source = cu_Source ce\<rparr>)"

definition catalogEntryToResponse :: "(string \<Rightarrow> uuid) \<Rightarrow> Entry \<Rightarrow> EvaluatorResponse" where
  "catalogEntryToResponse entryID e =
     \<lparr>er_ID = entryID (en_Identifier e), er_Identifier = en_Identifier e, er_DisplayName = en_DisplayName e,
      er_Description = en_Description e, er_Version = en_Version e, er_Provider = en_Provider e,
      er_Level = en_Level e, er_Tags = en_Tags e, er_IsBuiltin = True, er_ConfigSchema = en_ConfigSchema e,
      er_Type = en_Type e, er_Source = en_Source e\<rparr>"

section \<open>Listing and looking up\<close>

record EvaluatorFilters =
  ef_Limit :: int
  ef_Offset :: int
  ef_Tags :: "string list"
  ef_Search :: string
  ef_Provider :: string
  ef_Source :: string

definition custom_filters :: "EvaluatorFilters \<Rightarrow> CustomEvaluatorFilters" where
  "custom_filters f =
     \<lparr>cuf_Limit = 0, cuf_Offset = 0,
      cuf_Type = (if ef_Provider f = CustomProviderCode then CustomEvaluatorTypeCode
                 else if ef_Provider f = CustomProviderLLMJudge then CustomEvaluatorTypeLLMJudge else []),
      cuf_Level = [], cuf_Search = ef_Search f, cuf_Tags = ef_Tags f\<rparr>"

definition merged_evaluators ::
  "evaluator_env \<Rightarrow> string \<Rightarrow> EvaluatorFilters \<Rightarrow> CustomEvaluator list \<Rightarrow>
   deploy_error + EvaluatorResponse list" where
  "merged_evaluators env org f db =
     map_sum id
       (\<lambda>customs. map (ToEvaluatorResponse (ee_base env)) customs
          @ (if ef_Source f = ''custom'' then []
             else map (catalogEntryToResponse (ee_entryID env))
               (catalog_List (ee_catalog env) (ef_Tags f) (ef_Provider f) (ef_Search f))))
       (if ef_Source f = ''builtin'' then Inr []
        else map_sum (Wrapf ''failed to list custom evaluators: %w'' []) fst
          (custom_List env 1 org (custom_filters f) db))"

definition evaluator_page :: "int \<Rightarrow> int \<Rightarrow> 'a list \<Rightarrow> 'a list" where
  "evaluator_page offset limit merged =
     (let offset = (if offset < 0 then 0 else offset);
          limit = (if limit \<le> 0 then int (length merged) else limit)
      in if offset \<ge> int (length merged) then []
         else take (nat limit) (drop (nat offset) merged))"

definition ListEvaluators ::
  "evaluator_env \<Rightarrow> string \<Rightarrow> EvaluatorFilters \<Rightarrow> CustomEvaluator list \<Rightarrow>
   deploy_error + (EvaluatorResponse list \<times> 32 word)" where
  "ListEvaluators env org f db =
     map_sum id (\<lambda>merged. (evaluator_page (ef_Offset f) (ef_Limit f) merged, word_of_nat (length merged)))
       (merged_evaluators env org f db)"

definition GetEvaluator ::
  "evaluator_env \<Rightarrow> string \<Rightarrow> string \<Rightarrow> CustomEvaluator list \<Rightarrow> deploy_error + EvaluatorResponse" where
  "GetEvaluator env org identifier db =
     (case catalog_Get (ee_catalog env) identifier of
        Some e \<Rightarrow> Inr (catalogEntryToResponse (ee_entryID env) e)
      | None \<Rightarrow>
          map_sum (\<lambda>e. if error_is ErrRecordNotFound e then ErrEvaluatorNotFound
                        else Wrapf ''failed to get custom evaluator: %w'' [] e)
            (ToEvaluatorResponse (ee_base env)) (GetByIdentifier env 1 org identifier db))"

text \<open>The row of a custom evaluator, with the errors of the three operations that start by reading it.\<close>

definition custom_named ::
  "evaluator_env \<Rightarrow> string \<Rightarrow> string \<Rightarrow> CustomEvaluator list \<Rightarrow> deploy_error + CustomEvaluator" where
  "custom_named env org identifier db =
     map_sum (\<lambda>e. if error_is ErrRecordNotFound e then ErrCustomEvaluatorNotFound
                   else Wrapf ''failed to get custom evaluator: %w'' [] e) id
       (GetByIdentifier env 1 org identifier db)"

definition GetCustomEvaluator ::
  "evaluator_env \<Rightarrow> string \<Rightarrow> string \<Rightarrow> CustomEvaluator list \<Rightarrow> deploy_error + EvaluatorResponse" where
  "GetCustomEvaluator env org identifier db =
     map_sum id (ToEvaluatorResponse (ee_base env)) (custom_named env org identifier db)"

definition ResolveCustomEvaluators ::
  "evaluator_env \<Rightarrow> string \<Rightarrow> string list \<Rightarrow> CustomEvaluator list \<Rightarrow> deploy_error + CustomEvaluator list" where
  "ResolveCustomEvaluators env org identifiers db =
     (if identifiers = [] then Inr [] else GetByIdentifiers env 1 org identifiers db)"

section \<open>Creating\<close>

record CreateCustomEvaluatorRequest =
  cq_Identifier :: string
  cq_DisplayName :: string
  cq_Description :: string
  cq_Type :: string
  cq_Level :: string
  cq_Source :: string
  cq_ConfigSchema :: "EvaluatorConfigParam list"
  cq_Tags :: "string list"

text \<open>The columns that the database fills in are empty here.\<close>

definition new_custom :: "string \<Rightarrow> string \<Rightarrow> CreateCustomEvaluatorRequest \<Rightarrow> CustomEvaluator" where
  "new_custom org identifier req =
     \<lparr>cu_ID = 0, cu_OrgName = org, cu_Identifier = identifier, cu_DisplayName = cq_DisplayName req,
      cu_Description = cq_Description req, cu_Version = [], cu_Type = cq_Type req, cu_Level = cq_Level req,
      cu_Source = cq_Source req, cu_ConfigSchema = cq_ConfigSchema req, cu_Tags = cq_Tags req,
      cu_CreatedAt = 0, cu_UpdatedAt = 0, cu_DeletedAt = None\<rparr>"

definition CreateCustomEvaluator ::
  "evaluator_env \<Rightarrow> string \<Rightarrow> CreateCustomEvaluatorRequest \<Rightarrow> CustomEvaluator list \<Rightarrow>
   CustomEvaluator list \<times> (deploy_error + EvaluatorResponse)" where
  "CreateCustomEvaluator env org req db =
     (let identifier = (if cq_Identifier req = [] then slugify (cq_DisplayName req) else cq_Identifier req) in
      if \<not> IdentifierRegex identifier
      then (db, Inl (invalid ''identifier %q must be a lowercase slug (letters, digits, hyphens): %w'' [identifier]))
      else if catalog_Get (ee_catalog env) identifier \<noteq> None then (db, Inl ErrCustomEvaluatorIdentifierTaken)
      else
        (case custom_Create env 1 (new_custom org identifier req) db of
           Inl e \<Rightarrow> (db, Inl (if str_contains (error_text e) ''uq_custom_evaluator_org_identifier''
                        then ErrCustomEvaluatorAlreadyExists
                        else Wrapf ''failed to create custom evaluator: %w'' [] e))
         | Inr (c, db') \<Rightarrow> (db', Inr (ToEvaluatorResponse (ee_base env) c))))"

section \<open>Changing\<close>

record UpdateCustomEvaluatorRequest =
  uq_DisplayName :: "string option"
  uq_Description :: "string option"
  uq_Source :: "string option"
  uq_ConfigSchema :: "EvaluatorConfigParam list option"
  uq_Tags :: "string list option"

definition given :: "'a option \<Rightarrow> 'a \<Rightarrow> 'a" where
  "given new old = (case new of Some x \<Rightarrow> x | None \<Rightarrow> old)"

definition changed_custom :: "UpdateCustomEvaluatorRequest \<Rightarrow> CustomEvaluator \<Rightarrow> CustomEvaluator" where
  "changed_custom req c =
     c\<lparr>cu_DisplayName := given (uq_DisplayName req) (cu_DisplayName c),
       cu_Description := given (uq_Description req) (cu_Description c),
       cu_Source := given (uq_Source req) (cu_Source c),
       cu_ConfigSchema := given (uq_ConfigSchema req) (cu_ConfigSchema c),
       cu_Tags := given (uq_Tags req) (cu_Tags c)\<rparr>"

text \<open>The second half of \<open>UpdateCustomEvaluator\<close>.\<close>

definition save_custom ::
  "evaluator_env \<Rightarrow> CustomEvaluator \<Rightarrow> CustomEvaluator list \<Rightarrow>
   CustomEvaluator list \<times> (deploy_error + EvaluatorResponse)" where
  "save_custom env c db =
     (case custom_Update env 2 c db of
        Inl e \<Rightarrow> (db, Inl (Wrapf ''failed to update custom evaluator: %w'' [] e))
      | Inr db' \<Rightarrow> (db', Inr (ToEvaluatorResponse (ee_base env) c)))"

definition UpdateCustomEvaluator ::
  "evaluator_env \<Rightarrow> string \<Rightarrow> string \<Rightarrow> UpdateCustomEvaluatorRequest \<Rightarrow> CustomEvaluator list \<Rightarrow>
   CustomEvaluator list \<times> (deploy_error + EvaluatorResponse)" where
  "UpdateCustomEvaluator env org identifier req db =
     (case custom_named env org identifier db of
        Inl e \<Rightarrow> (db, Inl e) | Inr c \<Rightarrow> save_custom env (changed_custom req c) db)"

section \<open>Deleting\<close>

text \<open>The row to delete, when no monitor of the organization uses the evaluator.\<close>

definition deletable ::
  "evaluator_env \<Rightarrow> string \<Rightarrow> string \<Rightarrow> monitor_db \<Rightarrow> CustomEvaluator list \<Rightarrow> deploy_error + CustomEvaluator" where
  "deletable env org identifier mdb db =
     andThen (custom_named env org identifier db)
       (\<lambda>c. andThen (wrap_error ''failed to check evaluator usage: %w''
             (FindActiveMonitorsByEvaluatorIdentifier (ee_store env) 2 org identifier mdb))
         (\<lambda>monitors. if monitors \<noteq> [] then Inl ErrCustomEvaluatorInUse else Inr c))"

definition remove_custom ::
  "evaluator_env \<Rightarrow> CustomEvaluator \<Rightarrow> CustomEvaluator list \<Rightarrow> CustomEvaluator list \<times> (deploy_error + unit)" where
  "remove_custom env c db =
     (case SoftDelete env 3 c db of
        Inl e \<Rightarrow> (db, Inl (Wrapf ''failed to delete custom evaluator: %w'' [] e)) | Inr db' \<Rightarrow> (db', Inr ()))"

definition DeleteCustomEvaluator ::
  "evaluator_env \<Rightarrow> string \<Rightarrow> string \<Rightarrow> monitor_db \<Rightarrow> CustomEvaluator list \<Rightarrow>
   CustomEvaluator list \<times> (deploy_error + unit)" where
  "DeleteCustomEvaluator env org identifier mdb db =
     (case deletable env org identifier mdb db of
        Inl e \<Rightarrow> (db, Inl e) | Inr c \<Rightarrow> remove_custom env c db)"

end
