(* ===== verification/MonitorJobs.thy ===== *)
theory MonitorJobs
  imports MonitorManager
begin

text \<open>
  What is handed to a job: the name of its workflow run is a label, and the configuration of its
  evaluators has the types of their schema (\<open>well_typed\<close>, a typing judgement for configuration values).
\<close>

section \<open>Names\<close>

text \<open>A DNS label: at most 63 lower case letters, digits and dashes, with no dash at either end.\<close>

definition dns_label :: "string \<Rightarrow> bool" where
  "dns_label s \<longleftrightarrow> s \<noteq> [] \<and> length s \<le> 63 \<and> list_all name_char s \<and> hd s \<noteq> CHR ''-'' \<and> last s \<noteq> CHR ''-''"

lemma replace_runs_chars: "list_all name_char (replace_runs s)"
  by (induction s rule: replace_runs.induct) (simp_all add: name_char_def)

lemma trim_sub: "set (trim_dashes s) \<subseteq> set s"
  by (auto simp: trim_dashes_def dest!: set_dropWhileD)

lemma trim_length: "length (trim_dashes s) \<le> length s"
  unfolding trim_dashes_def by (metis length_dropWhile_le length_rev order_trans)

lemma trim_last: "trim_dashes s \<noteq> [] \<Longrightarrow> last (trim_dashes s) \<noteq> CHR ''-''"
  using hd_dropWhile[of "\<lambda>c. c = CHR ''-''" "rev (dropWhile (\<lambda>c. c = CHR ''-'') s)"]
  by (simp add: trim_dashes_def last_rev)

lemma trim_hd:
  assumes "trim_dashes s \<noteq> []" shows "hd (trim_dashes s) \<noteq> CHR ''-''"
proof -
  define t where "t = dropWhile (\<lambda>c. c = CHR ''-'') s"
  have trim: "trim_dashes s = rev (dropWhile (\<lambda>c. c = CHR ''-'') (rev t))" by (simp add: trim_dashes_def t_def)
  obtain u where "rev t = u @ dropWhile (\<lambda>c. c = CHR ''-'') (rev t)" by (metis takeWhile_dropWhile_id)
  then have t: "t = trim_dashes s @ rev u" by (metis trim rev_append rev_rev_ident)
  then have "hd (trim_dashes s) = hd t" "t \<noteq> []" using assms by simp_all
  then have "hd t \<noteq> CHR ''-''" using hd_dropWhile[of "\<lambda>c. c = CHR ''-''" s] by (simp only: t_def not_False_eq_True)
  then show ?thesis using \<open>hd (trim_dashes s) = hd t\<close> by simp
qed

text \<open>Runs of other characters replaced, dashes trimmed, and again after the cut.\<close>

definition cut_label :: "nat \<Rightarrow> string \<Rightarrow> string" where
  "cut_label n s = (let b = trim_dashes (replace_runs s) in if length b > n then trim_dashes (take n b) else b)"

lemma cut_label_shape:
  "list_all name_char (cut_label n s)" "length (cut_label n s) \<le> n"
  "cut_label n s \<noteq> [] \<Longrightarrow> hd (cut_label n s) \<noteq> CHR ''-'' \<and> last (cut_label n s) \<noteq> CHR ''-''"
proof -
  define b where "b = trim_dashes (replace_runs s)"
  have cut: "cut_label n s = (if length b > n then trim_dashes (take n b) else b)"
    by (simp add: cut_label_def Let_def b_def)
  have "set b \<subseteq> set (replace_runs s)" unfolding b_def by (rule trim_sub)
  moreover have "set (cut_label n s) \<subseteq> set b"
    using trim_sub[of "take n b"] set_take_subset[of n b] by (auto simp: cut)
  ultimately show "list_all name_char (cut_label n s)" using replace_runs_chars by (auto simp: list_all_iff)
  show "length (cut_label n s) \<le> n" using trim_length[of "take n b"] by (auto simp: cut)
  show "hd (cut_label n s) \<noteq> CHR ''-'' \<and> last (cut_label n s) \<noteq> CHR ''-''" if "cut_label n s \<noteq> []"
    using that trim_hd trim_last unfolding cut b_def by (auto split: if_splits)
qed

lemma name_base_label:
  "name_base s \<noteq> []" "length (name_base s) \<le> 54" "list_all name_char (name_base s)"
  "hd (name_base s) \<noteq> CHR ''-''" "last (name_base s) \<noteq> CHR ''-''"
proof -
  have base: "name_base s = (if cut_label 54 (to_lower s) = [] then ''monitor'' else cut_label 54 (to_lower s))"
    by (simp add: name_base_def cut_label_def Let_def)
  show "name_base s \<noteq> []" "length (name_base s) \<le> 54" "list_all name_char (name_base s)"
    "hd (name_base s) \<noteq> CHR ''-''" "last (name_base s) \<noteq> CHR ''-''"
    using cut_label_shape[of 54 "to_lower s"] by (simp_all add: base name_char_def byte_in_def)
qed

lemma run_name_label:
  assumes "list_all name_char (take 8 runID)" and "runID \<noteq> []" and "last (take 8 runID) \<noteq> CHR ''-''"
  shows "dns_label (buildWorkflowRunName monitorName runID)"
  using assms name_base_label[of monitorName]
  by (simp add: dns_label_def buildWorkflowRunName_def hd_append last_append name_char_def)

section \<open>Types of configuration values\<close>

definition in_bounds :: "EvaluatorConfigParam \<Rightarrow> f64 \<Rightarrow> bool" where
  "in_bounds p f \<longleftrightarrow> (\<forall>m. cp_Min p = Some m \<longrightarrow> \<not> f64_less f m) \<and> (\<forall>m. cp_Max p = Some m \<longrightarrow> \<not> f64_less m f)"

inductive well_typed :: "EvaluatorConfigParam \<Rightarrow> gval \<Rightarrow> bool" where
  typed_string: "cp_Type p = ''string'' \<Longrightarrow> cp_EnumValues p = [] \<or> s \<in> set (cp_EnumValues p) \<Longrightarrow> well_typed p (VStr s)"
| typed_enum: "cp_Type p = ''enum'' \<Longrightarrow> s \<in> set (cp_EnumValues p) \<Longrightarrow> well_typed p (VStr s)"
| typed_integer: "cp_Type p = ''integer'' \<Longrightarrow> toFloat64 v = Some (Fin (of_int i)) \<Longrightarrow> in_int64 i \<Longrightarrow>
    in_bounds p (Fin (of_int i)) \<Longrightarrow> well_typed p v"
| typed_float: "cp_Type p = ''float'' \<Longrightarrow> toFloat64 v = Some f \<Longrightarrow> in_bounds p f \<Longrightarrow> well_typed p v"
| typed_boolean: "cp_Type p = ''boolean'' \<Longrightarrow> well_typed p (VBool b)"
| typed_array: "cp_Type p = ''array'' \<Longrightarrow> well_typed p (VArr vs)"
| typed_other: "cp_Type p \<notin> {''string'', ''enum'', ''integer'', ''float'', ''boolean'', ''array''} \<Longrightarrow> well_typed p v"

inductive_cases well_typedE: "well_typed p v"

lemma checkMinMax_None: "checkMinMax pre p f = None \<longleftrightarrow> in_bounds p f"
  by (auto simp: checkMinMax_def in_bounds_def split: option.splits)

lemma check_enum_None: "check_enum pre p s = None \<longleftrightarrow> s \<in> set (cp_EnumValues p)"
  by (simp add: check_enum_def)

lemma as_str_Some: "as_str v = Some s \<longleftrightarrow> v = VStr s"
  by (cases v) auto

lemma integer_float: "f = Fin (of_int (f64_to_int f)) \<longleftrightarrow> (\<exists>i. in_int64 i \<and> f = Fin (of_int i))"
  by (metis f64_to_int_of_int f64_to_int_range)

text \<open>The validation of a value decides the judgement.\<close>

lemma validate_typed: "validateConfigValue pre p v = None \<longleftrightarrow> well_typed p v"
proof (cases "cp_Type p \<in> {''string'', ''enum'', ''integer'', ''float'', ''boolean'', ''array''}")
  case False
  then show ?thesis by (simp add: validateConfigValue_def typed_other)
next
  case True
  then consider "cp_Type p = ''string''" | "cp_Type p = ''enum''" | "cp_Type p = ''integer''"
    | "cp_Type p = ''float''" | "cp_Type p = ''boolean''" | "cp_Type p = ''array''" by auto
  then show ?thesis
  proof cases
    case 3
    have "validateConfigValue pre p v = None
      \<longleftrightarrow> (\<exists>f. toFloat64 v = Some f \<and> f = Fin (of_int (f64_to_int f)) \<and> in_bounds p f)"
      using 3 by (auto simp: validateConfigValue_def checkMinMax_None split: option.split)
    then show ?thesis unfolding integer_float using 3 by (auto intro: typed_integer elim!: well_typedE)
  qed (auto simp: validateConfigValue_def checkMinMax_None check_enum_None as_str_Some
      intro: well_typed.intros elim!: well_typedE split: option.splits gval.splits)
qed

section \<open>Validated configurations\<close>

lemma first_error_None: "first_error f xs = None \<longleftrightarrow> (\<forall>x \<in> set xs. f x = None)"
  by (induction xs) (auto split: option.split)

lemma schema_of_some: "schema_of schema k \<noteq> None \<longleftrightarrow> k \<in> cp_Key ` set schema"
  by (simp add: schema_of_def map_of_eq_None_iff image_image)

lemma schema_of_key: "schema_of schema k = Some p \<Longrightarrow> p \<in> set schema \<and> cp_Key p = k"
  by (auto simp: schema_of_def dest!: map_of_SomeD)

text \<open>Filling in defaults keeps what is there and adds what is missing.\<close>

lemma apply_defaults_Inr:
  assumes "apply_defaults pre identifier schema config = Inr config'"
  shows "map_of config k = Some v \<Longrightarrow> map_of config' k = Some v"
    and "\<forall>p \<in> set schema. cp_Required p \<or> cp_Default p \<noteq> VNull \<longrightarrow> map_of config' (cp_Key p) \<noteq> None"
    and "set config' \<subseteq> set config \<union> (\<lambda>p. (cp_Key p, cp_Default p)) ` set schema"
proof -
  have "(\<forall>k v. map_of config k = Some v \<longrightarrow> map_of config' k = Some v)
    \<and> (\<forall>p \<in> set schema. cp_Required p \<or> cp_Default p \<noteq> VNull \<longrightarrow> map_of config' (cp_Key p) \<noteq> None)
    \<and> set config' \<subseteq> set config \<union> (\<lambda>p. (cp_Key p, cp_Default p)) ` set schema"
    using assms
  proof (induction schema arbitrary: config)
    case Nil
    then show ?case by simp
  next
    case (Cons p schema)
    show ?case
    proof (cases "map_of config (cp_Key p) = None \<and> cp_Default p \<noteq> VNull")
      case True
      have "apply_defaults pre identifier schema (AList.update (cp_Key p) (cp_Default p) config) = Inr config'"
        using Cons.prems True by simp
      note rest = Cons.IH[OF this]
      have "map_of config' k = Some v" if "map_of config k = Some v" for k v
      proof -
        have "map_of (AList.update (cp_Key p) (cp_Default p) config) k = Some v"
          using that True by (auto simp: update_conv')
        then show ?thesis using rest by blast
      qed
      moreover have "map_of config' (cp_Key p) \<noteq> None" using rest by simp
      moreover have "set config' \<subseteq> set config \<union> (\<lambda>p. (cp_Key p, cp_Default p)) ` set (p # schema)"
      proof
        fix kv assume "kv \<in> set config'"
        then have "kv \<in> set (AList.update (cp_Key p) (cp_Default p) config) \<or> kv \<in> (\<lambda>p. (cp_Key p, cp_Default p)) ` set schema"
          using rest by blast
        then show "kv \<in> set config \<union> (\<lambda>p. (cp_Key p, cp_Default p)) ` set (p # schema)"
          by (auto dest: update_entries)
      qed
      ultimately show ?thesis using rest by simp
    next
      case False
      then have "apply_defaults pre identifier schema config = Inr config'"
        and "cp_Required p \<or> cp_Default p \<noteq> VNull \<Longrightarrow> map_of config (cp_Key p) \<noteq> None"
        using Cons.prems by (auto split: if_splits)
      then show ?thesis using Cons.IH[of config] by auto
    qed
  qed
  then show "map_of config k = Some v \<Longrightarrow> map_of config' k = Some v"
    and "\<forall>p \<in> set schema. cp_Required p \<or> cp_Default p \<noteq> VNull \<longrightarrow> map_of config' (cp_Key p) \<noteq> None"
    and "set config' \<subseteq> set config \<union> (\<lambda>p. (cp_Key p, cp_Default p)) ` set schema" by blast+
qed

lemma apply_defaults_same:
  "\<forall>p \<in> set schema. cp_Required p \<or> cp_Default p \<noteq> VNull \<longrightarrow> map_of config (cp_Key p) \<noteq> None \<Longrightarrow>
   apply_defaults pre identifier schema config = Inr config"
  by (induction schema) auto

lemma keys_defined:
  "first_error (key_error pre ident schema) config = None \<longleftrightarrow> (\<forall>kv \<in> set config. fst kv \<in> cp_Key ` set schema)"
  unfolding first_error_None key_error_def using schema_of_some by auto

lemma values_typed:
  "first_error (value_error pre schema) config = None
     \<longleftrightarrow> (\<forall>kv \<in> set config. \<forall>p. schema_of schema (fst kv) = Some p \<longrightarrow> well_typed p (snd kv))"
  by (auto simp: first_error_None value_error_def validate_typed split: option.splits)

lemma validate_Inr:
  "validateAndApplyDefaults idx identifier config schema = Inr config' \<longleftrightarrow>
     (\<forall>kv \<in> set config. fst kv \<in> cp_Key ` set schema)
     \<and> apply_defaults (index_prefix idx) identifier schema config = Inr config'
     \<and> (\<forall>kv \<in> set config'. \<forall>p. schema_of schema (fst kv) = Some p \<longrightarrow> well_typed p (snd kv))"
  unfolding keys_defined[where pre = "index_prefix idx" and ident = "identifier", symmetric]
    values_typed[where pre = "index_prefix idx", symmetric]
  by (auto simp: validateAndApplyDefaults_def Let_def andThen_Inr split: option.splits)

lemma validated_typed:
  assumes "validateAndApplyDefaults idx identifier config schema = Inr config'" and "(k, v) \<in> set config'"
  shows "\<exists>p \<in> set schema. cp_Key p = k \<and> well_typed p v"
proof -
  note a = assms(1)[unfolded validate_Inr]
  have filled: "apply_defaults (index_prefix idx) identifier schema config = Inr config'" using a by blast
  have "(k, v) \<in> set config \<union> (\<lambda>p. (cp_Key p, cp_Default p)) ` set schema"
    using apply_defaults_Inr(3)[OF filled] assms(2) by blast
  then have "k \<in> cp_Key ` set schema" using a by (elim UnE) auto
  then obtain p where "schema_of schema k = Some p" using schema_of_some[of schema k] by auto
  then show ?thesis using a assms(2) schema_of_key by fastforce
qed

lemma validated_again:
  assumes "validateAndApplyDefaults idx identifier config schema = Inr config'"
  shows "validateAndApplyDefaults idx identifier config' schema = Inr config'"
proof -
  note a = assms[unfolded validate_Inr]
  have "\<forall>kv \<in> set config'. fst kv \<in> cp_Key ` set schema" using validated_typed[OF assms] by fastforce
  moreover have "apply_defaults (index_prefix idx) identifier schema config' = Inr config'"
    using a by (intro apply_defaults_same apply_defaults_Inr(2)) blast
  ultimately show ?thesis using a by (simp add: validate_Inr)
qed

end
