(* ===== verification/EvaluatorSearch.thy ===== *)
theory EvaluatorSearch
  imports EvaluatorStore MonitorJobs
begin

text \<open>
  The texts of custom evaluators: which identifiers the pattern \<open>IdentifierRegex\<close> accepts, when \<open>slugify\<close>
  produces one of them, and that a search with an escaped pattern finds exactly the texts that contain it.
\<close>

section \<open>Identifiers\<close>

lemma alnum_name: "alnum_char c \<longleftrightarrow> name_char c \<and> c \<noteq> CHR ''-''"
  by (auto simp: alnum_char_def name_char_def byte_in_def)

lemma dash_name [simp]: "name_char (CHR ''-'')"
  by (simp add: name_char_def)

lemma double_Cons: "sublist ''--'' (c # s) \<longleftrightarrow> (c = CHR ''-'' \<and> s \<noteq> [] \<and> hd s = CHR ''-'') \<or> sublist ''--'' s"
  by (cases s) (auto simp: sublist_Cons_right)

text \<open>A slug: letters, digits and dashes, with no dash at either end and no two in a row.\<close>

definition slug :: "string \<Rightarrow> bool" where
  "slug s \<longleftrightarrow> s \<noteq> [] \<and> list_all name_char s \<and> hd s \<noteq> CHR ''-'' \<and> last s \<noteq> CHR ''-'' \<and> \<not> sublist ''--'' s"

lemma identifier_slug:
  "IdentifierRegex s \<longleftrightarrow> slug s"
  "identifier_rest s \<longleftrightarrow> list_all name_char s \<and> (s \<noteq> [] \<longrightarrow> last s \<noteq> CHR ''-'') \<and> \<not> sublist ''--'' s"
proof (induction s and s rule: IdentifierRegex_identifier_rest.induct)
  case (2 c s)
  show ?case unfolding IdentifierRegex.simps 2 slug_def alnum_name double_Cons by (cases s) auto
next
  case (4 c s)
  show ?case
  proof (cases "alnum_char c")
    case True
    then show ?thesis unfolding identifier_rest.simps 4(1)[OF True] double_Cons by (auto simp: alnum_name)
  next
    case False
    show ?thesis
    proof (cases "c = CHR ''-''")
      case True
      then show ?thesis unfolding identifier_rest.simps 4(2)[OF False] double_Cons slug_def
        using False by (cases "s = []") (simp_all add: conj_ac)
    next
      case c: False
      then have "\<not> name_char c" using False by (simp add: alnum_name)
      then show ?thesis using c False by simp
    qed
  qed
qed (simp_all add: slug_def)

lemma slugify_cut: "slugify s = (let b = cut_label 128 (to_lower (trim_space s)) in if b = [] then ''unnamed-evaluator'' else b)"
  by (simp add: slugify_def cut_label_def Let_def)

lemma slugify_shape:
  "slugify s \<noteq> []" "length (slugify s) \<le> 128" "list_all name_char (slugify s)"
  "hd (slugify s) \<noteq> CHR ''-''" "last (slugify s) \<noteq> CHR ''-''"
  using cut_label_shape[of 128 "to_lower (trim_space s)"]
  by (simp_all add: slugify_cut Let_def name_char_def byte_in_def)

lemma slugify_slug: "slug (slugify s) \<longleftrightarrow> \<not> sublist ''--'' (slugify s)"
  using slugify_shape by (simp add: slug_def)

section \<open>Searching\<close>

definition like_escape :: "char \<Rightarrow> string" where
  "like_escape c = (if c \<in> {CHR 0x5C, CHR ''%'', CHR ''_''} then [CHR 0x5C, c] else [c])"

lemma replace_char_append [simp]: "replace_char c r (s @ t) = replace_char c r s @ replace_char c r t"
  by (simp add: replace_char_def)

lemma escape_pattern: "escapeLikePattern s = concat (map like_escape s)"
proof (induction s)
  case (Cons c s)
  have "escapeLikePattern (c # s) = escapeLikePattern [c] @ escapeLikePattern s"
    unfolding escapeLikePattern_def replace_char_def by simp
  moreover have "escapeLikePattern [c] = like_escape c"
    by (simp add: escapeLikePattern_def replace_char_def like_escape_def)
  ultimately show ?case using Cons by simp
qed (simp add: escapeLikePattern_def replace_char_def)

lemma lower_byte:
  "of_char (lower_char c) = (if 65 \<le> (of_char c :: nat) \<and> of_char c \<le> (90 :: nat) then of_char c + 32 else of_char c :: nat)"
  by (simp add: lower_char_def less_eq_char_def of_char_of)

lemma lower_special:
  assumes "of_char d \<notin> {65..122 :: nat} \<or> of_char d \<in> {91..96 :: nat}"
  shows "lower_char c = d \<longleftrightarrow> c = d"
proof -
  have "lower_char c = d \<longleftrightarrow> of_char (lower_char c) = (of_char d :: nat)" by simp
  also have "\<dots> \<longleftrightarrow> of_char c = (of_char d :: nat)" using assms unfolding lower_byte by auto
  finally show ?thesis by simp
qed

lemma lower_specials [simp]:
  "lower_char c = CHR 0x5C \<longleftrightarrow> c = CHR 0x5C" "lower_char c = CHR ''%'' \<longleftrightarrow> c = CHR ''%''"
  "lower_char c = CHR ''_'' \<longleftrightarrow> c = CHR ''_''"
  by (simp_all add: lower_special)

lemma lower_escape: "map lower_char (concat (map like_escape s)) = concat (map like_escape (map lower_char s))"
proof (induction s)
  case (Cons c s)
  have "map lower_char (like_escape c) = like_escape (lower_char c)"
    by (auto simp: like_escape_def)
  then show ?case using Cons by simp
qed simp

lemma like_prefix: "like_match (concat (map like_escape s) @ p) t \<longleftrightarrow> (\<exists>u. t = s @ u \<and> like_match p u)"
proof (induction s arbitrary: t)
  case (Cons c s)
  show ?case
  proof (cases t)
    case Nil
    then show ?thesis by (simp add: like_escape_def)
  next
    case (Cons d u)
    then show ?thesis using Cons.IH by (auto simp: like_escape_def)
  qed
qed simp

lemma like_any: "like_match (CHR ''%'' # p) t \<longleftrightarrow> (\<exists>u v. t = u @ v \<and> like_match p v)"
proof (induction t)
  case (Cons c t)
  have "like_match (CHR ''%'' # p) (c # t) \<longleftrightarrow> like_match p (c # t) \<or> (\<exists>u v. t = u @ v \<and> like_match p v)"
    using Cons by simp
  also have "\<dots> \<longleftrightarrow> (\<exists>u v. c # t = u @ v \<and> like_match p v)" by (auto simp: Cons_eq_append_conv)
  finally show ?case .
qed auto

lemma like_contains: "like_match (CHR ''%'' # concat (map like_escape s) @ ''%'') t \<longleftrightarrow> sublist s t"
  by (auto simp: like_any like_prefix sublist_def)

lemma ilike_contains:
  "ilike t (''%'' @ escapeLikePattern s @ ''%'') \<longleftrightarrow> sublist (map lower_char s) (map lower_char t)"
proof -
  have "lower_char (CHR ''%'') = CHR ''%''" by simp
  then have "map lower_char (''%'' @ escapeLikePattern s @ ''%'')
      = CHR ''%'' # concat (map like_escape (map lower_char s)) @ ''%''"
    by (simp only: escape_pattern lower_escape map_append list.map append_Cons append_Nil)
  then show ?thesis unfolding ilike_def by (simp only: like_contains)
qed

end
