(* ===== verification/MonitorLife.thy ===== *)
theory MonitorLife
  imports MonitorManager
begin

text \<open>
  The tables of the monitors over time: what holds of every row (\<open>monitor_inv\<close>), the life cycle of a run
  (\<open>run_step\<close>), and that every operation of the monitor service and every cycle of the scheduler keeps
  the one and follows the other.
\<close>

named_theorems monitor_invs \<open>operations keep the invariant of the monitor tables\<close>

section \<open>Rows\<close>

text \<open>A scheduled monitor has an interval, a past one a window and no time of a next run.\<close>

definition monitor_shape :: "Monitor \<Rightarrow> bool" where
  "monitor_shape m \<longleftrightarrow>
     (mo_Type m = MonitorTypeFuture \<and> (\<exists>minutes \<ge> MinIntervalMinutes. mo_IntervalMinutes m = Some minutes)
      \<or> mo_Type m = MonitorTypePast \<and> mo_TraceStart m \<noteq> None \<and> mo_TraceEnd m \<noteq> None \<and> mo_NextRunTime m = None)"

definition monitor_ok :: "Monitor \<Rightarrow> bool" where
  "monitor_ok m \<longleftrightarrow> monitor_shape m \<and> 0 < mo_SamplingRate m \<and> mo_SamplingRate m \<le> 1"

definition run_done :: "MonitorRun \<Rightarrow> bool" where
  "run_done r \<longleftrightarrow> mr_Status r = RunStatusSuccess \<or> mr_Status r = RunStatusFailed"

definition run_ok :: "MonitorRun \<Rightarrow> bool" where
  "run_ok r \<longleftrightarrow> (run_open r \<or> run_done r)
     \<and> (mr_CompletedAt r \<noteq> None \<longleftrightarrow> run_done r)
     \<and> (mr_ErrorMessage r \<noteq> None \<longleftrightarrow> mr_Status r = RunStatusFailed)"

definition monitor_inv :: "monitor_db \<Rightarrow> bool" where
  "monitor_inv db \<longleftrightarrow>
     distinct (map mo_ID (md_monitors db)) \<and> distinct (map monitor_scope (md_monitors db))
     \<and> distinct (map mr_ID (md_runs db))
     \<and> (\<forall>m \<in> set (md_monitors db). monitor_ok m) \<and> (\<forall>r \<in> set (md_runs db). run_ok r)
     \<and> mr_MonitorID ` set (md_runs db) \<subseteq> mo_ID ` set (md_monitors db)
     \<and> ml_MonitorID ` set (md_mappings db) \<subseteq> mo_ID ` set (md_monitors db)"

lemma type_distinct [simp]: "MonitorTypeFuture \<noteq> MonitorTypePast" "MonitorTypePast \<noteq> MonitorTypeFuture"
  by (simp_all add: MonitorTypeFuture_def MonitorTypePast_def)

lemma status_distinct [simp]:
  "RunStatusPending \<noteq> RunStatusRunning" "RunStatusRunning \<noteq> RunStatusPending"
  "RunStatusPending \<noteq> RunStatusSuccess" "RunStatusSuccess \<noteq> RunStatusPending"
  "RunStatusPending \<noteq> RunStatusFailed" "RunStatusFailed \<noteq> RunStatusPending"
  "RunStatusRunning \<noteq> RunStatusSuccess" "RunStatusSuccess \<noteq> RunStatusRunning"
  "RunStatusRunning \<noteq> RunStatusFailed" "RunStatusFailed \<noteq> RunStatusRunning"
  "RunStatusSuccess \<noteq> RunStatusFailed" "RunStatusFailed \<noteq> RunStatusSuccess"
  by (simp_all add: run_status_defs)

lemma row_fields [simp]:
  "mo_ID (monitor_row env m) = mo_ID m" "mo_Type (monitor_row env m) = mo_Type m"
  "mo_IntervalMinutes (monitor_row env m) = mo_IntervalMinutes m"
  "mo_NextRunTime (monitor_row env m) = map_option (ms_column env) (mo_NextRunTime m)"
  "monitor_scope (monitor_row env m) = monitor_scope m"
  "mr_ID (run_row env r) = mr_ID r" "mr_MonitorID (run_row env r) = mr_MonitorID r"
  "mr_Status (run_row env r) = mr_Status r" "mr_ErrorMessage (run_row env r) = mr_ErrorMessage r"
  "mr_TraceStart (run_row env r) = ms_column env (mr_TraceStart r)"
  "mr_TraceEnd (run_row env r) = ms_column env (mr_TraceEnd r)"
  by (simp_all add: monitor_row_def run_row_def monitor_scope_def)

lemma row_shape [simp]: "monitor_shape (monitor_row env m) \<longleftrightarrow> monitor_shape m"
  "monitor_shape (m\<lparr>mo_UpdatedAt := t\<rparr>) \<longleftrightarrow> monitor_shape m"
  "monitor_shape (m\<lparr>mo_CreatedAt := t\<rparr>) \<longleftrightarrow> monitor_shape m"
  by (simp_all add: monitor_shape_def monitor_row_def)

lemma updated_run_key [simp]:
  "mr_ID (updated_run env u r) = mr_ID r" "mr_MonitorID (updated_run env u r) = mr_MonitorID r"
  by (simp_all add: updated_run_def)

lemma inv_distinct:
  assumes "monitor_inv db"
  shows "distinct (map mo_ID (md_monitors db))" "distinct (map monitor_scope (md_monitors db))"
    "distinct (map mr_ID (md_runs db))"
  using assms by (simp_all add: monitor_inv_def)

lemma inv_rows:
  assumes "monitor_inv db"
  shows "m \<in> set (md_monitors db) \<Longrightarrow> monitor_ok m" "r \<in> set (md_runs db) \<Longrightarrow> run_ok r"
    "r \<in> set (md_runs db) \<Longrightarrow> mr_MonitorID r \<in> mo_ID ` set (md_monitors db)"
  using assms by (auto simp: monitor_inv_def)

text \<open>Rows with the same primary key are the same row.\<close>

lemma same_row:
  assumes "distinct (map f xs)" and "x \<in> set xs" and "y \<in> set xs" and "f x = f y"
  shows "x = y"
  using assms by (meson distinct_map inj_onD)

text \<open>Replacing the row of a key keeps another key distinct when no other row has the new value.\<close>

lemma distinct_map_replace:
  assumes "distinct (map k xs)" and "distinct (map f xs)" and "f y \<notin> f ` {x \<in> set xs. k x \<noteq> i}"
  shows "distinct (map f (map (\<lambda>x. if k x = i then y else x) xs))"
  using assms
proof (induction xs)
  case (Cons x xs)
  have other: "k z \<noteq> i" if "k x = i" "z \<in> set xs" for z using Cons.prems(1) that by (auto simp: image_iff)
  then have rest: "map (\<lambda>x. if k x = i then y else x) xs = xs" if "k x = i" using that by (simp add: map_idI)
  show ?case
  proof (cases "k x = i")
    case True
    have "f y \<notin> f ` set xs" using Cons.prems(3) other[OF True] by (auto simp: image_iff)
    moreover have swap: "map (\<lambda>x. if k x = i then y else x) (x # xs) = y # xs" using True rest[OF True] by simp
    ultimately show ?thesis unfolding swap using Cons.prems(2) by simp
  next
    case False
    then have "f x \<noteq> f y" and "f x \<notin> f ` set xs" and "f y \<notin> f ` {x \<in> set xs. k x \<noteq> i}"
      using Cons.prems(2,3) by (auto simp: image_iff)
    then have "f x \<notin> (\<lambda>x. f (if k x = i then y else x)) ` set xs" by (auto simp: image_iff)
    then show ?thesis using False Cons.IH Cons.prems \<open>f y \<notin> f ` {x \<in> set xs. k x \<noteq> i}\<close> by simp
  qed
qed simp

section \<open>Statements\<close>

lemma change_monitor_simps [simp]:
  "md_runs (change_monitor i f db) = md_runs db" "md_mappings (change_monitor i f db) = md_mappings db"
  "md_proxies (change_monitor i f db) = md_proxies db"
  "md_monitors (change_monitor i f db) = map (\<lambda>m. if mo_ID m = i then f m else m) (md_monitors db)"
  by (simp_all add: change_monitor_def)

lemma map_keys_kept:
  "(\<And>x. x \<in> set xs \<Longrightarrow> p x \<Longrightarrow> k (f x) = k x) \<Longrightarrow> map k (map (\<lambda>x. if p x then f x else x) xs) = map k xs"
  by (simp add: o_def)

lemma change_monitor_inv:
  assumes inv: "monitor_inv db"
    and f: "\<And>m. m \<in> set (md_monitors db) \<Longrightarrow> mo_ID m = i \<Longrightarrow> mo_ID (f m) = i \<and> monitor_ok (f m)"
    and scopes: "distinct (map monitor_scope (md_monitors (change_monitor i f db)))"
  shows "monitor_inv (change_monitor i f db)"
proof -
  have ids: "map mo_ID (md_monitors (change_monitor i f db)) = map mo_ID (md_monitors db)"
    using f by (simp add: o_def)
  then have "mo_ID ` set (md_monitors (change_monitor i f db)) = mo_ID ` set (md_monitors db)"
    by (metis list.set_map)
  moreover have "\<forall>m \<in> set (md_monitors (change_monitor i f db)). monitor_ok m"
    using f inv_rows(1)[OF inv] by auto
  ultimately show ?thesis
    using inv scopes ids unfolding monitor_inv_def change_monitor_simps(1,2) by metis
qed

lemma change_monitor_inv_scope:
  assumes "monitor_inv db"
    and "\<And>m. m \<in> set (md_monitors db) \<Longrightarrow> mo_ID m = i \<Longrightarrow>
      mo_ID (f m) = i \<and> monitor_ok (f m) \<and> monitor_scope (f m) = monitor_scope m"
  shows "monitor_inv (change_monitor i f db)"
proof (rule change_monitor_inv)
  have "map monitor_scope (md_monitors (change_monitor i f db)) = map monitor_scope (md_monitors db)"
    using assms(2) by (simp add: o_def)
  then show "distinct (map monitor_scope (md_monitors (change_monitor i f db)))"
    using inv_distinct(2)[OF assms(1)] by metis
qed (use assms in auto)

lemma violation_None:
  "monitor_violation m others = None \<longleftrightarrow>
     monitor_scope m \<notin> monitor_scope ` set others \<and> (mo_Type m = MonitorTypeFuture \<or> mo_Type m = MonitorTypePast)
     \<and> 0 < mo_SamplingRate m \<and> mo_SamplingRate m \<le> 1"
  by (auto simp: monitor_violation_def)

lemma insert_monitor_Inr:
  "insert_monitor m db = Inr db' \<longleftrightarrow> mo_ID m \<notin> mo_ID ` set (md_monitors db)
     \<and> monitor_violation m (md_monitors db) = None \<and> db' = db\<lparr>md_monitors := md_monitors db @ [m]\<rparr>"
  by (auto simp: insert_monitor_def split: option.split)

lemma append_monitor_inv:
  assumes "monitor_inv db" and "mo_ID m \<notin> mo_ID ` set (md_monitors db)"
    and "monitor_scope m \<notin> monitor_scope ` set (md_monitors db)" and "monitor_ok m"
  shows "monitor_inv (db\<lparr>md_monitors := md_monitors db @ [m]\<rparr>)"
  using assms unfolding monitor_inv_def by auto

lemma CreateMonitor_row_inv:
  assumes "CreateMonitor_row env n now m db = Inr (m', db')" and "monitor_inv db"
    and "mo_Type m = MonitorTypeFuture \<or> mo_Type m = MonitorTypePast \<Longrightarrow> monitor_shape m"
  shows "monitor_inv db'" "mo_ID m' = mo_ID m" "m' = m\<lparr>mo_CreatedAt := now, mo_UpdatedAt := now\<rparr>"
    "mo_ID m \<notin> mo_ID ` set (md_monitors db)" "db' = db\<lparr>md_monitors := md_monitors db @ [monitor_row env m']\<rparr>"
proof -
  let ?m = "m\<lparr>mo_CreatedAt := now, mo_UpdatedAt := now\<rparr>"
  let ?row = "monitor_row env ?m"
  have ins: "insert_monitor ?row db = Inr db'" and m': "m' = ?m"
    using assms(1) by (auto simp: CreateMonitor_row_def Let_def statement_Inr map_sum_Inr)
  show "mo_ID m' = mo_ID m" "m' = ?m" by (simp_all add: m')
  show "mo_ID m \<notin> mo_ID ` set (md_monitors db)" "db' = db\<lparr>md_monitors := md_monitors db @ [monitor_row env m']\<rparr>"
    using ins by (auto simp: insert_monitor_Inr m')
  have v: "monitor_violation ?row (md_monitors db) = None" using ins by (simp add: insert_monitor_Inr)
  have "monitor_shape ?row" using assms(3) v by (simp add: violation_None)
  then show "monitor_inv db'"
    using ins assms(2) append_monitor_inv[of db ?row] by (simp add: insert_monitor_Inr monitor_ok_def violation_None)
qed

lemma UpdateMonitor_row_inv:
  assumes "UpdateMonitor_row env n now m db = Inr db'" and inv: "monitor_inv db" and shape: "monitor_shape m"
  shows "monitor_inv db'"
proof -
  let ?row = "monitor_row env (m\<lparr>mo_UpdatedAt := now\<rparr>)"
  let ?others = "filter (\<lambda>x. mo_ID x \<noteq> mo_ID m) (md_monitors db)"
  have v: "monitor_violation ?row ?others = None"
    using assms(1) by (auto simp: UpdateMonitor_row_def Let_def statement_Inr split: option.splits)
  have ok: "monitor_ok ?row" and scope: "monitor_scope ?row \<notin> monitor_scope ` set ?others"
    using v shape by (simp_all add: violation_None monitor_ok_def)
  show ?thesis
  proof (cases "mo_ID m \<in> mo_ID ` set (md_monitors db)")
    case False
    then have "?others = md_monitors db" 
      by (intro filter_True ballI notI) (metis False image_eqI)
    moreover have "db' = db\<lparr>md_monitors := md_monitors db @ [?row]\<rparr>"
      using assms(1) v False by (simp add: UpdateMonitor_row_def Let_def statement_Inr)
    ultimately show ?thesis using append_monitor_inv[OF inv, of ?row] False scope ok by simp
  next
    case True
    then have db': "db' = change_monitor (mo_ID m) (\<lambda>_. ?row) db"
      using assms(1) v by (auto simp: UpdateMonitor_row_def Let_def statement_Inr)
    have "distinct (map monitor_scope (map (\<lambda>x. if mo_ID x = mo_ID m then ?row else x) (md_monitors db)))"
      using inv_distinct(1,2)[OF inv] scope by (intro distinct_map_replace) auto
    then show ?thesis unfolding db' using ok by (intro change_monitor_inv[OF inv]) simp_all
  qed
qed

lemma DeleteMonitor_row_inv:
  assumes "DeleteMonitor_row env n i db = Inr db'" and "monitor_inv db"
  shows "monitor_inv db'"
proof -
  have ids: "mo_ID ` {x \<in> A. mo_ID x \<noteq> i} = mo_ID ` A - {i}" for A :: "Monitor set" by auto
  have "db' = db\<lparr>md_monitors := filter (\<lambda>m. mo_ID m \<noteq> i) (md_monitors db),
      md_runs := filter (\<lambda>r. mr_MonitorID r \<noteq> i) (md_runs db),
      md_mappings := filter (\<lambda>x. ml_MonitorID x \<noteq> i) (md_mappings db)\<rparr>"
    using assms(1) by (simp add: DeleteMonitor_row_def statement_Inr)
  then show ?thesis
    using assms(2) by (simp add: monitor_inv_def distinct_map_filter image_subset_iff ids)
qed

text \<open>Only a scheduled monitor may get a time of its next run.\<close>

lemma UpdateNextRunTime_inv:
  assumes "UpdateNextRunTime env n now i t db = Inr db'" and inv: "monitor_inv db"
    and "t \<noteq> None \<Longrightarrow> m \<in> set (md_monitors db) \<and> mo_ID m = i \<and> mo_Type m = MonitorTypeFuture"
  shows "monitor_inv db'"
proof -
  let ?f = "\<lambda>m. m\<lparr>mo_NextRunTime := map_option (ms_column env) t, mo_UpdatedAt := ms_column env now\<rparr>"
  have db': "db' = change_monitor i ?f db" using assms(1) by (simp add: UpdateNextRunTime_def statement_Inr)
  have "monitor_ok (?f x)" if x: "x \<in> set (md_monitors db)" "mo_ID x = i" for x
  proof (cases t)
    case None
    then show ?thesis using inv_rows(1)[OF inv x(1)] by (auto simp: monitor_ok_def monitor_shape_def)
  next
    case (Some t')
    then have m: "m \<in> set (md_monitors db)" "mo_ID m = i" "mo_Type m = MonitorTypeFuture" using assms(3) by auto
    then have "x = m" using same_row[OF inv_distinct(1)[OF inv]] x by simp
    then show ?thesis using m inv_rows(1)[OF inv x(1)] by (auto simp: monitor_ok_def monitor_shape_def)
  qed
  then show ?thesis unfolding db'
    by (intro change_monitor_inv_scope[OF inv]) (simp_all add: monitor_scope_def)
qed

lemma drop_mappings_inv:
  assumes "monitor_inv db"
  shows "monitor_inv (db\<lparr>md_mappings := filter P (md_mappings db)\<rparr>)"
  using assms by (auto simp: monitor_inv_def)

lemma cleanup_Inr:
  assumes "cleanupLLMProxies env n i db = Inr db'"
  shows "db' = db\<lparr>md_mappings := filter (\<lambda>x. ml_MonitorID x \<noteq> i) (md_mappings db)\<rparr>"
  using assms
  by (auto simp: cleanupLLMProxies_def andThen_Inr wrap_error_Inr DeleteByMonitorID_def statement_Inr
      split: if_splits option.splits)

lemma if_ok_inv: "(\<And>db'. r = Inr db' \<Longrightarrow> monitor_inv db') \<Longrightarrow> monitor_inv db \<Longrightarrow> monitor_inv (if_ok r db)"
  by (simp add: if_ok_def split: sum.split)

lemma cleanup_inv: "monitor_inv db \<Longrightarrow> monitor_inv (if_ok (cleanupLLMProxies env n i db) db)"
  by (auto intro!: if_ok_inv drop_mappings_inv dest!: cleanup_Inr)

section \<open>Runs\<close>

lemma CreateMonitorRun_Inr:
  "CreateMonitorRun env n now r db = Inr (r', db') \<longleftrightarrow> de_fault (ms_repo env) n = None
     \<and> r' = r\<lparr>mr_CreatedAt := now\<rparr> \<and> insert_run (run_row env r') db = Inr db'"
  by (auto simp: CreateMonitorRun_def Let_def statement_Inr map_sum_Inr)

lemma insert_run_Inr:
  "insert_run r db = Inr db' \<longleftrightarrow> mr_ID r \<notin> mr_ID ` set (md_runs db)
     \<and> mr_MonitorID r \<in> mo_ID ` set (md_monitors db) \<and> (run_open r \<or> run_done r)
     \<and> db' = db\<lparr>md_runs := md_runs db @ [r]\<rparr>"
  by (auto simp: insert_run_def run_open_def run_done_def)

text \<open>The row that a successful execution adds.\<close>

definition added_run :: "executor_env \<Rightarrow> Monitor \<Rightarrow> string \<Rightarrow> int \<Rightarrow> int \<Rightarrow> MonitorEvaluator list \<Rightarrow> MonitorRun" where
  "added_run env m name s e evs =
     run_row (xe_store env) ((new_run env m name s e evs)\<lparr>mr_CreatedAt := xe_started env\<rparr>)"

lemma added_run_fields [simp]:
  "mr_ID (added_run env m name s e evs) = xe_newid env"
  "mr_MonitorID (added_run env m name s e evs) = mo_ID m"
  "mr_Status (added_run env m name s e evs) = RunStatusPending"
  "mr_CompletedAt (added_run env m name s e evs) = None"
  "mr_ErrorMessage (added_run env m name s e evs) = None"
  "mr_TraceStart (added_run env m name s e evs) = ms_column (xe_store env) s"
  "mr_TraceEnd (added_run env m name s e evs) = ms_column (xe_store env) e"
  "mr_Name (added_run env m name s e evs) = name"
  "mr_Evaluators (added_run env m name s e evs) = evs"
  by (simp_all add: added_run_def new_run_def run_row_def)

lemma added_run_open [simp]: "run_open (added_run env m name s e evs)"
  by (simp add: run_open_def)

lemma added_run_ok [simp]: "run_ok (added_run env m name s e evs)"
  by (simp add: run_ok_def run_done_def)

text \<open>An execution adds one run or leaves the tables as they are.\<close>

lemma execute_cases:
  assumes "ExecuteMonitorRun env n org m s e evs st = (st', r)"
  obtains (failed) err where "r = Inl err" "mt_db st' = mt_db st"
  | (added) name run where "r = Inr run" "mr_ID run = xe_newid env" "mr_Name run = name"
      "mt_db st' = (mt_db st)\<lparr>md_runs := md_runs (mt_db st) @ [added_run env m name s e evs]\<rparr>"
      "xe_newid env \<notin> mr_ID ` set (md_runs (mt_db st))" "mo_ID m \<in> mo_ID ` set (md_monitors (mt_db st))"
      "mt_calls st' = mt_calls st @ [Created org name]"
proof (cases r)
  case (Inl err)
  then have "mt_db st' = mt_db st" using assms by (auto simp: ExecuteMonitorRun_def Let_def split: sum.splits prod.splits)
  then show ?thesis using Inl failed by blast
next
  case (Inr run)
  obtain name db where
    "CreateMonitorRun (xe_store env) (n + 3) (xe_started env) (new_run env m name s e evs) (mt_db st) = Inr (run, db)"
    and st': "st' = \<lparr>mt_db = db, mt_calls = mt_calls st @ [Created org name]\<rparr>"
    using assms Inr by (cases st)
      (auto simp: ExecuteMonitorRun_def Let_def wrap_error_Inr split: sum.splits prod.splits)
  then have run: "run = (new_run env m name s e evs)\<lparr>mr_CreatedAt := xe_started env\<rparr>"
    and "insert_run (added_run env m name s e evs) (mt_db st) = Inr db"
    by (auto simp: CreateMonitorRun_Inr added_run_def)
  then show ?thesis using st' Inr by (intro added[of run name]) (simp_all add: insert_run_Inr new_run_def)
qed

lemma execute_inv:
  assumes "ExecuteMonitorRun env n org m s e evs st = (st', r)" and "monitor_inv (mt_db st)"
  shows "monitor_inv (mt_db st')"
  using assms(1) by (cases rule: execute_cases) (use assms(2) in \<open>auto simp: monitor_inv_def\<close>)

section \<open>The life cycle of a run\<close>

inductive run_step :: "MonitorRun \<Rightarrow> MonitorRun \<Rightarrow> bool" where
  run_starts: "mr_Status r = RunStatusPending \<Longrightarrow> run_step r (r\<lparr>mr_Status := RunStatusRunning\<rparr>)"
| run_succeeds: "run_open r \<Longrightarrow>
    run_step r (r\<lparr>mr_Status := RunStatusSuccess, mr_CompletedAt := Some t\<rparr>)"
| run_fails: "run_open r \<Longrightarrow>
    run_step r (r\<lparr>mr_Status := RunStatusFailed, mr_CompletedAt := Some t, mr_ErrorMessage := Some e\<rparr>)"

inductive_cases run_stepE: "run_step r r'"

definition fresh_run :: "MonitorRun \<Rightarrow> bool" where
  "fresh_run r \<longleftrightarrow> mr_Status r = RunStatusPending \<and> mr_CompletedAt r = None \<and> mr_ErrorMessage r = None"

text \<open>The old runs, each somewhere along its life cycle, and then new ones.\<close>

definition runs_progress :: "monitor_db \<Rightarrow> monitor_db \<Rightarrow> bool" where
  "runs_progress db db' \<longleftrightarrow> (\<exists>old new. md_runs db' = old @ new \<and> list_all2 run_step\<^sup>*\<^sup>* (md_runs db) old
     \<and> (\<forall>r \<in> set new. \<exists>r0. fresh_run r0 \<and> run_step\<^sup>*\<^sup>* r0 r))"

lemma run_step_ok: "run_step r r' \<Longrightarrow> run_ok r \<Longrightarrow> run_ok r'"
  by (induction rule: run_step.induct) (auto simp: run_ok_def run_open_def run_done_def)

lemma run_step_key: "run_step\<^sup>*\<^sup>* r r' \<Longrightarrow> mr_ID r' = mr_ID r \<and> mr_MonitorID r' = mr_MonitorID r
    \<and> mr_TraceStart r' = mr_TraceStart r \<and> mr_TraceEnd r' = mr_TraceEnd r \<and> mr_Name r' = mr_Name r"
  by (induction rule: rtranclp_induct) (auto elim!: run_stepE)

lemma run_done_final: "run_step\<^sup>*\<^sup>* r r' \<Longrightarrow> run_done r \<Longrightarrow> r' = r"
  by (erule converse_rtranclpE) (auto simp: run_done_def run_open_def elim!: run_stepE)

lemma runs_progressI:
  assumes "md_runs db' = old @ new" and "list_all2 run_step\<^sup>*\<^sup>* (md_runs db) old"
    and "\<And>r. r \<in> set new \<Longrightarrow> \<exists>r0. fresh_run r0 \<and> run_step\<^sup>*\<^sup>* r0 r"
  shows "runs_progress db db'"
  using assms unfolding runs_progress_def by blast

lemma runs_same: "md_runs db' = md_runs db \<Longrightarrow> runs_progress db db'"
  using runs_progressI[of db' "md_runs db" "[]" db] by (simp add: list.rel_refl)

lemma runs_added: "md_runs db' = md_runs db @ [r] \<Longrightarrow> fresh_run r \<Longrightarrow> runs_progress db db'"
  using runs_progressI[of db' "md_runs db" "[r]" db] by (auto simp: list.rel_refl)

lemma runs_progress_member:
  assumes "runs_progress db db'" and "r \<in> set (md_runs db)"
  shows "\<exists>r' \<in> set (md_runs db'). run_step\<^sup>*\<^sup>* r r'"
proof -
  obtain old new where "md_runs db' = old @ new" "list_all2 run_step\<^sup>*\<^sup>* (md_runs db) old"
    using assms(1) by (auto simp: runs_progress_def)
  moreover obtain j where "j < length (md_runs db)" "md_runs db ! j = r" using assms(2) by (metis in_set_conv_nth)
  ultimately show ?thesis
    by (intro bexI[of _ "old ! j"]) (auto simp: list_all2_conv_all_nth)
qed

lemma runs_progress_trans:
  assumes "runs_progress a b" and "runs_progress b c" shows "runs_progress a c"
proof -
  obtain old new where b: "md_runs b = old @ new" "list_all2 run_step\<^sup>*\<^sup>* (md_runs a) old"
      "\<forall>r \<in> set new. \<exists>r0. fresh_run r0 \<and> run_step\<^sup>*\<^sup>* r0 r"
    using assms(1) by (auto simp: runs_progress_def)
  obtain old' new' where c: "md_runs c = old' @ new'" "list_all2 run_step\<^sup>*\<^sup>* (old @ new) old'"
      "\<forall>r \<in> set new'. \<exists>r0. fresh_run r0 \<and> run_step\<^sup>*\<^sup>* r0 r"
    using assms(2) b(1) by (auto simp: runs_progress_def)
  obtain o1 n1 where o': "old' = o1 @ n1" "list_all2 run_step\<^sup>*\<^sup>* old o1" "list_all2 run_step\<^sup>*\<^sup>* new n1"
    using c(2) by (auto simp: list_all2_append1)
  have "list_all2 run_step\<^sup>*\<^sup>* (md_runs a) o1"
    using list_all2_trans[OF _ b(2) o'(2)] by (meson rtranclp_trans)
  moreover have "\<exists>r0. fresh_run r0 \<and> run_step\<^sup>*\<^sup>* r0 r" if "r \<in> set n1" for r
  proof -
    obtain i where i: "i < length n1" "r = n1 ! i" using \<open>r \<in> set n1\<close> by (metis in_set_conv_nth)
    then have "run_step\<^sup>*\<^sup>* (new ! i) r" "new ! i \<in> set new"
      using o'(3) by (auto simp: list_all2_conv_all_nth)
    then show ?thesis using b(3) by (meson rtranclp_trans)
  qed
  ultimately show ?thesis
    unfolding runs_progress_def using c(1,3) o'(1) by (intro exI[of _ o1] exI[of _ "n1 @ new'"]) auto
qed

lemma execute_progress:
  assumes "ExecuteMonitorRun env n org m s e evs st = (st', r)"
  shows "runs_progress (mt_db st) (mt_db st')"
  using assms by (cases rule: execute_cases) (auto intro: runs_same runs_added simp: fresh_run_def)

section \<open>Synchronising\<close>

definition set_run :: "MonitorRun \<Rightarrow> monitor_db \<Rightarrow> monitor_db" where
  "set_run r' db = db\<lparr>md_runs := map (\<lambda>r. if mr_ID r = mr_ID r' then r' else r) (md_runs db)\<rparr>"

lemma set_run_simps [simp]:
  "md_monitors (set_run r db) = md_monitors db" "md_mappings (set_run r db) = md_mappings db"
  "md_proxies (set_run r db) = md_proxies db"
  by (simp_all add: set_run_def)

lemma set_run_inv:
  assumes inv: "monitor_inv db" and r: "r \<in> set (md_runs db)" and step: "run_step r r'"
  shows "monitor_inv (set_run r' db)" "runs_progress db (set_run r' db)"
    "q \<in> set (md_runs db) \<Longrightarrow> mr_ID q \<noteq> mr_ID r \<Longrightarrow> q \<in> set (md_runs (set_run r' db))"
proof -
  have key: "mr_ID r' = mr_ID r" "mr_MonitorID r' = mr_MonitorID r" using run_step_key step by blast+
  have only: "q = r" if "q \<in> set (md_runs db)" "mr_ID q = mr_ID r" for q
    using same_row[OF inv_distinct(3)[OF inv]] that r by blast
  have ids: "map mr_ID (md_runs (set_run r' db)) = map mr_ID (md_runs db)" by (simp add: set_run_def o_def)
  have "run_ok q" if "q \<in> set (md_runs (set_run r' db))" for q
    using that inv_rows(2)[OF inv] run_step_ok[OF step] r by (auto simp: set_run_def)
  moreover have "mr_MonitorID ` set (md_runs (set_run r' db)) \<subseteq> mo_ID ` set (md_monitors db)"
    using inv_rows(3)[OF inv] key r by (auto simp: set_run_def)
  ultimately show "monitor_inv (set_run r' db)"
    using inv ids unfolding monitor_inv_def set_run_simps by metis
  have "list_all2 run_step\<^sup>*\<^sup>* (md_runs db) (md_runs (set_run r' db))"
    using only key step by (auto simp: set_run_def list_all2_map2 list_all2_same)
  then show "runs_progress db (set_run r' db)"
    using runs_progressI[of "set_run r' db" "md_runs (set_run r' db)" "[]" db] by simp
  show "q \<in> set (md_runs db) \<Longrightarrow> mr_ID q \<noteq> mr_ID r \<Longrightarrow> q \<in> set (md_runs (set_run r' db))"
    using key by (force simp: set_run_def)
qed

lemma status_updates_step:
  assumes "status_updates now r status = Some u" and "run_open r"
  shows "run_step r (updated_run env u r)"
    and "ru_status u \<noteq> None"
    and "the (ru_status u) \<in> {RunStatusPending, RunStatusRunning, RunStatusSuccess, RunStatusFailed}"
proof -
  consider (succeeded) "u = \<lparr>ru_status = Some RunStatusSuccess, ru_completed_at = Some now, ru_error_message = None\<rparr>"
    | (fails) "u = \<lparr>ru_status = Some RunStatusFailed, ru_completed_at = Some now,
             ru_error_message = Some ''workflow completed with failure''\<rparr>"
    | (starts) "u = \<lparr>ru_status = Some RunStatusRunning, ru_completed_at = None, ru_error_message = None\<rparr>"
        "mr_Status r = RunStatusPending"
    using assms by (auto simp: status_updates_def run_open_def split: if_splits)
  then show "run_step r (updated_run env u r)" "ru_status u \<noteq> None"
    "the (ru_status u) \<in> {RunStatusPending, RunStatusRunning, RunStatusSuccess, RunStatusFailed}"
    using assms(2) run_starts[of r] run_succeeds[where r = r and t = "ms_column env now"]
      run_fails[where r = r and t = "ms_column env now" and e = "''workflow completed with failure''"]
    by (cases; simp add: updated_run_def)+
qed

text \<open>A synchronised run takes one step or none.\<close>

lemma sync_cases:
  assumes "syncSingleRunStatus env k r db = (db', res)" and "monitor_inv db" and "r \<in> set (md_runs db)" and "run_open r"
  obtains (same) "db' = db" | (step) r' where "run_step r r'" "db' = set_run r' db"
proof (cases "db' = db")
  case True
  then show ?thesis by (rule same)
next
  case False
  let ?store = "xe_store (sc_exec env k)"
  obtain u status where u: "status_updates (sc_synced env k) r status = Some u"
    and up: "UpdateMonitorRun ?store 8 (mr_ID r) u db = Inr db'"
    using assms(1) False by (auto simp: syncSingleRunStatus_def Let_def split: sum.splits option.splits)
  have only: "q = r" if "q \<in> set (md_runs db)" "mr_ID q = mr_ID r" for q
    using same_row[OF inv_distinct(3)[OF assms(2)]] that assms(3) by blast
  have "db' = db\<lparr>md_runs := map (\<lambda>q. if mr_ID q = mr_ID r then updated_run ?store u q else q) (md_runs db)\<rparr>"
    using up by (auto simp: UpdateMonitorRun_def statement_Inr split: if_splits)
  also have "\<dots> = set_run (updated_run ?store u r) db"
    unfolding set_run_def updated_run_key
    by (rule arg_cong[where f = "\<lambda>xs. db\<lparr>md_runs := xs\<rparr>"], rule map_cong) (auto dest: only)
  finally show ?thesis using step status_updates_step(1)[OF u assms(4)] by blast
qed

lemma sync_each_inv:
  assumes "monitor_inv db" and "distinct (map mr_ID rs)" and "\<forall>r \<in> set rs. r \<in> set (md_runs db) \<and> run_open r"
  shows "monitor_inv (sync_each env k rs db) \<and> runs_progress db (sync_each env k rs db)
    \<and> md_monitors (sync_each env k rs db) = md_monitors db \<and> md_mappings (sync_each env k rs db) = md_mappings db"
  using assms
proof (induction rs arbitrary: k db)
  case Nil
  then show ?case by (simp add: runs_same)
next
  case (Cons r rs)
  obtain db1 res where one: "syncSingleRunStatus env k r db = (db1, res)" by fastforce
  have r: "r \<in> set (md_runs db)" "run_open r" using Cons.prems(3) by auto
  have db1: "monitor_inv db1 \<and> runs_progress db db1 \<and> md_monitors db1 = md_monitors db
    \<and> md_mappings db1 = md_mappings db \<and> (\<forall>q \<in> set (md_runs db). mr_ID q \<noteq> mr_ID r \<longrightarrow> q \<in> set (md_runs db1))"
    using one Cons.prems(1) r
    by (cases rule: sync_cases) (auto intro: set_run_inv[OF Cons.prems(1) r(1)] runs_same Cons.prems(1))
  have "mr_ID q \<noteq> mr_ID r" if "q \<in> set rs" for q using that Cons.prems(2) by (auto simp: image_iff)
  then have "\<forall>q \<in> set rs. q \<in> set (md_runs db1) \<and> run_open q" using db1 Cons.prems(3) by simp
  then show ?case
    using Cons.IH[of db1 "Suc k"] db1 Cons.prems(2) one runs_progress_trans[of db db1] by auto
qed

lemma open_runs_listed:
  assumes "ListPendingOrRunningRuns env n limit db = Inr rs" and "monitor_inv db"
  shows "distinct (map mr_ID rs)" "\<forall>r \<in> set rs. r \<in> set (md_runs db) \<and> run_open r"
proof -
  let ?s = "sort_key mr_CreatedAt (filter run_open (md_runs db))"
  have rs: "rs = (if limit > 0 then take (nat limit) else id) ?s"
    using assms(1) by (simp add: ListPendingOrRunningRuns_def statement_Inr)
  have "distinct (map mr_ID ?s)"
    using inv_distinct(3)[OF assms(2)] by (simp add: distinct_map distinct_filter inj_on_def)
  then show "distinct (map mr_ID rs)" by (simp add: rs take_map[symmetric])
  show "\<forall>r \<in> set rs. r \<in> set (md_runs db) \<and> run_open r" by (auto simp: rs dest!: in_set_takeD split: if_splits)
qed

lemma syncRunStatus_inv:
  fixes env :: cycle_env
  assumes "monitor_inv db"
  defines "db' \<equiv> fst (syncRunStatus env db)"
  shows "monitor_inv db'" "runs_progress db db'" "md_monitors db' = md_monitors db" "md_mappings db' = md_mappings db"
proof -
  have "monitor_inv db' \<and> runs_progress db db' \<and> md_monitors db' = md_monitors db \<and> md_mappings db' = md_mappings db"
  proof (cases "ListPendingOrRunningRuns (sc_store env) 6 100 db")
    case (Inl e)
    then show ?thesis using assms by (simp add: syncRunStatus_def runs_same)
  next
    case (Inr rs)
    then show ?thesis
      using sync_each_inv[OF assms(1) open_runs_listed[OF Inr assms(1)]] by (simp add: db'_def syncRunStatus_def)
  qed
  then show "monitor_inv db'" "runs_progress db db'" "md_monitors db' = md_monitors db"
    "md_mappings db' = md_mappings db" by blast+
qed

section \<open>Triggering\<close>

text \<open>The run that a triggered monitor gets, and the monitor as it is written back.\<close>

definition scheduled_run :: "cycle_env \<Rightarrow> nat \<Rightarrow> Monitor \<Rightarrow> string \<Rightarrow> int \<Rightarrow> int \<Rightarrow> MonitorRun" where
  "scheduled_run env k m name minutes due =
     added_run (sc_exec env k) m name (due - interval_of minutes) (sc_triggered env k - safety_delta minutes)
       (mo_Evaluators m)"

definition rescheduled :: "cycle_env \<Rightarrow> nat \<Rightarrow> int \<Rightarrow> Monitor \<Rightarrow> Monitor" where
  "rescheduled env k minutes m =
     m\<lparr>mo_NextRunTime := Some (ms_column (xe_store (sc_exec env k))
         (sc_triggered env k - safety_delta minutes + interval_of minutes)),
       mo_UpdatedAt := ms_column (xe_store (sc_exec env k)) (xe_started (sc_exec env k))\<rparr>"

text \<open>
  A triggered monitor fails without a trace in the tables, or has a new run; then its next time is set
  unless that last statement fails.
\<close>

lemma trigger_cases:
  assumes "triggerMonitor env k m st = (st', r)"
  obtains (nothing) err where "r = Inl err" "mt_db st' = mt_db st"
  | (ran) minutes due name db where
      "mo_IntervalMinutes m = Some minutes" "mo_NextRunTime m = Some due"
      "xe_newid (sc_exec env k) \<notin> mr_ID ` set (md_runs (mt_db st))" "mo_ID m \<in> mo_ID ` set (md_monitors (mt_db st))"
      "db = (mt_db st)\<lparr>md_runs := md_runs (mt_db st) @ [scheduled_run env k m name minutes due]\<rparr>"
      "if de_fault (ms_repo (xe_store (sc_exec env k))) 5 = None
       then r = Inr () \<and> mt_db st' = change_monitor (mo_ID m) (rescheduled env k minutes) db
       else (\<exists>err. r = Inl err) \<and> mt_db st' = db"
proof (cases "mo_IntervalMinutes m = None \<or> mo_NextRunTime m = None \<or> sc_client env (mo_OrgName m) \<noteq> None")
  case True
  then obtain err where "r = Inl err" "mt_db st' = mt_db st"
    using assms by (auto simp: triggerMonitor_def Let_def split: option.splits)
  then show ?thesis by (rule nothing)
next
  case False
  then obtain minutes due where m: "mo_IntervalMinutes m = Some minutes" "mo_NextRunTime m = Some due"
      "sc_client env (mo_OrgName m) = None" by auto
  define s where "s = due - interval_of minutes"
  define e where "e = sc_triggered env k - safety_delta minutes"
  obtain st1 r1 where ex: "ExecuteMonitorRun (sc_exec env k) 1 (mo_OrgName m) m s e (mo_Evaluators m) st = (st1, r1)"
    by fastforce
  show ?thesis
  proof (cases rule: execute_cases[OF ex])
    case (1 err)
    then have "r = Inl err" "mt_db st' = mt_db st"
      using assms m ex by (auto simp: triggerMonitor_def Let_def s_def e_def)
    then show ?thesis by (rule nothing)
  next
    case (2 name run)
    let ?db = "(mt_db st)\<lparr>md_runs := md_runs (mt_db st) @ [scheduled_run env k m name minutes due]\<rparr>"
    have st1: "mt_db st1 = ?db" using 2(4) by (simp add: scheduled_run_def s_def e_def)
    have "if de_fault (ms_repo (xe_store (sc_exec env k))) 5 = None
       then r = Inr () \<and> mt_db st' = change_monitor (mo_ID m) (rescheduled env k minutes) ?db
       else (\<exists>err. r = Inl err) \<and> mt_db st' = ?db"
      using assms m ex 2(1) st1
      by (auto simp: triggerMonitor_def Let_def s_def e_def executor_UpdateNextRunTime_def UpdateNextRunTime_def
          statement_def rescheduled_def[abs_def] split: option.splits)
    then show ?thesis using ran[OF m(1,2) 2(5,6) refl] by blast
  qed
qed

lemma scheduled_run_fields [simp]:
  "mr_ID (scheduled_run env k m name minutes due) = xe_newid (sc_exec env k)"
  "mr_MonitorID (scheduled_run env k m name minutes due) = mo_ID m"
  "run_ok (scheduled_run env k m name minutes due)"
  "fresh_run (scheduled_run env k m name minutes due)"
  by (simp_all add: scheduled_run_def fresh_run_def)

lemma rescheduled_fields [simp]:
  "mo_ID (rescheduled env k minutes m) = mo_ID m" "mo_Type (rescheduled env k minutes m) = mo_Type m"
  "mo_IntervalMinutes (rescheduled env k minutes m) = mo_IntervalMinutes m"
  "mo_OrgName (rescheduled env k minutes m) = mo_OrgName m"
  "monitor_scope (rescheduled env k minutes m) = monitor_scope m"
  by (simp_all add: rescheduled_def monitor_scope_def)

lemma trigger_inv:
  fixes env k
  assumes inv: "monitor_inv (mt_db st)" and m: "m \<in> set (md_monitors (mt_db st))" "mo_Type m = MonitorTypeFuture"
  defines "st' \<equiv> fst (triggerMonitor env k m st)"
  shows "monitor_inv (mt_db st')" "runs_progress (mt_db st) (mt_db st')"
    "x \<in> set (md_monitors (mt_db st)) \<Longrightarrow> mo_ID x \<noteq> mo_ID m \<Longrightarrow> x \<in> set (md_monitors (mt_db st'))"
proof -
  obtain r where t: "triggerMonitor env k m st = (st', r)" using st'_def by (metis prod.collapse)
  have "monitor_inv (mt_db st') \<and> runs_progress (mt_db st) (mt_db st')
    \<and> (\<forall>x \<in> set (md_monitors (mt_db st)). mo_ID x \<noteq> mo_ID m \<longrightarrow> x \<in> set (md_monitors (mt_db st')))"
    using t
  proof (cases rule: trigger_cases)
    case (nothing err)
    then show ?thesis using inv by (simp add: runs_same)
  next
    case (ran minutes due name db)
    have db: "monitor_inv db" using inv ran(3,4) unfolding ran(5) monitor_inv_def by auto
    have "monitor_inv (change_monitor (mo_ID m) (rescheduled env k minutes) db)"
    proof (rule change_monitor_inv_scope[OF db])
      fix x assume x: "x \<in> set (md_monitors db)" "mo_ID x = mo_ID m"
      then have "x = m" using same_row[OF inv_distinct(1)[OF inv], of x m] m(1) ran(5) by simp
      then show "mo_ID (rescheduled env k minutes x) = mo_ID m \<and> monitor_ok (rescheduled env k minutes x)
        \<and> monitor_scope (rescheduled env k minutes x) = monitor_scope x"
        using inv_rows(1)[OF inv m(1)] m(2) by (auto simp: monitor_ok_def monitor_shape_def rescheduled_def monitor_scope_def)
    qed
    moreover have "runs_progress (mt_db st) (mt_db st')"
      using ran(5,6) by (intro runs_added[of _ _ "scheduled_run env k m name minutes due"]) (auto split: if_splits)
    ultimately show ?thesis using db ran(5,6) by (auto split: if_splits simp: image_iff)
  qed
  then show "monitor_inv (mt_db st')" "runs_progress (mt_db st) (mt_db st')"
    "x \<in> set (md_monitors (mt_db st)) \<Longrightarrow> mo_ID x \<noteq> mo_ID m \<Longrightarrow> x \<in> set (md_monitors (mt_db st'))" by blast+
qed

lemma trigger_each_inv:
  assumes "monitor_inv (mt_db st)" and "distinct (map mo_ID ms)"
    and "\<forall>m \<in> set ms. m \<in> set (md_monitors (mt_db st)) \<and> mo_Type m = MonitorTypeFuture"
  shows "monitor_inv (mt_db (trigger_each env k ms st)) \<and> runs_progress (mt_db st) (mt_db (trigger_each env k ms st))"
  using assms
proof (induction ms arbitrary: k st)
  case Nil
  then show ?case by (simp add: runs_same)
next
  case (Cons m ms)
  let ?st = "fst (triggerMonitor env k m st)"
  have m: "m \<in> set (md_monitors (mt_db st))" "mo_Type m = MonitorTypeFuture" using Cons.prems(3) by auto
  note one = trigger_inv[OF Cons.prems(1) m, where env = env and k = k]
  have "mo_ID x \<noteq> mo_ID m" if "x \<in> set ms" for x using that Cons.prems(2) by (auto simp: image_iff)
  then have "\<forall>x \<in> set ms. x \<in> set (md_monitors (mt_db ?st)) \<and> mo_Type x = MonitorTypeFuture"
    using Cons.prems(3) one(3) by auto
  then show ?case using Cons.IH[OF one(1), of "Suc k"] Cons.prems(2) runs_progress_trans[OF one(2)] by simp
qed

lemma due_monitors:
  assumes "ListDueMonitors env n MonitorTypeFuture now db = Inr ms"
  shows "ms = filter (\<lambda>m. mo_Type m = MonitorTypeFuture \<and> due_at env now m) (md_monitors db)"
  using assms by (simp add: ListDueMonitors_def statement_Inr)

lemma triggerPending_inv:
  assumes "monitor_inv (mt_db st)"
  shows "monitor_inv (mt_db (fst (triggerPendingMonitors env st)))
    \<and> runs_progress (mt_db st) (mt_db (fst (triggerPendingMonitors env st)))"
proof (cases "ListDueMonitors (sc_store env) 1 MonitorTypeFuture (sc_now env) (mt_db st)")
  case (Inl e)
  then show ?thesis using assms by (simp add: triggerPendingMonitors_def runs_same)
next
  case (Inr ms)
  then have "\<forall>m \<in> set ms. m \<in> set (md_monitors (mt_db st)) \<and> mo_Type m = MonitorTypeFuture"
    and "distinct (map mo_ID ms)"
    using due_monitors[OF Inr] inv_distinct(1)[OF assms] by (auto simp: distinct_map_filter)
  then show ?thesis using trigger_each_inv[OF assms] Inr by (simp add: triggerPendingMonitors_def)
qed

lemma cycle_inv:
  assumes "monitor_inv (mt_db st)"
  shows "monitor_inv (mt_db (runSchedulerCycle env st))" "runs_progress (mt_db st) (mt_db (runSchedulerCycle env st))"
  using triggerPending_inv[OF assms, of env] syncRunStatus_inv(1,2)[of _ env] assms runs_progress_trans
  by (auto simp: runSchedulerCycle_def Let_def runs_same)

section \<open>The operations of the service\<close>

lemma monitor_named_Inr:
  assumes "monitor_named env org project agent name db = Inr m"
  shows "m \<in> set (md_monitors db)" "monitor_scope m = (name, org, project, agent)"
  using assms
  by (auto simp: monitor_named_def map_sum_Inr GetMonitorByName_def statement_Inr find_Some_iff
      split: option.splits)

lemma reschedule_db:
  "fst (reschedule env text org project agent name i t db)
     = if_ok (UpdateNextRunTime (mm_store env) 2 (mm_now env) i t db) db"
  by (cases "UpdateNextRunTime (mm_store env) 2 (mm_now env) i t db") (simp_all add: reschedule_def if_ok_def)

lemma UpdateNextRunTime_runs: "UpdateNextRunTime env n now i t db = Inr db' \<Longrightarrow> md_runs db' = md_runs db"
  by (auto simp: UpdateNextRunTime_def statement_Inr)

lemma if_ok_runs: "(\<And>db'. r = Inr db' \<Longrightarrow> runs_progress db db') \<Longrightarrow> runs_progress db (if_ok r db)"
  by (simp add: if_ok_def runs_same split: sum.split)

lemma reschedule_inv:
  assumes "monitor_inv db" and "t \<noteq> None \<Longrightarrow> m \<in> set (md_monitors db) \<and> mo_ID m = i \<and> mo_Type m = MonitorTypeFuture"
  shows "monitor_inv (fst (reschedule env text org project agent name i t db))
    \<and> runs_progress db (fst (reschedule env text org project agent name i t db))"
proof
  show "monitor_inv (fst (reschedule env text org project agent name i t db))"
    unfolding reschedule_db
  proof (rule if_ok_inv[OF _ assms(1)])
    fix db' assume "UpdateNextRunTime (mm_store env) 2 (mm_now env) i t db = Inr db'"
    then show "monitor_inv db'" using assms(2) by (rule UpdateNextRunTime_inv[OF _ assms(1)])
  qed
  show "runs_progress db (fst (reschedule env text org project agent name i t db))"
    unfolding reschedule_db by (rule if_ok_runs) (auto intro: runs_same dest: UpdateNextRunTime_runs)
qed

lemma StopMonitor_inv:
  assumes "monitor_inv db"
  shows "monitor_inv (fst (StopMonitor env org project agent name db))
    \<and> runs_progress db (fst (StopMonitor env org project agent name db))"
  using assms reschedule_inv[OF assms, of None]
  by (simp add: StopMonitor_def runs_same split: sum.split)

lemma StartMonitor_inv:
  assumes "monitor_inv db"
  shows "monitor_inv (fst (StartMonitor env org project agent name db))
    \<and> runs_progress db (fst (StartMonitor env org project agent name db))"
proof (cases "monitor_named env org project agent name db")
  case (Inl e)
  then show ?thesis using assms by (simp add: StartMonitor_def runs_same)
next
  case (Inr m)
  then show ?thesis
    using assms monitor_named_Inr(1)[OF Inr] reschedule_inv[OF assms, of "Some (mm_now env)" m "mo_ID m"]
    by (simp add: StartMonitor_def runs_same)
qed

lemma RerunMonitor_inv:
  assumes "monitor_inv (mt_db st)"
  shows "monitor_inv (mt_db (fst (RerunMonitor env org project agent name runID st)))
    \<and> runs_progress (mt_db st) (mt_db (fst (RerunMonitor env org project agent name runID st)))"
proof (cases "run_named env org project agent name runID (mt_db st)")
  case (Inl e)
  then show ?thesis using assms by (simp add: RerunMonitor_def runs_same)
next
  case (Inr p)
  obtain m original where p: "p = (m, original)" by fastforce
  obtain st' r where "ExecuteMonitorRun (mm_exec env) 3 org m (mr_TraceStart original) (mr_TraceEnd original)
      (mr_Evaluators original) st = (st', r)" by fastforce
  then show ?thesis using Inr p assms execute_inv execute_progress by (fastforce simp: RerunMonitor_def)
qed

lemma DeleteMonitor_inv:
  assumes "monitor_inv (mt_db st)"
  shows "monitor_inv (mt_db (fst (DeleteMonitor env org project agent name st)))"
  using assms cleanup_inv
  by (auto simp: DeleteMonitor_def Let_def wrap_error_Inr split: sum.split dest!: DeleteMonitor_row_inv)

lemma checked_intervals:
  assumes "check_interval i = None" shows "case or_else i (Some DefaultIntervalMinutes) of None \<Rightarrow> False | Some n \<Rightarrow> MinIntervalMinutes \<le> n"
  using assms by (auto simp: check_interval_def or_else_def DefaultIntervalMinutes_def MinIntervalMinutes_def
      split: option.splits if_splits)

lemma or_else_None: "or_else a b = None \<longleftrightarrow> a = None \<and> b = None"
  by (simp add: or_else_def split: option.split)

lemma prepared_shape:
  assumes "prepared_monitor env org req = Inr m" and "mo_Type m = MonitorTypeFuture \<or> mo_Type m = MonitorTypePast"
  shows "monitor_shape m"
proof -
  have v: "validateCreateRequest (mm_now env) req = None"
    using assms(1) by (auto simp: prepared_monitor_def split: option.splits)
  then have i: "check_interval (cr_IntervalMinutes req) = None"
    and w: "cr_Type req = MonitorTypePast \<Longrightarrow> cr_TraceStart req \<noteq> None \<and> cr_TraceEnd req \<noteq> None"
    by (auto simp: validateCreateRequest_def or_else_None trace_window_error_def split: option.splits if_splits)
  have "mo_Type m = cr_Type req \<and> mo_TraceStart m = cr_TraceStart req \<and> mo_TraceEnd m = cr_TraceEnd req
    \<and> mo_IntervalMinutes m = (if cr_Type req = MonitorTypeFuture
       then or_else (cr_IntervalMinutes req) (Some DefaultIntervalMinutes) else None)
    \<and> mo_NextRunTime m = (if cr_Type req = MonitorTypeFuture then Some (mm_now env) else None)"
    using assms(1) v by (auto simp: prepared_monitor_def andThen_Inr wrap_error_Inr split: option.splits if_splits)
  then show ?thesis
    using assms(2) w checked_intervals[OF i] by (auto simp: monitor_shape_def split: option.splits)
qed

lemma drop_nothing:
  assumes "monitor_inv db" and "i \<notin> mo_ID ` set (md_monitors db)"
  shows "filter (\<lambda>r. mr_MonitorID r \<noteq> i) (md_runs db) = md_runs db"
  using inv_rows(3)[OF assms(1)] assms(2) by (intro filter_True) auto

lemma CreateMonitor_inv:
  assumes "monitor_inv (mt_db st)" and "CreateMonitor env org req st = Some (st', r)"
  shows "monitor_inv (mt_db st') \<and> runs_progress (mt_db st) (mt_db st')"
proof (cases "created_monitor env org req (mt_db st)")
  case (Inl e)
  then show ?thesis using assms by (simp add: CreateMonitor_def runs_same)
next
  case (Inr p)
  obtain m db where p: "p = (m, db)" by fastforce
  obtain m0 where m0: "prepared_monitor env org req = Inr m0"
    and row: "CreateMonitor_row (mm_store env) 1 (mm_now env) m0 (mt_db st) = Inr (m, db)"
    using Inr p by (auto simp: created_monitor_def andThen_Inr map_sum_Inr)
  note created = CreateMonitor_row_inv[OF row assms(1) prepared_shape[OF m0]]
  have same: "md_runs db = md_runs (mt_db st)" and new: "mo_ID m \<notin> mo_ID ` set (md_monitors (mt_db st))"
    using created by simp_all
  show ?thesis
  proof (cases "mo_Type m = MonitorTypePast")
    case False
    then show ?thesis using assms(2) Inr p created(1) same by (auto simp: CreateMonitor_def Let_def runs_same)
  next
    case True
    then obtain s e st2 r2 where run: "run_past env 2 org m (st\<lparr>mt_db := db\<rparr>) = Some (st2, r2)"
      and ex: "ExecuteMonitorRun (mm_exec env) 2 org m s e (mo_Evaluators m) (st\<lparr>mt_db := db\<rparr>) = (st2, r2)"
      using assms(2) Inr p by (fastforce simp: CreateMonitor_def Let_def run_past_def split: option.splits)
    have st2: "monitor_inv (mt_db st2)" "runs_progress (mt_db st) (mt_db st2)"
      using execute_inv[OF ex] execute_progress[OF ex] created(1) same by (simp_all add: runs_progress_def)
    show ?thesis
    proof (cases r2)
      case (Inr run)
      then show ?thesis using assms(2) \<open>created_monitor env org req (mt_db st) = Inr p\<close> p True run st2
        by (simp add: CreateMonitor_def Let_def)
    next
      case (Inl err)
      define db1 where "db1 = if_ok (cleanupLLMProxies env 6 (mo_ID m) (mt_db st2)) (mt_db st2)"
      have st': "mt_db st' = if_ok (DeleteMonitor_row (mm_store env) 8 (mo_ID m) db1) db1"
        using assms(2) \<open>created_monitor env org req (mt_db st) = Inr p\<close> p True run Inl
        by (auto simp: CreateMonitor_def Let_def db1_def)
      have "md_runs (mt_db st2) = md_runs (mt_db st)" using ex Inl same by (cases rule: execute_cases) auto
      then have runs: "md_runs db1 = md_runs (mt_db st)"
        unfolding db1_def by (auto simp: if_ok_def dest!: cleanup_Inr split: sum.split)
      have db1: "monitor_inv db1" unfolding db1_def by (rule cleanup_inv[OF st2(1)])
      have "md_runs (mt_db st') = md_runs (mt_db st)"
        unfolding st' if_ok_def
        by (auto simp: DeleteMonitor_row_def statement_Inr runs drop_nothing[OF assms(1) new] split: sum.split)
      moreover have "monitor_inv (mt_db st')" unfolding st' by (rule if_ok_inv[OF DeleteMonitor_row_inv[OF _ db1] db1])
      ultimately show ?thesis by (simp add: runs_same)
    qed
  qed
qed

lemma changed_monitor_Inr:
  assumes "changed_monitor env m req db = Inr m'"
  obtains es where "check_interval (ur_IntervalMinutes req) = None"
    "m' = m\<lparr>mo_DisplayName := (case ur_DisplayName req of Some d \<Rightarrow> d | None \<Rightarrow> mo_DisplayName m),
        mo_Evaluators := es, mo_IntervalMinutes := or_else (ur_IntervalMinutes req) (mo_IntervalMinutes m),
        mo_TraceStart := or_else (ur_TraceStart req) (mo_TraceStart m),
        mo_TraceEnd := or_else (ur_TraceEnd req) (mo_TraceEnd m),
        mo_SamplingRate := (case ur_SamplingRate req of Some x \<Rightarrow> x | None \<Rightarrow> mo_SamplingRate m)\<rparr>"
proof (cases "or_else (check_interval (ur_IntervalMinutes req))
    (or_else (check_rate (ur_SamplingRate req)) (update_window_error (mm_now env) m req))")
  case None
  then have "check_interval (ur_IntervalMinutes req) = None" by (simp add: or_else_None)
  moreover note changed = assms[unfolded changed_monitor_def andThen_Inr None]
  ultimately show ?thesis using that by auto
next
  case (Some e)
  then show ?thesis using assms by (auto simp: changed_monitor_def andThen_Inr)
qed

lemma changed_shape:
  assumes "changed_monitor env m req db = Inr m'" and "monitor_shape m"
  shows "monitor_shape m'" "mo_ID m' = mo_ID m" "mo_NextRunTime m' = mo_NextRunTime m" "mo_Type m' = mo_Type m"
proof -
  obtain i: "check_interval (ur_IntervalMinutes req) = None"
    and m': "mo_ID m' = mo_ID m" "mo_Type m' = mo_Type m" "mo_NextRunTime m' = mo_NextRunTime m"
      "mo_IntervalMinutes m' = or_else (ur_IntervalMinutes req) (mo_IntervalMinutes m)"
      "mo_TraceStart m' = or_else (ur_TraceStart req) (mo_TraceStart m)"
      "mo_TraceEnd m' = or_else (ur_TraceEnd req) (mo_TraceEnd m)"
    by (rule changed_monitor_Inr[OF assms(1)]) simp
  show "mo_ID m' = mo_ID m" "mo_NextRunTime m' = mo_NextRunTime m" "mo_Type m' = mo_Type m" using m' by simp_all
  show "monitor_shape m'"
    using assms(2) i by (auto simp: monitor_shape_def m' or_else_def check_interval_def split: option.splits if_splits)
qed

text \<open>Writing back keeps the invariant whatever was read before; a monitor of a proper shape is never a panic.\<close>

lemma save_inv:
  assumes "monitor_inv (mt_db st)" and shape: "monitor_shape m"
  obtains st' r where "save_monitor env org m req st = Some (st', r)" "monitor_inv (mt_db st')"
    "runs_progress (mt_db st) (mt_db st')"
proof -
  define db1 where "db1 = (if ur_ClearLLMProvider req
     then if_ok (cleanupLLMProxies env 3 (mo_ID m) (mt_db st)) (mt_db st) else mt_db st)"
  have db1: "monitor_inv db1" using assms(1) cleanup_inv by (simp add: db1_def)
  have runs: "md_runs db1 = md_runs (mt_db st)"
    by (auto simp: db1_def if_ok_def dest!: cleanup_Inr split: sum.split)
  show ?thesis
  proof (cases "UpdateMonitor_row (mm_store env) 5 (mm_now env) m db1")
    case (Inl e)
    then show ?thesis using that db1 runs by (auto simp: save_monitor_def Let_def db1_def[symmetric] runs_same)
  next
    case (Inr db2)
    have db2: "monitor_inv db2" by (rule UpdateMonitor_row_inv[OF Inr db1 shape])
    have runs2: "md_runs db2 = md_runs (mt_db st)"
      using Inr runs by (auto simp: UpdateMonitor_row_def Let_def statement_Inr split: option.splits)
    show ?thesis
    proof (cases "mo_Type m = MonitorTypePast")
      case False
      then show ?thesis using that db2 runs2 Inr
        by (auto simp: save_monitor_def Let_def db1_def[symmetric] runs_same)
    next
      case True
      then obtain s e where w: "mo_TraceStart m = Some s" "mo_TraceEnd m = Some e"
        using shape by (auto simp: monitor_shape_def)
      obtain st3 r where ex: "ExecuteMonitorRun (mm_exec env) 6 org m s e (mo_Evaluators m) (st\<lparr>mt_db := db2\<rparr>) = (st3, r)"
        by fastforce
      have "monitor_inv (mt_db st3)" "runs_progress (mt_db st) (mt_db st3)"
        using execute_inv[OF ex] execute_progress[OF ex] db2 runs2 by (simp_all add: runs_progress_def)
      then show ?thesis using that Inr True w ex
        by (auto simp: save_monitor_def Let_def db1_def[symmetric] run_past_def)
    qed
  qed
qed

lemma UpdateMonitor_inv:
  assumes "monitor_inv (mt_db st)"
  obtains st' r where "UpdateMonitor env org project agent name req st = Some (st', r)" "monitor_inv (mt_db st')"
    "runs_progress (mt_db st) (mt_db st')"
proof (cases "andThen (monitor_named env org project agent name (mt_db st)) (\<lambda>m. changed_monitor env m req (mt_db st))")
  case (Inl e)
  then show ?thesis using that assms by (auto simp: UpdateMonitor_def runs_same)
next
  case (Inr m')
  then obtain m where m: "monitor_named env org project agent name (mt_db st) = Inr m"
    and ch: "changed_monitor env m req (mt_db st) = Inr m'" by (auto simp: andThen_Inr)
  have "monitor_shape m" using inv_rows(1)[OF assms monitor_named_Inr(1)[OF m]] by (simp add: monitor_ok_def)
  then show ?thesis using save_inv[OF assms changed_shape(1)[OF ch]] that Inr by (metis UpdateMonitor_def sum.simps(6))
qed

section \<open>Sequences of operations\<close>

text \<open>Each operation brings its own environment, so its faults, times and drawn UUIDs are arbitrary.\<close>

datatype monitor_op =
    Op_CreateMonitor manager_env string CreateMonitorRequest
  | Op_UpdateMonitor manager_env string string string string UpdateMonitorRequest
  | Op_StopMonitor manager_env string string string string
  | Op_StartMonitor manager_env string string string string
  | Op_DeleteMonitor manager_env string string string string
  | Op_Rerun manager_env string string string string string
  | Op_Cycle cycle_env

definition on_db :: "(monitor_db \<Rightarrow> monitor_db \<times> 'a) \<Rightarrow> monitor_state \<Rightarrow> monitor_state" where
  "on_db f st = st\<lparr>mt_db := fst (f (mt_db st))\<rparr>"

definition or_panic :: "(monitor_state \<times> 'a) option \<Rightarrow> monitor_state \<Rightarrow> monitor_state" where
  "or_panic r st = (case r of None \<Rightarrow> st | Some (st', _) \<Rightarrow> st')"

fun monitor_exec :: "monitor_op \<Rightarrow> monitor_state \<Rightarrow> monitor_state" where
  "monitor_exec (Op_CreateMonitor env org req) st = or_panic (CreateMonitor env org req st) st"
| "monitor_exec (Op_UpdateMonitor env org project agent name req) st =
     or_panic (UpdateMonitor env org project agent name req st) st"
| "monitor_exec (Op_StopMonitor env org project agent name) st = on_db (StopMonitor env org project agent name) st"
| "monitor_exec (Op_StartMonitor env org project agent name) st = on_db (StartMonitor env org project agent name) st"
| "monitor_exec (Op_DeleteMonitor env org project agent name) st = fst (DeleteMonitor env org project agent name st)"
| "monitor_exec (Op_Rerun env org project agent name runID) st =
     fst (RerunMonitor env org project agent name runID st)"
| "monitor_exec (Op_Cycle env) st = runSchedulerCycle env st"

fun deletes_monitor :: "monitor_op \<Rightarrow> bool" where
  "deletes_monitor (Op_DeleteMonitor env org project agent name) = True"
| "deletes_monitor _ = False"

definition no_monitors :: "LLMProxy list \<Rightarrow> monitor_state" where
  "no_monitors proxies = \<lparr>mt_db = \<lparr>md_monitors = [], md_runs = [], md_mappings = [], md_proxies = proxies\<rparr>,
     mt_calls = []\<rparr>"

lemma no_monitors_inv: "monitor_inv (mt_db (no_monitors proxies))"
  by (simp add: no_monitors_def monitor_inv_def)

lemma monitor_exec_inv:
  assumes "monitor_inv (mt_db st)"
  shows "monitor_inv (mt_db (monitor_exec op st))"
    and "\<not> deletes_monitor op \<Longrightarrow> runs_progress (mt_db st) (mt_db (monitor_exec op st))"
proof -
  have "monitor_inv (mt_db (monitor_exec op st))
    \<and> (\<not> deletes_monitor op \<longrightarrow> runs_progress (mt_db st) (mt_db (monitor_exec op st)))"
  proof (cases op)
    case (Op_CreateMonitor env org req)
    then show ?thesis using assms CreateMonitor_inv[OF assms, of env org req]
      by (cases "CreateMonitor env org req st") (auto simp: or_panic_def runs_same)
  next
    case (Op_UpdateMonitor env org project agent name req)
    then show ?thesis using UpdateMonitor_inv[OF assms, of env org project agent name req]
      by (metis monitor_exec.simps(2) option.simps(5) or_panic_def prod.simps(2))
  qed (use assms StopMonitor_inv StartMonitor_inv DeleteMonitor_inv RerunMonitor_inv cycle_inv in \<open>simp_all add: on_db_def\<close>)
  then show "monitor_inv (mt_db (monitor_exec op st))"
    "\<not> deletes_monitor op \<Longrightarrow> runs_progress (mt_db st) (mt_db (monitor_exec op st))" by blast+
qed

interpretation monitor_system: invariant_system monitor_exec "\<lambda>st. monitor_inv (mt_db st)"
  by unfold_locales (rule monitor_exec_inv(1))

text \<open>Without deletions, the runs progress from any starting point.\<close>

interpretation life_cycle_system: guarded_system monitor_exec "\<lambda>op. \<not> deletes_monitor op"
  "\<lambda>st. monitor_inv (mt_db st) \<and> runs_progress start (mt_db st)" for start
  by unfold_locales (use monitor_exec_inv runs_progress_trans in blast)

end
