(* ===== verification/EvaluatorLife.thy ===== *)
theory EvaluatorLife
  imports EvaluatorManager EvaluatorSearch MonitorLife
begin

text \<open>
  Custom evaluators and monitors together. The monitor service asks the evaluator service for every
  evaluator of a request, the executor asks it for the custom evaluators of a run, and a custom evaluator
  that a monitor uses is not deleted. Here are the composed system, with the catalog fixed, what holds of its
  state (\<open>evaluation_inv\<close>), which evaluators the operations on monitors bring in, and what each operation
  does to the table of custom evaluators.
\<close>

section \<open>The composed system\<close>

record evaluation_state =
  vs_monitors :: monitor_state
  vs_customs :: "CustomEvaluator list"

abbreviation with_catalog :: "Entry list \<Rightarrow> evaluator_env \<Rightarrow> evaluator_env" where
  "with_catalog entries env \<equiv> env\<lparr>ee_catalog := entries\<rparr>"

text \<open>What the monitor service asks: the type and the schema of an evaluator of the organization.\<close>

definition evaluator_lookup ::
  "Entry list \<Rightarrow> (string \<Rightarrow> evaluator_env) \<Rightarrow> string \<Rightarrow> CustomEvaluator list \<Rightarrow> string \<Rightarrow>
   deploy_error + (string \<times> EvaluatorConfigParam list)" where
  "evaluator_lookup entries envs org customs i =
     map_sum id (\<lambda>r. (er_Type r, er_ConfigSchema r)) (GetEvaluator (with_catalog entries (envs i)) org i customs)"

definition wired_exec ::
  "Entry list \<Rightarrow> (string \<Rightarrow> evaluator_env) \<Rightarrow> CustomEvaluator list \<Rightarrow> executor_env \<Rightarrow> executor_env" where
  "wired_exec entries envs customs env =
     env\<lparr>xe_catalog := entries, xe_customs := \<lambda>org is. ResolveCustomEvaluators (envs []) org is customs\<rparr>"

definition wired_manager ::
  "Entry list \<Rightarrow> (string \<Rightarrow> evaluator_env) \<Rightarrow> CustomEvaluator list \<Rightarrow> string \<Rightarrow> manager_env \<Rightarrow> manager_env" where
  "wired_manager entries envs customs org env =
     env\<lparr>mm_exec := wired_exec entries envs customs (mm_exec env),
         mm_lookup := evaluator_lookup entries envs org customs\<rparr>"

fun wired ::
  "Entry list \<Rightarrow> (string \<Rightarrow> evaluator_env) \<Rightarrow> CustomEvaluator list \<Rightarrow> monitor_op \<Rightarrow> monitor_op" where
  "wired es envs cs (Op_CreateMonitor env org req) = Op_CreateMonitor (wired_manager es envs cs org env) org req"
| "wired es envs cs (Op_UpdateMonitor env org project agent name req) =
     Op_UpdateMonitor (wired_manager es envs cs org env) org project agent name req"
| "wired es envs cs (Op_StopMonitor env org project agent name) =
     Op_StopMonitor (wired_manager es envs cs org env) org project agent name"
| "wired es envs cs (Op_StartMonitor env org project agent name) =
     Op_StartMonitor (wired_manager es envs cs org env) org project agent name"
| "wired es envs cs (Op_DeleteMonitor env org project agent name) =
     Op_DeleteMonitor (wired_manager es envs cs org env) org project agent name"
| "wired es envs cs (Op_Rerun env org project agent name runID) =
     Op_Rerun (wired_manager es envs cs org env) org project agent name runID"
| "wired es envs cs (Op_Cycle env) = Op_Cycle (env\<lparr>sc_exec := \<lambda>k. wired_exec es envs cs (sc_exec env k)\<rparr>)"

datatype evaluation_op =
    Op_Monitors "string \<Rightarrow> evaluator_env" monitor_op
  | Op_CreateEvaluator evaluator_env string CreateCustomEvaluatorRequest
  | Op_UpdateEvaluator evaluator_env string string UpdateCustomEvaluatorRequest
  | Op_DeleteEvaluator evaluator_env string string

fun evaluation_exec :: "Entry list \<Rightarrow> evaluation_op \<Rightarrow> evaluation_state \<Rightarrow> evaluation_state" where
  "evaluation_exec entries (Op_Monitors envs op) st =
     st\<lparr>vs_monitors := monitor_exec (wired entries envs (vs_customs st) op) (vs_monitors st)\<rparr>"
| "evaluation_exec entries (Op_CreateEvaluator env org req) st =
     st\<lparr>vs_customs := fst (CreateCustomEvaluator (with_catalog entries env) org req (vs_customs st))\<rparr>"
| "evaluation_exec entries (Op_UpdateEvaluator env org identifier req) st =
     st\<lparr>vs_customs := fst (UpdateCustomEvaluator (with_catalog entries env) org identifier req (vs_customs st))\<rparr>"
| "evaluation_exec entries (Op_DeleteEvaluator env org identifier) st =
     st\<lparr>vs_customs := fst (DeleteCustomEvaluator (with_catalog entries env) org identifier
         (mt_db (vs_monitors st)) (vs_customs st))\<rparr>"

definition no_evaluations :: "LLMProxy list \<Rightarrow> evaluation_state" where
  "no_evaluations proxies = \<lparr>vs_monitors = no_monitors proxies, vs_customs = []\<rparr>"

section \<open>Invariants\<close>

text \<open>A custom evaluator has a slug for an identifier that no built-in evaluator has.\<close>

definition custom_ok :: "Entry list \<Rightarrow> CustomEvaluator \<Rightarrow> bool" where
  "custom_ok entries c \<longleftrightarrow> slug (cu_Identifier c) \<and> catalog_Get entries (cu_Identifier c) = None
     \<and> cu_Type c \<in> {CustomEvaluatorTypeCode, CustomEvaluatorTypeLLMJudge} \<and> cu_Level c \<in> {''trace'', ''agent'', ''llm''}"

definition custom_inv :: "Entry list \<Rightarrow> CustomEvaluator list \<Rightarrow> bool" where
  "custom_inv entries db \<longleftrightarrow>
     distinct (map cu_ID db) \<and> distinct (map custom_key (filter active_custom db)) \<and> (\<forall>c \<in> set db. custom_ok entries c)"

definition known_evaluator :: "Entry list \<Rightarrow> CustomEvaluator list \<Rightarrow> string \<Rightarrow> string \<Rightarrow> bool" where
  "known_evaluator entries db org i \<longleftrightarrow>
     catalog_Get entries i \<noteq> None \<or> (org, i) \<in> custom_key ` set (filter active_custom db)"

definition evaluated :: "monitor_db \<Rightarrow> (string \<times> MonitorEvaluator list) set" where
  "evaluated db = (\<lambda>m. (mo_OrgName m, mo_Evaluators m)) ` set (md_monitors db)"

definition evaluators_known :: "Entry list \<Rightarrow> CustomEvaluator list \<Rightarrow> monitor_db \<Rightarrow> bool" where
  "evaluators_known entries customs db \<longleftrightarrow>
     (\<forall>(org, es) \<in> evaluated db. \<forall>e \<in> set es. known_evaluator entries customs org (ev_Identifier e))"

definition evaluation_inv :: "Entry list \<Rightarrow> evaluation_state \<Rightarrow> bool" where
  "evaluation_inv entries st \<longleftrightarrow> monitor_inv (mt_db (vs_monitors st)) \<and> custom_inv entries (vs_customs st)
     \<and> evaluators_known entries (vs_customs st) (mt_db (vs_monitors st))"

section \<open>Looking up\<close>

lemma GetByIdentifier_Inr:
  assumes "GetByIdentifier env n org i db = Inr c"
  shows "c \<in> set db" "active_custom c" "cu_OrgName c = org" "cu_Identifier c = i" "custom_key c = (org, i)"
  using assms by (auto simp: GetByIdentifier_def statement_Inr find_Some_iff custom_key_def split: option.splits)

lemma active_row:
  assumes "custom_inv entries db" and "c \<in> set db" and "d \<in> set db" and "active_custom c" and "active_custom d"
    and "custom_key c = custom_key d"
  shows "c = d"
  using same_row[of custom_key "filter active_custom db" c d] assms by (simp add: custom_inv_def)

text \<open>The lookup finds the active row of a key, and only that.\<close>

lemma GetByIdentifier_exact:
  assumes "custom_inv entries db" and "de_fault (ee_repo env) n = None"
  shows "GetByIdentifier env n org i db = Inr c \<longleftrightarrow> c \<in> set db \<and> active_custom c \<and> custom_key c = (org, i)"
proof
  assume g: "GetByIdentifier env n org i db = Inr c"
  from GetByIdentifier_Inr[OF g] show "c \<in> set db \<and> active_custom c \<and> custom_key c = (org, i)" by simp
next
  assume c: "c \<in> set db \<and> active_custom c \<and> custom_key c = (org, i)"
  then obtain d where d: "find (\<lambda>c. custom_key c = (org, i) \<and> active_custom c) db = Some d"
    by (cases "find (\<lambda>c. custom_key c = (org, i) \<and> active_custom c) db") (auto simp: find_None_iff)
  then have "d \<in> set db \<and> active_custom d \<and> custom_key d = (org, i)"
    by (auto simp: find_Some_iff)
  then have "d = c" using active_row[OF assms(1)] c by metis
  then show "GetByIdentifier env n org i db = Inr c" using d assms(2) by (simp add: GetByIdentifier_def statement_def)
qed

lemma GetEvaluator_known:
  assumes "GetEvaluator env org i db = Inr r"
  shows "known_evaluator (ee_catalog env) db org i"
proof (cases "catalog_Get (ee_catalog env) i")
  case None
  then obtain c where "GetByIdentifier env 1 org i db = Inr c"
    using assms by (auto simp: GetEvaluator_def map_sum_Inr)
  from GetByIdentifier_Inr[OF this] show ?thesis by (force simp: known_evaluator_def)
qed (simp add: known_evaluator_def)

definition accepted :: "(string \<Rightarrow> deploy_error + 'a) \<Rightarrow> MonitorEvaluator list \<Rightarrow> bool" where
  "accepted lookup es \<longleftrightarrow> (\<forall>e \<in> set es. \<exists>r. lookup (ev_Identifier e) = Inr r)"

lemma validate_each_accepted: "validate_each lookup i es = Inr (judge, es') \<Longrightarrow> accepted lookup es'"
proof (induction es arbitrary: i judge es')
  case (Cons e es)
  obtain ty schema where look: "lookup (ev_Identifier e) = Inr (ty, schema)"
    using Cons.prems by (cases "lookup (ev_Identifier e)") auto
  then obtain config j1 es1 where "validate_each lookup (Suc i) es = Inr (j1, es1)"
    and "es' = e\<lparr>ev_Config := config\<rparr> # es1"
    using Cons.prems by (auto simp: andThen_Inr)
  then show ?case using Cons.IH look by (auto simp: accepted_def)
qed (simp add: accepted_def)

lemma validateEvaluators_accepted: "validateEvaluators lookup es = Inr (judge, es') \<Longrightarrow> accepted lookup es'"
  by (auto simp: validateEvaluators_def dest: validate_each_accepted split: option.splits)

lemma accepted_known:
  assumes "accepted (evaluator_lookup entries envs org customs) es" and "e \<in> set es"
  shows "known_evaluator entries customs org (ev_Identifier e)"
proof -
  obtain r where "GetEvaluator (with_catalog entries (envs (ev_Identifier e))) org (ev_Identifier e) customs = Inr r"
    using assms by (fastforce simp: accepted_def evaluator_lookup_def map_sum_Inr)
  from GetEvaluator_known[OF this] show ?thesis by simp
qed

section \<open>The evaluators of monitors\<close>

text \<open>
  Only creating and changing a monitor bring evaluators into the table, and only accepted ones.
\<close>

lemma evaluated_mono: "md_monitors db' = md_monitors db \<Longrightarrow> evaluated db' = evaluated db"
  by (simp add: evaluated_def)

lemma evaluated_change:
  assumes "\<And>m. m \<in> set (md_monitors db) \<Longrightarrow> mo_ID m = i \<Longrightarrow>
    mo_OrgName (f m) = mo_OrgName m \<and> mo_Evaluators (f m) = mo_Evaluators m"
  shows "evaluated (change_monitor i f db) = evaluated db"
  unfolding evaluated_def change_monitor_simps list.set_map image_image
  using assms by (intro image_cong) auto

lemma evaluated_next_run:
  "UpdateNextRunTime env n now i t db = Inr db' \<Longrightarrow> evaluated db' = evaluated db"
  by (auto simp: UpdateNextRunTime_def statement_Inr intro!: evaluated_change)

lemma evaluated_delete: "DeleteMonitor_row env n i db = Inr db' \<Longrightarrow> evaluated db' \<subseteq> evaluated db"
  by (auto simp: DeleteMonitor_row_def statement_Inr evaluated_def)

lemma evaluated_cleanup: "evaluated (if_ok (cleanupLLMProxies env n i db) db) = evaluated db"
  by (auto simp: if_ok_def evaluated_def dest!: cleanup_Inr split: sum.split)

lemma row_evaluators [simp]:
  "mo_OrgName (monitor_row env m) = mo_OrgName m" "mo_Evaluators (monitor_row env m) = mo_Evaluators m"
  by (simp_all add: monitor_row_def)

lemma evaluated_create:
  "CreateMonitor_row env n now m db = Inr (m', db') \<Longrightarrow>
     evaluated db' = insert (mo_OrgName m, mo_Evaluators m) (evaluated db)
     \<and> mo_OrgName m' = mo_OrgName m \<and> mo_Evaluators m' = mo_Evaluators m"
  by (auto simp: CreateMonitor_row_def Let_def statement_Inr map_sum_Inr insert_monitor_Inr evaluated_def)

lemma evaluated_update:
  "UpdateMonitor_row env n now m db = Inr db' \<Longrightarrow>
     evaluated db' \<subseteq> insert (mo_OrgName m, mo_Evaluators m) (evaluated db)"
  by (auto simp: UpdateMonitor_row_def Let_def statement_Inr evaluated_def split: option.splits if_splits)

lemma evaluated_execute:
  "ExecuteMonitorRun env n org m s e evs st = (st', r) \<Longrightarrow> evaluated (mt_db st') = evaluated (mt_db st)"
  by (erule execute_cases) (simp_all add: evaluated_def)

lemma evaluated_trigger: "evaluated (mt_db (fst (triggerMonitor env k m st))) = evaluated (mt_db st)"
proof -
  obtain st' r where t: "triggerMonitor env k m st = (st', r)" by fastforce
  then have "evaluated (mt_db st') = evaluated (mt_db st)"
  proof (cases rule: trigger_cases)
    case (ran minutes due name db)
    have same: "evaluated db = evaluated (mt_db st)" by (simp add: ran(5) evaluated_def)
    moreover have "evaluated (change_monitor (mo_ID m) (rescheduled env k minutes) db) = evaluated db"
      by (rule evaluated_change) (simp add: rescheduled_def)
    ultimately show ?thesis using ran(6) by (auto split: if_splits)
  qed simp
  then show ?thesis using t by simp
qed

lemma evaluated_trigger_each: "evaluated (mt_db (trigger_each env k ms st)) = evaluated (mt_db st)"
  by (induction ms arbitrary: k st) (simp_all add: evaluated_trigger)

lemma evaluated_cycle:
  assumes "monitor_inv (mt_db st)"
  shows "evaluated (mt_db (runSchedulerCycle env st)) = evaluated (mt_db st)"
proof -
  define st1 where "st1 = fst (triggerPendingMonitors env st)"
  have st1: "evaluated (mt_db st1) = evaluated (mt_db st)"
    by (simp add: st1_def triggerPendingMonitors_def evaluated_trigger_each split: sum.split)
  have "monitor_inv (mt_db st1)" using triggerPending_inv[OF assms, of env] by (simp add: st1_def)
  then have "evaluated (fst (syncRunStatus env (mt_db st1))) = evaluated (mt_db st1)"
    by (intro evaluated_mono syncRunStatus_inv(3))
  then show ?thesis using st1 by (simp add: runSchedulerCycle_def Let_def st1_def)
qed

lemma evaluated_reschedule:
  "evaluated (fst (reschedule env text org project agent name i t db)) = evaluated db"
  unfolding reschedule_db by (auto simp: if_ok_def dest: evaluated_next_run split: sum.split)

lemma prepared_evaluators:
  assumes "prepared_monitor env org req = Inr m"
  shows "mo_OrgName m = org" "accepted (mm_lookup env) (mo_Evaluators m)"
proof -
  have v: "validateCreateRequest (mm_now env) req = None"
    using assms by (auto simp: prepared_monitor_def split: option.splits)
  obtain judge es where "validateEvaluators (mm_lookup env) (cr_Evaluators req) = Inr (judge, es)"
    and m: "mo_OrgName m = org" "mo_Evaluators m = es"
    using assms by (auto simp: prepared_monitor_def v andThen_Inr wrap_error_Inr split: option.splits if_splits)
  then show "mo_OrgName m = org" "accepted (mm_lookup env) (mo_Evaluators m)"
    using validateEvaluators_accepted by simp_all
qed

lemma changed_evaluators:
  assumes "changed_monitor env m req db = Inr m'"
  shows "mo_OrgName m' = mo_OrgName m" "mo_Evaluators m' = mo_Evaluators m \<or> accepted (mm_lookup env) (mo_Evaluators m')"
proof -
  obtain es where es: "checked_evaluators env m req db = Inr es" and m': "mo_OrgName m' = mo_OrgName m" "mo_Evaluators m' = es"
    using assms by (auto simp: changed_monitor_def andThen_Inr split: option.splits)
  show "mo_OrgName m' = mo_OrgName m" by (rule m')
  show "mo_Evaluators m' = mo_Evaluators m \<or> accepted (mm_lookup env) (mo_Evaluators m')"
    using es validateEvaluators_accepted
    by (fastforce simp: m' checked_evaluators_def andThen_Inr split: if_splits)
qed

text \<open>The organization and the evaluators that an operation may add.\<close>

fun adds_evaluators :: "monitor_op \<Rightarrow> string \<Rightarrow> MonitorEvaluator list \<Rightarrow> bool" where
  "adds_evaluators (Op_CreateMonitor env org' req) org es \<longleftrightarrow> org' = org \<and> accepted (mm_lookup env) es"
| "adds_evaluators (Op_UpdateMonitor env org' project agent name req) org es \<longleftrightarrow> org' = org \<and> accepted (mm_lookup env) es"
| "adds_evaluators _ org es \<longleftrightarrow> False"

lemma CreateMonitor_evaluated:
  assumes "CreateMonitor env org req st = Some (st', r)"
  shows "evaluated (mt_db st') \<subseteq> evaluated (mt_db st) \<union> {(org, es) | es. accepted (mm_lookup env) es}"
proof (cases "created_monitor env org req (mt_db st)")
  case (Inl e)
  then show ?thesis using assms by (simp add: CreateMonitor_def)
next
  case (Inr p)
  obtain m db where p: "p = (m, db)" by fastforce
  obtain m0 where m0: "prepared_monitor env org req = Inr m0"
    and row: "CreateMonitor_row (mm_store env) 1 (mm_now env) m0 (mt_db st) = Inr (m, db)"
    using Inr p by (auto simp: created_monitor_def andThen_Inr map_sum_Inr)
  have db: "evaluated db \<subseteq> evaluated (mt_db st) \<union> {(org, es) | es. accepted (mm_lookup env) es}"
    using evaluated_create[OF row] prepared_evaluators[OF m0] by auto
  have "evaluated (mt_db st') \<subseteq> evaluated db"
  proof (cases "mo_Type m = MonitorTypePast")
    case False
    then show ?thesis using assms Inr p by (auto simp: CreateMonitor_def Let_def)
  next
    case True
    then obtain s e st2 r2 where run: "run_past env 2 org m (st\<lparr>mt_db := db\<rparr>) = Some (st2, r2)"
      and ex: "ExecuteMonitorRun (mm_exec env) 2 org m s e (mo_Evaluators m) (st\<lparr>mt_db := db\<rparr>) = (st2, r2)"
      using assms Inr p by (fastforce simp: CreateMonitor_def Let_def run_past_def split: option.splits)
    have st2: "evaluated (mt_db st2) = evaluated db" using evaluated_execute[OF ex] by simp
    define db1 where "db1 = if_ok (cleanupLLMProxies env 6 (mo_ID m) (mt_db st2)) (mt_db st2)"
    have "evaluated (if_ok (DeleteMonitor_row (mm_store env) 8 (mo_ID m) db1) db1) \<subseteq> evaluated db1"
      by (auto simp: if_ok_def dest: evaluated_delete split: sum.split)
    moreover have "evaluated db1 = evaluated db" by (simp add: db1_def evaluated_cleanup st2)
    moreover have "mt_db st' = (case r2 of Inr _ \<Rightarrow> mt_db st2
        | Inl _ \<Rightarrow> if_ok (DeleteMonitor_row (mm_store env) 8 (mo_ID m) db1) db1)"
      using assms Inr p True run by (auto simp: CreateMonitor_def Let_def db1_def split: sum.splits)
    ultimately show ?thesis using st2 by (simp split: sum.splits)
  qed
  with db show ?thesis by blast
qed

lemma save_evaluated:
  assumes "save_monitor env org m req st = Some (st', r)"
  shows "evaluated (mt_db st') \<subseteq> insert (mo_OrgName m, mo_Evaluators m) (evaluated (mt_db st))"
proof -
  define db1 where "db1 = (if ur_ClearLLMProvider req
     then if_ok (cleanupLLMProxies env 3 (mo_ID m) (mt_db st)) (mt_db st) else mt_db st)"
  have db1: "evaluated db1 = evaluated (mt_db st)" by (simp add: db1_def evaluated_cleanup)
  show ?thesis
  proof (cases "UpdateMonitor_row (mm_store env) 5 (mm_now env) m db1")
    case (Inl e)
    then show ?thesis using assms db1 by (auto simp: save_monitor_def Let_def db1_def[symmetric])
  next
    case (Inr db2)
    note db2 = evaluated_update[OF Inr, unfolded db1]
    show ?thesis
    proof (cases "mo_Type m = MonitorTypePast")
      case False
      then show ?thesis using assms Inr db2 by (auto simp: save_monitor_def Let_def db1_def[symmetric])
    next
      case True
      then obtain s e r3 where ex: "ExecuteMonitorRun (mm_exec env) 6 org m s e (mo_Evaluators m) (st\<lparr>mt_db := db2\<rparr>) = (st', r3)"
        using assms Inr by (auto simp: save_monitor_def Let_def db1_def[symmetric] run_past_def split: option.splits)
      show ?thesis using evaluated_execute[OF ex] db2 by simp
    qed
  qed
qed

lemma UpdateMonitor_evaluated:
  assumes "UpdateMonitor env org project agent name req st = Some (st', r)"
  shows "evaluated (mt_db st') \<subseteq> evaluated (mt_db st) \<union> {(org, es) | es. accepted (mm_lookup env) es}"
proof (cases "andThen (monitor_named env org project agent name (mt_db st)) (\<lambda>m. changed_monitor env m req (mt_db st))")
  case (Inl e)
  then show ?thesis using assms by (auto simp: UpdateMonitor_def)
next
  case (Inr m')
  then obtain m where m: "monitor_named env org project agent name (mt_db st) = Inr m"
    and ch: "changed_monitor env m req (mt_db st) = Inr m'" by (auto simp: andThen_Inr)
  have org: "mo_OrgName m = org" using monitor_named_Inr(2)[OF m] by (simp add: monitor_scope_def)
  have "save_monitor env org m' req st = Some (st', r)" using assms Inr by (simp add: UpdateMonitor_def)
  note saved = save_evaluated[OF this]
  have "(mo_OrgName m', mo_Evaluators m') \<in> evaluated (mt_db st) \<union> {(org, es) | es. accepted (mm_lookup env) es}"
    using changed_evaluators[OF ch] org imageI[OF monitor_named_Inr(1)[OF m], of "\<lambda>m. (mo_OrgName m, mo_Evaluators m)"]
    by (auto simp: evaluated_def)
  then show ?thesis using saved by blast
qed

lemma monitor_exec_evaluated:
  assumes "monitor_inv (mt_db st)"
  shows "evaluated (mt_db (monitor_exec op st)) \<subseteq> evaluated (mt_db st) \<union> {(org, es). adds_evaluators op org es}"
proof (cases op)
  case (Op_CreateMonitor env org req)
  then show ?thesis using CreateMonitor_evaluated[of env org req st]
    by (cases "CreateMonitor env org req st") (fastforce simp: or_panic_def)+
next
  case (Op_UpdateMonitor env org project agent name req)
  then show ?thesis using UpdateMonitor_evaluated[of env org project agent name req st]
    by (cases "UpdateMonitor env org project agent name req st") (fastforce simp: or_panic_def)+
next
  case (Op_StopMonitor env org project agent name)
  then show ?thesis by (auto simp: on_db_def StopMonitor_def evaluated_reschedule split: sum.split)
next
  case (Op_StartMonitor env org project agent name)
  then show ?thesis by (auto simp: on_db_def StartMonitor_def evaluated_reschedule split: sum.split)
next
  case (Op_DeleteMonitor env org project agent name)
  have "evaluated (mt_db (fst (DeleteMonitor env org project agent name st))) \<subseteq> evaluated (mt_db st)"
    using evaluated_cleanup evaluated_delete
    by (auto simp: DeleteMonitor_def Let_def wrap_error_Inr split: sum.splits) (metis subsetD)
  then show ?thesis using Op_DeleteMonitor by auto
next
  case (Op_Rerun env org project agent name runID)
  have "evaluated (mt_db (fst (RerunMonitor env org project agent name runID st))) = evaluated (mt_db st)"
    using evaluated_execute
    by (auto simp: RerunMonitor_def split: sum.split) (metis prod.collapse)+
  then show ?thesis using Op_Rerun by auto
next
  case (Op_Cycle env)
  then show ?thesis using evaluated_cycle[OF assms] by simp
qed

section \<open>The table of custom evaluators\<close>

lemma custom_row_fields [simp]:
  "cu_ID (custom_row env c) = cu_ID c" "custom_key (custom_row env c) = custom_key c"
  "active_custom (custom_row env c) = active_custom c" "custom_ok entries (custom_row env c) = custom_ok entries c"
  "cu_Type (custom_row env c) = cu_Type c" "cu_Level (custom_row env c) = cu_Level c"
  by (simp_all add: custom_row_def custom_key_def active_custom_def custom_ok_def)

lemma custom_violation_None:
  "custom_violation c others = None \<longleftrightarrow>
     (active_custom c \<longrightarrow> custom_key c \<notin> custom_key ` set (filter active_custom others))
     \<and> cu_Type c \<in> {CustomEvaluatorTypeCode, CustomEvaluatorTypeLLMJudge} \<and> cu_Level c \<in> {''trace'', ''agent'', ''llm''}"
  by (auto simp: custom_violation_def)

lemma custom_Create_Inr:
  assumes "custom_Create env n c db = Inr (c', db')"
  shows "db' = db @ [custom_row env c']" "cu_ID c' \<notin> cu_ID ` set db" "custom_violation c' db = None"
    "custom_key c' = custom_key c" "cu_DeletedAt c' = cu_DeletedAt c"
    "c' = c\<lparr>cu_ID := ee_newid env, cu_Version := (if cu_Version c = [] then ''1.0'' else cu_Version c),
        cu_CreatedAt := ee_now env, cu_UpdatedAt := ee_now env\<rparr>"
  using assms
  by (auto simp: custom_Create_def Let_def statement_Inr custom_key_def split: if_splits option.splits)

lemma CreateCustomEvaluator_cases:
  assumes "CreateCustomEvaluator env org req db = (db', r)"
  obtains (failed) err where "r = Inl err" "db' = db"
  | (created) c where "db' = db @ [custom_row env c]" "cu_ID c \<notin> cu_ID ` set db" "custom_violation c db = None"
      "active_custom c" "custom_ok (ee_catalog env) c" "cu_OrgName c = org" "r = Inr (ToEvaluatorResponse (ee_base env) c)"
proof -
  define i where "i = (if cq_Identifier req = [] then slugify (cq_DisplayName req) else cq_Identifier req)"
  have unfold: "CreateCustomEvaluator env org req db =
     (if \<not> IdentifierRegex i
      then (db, Inl (invalid ''identifier %q must be a lowercase slug (letters, digits, hyphens): %w'' [i]))
      else if catalog_Get (ee_catalog env) i \<noteq> None then (db, Inl ErrCustomEvaluatorIdentifierTaken)
      else
        (case custom_Create env 1 (new_custom org i req) db of
           Inl e \<Rightarrow> (db, Inl (if str_contains (error_text e) ''uq_custom_evaluator_org_identifier''
                        then ErrCustomEvaluatorAlreadyExists
                        else Wrapf ''failed to create custom evaluator: %w'' [] e))
         | Inr (c, db') \<Rightarrow> (db', Inr (ToEvaluatorResponse (ee_base env) c))))"
    unfolding CreateCustomEvaluator_def Let_def i_def by (rule refl)
  show ?thesis
  proof (cases "IdentifierRegex i \<and> catalog_Get (ee_catalog env) i = None")
    case False
    then show ?thesis using assms failed by (auto simp: unfold split: if_splits)
  next
    case True
    show ?thesis
    proof (cases "custom_Create env 1 (new_custom org i req) db")
      case (Inl e)
      then show ?thesis using assms failed True by (auto simp: unfold)
    next
      case (Inr p)
      then obtain c where p: "custom_Create env 1 (new_custom org i req) db = Inr (c, db')"
        and r: "r = Inr (ToEvaluatorResponse (ee_base env) c)" using assms True by (auto simp: unfold split: prod.splits)
      note row = custom_Create_Inr[OF p]
      have key: "cu_OrgName c = org" "cu_Identifier c = i" "active_custom c"
        using row(4,5) by (simp_all add: custom_key_def new_custom_def active_custom_def)
      then have "custom_ok (ee_catalog env) c"
        using True row(3) by (simp add: custom_ok_def identifier_slug custom_violation_None)
      then show ?thesis using created[OF row(1-3)] key r by blast
    qed
  qed
qed

definition replace_custom :: "CustomEvaluator \<Rightarrow> CustomEvaluator list \<Rightarrow> CustomEvaluator list" where
  "replace_custom row db = map (\<lambda>x. if cu_ID x = cu_ID row then row else x) db"

lemma custom_Update_Inr:
  assumes "custom_Update env n c db = Inr db'" and "cu_ID c \<in> cu_ID ` set db"
  obtains row where "row = custom_row env (c\<lparr>cu_UpdatedAt := ee_now env\<rparr>)" "db' = replace_custom row db"
    "custom_violation row (filter (\<lambda>x. cu_ID x \<noteq> cu_ID c) db) = None"
  using assms by (auto simp: custom_Update_def Let_def statement_Inr replace_custom_def split: option.splits)

lemma replace_custom_set:
  assumes "cu_ID row \<in> cu_ID ` set db"
  shows "set (replace_custom row db) = insert row {x \<in> set db. cu_ID x \<noteq> cu_ID row}"
  using assms by (auto simp: replace_custom_def image_iff split: if_splits)

text \<open>Replacing the row of an id keeps the active keys distinct when the constraint on them holds.\<close>

lemma replaced_keys:
  assumes "distinct (map cu_ID db)" and "distinct (map custom_key (filter active_custom db))"
    and "active_custom row \<Longrightarrow> custom_key row \<notin> custom_key ` {x \<in> set db. cu_ID x \<noteq> cu_ID row \<and> active_custom x}"
  shows "distinct (map custom_key (filter active_custom (replace_custom row db)))"
  using assms
proof (induction db)
  case Nil
  then show ?case by (simp add: replace_custom_def)
next
  case (Cons x db)
  have rest: "distinct (map custom_key (filter active_custom (replace_custom row db)))"
    using Cons by (auto split: if_splits)
  have tail: "replace_custom row (x # db) = (if cu_ID x = cu_ID row then row else x) # replace_custom row db"
    by (simp add: replace_custom_def)
  show ?case
  proof (cases "cu_ID x = cu_ID row")
    case True
    then have other: "\<forall>y \<in> set db. cu_ID y \<noteq> cu_ID row" using Cons.prems(1) by (auto simp: image_iff)
    then have "replace_custom row db = db" by (auto simp: replace_custom_def intro!: map_idI)
    moreover have "custom_key y \<noteq> custom_key row" if "y \<in> set db" "active_custom row" "active_custom y" for y
      using Cons.prems(3) other that by (force simp: image_iff)
    ultimately have "replace_custom row db = db"
      "\<forall>y \<in> set db. active_custom row \<and> active_custom y \<longrightarrow> custom_key y \<noteq> custom_key row" by blast+
    then show ?thesis unfolding tail using True rest by (auto simp: image_iff)
  next
    case False
    have "custom_key x \<notin> custom_key ` set (filter active_custom (replace_custom row db))" if x: "active_custom x"
    proof
      assume "custom_key x \<in> custom_key ` set (filter active_custom (replace_custom row db))"
      then obtain y where y: "y \<in> set (replace_custom row db)" "active_custom y" "custom_key y = custom_key x" by auto
      then consider "y = row" | "y \<in> set db" by (auto simp: replace_custom_def split: if_splits)
      then show False
      proof cases
        case 1
        then show ?thesis using Cons.prems(3) y False x by (auto simp: image_iff)
      next
        case 2
        then show ?thesis using Cons.prems(2) y x by (auto simp: image_iff)
      qed
    qed
    then show ?thesis unfolding tail using False rest by simp
  qed
qed

lemma custom_Update_inv:
  assumes "custom_Update env n c db = Inr db'" and inv: "custom_inv entries db" and "cu_ID c \<in> cu_ID ` set db"
    and ok: "custom_ok entries c"
  shows "custom_inv entries db'"
proof -
  obtain row where row: "row = custom_row env (c\<lparr>cu_UpdatedAt := ee_now env\<rparr>)" and db': "db' = replace_custom row db"
    and v: "custom_violation row (filter (\<lambda>x. cu_ID x \<noteq> cu_ID c) db) = None"
    by (rule custom_Update_Inr[OF assms(1,3)])
  have row_id: "cu_ID row = cu_ID c" by (simp add: row)
  have "map cu_ID db' = map cu_ID db" by (simp add: db' replace_custom_def o_def)
  moreover have "distinct (map custom_key (filter active_custom db'))"
    unfolding db' using inv v by (intro replaced_keys) (auto simp: custom_inv_def custom_violation_None row_id image_iff)
  moreover have "custom_ok entries row" using ok by (simp add: row custom_ok_def custom_row_def)
  then have "\<forall>x \<in> set db'. custom_ok entries x"
    using inv by (auto simp: db' replace_custom_def custom_inv_def)
  ultimately show ?thesis using inv by (metis custom_inv_def)
qed

lemma Create_custom_inv:
  assumes "CreateCustomEvaluator env org req db = (db', r)" and "custom_inv (ee_catalog env) db"
  shows "custom_inv (ee_catalog env) db'" "set db \<subseteq> set db'"
  using assms
  by (auto elim!: CreateCustomEvaluator_cases simp: custom_inv_def custom_violation_None)

text \<open>Changing an evaluator keeps its id and its key, and an active one stays active.\<close>

lemma changed_custom_fields [simp]:
  "cu_ID (changed_custom req c) = cu_ID c" "custom_key (changed_custom req c) = custom_key c"
  "active_custom (changed_custom req c) = active_custom c" "cu_OrgName (changed_custom req c) = cu_OrgName c"
  "custom_ok entries (changed_custom req c) = custom_ok entries c"
  by (simp_all add: changed_custom_def custom_key_def active_custom_def custom_ok_def)

lemma custom_named_Inr:
  assumes "custom_named env org i db = Inr c"
  shows "c \<in> set db" "active_custom c" "custom_key c = (org, i)"
  using assms GetByIdentifier_Inr by (auto simp: custom_named_def map_sum_Inr)

text \<open>Writing back a changed row, whatever happened to it since it was read.\<close>

lemma saved_custom:
  assumes "save_custom env (changed_custom req c) db = (db', r)" and inv: "custom_inv entries db"
    and c: "cu_ID c \<in> cu_ID ` set db" "custom_ok entries c"
  shows "custom_inv entries db'"
    and "r = Inr resp \<Longrightarrow> \<exists>row \<in> set db'. cu_ID row = cu_ID c \<and> custom_key row = custom_key c \<and> cu_DeletedAt row = map_option (ms_column (ee_store env)) (cu_DeletedAt c)"
    and "x \<in> set db \<Longrightarrow> cu_ID x \<noteq> cu_ID c \<Longrightarrow> x \<in> set db'"
proof -
  let ?c = "changed_custom req c"
  have "custom_inv entries db' \<and> (\<forall>resp. r = Inr resp \<longrightarrow> (\<exists>row \<in> set db'. cu_ID row = cu_ID c \<and> custom_key row = custom_key c
      \<and> cu_DeletedAt row = map_option (ms_column (ee_store env)) (cu_DeletedAt c)))
    \<and> (\<forall>x \<in> set db. cu_ID x \<noteq> cu_ID c \<longrightarrow> x \<in> set db')"
  proof (cases "custom_Update env 2 ?c db")
    case (Inl e)
    then show ?thesis using assms by (auto simp: save_custom_def)
  next
    case (Inr db1)
    then have db': "db' = db1" using assms(1) by (simp add: save_custom_def)
    obtain row where row: "row = custom_row env (?c\<lparr>cu_UpdatedAt := ee_now env\<rparr>)" and db1: "db1 = replace_custom row db"
      using custom_Update_Inr[OF Inr] c(1) by auto
    have "cu_ID row = cu_ID c" "custom_key row = custom_key c"
      "cu_DeletedAt row = map_option (ms_column (ee_store env)) (cu_DeletedAt c)"
      by (simp_all add: row custom_row_def changed_custom_def custom_key_def)
    moreover have "custom_inv entries db1" using custom_Update_inv[OF Inr inv] c by simp
    ultimately show ?thesis
      using replace_custom_set[of row db] c(1) by (auto simp: db' db1)
  qed
  then show "custom_inv entries db'"
    "r = Inr resp \<Longrightarrow> \<exists>row \<in> set db'. cu_ID row = cu_ID c \<and> custom_key row = custom_key c \<and> cu_DeletedAt row = map_option (ms_column (ee_store env)) (cu_DeletedAt c)"
    "x \<in> set db \<Longrightarrow> cu_ID x \<noteq> cu_ID c \<Longrightarrow> x \<in> set db'" by blast+
qed

text \<open>A deletion hides the one row that was read.\<close>

lemma removed_custom:
  assumes "remove_custom env c db = (db', r)" and inv: "custom_inv entries db"
    and c: "c \<in> set db" "active_custom c"
  shows "custom_inv entries db'"
    and "r = Inr u \<Longrightarrow> custom_key c \<notin> custom_key ` set (filter active_custom db')"
    and "r = Inr u \<Longrightarrow> \<exists>row \<in> set db'. cu_ID row = cu_ID c"
    and "x \<in> set db \<Longrightarrow> x \<noteq> c \<Longrightarrow> x \<in> set db'"
    and "x \<in> set db' \<Longrightarrow> active_custom x \<Longrightarrow> x \<in> set db"
proof -
  let ?c = "c\<lparr>cu_DeletedAt := Some (ee_now env)\<rparr>"
  have other: "cu_ID x \<noteq> cu_ID c" if "x \<in> set db" "x \<noteq> c" for x
    using same_row[of cu_ID db x c] inv that c(1) by (auto simp: custom_inv_def)
  have "custom_inv entries db' \<and> (\<forall>u. r = Inr u \<longrightarrow> custom_key c \<notin> custom_key ` set (filter active_custom db') \<and> (\<exists>row \<in> set db'. cu_ID row = cu_ID c))
    \<and> (\<forall>x \<in> set db. x \<noteq> c \<longrightarrow> x \<in> set db') \<and> (\<forall>x \<in> set db'. active_custom x \<longrightarrow> x \<in> set db)"
  proof (cases "custom_Update env 3 ?c db")
    case (Inl e)
    then show ?thesis using assms by (auto simp: remove_custom_def SoftDelete_def)
  next
    case (Inr db1)
    then have db': "db' = db1" using assms(1) by (simp add: remove_custom_def SoftDelete_def)
    obtain row where row: "row = custom_row env (?c\<lparr>cu_UpdatedAt := ee_now env\<rparr>)" and db1: "db1 = replace_custom row db"
      using custom_Update_Inr[OF Inr] c(1) by auto
    have gone: "cu_ID row = cu_ID c" "\<not> active_custom row" by (simp_all add: row custom_row_def active_custom_def)
    then have rows: "set db1 = insert row {x \<in> set db. cu_ID x \<noteq> cu_ID c}"
      using replace_custom_set[of row db] c(1) by (auto simp: db1)
    have "custom_ok entries ?c" using inv c(1) by (auto simp: custom_inv_def custom_ok_def)
    then have "custom_inv entries db1" using custom_Update_inv[OF Inr inv] c(1) by simp
    moreover have "custom_key c \<notin> custom_key ` set (filter active_custom db1)"
      using active_row[OF inv c(1) _ c(2)] gone by (auto simp: rows)
    ultimately show ?thesis using gone other by (auto simp: db' rows)
  qed
  then show "custom_inv entries db'" "r = Inr u \<Longrightarrow> custom_key c \<notin> custom_key ` set (filter active_custom db')"
    "r = Inr u \<Longrightarrow> \<exists>row \<in> set db'. cu_ID row = cu_ID c" "x \<in> set db \<Longrightarrow> x \<noteq> c \<Longrightarrow> x \<in> set db'"
    "x \<in> set db' \<Longrightarrow> active_custom x \<Longrightarrow> x \<in> set db" by blast+
qed

text \<open>Without faults a deletable row is removed: the constraints hold of a deleted row.\<close>

lemma remove_succeeds:
  assumes "custom_inv entries db" and "c \<in> set db" and "de_fault (ee_repo env) 3 = None"
  shows "snd (remove_custom env c db) = Inr ()"
proof -
  have "custom_ok entries c" using assms(1,2) by (simp add: custom_inv_def)
  then have "custom_violation (custom_row env (c\<lparr>cu_DeletedAt := Some t, cu_UpdatedAt := u\<rparr>)) others = None" for t u others
    by (auto simp: custom_violation_None custom_ok_def active_custom_def custom_row_def)
  then show ?thesis
    using assms(3) by (simp add: remove_custom_def SoftDelete_def custom_Update_def statement_def Let_def)
qed

lemma GetByIdentifier_cong:
  assumes "custom_inv entries db" and "custom_inv entries db'" and "de_fault (ee_repo env) n = None"
    and "\<And>c. active_custom c \<Longrightarrow> custom_key c = (org, i) \<Longrightarrow> c \<in> set db' \<longleftrightarrow> c \<in> set db"
  shows "GetByIdentifier env n org i db' = GetByIdentifier env n org i db"
proof -
  note exact = GetByIdentifier_exact[OF assms(1,3)] GetByIdentifier_exact[OF assms(2,3)]
  have missing: "GetByIdentifier env n org i d = Inl ErrRecordNotFound \<or> (\<exists>c. GetByIdentifier env n org i d = Inr c)" for d
    using assms(3) by (auto simp: GetByIdentifier_def statement_def split: option.split)
  show ?thesis
  proof (cases "\<exists>c. GetByIdentifier env n org i db = Inr c")
    case True
    then obtain c where c: "GetByIdentifier env n org i db = Inr c" by blast
    then have "GetByIdentifier env n org i db' = Inr c" using exact assms(4) by metis
    with c show ?thesis by simp
  next
    case False
    then have "\<nexists>c. GetByIdentifier env n org i db' = Inr c" using exact assms(4) by metis
    then show ?thesis using missing[of db] missing[of db'] False by auto
  qed
qed

text \<open>A response does not show the times, so it is the same for a row and for what the table holds of it.\<close>

lemma response_row [simp]: "ToEvaluatorResponse base (custom_row env c) = ToEvaluatorResponse base c"
  by (simp add: ToEvaluatorResponse_def custom_row_def Let_def)

end
