(* ===== verification/EvaluatorRuns.thy ===== *)
theory EvaluatorRuns
  imports EvaluatorLife
begin

text \<open>
  Every operation of the monitor service and of the evaluator service keeps every evaluator of a monitor
  known, so that a run of a monitor finds the descriptions of its evaluators; and a run that names an
  evaluator that is not known does not start.
\<close>

section \<open>Both services\<close>

lemma with_catalog_simps [simp]:
  "ee_catalog (with_catalog entries env) = entries" "ee_store (with_catalog entries env) = ee_store env"
  by simp_all

lemma known_mono: "known_evaluator entries db org i \<Longrightarrow> set db \<subseteq> set db' \<Longrightarrow> known_evaluator entries db' org i"
  by (auto simp: known_evaluator_def)

lemma evaluators_known_kept:
  assumes "evaluators_known entries customs db"
    and "\<And>org es e. (org, es) \<in> evaluated db \<Longrightarrow> e \<in> set es \<Longrightarrow> known_evaluator entries customs org (ev_Identifier e)
      \<Longrightarrow> known_evaluator entries customs' org (ev_Identifier e)"
  shows "evaluators_known entries customs' db"
  using assms unfolding evaluators_known_def by blast

lemma wired_adds:
  assumes "adds_evaluators (wired entries envs customs op) org es" and "e \<in> set es"
  shows "known_evaluator entries customs org (ev_Identifier e)"
  using assms accepted_known[of entries envs org customs es e] by (cases op) (simp_all add: wired_manager_def)

lemma monitors_step:
  assumes "evaluation_inv entries st"
  shows "evaluation_inv entries (evaluation_exec entries (Op_Monitors envs op) st)"
proof -
  let ?op = "wired entries envs (vs_customs st) op"
  have inv: "monitor_inv (mt_db (vs_monitors st))" using assms by (simp add: evaluation_inv_def)
  have "known_evaluator entries (vs_customs st) org (ev_Identifier e)"
    if "(org, es) \<in> evaluated (mt_db (monitor_exec ?op (vs_monitors st)))" "e \<in> set es" for org es e
    using that monitor_exec_evaluated[OF inv, of ?op] wired_adds[of entries envs "vs_customs st" op org es e] assms
    by (fastforce simp: evaluation_inv_def evaluators_known_def)
  then show ?thesis
    using assms monitor_exec_inv(1)[OF inv, of ?op] by (auto simp: evaluation_inv_def evaluators_known_def)
qed

lemma create_step:
  assumes "evaluation_inv entries st"
  shows "evaluation_inv entries (evaluation_exec entries (Op_CreateEvaluator env org req) st)"
proof -
  obtain db r where c: "CreateCustomEvaluator (with_catalog entries env) org req (vs_customs st) = (db, r)" by fastforce
  have "custom_inv entries db" "set (vs_customs st) \<subseteq> set db"
    using Create_custom_inv[OF c] assms by (simp_all add: evaluation_inv_def)
  then show ?thesis
    using assms c evaluators_known_kept[of entries "vs_customs st" _ db] known_mono by (fastforce simp: evaluation_inv_def)
qed

lemma update_step:
  assumes "evaluation_inv entries st"
  shows "evaluation_inv entries (evaluation_exec entries (Op_UpdateEvaluator env org i req) st)"
proof (cases "custom_named (with_catalog entries env) org i (vs_customs st)")
  case (Inl e)
  then show ?thesis using assms by (simp add: UpdateCustomEvaluator_def)
next
  case (Inr c)
  let ?customs = "vs_customs st"
  note c = custom_named_Inr[OF Inr]
  have inv: "custom_inv entries ?customs" using assms by (simp add: evaluation_inv_def)
  have ok: "cu_ID c \<in> cu_ID ` set ?customs" "custom_ok entries c" using c(1) inv by (auto simp: custom_inv_def)
  obtain db r where s: "save_custom (with_catalog entries env) (changed_custom req c) ?customs = (db, r)" by fastforce
  have db: "evaluation_exec entries (Op_UpdateEvaluator env org i req) st = st\<lparr>vs_customs := db\<rparr>"
    using Inr s by (simp add: UpdateCustomEvaluator_def)
  have "known_evaluator entries db org' j" if k: "known_evaluator entries ?customs org' j" for org' j
  proof (cases r)
    case (Inl e)
    then have "db = ?customs" using s by (auto simp: save_custom_def split: sum.splits)
    then show ?thesis using k by simp
  next
    case (Inr resp)
    obtain row where row: "row \<in> set db" "custom_key row = custom_key c" "active_custom row"
      using saved_custom(2)[OF s inv ok Inr] c(2) by (auto simp: active_custom_def)
    have "x \<in> set db" if "x \<in> set ?customs" "x \<noteq> c" for x
      using saved_custom(3)[OF s inv ok that(1)] same_row[of cu_ID ?customs x c] that c(1) inv by (auto simp: custom_inv_def)
    then show ?thesis using k row by (fastforce simp: known_evaluator_def image_iff)
  qed
  then show ?thesis
    unfolding db using assms saved_custom(1)[OF s inv ok] evaluators_known_kept[of entries ?customs _ db] by (fastforce simp: evaluation_inv_def)
qed

text \<open>A deletion that passes its check removes no evaluator that a monitor uses.\<close>

lemma deletable_Inr:
  assumes "deletable env org i mdb db = Inr c"
  shows "custom_named env org i db = Inr c"
    and "(org, es) \<in> evaluated mdb \<Longrightarrow> e \<in> set es \<Longrightarrow> ev_Identifier e \<noteq> i"
proof -
  show "custom_named env org i db = Inr c"
    using assms by (auto simp: deletable_def andThen_Inr split: if_splits)
  have none: "filter (\<lambda>m. mo_OrgName m = org \<and> list_ex (\<lambda>e. ev_Identifier e = i) (mo_Evaluators m)) (md_monitors mdb) = []"
    using assms
    by (auto simp: deletable_def andThen_Inr wrap_error_Inr FindActiveMonitorsByEvaluatorIdentifier_def statement_Inr
        simp del: filter_empty_conv split: if_splits)
  show "(org, es) \<in> evaluated mdb \<Longrightarrow> e \<in> set es \<Longrightarrow> ev_Identifier e \<noteq> i"
    using none by (auto simp: evaluated_def filter_empty_conv list_ex_iff)
qed

lemma delete_step:
  assumes "evaluation_inv entries st"
  shows "evaluation_inv entries (evaluation_exec entries (Op_DeleteEvaluator env org i) st)"
proof (cases "deletable (with_catalog entries env) org i (mt_db (vs_monitors st)) (vs_customs st)")
  case (Inl e)
  then show ?thesis using assms by (simp add: DeleteCustomEvaluator_def)
next
  case (Inr c)
  let ?customs = "vs_customs st"
  note del = deletable_Inr[OF Inr]
  note c = custom_named_Inr[OF del(1)]
  have inv: "custom_inv entries ?customs" using assms by (simp add: evaluation_inv_def)
  obtain db r where s: "remove_custom (with_catalog entries env) c ?customs = (db, r)" by fastforce
  have db: "evaluation_exec entries (Op_DeleteEvaluator env org i) st = st\<lparr>vs_customs := db\<rparr>"
    using Inr s by (simp add: DeleteCustomEvaluator_def)
  note removed = removed_custom[OF s inv c(1,2)]
  have "known_evaluator entries db org' (ev_Identifier e)"
    if used: "(org', es) \<in> evaluated (mt_db (vs_monitors st))" "e \<in> set es"
      and k: "known_evaluator entries ?customs org' (ev_Identifier e)" for org' es e
  proof (cases "catalog_Get entries (ev_Identifier e)")
    case None
    then obtain x where x: "x \<in> set ?customs" "active_custom x" "custom_key x = (org', ev_Identifier e)"
      using k by (auto simp: known_evaluator_def)
    have "x \<noteq> c" using del(2) used c(3) x(3) by auto
    then show ?thesis using removed(4) x by (force simp: known_evaluator_def)
  qed (simp add: known_evaluator_def)
  then show ?thesis
    unfolding db using assms removed(1) evaluators_known_kept[of entries ?customs _ db] by (fastforce simp: evaluation_inv_def)
qed

interpretation evaluation_system: invariant_system "evaluation_exec entries" "evaluation_inv entries" for entries
proof
  fix st op
  assume "evaluation_inv entries st"
  then show "evaluation_inv entries (evaluation_exec entries op st)"
    using monitors_step create_step update_step delete_step by (cases op) blast+
qed

lemma no_evaluations_inv: "evaluation_inv entries (no_evaluations proxies)"
  using no_monitors_inv[of proxies]
  by (simp add: evaluation_inv_def no_evaluations_def custom_inv_def evaluators_known_def evaluated_def no_monitors_def)

section \<open>The evaluators of a run\<close>

text \<open>The documented shape of the catalog: a built-in LLM judge has a prompt template.\<close>

definition judges_have_prompts :: "Entry list \<Rightarrow> bool" where
  "judges_have_prompts entries \<longleftrightarrow> (\<forall>e \<in> set entries. en_Type e = ''llm_judge'' \<longrightarrow> en_Source e \<noteq> [])"

text \<open>What the executor hands on: the custom evaluators of a list, and the descriptions of all.\<close>

definition resolved ::
  "Entry list \<Rightarrow> evaluator_env \<Rightarrow> string \<Rightarrow> CustomEvaluator list \<Rightarrow> string \<Rightarrow> MonitorEvaluator list \<Rightarrow>
   deploy_error + (evalJobEvaluator list \<times> bool)" where
  "resolved entries env org customs templateHandle es =
     andThen (ResolveCustomEvaluators env org (filter (\<lambda>i. catalog_Get entries i = None) (map ev_Identifier es)) customs)
       (\<lambda>cs. job_evaluators entries cs templateHandle es)"

lemma Resolve_Inr:
  assumes "ResolveCustomEvaluators env org is db = Inr cs"
  shows "set cs = {c \<in> set db. active_custom c \<and> cu_OrgName c = org \<and> cu_Identifier c \<in> set is}"
  using assms by (auto simp: ResolveCustomEvaluators_def GetByIdentifiers_def statement_Inr split: if_splits)

lemma Resolve_total:
  "de_fault (ee_repo env) 1 = None \<Longrightarrow> \<exists>cs. ResolveCustomEvaluators env org is db = Inr cs"
  by (simp add: ResolveCustomEvaluators_def GetByIdentifiers_def statement_def)

lemma job_evaluator_Inr:
  assumes "judges_have_prompts entries"
    and "e \<in> E" "known_evaluator entries db org (ev_Identifier e)"
    and cs: "set cs = {c \<in> set db. active_custom c \<and> cu_OrgName c = org
        \<and> cu_Identifier c \<in> {i \<in> ev_Identifier ` E. catalog_Get entries i = None}}"
  shows "\<exists>r. job_evaluator entries cs t e = Inr r"
proof (cases "find (\<lambda>c. cu_Identifier c = ev_Identifier e) (rev cs)")
  case (Some c)
  then show ?thesis by (simp add: job_evaluator_def)
next
  case None
  then have absent: "cu_Identifier c \<noteq> ev_Identifier e" if "c \<in> set cs" for c
    using that by (auto simp: find_None_iff)
  have "catalog_Get entries (ev_Identifier e) \<noteq> None"
  proof
    assume missing: "catalog_Get entries (ev_Identifier e) = None"
    then obtain c where "c \<in> set db" "active_custom c" "cu_OrgName c = org" "cu_Identifier c = ev_Identifier e"
      using assms(3) by (auto simp: known_evaluator_def custom_key_def)
    then have "c \<in> set cs" using cs missing assms(2) by auto
    then show False using absent \<open>cu_Identifier c = ev_Identifier e\<close> by blast
  qed
  then obtain entry where entry: "catalog_Get entries (ev_Identifier e) = Some entry" by blast
  then have "entry \<in> set entries" by (auto simp: catalog_Get_def find_Some_iff)
  then show ?thesis using None entry assms(1) by (auto simp: job_evaluator_def judges_have_prompts_def Let_def)
qed

lemma job_evaluators_Inr:
  "(\<And>e. e \<in> set es \<Longrightarrow> \<exists>r. job_evaluator entries cs t e = Inr r) \<Longrightarrow> \<exists>r. job_evaluators entries cs t es = Inr r"
proof (induction es)
  case (Cons e es)
  obtain je judge where "job_evaluator entries cs t e = Inr (je, judge)" using Cons.prems by fastforce
  moreover obtain jes judges where "job_evaluators entries cs t es = Inr (jes, judges)" using Cons by fastforce
  ultimately show ?case by auto
qed auto

lemma known_resolve:
  assumes "judges_have_prompts entries" and "de_fault (ee_repo env) 1 = None"
    and "\<And>e. e \<in> set es \<Longrightarrow> known_evaluator entries db org (ev_Identifier e)"
  shows "\<exists>r. resolved entries env org db t es = Inr r"
proof -
  obtain cs where cs: "ResolveCustomEvaluators env org (filter (\<lambda>i. catalog_Get entries i = None) (map ev_Identifier es)) db = Inr cs"
    using Resolve_total[OF assms(2)] by blast
  have "set cs = {c \<in> set db. active_custom c \<and> cu_OrgName c = org
      \<and> cu_Identifier c \<in> {i \<in> ev_Identifier ` set es. catalog_Get entries i = None}}"
    using Resolve_Inr[OF cs] by auto
  then have "\<exists>r. job_evaluators entries cs t es = Inr r"
    using job_evaluator_Inr[OF assms(1)] assms(3) by (intro job_evaluators_Inr) blast
  then show ?thesis using cs by (simp add: resolved_def)
qed

text \<open>An evaluator that is not known stops the run.\<close>

lemma unknown_stops:
  assumes "e \<in> set es" and "\<not> known_evaluator entries db org (ev_Identifier e)"
  shows "\<exists>err. resolved entries env org db t es = Inl err"
proof (cases "ResolveCustomEvaluators env org (filter (\<lambda>i. catalog_Get entries i = None) (map ev_Identifier es)) db")
  case (Inr cs)
  have "\<forall>c \<in> set (rev cs). cu_Identifier c \<noteq> ev_Identifier e"
    using Resolve_Inr[OF Inr] assms(2) by (auto simp: known_evaluator_def custom_key_def)
  then have "find (\<lambda>c. cu_Identifier c = ev_Identifier e) (rev cs) = None" by (auto simp: find_None_iff)
  then have stop: "\<exists>err. job_evaluator entries cs t e = Inl err"
    using assms(2) by (simp add: job_evaluator_def known_evaluator_def)
  have "\<exists>err. job_evaluators entries cs t xs = Inl err" if "e \<in> set xs" for xs
    using that
  proof (induction xs)
    case (Cons x xs)
    then show ?case using stop by (cases "job_evaluator entries cs t x") fastforce+
  qed simp
  then show ?thesis using assms(1) Inr by (auto simp: resolved_def)
qed (simp add: resolved_def)

text \<open>So the only way to fail for the list of a job is a value that JSON cannot express.\<close>

lemma serialize_resolved:
  "serializeEvaluators entries (\<lambda>is. ResolveCustomEvaluators env org is db) es t =
     (case ResolveCustomEvaluators env org (filter (\<lambda>i. catalog_Get entries i = None) (map ev_Identifier es)) db of
        Inl e \<Rightarrow> Inl (Wrapf ''failed to resolve custom evaluators: %w'' [] e)
      | Inr cs \<Rightarrow> andThen (job_evaluators entries cs t es)
          (\<lambda>(jes, judge). case seq_options (map json_job_evaluator jes) of
             None \<Rightarrow> Inl (Errorf ''failed to serialize evaluators: %w'' []) | Some ts \<Rightarrow> Inr (json_list ts, judge)))"
  by (simp add: serializeEvaluators_def Let_def ResolveCustomEvaluators_def wrap_error_def split: sum.split)

lemma known_serialize:
  assumes "judges_have_prompts entries" and "de_fault (ee_repo env) 1 = None"
    and "\<And>e. e \<in> set es \<Longrightarrow> known_evaluator entries db org (ev_Identifier e)"
  shows "serializeEvaluators entries (\<lambda>is. ResolveCustomEvaluators env org is db) es t
       = Inl (Errorf ''failed to serialize evaluators: %w'' [])
    \<or> (\<exists>r. serializeEvaluators entries (\<lambda>is. ResolveCustomEvaluators env org is db) es t = Inr r)"
proof -
  obtain jes judge where "resolved entries env org db t es = Inr (jes, judge)"
    using known_resolve[OF assms] by fastforce
  then show ?thesis
    by (cases "seq_options (map json_job_evaluator jes)")
      (auto simp: serialize_resolved resolved_def andThen_Inr)
qed

lemma unknown_serialize:
  assumes "e \<in> set es" and "\<not> known_evaluator entries db org (ev_Identifier e)"
  shows "\<exists>err. serializeEvaluators entries (\<lambda>is. ResolveCustomEvaluators env org is db) es t = Inl err"
proof -
  obtain err where err: "resolved entries env org db t es = Inl err" using unknown_stops[OF assms] by blast
  then show ?thesis
    by (cases "ResolveCustomEvaluators env org (filter (\<lambda>i. catalog_Get entries i = None) (map ev_Identifier es)) db")
      (auto simp: serialize_resolved resolved_def)
qed

section \<open>Deleting\<close>

lemma custom_named_found:
  assumes "custom_inv entries db" and "de_fault (ee_repo env) 1 = None"
    and "c \<in> set db" "active_custom c" "custom_key c = (org, i)"
  shows "custom_named env org i db = Inr c"
  using GetByIdentifier_exact[OF assms(1,2), of org i c] assms(3-5) by (simp add: custom_named_def)

lemma custom_named_missing:
  assumes "de_fault (ee_repo env) 1 = None" and "\<And>c. c \<in> set db \<Longrightarrow> active_custom c \<Longrightarrow> custom_key c \<noteq> (org, i)"
  shows "custom_named env org i db = Inl ErrCustomEvaluatorNotFound"
proof -
  have "find (\<lambda>c. custom_key c = (org, i) \<and> active_custom c) db = None" using assms(2) by (auto simp: find_None_iff)
  then show ?thesis using assms(1) by (simp add: custom_named_def GetByIdentifier_def statement_def)
qed

definition used_by :: "string \<Rightarrow> string \<Rightarrow> monitor_db \<Rightarrow> bool" where
  "used_by org i mdb \<longleftrightarrow> (\<exists>m \<in> set (md_monitors mdb). mo_OrgName m = org \<and> i \<in> ev_Identifier ` set (mo_Evaluators m))"

lemma deletable_result:
  assumes "custom_named env org i db = Inr c" and "de_fault (ee_repo env) 2 = None"
  shows "deletable env org i mdb db = (if used_by org i mdb then Inl ErrCustomEvaluatorInUse else Inr c)"
proof -
  let ?ms = "filter (\<lambda>m. mo_OrgName m = org \<and> list_ex (\<lambda>e. ev_Identifier e = i) (mo_Evaluators m)) (md_monitors mdb)"
  have "?ms \<noteq> [] \<longleftrightarrow> used_by org i mdb"
    by (auto simp: used_by_def filter_empty_conv list_ex_iff)
  then show ?thesis
    using assms by (simp add: deletable_def FindActiveMonitorsByEvaluatorIdentifier_def statement_def wrap_error_def
        del: filter_empty_conv)
qed

text \<open>
  The answer to a deletion, from the three statements it makes: the lookup of the row, the search for
  monitors that use it, and the write that marks it. A statement that fails is a wrapped error.
\<close>

definition has_custom :: "CustomEvaluator list \<Rightarrow> string \<Rightarrow> string \<Rightarrow> bool" where
  "has_custom db org i \<longleftrightarrow> (\<exists>c \<in> set db. active_custom c \<and> custom_key c = (org, i))"

definition deletion_answer ::
  "deploy_env \<Rightarrow> string \<Rightarrow> string \<Rightarrow> monitor_db \<Rightarrow> CustomEvaluator list \<Rightarrow> deploy_error + unit" where
  "deletion_answer repo org i mdb db =
     (case de_fault repo 1 of
        Some f \<Rightarrow> Inl (Wrapf ''failed to get custom evaluator: %w'' [] (Database f))
      | None \<Rightarrow>
          if \<not> has_custom db org i then Inl ErrCustomEvaluatorNotFound
          else (case de_fault repo 2 of
              Some f \<Rightarrow> Inl (Wrapf ''failed to check evaluator usage: %w'' [] (Database f))
            | None \<Rightarrow>
                if used_by org i mdb then Inl ErrCustomEvaluatorInUse
                else (case de_fault repo 3 of
                    Some f \<Rightarrow> Inl (Wrapf ''failed to delete custom evaluator: %w'' [] (Database f))
                  | None \<Rightarrow> Inr ())))"

lemma failing_statements:
  "de_fault (ee_repo env) 1 = Some f \<Longrightarrow>
     custom_named env org i db = Inl (Wrapf ''failed to get custom evaluator: %w'' [] (Database f))"
  "custom_named env org i db = Inr c \<Longrightarrow> de_fault (ee_repo env) 2 = Some f \<Longrightarrow>
     deletable env org i mdb db = Inl (Wrapf ''failed to check evaluator usage: %w'' [] (Database f))"
  "de_fault (ee_repo env) 3 = Some f \<Longrightarrow>
     remove_custom env c db = (db, Inl (Wrapf ''failed to delete custom evaluator: %w'' [] (Database f)))"
  by (simp_all add: custom_named_def GetByIdentifier_def deletable_def FindActiveMonitorsByEvaluatorIdentifier_def
      remove_custom_def SoftDelete_def custom_Update_def statement_def Let_def)

lemma delete_result:
  assumes inv: "custom_inv entries db" and res: "DeleteCustomEvaluator env org i mdb db = (db', r)"
  shows "r = deletion_answer (ee_repo env) org i mdb db"
    and "r \<noteq> Inr () \<Longrightarrow> db' = db"
    and "r = Inr () \<Longrightarrow> \<exists>c \<in> set db. active_custom c \<and> custom_key c = (org, i) \<and> remove_custom env c db = (db', Inr ())"
proof -
  have "r = deletion_answer (ee_repo env) org i mdb db \<and> (r \<noteq> Inr () \<longrightarrow> db' = db)
    \<and> (r = Inr () \<longrightarrow> (\<exists>c \<in> set db. active_custom c \<and> custom_key c = (org, i) \<and> remove_custom env c db = (db', Inr ())))"
  proof (cases "de_fault (ee_repo env) 1")
    case (Some f)
    then show ?thesis
      using res failing_statements(1)[OF Some] by (auto simp: DeleteCustomEvaluator_def deletable_def deletion_answer_def)
  next
    case one: None
    show ?thesis
    proof (cases "has_custom db org i")
      case False
      then have "custom_named env org i db = Inl ErrCustomEvaluatorNotFound"
        by (intro custom_named_missing[OF one]) (auto simp: has_custom_def)
      then show ?thesis
        using res one False by (auto simp: DeleteCustomEvaluator_def deletable_def deletion_answer_def)
    next
      case True
      then obtain c where c: "c \<in> set db" "active_custom c" "custom_key c = (org, i)" by (auto simp: has_custom_def)
      note named = custom_named_found[OF inv one c]
      show ?thesis
      proof (cases "de_fault (ee_repo env) 2")
        case (Some f)
        then show ?thesis
          using res one True failing_statements(2)[OF named Some] by (auto simp: DeleteCustomEvaluator_def deletion_answer_def)
      next
        case two: None
        note del = deletable_result[OF named two, of mdb]
        show ?thesis
        proof (cases "used_by org i mdb \<or> de_fault (ee_repo env) 3 \<noteq> None")
          case True
          then show ?thesis
            using res one two \<open>has_custom db org i\<close> del failing_statements(3)[of env _ c db]
            by (auto simp: DeleteCustomEvaluator_def deletion_answer_def)
        next
          case False
          then have rem: "remove_custom env c db = (db', r)" using res del by (simp add: DeleteCustomEvaluator_def)
          moreover have "r = Inr ()" using remove_succeeds[OF inv c(1), of env] False rem by simp
          ultimately show ?thesis using c one two False \<open>has_custom db org i\<close> by (auto simp: deletion_answer_def)
        qed
      qed
    qed
  qed
  then show "r = deletion_answer (ee_repo env) org i mdb db" "r \<noteq> Inr () \<Longrightarrow> db' = db"
    "r = Inr () \<Longrightarrow> \<exists>c \<in> set db. active_custom c \<and> custom_key c = (org, i) \<and> remove_custom env c db = (db', Inr ())"
    by blast+
qed

text \<open>What later lookups see.\<close>

lemma custom_named_removed:
  assumes inv: "custom_inv entries db" and c: "c \<in> set db" "active_custom c" "custom_key c = (org, i)"
    and rem: "remove_custom env c db = (db', Inr ())" and up: "de_fault (ee_repo env') 1 = None"
  shows "custom_named env' org' j db' = (if (org', j) = (org, i) then Inl ErrCustomEvaluatorNotFound else custom_named env' org' j db)"
proof -
  note removed = removed_custom[OF rem inv c(1,2)]
  have "custom_named env' org i db' = Inl ErrCustomEvaluatorNotFound"
    using removed(2)[OF refl] c(3) by (intro custom_named_missing[OF up]) (auto simp: image_iff)
  moreover have "custom_named env' org' j db' = custom_named env' org' j db" if other: "(org', j) \<noteq> (org, i)"
  proof -
    have "x \<in> set db' \<longleftrightarrow> x \<in> set db" if x: "active_custom x" "custom_key x = (org', j)" for x
    proof -
      have "x \<noteq> c" using other x(2) c(3) by auto
      then show ?thesis using x(1) removed(4,5)[of x] by blast
    qed
    then have "GetByIdentifier env' 1 org' j db' = GetByIdentifier env' 1 org' j db"
      by (intro GetByIdentifier_cong[OF inv removed(1) up]) blast
    then show ?thesis unfolding custom_named_def by (rule arg_cong)
  qed
  ultimately show ?thesis by auto
qed

section \<open>Overlapping requests\<close>

text \<open>
  A deletion between the two halves of an update: the update writes the row back as it had read it, with no
  time of deletion, and the evaluator is there again.
\<close>

lemma update_revives:
  assumes inv: "custom_inv entries db" and named: "custom_named env org i db = Inr c"
    and rem: "DeleteCustomEvaluator env1 org i mdb db = (db1, Inr ())"
    and save: "save_custom env2 (changed_custom req c) db1 = (db2, Inr r)" and up: "de_fault (ee_repo env3) 1 = None"
  shows "custom_named env3 org i db1 = Inl ErrCustomEvaluatorNotFound"
    and "\<exists>c'. custom_named env3 org i db2 = Inr c' \<and> cu_ID c' = cu_ID c"
proof -
  note c = custom_named_Inr[OF named]
  obtain d where del: "deletable env1 org i mdb db = Inr d" and rem': "remove_custom env1 d db = (db1, Inr ())"
    using rem by (auto simp: DeleteCustomEvaluator_def split: sum.splits)
  note d = custom_named_Inr[OF deletable_Inr(1)[OF del]]
  have "d = c" using active_row[OF inv d(1) c(1)] d c by simp
  then have rem'': "remove_custom env1 c db = (db1, Inr ())" using rem' by simp
  note removed = removed_custom[OF rem'' inv c(1,2)]
  show "custom_named env3 org i db1 = Inl ErrCustomEvaluatorNotFound"
    using custom_named_removed[OF inv c rem'' up, of org i] by simp
  have ok: "cu_ID c \<in> cu_ID ` set db1" "custom_ok entries c"
    using removed(3)[OF refl] inv c(1) by (metis imageI, simp add: custom_inv_def)
  obtain row where row: "row \<in> set db2" "cu_ID row = cu_ID c" "custom_key row = custom_key c" "active_custom row"
    using saved_custom(2)[OF save removed(1) ok refl] c(2) by (auto simp: active_custom_def)
  have "custom_named env3 org i db2 = Inr row"
    using row c(3) by (intro custom_named_found[OF saved_custom(1)[OF save removed(1) ok] up]) simp_all
  then show "\<exists>c'. custom_named env3 org i db2 = Inr c' \<and> cu_ID c' = cu_ID c" using row(2) by blast
qed

text \<open>
  A monitor that gets the evaluator between the check of a deletion and its write is left with an evaluator
  that is gone.
\<close>

lemma late_use_is_lost:
  assumes inv: "custom_inv entries db" and del: "deletable env org i mdb db = Inr c"
    and rem: "remove_custom env c db = (db', Inr ())"
    and use: "e \<in> set es" "ev_Identifier e = i"
  shows "\<exists>err. serializeEvaluators entries (\<lambda>is. ResolveCustomEvaluators env' org is db') es t = Inl err"
proof -
  note c = custom_named_Inr[OF deletable_Inr(1)[OF del]]
  have "catalog_Get entries i = None" using inv c(1,3) by (auto simp: custom_inv_def custom_ok_def custom_key_def)
  moreover have "(org, i) \<notin> custom_key ` set (filter active_custom db')"
    using removed_custom(2)[OF rem inv c(1,2) refl] c(3) by simp
  ultimately have "\<not> known_evaluator entries db' org (ev_Identifier e)" by (simp add: known_evaluator_def use(2))
  then show ?thesis by (rule unknown_serialize[OF use(1)])
qed

end
