(* ===== verification/MonitorSchedule.thy ===== *)
theory MonitorSchedule
  imports MonitorLife
begin

text \<open>
  The windows of a scheduled monitor over time: what a cycle does to the schedule of one monitor and to
  the windows of its runs, and that no other operation touches them.
\<close>

section \<open>Times\<close>

text \<open>
  A time column keeps whole microseconds, so storing a time twice is storing it once, whole minutes pass
  through, and a later time is stored as a later or equal one.
\<close>

definition column_laws :: "(int \<Rightarrow> int) \<Rightarrow> bool" where
  "column_laws col \<longleftrightarrow> (\<forall>t. col (col t) = col t) \<and> (\<forall>t k. col (t + k * minute_ns) = col t + k * minute_ns)
     \<and> mono col"

definition micro :: "int \<Rightarrow> int" where
  "micro t = t div 1000 * 1000"

lemma micro_laws: "column_laws micro"
proof -
  have "(t + k * minute_ns) div 1000 = t div 1000 + k * 60000000" for t k
  proof -
    have "t + k * minute_ns = t + (k * 60000000) * 1000" by (simp add: minute_ns_def)
    then show ?thesis by (metis div_mult_self1 zero_neq_numeral add.commute)
  qed
  then show ?thesis by (auto simp: column_laws_def micro_def mono_def minute_ns_def zdiv_mono1)
qed

text \<open>The column of an interval has 32 bits; up to this bound an interval in nanoseconds fits 64.\<close>

definition max_minutes :: int where "max_minutes = 100000000"

lemma interval_exact: "0 \<le> n \<Longrightarrow> n \<le> max_minutes \<Longrightarrow> interval_of n = n * minute_ns"
  by (simp add: interval_of_def max_minutes_def minute_ns_def wrap64_id in_int64_def min_int64_def max_int64_def)

section \<open>The schedule of one monitor\<close>

definition scheduled :: "uuid \<Rightarrow> string \<times> string \<times> string \<times> string \<Rightarrow> int \<Rightarrow> int \<Rightarrow> monitor_db \<Rightarrow> bool" where
  "scheduled i sc minutes due db \<longleftrightarrow>
     (\<exists>m \<in> set (md_monitors db). mo_ID m = i \<and> monitor_scope m = sc \<and> mo_Type m = MonitorTypeFuture
        \<and> mo_IntervalMinutes m = Some minutes \<and> mo_NextRunTime m = Some due)"

text \<open>The windows of the runs of a monitor, in the order in which the runs were created.\<close>

definition windows_of :: "uuid \<Rightarrow> monitor_db \<Rightarrow> (int \<times> int) list" where
  "windows_of i db = map (\<lambda>r. (mr_TraceStart r, mr_TraceEnd r)) (runs_of i db)"

lemma windows_same: "md_runs db' = md_runs db \<Longrightarrow> windows_of i db' = windows_of i db"
  by (simp add: windows_of_def runs_of_def)

lemma windows_added:
  "md_runs db' = md_runs db @ [r] \<Longrightarrow>
   windows_of i db' = windows_of i db @ (if mr_MonitorID r = i then [(mr_TraceStart r, mr_TraceEnd r)] else [])"
  by (simp add: windows_of_def runs_of_def)

lemma set_run_windows:
  assumes "monitor_inv db" and "r \<in> set (md_runs db)" and "run_step r r'"
  shows "windows_of i (set_run r' db) = windows_of i db"
proof -
  have key: "mr_ID r' = mr_ID r" "mr_MonitorID r' = mr_MonitorID r" "mr_TraceStart r' = mr_TraceStart r"
    "mr_TraceEnd r' = mr_TraceEnd r" using run_step_key assms(3) by blast+
  have only: "q = r" if "q \<in> set (md_runs db)" "mr_ID q = mr_ID r" for q
    using same_row[OF inv_distinct(3)[OF assms(1)]] that assms(2) by blast
  show ?thesis unfolding windows_of_def runs_of_def set_run_def
    by (simp add: filter_map o_def key, rule map_cong[OF filter_cong]) (auto simp: key dest: only)
qed

text \<open>Another monitor being triggered.\<close>

lemma trigger_other:
  fixes env k st
  assumes "mo_ID x \<noteq> i"
  defines "st' \<equiv> fst (triggerMonitor env k x st)"
  shows "windows_of i (mt_db st') = windows_of i (mt_db st)"
    and "m \<in> set (md_monitors (mt_db st)) \<Longrightarrow> mo_ID m = i \<Longrightarrow> m \<in> set (md_monitors (mt_db st'))"
proof -
  obtain r where t: "triggerMonitor env k x st = (st', r)" using st'_def by (metis prod.collapse)
  have "windows_of i (mt_db st') = windows_of i (mt_db st)
    \<and> (m \<in> set (md_monitors (mt_db st)) \<longrightarrow> mo_ID m = i \<longrightarrow> m \<in> set (md_monitors (mt_db st')))"
    using t
  proof (cases rule: trigger_cases)
    case (nothing err)
    then show ?thesis by simp
  next
    case (ran minutes due name db)
    have "md_runs (mt_db st') = md_runs (mt_db st) @ [scheduled_run env k x name minutes due]"
      using ran(5,6) by (auto split: if_splits)
    then have "windows_of i (mt_db st') = windows_of i (mt_db st)" using assms(1) by (simp add: windows_added)
    then show ?thesis using assms(1) ran(5,6) by (auto split: if_splits simp: image_iff)
  qed
  then show "windows_of i (mt_db st') = windows_of i (mt_db st)"
    and "m \<in> set (md_monitors (mt_db st)) \<Longrightarrow> mo_ID m = i \<Longrightarrow> m \<in> set (md_monitors (mt_db st'))" by blast+
qed

lemma trigger_each_other:
  "i \<notin> mo_ID ` set ms \<Longrightarrow> windows_of i (mt_db (trigger_each env k ms st)) = windows_of i (mt_db st)
    \<and> (\<forall>m \<in> set (md_monitors (mt_db st)). mo_ID m = i \<longrightarrow> m \<in> set (md_monitors (mt_db (trigger_each env k ms st))))"
proof (induction ms arbitrary: k st)
  case (Cons x ms)
  then show ?case using trigger_other[where x = x and i = i and env = env and k = k and st = st] by auto
qed simp

lemma trigger_each_append:
  "trigger_each env k (xs @ ys) st = trigger_each env (k + length xs) ys (trigger_each env k xs st)"
  by (induction xs arbitrary: k st) simp_all

text \<open>A monitor being triggered itself: nothing, or one run from the old time and the next time after it.\<close>

lemma trigger_self:
  fixes env k st
  assumes "m \<in> set (md_monitors (mt_db st))" and "mo_ID m = i" "monitor_scope m = sc" "mo_Type m = MonitorTypeFuture"
    and "mo_IntervalMinutes m = Some minutes" "mo_NextRunTime m = Some due" and "0 \<le> minutes" "minutes \<le> max_minutes"
    and "ms_column (xe_store (sc_exec env k)) = col" and "column_laws col" and "col due = due"
    and "de_fault (ms_repo (xe_store (sc_exec env k))) 5 = None"
    and "scheduled i sc minutes due (mt_db st)"
  defines "st' \<equiv> fst (triggerMonitor env k m st)"
  defines "e \<equiv> col (sc_triggered env k - safety_delta minutes)"
  shows "windows_of i (mt_db st') = windows_of i (mt_db st) \<and> scheduled i sc minutes due (mt_db st')
    \<or> windows_of i (mt_db st') = windows_of i (mt_db st) @ [(due - minutes * minute_ns, e)]
      \<and> scheduled i sc minutes (e + minutes * minute_ns) (mt_db st')"
proof -
  obtain r where t: "triggerMonitor env k m st = (st', r)" using st'_def by (metis prod.collapse)
  show ?thesis using t
  proof (cases rule: trigger_cases)
    case (nothing err)
    then show ?thesis using assms(13) by simp
  next
    case (ran minutes' due' name db)
    have eq: "minutes' = minutes" "due' = due" using ran(1,2) assms(5,6) by simp_all
    note int = interval_exact[OF assms(7,8)]
    have shift: "col (t + minutes * minute_ns) = col t + minutes * minute_ns"
      "col (t - minutes * minute_ns) = col t - minutes * minute_ns" for t
      using assms(10) unfolding column_laws_def by (metis, metis add_uminus_conv_diff minus_mult_left)
    have runs: "md_runs (mt_db st') = md_runs (mt_db st) @ [scheduled_run env k m name minutes due]"
      and mons: "md_monitors (mt_db st') = map (\<lambda>x. if mo_ID x = i then rescheduled env k minutes x else x)
         (md_monitors (mt_db st))"
      using ran(5,6) assms(2,12) eq by simp_all
    have "windows_of i (mt_db st') = windows_of i (mt_db st) @ [(due - minutes * minute_ns, e)]"
      using windows_added[OF runs, of i] assms(2,9,11) shift(2)[of due]
      by (simp add: scheduled_run_def int e_def)
    moreover have "mo_NextRunTime (rescheduled env k minutes m) = Some (e + minutes * minute_ns)"
      using shift(1) by (simp add: rescheduled_def int assms(9) e_def)
    then have "scheduled i sc minutes (e + minutes * minute_ns) (mt_db st')"
      unfolding scheduled_def mons using assms(1-5)
      by (intro bexI[of _ "rescheduled env k minutes m"]) (auto simp: image_iff)
    ultimately show ?thesis by blast
  qed
qed

section \<open>A cycle\<close>

lemma sync_each_windows:
  assumes "monitor_inv db" and "distinct (map mr_ID rs)" and "\<forall>r \<in> set rs. r \<in> set (md_runs db) \<and> run_open r"
  shows "windows_of i (sync_each env k rs db) = windows_of i db"
  using assms
proof (induction rs arbitrary: k db)
  case (Cons r rs)
  obtain db1 res where one: "syncSingleRunStatus env k r db = (db1, res)" by fastforce
  have r: "r \<in> set (md_runs db)" "run_open r" using Cons.prems(3) by auto
  have db1: "monitor_inv db1 \<and> windows_of i db1 = windows_of i db
    \<and> (\<forall>q \<in> set (md_runs db). mr_ID q \<noteq> mr_ID r \<longrightarrow> q \<in> set (md_runs db1))"
    using one Cons.prems(1) r
    by (cases rule: sync_cases) (auto intro: set_run_inv[OF Cons.prems(1) r(1)] set_run_windows[OF Cons.prems(1) r(1)]
      Cons.prems(1))
  have "mr_ID q \<noteq> mr_ID r" if "q \<in> set rs" for q using that Cons.prems(2) by (auto simp: image_iff)
  then have "\<forall>q \<in> set rs. q \<in> set (md_runs db1) \<and> run_open q" using db1 Cons.prems(3) by simp
  then show ?case using Cons.IH[of db1 "Suc k"] db1 Cons.prems(2) one by simp
qed simp

lemma syncRunStatus_windows:
  assumes "monitor_inv db" shows "windows_of i (fst (syncRunStatus env db)) = windows_of i db"
proof (cases "ListPendingOrRunningRuns (sc_store env) 6 100 db")
  case (Inr rs)
  then show ?thesis using sync_each_windows[OF assms open_runs_listed[OF Inr assms]] by (simp add: syncRunStatus_def)
qed (simp add: syncRunStatus_def)

text \<open>What is fixed of a cycle: the column, and that the last statement of a trigger works.\<close>

definition cycle_column :: "(int \<Rightarrow> int) \<Rightarrow> cycle_env \<Rightarrow> bool" where
  "cycle_column col env \<longleftrightarrow> ms_column (sc_store env) = col \<and> (\<forall>k. ms_column (xe_store (sc_exec env k)) = col)"

definition reschedules :: "cycle_env \<Rightarrow> bool" where
  "reschedules env \<longleftrightarrow> (\<forall>k. de_fault (ms_repo (xe_store (sc_exec env k))) 5 = None)"

lemma split_due:
  assumes "distinct (map f ms)" and "m \<in> set ms"
  obtains xs ys where "ms = xs @ m # ys" "f m \<notin> f ` set xs" "f m \<notin> f ` set ys"
proof -
  obtain xs ys where "ms = xs @ m # ys" using assms(2) by (meson split_list)
  moreover from this have "f m \<notin> f ` set xs" "f m \<notin> f ` set ys" using assms(1) by auto
  ultimately show ?thesis using that by blast
qed

text \<open>
  One cycle gives a monitor at most one run; its window begins at the old time less the interval and
  the new time is its end plus the interval.
\<close>

lemma cycle_windows:
  assumes inv: "monitor_inv (mt_db st)" and sched: "scheduled i sc minutes due (mt_db st)"
    and min: "0 \<le> minutes" "minutes \<le> max_minutes" and col: "column_laws col" "cycle_column col env" "col due = due"
    and works: "reschedules env"
  defines "db' \<equiv> mt_db (runSchedulerCycle env st)"
  shows "windows_of i db' = windows_of i (mt_db st) \<and> scheduled i sc minutes due db'
    \<or> (\<exists>e. col e = e \<and> windows_of i db' = windows_of i (mt_db st) @ [(due - minutes * minute_ns, e)]
      \<and> scheduled i sc minutes (e + minutes * minute_ns) db')"
proof -
  define st1 where "st1 = fst (triggerPendingMonitors env st)"
  have inv1: "monitor_inv (mt_db st1)" using triggerPending_inv[OF inv] by (simp add: st1_def)
  have main: "windows_of i (mt_db st1) = windows_of i (mt_db st) \<and> scheduled i sc minutes due (mt_db st1)
    \<or> (\<exists>e. col e = e \<and> windows_of i (mt_db st1) = windows_of i (mt_db st) @ [(due - minutes * minute_ns, e)]
      \<and> scheduled i sc minutes (e + minutes * minute_ns) (mt_db st1))"
  proof (cases "ListDueMonitors (sc_store env) 1 MonitorTypeFuture (sc_now env) (mt_db st)")
    case (Inl err)
    then show ?thesis using sched by (simp add: st1_def triggerPendingMonitors_def)
  next
    case (Inr ms)
    have st1: "st1 = trigger_each env 0 ms st" using Inr by (simp add: st1_def triggerPendingMonitors_def)
    have ms: "set ms \<subseteq> set (md_monitors (mt_db st))" "distinct (map mo_ID ms)"
      using due_monitors[OF Inr] inv_distinct(1)[OF inv] by (auto simp: distinct_map_filter)
    obtain m where m: "m \<in> set (md_monitors (mt_db st))" "mo_ID m = i" "monitor_scope m = sc"
        "mo_Type m = MonitorTypeFuture" "mo_IntervalMinutes m = Some minutes" "mo_NextRunTime m = Some due"
      using sched by (auto simp: scheduled_def)
    show ?thesis
    proof (cases "i \<in> mo_ID ` set ms")
      case False
      then show ?thesis using trigger_each_other[OF False, of env 0 st] m sched unfolding st1 scheduled_def by metis
    next
      case True
      then have "m \<in> set ms" using m(1,2) ms(1) same_row[OF inv_distinct(1)[OF inv]] by blast
      then obtain xs ys where split: "ms = xs @ m # ys" "i \<notin> mo_ID ` set xs" "i \<notin> mo_ID ` set ys"
        using split_due[OF ms(2)] m(2) by metis
      define sta where "sta = trigger_each env 0 xs st"
      define stb where "stb = fst (triggerMonitor env (length xs) m sta)"
      have st1': "st1 = trigger_each env (Suc (length xs)) ys stb"
        by (simp add: st1 split(1) trigger_each_append sta_def stb_def)
      note a = trigger_each_other[OF split(2), of env 0 st, folded sta_def]
      note b = trigger_each_other[OF split(3), of env "Suc (length xs)" stb, folded st1']
      have "m \<in> set (md_monitors (mt_db sta))" using a m by blast
      moreover have "scheduled i sc minutes due (mt_db sta)" using calculation m by (auto simp: scheduled_def)
      moreover have "ms_column (xe_store (sc_exec env (length xs))) = col"
        "de_fault (ms_repo (xe_store (sc_exec env (length xs)))) 5 = None"
        using col(2) works by (auto simp: cycle_column_def reschedules_def)
      ultimately have self: "windows_of i (mt_db stb) = windows_of i (mt_db sta) \<and> scheduled i sc minutes due (mt_db stb)
        \<or> (\<exists>e. col e = e \<and> windows_of i (mt_db stb) = windows_of i (mt_db sta) @ [(due - minutes * minute_ns, e)]
          \<and> scheduled i sc minutes (e + minutes * minute_ns) (mt_db stb))"
        using trigger_self[where env = env and k = "length xs" and st = sta, OF _ m(2-6) min _ col(1,3)] col(1)
        unfolding stb_def column_laws_def by metis
      have "scheduled i sc minutes t (mt_db st1)" if "scheduled i sc minutes t (mt_db stb)" for t
        using that b unfolding scheduled_def by metis
      then show ?thesis using self a b by metis
    qed
  qed
  show ?thesis
  proof (cases "sc_locked env")
    case False
    then show ?thesis using sched by (simp add: db'_def runSchedulerCycle_def)
  next
    case True
    then have db': "db' = fst (syncRunStatus env (mt_db st1))"
      by (simp add: db'_def runSchedulerCycle_def Let_def st1_def)
    have "windows_of i db' = windows_of i (mt_db st1)" "md_monitors db' = md_monitors (mt_db st1)"
      using syncRunStatus_windows[OF inv1] syncRunStatus_inv(3)[OF inv1] by (simp_all add: db')
    then show ?thesis using main by (simp add: scheduled_def)
  qed
qed

section \<open>The other operations\<close>

text \<open>The operation does not name the monitor of a scope, except to run it again.\<close>

fun spares :: "string \<times> string \<times> string \<times> string \<Rightarrow> monitor_op \<Rightarrow> bool" where
  "spares sc (Op_UpdateMonitor env org project agent name req) \<longleftrightarrow> sc \<noteq> (name, org, project, agent)"
| "spares sc (Op_StopMonitor env org project agent name) \<longleftrightarrow> sc \<noteq> (name, org, project, agent)"
| "spares sc (Op_StartMonitor env org project agent name) \<longleftrightarrow> sc \<noteq> (name, org, project, agent)"
| "spares sc (Op_DeleteMonitor env org project agent name) \<longleftrightarrow> sc \<noteq> (name, org, project, agent)"
| "spares sc _ \<longleftrightarrow> True"

lemma execute_monitors:
  assumes "ExecuteMonitorRun env n org m s e evs st = (st', r)"
  shows "md_monitors (mt_db st') = md_monitors (mt_db st)"
  using assms by (cases rule: execute_cases) auto

lemma other_id:
  assumes "monitor_inv db" and "m \<in> set (md_monitors db)" and "monitor_named env org project agent name db = Inr x"
    and "monitor_scope m \<noteq> (name, org, project, agent)"
  shows "mo_ID x \<noteq> mo_ID m"
  using assms monitor_named_Inr[OF assms(3)] same_row[OF inv_distinct(1)[OF assms(1)]] by metis

lemma cleanup_monitors: "md_monitors (if_ok (cleanupLLMProxies env n i db) db) = md_monitors db"
  by (auto simp: if_ok_def dest!: cleanup_Inr split: sum.split)

lemma monitor_row_kept:
  assumes "m \<in> set (md_monitors db)"
  shows "UpdateMonitor_row env n now x db = Inr db' \<Longrightarrow> mo_ID x \<noteq> mo_ID m \<Longrightarrow> m \<in> set (md_monitors db')"
    and "DeleteMonitor_row env n i db = Inr db' \<Longrightarrow> i \<noteq> mo_ID m \<Longrightarrow> m \<in> set (md_monitors db')"
    and "UpdateNextRunTime env n now i t db = Inr db' \<Longrightarrow> i \<noteq> mo_ID m \<Longrightarrow> m \<in> set (md_monitors db')"
  using assms
  by (auto simp: UpdateMonitor_row_def Let_def DeleteMonitor_row_def UpdateNextRunTime_def statement_Inr image_iff
      split: option.splits if_splits)

lemma reschedule_keeps:
  assumes "m \<in> set (md_monitors db)" and "i \<noteq> mo_ID m"
  shows "m \<in> set (md_monitors (fst (reschedule env text org project agent name i t db)))"
  unfolding reschedule_db using assms monitor_row_kept(3)[OF assms(1)] by (auto simp: if_ok_def split: sum.split)

lemma save_keeps:
  assumes "save_monitor env org x req st = Some (st', r)" and "m \<in> set (md_monitors (mt_db st))" and "mo_ID x \<noteq> mo_ID m"
  shows "m \<in> set (md_monitors (mt_db st'))"
proof -
  define db1 where "db1 = (if ur_ClearLLMProvider req
     then if_ok (cleanupLLMProxies env 3 (mo_ID x) (mt_db st)) (mt_db st) else mt_db st)"
  have m1: "m \<in> set (md_monitors db1)" using assms(2) by (simp add: db1_def cleanup_monitors)
  show ?thesis
  proof (cases "UpdateMonitor_row (mm_store env) 5 (mm_now env) x db1")
    case (Inl e)
    then show ?thesis using assms(1) m1 by (auto simp: save_monitor_def Let_def db1_def[symmetric])
  next
    case (Inr db2)
    have m2: "m \<in> set (md_monitors db2)" using monitor_row_kept(1)[OF m1 Inr assms(3)] .
    show ?thesis
    proof (cases "mo_Type x = MonitorTypePast")
      case False
      then show ?thesis using assms(1) Inr m2 by (auto simp: save_monitor_def Let_def db1_def[symmetric])
    next
      case True
      then obtain s e r' where "ExecuteMonitorRun (mm_exec env) 6 org x s e (mo_Evaluators x) (st\<lparr>mt_db := db2\<rparr>) = (st', r')"
        using assms(1) Inr
        by (auto simp: save_monitor_def Let_def db1_def[symmetric] run_past_def split: option.splits)
      then show ?thesis using execute_monitors m2 by fastforce
    qed
  qed
qed

lemma create_keeps:
  assumes "monitor_inv (mt_db st)" and "CreateMonitor env org req st = Some (st', r)" and "m \<in> set (md_monitors (mt_db st))"
  shows "m \<in> set (md_monitors (mt_db st'))"
proof (cases "created_monitor env org req (mt_db st)")
  case (Inl e)
  then show ?thesis using assms by (simp add: CreateMonitor_def)
next
  case (Inr p)
  obtain x db where p: "p = (x, db)" by fastforce
  obtain m0 where m0: "prepared_monitor env org req = Inr m0"
    and row: "CreateMonitor_row (mm_store env) 1 (mm_now env) m0 (mt_db st) = Inr (x, db)"
    using Inr p by (auto simp: created_monitor_def andThen_Inr map_sum_Inr)
  note created = CreateMonitor_row_inv[OF row assms(1) prepared_shape[OF m0]]
  have m: "m \<in> set (md_monitors db)" "mo_ID x \<noteq> mo_ID m" using created(2,4,5) assms(3) by auto
  show ?thesis
  proof (cases "mo_Type x = MonitorTypePast")
    case False
    then show ?thesis using assms(2) Inr p m by (auto simp: CreateMonitor_def Let_def)
  next
    case True
    then obtain s e st2 r2 where run: "run_past env 2 org x (st\<lparr>mt_db := db\<rparr>) = Some (st2, r2)"
      and ex: "ExecuteMonitorRun (mm_exec env) 2 org x s e (mo_Evaluators x) (st\<lparr>mt_db := db\<rparr>) = (st2, r2)"
      using assms(2) Inr p by (fastforce simp: CreateMonitor_def Let_def run_past_def split: option.splits)
    have m2: "m \<in> set (md_monitors (mt_db st2))" using execute_monitors[OF ex] m(1) by simp
    show ?thesis
    proof (cases r2)
      case (Inr run')
      then show ?thesis using assms(2) \<open>created_monitor env org req (mt_db st) = Inr p\<close> p True run m2
        by (auto simp: CreateMonitor_def Let_def)
    next
      case (Inl err)
      define db1 where "db1 = if_ok (cleanupLLMProxies env 6 (mo_ID x) (mt_db st2)) (mt_db st2)"
      have "mt_db st' = if_ok (DeleteMonitor_row (mm_store env) 8 (mo_ID x) db1) db1"
        using assms(2) \<open>created_monitor env org req (mt_db st) = Inr p\<close> p True run Inl
        by (auto simp: CreateMonitor_def Let_def db1_def)
      moreover have "m \<in> set (md_monitors db1)" using m2 by (simp add: db1_def cleanup_monitors)
      ultimately show ?thesis using monitor_row_kept(2) m(2) by (auto simp: if_ok_def split: sum.split)
    qed
  qed
qed

fun is_cycle :: "monitor_op \<Rightarrow> bool" where
  "is_cycle (Op_Cycle env) = True"
| "is_cycle _ = False"

lemma spared_row:
  assumes inv: "monitor_inv (mt_db st)" and m: "m \<in> set (md_monitors (mt_db st))"
    and op: "spares (monitor_scope m) op" "\<not> is_cycle op"
  shows "m \<in> set (md_monitors (mt_db (monitor_exec op st)))"
proof (cases op)
  case (Op_CreateMonitor env org req)
  then show ?thesis using create_keeps[OF inv _ m] m by (auto simp: or_panic_def split: option.split)
next
  case (Op_UpdateMonitor env org project agent name req)
  show ?thesis
  proof (cases "andThen (monitor_named env org project agent name (mt_db st)) (\<lambda>m. changed_monitor env m req (mt_db st))")
    case (Inl e)
    then show ?thesis using Op_UpdateMonitor m by (simp add: UpdateMonitor_def or_panic_def)
  next
    case (Inr x')
    then obtain x where x: "monitor_named env org project agent name (mt_db st) = Inr x"
      and ch: "changed_monitor env x req (mt_db st) = Inr x'" by (auto simp: andThen_Inr)
    have "monitor_shape x" using inv_rows(1)[OF inv monitor_named_Inr(1)[OF x]] by (simp add: monitor_ok_def)
    then have "mo_ID x' \<noteq> mo_ID m" using changed_shape(2)[OF ch] other_id[OF inv m x] op(1) Op_UpdateMonitor by simp
    then show ?thesis using Op_UpdateMonitor Inr save_keeps[OF _ m] m
      by (auto simp: UpdateMonitor_def or_panic_def split: option.split)
  qed
next
  case (Op_StopMonitor env org project agent name)
  then show ?thesis using m op(1) other_id[OF inv m] reschedule_keeps[OF m]
    by (auto simp: on_db_def StopMonitor_def split: sum.split)
next
  case (Op_StartMonitor env org project agent name)
  then show ?thesis using m op(1) other_id[OF inv m] reschedule_keeps[OF m]
    by (auto simp: on_db_def StartMonitor_def split: sum.split)
next
  case (Op_DeleteMonitor env org project agent name)
  show ?thesis
  proof (cases "monitor_named env org project agent name (mt_db st)")
    case (Inl e)
    then show ?thesis using Op_DeleteMonitor m by (simp add: DeleteMonitor_def)
  next
    case (Inr x)
    have "mo_ID x \<noteq> mo_ID m" using other_id[OF inv m Inr] op(1) Op_DeleteMonitor by simp
    moreover have "m \<in> set (md_monitors (if_ok (cleanupLLMProxies env 2 (mo_ID x) (mt_db st)) (mt_db st)))"
      using m by (simp add: cleanup_monitors)
    ultimately show ?thesis using Op_DeleteMonitor Inr monitor_row_kept(2)
      by (auto simp: DeleteMonitor_def Let_def wrap_error_Inr split: sum.split)
  qed
next
  case (Op_Rerun env org project agent name runID)
  show ?thesis
  proof (cases "run_named env org project agent name runID (mt_db st)")
    case (Inl e)
    then show ?thesis using Op_Rerun m by (simp add: RerunMonitor_def)
  next
    case (Inr q)
    obtain x original where q: "q = (x, original)" by fastforce
    obtain st' r where "ExecuteMonitorRun (mm_exec env) 3 org x (mr_TraceStart original) (mr_TraceEnd original)
        (mr_Evaluators original) st = (st', r)" by fastforce
    then show ?thesis using Op_Rerun Inr q m execute_monitors by (fastforce simp: RerunMonitor_def)
  qed
qed (use op(2) in simp)

lemma scheduled_kept:
  assumes "monitor_inv (mt_db st)" and "scheduled i sc minutes due (mt_db st)" and "spares sc op" and "\<not> is_cycle op"
  shows "scheduled i sc minutes due (mt_db (monitor_exec op st))"
  using assms spared_row[OF assms(1) _ _ assms(4)] unfolding scheduled_def by metis

section \<open>Sequences\<close>

text \<open>The windows of the runs that the cycles of a sequence give a monitor.\<close>

fun scheduled_windows :: "uuid \<Rightarrow> monitor_op list \<Rightarrow> monitor_state \<Rightarrow> (int \<times> int) list" where
  "scheduled_windows i [] st = []"
| "scheduled_windows i (op # ops) st =
     (if is_cycle op
      then drop (length (windows_of i (mt_db st))) (windows_of i (mt_db (monitor_exec op st))) else [])
     @ scheduled_windows i ops (monitor_exec op st)"

text \<open>The windows follow one another from a time on, without a gap and without an overlap.\<close>

fun tiles :: "int \<Rightarrow> (int \<times> int) list \<Rightarrow> bool" where
  "tiles start [] \<longleftrightarrow> True"
| "tiles start ((s, e) # ws) \<longleftrightarrow> s = start \<and> tiles e ws"

fun steady :: "(int \<Rightarrow> int) \<Rightarrow> string \<times> string \<times> string \<times> string \<Rightarrow> monitor_op \<Rightarrow> bool" where
  "steady col sc (Op_Cycle env) \<longleftrightarrow> cycle_column col env \<and> reschedules env"
| "steady col sc op \<longleftrightarrow> spares sc op"

lemma scheduled_windows_tile_from:
  assumes "monitor_inv (mt_db st)" and "scheduled i sc minutes due (mt_db st)"
    and "0 \<le> minutes" "minutes \<le> max_minutes" and "column_laws col" "col due = due"
    and "list_all (steady col sc) ops"
  shows "tiles (due - minutes * minute_ns) (scheduled_windows i ops st)"
  using assms
proof (induction ops arbitrary: st due)
  case (Cons op ops)
  let ?st = "monitor_exec op st"
  have inv: "monitor_inv (mt_db ?st)" using Cons.prems(1) by (rule monitor_exec_inv(1))
  have rest: "list_all (steady col sc) ops" using Cons.prems(7) by simp
  show ?case
  proof (cases "is_cycle op")
    case True
    then obtain env where Op_Cycle: "op = Op_Cycle env" by (cases op) auto
    then have env: "cycle_column col env" "reschedules env" using Cons.prems(7) by simp_all
    have shift: "col (e + minutes * minute_ns) = e + minutes * minute_ns" if "col e = e" for e
      using that Cons.prems(5) by (simp add: column_laws_def)
    from cycle_windows[OF Cons.prems(1-5) env(1) Cons.prems(6) env(2)] show ?thesis
    proof (elim disjE exE conjE)
      assume "windows_of i (mt_db (runSchedulerCycle env st)) = windows_of i (mt_db st)"
        and "scheduled i sc minutes due (mt_db (runSchedulerCycle env st))"
      then show ?thesis using Cons.IH[OF inv _ Cons.prems(3-6) rest] Op_Cycle by simp
    next
      fix e assume e: "col e = e"
        and "windows_of i (mt_db (runSchedulerCycle env st)) = windows_of i (mt_db st) @ [(due - minutes * minute_ns, e)]"
        and "scheduled i sc minutes (e + minutes * minute_ns) (mt_db (runSchedulerCycle env st))"
      then show ?thesis
        using Cons.IH[OF inv _ Cons.prems(3-5) shift[OF e] rest] Op_Cycle by simp
    qed
  next
    case False
    then have "spares sc op" using Cons.prems(7) by (cases op) auto
    then have "scheduled i sc minutes due (mt_db ?st)" using scheduled_kept[OF Cons.prems(1,2)] False by blast
    then show ?thesis using Cons.IH[OF inv _ Cons.prems(3-6) rest] False by simp
  qed
qed simp

text \<open>What a save of a scheduled monitor leaves in the table.\<close>

lemma saved_row:
  assumes "save_monitor env org m req st = Some (st', Inr resp)" and "mo_Type m = MonitorTypeFuture"
    and "mo_ID m \<in> mo_ID ` set (md_monitors (mt_db st))"
  shows "\<exists>now. monitor_row (mm_store env) (m\<lparr>mo_UpdatedAt := now\<rparr>) \<in> set (md_monitors (mt_db st'))"
proof -
  define db1 where "db1 = (if ur_ClearLLMProvider req
     then if_ok (cleanupLLMProxies env 3 (mo_ID m) (mt_db st)) (mt_db st) else mt_db st)"
  obtain db2 where db2: "UpdateMonitor_row (mm_store env) 5 (mm_now env) m db1 = Inr db2" "mt_db st' = db2"
    using assms(1,2) by (auto simp: save_monitor_def Let_def db1_def[symmetric] wrap_error_Inr split: sum.splits)
  have "mo_ID m \<in> mo_ID ` set (md_monitors db1)" using assms(3) by (simp add: db1_def cleanup_monitors)
  then have "monitor_row (mm_store env) (m\<lparr>mo_UpdatedAt := mm_now env\<rparr>) \<in> set (md_monitors db2)"
    using db2(1) by (auto simp: UpdateMonitor_row_def Let_def statement_Inr image_iff split: option.splits)
  then show ?thesis using db2(2) by blast
qed

lemma stop_clears:
  assumes inv: "monitor_inv db" and m: "m \<in> set (md_monitors db)" "monitor_scope m = (name, org, project, agent)"
    and stop: "StopMonitor env org project agent name db = (db1, Inr resp)"
  shows "\<exists>x \<in> set (md_monitors db1). mo_ID x = mo_ID m \<and> mo_NextRunTime x = None"
proof -
  obtain x where x: "monitor_named env org project agent name db = Inr x"
    using stop by (auto simp: StopMonitor_def split: sum.splits)
  have "x = m" using monitor_named_Inr[OF x] m same_row[OF inv_distinct(2)[OF inv], of x m] by simp
  then obtain now where "UpdateNextRunTime (mm_store env) 2 now (mo_ID m) None db = Inr db1"
    using stop x by (auto simp: StopMonitor_def reschedule_def wrap_error_Inr split: if_splits sum.splits)
  then have "md_monitors db1 = map (\<lambda>x. if mo_ID x = mo_ID m
      then x\<lparr>mo_NextRunTime := None, mo_UpdatedAt := ms_column (mm_store env) now\<rparr> else x) (md_monitors db)"
    by (auto simp: UpdateNextRunTime_def statement_Inr)
  then show ?thesis using m(1)
    by (intro bexI[of _ "m\<lparr>mo_NextRunTime := None, mo_UpdatedAt := ms_column (mm_store env) now\<rparr>"])
      (auto simp: image_iff)
qed

text \<open>A successful update of the interval keeps the due time.\<close>

lemma update_reschedules:
  assumes inv: "monitor_inv (mt_db st)" and sched: "scheduled i (name, org, project, agent) minutes due (mt_db st)"
    and up: "UpdateMonitor env org project agent name req st = Some (st', Inr resp)" and n: "ur_IntervalMinutes req = Some n"
  shows "scheduled i (name, org, project, agent) n (ms_column (mm_store env) due) (mt_db st')"
proof -
  obtain m where m: "m \<in> set (md_monitors (mt_db st))" "mo_ID m = i" "monitor_scope m = (name, org, project, agent)"
      "mo_Type m = MonitorTypeFuture" "mo_NextRunTime m = Some due"
    using sched by (auto simp: scheduled_def)
  obtain x m' where x: "monitor_named env org project agent name (mt_db st) = Inr x"
    and ch: "changed_monitor env x req (mt_db st) = Inr m'" and save: "save_monitor env org m' req st = Some (st', Inr resp)"
    using up by (auto simp: UpdateMonitor_def andThen_Inr split: sum.splits)
  have xm: "x = m" using monitor_named_Inr[OF x] m(1,3) same_row[OF inv_distinct(2)[OF inv], of x m] by simp
  have m': "mo_ID m' = i" "mo_Type m' = MonitorTypeFuture" "mo_NextRunTime m' = Some due" "mo_IntervalMinutes m' = Some n"
    "monitor_scope m' = (name, org, project, agent)"
    by (rule changed_monitor_Inr[OF ch[unfolded xm]], use m n in \<open>simp add: or_else_def monitor_scope_def\<close>)+
  have "mo_ID m' \<in> mo_ID ` set (md_monitors (mt_db st))" using m(1,2) m'(1) by force
  then obtain now where "monitor_row (mm_store env) (m'\<lparr>mo_UpdatedAt := now\<rparr>) \<in> set (md_monitors (mt_db st'))"
    using saved_row[OF save m'(2)] by blast
  then show ?thesis unfolding scheduled_def using m'
    by (intro bexI[of _ "monitor_row (mm_store env) (m'\<lparr>mo_UpdatedAt := now\<rparr>)"])
      (simp_all add: monitor_scope_def monitor_row_def)
qed

section \<open>A due monitor is served\<close>

text \<open>Preparing a run reads the mappings and the proxies only, and triggering changes neither.\<close>

lemma prepare_run_reads:
  assumes "md_mappings db' = md_mappings db" and "md_proxies db' = md_proxies db"
  shows "prepare_run env n m s e evs db' = prepare_run env n m s e evs db"
proof -
  have "ListByMonitorID env n i db' = ListByMonitorID env n i db" for env n i
    using assms by (simp add: ListByMonitorID_def)
  then show ?thesis by (simp add: prepare_run_def resolveLLMProxyConfig_def)
qed

lemma trigger_frame:
  fixes env k x st
  defines "db \<equiv> mt_db st" and "db' \<equiv> mt_db (fst (triggerMonitor env k x st))"
  shows "md_mappings db' = md_mappings db \<and> md_proxies db' = md_proxies db
    \<and> (\<forall>r \<in> set (md_runs db'). r \<in> set (md_runs db) \<or> mr_ID r = xe_newid (sc_exec env k))
    \<and> set (md_runs db) \<subseteq> set (md_runs db')"
proof -
  obtain st' r where t: "triggerMonitor env k x st = (st', r)" by fastforce
  then show ?thesis unfolding db_def db'_def
    by (cases rule: trigger_cases[OF t]) (auto split: if_splits)
qed

lemma trigger_each_frame:
  fixes env k ms st
  defines "db \<equiv> mt_db st" and "db' \<equiv> mt_db (trigger_each env k ms st)"
  shows "md_mappings db' = md_mappings db \<and> md_proxies db' = md_proxies db
    \<and> (\<forall>r \<in> set (md_runs db'). r \<in> set (md_runs db)
         \<or> (\<exists>j. k \<le> j \<and> j < k + length ms \<and> mr_ID r = xe_newid (sc_exec env j)))
    \<and> set (md_runs db) \<subseteq> set (md_runs db')"
  unfolding db_def db'_def
proof (induction ms arbitrary: k st)
  case (Cons x ms)
  note rest = Cons[of "Suc k" "fst (triggerMonitor env k x st)"]
  note one = trigger_frame[where env = env and k = k and x = x and st = st]
  have "\<exists>j. k \<le> j \<and> j < k + length (x # ms) \<and> mr_ID r = xe_newid (sc_exec env j)"
    if "r \<in> set (md_runs (mt_db (trigger_each env k (x # ms) st)))" "r \<notin> set (md_runs (mt_db st))" for r
    using that rest one by (cases "mr_ID r = xe_newid (sc_exec env k)") (fastforce dest: Suc_leD)+
  then show ?case using rest one by auto
qed simp

text \<open>The executor can serve the monitor on the \<open>k\<close>-th place: its run can be prepared, the workflow run created.\<close>

definition can_serve :: "cycle_env \<Rightarrow> nat \<Rightarrow> Monitor \<Rightarrow> int \<Rightarrow> int \<Rightarrow> string \<Rightarrow> monitor_db \<Rightarrow> bool" where
  "can_serve env k m minutes due name db \<longleftrightarrow> sc_client env (mo_OrgName m) = None
     \<and> (\<exists>request. prepare_run (sc_exec env k) 1 m (due - interval_of minutes) (sc_triggered env k - safety_delta minutes)
            (mo_Evaluators m) db = Inr request
          \<and> xe_workflow (sc_exec env k) (mo_OrgName m) request = Inr name)
     \<and> (\<forall>n. de_fault (ms_repo (xe_store (sc_exec env k))) n = None)"

lemma trigger_serves:
  assumes "can_serve env k m minutes due name (mt_db st)" and m: "m \<in> set (md_monitors (mt_db st))"
    and "mo_IntervalMinutes m = Some minutes" "mo_NextRunTime m = Some due"
    and "xe_newid (sc_exec env k) \<notin> mr_ID ` set (md_runs (mt_db st))"
  shows "scheduled_run env k m name minutes due \<in> set (md_runs (mt_db (fst (triggerMonitor env k m st))))"
    and "rescheduled env k minutes m \<in> set (md_monitors (mt_db (fst (triggerMonitor env k m st))))"
proof -
  define s where "s = due - interval_of minutes"
  define e where "e = sc_triggered env k - safety_delta minutes"
  let ?run = "scheduled_run env k m name minutes due"
  obtain request where r: "prepare_run (sc_exec env k) 1 m s e (mo_Evaluators m) (mt_db st) = Inr request"
      "xe_workflow (sc_exec env k) (mo_OrgName m) request = Inr name"
    using assms(1) by (auto simp: can_serve_def s_def e_def)
  have ok: "de_fault (ms_repo (xe_store (sc_exec env k))) n = None" "sc_client env (mo_OrgName m) = None" for n
    using assms(1) by (simp_all add: can_serve_def)
  have "insert_run ?run (mt_db st) = Inr ((mt_db st)\<lparr>md_runs := md_runs (mt_db st) @ [?run]\<rparr>)"
    using m assms(5) by (simp add: insert_run_Inr scheduled_run_def)
  then obtain run0 where "ExecuteMonitorRun (sc_exec env k) 1 (mo_OrgName m) m s e (mo_Evaluators m) st
      = (\<lparr>mt_db = (mt_db st)\<lparr>md_runs := md_runs (mt_db st) @ [?run]\<rparr>, mt_calls = mt_calls st @ [Created (mo_OrgName m) name]\<rparr>, Inr run0)"
    using r ok(1) by (auto simp: ExecuteMonitorRun_def Let_def CreateMonitorRun_def statement_def s_def[symmetric]
        e_def[symmetric] scheduled_run_def added_run_def split: sum.split)
  then have "mt_db (fst (triggerMonitor env k m st)) = change_monitor (mo_ID m) (rescheduled env k minutes)
      ((mt_db st)\<lparr>md_runs := md_runs (mt_db st) @ [?run]\<rparr>)"
    using assms(3,4) ok by (simp add: triggerMonitor_def Let_def s_def e_def executor_UpdateNextRunTime_def
        UpdateNextRunTime_def statement_def rescheduled_def[abs_def])
  then show "?run \<in> set (md_runs (mt_db (fst (triggerMonitor env k m st))))"
    and "rescheduled env k minutes m \<in> set (md_monitors (mt_db (fst (triggerMonitor env k m st))))"
    using m by (auto simp: image_iff)
qed

definition due_list :: "cycle_env \<Rightarrow> monitor_db \<Rightarrow> Monitor list" where
  "due_list env db = filter (\<lambda>m. mo_Type m = MonitorTypeFuture \<and> due_at (sc_store env) (sc_now env) m) (md_monitors db)"

lemma cycle_serves:
  assumes inv: "monitor_inv (mt_db st)" and go: "sc_locked env" "de_fault (ms_repo (sc_store env)) 1 = None"
    and k: "k < length (due_list env (mt_db st))"
  defines "m \<equiv> due_list env (mt_db st) ! k"
  assumes m: "mo_IntervalMinutes m = Some minutes" "mo_NextRunTime m = Some due"
    and serve: "can_serve env k m minutes due name (mt_db st)"
    and fresh: "xe_newid (sc_exec env k) \<notin> mr_ID ` set (md_runs (mt_db st))"
      "\<And>j. j < k \<Longrightarrow> xe_newid (sc_exec env j) \<noteq> xe_newid (sc_exec env k)"
  defines "db' \<equiv> mt_db (runSchedulerCycle env st)"
  shows "\<exists>r \<in> set (md_runs db'). run_step\<^sup>*\<^sup>* (scheduled_run env k m name minutes due) r"
    and "rescheduled env k minutes m \<in> set (md_monitors db')"
proof -
  define ms where "ms = due_list env (mt_db st)"
  have ms: "set ms \<subseteq> set (md_monitors (mt_db st))" "distinct (map mo_ID ms)"
    using inv_distinct(1)[OF inv] by (auto simp: ms_def due_list_def distinct_map_filter)
  define xs where "xs = take k ms"
  define ys where "ys = drop (Suc k) ms"
  have split: "ms = xs @ m # ys" and len: "length xs = k"
    using k id_take_nth_drop[of k ms] by (simp_all add: xs_def ys_def m_def ms_def)
  then have ids: "mo_ID m \<notin> mo_ID ` set xs" "mo_ID m \<notin> mo_ID ` set ys" using ms(2) by auto
  have inm: "m \<in> set (md_monitors (mt_db st))" using split ms(1) by auto
  define sta where "sta = trigger_each env 0 xs st"
  define stb where "stb = fst (triggerMonitor env k m sta)"
  define st1 where "st1 = trigger_each env (Suc k) ys stb"
  have all: "fst (triggerPendingMonitors env st) = st1"
    using go(2) by (simp add: triggerPendingMonitors_def ListDueMonitors_def statement_def due_list_def[symmetric]
        ms_def[symmetric] split trigger_each_append len sta_def stb_def st1_def)
  note a = trigger_each_frame[where env = env and k = 0 and ms = xs and st = st, folded sta_def]
  have ina: "m \<in> set (md_monitors (mt_db sta))"
    using trigger_each_other[OF ids(1), of env 0 st] inm by (simp add: sta_def)
  have serve': "can_serve env k m minutes due name (mt_db sta)"
    using serve a prepare_run_reads[of "mt_db sta" "mt_db st"] by (simp add: can_serve_def)
  have "xe_newid (sc_exec env k) \<notin> mr_ID ` set (md_runs (mt_db sta))"
  proof
    assume "xe_newid (sc_exec env k) \<in> mr_ID ` set (md_runs (mt_db sta))"
    then obtain r where "r \<in> set (md_runs (mt_db sta))" "mr_ID r = xe_newid (sc_exec env k)" by auto
    then show False using a fresh len by (metis add_0 image_eqI)
  qed
  note b = trigger_serves[OF serve' ina m this, folded stb_def]
  have run1: "scheduled_run env k m name minutes due \<in> set (md_runs (mt_db st1))"
    using b(1) trigger_each_frame[where env = env and k = "Suc k" and ms = ys and st = stb] by (auto simp: st1_def)
  have mon1: "rescheduled env k minutes m \<in> set (md_monitors (mt_db st1))"
    using b(2) trigger_each_other[OF ids(2), of env "Suc k" stb] by (simp add: st1_def)
  have inv1: "monitor_inv (mt_db st1)" using triggerPending_inv[OF inv, of env] by (simp add: all)
  have db': "db' = fst (syncRunStatus env (mt_db st1))"
    using go(1) by (simp add: db'_def runSchedulerCycle_def Let_def all)
  show "rescheduled env k minutes m \<in> set (md_monitors db')" using mon1 syncRunStatus_inv(3)[OF inv1] by (simp add: db')
  show "\<exists>r \<in> set (md_runs db'). run_step\<^sup>*\<^sup>* (scheduled_run env k m name minutes due) r"
    using runs_progress_member[OF syncRunStatus_inv(2)[OF inv1] run1] unfolding db' .
qed

section \<open>A failed creation\<close>

lemma created_parts:
  assumes "created_monitor env org req db = Inr (m, db')" and "monitor_inv db"
  shows "mo_ID m \<notin> mo_ID ` set (md_monitors db)" "db' = db\<lparr>md_monitors := md_monitors db @ [monitor_row (mm_store env) m]\<rparr>"
proof -
  obtain m0 where m0: "prepared_monitor env org req = Inr m0"
    and row: "CreateMonitor_row (mm_store env) 1 (mm_now env) m0 db = Inr (m, db')"
    using assms(1) by (auto simp: created_monitor_def andThen_Inr map_sum_Inr)
  note created = CreateMonitor_row_inv[OF row assms(2) prepared_shape[OF m0]]
  show "mo_ID m \<notin> mo_ID ` set (md_monitors db)" "db' = db\<lparr>md_monitors := md_monitors db @ [monitor_row (mm_store env) m]\<rparr>"
    using created(2,4,5) by simp_all
qed

lemma created_window:
  assumes "created_monitor env org req db = Inr (m, db')" and "mo_Type m = MonitorTypePast"
  shows "\<exists>s e. mo_TraceStart m = Some s \<and> mo_TraceEnd m = Some e"
proof -
  obtain m0 now where m0: "prepared_monitor env org req = Inr m0" and m: "m = m0\<lparr>mo_CreatedAt := now, mo_UpdatedAt := now\<rparr>"
    using assms(1) by (auto simp: created_monitor_def andThen_Inr map_sum_Inr CreateMonitor_row_def Let_def statement_Inr)
  show ?thesis using prepared_shape[OF m0] assms(2) by (auto simp: m monitor_shape_def)
qed

text \<open>Taking a row back that nothing refers to.\<close>

lemma taken_back:
  assumes inv: "monitor_inv db" and p: "created_monitor env org req db = Inr (m, db')"
  defines "db1 \<equiv> if_ok (cleanupLLMProxies env 6 (mo_ID m) db') db'"
  shows "if_ok (DeleteMonitor_row (mm_store env) 8 (mo_ID m) db1) db1
    = (if de_fault (ms_repo (mm_store env)) 8 = None then db else db')"
proof -
  note parts = created_parts[OF p inv]
  have maps: "filter (\<lambda>x. ml_MonitorID x \<noteq> mo_ID m) (md_mappings db) = md_mappings db"
    using inv parts(1) unfolding monitor_inv_def image_subset_iff by (intro filter_True) metis
  have mons: "filter (\<lambda>x. mo_ID x \<noteq> mo_ID m) (md_monitors db) = md_monitors db"
    using parts(1) by (intro filter_True ballI) (metis image_eqI)
  have "db1 = db'" unfolding db1_def if_ok_def by (auto simp: parts(2) maps dest!: cleanup_Inr split: sum.split)
  then show ?thesis
    by (simp add: if_ok_def DeleteMonitor_row_def statement_def parts(2) maps mons drop_nothing[OF inv parts(1)] split: option.split)
qed

text \<open>The row that was written and, for a past monitor, the run that was started over its window.\<close>

lemma created_rows:
  assumes inv: "monitor_inv db" and p: "created_monitor env org req db = Inr (m, db')"
  shows "db' = db\<lparr>md_monitors := md_monitors db @ [monitor_row (mm_store env) m]\<rparr>"
    and "mo_Type (monitor_row (mm_store env) m) = cr_Type req" "mo_Name (monitor_row (mm_store env) m) = cr_Name req"
    and "mo_Type m = cr_Type req"
proof -
  show "db' = db\<lparr>md_monitors := md_monitors db @ [monitor_row (mm_store env) m]\<rparr>" by (rule created_parts(2)[OF p inv])
  obtain m0 now where m0: "prepared_monitor env org req = Inr m0" and m: "m = m0\<lparr>mo_CreatedAt := now, mo_UpdatedAt := now\<rparr>"
    using p by (auto simp: created_monitor_def andThen_Inr map_sum_Inr CreateMonitor_row_def Let_def statement_Inr)
  have "mo_Type m0 = cr_Type req" "mo_Name m0 = cr_Name req"
    using m0 by (auto simp: prepared_monitor_def andThen_Inr wrap_error_Inr split: option.splits if_splits prod.splits)
  then show "mo_Type (monitor_row (mm_store env) m) = cr_Type req" "mo_Name (monitor_row (mm_store env) m) = cr_Name req"
    "mo_Type m = cr_Type req"
    by (simp_all add: m monitor_row_def)
qed

end
