(* ===== verification/MonitorDelta.thy ===== *)
theory MonitorDelta
  imports MonitorScheduler
begin

text \<open>
  The safety margin of a scheduled window. It is computed in \<open>float64\<close> and truncated to whole minutes;
  here it is shown to be the twentieth part of the interval, rounded down, for every 32-bit interval.
\<close>

lemma pow2_pos: "0 < pow2 e"
  by (simp add: pow2_def)

lemma pow2_neg: "pow2 (- int k) = 1 / 2 ^ k"
  by (simp add: pow2_def)

lemma pow2_int: "pow2 (int k) = 2 ^ k"
  by (simp add: pow2_def)

lemma pow2_diff: "pow2 (int a - int b) = 2 ^ a / 2 ^ b"
proof (cases "b \<le> a")
  case True
  then have "int a - int b = int (a - b)" by simp
  then show ?thesis using True by (simp only: pow2_int) (simp add: power_diff)
next
  case False
  then have "int a - int b = - int (b - a)" by simp
  then show ?thesis using False by (simp only: pow2_neg) (simp add: power_diff field_simps)
qed

text \<open>The exponent is not above the number.\<close>

lemma ilog2_le:
  assumes "0 < x" shows "pow2 (ilog2 x) \<le> x"
proof -
  obtain n d where nd: "quotient_of x = (n, d)" by fastforce
  have d: "0 < d" using quotient_of_denom_pos[OF nd] .
  have x: "x = of_int n / of_int d" using quotient_of_div[OF nd] .
  have n: "0 < n" using assms d by (simp add: x zero_less_divide_iff)
  define a where "a = nat (bitlen n - 1)"
  define b where "b = nat (bitlen d)"
  have "0 < bitlen n" "0 \<le> bitlen d" using bitlen_eq_zero_iff[of n] bitlen_nonneg[of n] bitlen_nonneg[of d] n by linarith+
  then have k: "bitlen n - bitlen d - 1 = int a - int b" by (simp add: a_def b_def)
  have "2 ^ a \<le> n" "d < 2 ^ b" using bitlen_bounds[OF n] bitlen_bounds[OF d] by (simp_all add: a_def b_def)
  then have "(of_int (2 ^ a) :: rat) \<le> of_int n" "(of_int d :: rat) \<le> of_int (2 ^ b)"
    by (simp_all only: of_int_le_iff less_imp_le)
  then have "(2 ^ a / 2 ^ b :: rat) \<le> of_int n / of_int d" using n d by (intro frac_le) simp_all
  then have "pow2 (bitlen n - bitlen d - 1) \<le> x" by (simp only: k pow2_diff x)
  then show ?thesis by (simp add: ilog2_def nd Let_def)
qed

lemma pow2_mono: "a \<le> b \<Longrightarrow> pow2 a \<le> pow2 b"
proof -
  assume "a \<le> b"
  then obtain k where b: "b = a + int k" by (metis zle_iff_zadd)
  have "pow2 (a + int k) = pow2 a * 2 ^ k"
  proof (cases "0 \<le> a")
    case True
    then show ?thesis by (simp add: pow2_def nat_add_distrib power_add)
  next
    case False
    then obtain c where "a = - int c" by (metis nonneg_int_cases minus_minus neg_0_le_iff_le linear)
    then show ?thesis using pow2_diff[of k c] by (simp add: pow2_neg add.commute)
  qed
  moreover have "(1::rat) \<le> 2 ^ k" by simp
  ultimately show ?thesis using pow2_pos[of a] by (simp add: b)
qed

lemma ilog2_below:
  assumes "0 < x" and "x < 2 ^ k" shows "ilog2 x < int k"
proof (rule ccontr)
  assume "\<not> ilog2 x < int k"
  then have "pow2 (int k) \<le> pow2 (ilog2 x)" by (intro pow2_mono) simp
  then show False using ilog2_le[OF assms(1)] assms(2) by (simp add: pow2_int)
qed

lemma round_half_even_bounds: "\<lfloor>y\<rfloor> \<le> round_half_even y" "round_half_even y \<le> \<lfloor>y\<rfloor> + 1"
  by (simp_all add: round_half_even_def Let_def)

text \<open>Rounding moves a number below \<open>2 ^ 27\<close> up by at most \<open>2 ^ -26\<close>, and not below an integer.\<close>

lemma round_small:
  assumes "0 < x" and "x < 2 ^ 27" and "of_int k \<le> x"
  obtains v where "round_f64 x = Some v" "of_int k \<le> v" "v \<le> x + 1 / 2 ^ 26"
proof -
  define q where "q = max (ilog2 x - 52) (- 1074)"
  have "ilog2 x < 27" using ilog2_below[OF assms(1), of 27] assms(2) by simp
  then have "q \<le> - 26" by (simp add: q_def)
  define e where "e = nat (- q)"
  have e: "q = - int e" "26 \<le> e" using \<open>q \<le> - 26\<close> by (simp_all add: e_def)
  define r where "r = round_half_even (x / pow2 q)"
  have y: "x / pow2 q = x * 2 ^ e" by (simp add: e(1) pow2_neg)
  have "of_int (k * 2 ^ e) \<le> x * 2 ^ e" using assms(3) by (simp add: mult_right_mono)
  then have "k * 2 ^ e \<le> r" using round_half_even_bounds(1)[of "x / pow2 q"] unfolding r_def y
    by (meson le_floor_iff order_trans)
  then have "(of_int (k * 2 ^ e) :: rat) \<le> of_int r" by (simp only: of_int_le_iff)
  then have low: "of_int k \<le> of_int r * pow2 q" by (simp add: e(1) pow2_neg field_simps)
  have "(of_int r :: rat) \<le> of_int (\<lfloor>x * 2 ^ e\<rfloor> + 1)"
    using round_half_even_bounds(2)[of "x * 2 ^ e"] unfolding r_def y of_int_le_iff .
  then have "of_int r \<le> x * 2 ^ e + 1" using of_int_floor_le[of "x * 2 ^ e"] unfolding of_int_add of_int_1 by linarith
  then have "of_int r * pow2 q \<le> x + 1 / 2 ^ e" by (simp add: e(1) pow2_neg field_simps)
  moreover have "(1 :: rat) / 2 ^ e \<le> 1 / 2 ^ 26" by (rule frac_le) (simp_all only: power_increasing[OF e(2)] one_le_numeral zero_less_power zero_less_numeral
        order_refl zero_le_one)
  ultimately have high: "of_int r * pow2 q \<le> x + 1 / 2 ^ 26"
    by (meson add_left_mono order_trans)
  have "of_int r * pow2 q < pow2 1024"
  proof -
    have "x + 1 / 2 ^ 26 < 2 ^ 28" using assms(2) by simp
    also have "(2 ^ 28 :: rat) \<le> pow2 1024" using pow2_mono[of 28 1024] pow2_int[of 28] by simp
    finally show ?thesis using high by simp
  qed
  then have "round_f64 x = Some (of_int r * pow2 q)"
    using assms(1) by (simp add: round_f64_def round_f64_pos_def Let_def q_def[symmetric] r_def[symmetric])
  then show ?thesis using low high that by blast
qed

lemma safety_minutes_div:
  assumes "0 \<le> n" and "n < 2 ^ 31"
  shows "safety_minutes n = n div 20"
proof (cases "n = 0")
  case True
  then show ?thesis by (simp add: safety_minutes_def round_f64_def trunc_rat_def in_int64_def min_int64_def max_int64_def)
next
  case False
  define x :: rat where "x = of_int n * SafetyDeltaPercent"
  have n: "0 < n" using assms False by simp
  have split: "n = n div 20 * 20 + n mod 20" "n mod 20 \<le> 19" by simp_all
  define d :: rat where "d = of_int n * (4 / 2 ^ 56)"
  have N: "(of_int n :: rat) \<le> 2 ^ 31" using assms(2) of_int_le_iff[of n "2 ^ 31", where ?'a = rat] by simp
  have x20: "20 * x = of_int n + d" by (simp add: x_def d_def SafetyDeltaPercent_def field_simps)
  have tiny: "0 \<le> d" "d \<le> 1 / 2 ^ 20" using assms(1) N by (simp_all add: d_def)
  have nq: "(of_int n :: rat) = 20 * of_int (n div 20) + of_int (n mod 20)"
    using split(1) by (metis mult.commute of_int_add of_int_mult of_int_numeral)
  have "(of_int (n mod 20) :: rat) \<le> of_int 19" unfolding of_int_le_iff by (rule split(2))
  then have m: "(of_int (n mod 20) :: rat) \<le> 19" "(0::rat) \<le> of_int (n mod 20)" by simp_all
  then have low: "of_int (n div 20) \<le> x" using x20 tiny nq by linarith
  have powers: "(1 :: rat) / 2 ^ 20 = 1 / 1048576" "(1 :: rat) / 2 ^ 26 = 1 / 67108864" "(2 :: rat) ^ 31 = 2147483648"
    "(2 :: rat) ^ 27 = 134217728" by simp_all
  have high: "x + 1 / 2 ^ 26 < of_int (n div 20) + 1" using x20 tiny nq m unfolding powers by linarith
  have "0 < x" using n by (simp add: x_def SafetyDeltaPercent_def)
  moreover have "x < 2 ^ 27" using x20 tiny N unfolding powers by linarith
  ultimately obtain v where v: "round_f64 x = Some v" "of_int (n div 20) \<le> v" "v \<le> x + 1 / 2 ^ 26"
    using round_small low by metis
  have v0: "0 \<le> v" using v(2) n by (meson of_int_0_le_iff order_trans pos_imp_zdiv_nonneg_iff less_imp_le zero_less_numeral)
  have "\<lfloor>v\<rfloor> = n div 20" using v high by (intro floor_unique) simp_all
  then have t: "trunc_rat v = n div 20" using v0 by (simp add: trunc_rat_def)
  have "0 \<le> n div 20" "n div 20 \<le> 107374182" using assms by simp_all
  then have "in_int64 (n div 20)" unfolding in_int64_def min_int64_def max_int64_def by simp
  then show ?thesis using v(1) t by (simp add: safety_minutes_def x_def)
qed

text \<open>The margin in nanoseconds does not overflow.\<close>

lemma safety_delta_div:
  assumes "0 \<le> n" and "n < 2 ^ 31"
  shows "safety_delta n = n div 20 * minute_ns"
proof -
  have "0 \<le> n div 20" "n div 20 \<le> 107374182" using assms by simp_all
  then have "in_int64 (n div 20 * minute_ns)" unfolding in_int64_def min_int64_def max_int64_def minute_ns_def by simp
  then show ?thesis by (simp add: safety_delta_def safety_minutes_div[OF assms] wrap64_id)
qed

end
