(* ===== verification/MonitorProperties.thy ===== *)
theory MonitorProperties
  imports MonitorSchedule MonitorDelta MonitorJobs
begin

text \<open>
  What monitors promise: the tables over time, the life cycle of runs, windows that tile time, that a due
  monitor is served, where this fails (a changed interval, runs that cannot be synchronised, an update
  that overwrites a stop), and what is handed to a job; each with a concrete instance.
\<close>

section \<open>A service to look at\<close>

definition unary_uuids :: uuid_lib where
  "unary_uuids = \<lparr>ul_parse = (\<lambda>s. Some (of_nat (length s))), ul_show = (\<lambda>u. replicate (unat u) (CHR ''a'')),
     ul_cast = (\<lambda>s. Some (of_nat (length s)))\<rparr>"

definition sample_store :: store_env where
  "sample_store = \<lparr>ms_repo = \<lparr>de_uuid = unary_uuids, de_fault = (\<lambda>_. None)\<rparr>, ms_column = micro, ms_decimal = id\<rparr>"

definition latency_entry :: Entry where
  "latency_entry = \<lparr>en_Identifier = ''latency'', en_DisplayName = ''L'', en_Description = [], en_Version = [],
     en_Provider = [], en_ClassName = [], en_Level = ''trace'', en_Tags = [], en_ConfigSchema = [],
     en_Type = ''code'', en_Source = []\<rparr>"

definition sample_exec :: "uuid \<Rightarrow> int \<Rightarrow> executor_env" where
  "sample_exec i now = \<lparr>xe_store = sample_store,
     xe_gateways = \<lparr>gd_gateways = [], gd_tokens = [], gd_mappings = [], gd_associations = [],
       gd_deploy = \<lparr>db_deployments = [], db_status = [], db_artifacts = [], db_gateways = []\<rparr>\<rparr>,
     xe_template = (\<lambda>_ _. Inl ErrRecordNotFound), xe_catalog = [latency_entry], xe_customs = (\<lambda>_ _. Inr []),
     xe_credential = (\<lambda>_. Inl ErrRecordNotFound), xe_workflow = (\<lambda>_ _. Inr ''wf''), xe_format = (\<lambda>_. []),
     xe_newid = i, xe_started = now\<rparr>"

definition latency :: MonitorEvaluator where
  "latency = \<lparr>ev_Identifier = ''latency'', ev_DisplayName = ''L'', ev_Config = []\<rparr>"

text \<open>A monitor that runs every hour and is due at the end of the first hour.\<close>

definition hourly :: Monitor where
  "hourly = \<lparr>mo_ID = 7, mo_Name = ''m'', mo_DisplayName = ''M'', mo_Description = [], mo_Type = MonitorTypeFuture,
     mo_OrgName = ''o'', mo_ProjectName = ''p'', mo_AgentName = ''a'', mo_AgentID = ''ai'', mo_EnvironmentName = ''e'',
     mo_EnvironmentID = ''ei'', mo_Evaluators = [latency], mo_IntervalMinutes = Some 60,
     mo_NextRunTime = Some (60 * minute_ns), mo_TraceStart = None, mo_TraceEnd = None, mo_SamplingRate = 1,
     mo_CreatedAt = 0, mo_UpdatedAt = 0\<rparr>"

definition one_monitor :: monitor_state where
  "one_monitor = \<lparr>mt_db = \<lparr>md_monitors = [hourly], md_runs = [], md_mappings = [], md_proxies = []\<rparr>, mt_calls = []\<rparr>"

text \<open>A cycle at a time, in which the client reports one status for every workflow run.\<close>

definition sample_cycle :: "uuid \<Rightarrow> int \<Rightarrow> (deploy_error + string) \<Rightarrow> cycle_env" where
  "sample_cycle i now status = \<lparr>sc_locked = True, sc_now = now, sc_store = sample_store,
     sc_exec = (\<lambda>k. sample_exec (i + of_nat k) now), sc_triggered = (\<lambda>_. now), sc_synced = (\<lambda>_. now), sc_client = (\<lambda>_. None),
     sc_status = (\<lambda>_ _. status)\<rparr>"

lemma sample_simps [simp]:
  "ms_repo sample_store = \<lparr>de_uuid = unary_uuids, de_fault = (\<lambda>_. None)\<rparr>" "ms_column sample_store = micro"
  "xe_store (sample_exec i now) = sample_store" "xe_newid (sample_exec i now) = i"
  "sc_exec (sample_cycle i now s) k = sample_exec (i + of_nat k) now" "sc_store (sample_cycle i now s) = sample_store"
  "sc_now (sample_cycle i now s) = now" "sc_triggered (sample_cycle i now s) k = now"
  "sc_locked (sample_cycle i now s)" "sc_client (sample_cycle i now s) org = None"
  "sc_status (sample_cycle i now s) org name = s"
  by (simp_all add: sample_store_def sample_exec_def sample_cycle_def)

lemma one_monitor_inv: "monitor_inv (mt_db one_monitor)"
  by (simp add: one_monitor_def monitor_inv_def monitor_ok_def monitor_shape_def hourly_def MinIntervalMinutes_def)

lemma sample_cycle_steady: "steady micro sc (Op_Cycle (sample_cycle i now s))"
  by (simp add: cycle_column_def reschedules_def)

lemma sample_prepares:
  "\<exists>request. prepare_run (sample_exec i now) n hourly s e [latency] (mt_db one_monitor) = Inr request"
  by (simp add: prepare_run_def resolveLLMProxyConfig_def ListByMonitorID_def statement_def one_monitor_def
      buildWorkflowRunRequest_def serializeEvaluators_def sample_exec_def latency_def latency_entry_def catalog_Get_def
      job_evaluator_def job_config_def json_job_evaluator_def json_object_def member_def buildPublishingParams_def Let_def)

definition create_hourly :: "int option \<Rightarrow> CreateMonitorRequest" where
  "create_hourly interval = \<lparr>cr_Name = ''m'', cr_DisplayName = ''M'', cr_Description = [], cr_ProjectName = ''p'',
     cr_AgentName = ''a'', cr_EnvironmentName = ''e'', cr_Evaluators = [latency], cr_Type = MonitorTypeFuture,
     cr_IntervalMinutes = interval, cr_TraceStart = None, cr_TraceEnd = None, cr_SamplingRate = None\<rparr>"

definition sample_manager :: "uuid \<Rightarrow> int \<Rightarrow> manager_env" where
  "sample_manager i now = \<lparr>mm_exec = sample_exec i now, mm_now = now, mm_lookup = (\<lambda>_. Inr (''code'', [])),
     mm_component = Inr ''ai'', mm_environment = Inr (''e'', ''ei''), mm_thunder = False, mm_orgUUID = [],
     mm_credentials = None, mm_newid = i, mm_cleanup = (\<lambda>_. None), mm_deleteSecret = None,
     mm_provider = (\<lambda>_ _. Inl ErrRecordNotFound), mm_scores = (\<lambda>_. Inr []), mm_logs = (\<lambda>_ _. Inr [])\<rparr>"

lemma sample_manager_simps [simp]:
  "mm_exec (sample_manager i now) = sample_exec i now" "mm_now (sample_manager i now) = now"
  "mm_newid (sample_manager i now) = i"
  by (simp_all add: sample_manager_def)

section \<open>The tables over time\<close>

text \<open>C19. Whatever the sequence of operations on monitors and of scheduler cycles, with whatever failing
  statements and answers of the clients: ids and names (per agent) of monitors are unique, a scheduled
  monitor has an interval of at least five minutes, a past monitor has its window and is never scheduled,
  the sampling rate is in (0, 1], every run belongs to a monitor, it has a completion time exactly when it
  has ended, and an error message exactly when it has failed.\<close>

theorem monitors_stay_consistent:
  "let db = mt_db (fold monitor_exec ops (no_monitors proxies)) in
    distinct (map mo_ID (md_monitors db)) \<and> distinct (map monitor_scope (md_monitors db))
    \<and> (\<forall>m \<in> set (md_monitors db). 0 < mo_SamplingRate m \<and> mo_SamplingRate m \<le> 1
         \<and> (mo_Type m = MonitorTypeFuture \<and> (\<exists>n \<ge> 5. mo_IntervalMinutes m = Some n)
            \<or> mo_Type m = MonitorTypePast \<and> mo_TraceStart m \<noteq> None \<and> mo_TraceEnd m \<noteq> None \<and> mo_NextRunTime m = None))
    \<and> (\<forall>r \<in> set (md_runs db). mr_MonitorID r \<in> mo_ID ` set (md_monitors db)
         \<and> (mr_CompletedAt r \<noteq> None \<longleftrightarrow> mr_Status r = RunStatusSuccess \<or> mr_Status r = RunStatusFailed)
         \<and> (mr_ErrorMessage r \<noteq> None \<longleftrightarrow> mr_Status r = RunStatusFailed))"
proof -
  have inv: "monitor_inv (mt_db (fold monitor_exec ops (no_monitors proxies)))"
    by (rule monitor_system.run_inv[OF no_monitors_inv])
  show ?thesis
    unfolding Let_def using inv_distinct(1,2)[OF inv] inv_rows[OF inv]
    by (auto simp: monitor_ok_def monitor_shape_def MinIntervalMinutes_def run_ok_def run_done_def)
qed

theorem monitors_stay_consistent_witness:
  "distinct (map mo_ID (md_monitors (mt_db (fold monitor_exec
     [Op_CreateMonitor (sample_manager 7 0) ''o'' (create_hourly (Some 60)), Op_Cycle (sample_cycle 1 0 (Inr ''Running''))]
     (no_monitors [])))))"
  using monitors_stay_consistent[of "[Op_CreateMonitor (sample_manager 7 0) ''o'' (create_hourly (Some 60)),
    Op_Cycle (sample_cycle 1 0 (Inr ''Running''))]" "[]"] unfolding Let_def by blast

text \<open>C21. Runs follow their life cycle. While no monitor is deleted, every sequence of operations keeps all runs
  in their order; each has taken steps of the cycle (pending, running, then success or failure) only, one
  that had ended is unchanged, and each new run has come from a fresh pending one.\<close>

theorem runs_only_progress:
  assumes "monitor_inv (mt_db st)" and "list_all (\<lambda>op. \<not> deletes_monitor op) ops"
  defines "rs \<equiv> md_runs (mt_db st)" and "rs' \<equiv> md_runs (mt_db (fold monitor_exec ops st))"
  shows "length rs \<le> length rs'
    \<and> (\<forall>j < length rs. run_step\<^sup>*\<^sup>* (rs ! j) (rs' ! j) \<and> (run_done (rs ! j) \<longrightarrow> rs' ! j = rs ! j))
    \<and> (\<forall>r \<in> set (drop (length rs) rs'). \<exists>r0. fresh_run r0 \<and> run_step\<^sup>*\<^sup>* r0 r)"
proof -
  have "runs_progress (mt_db st) (mt_db (fold monitor_exec ops st))"
    using life_cycle_system.legal_run[OF assms(2), of st "mt_db st"] assms(1) by (simp add: runs_same)
  then obtain old new where new: "rs' = old @ new" "\<forall>r \<in> set new. \<exists>r0. fresh_run r0 \<and> run_step\<^sup>*\<^sup>* r0 r"
    and old: "list_all2 run_step\<^sup>*\<^sup>* rs old" by (auto simp: runs_progress_def rs_def rs'_def)
  have len: "length old = length rs" using old by (simp add: list_all2_lengthD)
  have "run_step\<^sup>*\<^sup>* (rs ! j) (rs' ! j)" if "j < length rs" for j
    using that old len by (simp add: new(1) nth_append list_all2_conv_all_nth)
  then show ?thesis using new len run_done_final by auto
qed

text \<open>The hourly monitor with one run that has been reported as running.\<close>

definition sample_run :: "uuid \<Rightarrow> int \<Rightarrow> string \<Rightarrow> string \<Rightarrow> MonitorRun" where
  "sample_run i created name status = \<lparr>mr_ID = i, mr_MonitorID = 7, mr_Name = name, mr_Evaluators = [], mr_TraceStart = 0,
     mr_TraceEnd = 0, mr_StartedAt = Some 0, mr_CompletedAt = None, mr_Status = status, mr_ErrorMessage = None,
     mr_CreatedAt = created\<rparr>"

definition with_runs :: "MonitorRun list \<Rightarrow> monitor_state" where
  "with_runs rs = \<lparr>mt_db = (mt_db one_monitor)\<lparr>md_runs := rs\<rparr>, mt_calls = []\<rparr>"

lemma with_runs_inv:
  assumes "distinct (map mr_ID rs)" and "\<forall>r \<in> set rs. run_ok r \<and> mr_MonitorID r = 7"
  shows "monitor_inv (mt_db (with_runs rs))"
  using one_monitor_inv assms by (auto simp: with_runs_def monitor_inv_def one_monitor_def hourly_def)

lemma sample_run_ok: "status = RunStatusPending \<or> status = RunStatusRunning \<Longrightarrow> run_ok (sample_run i created name status)"
  by (auto simp: sample_run_def run_ok_def run_open_def run_done_def)

theorem runs_only_progress_witness:
  "run_step\<^sup>*\<^sup>* (sample_run 3 0 ''wf'' RunStatusRunning)
     (md_runs (mt_db (fold monitor_exec [Op_Cycle (sample_cycle 4 5 (Inr ''Succeeded''))]
        (with_runs [sample_run 3 0 ''wf'' RunStatusRunning]))) ! 0)"
proof -
  let ?st = "with_runs [sample_run 3 0 ''wf'' RunStatusRunning]"
  have "monitor_inv (mt_db ?st)" by (rule with_runs_inv) (simp_all add: sample_run_ok, simp add: sample_run_def)
  from runs_only_progress[OF this, of "[Op_Cycle (sample_cycle 4 5 (Inr ''Succeeded''))]"]
  show ?thesis by (simp add: with_runs_def)
qed

section \<open>Windows\<close>

text \<open>C20. The windows of a scheduled monitor tile time. While nobody updates, stops, starts or deletes the
  monitor, the windows of the runs that the scheduler gives it, over any sequence of operations and cycles
  with whatever failures to execute, begin where the one before ended: no trace is evaluated twice or not
  at all. What this rests on: the statement that writes the next time works, and intervals of at most
  100,000,000 minutes.\<close>

theorem scheduled_windows_tile:
  assumes "monitor_inv (mt_db st)" and "scheduled i sc minutes due (mt_db st)"
    and "0 \<le> minutes" "minutes \<le> max_minutes" and "column_laws col" "col due = due"
    and "list_all (steady col sc) ops"
  shows "tiles (due - minutes * minute_ns) (scheduled_windows i ops st)"
  using assms by (rule scheduled_windows_tile_from)

lemma hourly_scheduled: "scheduled 7 (monitor_scope hourly) 60 (60 * minute_ns) (mt_db one_monitor)"
  by (simp add: scheduled_def one_monitor_def hourly_def)

lemma micro_hour: "micro (60 * minute_ns) = 60 * minute_ns"
  by (simp add: micro_def minute_ns_def)

theorem scheduled_windows_tile_witness:
  "tiles 0 (scheduled_windows 7 [Op_Cycle (sample_cycle 1 (61 * minute_ns) (Inr ''Running'')),
     Op_Cycle (sample_cycle 2 (121 * minute_ns) (Inr ''Running''))] one_monitor)"
  using scheduled_windows_tile[OF one_monitor_inv hourly_scheduled _ _ micro_laws micro_hour,
      of "[Op_Cycle (sample_cycle 1 (61 * minute_ns) (Inr ''Running'')),
           Op_Cycle (sample_cycle 2 (121 * minute_ns) (Inr ''Running''))]"] sample_cycle_steady
  by (simp add: max_minutes_def)

text \<open>A changed interval moves the next window. After an update that sets the interval, the next window begins
  at the time that was due less the new interval, so between it and the end of the last window lies a gap
  (a shorter interval) or an overlap (a longer one) of the difference.\<close>

theorem interval_change_shifts_window:
  assumes "monitor_inv (mt_db st)" and "scheduled i (name, org, project, agent) minutes due (mt_db st)"
    and "UpdateMonitor env org project agent name req st = Some (st', Inr resp)" and "ur_IntervalMinutes req = Some n"
    and "0 \<le> n" "n \<le> max_minutes" and "column_laws col" "col due = due" "ms_column (mm_store env) = col"
    and "list_all (steady col (name, org, project, agent)) ops"
  shows "case scheduled_windows i ops st' of [] \<Rightarrow> True
    | (s, e) # _ \<Rightarrow> s = (due - minutes * minute_ns) + (minutes - n) * minute_ns"
proof -
  have "monitor_inv (mt_db st')" using monitor_exec_inv(1)[OF assms(1), of "Op_UpdateMonitor env org project agent name req"]
      assms(3) by (simp add: or_panic_def)
  moreover have "scheduled i (name, org, project, agent) n due (mt_db st')"
    using update_reschedules[OF assms(1-4)] assms(8,9) by simp
  ultimately have "tiles (due - n * minute_ns) (scheduled_windows i ops st')"
    using scheduled_windows_tile_from assms(5-8,10) by blast
  then show ?thesis by (auto simp: algebra_simps split: list.split)
qed

definition set_interval :: "int \<Rightarrow> UpdateMonitorRequest" where
  "set_interval n = \<lparr>ur_DisplayName = None, ur_Evaluators = None, ur_ClearLLMProvider = False,
     ur_IntervalMinutes = Some n, ur_TraceStart = None, ur_TraceEnd = None, ur_SamplingRate = None\<rparr>"

lemma hourly_fields [simp]:
  "mo_ID hourly = 7" "monitor_scope hourly = (''m'', ''o'', ''p'', ''a'')" "mo_Type hourly = MonitorTypeFuture"
  "mo_IntervalMinutes hourly = Some 60" "mo_NextRunTime hourly = Some (60 * minute_ns)" "mo_Evaluators hourly = [latency]"
  "mo_SamplingRate hourly = 1" "mo_OrgName hourly = ''o''"
  by (simp_all add: hourly_def monitor_scope_def)

lemma one_monitor_fields [simp]:
  "md_monitors (mt_db one_monitor) = [hourly]" "md_runs (mt_db one_monitor) = []" "md_mappings (mt_db one_monitor) = []"
  by (simp_all add: one_monitor_def)

lemma sample_named: "monitor_named (sample_manager i now) ''o'' ''p'' ''a'' ''m'' (mt_db one_monitor) = Inr hourly"
  by (simp add: monitor_named_def GetMonitorByName_def statement_def)

lemma sample_changed:
  "changed_monitor (sample_manager 1 0) hourly (set_interval 30) (mt_db one_monitor)
     = Inr (hourly\<lparr>mo_IntervalMinutes := Some 30\<rparr>)"
  by (simp add: changed_monitor_def checked_evaluators_def set_interval_def check_interval_def MinIntervalMinutes_def
      check_rate_def update_window_error_def or_else_def)

lemma sample_update:
  "\<exists>st' resp. UpdateMonitor (sample_manager 1 0) ''o'' ''p'' ''a'' ''m'' (set_interval 30) one_monitor = Some (st', Inr resp)"
proof -
  let ?m = "hourly\<lparr>mo_IntervalMinutes := Some 30\<rparr>"
  have "\<exists>db. UpdateMonitor_row sample_store 5 0 ?m (mt_db one_monitor) = Inr db"
    by (simp add: UpdateMonitor_row_def Let_def statement_def monitor_violation_def monitor_row_def sample_store_def)
  then obtain db where "UpdateMonitor_row sample_store 5 0 ?m (mt_db one_monitor) = Inr db" by blast
  then show ?thesis
    by (simp add: UpdateMonitor_def sample_named sample_changed save_monitor_def Let_def set_interval_def[of 30, THEN arg_cong[where f = ur_ClearLLMProvider]])
qed

theorem interval_change_shifts_window_witness:
  "\<exists>st' resp. UpdateMonitor (sample_manager 1 0) ''o'' ''p'' ''a'' ''m'' (set_interval 30) one_monitor = Some (st', Inr resp)
     \<and> (case scheduled_windows 7 [Op_Cycle (sample_cycle 2 (61 * minute_ns) (Inr ''Running''))] st' of [] \<Rightarrow> True
        | (s, e) # _ \<Rightarrow> s = (60 * minute_ns - 60 * minute_ns) + (60 - 30) * minute_ns)"
proof -
  obtain st' resp where up:
      "UpdateMonitor (sample_manager 1 0) ''o'' ''p'' ''a'' ''m'' (set_interval 30) one_monitor = Some (st', Inr resp)"
    using sample_update by blast
  have sc: "scheduled 7 (''m'', ''o'', ''p'', ''a'') 60 (60 * minute_ns) (mt_db one_monitor)"
    using hourly_scheduled by (simp add: hourly_def monitor_scope_def)
  have "case scheduled_windows 7 [Op_Cycle (sample_cycle 2 (61 * minute_ns) (Inr ''Running''))] st' of [] \<Rightarrow> True
        | (s, e) # _ \<Rightarrow> s = (60 * minute_ns - 60 * minute_ns) + (60 - 30) * minute_ns"
    by (rule interval_change_shifts_window[OF one_monitor_inv sc up _ _ _ micro_laws micro_hour])
      (use sample_cycle_steady in \<open>simp_all add: set_interval_def max_minutes_def\<close>)
  then show ?thesis using up by blast
qed

text \<open>The safety margin at the end of a window is the twentieth part of the interval in whole minutes, rounded
  down, for every interval of 32 bits, although it is computed in floating point: never more than 5 percent,
  and nothing at all for intervals below twenty minutes.\<close>

theorem safety_margin_is_a_twentieth:
  assumes "0 \<le> n" and "n < 2 ^ 31"
  shows "safety_delta n = n div 20 * minute_ns \<and> 20 * safety_delta n \<le> n * minute_ns \<and> (n < 20 \<longrightarrow> safety_delta n = 0)"
  using safety_delta_div[OF assms] assms by (auto simp: minute_ns_def)

theorem safety_margin_is_a_twentieth_witness:
  "safety_delta 60 = 3 * minute_ns \<and> safety_delta 19 = 0"
  using safety_margin_is_a_twentieth[of 60] safety_margin_is_a_twentieth[of 19] by simp

text \<open>C22. A due monitor is served by the next cycle that holds the lock and whose listing of the due monitors works,
  wherever it stands in the list and whatever becomes of the others: if its interval is at most max_minutes and its run can be prepared and the workflow run created, it has a run afterwards whose window
  begins an interval before the due time, is not empty and ends by now less the margin; its next time is
  the end of the window plus the interval, and lies ahead.\<close>

theorem due_monitor_is_served:
  assumes inv: "monitor_inv (mt_db st)" and go: "sc_locked env" "de_fault (ms_repo (sc_store env)) 1 = None"
    and k: "k < length (due_list env (mt_db st))" and m_eq: "m = due_list env (mt_db st) ! k"
    and m: "mo_IntervalMinutes m = Some minutes" "minutes \<le> max_minutes" "mo_NextRunTime m = Some due" "col due = due"
    and serve: "can_serve env k m minutes due name (mt_db st)"
    and fresh: "xe_newid (sc_exec env k) \<notin> mr_ID ` set (md_runs (mt_db st))"
      "\<And>j. j < k \<Longrightarrow> xe_newid (sc_exec env j) \<noteq> xe_newid (sc_exec env k)"
    and col: "column_laws col" "cycle_column col env" and clock: "sc_now env \<le> sc_triggered env k"
  shows "\<exists>r \<in> set (md_runs (mt_db (runSchedulerCycle env st))). \<exists>m' \<in> set (md_monitors (mt_db (runSchedulerCycle env st))).
    mr_MonitorID r = mo_ID m \<and> mr_Name r = name \<and> mr_TraceStart r = due - minutes * minute_ns
    \<and> mr_TraceStart r < mr_TraceEnd r \<and> mr_TraceEnd r = col (sc_triggered env k) - minutes div 20 * minute_ns
    \<and> mo_ID m' = mo_ID m \<and> mo_NextRunTime m' = Some (mr_TraceEnd r + minutes * minute_ns)
    \<and> col (sc_triggered env k) < mr_TraceEnd r + minutes * minute_ns"
proof -
  let ?db = "mt_db (runSchedulerCycle env st)" and ?e = "col (sc_triggered env k) - minutes div 20 * minute_ns"
  have inm: "m \<in> set (md_monitors (mt_db st))" "mo_Type m = MonitorTypeFuture" "due \<le> col (sc_now env)"
    using nth_mem[OF k] m(3) col(2) unfolding m_eq[symmetric] by (auto simp: due_list_def due_at_def cycle_column_def)
  have min: "5 \<le> minutes"
    using inv_rows(1)[OF inv inm(1)] inm(2) m(1) by (simp add: monitor_ok_def monitor_shape_def MinIntervalMinutes_def)
  have store: "ms_column (xe_store (sc_exec env k)) = col" using col(2) by (simp add: cycle_column_def)
  have shift: "col (t + j * minute_ns) = col t + j * minute_ns" for t j using col(1) by (simp add: column_laws_def)
  have delta: "safety_delta minutes = minutes div 20 * minute_ns" and int: "interval_of minutes = minutes * minute_ns"
    using safety_delta_div[of minutes] interval_exact[of minutes] min m(2) by (simp_all add: max_minutes_def)
  have e: "col (sc_triggered env k - safety_delta minutes) = ?e"
    using shift[of "sc_triggered env k" "- (minutes div 20)"] by (simp add: delta)
  have s: "col (due - interval_of minutes) = due - minutes * minute_ns"
    using shift[of due "- minutes"] m(4) by (simp add: int)
  have "col (sc_now env) \<le> col (sc_triggered env k)" using col(1) clock by (auto simp: column_laws_def mono_def)
  then have late: "due \<le> col (sc_triggered env k)" using inm(3) by simp
  note served = cycle_serves[OF inv go k m(1,3)[unfolded m_eq] serve[unfolded m_eq] fresh, folded m_eq]
  obtain r where r: "r \<in> set (md_runs ?db)" and steps: "run_step\<^sup>*\<^sup>* (scheduled_run env k m name minutes due) r"
    using served(1) by blast
  have fields: "mr_MonitorID r = mo_ID m" "mr_Name r = name" "mr_TraceStart r = due - minutes * minute_ns" "mr_TraceEnd r = ?e"
    using run_step_key[OF steps] by (simp_all add: scheduled_run_def store s e)
  have "mo_NextRunTime (rescheduled env k minutes m) = Some (?e + minutes * minute_ns)"
    using shift[of "sc_triggered env k - safety_delta minutes" minutes] by (simp add: rescheduled_def store int e)
  moreover have "minutes div 20 < minutes" using min by simp
  then have "due - minutes * minute_ns < ?e" "col (sc_triggered env k) < ?e + minutes * minute_ns"
    using late by (simp_all add: minute_ns_def)
  ultimately show ?thesis using r served(2) fields
    by (intro bexI[of _ r] bexI[of _ "rescheduled env k minutes m"]) simp_all
qed

lemma micro_minutes [simp]: "micro (n * minute_ns) = n * minute_ns"
  using micro_laws by (simp add: micro_def minute_ns_def)

lemma sample_due: "due_list (sample_cycle i (61 * minute_ns) s) (mt_db one_monitor) = [hourly]"
  by (simp add: due_list_def due_at_def) (simp add: minute_ns_def)

lemma sample_can_serve: "can_serve (sample_cycle i now s) 0 hourly 60 due ''wf'' (mt_db one_monitor)"
  using sample_prepares by (auto simp: can_serve_def) (simp add: sample_exec_def)

theorem due_monitor_is_served_witness:
  "\<exists>r \<in> set (md_runs (mt_db (runSchedulerCycle (sample_cycle 1 (61 * minute_ns) (Inr ''Running'')) one_monitor))).
     mr_MonitorID r = 7 \<and> mr_Name r = ''wf'' \<and> mr_TraceEnd r = 58 * minute_ns"
proof -
  let ?env = "sample_cycle 1 (61 * minute_ns) (Inr ''Running'')"
  have "60 \<le> max_minutes" by (simp add: max_minutes_def)
  from due_monitor_is_served[where env = ?env and st = one_monitor and k = 0 and m = hourly and minutes = 60
      and due = "60 * minute_ns" and col = micro and name = "''wf''", OF one_monitor_inv _ _ _ _ _ this]
  show ?thesis using sample_due[of 1 "Inr ''Running''"] sample_can_serve micro_laws
    by (auto simp: cycle_column_def)
qed

section \<open>The status of runs\<close>

text \<open>C24. Open runs can starve the others. A cycle looks at the hundred oldest open runs; when the status of each of
  these cannot be fetched (their workflow runs have been removed), nothing changes in any number of cycles:
  they stay open, the same hundred come first in every cycle, and an open run behind them is never looked
  at, whatever its workflow run reports.\<close>

theorem lost_runs_starve_the_rest:
  assumes "\<And>env r org. env \<in> set envs \<Longrightarrow> r \<in> set (take 100 (sort_key mr_CreatedAt (filter run_open (md_runs db))))
    \<Longrightarrow> \<exists>e. sc_status env org (mr_Name r) = Inl e"
  shows "fold (\<lambda>env db. fst (syncRunStatus env db)) envs db = db"
  using assms
proof (induction envs)
  case (Cons env envs)
  let ?rs = "take 100 (sort_key mr_CreatedAt (filter run_open (md_runs db)))"
  have "sync_each env k rs db = db" if "\<forall>r \<in> set rs. \<forall>org. \<exists>e. sc_status env org (mr_Name r) = Inl e" for rs k
    using that
  proof (induction rs arbitrary: k)
    case (Cons r rs)
    have "\<exists>e. sc_status env org (mr_Name r) = Inl e" for org using Cons.prems by simp
    then have "fst (syncSingleRunStatus env k r db) = db"
      unfolding syncSingleRunStatus_def Let_def by (auto split: sum.split option.split) (metis sum.distinct(1))+
    then show ?case using Cons by simp
  qed simp
  then have "sync_each env 0 ?rs db = db" using Cons.prems by (metis list.set_intros(1))
  then have "fst (syncRunStatus env db) = db"
    by (simp add: syncRunStatus_def ListPendingOrRunningRuns_def statement_def split: option.split)
  then show ?case using Cons by simp
qed simp

definition hundred_lost :: "MonitorRun list" where
  "hundred_lost = map (\<lambda>k. sample_run (of_nat k) (int k) (if k < 100 then ''lost'' else ''wf'') RunStatusPending) [0..<101]"

definition lost_cycle :: cycle_env where
  "lost_cycle = (sample_cycle 200 0 (Inr ''Succeeded''))
     \<lparr>sc_status := (\<lambda>_ name. if name = ''lost'' then Inl ErrRecordNotFound else Inr ''Succeeded'')\<rparr>"

lemma hundred_lost_sorted:
  "take 100 (sort_key mr_CreatedAt (filter run_open hundred_lost))
     = map (\<lambda>k. sample_run (of_nat k) (int k) ''lost'' RunStatusPending) [0..<100]"
proof -
  have "filter run_open hundred_lost = hundred_lost"
    by (rule filter_True) (auto simp: hundred_lost_def sample_run_def run_open_def)
  moreover have "map mr_CreatedAt hundred_lost = map int [0..<101]"
    by (simp add: hundred_lost_def sample_run_def o_def)
  then have "sort_key mr_CreatedAt hundred_lost = hundred_lost"
    by (intro sort_key_id_if_sorted) (simp add: sorted_map sorted_upt sorted_wrt_map)
  moreover have "take 100 [0..<101] = [0..<100::nat]" by (simp add: take_upt)
  ultimately show ?thesis by (simp add: hundred_lost_def take_map)
qed

theorem lost_runs_starve_the_rest_witness:
  "let db = fold (\<lambda>env db. fst (syncRunStatus env db)) [lost_cycle, lost_cycle] (mt_db (with_runs hundred_lost)) in
     \<exists>r \<in> set (md_runs db). run_open r \<and> (\<forall>org. sc_status lost_cycle org (mr_Name r) = Inr ''Succeeded'')"
proof -
  have "fold (\<lambda>env db. fst (syncRunStatus env db)) [lost_cycle, lost_cycle] (mt_db (with_runs hundred_lost))
      = mt_db (with_runs hundred_lost)"
  proof (rule lost_runs_starve_the_rest)
    fix env r org
    assume "env \<in> set [lost_cycle, lost_cycle]"
      and "r \<in> set (take 100 (sort_key mr_CreatedAt (filter run_open (md_runs (mt_db (with_runs hundred_lost))))))"
    then have "env = lost_cycle" "mr_Name r = ''lost''"
      using hundred_lost_sorted by (auto simp: with_runs_def sample_run_def)
    then show "\<exists>e. sc_status env org (mr_Name r) = Inl e" by (simp add: lost_cycle_def)
  qed
  moreover have "sample_run (of_nat 100) (int 100) ''wf'' RunStatusPending \<in> set hundred_lost"
    by (auto simp: hundred_lost_def intro!: image_eqI[of _ _ 100])
  ultimately show ?thesis
    by (auto simp: with_runs_def Let_def lost_cycle_def sample_run_def run_open_def intro!: bexI)
qed

section \<open>Operations of the service\<close>

text \<open>C23. An update can undo a stop. UpdateMonitor reads the monitor and later writes back every column: when the
  monitor is stopped in between, the stop succeeds and the monitor has no next time, but after the update
  it has the old one again and is scheduled.\<close>

theorem update_overwrites_stop:
  assumes "monitor_inv (mt_db st)" and "monitor_named env org project agent name (mt_db st) = Inr m"
    and "mo_NextRunTime m = Some due" and "changed_monitor env m req (mt_db st) = Inr m'"
    and "StopMonitor env2 org project agent name (mt_db st) = (db1, Inr resp1)"
    and "save_monitor env org m' req (st\<lparr>mt_db := db1\<rparr>) = Some (st', Inr resp2)"
  shows "(\<exists>x \<in> set (md_monitors db1). mo_ID x = mo_ID m \<and> mo_NextRunTime x = None)
    \<and> (\<exists>x \<in> set (md_monitors (mt_db st')). mo_ID x = mo_ID m \<and> mo_NextRunTime x = Some (ms_column (mm_store env) due))"
proof -
  have inm: "m \<in> set (md_monitors (mt_db st))" using monitor_named_Inr(1)[OF assms(2)] .
  have stopped: "\<exists>x \<in> set (md_monitors db1). mo_ID x = mo_ID m \<and> mo_NextRunTime x = None"
    by (rule stop_clears[OF assms(1) inm _ assms(5)]) (simp add: monitor_named_Inr(2)[OF assms(2)])
  have m': "mo_ID m' = mo_ID m" "mo_NextRunTime m' = Some due" "mo_Type m' = mo_Type m"
    using changed_shape(2-4)[OF assms(4)] inv_rows(1)[OF assms(1) inm] assms(3) by (auto simp: monitor_ok_def)
  have "mo_Type m' = MonitorTypeFuture"
    using inv_rows(1)[OF assms(1) inm] assms(3) m'(3) by (auto simp: monitor_ok_def monitor_shape_def)
  moreover have "mo_ID m' \<in> mo_ID ` set (md_monitors db1)" using stopped m'(1) by (metis image_eqI)
  ultimately obtain now where row: "monitor_row (mm_store env) (m'\<lparr>mo_UpdatedAt := now\<rparr>) \<in> set (md_monitors (mt_db st'))"
    using saved_row[OF assms(6)] by auto
  have "mo_ID (monitor_row (mm_store env) (m'\<lparr>mo_UpdatedAt := now\<rparr>)) = mo_ID m"
    "mo_NextRunTime (monitor_row (mm_store env) (m'\<lparr>mo_UpdatedAt := now\<rparr>)) = Some (ms_column (mm_store env) due)"
    using m'(1,2) by simp_all
  then show ?thesis using stopped row by blast
qed

theorem update_overwrites_stop_witness:
  "\<exists>m' db1 resp1 st' resp2.
     changed_monitor (sample_manager 1 0) hourly (set_interval 30) (mt_db one_monitor) = Inr m'
     \<and> StopMonitor (sample_manager 2 0) ''o'' ''p'' ''a'' ''m'' (mt_db one_monitor) = (db1, Inr resp1)
     \<and> save_monitor (sample_manager 1 0) ''o'' m' (set_interval 30) (one_monitor\<lparr>mt_db := db1\<rparr>) = Some (st', Inr resp2)
     \<and> (\<exists>x \<in> set (md_monitors (mt_db st')). mo_ID x = 7 \<and> mo_NextRunTime x = Some (60 * minute_ns))"
proof -
  let ?m = "hourly\<lparr>mo_IntervalMinutes := Some 30\<rparr>"
  let ?x = "hourly\<lparr>mo_NextRunTime := None, mo_UpdatedAt := micro 0\<rparr>"
  let ?db1 = "(mt_db one_monitor)\<lparr>md_monitors := [?x]\<rparr>"
  obtain resp1 where stop: "StopMonitor (sample_manager 2 0) ''o'' ''p'' ''a'' ''m'' (mt_db one_monitor) = (?db1, Inr resp1)"
    by (simp add: StopMonitor_def sample_named reschedule_def UpdateNextRunTime_def statement_def change_monitor_def
        GetMonitorByName_def) (simp add: monitor_scope_def hourly_def)
  obtain db2 where "UpdateMonitor_row sample_store 5 0 ?m ?db1 = Inr db2"
    by (simp add: UpdateMonitor_row_def Let_def statement_def monitor_violation_def monitor_row_def sample_store_def)
  then obtain st' resp2 where save: "save_monitor (sample_manager 1 0) ''o'' ?m (set_interval 30) (one_monitor\<lparr>mt_db := ?db1\<rparr>)
      = Some (st', Inr resp2)"
    by (simp add: save_monitor_def Let_def set_interval_def[of 30, THEN arg_cong[where f = ur_ClearLLMProvider]])
  show ?thesis
    using update_overwrites_stop[OF one_monitor_inv sample_named _ sample_changed stop save] sample_changed stop save
    by (auto intro!: exI)
qed

text \<open>C25. A request to create a monitor that names no LLM provider of its own (the requests modelled; one that does goes
  through the provisioning of a proxy, which is left out) always returns. When it fails the tables are as they were, also when
  the row was written and the run of a past monitor could not be started: the row is taken back, and stays only when
  the statement that takes it back fails. When it succeeds there is one more monitor, of the name and type asked for, and one
  more run exactly when it is a past monitor.\<close>

theorem failed_creation_leaves_no_rows:
  assumes inv: "monitor_inv (mt_db st)"
  shows "\<exists>st' r. CreateMonitor env org req st = Some (st', r) \<and> (case r of
      Inl e \<Rightarrow> mt_db st' = mt_db st
        \<or> cr_Type req = MonitorTypePast \<and> de_fault (ms_repo (mm_store env)) 8 \<noteq> None
          \<and> (\<exists>m. mt_db st' = (mt_db st)\<lparr>md_monitors := md_monitors (mt_db st) @ [m]\<rparr>)
    | Inr resp \<Rightarrow> \<exists>m runs. mo_Name m = cr_Name req \<and> mo_Type m = cr_Type req
        \<and> mt_db st' = (mt_db st)\<lparr>md_monitors := md_monitors (mt_db st) @ [m], md_runs := md_runs (mt_db st) @ runs\<rparr>
        \<and> length runs = (if cr_Type req = MonitorTypePast then 1 else 0))"
proof (cases "created_monitor env org req (mt_db st)")
  case (Inl e)
  then show ?thesis by (simp add: CreateMonitor_def)
next
  case (Inr p)
  obtain m db where p: "created_monitor env org req (mt_db st) = Inr (m, db)" using Inr by (cases p) simp
  note rows = created_rows[OF inv p]
  show ?thesis
  proof (cases "mo_Type m = MonitorTypePast")
    case False
    have "db = (mt_db st)\<lparr>md_monitors := md_monitors (mt_db st) @ [monitor_row (mm_store env) m],
        md_runs := md_runs (mt_db st) @ []\<rparr>"
      using rows(1) by simp
    then show ?thesis using p False rows(2-4) by (fastforce simp: CreateMonitor_def Let_def)
  next
    case True
    obtain s e where w: "mo_TraceStart m = Some s" "mo_TraceEnd m = Some e" using created_window[OF p True] by blast
    obtain st2 r2 where ex: "ExecuteMonitorRun (mm_exec env) 2 org m s e (mo_Evaluators m) (st\<lparr>mt_db := db\<rparr>) = (st2, r2)"
      by fastforce
    show ?thesis
      using ex
    proof (cases rule: execute_cases)
      case (added name run)
      have "mt_db st2 = (mt_db st)\<lparr>md_monitors := md_monitors (mt_db st) @ [monitor_row (mm_store env) m],
          md_runs := md_runs (mt_db st) @ [added_run (mm_exec env) m name s e (mo_Evaluators m)]\<rparr>"
        using added(4) rows(1) by simp
      then show ?thesis using p True w ex added(1) rows(2-4) by (fastforce simp: CreateMonitor_def Let_def run_past_def)
    next
      case (failed err)
      then show ?thesis
        using p True w ex taken_back[OF inv p] rows(1,4)
        by (cases "de_fault (ms_repo (mm_store env)) 8 = None") (auto simp: CreateMonitor_def Let_def run_past_def)
    qed
  qed
qed

definition create_past :: CreateMonitorRequest where
  "create_past = (create_hourly None)\<lparr>cr_Name := ''n'', cr_Type := MonitorTypePast, cr_TraceStart := Some 0,
     cr_TraceEnd := Some minute_ns\<rparr>"

definition failing_manager :: manager_env where
  "failing_manager = (sample_manager 9 minute_ns)
     \<lparr>mm_exec := (sample_exec 9 minute_ns)\<lparr>xe_workflow := (\<lambda>_ _. Inl (Database ''down''))\<rparr>\<rparr>"

lemma failing_created:
  "\<exists>m db. created_monitor failing_manager ''o'' create_past (mt_db one_monitor) = Inr (m, db)
     \<and> mo_Type m = MonitorTypePast \<and> mo_TraceStart m = Some 0 \<and> mo_TraceEnd m = Some minute_ns"
proof -
  have v: "validateCreateRequest minute_ns create_past = None"
    by (simp add: validateCreateRequest_def create_past_def create_hourly_def trace_window_error_def validateTraceWindow_def
        or_else_def check_interval_def check_rate_def minute_ns_def)
  have "validateEvaluators (\<lambda>_. Inr (''code'', [])) [latency] = Inr (False, [latency])"
    by (simp add: validateEvaluators_def validateAndApplyDefaults_def Let_def latency_def)
  then obtain m where m: "prepared_monitor failing_manager ''o'' create_past = Inr m"
    "mo_ID m = 9" "monitor_scope m = (''n'', ''o'', ''p'', ''a'')" "mo_Type m = MonitorTypePast" "mo_SamplingRate m = 1"
    "mo_TraceStart m = Some 0" "mo_TraceEnd m = Some minute_ns"
    using v by (simp add: prepared_monitor_def failing_manager_def sample_manager_def create_past_def create_hourly_def
        monitor_scope_def DefaultSamplingRate_def)
  have "insert_monitor (monitor_row sample_store (m\<lparr>mo_CreatedAt := minute_ns, mo_UpdatedAt := minute_ns\<rparr>)) (mt_db one_monitor)
    = Inr ((mt_db one_monitor)\<lparr>md_monitors := [hourly, monitor_row sample_store (m\<lparr>mo_CreatedAt := minute_ns, mo_UpdatedAt := minute_ns\<rparr>)]\<rparr>)"
    using m(2-5) by (simp add: insert_monitor_def monitor_violation_def) (simp add: monitor_row_def sample_store_def monitor_scope_def)
  then show ?thesis using m
    by (simp add: created_monitor_def CreateMonitor_row_def Let_def statement_def failing_manager_def)
qed

theorem failed_creation_leaves_no_rows_witness:
  "\<exists>st' e. CreateMonitor failing_manager ''o'' create_past one_monitor = Some (st', Inl e) \<and> mt_db st' = mt_db one_monitor"
proof -
  obtain m db where p: "created_monitor failing_manager ''o'' create_past (mt_db one_monitor) = Inr (m, db)"
      "mo_Type m = MonitorTypePast" "mo_TraceStart m = Some 0" "mo_TraceEnd m = Some minute_ns"
    using failing_created by blast
  have "\<exists>e. ExecuteMonitorRun (mm_exec failing_manager) 2 ''o'' m 0 minute_ns evs st = (st, Inl e)" for evs st
    by (simp add: ExecuteMonitorRun_def failing_manager_def split: sum.split)
  then obtain e where "ExecuteMonitorRun (mm_exec failing_manager) 2 ''o'' m 0 minute_ns (mo_Evaluators m)
      (one_monitor\<lparr>mt_db := db\<rparr>) = (one_monitor\<lparr>mt_db := db\<rparr>, Inl e)" by blast
  then have "\<exists>st'. CreateMonitor failing_manager ''o'' create_past one_monitor = Some (st', Inl e)"
    using p by (simp add: CreateMonitor_def Let_def run_past_def)
  moreover have "de_fault (ms_repo (mm_store failing_manager)) 8 = None" by (simp add: failing_manager_def sample_exec_def)
  ultimately show ?thesis
    using failed_creation_leaves_no_rows[OF one_monitor_inv, of failing_manager "''o''" create_past] by auto
qed

section \<open>What is handed to a job\<close>

text \<open>C26. A validated evaluator configuration has the types of its schema. Every entry belongs to a parameter and is a
  string (of the enumeration, if there is one), a whole number or a number within the bounds, a truth value
  or an array as the parameter says; every required parameter and every default is there; what was given is
  kept; validating again changes nothing.\<close>

theorem validated_config_is_typed:
  assumes "validateAndApplyDefaults idx identifier config schema = Inr config'"
  shows "(\<forall>(k, v) \<in> set config'. \<exists>p \<in> set schema. cp_Key p = k \<and> well_typed p v)
    \<and> (\<forall>p \<in> set schema. cp_Required p \<or> cp_Default p \<noteq> VNull \<longrightarrow> map_of config' (cp_Key p) \<noteq> None)
    \<and> (\<forall>k v. map_of config k = Some v \<longrightarrow> map_of config' k = Some v)
    \<and> validateAndApplyDefaults idx identifier config' schema = Inr config'"
proof -
  have filled: "apply_defaults (index_prefix idx) identifier schema config = Inr config'"
    using assms by (simp add: validate_Inr)
  show ?thesis
    using validated_typed[OF assms] validated_again[OF assms] apply_defaults_Inr(1,2)[OF filled] by auto
qed

definition threshold :: EvaluatorConfigParam where
  "threshold = \<lparr>cp_Key = ''threshold'', cp_Type = ''integer'', cp_Description = [], cp_Required = True,
     cp_Default = VF64 (Fin 3), cp_Min = Some (Fin 1), cp_Max = None, cp_EnumValues = []\<rparr>"

theorem validated_config_is_typed_witness:
  "validateAndApplyDefaults 0 ''x'' [] [threshold] = Inr [(''threshold'', VF64 (Fin 3))]
    \<and> (\<exists>p \<in> set [threshold]. cp_Key p = ''threshold'' \<and> well_typed p (VF64 (Fin 3)))"
proof -
  have three: "f64_to_int (Fin 3) = 3"
    using f64_to_int_of_int[of 3] by (simp add: in_int64_def min_int64_def max_int64_def)
  have "validateConfigValue pre threshold (VF64 (Fin 3)) = None" for pre
    using three by (simp add: validateConfigValue_def threshold_def checkMinMax_def del: f64_to_int.simps)
  then have v: "validateAndApplyDefaults 0 ''x'' [] [threshold] = Inr [(''threshold'', VF64 (Fin 3))]"
    by (simp add: validateAndApplyDefaults_def Let_def value_error_def schema_of_def)
      (simp add: threshold_def)
  show ?thesis using validated_config_is_typed[OF v] v by simp
qed

text \<open>The name of a workflow run is a DNS label, whatever the monitor is called: at most 63 lower case letters,
  digits and dashes without a dash at either end, as long as the run id begins with such characters.\<close>

theorem run_names_are_labels:
  assumes "list_all name_char (take 8 runID)" and "runID \<noteq> []" and "last (take 8 runID) \<noteq> CHR ''-''"
  shows "dns_label (buildWorkflowRunName monitorName runID)"
  using assms by (rule run_name_label)

theorem run_names_are_labels_witness:
  "dns_label (buildWorkflowRunName ''Spam & Toxicity'' ''0a1b2c3d-0000-4000-8000-000000000000'')"
  by (rule run_names_are_labels) (simp_all add: name_char_def byte_in_def)

end
