(* ===== verification/EvaluatorProperties.thy ===== *)
theory EvaluatorProperties
  imports EvaluatorRuns MonitorProperties
begin

text \<open>
  What custom evaluators promise: together with the monitors that use them, one at a time, in a search; and
  where requests that overlap break the promise. Each with a concrete instance.
\<close>

section \<open>A service to look at\<close>

definition sample_evaluators :: evaluator_env where
  "sample_evaluators = \<lparr>ee_store = sample_store, ee_now = 0, ee_newid = 3, ee_catalog = [latency_entry], ee_base = [],
     ee_entryID = (\<lambda>_. 1)\<rparr>"

definition toxic :: CustomEvaluator where
  "toxic = \<lparr>cu_ID = 3, cu_OrgName = ''o'', cu_Identifier = ''toxic'', cu_DisplayName = ''T'', cu_Description = [],
     cu_Version = ''1.0'', cu_Type = CustomEvaluatorTypeCode, cu_Level = ''trace'', cu_Source = ''s'', cu_ConfigSchema = [],
     cu_Tags = [], cu_CreatedAt = 0, cu_UpdatedAt = 0, cu_DeletedAt = None\<rparr>"

definition toxic_use :: MonitorEvaluator where
  "toxic_use = \<lparr>ev_Identifier = ''toxic'', ev_DisplayName = ''T'', ev_Config = []\<rparr>"

definition toxic_monitor :: Monitor where
  "toxic_monitor = hourly\<lparr>mo_Evaluators := [toxic_use]\<rparr>"

definition toxic_db :: monitor_db where
  "toxic_db = \<lparr>md_monitors = [toxic_monitor], md_runs = [], md_mappings = [], md_proxies = []\<rparr>"

definition toxic_state :: evaluation_state where
  "toxic_state = \<lparr>vs_monitors = \<lparr>mt_db = toxic_db, mt_calls = []\<rparr>, vs_customs = [toxic]\<rparr>"

lemma sample_evaluators_simps [simp]:
  "de_fault (ee_repo sample_evaluators) n = None" "ee_catalog sample_evaluators = [latency_entry]"
  by (simp_all add: sample_evaluators_def)

lemma toxic_key [simp]: "active_custom toxic" "custom_key toxic = (''o'', ''toxic'')" "cu_ID toxic = 3"
  by (simp_all add: toxic_def active_custom_def custom_key_def)

lemma toxic_inv: "custom_inv [latency_entry] [toxic]"
  by (simp add: custom_inv_def custom_ok_def toxic_def latency_entry_def catalog_Get_def flip: identifier_slug)
    (simp add: alnum_char_def byte_in_def)

lemma toxic_state_inv: "evaluation_inv [latency_entry] toxic_state"
  using toxic_inv one_monitor_inv
  by (simp add: evaluation_inv_def toxic_state_def toxic_db_def toxic_monitor_def monitor_inv_def one_monitor_def
      monitor_ok_def monitor_shape_def monitor_scope_def evaluators_known_def evaluated_def known_evaluator_def
      toxic_use_def hourly_def)

section \<open>Monitors and evaluators together\<close>

text \<open>C27. A monitor never loses an evaluator. Whatever the sequence of operations on monitors and on custom
  evaluators and of scheduler cycles, with whatever failing statements: ids, and the identifiers of an
  organization's evaluators that are not deleted, are unique; identifiers are slugs that no built-in
  evaluator has; and an evaluator of a monitor is built in or one of the custom evaluators of its
  organization that are not deleted.\<close>

theorem evaluators_stay_known:
  "let st = fold (evaluation_exec entries) ops (no_evaluations proxies); customs = vs_customs st in
     distinct (map cu_ID customs) \<and> distinct (map custom_key (filter active_custom customs))
     \<and> (\<forall>c \<in> set customs. IdentifierRegex (cu_Identifier c) \<and> catalog_Get entries (cu_Identifier c) = None)
     \<and> (\<forall>m \<in> set (md_monitors (mt_db (vs_monitors st))). \<forall>e \<in> set (mo_Evaluators m).
          catalog_Get entries (ev_Identifier e) \<noteq> None
          \<or> (\<exists>c \<in> set customs. cu_DeletedAt c = None \<and> cu_OrgName c = mo_OrgName m \<and> cu_Identifier c = ev_Identifier e))"
proof -
  have inv: "evaluation_inv entries (fold (evaluation_exec entries) ops (no_evaluations proxies))"
    by (rule evaluation_system.run_inv[OF no_evaluations_inv])
  then show ?thesis
    unfolding Let_def evaluation_inv_def custom_inv_def evaluators_known_def evaluated_def known_evaluator_def custom_ok_def
      identifier_slug
    by (fastforce simp: custom_key_def active_custom_def)
qed

definition create_toxic :: CreateCustomEvaluatorRequest where
  "create_toxic = \<lparr>cq_Identifier = ''toxic'', cq_DisplayName = ''T'', cq_Description = [], cq_Type = CustomEvaluatorTypeCode,
     cq_Level = ''trace'', cq_Source = ''s'', cq_ConfigSchema = [], cq_Tags = []\<rparr>"

theorem evaluators_stay_known_witness:
  "distinct (map custom_key (filter active_custom (vs_customs (fold (evaluation_exec [latency_entry])
     [Op_CreateEvaluator sample_evaluators ''o'' create_toxic, Op_CreateEvaluator sample_evaluators ''o'' create_toxic,
      Op_Monitors (\<lambda>_. sample_evaluators) (Op_CreateMonitor (sample_manager 7 0) ''o'' (create_hourly (Some 60)))]
     (no_evaluations [])))))"
  using evaluators_stay_known[of "[latency_entry]" "[Op_CreateEvaluator sample_evaluators ''o'' create_toxic,
    Op_CreateEvaluator sample_evaluators ''o'' create_toxic,
    Op_Monitors (\<lambda>_. sample_evaluators) (Op_CreateMonitor (sample_manager 7 0) ''o'' (create_hourly (Some 60)))]" "[]"]
  unfolding Let_def by blast

text \<open>C28. So the runs of a monitor get their evaluators. After any sequence of operations, the list of evaluators
  of any monitor is turned into the descriptions for a job, unless the database fails or a configured value
  is one that JSON cannot express. What this rests on: every built-in LLM judge has a prompt template.\<close>

theorem monitor_evaluators_resolve:
  assumes "evaluation_inv entries st" and "judges_have_prompts entries" and "de_fault (ee_repo env) 1 = None"
    and "m \<in> set (md_monitors (mt_db (vs_monitors (fold (evaluation_exec entries) ops st))))"
  defines "customs \<equiv> vs_customs (fold (evaluation_exec entries) ops st)"
  shows "serializeEvaluators entries (\<lambda>is. ResolveCustomEvaluators env (mo_OrgName m) is customs) (mo_Evaluators m) templateHandle
      \<in> {Inl (Errorf ''failed to serialize evaluators: %w'' [])} \<union> range Inr"
proof -
  have "evaluation_inv entries (fold (evaluation_exec entries) ops st)"
    by (rule evaluation_system.run_inv[OF assms(1)])
  then have "known_evaluator entries customs (mo_OrgName m) (ev_Identifier e)" if "e \<in> set (mo_Evaluators m)" for e
    using that assms(4) by (auto simp: evaluation_inv_def evaluators_known_def evaluated_def customs_def)
  then show ?thesis using known_serialize[OF assms(2,3), of "mo_Evaluators m" customs "mo_OrgName m" templateHandle] by blast
qed

theorem monitor_evaluators_resolve_witness:
  "serializeEvaluators [latency_entry] (\<lambda>is. ResolveCustomEvaluators sample_evaluators ''o'' is [toxic]) [toxic_use] []
     \<in> {Inl (Errorf ''failed to serialize evaluators: %w'' [])} \<union> range Inr"
proof -
  have "judges_have_prompts [latency_entry]" by (simp add: judges_have_prompts_def latency_entry_def)
  moreover have "toxic_monitor \<in> set (md_monitors (mt_db (vs_monitors (fold (evaluation_exec [latency_entry]) [] toxic_state))))"
    by (simp add: toxic_state_def toxic_db_def)
  ultimately show ?thesis
    using monitor_evaluators_resolve[OF toxic_state_inv, of sample_evaluators toxic_monitor "[]" "[]"]
    by (simp add: toxic_state_def toxic_monitor_def hourly_def)
qed

section \<open>One evaluator\<close>

text \<open>C29. Deleting a custom evaluator, on every branch. The answer is decided in this order: an error when the lookup
  fails, not found unless the evaluator is there and not deleted, an error when the search for monitors fails, in use when a
  monitor of the organization names it, an error when the write fails, and success. Unless it succeeds nothing is
  changed; when it does, the evaluator is not found by any later lookup whose statement works, and every other
  lookup answers as before, also one that fails.\<close>

theorem deleting_an_evaluator:
  assumes inv: "custom_inv entries db" and res: "DeleteCustomEvaluator env org i mdb db = (db', r)"
  shows "r = (case de_fault (ee_repo env) 1 of
        Some f \<Rightarrow> Inl (Wrapf ''failed to get custom evaluator: %w'' [] (Database f))
      | None \<Rightarrow>
          if \<forall>c \<in> set db. cu_DeletedAt c \<noteq> None \<or> cu_OrgName c \<noteq> org \<or> cu_Identifier c \<noteq> i
          then Inl ErrCustomEvaluatorNotFound
          else (case de_fault (ee_repo env) 2 of
              Some f \<Rightarrow> Inl (Wrapf ''failed to check evaluator usage: %w'' [] (Database f))
            | None \<Rightarrow>
                if \<exists>m \<in> set (md_monitors mdb). mo_OrgName m = org \<and> i \<in> ev_Identifier ` set (mo_Evaluators m)
                then Inl ErrCustomEvaluatorInUse
                else (case de_fault (ee_repo env) 3 of
                    Some f \<Rightarrow> Inl (Wrapf ''failed to delete custom evaluator: %w'' [] (Database f))
                  | None \<Rightarrow> Inr ())))
    \<and> (r \<noteq> Inr () \<longrightarrow> db' = db)
    \<and> GetCustomEvaluator env' org' j db' =
        (if r = Inr () \<and> org' = org \<and> j = i \<and> de_fault (ee_repo env') 1 = None then Inl ErrCustomEvaluatorNotFound
         else GetCustomEvaluator env' org' j db)"
proof (intro conjI impI)
  note result = delete_result[OF inv res]
  have "has_custom db org i \<longleftrightarrow> \<not> (\<forall>c \<in> set db. cu_DeletedAt c \<noteq> None \<or> cu_OrgName c \<noteq> org \<or> cu_Identifier c \<noteq> i)"
    by (auto simp: has_custom_def active_custom_def custom_key_def)
  with result(1) show "r = (case de_fault (ee_repo env) 1 of
        Some f \<Rightarrow> Inl (Wrapf ''failed to get custom evaluator: %w'' [] (Database f))
      | None \<Rightarrow>
          if \<forall>c \<in> set db. cu_DeletedAt c \<noteq> None \<or> cu_OrgName c \<noteq> org \<or> cu_Identifier c \<noteq> i
          then Inl ErrCustomEvaluatorNotFound
          else (case de_fault (ee_repo env) 2 of
              Some f \<Rightarrow> Inl (Wrapf ''failed to check evaluator usage: %w'' [] (Database f))
            | None \<Rightarrow>
                if \<exists>m \<in> set (md_monitors mdb). mo_OrgName m = org \<and> i \<in> ev_Identifier ` set (mo_Evaluators m)
                then Inl ErrCustomEvaluatorInUse
                else (case de_fault (ee_repo env) 3 of
                    Some f \<Rightarrow> Inl (Wrapf ''failed to delete custom evaluator: %w'' [] (Database f))
                  | None \<Rightarrow> Inr ())))"
    by (simp only: deletion_answer_def used_by_def not_not)
  show "db' = db" if "r \<noteq> Inr ()" using result(2)[OF that] .
  show "GetCustomEvaluator env' org' j db' =
      (if r = Inr () \<and> org' = org \<and> j = i \<and> de_fault (ee_repo env') 1 = None then Inl ErrCustomEvaluatorNotFound
       else GetCustomEvaluator env' org' j db)"
  proof (cases "de_fault (ee_repo env') 1")
    case (Some f)
    then show ?thesis by (simp add: GetCustomEvaluator_def failing_statements(1))
  next
    case None
    then show ?thesis
      using result(2,3) custom_named_removed[OF inv _ _ _ _ None, of _ org i env db' org' j]
      by (cases "r = Inr ()") (auto simp: GetCustomEvaluator_def)
  qed
qed

text \<open>The evaluators above, with a repository whose third statement fails.\<close>

definition failing_evaluators :: evaluator_env where
  "failing_evaluators = sample_evaluators\<lparr>ee_store := sample_store\<lparr>ms_repo := (ms_repo sample_store)
     \<lparr>de_fault := (\<lambda>n. if n = 3 then Some ''down'' else None)\<rparr>\<rparr>\<rparr>"

theorem deleting_an_evaluator_witness:
  "snd (DeleteCustomEvaluator sample_evaluators ''o'' ''toxic'' toxic_db [toxic]) = Inl ErrCustomEvaluatorInUse
   \<and> snd (DeleteCustomEvaluator sample_evaluators ''o'' ''toxic'' (toxic_db\<lparr>md_monitors := []\<rparr>) [toxic]) = Inr ()
   \<and> fst (DeleteCustomEvaluator failing_evaluators ''o'' ''toxic'' (toxic_db\<lparr>md_monitors := []\<rparr>) [toxic]) = [toxic]"
proof -
  note del = deleting_an_evaluator[OF toxic_inv surjective_pairing]
  have "snd (DeleteCustomEvaluator failing_evaluators ''o'' ''toxic'' (toxic_db\<lparr>md_monitors := []\<rparr>) [toxic]) \<noteq> Inr ()"
    using del[THEN conjunct1, of failing_evaluators "''o''" "''toxic''" "toxic_db\<lparr>md_monitors := []\<rparr>"]
    by (simp add: failing_evaluators_def toxic_def)
  moreover note del[THEN conjunct2, THEN conjunct1, of failing_evaluators "''o''" "''toxic''" "toxic_db\<lparr>md_monitors := []\<rparr>"]
  ultimately show ?thesis
    using del[THEN conjunct1, of sample_evaluators "''o''" "''toxic''" toxic_db]
      del[THEN conjunct1, of sample_evaluators "''o''" "''toxic''" "toxic_db\<lparr>md_monitors := []\<rparr>"]
    by (simp add: toxic_def toxic_db_def toxic_monitor_def toxic_use_def hourly_def)
qed

text \<open>What was created is found. The response to a creation is the one that a later request for the evaluator
  gets, and it shows what was asked for, under the identifier of the request or the one made of its name.\<close>

theorem created_evaluator_is_found:
  assumes "custom_inv (ee_catalog env) db" and "CreateCustomEvaluator env org req db = (db', Inr r)"
    and "de_fault (ee_repo env') 1 = None" and "ee_base env' = ee_base env"
  shows "GetCustomEvaluator env' org (er_Identifier r) db' = Inr r
    \<and> er_Identifier r = (if cq_Identifier req = [] then slugify (cq_DisplayName req) else cq_Identifier req)
    \<and> er_DisplayName r = cq_DisplayName req \<and> er_Source r = cq_Source req \<and> er_Type r = cq_Type req
    \<and> er_Level r = cq_Level req \<and> er_Tags r = cq_Tags req \<and> er_Version r = ''1.0'' \<and> \<not> er_IsBuiltin r"
proof -
  define i where "i = (if cq_Identifier req = [] then slugify (cq_DisplayName req) else cq_Identifier req)"
  obtain c where create: "custom_Create env 1 (new_custom org i req) db = Inr (c, db')"
    and r: "r = ToEvaluatorResponse (ee_base env) c"
    using assms(2) unfolding CreateCustomEvaluator_def Let_def i_def[symmetric]
    by (auto split: if_splits sum.splits prod.splits)
  note row = custom_Create_Inr[OF create]
  have "custom_key c = (org, i)" "active_custom c"
    using row(4,5) by (simp_all add: custom_key_def new_custom_def active_custom_def)
  then have key: "custom_key (custom_row env c) = (org, i)" "active_custom (custom_row env c)" by simp_all
  have "custom_inv (ee_catalog env) db'" by (rule Create_custom_inv[OF assms(2,1)])
  then have "custom_named env' org i db' = Inr (custom_row env c)"
    using key row(1) by (intro custom_named_found[OF _ assms(3)]) simp_all
  moreover have "er_Identifier r = i" by (simp add: r row(6) ToEvaluatorResponse_def Let_def new_custom_def)
  ultimately show ?thesis
    by (simp add: GetCustomEvaluator_def assms(4) r) (simp add: i_def row(6) ToEvaluatorResponse_def Let_def new_custom_def)
qed

theorem created_evaluator_is_found_witness:
  "\<exists>r. GetCustomEvaluator sample_evaluators ''o'' ''toxic'' (fst (CreateCustomEvaluator sample_evaluators ''o'' create_toxic []))
     = Inr r \<and> er_Source r = ''s''"
proof -
  have id: "IdentifierRegex ''toxic''" by (simp add: alnum_char_def byte_in_def)
  have "custom_inv (ee_catalog sample_evaluators) []" by (simp add: custom_inv_def)
  moreover obtain db r where "CreateCustomEvaluator sample_evaluators ''o'' create_toxic [] = (db, Inr r)"
    using id by (simp add: CreateCustomEvaluator_def Let_def create_toxic_def custom_Create_def sample_evaluators_def
        latency_entry_def catalog_Get_def new_custom_def custom_violation_def statement_def active_custom_def
        del: IdentifierRegex.simps)
  ultimately show ?thesis
    using created_evaluator_is_found[of sample_evaluators "[]" "''o''" create_toxic db r sample_evaluators]
    by (auto simp: create_toxic_def)
qed

text \<open>The identifier made of a display name is at most 128 lower case letters, digits and dashes with no dash
  at either end, and creation accepts it exactly when it has no two dashes in a row; a name whose words are
  already joined by a spaced dash gives such a pair.\<close>

theorem slugs_without_double_dash:
  "slugify name \<noteq> [] \<and> length (slugify name) \<le> 128 \<and> list_all name_char (slugify name)
   \<and> hd (slugify name) \<noteq> CHR ''-'' \<and> last (slugify name) \<noteq> CHR ''-''
   \<and> (IdentifierRegex (slugify name) \<longleftrightarrow> \<not> sublist ''--'' (slugify name))
   \<and> slugify ''a - b'' = ''a---b'' \<and> \<not> IdentifierRegex (slugify ''a - b'')"
proof -
  have "lead_space ''a - b'' = 0" "trail_space ''a - b'' = 0"
    by (simp_all add: lead_space_0 trail_space_0 space_runes_def suffix_to_prefix)
  then have "trim_space ''a - b'' = ''a - b''" by (simp add: trim_space_def trim_left.simps trim_right.simps)
  moreover have "to_lower ''a - b'' = ''a - b''" by (simp add: lower_char_def less_eq_char_def)
  moreover have "replace_runs ''a - b'' = ''a---b''" by (simp add: name_char_def byte_in_def)
  ultimately have ab: "slugify ''a - b'' = ''a---b''" by (simp add: slugify_def trim_dashes_def)
  show ?thesis
    using slugify_shape[of name] slugify_slug[of name] by (simp add: identifier_slug ab) (simp add: slug_def double_Cons)
qed

section \<open>Searching\<close>

text \<open>C30. A search finds the texts that contain it: whatever characters the request has, among them percent signs,
  underscores and backslashes, the pattern sent to the database matches exactly the texts of which it is a
  part, up to the case of ASCII letters.\<close>

theorem search_finds_substrings:
  "custom_matches org f c \<longleftrightarrow>
     cu_OrgName c = org \<and> cu_DeletedAt c = None
     \<and> (cuf_Type f = [] \<or> cu_Type c = cuf_Type f) \<and> (cuf_Level f = [] \<or> cu_Level c = cuf_Level f)
     \<and> (cuf_Search f = [] \<or> (\<exists>t \<in> {cu_Identifier c, cu_DisplayName c, cu_Description c}.
          sublist (map lower_char (cuf_Search f)) (map lower_char t)))
     \<and> set (cuf_Tags f) \<subseteq> set (cu_Tags c)"
  unfolding custom_matches_def Let_def ilike_contains active_custom_def by (auto simp: list_all_iff)

section \<open>Overlapping requests\<close>

text \<open>C31. The check before a deletion can be overtaken. Once the check has passed, a monitor of the organization
  that takes the evaluator into use before the row is marked is left with it: every run of such a list of
  evaluators fails, although no operation after the deletion touched it.\<close>

theorem late_use_breaks_runs:
  assumes "custom_inv entries db" and "deletable env org i mdb db = Inr c"
    and "remove_custom env c db = (db', Inr ())" and "m \<in> set (md_monitors mdb')" and "mo_OrgName m = org"
    and "i \<in> ev_Identifier ` set (mo_Evaluators m)"
  shows "\<exists>err. serializeEvaluators entries (\<lambda>is. ResolveCustomEvaluators env' (mo_OrgName m) is db') (mo_Evaluators m) templateHandle
     = Inl err"
  using assms late_use_is_lost[OF assms(1-3)] by auto

theorem late_use_breaks_runs_witness:
  "\<exists>db' err. remove_custom sample_evaluators toxic [toxic] = (db', Inr ())
     \<and> serializeEvaluators [latency_entry] (\<lambda>is. ResolveCustomEvaluators sample_evaluators ''o'' is db') [toxic_use] [] = Inl err"
proof -
  have del: "deletable sample_evaluators ''o'' ''toxic'' (toxic_db\<lparr>md_monitors := []\<rparr>) [toxic] = Inr toxic"
    using deletable_result[OF custom_named_found[OF toxic_inv], of sample_evaluators toxic "''o''" "''toxic''" "toxic_db\<lparr>md_monitors := []\<rparr>"]
    by (simp add: used_by_def)
  obtain db' where rem: "remove_custom sample_evaluators toxic [toxic] = (db', Inr ())"
    using remove_succeeds[OF toxic_inv, of toxic sample_evaluators] by (metis list.set_intros(1) prod.collapse sample_evaluators_simps(1))
  have "\<exists>err. serializeEvaluators [latency_entry] (\<lambda>is. ResolveCustomEvaluators sample_evaluators (mo_OrgName toxic_monitor) is db')
      (mo_Evaluators toxic_monitor) [] = Inl err"
    by (rule late_use_breaks_runs[OF toxic_inv del rem, of toxic_monitor toxic_db])
      (simp_all add: toxic_db_def toxic_monitor_def hourly_def toxic_use_def)
  then show ?thesis using rem by (simp add: toxic_monitor_def hourly_def)
qed

end
