(* ===== verification/LlmStore.thy ===== *)
theory LlmStore
  imports ProxyService
begin

text \<open>
  The repositories of artifacts, LLM providers, LLM proxies and API keys
  (\<open>artifact_repository.go\<close>, \<open>llm_provider_repository.go\<close>, \<open>llm_proxy_repository.go\<close>,
  \<open>apikey_repository.go\<close> under \<open>agent-manager-service/repositories\<close>) on their tables, beside the deployment
  tables of theory \<open>DeployRepo\<close>, which refer to artifacts.

  The constraints are those of the migrations 003, 004 and 011, without the lengths of texts; deletions
  cascade as they declare, but for tables that no operation here reads. A violated constraint is a
  \<open>PgError\<close> with its code and name. Statements are numbered and may fail as in theory \<open>DeployRepo\<close>. Rows
  created at the same time keep the order of the table. A configuration read from its column is the one
  that was stored.
\<close>

section \<open>Rows and tables\<close>

record Artifact =
  af_UUID :: uuid
  af_Handle :: string
  af_Name :: string
  af_Version :: string
  af_Kind :: string
  af_OrganizationName :: string
  af_InCatalog :: bool
  af_CreatedAt :: int
  af_UpdatedAt :: int

definition KindLLMProvider :: string where "KindLLMProvider = ''LlmProvider''"
definition KindLLMProxy :: string where "KindLLMProxy = ''LlmProxy''"

text \<open>A row of \<open>llm_providers\<close>; what the deployments read of it is an \<open>LLMProvider\<close>.\<close>

record provider_row =
  lp_UUID :: uuid
  lp_Description :: string
  lp_CreatedBy :: string
  lp_TemplateHandle :: string
  lp_OpenAPISpec :: string
  lp_ModelList :: string
  lp_Status :: string
  lp_Configuration :: LLMProviderConfig

record LLMProxy =
  lx_UUID :: uuid
  lx_ProjectUUID :: uuid
  lx_Description :: string
  lx_CreatedBy :: string
  lx_ProviderUUID :: uuid
  lx_OpenAPISpec :: string
  lx_Status :: string
  lx_Configuration :: LLMProxyConfig

record StoredAPIKey =
  sk_UUID :: uuid
  sk_Name :: string
  sk_ArtifactUUID :: uuid
  sk_OrganizationName :: string
  sk_APIKeyHash :: string
  sk_MaskedAPIKey :: string
  sk_Status :: string
  sk_CreatedAt :: int
  sk_UpdatedAt :: int
  sk_ExpiresAt :: "int option"

text \<open>The keys of artifacts that \<open>lb_deploy\<close> refers to are those of \<open>lb_artifacts\<close>.\<close>

record llm_db =
  lb_artifacts :: "Artifact list"
  lb_providers :: "provider_row list"
  lb_proxies :: "LLMProxy list"
  lb_keys :: "StoredAPIKey list"
  lb_deploy :: deploy_db

definition deploy_view :: "llm_db \<Rightarrow> deploy_db" where
  "deploy_view db = (lb_deploy db)\<lparr>db_artifacts := map af_UUID (lb_artifacts db)\<rparr>"

definition has_uuid :: "uuid \<Rightarrow> llm_db \<Rightarrow> bool" where
  "has_uuid u db \<longleftrightarrow> u \<in> set (map af_UUID (lb_artifacts db))"

section \<open>Artifacts\<close>

definition insert_artifact :: "Artifact \<Rightarrow> llm_db \<Rightarrow> deploy_error + llm_db" where
  "insert_artifact a db =
     (if has_uuid (af_UUID a) db then Inl (PgError ''23505'' ''artifacts_pkey'')
      else if list_ex (\<lambda>b. af_Handle b = af_Handle a \<and> af_OrganizationName b = af_OrganizationName a) (lb_artifacts db)
      then Inl (PgError ''23505'' ''uq_artifact_handle_org'')
      else if list_ex (\<lambda>b. af_Name b = af_Name a \<and> af_Version b = af_Version a
          \<and> af_OrganizationName b = af_OrganizationName a) (lb_artifacts db)
      then Inl (PgError ''23505'' ''uq_artifact_name_version_org'')
      else Inr (db\<lparr>lb_artifacts := lb_artifacts db @ [a]\<rparr>))"

definition artifact_Create :: "deploy_env \<Rightarrow> nat \<Rightarrow> int \<Rightarrow> Artifact \<Rightarrow> llm_db \<Rightarrow> deploy_error + llm_db" where
  "artifact_Create env n now a db =
     statement env n (insert_artifact (a\<lparr>af_CreatedAt := now, af_UpdatedAt := now\<rparr>) db)"

text \<open>
  Deleting an artifact deletes its deployments, their states, its API keys and its row in the other two
  tables, unless that is a provider with proxies.
\<close>

definition delete_artifact_deploy :: "uuid \<Rightarrow> deploy_db \<Rightarrow> deploy_db" where
  "delete_artifact_deploy u db =
     (let db' = fold delete_deployment
            (map dp_DeploymentID (filter (\<lambda>d. dp_ArtifactUUID d = u) (db_deployments db))) db
      in db'\<lparr>db_status := filter (\<lambda>s. sr_ArtifactUUID s \<noteq> u) (db_status db')\<rparr>)"

definition has_proxies :: "uuid \<Rightarrow> llm_db \<Rightarrow> bool" where
  "has_proxies u db \<longleftrightarrow> u \<in> set (map lp_UUID (lb_providers db)) \<and> u \<in> set (map lx_ProviderUUID (lb_proxies db))"

definition remove_artifact :: "uuid \<Rightarrow> llm_db \<Rightarrow> llm_db" where
  "remove_artifact u db =
     \<lparr>lb_artifacts = filter (\<lambda>a. af_UUID a \<noteq> u) (lb_artifacts db),
      lb_providers = filter (\<lambda>p. lp_UUID p \<noteq> u) (lb_providers db),
      lb_proxies = filter (\<lambda>p. lx_UUID p \<noteq> u) (lb_proxies db),
      lb_keys = filter (\<lambda>k. sk_ArtifactUUID k \<noteq> u) (lb_keys db),
      lb_deploy = delete_artifact_deploy u (lb_deploy db)\<rparr>"

definition artifact_Delete :: "deploy_env \<Rightarrow> nat \<Rightarrow> string \<Rightarrow> llm_db \<Rightarrow> deploy_error + llm_db" where
  "artifact_Delete env n i db =
     statement env n
       (andThen (cast_uuid env i)
         (\<lambda>u. if has_proxies u db then Inl (PgError ''23503'' ''fk_llm_proxy_provider'')
            else if has_uuid u db then Inr (remove_artifact u db)
            else Inl ErrRecordNotFound))"

text \<open>The two updates of an artifact set its time and, the second one, its flag.\<close>

definition update_artifact :: "uuid \<Rightarrow> string \<Rightarrow> (Artifact \<Rightarrow> Artifact) \<Rightarrow> llm_db \<Rightarrow> deploy_error + llm_db" where
  "update_artifact u org f db =
     (let hit = (\<lambda>a. af_UUID a = u \<and> af_OrganizationName a = org) in
      if list_ex hit (lb_artifacts db)
      then Inr (db\<lparr>lb_artifacts := map (\<lambda>a. if hit a then f a else a) (lb_artifacts db)\<rparr>)
      else Inl ErrRecordNotFound)"

definition artifact_Update :: "deploy_env \<Rightarrow> nat \<Rightarrow> int \<Rightarrow> Artifact \<Rightarrow> llm_db \<Rightarrow> deploy_error + llm_db" where
  "artifact_Update env n now a db =
     statement env n (update_artifact (af_UUID a) (af_OrganizationName a) (\<lambda>b. b\<lparr>af_UpdatedAt := now\<rparr>) db)"

definition repo_UpdateCatalogStatus ::
  "deploy_env \<Rightarrow> nat \<Rightarrow> int \<Rightarrow> string \<Rightarrow> string \<Rightarrow> bool \<Rightarrow> llm_db \<Rightarrow> deploy_error + llm_db" where
  "repo_UpdateCatalogStatus env n now i org inCatalog db =
     statement env n
       (andThen (cast_uuid env i)
         (\<lambda>u. update_artifact u org (\<lambda>a. a\<lparr>af_InCatalog := inCatalog, af_UpdatedAt := now\<rparr>) db))"

definition artifact_Exists :: "deploy_env \<Rightarrow> nat \<Rightarrow> string \<Rightarrow> string \<Rightarrow> string \<Rightarrow> llm_db \<Rightarrow> deploy_error + bool" where
  "artifact_Exists env n kind handle org db =
     statement env n (Inr (list_ex (\<lambda>a. af_Kind a = kind \<and> af_Handle a = handle \<and> af_OrganizationName a = org)
       (lb_artifacts db)))"

definition artifact_GetByHandle :: "deploy_env \<Rightarrow> nat \<Rightarrow> string \<Rightarrow> string \<Rightarrow> llm_db \<Rightarrow> deploy_error + Artifact" where
  "artifact_GetByHandle env n handle org db =
     map_sum (\<lambda>e. if error_is ErrRecordNotFound e then ErrArtifactNotFound else e) id
       (statement env n (first_row (find (\<lambda>a. af_Handle a = handle \<and> af_OrganizationName a = org) (lb_artifacts db))))"

definition CountByKindAndOrg :: "deploy_env \<Rightarrow> nat \<Rightarrow> string \<Rightarrow> string \<Rightarrow> llm_db \<Rightarrow> deploy_error + int" where
  "CountByKindAndOrg env n kind org db =
     statement env n (Inr (int (length (filter (\<lambda>a. af_Kind a = kind \<and> af_OrganizationName a = org) (lb_artifacts db)))))"

section \<open>Providers\<close>

text \<open>The join of a row with its artifact of the right kind.\<close>

definition provider_rows :: "llm_db \<Rightarrow> (Artifact \<times> provider_row) list" where
  "provider_rows db = concat (map (\<lambda>r. map (\<lambda>a. (a, r))
     (filter (\<lambda>a. af_UUID a = lp_UUID r \<and> af_Kind a = KindLLMProvider) (lb_artifacts db))) (lb_providers db))"

text \<open>\<open>LIMIT\<close> of \<open>gorm\<close> is left out when negative, \<open>OFFSET\<close> when not positive.\<close>

definition page :: "int \<Rightarrow> int \<Rightarrow> 'a list \<Rightarrow> 'a list" where
  "page limit offset xs = (if limit \<ge> 0 then take (nat limit) else id) (if offset > 0 then drop (nat offset) xs else xs)"

definition newest_rows :: "(Artifact \<times> 'a) list \<Rightarrow> (Artifact \<times> 'a) list" where
  "newest_rows rows = sort_key (\<lambda>(a, _). - af_CreatedAt a) rows"

definition insert_provider :: "provider_row \<Rightarrow> llm_db \<Rightarrow> deploy_error + llm_db" where
  "insert_provider p db =
     (if lp_UUID p \<in> set (map lp_UUID (lb_providers db)) then Inl (PgError ''23505'' ''llm_providers_pkey'')
      else if \<not> has_uuid (lp_UUID p) db then Inl (PgError ''23503'' ''fk_llm_provider_artifact'')
      else Inr (db\<lparr>lb_providers := lb_providers db @ [p]\<rparr>))"

text \<open>\<open>newid\<close> is what \<open>uuid.New\<close> draws; the two inserts are one transaction.\<close>

definition provider_repo_Create ::
  "deploy_env \<Rightarrow> nat \<Rightarrow> uuid \<Rightarrow> int \<Rightarrow> provider_row \<Rightarrow> string \<Rightarrow> string \<Rightarrow> string \<Rightarrow> string \<Rightarrow> llm_db \<Rightarrow>
   deploy_error + (provider_row \<times> llm_db)" where
  "provider_repo_Create env n newid now p handle name version org db =
     (let p = (if lp_UUID p = 0 then p\<lparr>lp_UUID := newid\<rparr> else p) in
      andThen (wrap_error ''failed to create artifact: %w''
          (artifact_Create env n now
            \<lparr>af_UUID = lp_UUID p, af_Handle = handle, af_Name = name, af_Version = version,
             af_Kind = KindLLMProvider, af_OrganizationName = org, af_InCatalog = True,
             af_CreatedAt = now, af_UpdatedAt = now\<rparr> db))
        (\<lambda>db. map_sum id (Pair p) (statement env (Suc n) (insert_provider p db))))"

definition llm_GetByUUID ::
  "deploy_env \<Rightarrow> nat \<Rightarrow> string \<Rightarrow> string \<Rightarrow> llm_db \<Rightarrow> deploy_error + (Artifact \<times> provider_row)" where
  "llm_GetByUUID env n providerID org db =
     statement env n
       (andThen (cast_uuid env providerID)
         (\<lambda>u. first_row (find (\<lambda>(a, _). af_UUID a = u \<and> af_OrganizationName a = org) (provider_rows db))))"

definition llm_GetByHandle ::
  "deploy_env \<Rightarrow> nat \<Rightarrow> string \<Rightarrow> string \<Rightarrow> llm_db \<Rightarrow> deploy_error + (Artifact \<times> provider_row)" where
  "llm_GetByHandle env n handle org db =
     statement env n
       (first_row (find (\<lambda>(a, _). af_Handle a = handle \<and> af_OrganizationName a = org) (provider_rows db)))"

definition provider_repo_List ::
  "deploy_env \<Rightarrow> nat \<Rightarrow> string \<Rightarrow> int \<Rightarrow> int \<Rightarrow> llm_db \<Rightarrow> deploy_error + (Artifact \<times> provider_row) list" where
  "provider_repo_List env n org limit offset db =
     statement env n (Inr (page limit offset
       (newest_rows (filter (\<lambda>(a, _). af_OrganizationName a = org) (provider_rows db)))))"

definition provider_repo_Count :: "deploy_env \<Rightarrow> nat \<Rightarrow> string \<Rightarrow> llm_db \<Rightarrow> deploy_error + int" where
  "provider_repo_Count env n org db = CountByKindAndOrg env n KindLLMProvider org db"

text \<open>The update looks at the key only, not at the organization.\<close>

definition set_provider :: "provider_row \<Rightarrow> provider_row \<Rightarrow> provider_row" where
  "set_provider p r = r\<lparr>lp_Description := lp_Description p, lp_TemplateHandle := lp_TemplateHandle p,
     lp_OpenAPISpec := lp_OpenAPISpec p, lp_ModelList := lp_ModelList p, lp_Status := lp_Status p,
     lp_Configuration := lp_Configuration p\<rparr>"

definition provider_repo_Update ::
  "deploy_env \<Rightarrow> nat \<Rightarrow> provider_row \<Rightarrow> string \<Rightarrow> llm_db \<Rightarrow> deploy_error + llm_db" where
  "provider_repo_Update env n p providerID db =
     (if ul_parse (de_uuid env) providerID = None
      then Inl (Errorf ''error parsing provider id: %s, error: %w'' [providerID])
      else andThen (wrap_error ''failed to update provider: %w'' (statement env n (cast_uuid env providerID)))
        (\<lambda>u. if u \<in> set (map lp_UUID (lb_providers db))
           then Inr (db\<lparr>lb_providers := map (\<lambda>r. if lp_UUID r = u then set_provider p r else r) (lb_providers db)\<rparr>)
           else Inl ErrRecordNotFound))"

definition provider_repo_Delete ::
  "deploy_env \<Rightarrow> nat \<Rightarrow> string \<Rightarrow> string \<Rightarrow> llm_db \<Rightarrow> deploy_error + llm_db" where
  "provider_repo_Delete env n providerID org db =
     (case ul_parse (de_uuid env) providerID of
        None \<Rightarrow> Inl (Errorf ''invalid provider UUID: %w'' [providerID])
      | Some u \<Rightarrow>
          andThen (statement env n (first_row (find (\<lambda>a. af_UUID a = u \<and> af_OrganizationName a = org
              \<and> af_Kind a = KindLLMProvider) (lb_artifacts db))))
            (\<lambda>_. andThen (statement env (n + 1)
                (if has_proxies u db then Inl ErrLLMProviderHasProxies
                 else Inr (db\<lparr>lb_providers := filter (\<lambda>p. lp_UUID p \<noteq> u) (lb_providers db)\<rparr>)))
              (\<lambda>db. artifact_Delete env (n + 2) (ul_show (de_uuid env) u) db)))"

definition provider_repo_Exists :: "deploy_env \<Rightarrow> nat \<Rightarrow> string \<Rightarrow> string \<Rightarrow> llm_db \<Rightarrow> deploy_error + bool" where
  "provider_repo_Exists env n providerID org db = artifact_Exists env n KindLLMProvider providerID org db"

section \<open>Proxies\<close>

definition proxy_rows :: "llm_db \<Rightarrow> (Artifact \<times> LLMProxy) list" where
  "proxy_rows db = concat (map (\<lambda>r. map (\<lambda>a. (a, r))
     (filter (\<lambda>a. af_UUID a = lx_UUID r \<and> af_Kind a = KindLLMProxy) (lb_artifacts db))) (lb_proxies db))"

definition getProxyUUIDByHandle :: "deploy_env \<Rightarrow> nat \<Rightarrow> string \<Rightarrow> string \<Rightarrow> llm_db \<Rightarrow> deploy_error + uuid" where
  "getProxyUUIDByHandle env n handle org db =
     statement env n (map_sum id af_UUID
       (first_row (find (\<lambda>a. af_Handle a = handle \<and> af_OrganizationName a = org \<and> af_Kind a = KindLLMProxy)
         (lb_artifacts db))))"

definition insert_proxy :: "LLMProxy \<Rightarrow> llm_db \<Rightarrow> deploy_error + llm_db" where
  "insert_proxy p db =
     (if lx_UUID p \<in> set (map lx_UUID (lb_proxies db)) then Inl (PgError ''23505'' ''llm_proxies_pkey'')
      else if \<not> has_uuid (lx_UUID p) db then Inl (PgError ''23503'' ''fk_llm_proxy_artifact'')
      else if lx_ProviderUUID p \<notin> set (map lp_UUID (lb_providers db))
      then Inl (PgError ''23503'' ''fk_llm_proxy_provider'')
      else Inr (db\<lparr>lb_proxies := lb_proxies db @ [p]\<rparr>))"

definition proxy_repo_Create ::
  "deploy_env \<Rightarrow> nat \<Rightarrow> uuid \<Rightarrow> int \<Rightarrow> LLMProxy \<Rightarrow> string \<Rightarrow> string \<Rightarrow> string \<Rightarrow> string \<Rightarrow> llm_db \<Rightarrow>
   deploy_error + (LLMProxy \<times> llm_db)" where
  "proxy_repo_Create env n newid now p handle name version org db =
     (let p = (if lx_UUID p = 0 then p\<lparr>lx_UUID := newid\<rparr> else p) in
      andThen (wrap_error ''failed to create artifact: %w''
          (artifact_Create env n now
            \<lparr>af_UUID = lx_UUID p, af_Handle = handle, af_Name = name, af_Version = version,
             af_Kind = KindLLMProxy, af_OrganizationName = org, af_InCatalog = False,
             af_CreatedAt = now, af_UpdatedAt = now\<rparr> db))
        (\<lambda>db. map_sum id (Pair p) (statement env (Suc n) (insert_proxy p db))))"

definition llm_proxy_GetByID ::
  "deploy_env \<Rightarrow> nat \<Rightarrow> string \<Rightarrow> string \<Rightarrow> llm_db \<Rightarrow> deploy_error + (Artifact \<times> LLMProxy)" where
  "llm_proxy_GetByID env n proxyID org db =
     statement env n
       (andThen (first_row (find (\<lambda>(a, _). af_Handle a = proxyID \<and> af_OrganizationName a = org) (proxy_rows db)))
         (\<lambda>(a, p). if lx_UUID p = 0 then Inl ErrRecordNotFound else Inr (a, p)))"

text \<open>The listings differ in the column they compare, and cast the text they compare it with.\<close>

definition list_proxies ::
  "string \<Rightarrow> (LLMProxy \<Rightarrow> bool) \<Rightarrow> int \<Rightarrow> int \<Rightarrow> llm_db \<Rightarrow>
   deploy_error + (Artifact \<times> LLMProxy) list" where
  "list_proxies org P limit offset db =
     Inr (page limit offset (newest_rows (filter (\<lambda>(a, p). af_OrganizationName a = org \<and> P p) (proxy_rows db))))"

definition proxy_repo_List ::
  "deploy_env \<Rightarrow> nat \<Rightarrow> string \<Rightarrow> int \<Rightarrow> int \<Rightarrow> llm_db \<Rightarrow> deploy_error + (Artifact \<times> LLMProxy) list" where
  "proxy_repo_List env n org limit offset db = statement env n (list_proxies org (\<lambda>_. True) limit offset db)"

definition ListByProject ::
  "deploy_env \<Rightarrow> nat \<Rightarrow> string \<Rightarrow> string \<Rightarrow> int \<Rightarrow> int \<Rightarrow> llm_db \<Rightarrow> deploy_error + (Artifact \<times> LLMProxy) list" where
  "ListByProject env n org projectUUID limit offset db =
     statement env n (andThen (cast_uuid env projectUUID)
       (\<lambda>u. list_proxies org (\<lambda>p. lx_ProjectUUID p = u) limit offset db))"

definition ListByProvider ::
  "deploy_env \<Rightarrow> nat \<Rightarrow> string \<Rightarrow> string \<Rightarrow> int \<Rightarrow> int \<Rightarrow> llm_db \<Rightarrow> deploy_error + (Artifact \<times> LLMProxy) list" where
  "ListByProvider env n org providerUUID limit offset db =
     statement env n (andThen (cast_uuid env providerUUID)
       (\<lambda>u. list_proxies org (\<lambda>p. lx_ProviderUUID p = u) limit offset db))"

definition proxy_repo_Count :: "deploy_env \<Rightarrow> nat \<Rightarrow> string \<Rightarrow> llm_db \<Rightarrow> deploy_error + int" where
  "proxy_repo_Count env n org db = CountByKindAndOrg env n KindLLMProxy org db"

definition count_proxies :: "string \<Rightarrow> (LLMProxy \<Rightarrow> bool) \<Rightarrow> llm_db \<Rightarrow> int" where
  "count_proxies org P db = int (length (filter (\<lambda>(a, p). af_OrganizationName a = org \<and> P p) (proxy_rows db)))"

definition CountByProject :: "deploy_env \<Rightarrow> nat \<Rightarrow> string \<Rightarrow> string \<Rightarrow> llm_db \<Rightarrow> deploy_error + int" where
  "CountByProject env n org projectUUID db =
     statement env n (andThen (cast_uuid env projectUUID) (\<lambda>u. Inr (count_proxies org (\<lambda>p. lx_ProjectUUID p = u) db)))"

definition CountByProvider :: "deploy_env \<Rightarrow> nat \<Rightarrow> string \<Rightarrow> string \<Rightarrow> llm_db \<Rightarrow> deploy_error + int" where
  "CountByProvider env n org providerUUID db =
     statement env n (andThen (cast_uuid env providerUUID) (\<lambda>u. Inr (count_proxies org (\<lambda>p. lx_ProviderUUID p = u) db)))"

definition set_proxy :: "LLMProxy \<Rightarrow> LLMProxy \<Rightarrow> LLMProxy" where
  "set_proxy p r = r\<lparr>lx_Description := lx_Description p, lx_ProviderUUID := lx_ProviderUUID p,
     lx_OpenAPISpec := lx_OpenAPISpec p, lx_Status := lx_Status p, lx_Configuration := lx_Configuration p\<rparr>"

definition update_proxy :: "uuid \<Rightarrow> LLMProxy \<Rightarrow> llm_db \<Rightarrow> deploy_error + llm_db" where
  "update_proxy u p db =
     (if u \<notin> set (map lx_UUID (lb_proxies db)) then Inl ErrRecordNotFound
      else if lx_ProviderUUID p \<notin> set (map lp_UUID (lb_providers db))
      then Inl (Wrapf ''failed to update proxy: %w'' [] (PgError ''23503'' ''fk_llm_proxy_provider''))
      else Inr (db\<lparr>lb_proxies := map (\<lambda>r. if lx_UUID r = u then set_proxy p r else r) (lb_proxies db)\<rparr>))"

definition proxy_repo_Update ::
  "deploy_env \<Rightarrow> nat \<Rightarrow> LLMProxy \<Rightarrow> string \<Rightarrow> string \<Rightarrow> llm_db \<Rightarrow> deploy_error + llm_db" where
  "proxy_repo_Update env n p handle org db =
     andThen (getProxyUUIDByHandle env n handle org db)
       (\<lambda>u. andThen (wrap_error ''failed to update proxy: %w'' (statement env (Suc n) (Inr ())))
         (\<lambda>_. update_proxy u p db))"

definition proxy_repo_Delete ::
  "deploy_env \<Rightarrow> nat \<Rightarrow> string \<Rightarrow> string \<Rightarrow> llm_db \<Rightarrow> deploy_error + llm_db" where
  "proxy_repo_Delete env n proxyID org db =
     andThen (getProxyUUIDByHandle env n proxyID org db)
       (\<lambda>u. andThen (statement env (n + 1)
           (Inr (db\<lparr>lb_proxies := filter (\<lambda>p. lx_UUID p \<noteq> u) (lb_proxies db)\<rparr>)))
         (\<lambda>db. artifact_Delete env (n + 2) (ul_show (de_uuid env) u) db))"

definition proxy_repo_Exists :: "deploy_env \<Rightarrow> nat \<Rightarrow> string \<Rightarrow> string \<Rightarrow> llm_db \<Rightarrow> deploy_error + bool" where
  "proxy_repo_Exists env n proxyID org db = artifact_Exists env n KindLLMProxy proxyID org db"

section \<open>API keys\<close>

definition key_of :: "StoredAPIKey \<Rightarrow> uuid \<times> string" where
  "key_of k = (sk_ArtifactUUID k, sk_Name k)"

text \<open>\<open>Upsert\<close>: a key with the same artifact and name keeps its row but for five columns.\<close>

definition refresh_key :: "StoredAPIKey \<Rightarrow> StoredAPIKey \<Rightarrow> StoredAPIKey" where
  "refresh_key new k = k\<lparr>sk_APIKeyHash := sk_APIKeyHash new, sk_MaskedAPIKey := sk_MaskedAPIKey new,
     sk_Status := sk_Status new, sk_UpdatedAt := sk_UpdatedAt new, sk_ExpiresAt := sk_ExpiresAt new\<rparr>"

definition Upsert :: "deploy_env \<Rightarrow> nat \<Rightarrow> StoredAPIKey \<Rightarrow> llm_db \<Rightarrow> deploy_error + llm_db" where
  "Upsert env n key db =
     statement env n
       (if key_of key \<in> set (map key_of (lb_keys db))
        then Inr (db\<lparr>lb_keys := map (\<lambda>k. if key_of k = key_of key then refresh_key key k else k) (lb_keys db)\<rparr>)
        else if sk_UUID key \<in> set (map sk_UUID (lb_keys db)) then Inl (PgError ''23505'' ''api_keys_pkey'')
        else if \<not> has_uuid (sk_ArtifactUUID key) db then Inl (PgError ''23503'' ''api_keys_artifact_uuid_fkey'')
        else Inr (db\<lparr>lb_keys := lb_keys db @ [key]\<rparr>))"

definition key_Delete :: "deploy_env \<Rightarrow> nat \<Rightarrow> string \<Rightarrow> string \<Rightarrow> llm_db \<Rightarrow> deploy_error + llm_db" where
  "key_Delete env n artifactUUID name db =
     statement env n (andThen (cast_uuid env artifactUUID)
       (\<lambda>u. Inr (db\<lparr>lb_keys := filter (\<lambda>k. key_of k \<noteq> (u, name)) (lb_keys db)\<rparr>)))"

definition ListByArtifactKind :: "deploy_env \<Rightarrow> nat \<Rightarrow> string \<Rightarrow> string \<Rightarrow> llm_db \<Rightarrow> deploy_error + StoredAPIKey list" where
  "ListByArtifactKind env n org kind db =
     statement env n (Inr (concat (map (\<lambda>k. map (\<lambda>_. k)
       (filter (\<lambda>a. af_UUID a = sk_ArtifactUUID k \<and> af_OrganizationName a = org \<and> af_Kind a = kind)
         (lb_artifacts db))) (lb_keys db))))"

end
