(* ===== verification/LlmManager.thy ===== *)
theory LlmManager
  imports LlmStore GoCrypto
begin

text \<open>
  The service for LLM providers
  (\<open>agent-manager-service/services/llm_provider_service.go\<close>), with the encryption of credentials of
  \<open>utils/crypto.go\<close>, calling the deployment service of theory \<open>DeployService\<close> on the same tables.

  The environment of a request: the fault plan, the built-in templates and those of organizations, what
  \<open>uuid.New\<close> draws, the time, the encryption key, the random nonce (\<open>None\<close> when reading it fails), the
  gateways, and per call of the deployment service its own environment, whose UUID library, gateways and
  providers are those of the tables. The primitives of AES-GCM are the arguments \<open>le_seal\<close> and \<open>le_open\<close>,
  of key, nonce and text. A provider is returned with its artifact; its \<open>ModelProviders\<close> are what its model
  list decodes to.
\<close>

section \<open>State and environment\<close>

record llm_state =
  ls_db :: llm_db
  ls_manager :: "Manager option"

record llm_env =
  le_repo :: deploy_env
  le_templates :: "string list"
  le_user_templates :: "(string \<times> string) list"
  le_newid :: uuid
  le_now :: int
  le_key :: string
  le_nonce :: "string option"
  le_seal :: "string \<Rightarrow> string \<Rightarrow> string \<Rightarrow> string"
  le_open :: "string \<Rightarrow> string \<Rightarrow> string \<Rightarrow> string option"
  le_gateways :: "(uuid \<times> string) list"
  le_service :: "nat \<Rightarrow> service_env"

abbreviation le_uuid :: "llm_env \<Rightarrow> uuid_lib" where
  "le_uuid env \<equiv> de_uuid (le_repo env)"

definition provider_view :: "Artifact \<times> provider_row \<Rightarrow> string \<times> LLMProvider" where
  "provider_view = (\<lambda>(a, r). (af_OrganizationName a,
     \<lparr>pv_UUID = lp_UUID r, pv_TemplateHandle = lp_TemplateHandle r, pv_ModelList = lp_ModelList r,
      pv_Configuration = lp_Configuration r, pv_ArtifactHandle = af_Handle a\<rparr>))"

text \<open>The environment of the \<open>k\<close>-th call of the deployment service.\<close>

definition service_for :: "llm_env \<Rightarrow> nat \<Rightarrow> llm_db \<Rightarrow> service_env" where
  "service_for env k db = (le_service env k)\<lparr>se_repo := (se_repo (le_service env k))\<lparr>de_uuid := le_uuid env\<rparr>,
     se_gateways := le_gateways env, se_providers := map provider_view (provider_rows db)\<rparr>"

definition on_deploy ::
  "(deploy_state \<Rightarrow> deploy_state \<times> 'a) \<Rightarrow> llm_state \<Rightarrow> llm_state \<times> 'a" where
  "on_deploy f st =
     (let (ds, r) = f \<lparr>sv_db = deploy_view (ls_db st), sv_manager = ls_manager st\<rparr>
      in (\<lparr>ls_db = (ls_db st)\<lparr>lb_deploy := sv_db ds\<rparr>, ls_manager = sv_manager ds\<rparr>, r))"

section \<open>Encryption\<close>

definition EncryptBytes :: "llm_env \<Rightarrow> string \<Rightarrow> deploy_error + string" where
  "EncryptBytes env plaintext =
     (if length (le_key env) \<noteq> 32 then Inl ErrInvalidKeySize
      else (case le_nonce env of
         None \<Rightarrow> Inl (Errorf ''failed to generate nonce: %w'' [])
       | Some nonce \<Rightarrow> Inr (nonce @ le_seal env (le_key env) nonce plaintext)))"

definition DecryptBytes :: "llm_env \<Rightarrow> string \<Rightarrow> deploy_error + string" where
  "DecryptBytes env ciphertext =
     (if length (le_key env) \<noteq> 32 then Inl ErrInvalidKeySize
      else if length ciphertext < 12 then Inl ErrInvalidCiphertext
      else (case le_open env (le_key env) (take 12 ciphertext) (drop 12 ciphertext) of
         None \<Rightarrow> Inl ErrInvalidCiphertext
       | Some plaintext \<Rightarrow> Inr plaintext))"

text \<open>\<open>Validate\<close>: at most one of the plain and the encrypted value.\<close>

definition Validate :: "UpstreamAuth \<Rightarrow> deploy_error + unit" where
  "Validate a =
     (if ua_Value a \<noteq> None \<and> ua_SecretRef a \<noteq> None
      then Inl (Errorf ''UpstreamAuth.Value and SecretRef are mutually exclusive; provide only one'' [])
      else Inr ())"

text \<open>A plain value is replaced by the text of its encryption.\<close>

definition seal_auth :: "llm_env \<Rightarrow> string \<Rightarrow> UpstreamAuth \<Rightarrow> deploy_error + UpstreamAuth" where
  "seal_auth env text a =
     (case ua_Value a of
        None \<Rightarrow> Inr a
      | Some v \<Rightarrow>
          andThen (wrap_error text (EncryptBytes env v))
            (\<lambda>encrypted. Inr (a\<lparr>ua_SecretRef := Some (base64_StdEncode encrypted), ua_Value := None\<rparr>)))"

definition main_auth :: "LLMProviderConfig \<Rightarrow> UpstreamAuth option" where
  "main_auth config = Option.bind (cf_Upstream config) (\<lambda>u. Option.bind (uc_Main u) ue_Auth)"

definition set_main_auth :: "UpstreamAuth \<Rightarrow> LLMProviderConfig \<Rightarrow> LLMProviderConfig" where
  "set_main_auth a config =
     config\<lparr>cf_Upstream := map_option (\<lambda>u. u\<lparr>uc_Main := map_option (\<lambda>m. m\<lparr>ue_Auth := Some a\<rparr>) (uc_Main u)\<rparr>)
       (cf_Upstream config)\<rparr>"

definition seal_config :: "llm_env \<Rightarrow> LLMProviderConfig \<Rightarrow> deploy_error + LLMProviderConfig" where
  "seal_config env config =
     (case main_auth config of
        None \<Rightarrow> Inr config
      | Some a \<Rightarrow>
          andThen (Validate a)
            (\<lambda>_. andThen (seal_auth env ''failed to encrypt upstream API key: %w'' a)
              (\<lambda>a'. Inr (set_main_auth a' config))))"

section \<open>Model lists\<close>

record LLMModel =
  md_ID :: string
  md_Name :: string
  md_Description :: string

record LLMModelProvider =
  mp_ID :: string
  mp_Name :: string
  mp_Models :: "LLMModel list"

definition omit_empty :: "string \<Rightarrow> string \<Rightarrow> (string \<times> string) list" where
  "omit_empty name s = (if s = [] then [] else [(name, json_quote s)])"

definition marshal_model :: "LLMModel \<Rightarrow> string" where
  "marshal_model m = json_struct ((''id'', json_quote (md_ID m)) # omit_empty ''name'' (md_Name m)
     @ omit_empty ''description'' (md_Description m))"

definition marshal_model_provider :: "LLMModelProvider \<Rightarrow> string" where
  "marshal_model_provider p = json_struct ((''id'', json_quote (mp_ID p)) # omit_empty ''name'' (mp_Name p)
     @ (if mp_Models p = [] then []
        else [(''models'', brackets (CHR ''['') (CHR '']'') (map marshal_model (mp_Models p)))]))"

text \<open>A provider as a request gives it: the row and the model providers, of which the list is made.\<close>

record provider_input = provider_row +
  lp_ModelProviders :: "LLMModelProvider list"

definition serialize_models :: "provider_input \<Rightarrow> provider_row" where
  "serialize_models p =
     (let r = provider_row.truncate p in
      if lp_ModelProviders p = [] then r
      else r\<lparr>lp_ModelList := brackets (CHR ''['') (CHR '']'') (map marshal_model_provider (lp_ModelProviders p))\<rparr>)"

definition parse_models :: "Artifact \<times> provider_row \<Rightarrow> deploy_error + (Artifact \<times> provider_row)" where
  "parse_models p =
     (if lp_ModelList (snd p) \<noteq> [] \<and> \<not> model_providers_ok (lp_ModelList (snd p))
      then Inl (Errorf ''failed to parse model providers: %w'' []) else Inr p)"

section \<open>Creating, listing, reading and updating\<close>

definition llm_resolve :: "llm_env \<Rightarrow> nat \<Rightarrow> string \<Rightarrow> string \<Rightarrow> llm_db \<Rightarrow> deploy_error + (Artifact \<times> provider_row)" where
  "llm_resolve env n identifier org db =
     (if ul_parse (le_uuid env) identifier \<noteq> None then llm_GetByUUID (le_repo env) n identifier org db
      else llm_GetByHandle (le_repo env) n identifier org db)"

definition check_template :: "llm_env \<Rightarrow> nat \<Rightarrow> string \<Rightarrow> string \<Rightarrow> deploy_error + unit" where
  "check_template env n template org =
     (if template \<in> set (le_templates env) then Inr ()
      else andThen (wrap_error ''failed to validate template: %w''
             (statement (le_repo env) n (Inr ((org, template) \<in> set (le_user_templates env)))))
        (\<lambda>ok. if ok then Inr () else Inl ErrLLMProviderTemplateNotFound))"

fun pg_code :: "deploy_error \<Rightarrow> string option" where
  "pg_code (PgError code name) = Some code"
| "pg_code (Wrapf text args e) = pg_code e"
| "pg_code _ = None"

definition create_error :: "deploy_error \<Rightarrow> deploy_error" where
  "create_error e =
     (if pg_code e = Some ''23505'' then ErrLLMProviderExists
      else if error_is ErrLLMProviderTemplateNotFound e then e
      else Wrapf ''failed to create provider: %w'' [] e)"

text \<open>The provider that is stored.\<close>

definition new_provider ::
  "llm_env \<Rightarrow> string \<Rightarrow> string \<Rightarrow> provider_input \<Rightarrow> llm_db \<Rightarrow> deploy_error + provider_row" where
  "new_provider env org createdBy provider db =
     (let config = lp_Configuration provider; handle = cf_Handle config; template = cf_Template config in
      if handle = [] \<or> cf_Name config = [] \<or> cf_Version config = [] then Inl ErrInvalidInput
      else if (case llm_GetByHandle (le_repo env) 1 handle org db of Inr _ \<Rightarrow> True | Inl _ \<Rightarrow> False)
      then Inl ErrLLMProviderExists
      else if template = [] then Inl ErrInvalidInput
      else andThen (check_template env 2 template org)
        (\<lambda>_. let config = config\<lparr>cf_Context := (case cf_Context config of None \<Rightarrow> Some ''/'' | Some c \<Rightarrow> Some c)\<rparr>
          in andThen (seal_config env config)
            (\<lambda>config. Inr ((serialize_models provider)\<lparr>lp_CreatedBy := createdBy, lp_Status := ''pending'',
               lp_TemplateHandle := template, lp_Configuration := config\<rparr>))))"

definition LLMProvider_Create ::
  "llm_env \<Rightarrow> string \<Rightarrow> string \<Rightarrow> provider_input option \<Rightarrow> llm_db \<Rightarrow>
   llm_db \<times> (deploy_error + (Artifact \<times> provider_row))" where
  "LLMProvider_Create env org createdBy provider db =
     (case provider of
        None \<Rightarrow> (db, Inl ErrInvalidInput)
      | Some input \<Rightarrow>
          (case andThen (new_provider env org createdBy input db)
             (\<lambda>p. let config = lp_Configuration p in map_sum create_error id
                (andThen (provider_repo_Create (le_repo env) 10 (le_newid env) (le_now env) p (cf_Handle config)
                    (cf_Name config) (cf_Version config) org db)
                  (\<lambda>r. statement (le_repo env) 12 (Inr r)))) of
             Inl e \<Rightarrow> (db, Inl e)
           | Inr (p, db') \<Rightarrow>
               (db', andThen (wrap_error ''failed to fetch created provider: %w''
                  (llm_GetByUUID (le_repo env) 20 (ul_show (le_uuid env) (lp_UUID p)) org db')) parse_models)))"

fun parse_all :: "(Artifact \<times> provider_row) list \<Rightarrow> deploy_error + unit" where
  "parse_all [] = Inr ()"
| "parse_all (p # ps) = andThen (parse_models p) (\<lambda>_. parse_all ps)"

definition LLMProvider_List ::
  "llm_env \<Rightarrow> string \<Rightarrow> int \<Rightarrow> int \<Rightarrow> llm_db \<Rightarrow> deploy_error + ((Artifact \<times> provider_row) list \<times> int)" where
  "LLMProvider_List env org limit offset db =
     andThen (wrap_error ''failed to list providers: %w'' (provider_repo_List (le_repo env) 1 org limit offset db))
       (\<lambda>providers. andThen (parse_all providers)
         (\<lambda>_. andThen (wrap_error ''failed to count providers: %w'' (provider_repo_Count (le_repo env) 2 org db))
           (\<lambda>n. Inr (providers, n))))"

definition provider_lookup_error :: "deploy_error \<Rightarrow> deploy_error" where
  "provider_lookup_error e =
     (if error_is ErrRecordNotFound e then ErrLLMProviderNotFound else Wrapf ''failed to get provider: %w'' [] e)"

definition LLMProvider_Get :: "llm_env \<Rightarrow> string \<Rightarrow> string \<Rightarrow> llm_db \<Rightarrow> deploy_error + (Artifact \<times> provider_row)" where
  "LLMProvider_Get env providerID org db =
     (if providerID = [] then Inl ErrInvalidInput
      else andThen (map_sum provider_lookup_error id (llm_resolve env 1 providerID org db)) parse_models)"

text \<open>The row that an update writes.\<close>

definition updated_provider :: "llm_env \<Rightarrow> string \<Rightarrow> provider_input \<Rightarrow> deploy_error + provider_row" where
  "updated_provider env org updates =
     (let config = lp_Configuration updates; template = cf_Template config in
      andThen (if template = [] then Inr () else check_template env 1 template org)
        (\<lambda>_. andThen (seal_config env config)
          (\<lambda>config. let r = serialize_models updates in
            Inr (r\<lparr>lp_TemplateHandle := (if template = [] then lp_TemplateHandle r else template),
               lp_Configuration := config\<rparr>))))"

definition LLMProvider_Update ::
  "llm_env \<Rightarrow> string \<Rightarrow> string \<Rightarrow> provider_input option \<Rightarrow> llm_db \<Rightarrow>
   llm_db \<times> (deploy_error + (Artifact \<times> provider_row))" where
  "LLMProvider_Update env providerID org updates db =
     (case updates of
        None \<Rightarrow> (db, Inl ErrInvalidInput)
      | Some updates \<Rightarrow>
          if providerID = [] then (db, Inl ErrInvalidInput)
          else (case andThen (updated_provider env org updates)
               (\<lambda>p. map_sum (\<lambda>e. if error_is ErrRecordNotFound e then ErrLLMProviderNotFound
                      else Wrapf ''failed to update provider: %w'' [] e) id
                  (andThen (provider_repo_Update (le_repo env) 2 p providerID db)
                    (\<lambda>db. statement (le_repo env) 3 (Inr db)))) of
             Inl e \<Rightarrow> (db, Inl e)
           | Inr db' \<Rightarrow>
               (db', andThen (wrap_error ''failed to fetch updated provider: %w'' (llm_resolve env 4 providerID org db'))
                  parse_models)))"

end
