(* ===== verification/LlmSync.thy ===== *)
theory LlmSync
  imports LlmManager
begin

text \<open>
  The operations of the service for LLM providers that deploy and undeploy
  (\<open>agent-manager-service/services/llm_provider_service.go\<close>: \<open>Delete\<close>, \<open>UpdateAndSync\<close>, \<open>CreateAndDeploy\<close>,
  the catalog flag and the listings of proxies and gateways), over the deployment service of theory
  \<open>DeployService\<close>.

  The calls of the deployment service are numbered; call \<open>k\<close> has the environment \<open>service_for env k\<close>. The
  result of an operation that panics is \<open>None\<close>. In place of the text of an error a result keeps the error.
\<close>

section \<open>Undeploying from a gateway\<close>

datatype undeploy_outcome =
    FetchFailed deploy_error
  | UndeployFailed deploy_error
  | Undeployed
  | NothingDeployed

definition undeploy_gateway ::
  "llm_env \<Rightarrow> nat \<Rightarrow> string \<Rightarrow> string \<Rightarrow> string \<Rightarrow> llm_state \<Rightarrow> llm_state \<times> undeploy_outcome" where
  "undeploy_gateway env k providerID gatewayID org st =
     (case GetLLMProviderDeployments (service_for env (2 * k) (ls_db st)) providerID org (Some gatewayID) None
         (deploy_view (ls_db st)) of
        Inl e \<Rightarrow> (st, FetchFailed e)
      | Inr deployments \<Rightarrow>
          (case find (\<lambda>d. dp_Status d = Some StatusDeployed) deployments of
             None \<Rightarrow> (st, NothingDeployed)
           | Some d \<Rightarrow>
               (case on_deploy (UndeployLLMProviderDeployment (service_for env (2 * k + 1) (ls_db st)) providerID
                    (ul_show (le_uuid env) (dp_DeploymentID d)) gatewayID org) st of
                  (st', Inl e) \<Rightarrow> (st', UndeployFailed e)
                | (st', Inr _) \<Rightarrow> (st', Undeployed))))"

fun undeploy_all ::
  "llm_env \<Rightarrow> nat \<Rightarrow> string \<Rightarrow> string list \<Rightarrow> string \<Rightarrow> llm_state \<Rightarrow>
   llm_state \<times> (string \<times> undeploy_outcome) list" where
  "undeploy_all env k providerID [] org st = (st, [])"
| "undeploy_all env k providerID (g # gs) org st =
     (let (st1, out) = undeploy_gateway env k providerID g org st;
          (st2, outs) = undeploy_all env (Suc k) providerID gs org st1
      in (st2, (g, out) # outs))"

section \<open>Deleting a provider\<close>

definition is_failure :: "undeploy_outcome \<Rightarrow> bool" where
  "is_failure out \<longleftrightarrow> (case out of FetchFailed _ \<Rightarrow> True | UndeployFailed _ \<Rightarrow> True | _ \<Rightarrow> False)"

text \<open>What is looked up first: the provider, its UUID and the gateways it is deployed to.\<close>

definition delete_targets :: "llm_env \<Rightarrow> string \<Rightarrow> string \<Rightarrow> llm_db \<Rightarrow> deploy_error + string list" where
  "delete_targets env providerID org db =
     (if providerID = [] then Inl ErrInvalidInput
      else andThen (map_sum provider_lookup_error id (llm_resolve env 1 providerID org db))
        (\<lambda>_. case ul_parse (le_uuid env) providerID of
           None \<Rightarrow> Inl (Errorf ''invalid provider UUID: %w'' [providerID])
         | Some u \<Rightarrow> wrap_error ''failed to get deployed gateways: %w''
             (GetDeployedGatewaysByProvider (le_repo env) 2 u org (deploy_view db))))"

definition LLMProvider_Delete ::
  "llm_env \<Rightarrow> string \<Rightarrow> string \<Rightarrow> llm_state \<Rightarrow> llm_state \<times> (deploy_error + unit)" where
  "LLMProvider_Delete env providerID org st =
     (case delete_targets env providerID org (ls_db st) of
        Inl e \<Rightarrow> (st, Inl e)
      | Inr gatewayIDs \<Rightarrow>
          (let (st', outs) = undeploy_all env 0 providerID gatewayIDs org st in
           if list_ex (is_failure \<circ> snd) outs \<and> \<not> list_ex (\<lambda>(_, out). out = Undeployed) outs
           then (st', Inl (Errorf ''failed to undeploy from all %d gateways: %v'' [show_int (int (length gatewayIDs))]))
           else (case provider_repo_Delete (le_repo env) 10 providerID org (ls_db st') of
               Inl e \<Rightarrow> (st', Inl (if error_is ErrRecordNotFound e then ErrLLMProviderNotFound
                   else Wrapf ''failed to delete provider: %w'' [] e))
             | Inr db \<Rightarrow> (st'\<lparr>ls_db := db\<rparr>, Inr ()))))"

section \<open>Creating a provider on gateways\<close>

record DeploymentResult =
  dr_GatewayID :: string
  dr_Success :: bool
  dr_Error :: "deploy_error option"

abbreviation failed_on :: "string \<Rightarrow> deploy_error \<Rightarrow> DeploymentResult" where
  "failed_on g e \<equiv> \<lparr>dr_GatewayID = g, dr_Success = False, dr_Error = Some e\<rparr>"

abbreviation done_on :: "string \<Rightarrow> DeploymentResult" where
  "done_on g \<equiv> \<lparr>dr_GatewayID = g, dr_Success = True, dr_Error = None\<rparr>"

definition llm_gateway :: "llm_env \<Rightarrow> nat \<Rightarrow> string \<Rightarrow> deploy_error + string" where
  "llm_gateway env n gatewayID =
     statement (le_repo env) n (andThen (cast_uuid (le_repo env) gatewayID) (\<lambda>g. first_row (map_of (le_gateways env) g)))"

fun valid_gateways :: "llm_env \<Rightarrow> nat \<Rightarrow> string list \<Rightarrow> string list \<times> DeploymentResult list" where
  "valid_gateways env n [] = ([], [])"
| "valid_gateways env n (g # gs) =
     (let (valid, failed) = valid_gateways env (Suc n) gs in
      if ul_parse (le_uuid env) g = None
      then (valid, failed_on g (Errorf ''invalid gateway UUID: %v'' [g]) # failed)
      else (case llm_gateway env n g of
          Inl e \<Rightarrow> (valid, failed_on g (Wrapf ''Gateway not found: %v'' [] e) # failed)
        | Inr _ \<Rightarrow> (g # valid, failed)))"

definition deploy_to ::
  "llm_env \<Rightarrow> nat \<Rightarrow> string \<Rightarrow> string \<Rightarrow> string \<Rightarrow> gmap \<Rightarrow> string \<Rightarrow> llm_state \<Rightarrow>
   llm_state \<times> DeploymentResult" where
  "deploy_to env k providerID name gatewayID metadata org st =
     (case on_deploy (DeployLLMProvider (service_for env k (ls_db st)) providerID
          \<lparr>rq_Name = name, rq_Base = ''current'', rq_GatewayID = gatewayID, rq_Metadata = Some metadata\<rparr> org) st of
        (st', Inl e) \<Rightarrow> (st', failed_on gatewayID e)
      | (st', Inr _) \<Rightarrow> (st', done_on gatewayID))"

definition deployment_name :: "string \<Rightarrow> nat \<Rightarrow> string" where
  "deployment_name name i = name @ ''-deployment-'' @ show_int (int i)"

fun deploy_each ::
  "llm_env \<Rightarrow> nat \<Rightarrow> string \<Rightarrow> string \<Rightarrow> string list \<Rightarrow> string \<Rightarrow> llm_state \<Rightarrow>
   llm_state \<times> DeploymentResult list" where
  "deploy_each env i providerID name [] org st = (st, [])"
| "deploy_each env i providerID name (g # gs) org st =
     (let (st1, r) = deploy_to env i providerID (deployment_name name (Suc i)) g
            [(''auto_deployed'', VBool True), (''gateway_index'', VInt (int (Suc i)))] org st;
          (st2, rs) = deploy_each env (Suc i) providerID name gs org st1
      in (st2, r # rs))"

record CreateAndDeployResponse =
  cd_Provider :: "Artifact \<times> provider_row"
  cd_Deployments :: "DeploymentResult list"

definition CreateAndDeploy ::
  "llm_env \<Rightarrow> string \<Rightarrow> string \<Rightarrow> provider_input option \<Rightarrow> string list \<Rightarrow> llm_state \<Rightarrow>
   llm_state \<times> (deploy_error + CreateAndDeployResponse)" where
  "CreateAndDeploy env org createdBy provider gatewayIDs st =
     (let (valid, failed) = valid_gateways env 30 gatewayIDs in
      if gatewayIDs \<noteq> [] \<and> valid = []
      then (st, Inl (Errorf ''all %d gateway IDs are invalid'' [show_int (int (length gatewayIDs))]))
      else (case LLMProvider_Create env org createdBy provider (ls_db st) of
          (db, Inl e) \<Rightarrow> (st\<lparr>ls_db := db\<rparr>, Inl e)
        | (db, Inr created) \<Rightarrow>
            (let (st', results) = deploy_each env 0 (ul_show (le_uuid env) (lp_UUID (snd created)))
                   (cf_Name (lp_Configuration (snd created))) valid org (st\<lparr>ls_db := db\<rparr>)
             in if valid \<noteq> [] \<and> \<not> list_ex dr_Success results
                then (st', Inl (Errorf ''all %d gateway deployments failed'' [show_int (int (length valid))]))
                else (st', Inr \<lparr>cd_Provider = created, cd_Deployments = failed @ results\<rparr>))))"

section \<open>Updating a provider and its gateways\<close>

text \<open>
  A gateway that already runs the provider gets a deployment with the name of its current one. When that
  cannot be read the code goes on with a nil pointer and panics.
\<close>

definition sync_gateway ::
  "llm_env \<Rightarrow> nat \<Rightarrow> string \<Rightarrow> string \<Rightarrow> string list \<Rightarrow> uuid \<Rightarrow> string \<Rightarrow> llm_state \<Rightarrow>
   llm_state \<times> DeploymentResult option" where
  "sync_gateway env i providerID name currentGateways g org st =
     (let gatewayID = ul_show (le_uuid env) g;
          metadata = [(''auto_deployed'', VBool True), (''sync_update'', VBool True)]
      in if gatewayID \<notin> set currentGateways
         then map_prod id Some (deploy_to env i providerID (deployment_name name (Suc i)) gatewayID metadata org st)
         else (case GetCurrentByGateway (le_repo env) (40 + i) providerID gatewayID org (deploy_view (ls_db st)) of
             Inl e \<Rightarrow> (st, None)
           | Inr d \<Rightarrow> map_prod id Some (deploy_to env i providerID (dp_Name d) gatewayID metadata org st)))"

fun sync_all ::
  "llm_env \<Rightarrow> nat \<Rightarrow> string \<Rightarrow> string \<Rightarrow> string list \<Rightarrow> uuid list \<Rightarrow> string \<Rightarrow> llm_state \<Rightarrow>
   llm_state \<times> DeploymentResult list option" where
  "sync_all env i providerID name currentGateways [] org st = (st, Some [])"
| "sync_all env i providerID name currentGateways (g # gs) org st =
     (case sync_gateway env i providerID name currentGateways g org st of
        (st1, None) \<Rightarrow> (st1, None)
      | (st1, Some r) \<Rightarrow> map_prod id (map_option (Cons r)) (sync_all env (Suc i) providerID name currentGateways gs org st1))"

definition undeploy_result :: "string \<times> undeploy_outcome \<Rightarrow> DeploymentResult" where
  "undeploy_result o' =
     (case snd o' of
        FetchFailed e \<Rightarrow> failed_on (fst o') (Wrapf ''failed to fetch deployments: %v'' [] e)
      | UndeployFailed e \<Rightarrow> failed_on (fst o') e
      | Undeployed \<Rightarrow> done_on (fst o')
      | NothingDeployed \<Rightarrow> failed_on (fst o') (Errorf ''no deployed deployment found'' []))"

record UpdateAndSyncResponse =
  us_Provider :: "Artifact \<times> provider_row"
  us_Deployments :: "DeploymentResult list"
  us_Undeployments :: "DeploymentResult list"

text \<open>The gateways as UUIDs, and a result for each that is none.\<close>

definition parsed_gateways :: "llm_env \<Rightarrow> string list \<Rightarrow> uuid list" where
  "parsed_gateways env gs = List.map_filter (ul_parse (le_uuid env)) gs"

definition unparsed_results :: "llm_env \<Rightarrow> string list \<Rightarrow> DeploymentResult list" where
  "unparsed_results env gs =
     map (\<lambda>g. failed_on g (Errorf ''invalid gateway UUID: %v'' [g])) (filter (\<lambda>g. ul_parse (le_uuid env) g = None) gs)"

definition sync_gateways ::
  "llm_env \<Rightarrow> string \<Rightarrow> string \<Rightarrow> string list \<Rightarrow> string list \<Rightarrow> Artifact \<times> provider_row \<Rightarrow> llm_state \<Rightarrow>
   llm_state \<times> (deploy_error + UpdateAndSyncResponse) option" where
  "sync_gateways env providerID org gatewayIDs currentGateways updated st =
     (let gs = parsed_gateways env gatewayIDs in
      case sync_all env 0 providerID (cf_Name (lp_Configuration (snd updated))) currentGateways gs org st of
        (st1, None) \<Rightarrow> (st1, None)
      | (st1, Some results) \<Rightarrow>
          if gs \<noteq> [] \<and> \<not> list_ex dr_Success results
          then (st1, Some (Inl (Errorf ''all %d new gateway deployments failed'' [show_int (int (length gs))])))
          else (let removed = filter (\<lambda>g. g \<notin> ul_show (le_uuid env) ` set gs) currentGateways;
                    (st2, outs) = undeploy_all env (length gs) providerID removed org st1
                in (st2, Some (Inr \<lparr>us_Provider = updated,
                     us_Deployments = unparsed_results env gatewayIDs @ results,
                     us_Undeployments = map undeploy_result outs\<rparr>))))"

definition UpdateAndSync ::
  "llm_env \<Rightarrow> string \<Rightarrow> string \<Rightarrow> provider_input option \<Rightarrow> string list \<Rightarrow> llm_state \<Rightarrow>
   llm_state \<times> (deploy_error + UpdateAndSyncResponse) option" where
  "UpdateAndSync env providerID org updates gatewayIDs st =
     (case LLMProvider_Update env providerID org updates (ls_db st) of
        (db, Inl e) \<Rightarrow> (st\<lparr>ls_db := db\<rparr>, Some (Inl e))
      | (db, Inr updated) \<Rightarrow>
          (let st = st\<lparr>ls_db := db\<rparr> in
           case ul_parse (le_uuid env) providerID of
             None \<Rightarrow> (st, Some (Inl (Errorf ''invalid provider UUID: %w'' [providerID])))
           | Some u \<Rightarrow>
               if gatewayIDs \<noteq> [] \<and> parsed_gateways env gatewayIDs = []
               then (st, Some (Inl (Errorf ''all %d gateway IDs are invalid'' [show_int (int (length gatewayIDs))])))
               else (case GetDeployedGatewaysByProvider (le_repo env) 10 u org (deploy_view db) of
                   Inl e \<Rightarrow> (st, Some (Inl e))
                 | Inr currentGateways \<Rightarrow> sync_gateways env providerID org gatewayIDs currentGateways updated st)))"

section \<open>Listings and the catalog\<close>

definition ListProxiesByProvider ::
  "llm_env \<Rightarrow> string \<Rightarrow> string \<Rightarrow> int \<Rightarrow> int \<Rightarrow> llm_db \<Rightarrow> deploy_error + ((Artifact \<times> LLMProxy) list \<times> int)" where
  "ListProxiesByProvider env providerID org limit offset db =
     (if providerID = [] then Inl ErrInvalidInput
      else andThen (wrap_error ''failed to get provider: %w'' (llm_resolve env 1 providerID org db))
        (\<lambda>p. let u = ul_show (le_uuid env) (lp_UUID (snd p)) in
           andThen (wrap_error ''failed to list proxies by provider: %w''
               (ListByProvider (le_repo env) 2 org u limit offset db))
             (\<lambda>proxies. andThen (wrap_error ''failed to count proxies by provider: %w''
                 (CountByProvider (le_repo env) 3 org u db)) (\<lambda>n. Inr (proxies, n)))))"

definition GetProviderGatewayMapping :: "llm_env \<Rightarrow> uuid \<Rightarrow> string \<Rightarrow> llm_db \<Rightarrow> deploy_error + string list" where
  "GetProviderGatewayMapping env u org db = GetDeployedGatewaysByProvider (le_repo env) 1 u org (deploy_view db)"

text \<open>The provider is returned with the new flag, its time as read before.\<close>

definition UpdateCatalogStatus ::
  "llm_env \<Rightarrow> string \<Rightarrow> string \<Rightarrow> bool \<Rightarrow> llm_db \<Rightarrow> llm_db \<times> (deploy_error + (Artifact \<times> provider_row))" where
  "UpdateCatalogStatus env providerID org inCatalog db =
     (if ul_parse (le_uuid env) providerID = None then (db, Inl ErrInvalidInput)
      else (case andThen (statement (le_repo env) 1 (Inr ()))
           (\<lambda>_. andThen (map_sum (\<lambda>e. if error_is ErrRecordNotFound e then ErrLLMProviderNotFound else e) id
               (llm_resolve env 2 providerID org db))
             (\<lambda>p. andThen (repo_UpdateCatalogStatus (le_repo env) 3 (le_now env) providerID org inCatalog db)
               (\<lambda>db. statement (le_repo env) 4 (Inr (p, db))))) of
          Inl e \<Rightarrow> (db, Inl e)
        | Inr ((a, r), db') \<Rightarrow> (db', Inr (a\<lparr>af_InCatalog := inCatalog\<rparr>, r))))"

end
