(* ===== verification/LlmProxies.thy ===== *)
theory LlmProxies
  imports LlmManager
begin

text \<open>
  The service for LLM proxies (\<open>agent-manager-service/services/llm_proxy_service.go\<close>) and what it keeps of a
  stored credential. The environment is that of theory \<open>LlmManager\<close>.
\<close>

section \<open>Credentials\<close>

text \<open>\<open>None\<close> is the nil pointer.\<close>

definition preserveUpstreamAuthCredential ::
  "UpstreamAuth option \<Rightarrow> UpstreamAuth option \<Rightarrow> UpstreamAuth option" where
  "preserveUpstreamAuthCredential existing updated =
     (case updated of
        None \<Rightarrow> existing
      | Some u \<Rightarrow>
          (case existing of
             None \<Rightarrow> Some u
           | Some e \<Rightarrow>
               Some \<lparr>ua_Type = (if ua_Type u = None then ua_Type e else ua_Type u),
                 ua_Header = (if ua_Header u = None then ua_Header e else ua_Header u),
                 ua_Value = (if ua_Value u = None then ua_Value e else ua_Value u),
                 ua_SecretRef = (if ua_SecretRef u = None then ua_SecretRef e else ua_SecretRef u)\<rparr>))"

definition seal_proxy_config :: "llm_env \<Rightarrow> LLMProxyConfig \<Rightarrow> deploy_error + LLMProxyConfig" where
  "seal_proxy_config env config =
     (case xc_UpstreamAuth config of
        None \<Rightarrow> Inr config
      | Some a \<Rightarrow> andThen (seal_auth env ''failed to encrypt upstream auth: %w'' a)
          (\<lambda>a'. Inr (config\<lparr>xc_UpstreamAuth := Some a'\<rparr>)))"

section \<open>The operations\<close>

definition validate_provider :: "llm_env \<Rightarrow> nat \<Rightarrow> string \<Rightarrow> string \<Rightarrow> llm_db \<Rightarrow> deploy_error + uuid" where
  "validate_provider env n provider org db =
     map_sum (\<lambda>e. if error_is ErrRecordNotFound e then ErrLLMProviderNotFound
         else Wrapf ''failed to validate provider: %w'' [] e)
       (\<lambda>p. lp_UUID (snd p)) (llm_GetByUUID (le_repo env) n provider org db)"

definition new_proxy :: "llm_env \<Rightarrow> string \<Rightarrow> string \<Rightarrow> LLMProxy \<Rightarrow> llm_db \<Rightarrow> deploy_error + LLMProxy" where
  "new_proxy env org createdBy proxy db =
     (let config = lx_Configuration proxy in
      if xc_Name config = [] \<or> xc_Version config = [] \<or> xc_Provider config = [] then Inl ErrInvalidInput
      else if lx_ProjectUUID proxy = 0 then Inl ErrInvalidInput
      else andThen (validate_provider env 1 (xc_Provider config) org db)
        (\<lambda>u. andThen (wrap_error ''failed to check proxy exists: %w''
            (proxy_repo_Exists (le_repo env) 2 (xc_Name config) org db))
          (\<lambda>exists. if exists then Inl ErrLLMProxyExists
            else andThen (seal_proxy_config env
                (config\<lparr>xc_Context := (case xc_Context config of None \<Rightarrow> Some ''/'' | Some c \<Rightarrow> Some c)\<rparr>))
              (\<lambda>config. Inr (proxy\<lparr>lx_CreatedBy := createdBy, lx_ProviderUUID := u, lx_Status := ''pending'',
                 lx_Configuration := config\<rparr>)))))"

definition LLMProxy_Create ::
  "llm_env \<Rightarrow> string \<Rightarrow> string \<Rightarrow> LLMProxy option \<Rightarrow> llm_db \<Rightarrow>
   llm_db \<times> (deploy_error + (Artifact \<times> LLMProxy))" where
  "LLMProxy_Create env org createdBy proxy db =
     (case proxy of
        None \<Rightarrow> (db, Inl ErrInvalidInput)
      | Some input \<Rightarrow>
          (let handle = xc_Name (lx_Configuration input) in
           case andThen (new_proxy env org createdBy input db)
             (\<lambda>p. wrap_error ''failed to create proxy: %w''
                (andThen (proxy_repo_Create (le_repo env) 10 (le_newid env) (le_now env) p handle handle
                    (xc_Version (lx_Configuration p)) org db)
                  (\<lambda>r. statement (le_repo env) 12 (Inr r)))) of
             Inl e \<Rightarrow> (db, Inl e)
           | Inr (p, db') \<Rightarrow>
               (db', wrap_error ''failed to fetch created proxy: %w'' (llm_proxy_GetByID (le_repo env) 20 handle org db'))))"

definition LLMProxy_List ::
  "llm_env \<Rightarrow> string \<Rightarrow> string option \<Rightarrow> int \<Rightarrow> int \<Rightarrow> llm_db \<Rightarrow>
   deploy_error + ((Artifact \<times> LLMProxy) list \<times> int)" where
  "LLMProxy_List env org projectID limit offset db =
     (case projectID of
        Some (c # cs) \<Rightarrow>
          andThen (wrap_error ''failed to list proxies by project: %w''
              (ListByProject (le_repo env) 1 org (c # cs) limit offset db))
            (\<lambda>proxies. andThen (wrap_error ''failed to count proxies by project: %w''
                (CountByProject (le_repo env) 2 org (c # cs) db)) (\<lambda>n. Inr (proxies, n)))
      | _ \<Rightarrow>
          andThen (wrap_error ''failed to list proxies: %w'' (proxy_repo_List (le_repo env) 1 org limit offset db))
            (\<lambda>proxies. andThen (wrap_error ''failed to count proxies: %w'' (proxy_repo_Count (le_repo env) 2 org db))
              (\<lambda>n. Inr (proxies, n))))"

definition not_found_or :: "string \<Rightarrow> deploy_error \<Rightarrow> deploy_error" where
  "not_found_or text e = (if error_is ErrRecordNotFound e then ErrLLMProxyNotFound else Wrapf text [] e)"

definition LLMProxy_Get :: "llm_env \<Rightarrow> string \<Rightarrow> string \<Rightarrow> llm_db \<Rightarrow> deploy_error + (Artifact \<times> LLMProxy)" where
  "LLMProxy_Get env proxyID org db =
     (if proxyID = [] then Inl ErrInvalidInput
      else map_sum (not_found_or ''failed to get proxy: %w'') id (llm_proxy_GetByID (le_repo env) 1 proxyID org db))"

text \<open>The row that an update writes, over the stored one.\<close>

definition updated_proxy ::
  "llm_env \<Rightarrow> string \<Rightarrow> LLMProxy \<Rightarrow> LLMProxy \<Rightarrow> llm_db \<Rightarrow> deploy_error + LLMProxy" where
  "updated_proxy env org existing updates db =
     (let config = lx_Configuration updates in
      andThen (if xc_Provider config = [] then Inr (lx_ProviderUUID updates)
               else validate_provider env 2 (xc_Provider config) org db)
        (\<lambda>u. andThen (seal_proxy_config env (config\<lparr>xc_UpstreamAuth := preserveUpstreamAuthCredential
              (xc_UpstreamAuth (lx_Configuration existing)) (xc_UpstreamAuth config)\<rparr>))
          (\<lambda>config. Inr (updates\<lparr>lx_ProviderUUID := u, lx_Configuration := config\<rparr>))))"

definition LLMProxy_Update ::
  "llm_env \<Rightarrow> string \<Rightarrow> string \<Rightarrow> LLMProxy option \<Rightarrow> llm_db \<Rightarrow>
   llm_db \<times> (deploy_error + (Artifact \<times> LLMProxy))" where
  "LLMProxy_Update env proxyID org updates db =
     (case updates of
        None \<Rightarrow> (db, Inl ErrInvalidInput)
      | Some updates \<Rightarrow>
          if proxyID = [] then (db, Inl ErrInvalidInput)
          else (case andThen (map_sum (not_found_or ''failed to get existing proxy: %w'') id
                 (llm_proxy_GetByID (le_repo env) 1 proxyID org db))
               (\<lambda>existing. andThen (updated_proxy env org (snd existing) updates db)
                 (\<lambda>p. map_sum (not_found_or ''failed to update proxy: %w'') id
                    (andThen (proxy_repo_Update (le_repo env) 3 p proxyID org db)
                      (\<lambda>db. statement (le_repo env) 5 (Inr db))))) of
             Inl e \<Rightarrow> (db, Inl e)
           | Inr db' \<Rightarrow>
               (db', wrap_error ''failed to fetch updated proxy: %w'' (llm_proxy_GetByID (le_repo env) 6 proxyID org db'))))"

definition LLMProxy_Delete :: "llm_env \<Rightarrow> string \<Rightarrow> string \<Rightarrow> llm_db \<Rightarrow> llm_db \<times> (deploy_error + unit)" where
  "LLMProxy_Delete env proxyID org db =
     (if proxyID = [] then (db, Inl ErrInvalidInput)
      else (case andThen (proxy_repo_Delete (le_repo env) 1 proxyID org db)
               (\<lambda>db. statement (le_repo env) 4 (Inr db)) of
          Inl e \<Rightarrow> (db, Inl (not_found_or ''failed to delete proxy: %w'' e))
        | Inr db' \<Rightarrow> (db', Inr ())))"

definition LLMProxy_ListByProvider ::
  "llm_env \<Rightarrow> string \<Rightarrow> string \<Rightarrow> int \<Rightarrow> int \<Rightarrow> llm_db \<Rightarrow> deploy_error + ((Artifact \<times> LLMProxy) list \<times> int)" where
  "LLMProxy_ListByProvider env org providerID limit offset db =
     (if providerID = [] then Inl ErrInvalidInput
      else andThen (map_sum provider_lookup_error id (llm_GetByUUID (le_repo env) 1 providerID org db))
        (\<lambda>p. let u = ul_show (le_uuid env) (lp_UUID (snd p)) in
           andThen (wrap_error ''failed to list proxies by provider: %w''
               (ListByProvider (le_repo env) 2 org u limit offset db))
             (\<lambda>proxies. andThen (wrap_error ''failed to count proxies by provider: %w''
                 (CountByProvider (le_repo env) 3 org u db)) (\<lambda>n. Inr (proxies, n)))))"

end
