(* ===== verification/LlmKeys.thy ===== *)
theory LlmKeys
  imports LlmManager
begin

text \<open>
  API keys for LLM providers and proxies
  (\<open>agent-manager-service/services/apikey_broadcaster.go\<close>, \<open>llm_provider_apikey_service.go\<close>,
  \<open>llm_proxy_apikey_service.go\<close>, \<open>GenerateAPIKey\<close> and \<open>GenerateHandle\<close> of \<open>utils/crypto.go\<close>): a key is shown
  once, stored as its hash, and announced to the gateways of the organization one after the other.

  The environment adds the random bytes (\<open>None\<close> when reading them fails), the UUID of the key, the text of
  the current time and the parser of times. Broadcast \<open>k\<close> has the clock and the answers of \<open>le_service\<close> at \<open>k\<close>.
\<close>

section \<open>Environment and keys\<close>

record key_env =
  ky_llm :: llm_env
  ky_bytes :: "string option"
  ky_handle :: "string option"
  ky_uuid :: uuid
  ky_now :: string
  ky_time :: "string \<Rightarrow> int option"
  ky_has_repo :: bool

abbreviation ky_repo :: "key_env \<Rightarrow> deploy_env" where
  "ky_repo env \<equiv> le_repo (ky_llm env)"

record CreateAPIKeyRequest =
  cq_Name :: string
  cq_DisplayName :: string
  cq_ExpiresAt :: "string option"

record RotateAPIKeyRequest =
  ro_DisplayName :: "string option"
  ro_ExpiresAt :: "string option"

record CreateAPIKeyResponse =
  cr_Status :: string
  cr_Message :: string
  cr_KeyID :: string
  cr_APIKey :: string

definition GenerateAPIKey :: "key_env \<Rightarrow> deploy_error + string" where
  "GenerateAPIKey env =
     (case ky_bytes env of
        None \<Rightarrow> Inl (Errorf ''failed to generate API key: %w'' [])
      | Some bytes \<Rightarrow> Inr (hex_EncodeToString bytes))"

text \<open>Letters in lower case, digits, and a hyphen for a space, hyphen or underscore; the rest is dropped.\<close>

definition handle_char :: "char \<Rightarrow> string" where
  "handle_char c =
     (if byte_in 97 122 c \<or> byte_in 48 57 c then [c]
      else if byte_in 65 90 c then [char_of (of_char c + 32 :: nat)]
      else if c = CHR '' '' \<or> c = CHR ''-'' \<or> c = CHR ''_'' then ''-'' else [])"

definition trim_hyphens :: "string \<Rightarrow> string" where
  "trim_hyphens s = rev (dropWhile (\<lambda>c. c = CHR ''-'') (rev (dropWhile (\<lambda>c. c = CHR ''-'') s)))"

definition GenerateHandle :: "string option \<Rightarrow> string \<Rightarrow> deploy_error + string" where
  "GenerateHandle random displayName =
     (if displayName = [] then Inl (Errorf ''display name cannot be empty'' [])
      else (let handle = trim_hyphens (concat (map handle_char displayName)) in
        if handle \<noteq> [] then Inr handle
        else (case random of
            None \<Rightarrow> Inl (Errorf ''failed to generate random handle: %w'' [])
          | Some bytes \<Rightarrow> Inr (''key-'' @ hex_EncodeToString bytes))))"

definition hashAPIKeySHA256 :: "string \<Rightarrow> string" where
  "hashAPIKeySHA256 plainKey = hex_EncodeToString (sha256_Sum plainKey)"

definition hashAPIKeyToJSON :: "string \<Rightarrow> string" where
  "hashAPIKeyToJSON plainKey = json_struct [(''sha256'', [CHR 0x22] @ hashAPIKeySHA256 plainKey @ [CHR 0x22])]"

definition maskAPIKey :: "string \<Rightarrow> string" where
  "maskAPIKey apiKey = (if length apiKey \<le> 4 then ''****'' else ''****'' @ drop (length apiKey - 4) apiKey)"

section \<open>Events and their delivery\<close>

definition omit_nil :: "string \<Rightarrow> string option \<Rightarrow> (string \<times> string) list" where
  "omit_nil name v = (case v of None \<Rightarrow> [] | Some s \<Rightarrow> [(name, json_quote s)])"

definition key_created_event ::
  "key_env \<Rightarrow> string \<Rightarrow> string \<Rightarrow> string \<Rightarrow> string \<Rightarrow> string option \<Rightarrow> string" where
  "key_created_event env apiID name displayName apiKey expiresAt =
     json_struct ([(''uuid'', json_quote (ul_show (de_uuid (ky_repo env)) (ky_uuid env))),
       (''apiId'', json_quote apiID), (''name'', json_quote name), (''displayName'', json_quote displayName),
       (''apiKeyHashes'', json_quote (hashAPIKeyToJSON apiKey)), (''maskedApiKey'', json_quote (maskAPIKey apiKey)),
       (''operations'', json_quote (brackets (CHR ''['') (CHR '']'') [json_quote ''*'']))]
       @ omit_nil ''expiresAt'' expiresAt
       @ [(''createdAt'', json_quote (ky_now env)), (''updatedAt'', json_quote (ky_now env))])"

definition key_revoked_event :: "string \<Rightarrow> string \<Rightarrow> string" where
  "key_revoked_event apiID keyName = json_struct [(''apiId'', json_quote apiID), (''keyName'', json_quote keyName)]"

definition key_updated_event ::
  "key_env \<Rightarrow> string \<Rightarrow> string \<Rightarrow> string \<Rightarrow> RotateAPIKeyRequest \<Rightarrow> string" where
  "key_updated_event env apiID keyName apiKey req =
     json_struct ([(''apiId'', json_quote apiID), (''keyName'', json_quote keyName),
       (''apiKeyHashes'', json_quote (hashAPIKeyToJSON apiKey)), (''maskedApiKey'', json_quote (maskAPIKey apiKey))]
       @ omit_empty ''displayName'' (case ro_DisplayName req of None \<Rightarrow> [] | Some d \<Rightarrow> d)
       @ omit_nil ''expiresAt'' (ro_ExpiresAt req)
       @ [(''updatedAt'', json_quote (ky_now env))])"

definition broadcast_to ::
  "key_env \<Rightarrow> nat \<Rightarrow> string \<Rightarrow> string \<Rightarrow> uuid \<Rightarrow> Manager option \<Rightarrow> Manager option \<times> string option" where
  "broadcast_to env k eventType payload gw mgr =
     (let s = le_service (ky_llm env) k in
      broadcastEvent (ul_show (de_uuid (ky_repo env)) gw) eventType (Some payload) (se_correlationID s) (se_now s)
        (se_timestamp s) (se_answers s) mgr)"

text \<open>Delivery to every gateway until one fails, and delivery to every gateway with all failures.\<close>

fun broadcast_until ::
  "key_env \<Rightarrow> nat \<Rightarrow> string \<Rightarrow> string \<Rightarrow> uuid list \<Rightarrow> Manager option \<Rightarrow> Manager option \<times> (uuid \<times> string) option" where
  "broadcast_until env k eventType payload [] mgr = (mgr, None)"
| "broadcast_until env k eventType payload (g # gs) mgr =
     (case broadcast_to env k eventType payload g mgr of
        (mgr', Some e) \<Rightarrow> (mgr', Some (g, e))
      | (mgr', None) \<Rightarrow> broadcast_until env (Suc k) eventType payload gs mgr')"

fun broadcast_each ::
  "key_env \<Rightarrow> nat \<Rightarrow> string \<Rightarrow> string \<Rightarrow> uuid list \<Rightarrow> Manager option \<Rightarrow> Manager option \<times> (uuid \<times> string) list" where
  "broadcast_each env k eventType payload [] mgr = (mgr, [])"
| "broadcast_each env k eventType payload (g # gs) mgr =
     (let (mgr1, err) = broadcast_to env k eventType payload g mgr;
          (mgr2, errs) = broadcast_each env (Suc k) eventType payload gs mgr1
      in (mgr2, (case err of None \<Rightarrow> errs | Some e \<Rightarrow> (g, e) # errs)))"

section \<open>Creating, revoking and rotating\<close>

definition org_gateways :: "key_env \<Rightarrow> string \<Rightarrow> deploy_error + uuid list" where
  "org_gateways env org =
     andThen (wrap_error ''failed to get gateways: %w''
         (statement (ky_repo env) 1 (Inr (map fst (filter (\<lambda>(_, o'). o' = org) (le_gateways (ky_llm env)))))))
       (\<lambda>gs. if gs = [] then Inl ErrGatewayNotFound else Inr gs)"

definition parse_expiry :: "key_env \<Rightarrow> string option \<Rightarrow> deploy_error + int option" where
  "parse_expiry env expiresAt =
     (case expiresAt of
        None \<Rightarrow> Inr None
      | Some t \<Rightarrow> (case ky_time env t of
           None \<Rightarrow> Inl (Errorf ''invalid expiresAt format, expected RFC3339: %w'' [t])
         | Some i \<Rightarrow> Inr (Some i)))"

definition parse_artifact :: "key_env \<Rightarrow> string \<Rightarrow> deploy_error + uuid" where
  "parse_artifact env artifactUUID =
     (case ul_parse (de_uuid (ky_repo env)) artifactUUID of
        None \<Rightarrow> Inl (Errorf ''invalid artifact UUID: %w'' [artifactUUID])
      | Some u \<Rightarrow> Inr u)"

definition stored_key :: "key_env \<Rightarrow> string \<Rightarrow> string \<Rightarrow> uuid \<Rightarrow> string \<Rightarrow> int option \<Rightarrow> StoredAPIKey" where
  "stored_key env org name artifact apiKey expiresAt =
     \<lparr>sk_UUID = ky_uuid env, sk_Name = name, sk_ArtifactUUID = artifact, sk_OrganizationName = org,
      sk_APIKeyHash = hashAPIKeySHA256 apiKey, sk_MaskedAPIKey = maskAPIKey apiKey, sk_Status = ''active'',
      sk_CreatedAt = le_now (ky_llm env), sk_UpdatedAt = le_now (ky_llm env), sk_ExpiresAt = expiresAt\<rparr>"

definition persist_key :: "key_env \<Rightarrow> string \<Rightarrow> StoredAPIKey \<Rightarrow> llm_db \<Rightarrow> deploy_error + llm_db" where
  "persist_key env text key db = (if ky_has_repo env then wrap_error text (Upsert (ky_repo env) 2 key db) else Inr db)"

text \<open>What a creation and a rotation do before they announce the key: the gateways, the key, the database.\<close>

definition prepare_create ::
  "key_env \<Rightarrow> string \<Rightarrow> string \<Rightarrow> CreateAPIKeyRequest \<Rightarrow> llm_db \<Rightarrow>
   deploy_error + (string \<times> string \<times> uuid list \<times> llm_db)" where
  "prepare_create env org artifactUUID req db =
     andThen (GenerateAPIKey env)
       (\<lambda>apiKey. andThen (if cq_Name req \<noteq> [] then Inr (cq_Name req)
           else wrap_error ''failed to generate API key name: %w'' (GenerateHandle (ky_handle env) (cq_DisplayName req)))
         (\<lambda>keyName. andThen (org_gateways env org)
           (\<lambda>gs. andThen (parse_artifact env artifactUUID)
             (\<lambda>u. andThen (parse_expiry env (cq_ExpiresAt req))
               (\<lambda>expiresAt. andThen (persist_key env ''failed to persist API key: %w''
                   (stored_key env org keyName u apiKey expiresAt) db)
                 (\<lambda>db. Inr (apiKey, keyName, gs, db)))))))"

definition broadcastCreate ::
  "key_env \<Rightarrow> string \<Rightarrow> string \<Rightarrow> string \<Rightarrow> CreateAPIKeyRequest option \<Rightarrow> llm_state \<Rightarrow>
   llm_state \<times> (deploy_error + CreateAPIKeyResponse)" where
  "broadcastCreate env org apiID artifactUUID req st =
     (case req of
        None \<Rightarrow> (st, Inl (Errorf ''nil request'' []))
      | Some req \<Rightarrow>
          (case prepare_create env org artifactUUID req (ls_db st) of
             Inl e \<Rightarrow> (st, Inl e)
           | Inr (apiKey, keyName, gs, db) \<Rightarrow>
               (let displayName = (if cq_DisplayName req = [] then keyName else cq_DisplayName req);
                    (mgr, err) = broadcast_until env 0 ''apikey.created''
                      (key_created_event env apiID keyName displayName apiKey (cq_ExpiresAt req)) gs (ls_manager st);
                    st' = \<lparr>ls_db = db, ls_manager = mgr\<rparr>
                in case err of
                     Some (g, e) \<Rightarrow> (st', Inl (Errorf ''failed to deliver API key to gateway %s: %w''
                       [ul_show (de_uuid (ky_repo env)) g, e]))
                   | None \<Rightarrow> (st', Inr \<lparr>cr_Status = ''success'',
                       cr_Message = ''API key created and broadcasted to '' @ show_int (int (length gs)) @ '' gateway(s)'',
                       cr_KeyID = keyName, cr_APIKey = apiKey\<rparr>))))"

definition broadcastRevoke ::
  "key_env \<Rightarrow> string \<Rightarrow> string \<Rightarrow> string \<Rightarrow> string \<Rightarrow> llm_state \<Rightarrow> llm_state \<times> (deploy_error + unit)" where
  "broadcastRevoke env org apiID artifactUUID keyName st =
     (case andThen (org_gateways env org)
         (\<lambda>gs. andThen (if ky_has_repo env
             then wrap_error ''failed to delete API key from store: %w'' (key_Delete (ky_repo env) 2 artifactUUID keyName (ls_db st))
             else Inr (ls_db st)) (\<lambda>db. Inr (gs, db))) of
        Inl e \<Rightarrow> (st, Inl e)
      | Inr (gs, db) \<Rightarrow>
          (let (mgr, errs) = broadcast_each env 0 ''apikey.revoked'' (key_revoked_event apiID keyName) gs (ls_manager st);
               st' = \<lparr>ls_db = db, ls_manager = mgr\<rparr>
           in if errs \<noteq> [] then (st', Inl (Errorf ''gateway %s: %w''
                (concat (map (\<lambda>(g, e). [ul_show (de_uuid (ky_repo env)) g, e]) errs))))
              else (st', Inr ())))"

definition prepare_rotate ::
  "key_env \<Rightarrow> string \<Rightarrow> string \<Rightarrow> string \<Rightarrow> RotateAPIKeyRequest \<Rightarrow> llm_db \<Rightarrow>
   deploy_error + (string \<times> uuid list \<times> llm_db)" where
  "prepare_rotate env org artifactUUID keyName req db =
     andThen (GenerateAPIKey env)
       (\<lambda>newAPIKey. andThen (org_gateways env org)
         (\<lambda>gs. andThen (parse_artifact env artifactUUID)
           (\<lambda>u. andThen (parse_expiry env (ro_ExpiresAt req))
             (\<lambda>expiresAt. andThen (persist_key env ''failed to persist rotated API key: %w''
                 (stored_key env org keyName u newAPIKey expiresAt) db)
               (\<lambda>db. Inr (newAPIKey, gs, db))))))"

definition broadcastRotate ::
  "key_env \<Rightarrow> string \<Rightarrow> string \<Rightarrow> string \<Rightarrow> string \<Rightarrow> RotateAPIKeyRequest option \<Rightarrow> llm_state \<Rightarrow>
   llm_state \<times> (deploy_error + CreateAPIKeyResponse)" where
  "broadcastRotate env org apiID artifactUUID keyName req st =
     (case req of
        None \<Rightarrow> (st, Inl (Errorf ''nil request'' []))
      | Some req \<Rightarrow>
          (case prepare_rotate env org artifactUUID keyName req (ls_db st) of
             Inl e \<Rightarrow> (st, Inl e)
           | Inr (newAPIKey, gs, db) \<Rightarrow>
               (let (mgr, err) = broadcast_until env 0 ''apikey.updated''
                      (key_updated_event env apiID keyName newAPIKey req) gs (ls_manager st);
                    st' = \<lparr>ls_db = db, ls_manager = mgr\<rparr>
                in case err of
                     Some (g, e) \<Rightarrow> (st', Inl (Errorf ''failed to deliver API key rotation to gateway %s: %w''
                       [ul_show (de_uuid (ky_repo env)) g, e]))
                   | None \<Rightarrow> (st', Inr \<lparr>cr_Status = ''success'',
                       cr_Message = ''API key rotated and broadcasted to '' @ show_int (int (length gs)) @ '' gateway(s)'',
                       cr_KeyID = keyName, cr_APIKey = newAPIKey\<rparr>))))"

section \<open>The services\<close>

definition key_provider :: "key_env \<Rightarrow> string \<Rightarrow> string \<Rightarrow> llm_db \<Rightarrow> deploy_error + (Artifact \<times> provider_row)" where
  "key_provider env providerID org db =
     wrap_error ''failed to get LLM provider: %w'' (llm_GetByUUID (ky_repo env) 0 providerID org db)"

definition key_proxy :: "key_env \<Rightarrow> string \<Rightarrow> string \<Rightarrow> llm_db \<Rightarrow> deploy_error + (Artifact \<times> LLMProxy)" where
  "key_proxy env proxyID org db =
     wrap_error ''failed to get LLM proxy: %w'' (llm_proxy_GetByID (ky_repo env) 0 proxyID org db)"

definition Provider_CreateAPIKey ::
  "key_env \<Rightarrow> string \<Rightarrow> string \<Rightarrow> CreateAPIKeyRequest option \<Rightarrow> llm_state \<Rightarrow>
   llm_state \<times> (deploy_error + CreateAPIKeyResponse)" where
  "Provider_CreateAPIKey env org providerID req st =
     (case key_provider env providerID org (ls_db st) of
        Inl e \<Rightarrow> (st, Inl e)
      | Inr _ \<Rightarrow> broadcastCreate env org providerID providerID req st)"

definition Provider_RevokeAPIKey ::
  "key_env \<Rightarrow> string \<Rightarrow> string \<Rightarrow> string \<Rightarrow> llm_state \<Rightarrow> llm_state \<times> (deploy_error + unit)" where
  "Provider_RevokeAPIKey env org providerID keyName st =
     (case key_provider env providerID org (ls_db st) of
        Inl e \<Rightarrow> (st, Inl e)
      | Inr _ \<Rightarrow> broadcastRevoke env org providerID providerID keyName st)"

definition Provider_RotateAPIKey ::
  "key_env \<Rightarrow> string \<Rightarrow> string \<Rightarrow> string \<Rightarrow> RotateAPIKeyRequest option \<Rightarrow> llm_state \<Rightarrow>
   llm_state \<times> (deploy_error + CreateAPIKeyResponse)" where
  "Provider_RotateAPIKey env org providerID keyName req st =
     (case key_provider env providerID org (ls_db st) of
        Inl e \<Rightarrow> (st, Inl e)
      | Inr _ \<Rightarrow> broadcastRotate env org providerID providerID keyName req st)"

definition Proxy_CreateAPIKey ::
  "key_env \<Rightarrow> string \<Rightarrow> string \<Rightarrow> CreateAPIKeyRequest option \<Rightarrow> llm_state \<Rightarrow>
   llm_state \<times> (deploy_error + CreateAPIKeyResponse)" where
  "Proxy_CreateAPIKey env org proxyID req st =
     (case key_proxy env proxyID org (ls_db st) of
        Inl e \<Rightarrow> (st, Inl e)
      | Inr p \<Rightarrow> broadcastCreate env org proxyID (ul_show (de_uuid (ky_repo env)) (lx_UUID (snd p))) req st)"

definition Proxy_RevokeAPIKey ::
  "key_env \<Rightarrow> string \<Rightarrow> string \<Rightarrow> string \<Rightarrow> llm_state \<Rightarrow> llm_state \<times> (deploy_error + unit)" where
  "Proxy_RevokeAPIKey env org proxyID keyName st =
     (case key_proxy env proxyID org (ls_db st) of
        Inl e \<Rightarrow> (st, Inl e)
      | Inr p \<Rightarrow> broadcastRevoke env org proxyID (ul_show (de_uuid (ky_repo env)) (lx_UUID (snd p))) keyName st)"

definition Proxy_RotateAPIKey ::
  "key_env \<Rightarrow> string \<Rightarrow> string \<Rightarrow> string \<Rightarrow> RotateAPIKeyRequest option \<Rightarrow> llm_state \<Rightarrow>
   llm_state \<times> (deploy_error + CreateAPIKeyResponse)" where
  "Proxy_RotateAPIKey env org proxyID keyName req st =
     (case key_proxy env proxyID org (ls_db st) of
        Inl e \<Rightarrow> (st, Inl e)
      | Inr p \<Rightarrow> broadcastRotate env org proxyID (ul_show (de_uuid (ky_repo env)) (lx_UUID (snd p))) keyName req st)"

end
