(* ===== verification/LlmLife.thy ===== *)
theory LlmLife
  imports DeployLifecycle LlmSync LlmProxies LlmKeys
begin

text \<open>
  The invariant of the tables of artifacts, providers, proxies, API keys and deployments, and that no
  credential of an upstream is stored in plain text, kept by every operation of the services for
  providers, proxies, API keys and deployments.
\<close>

section \<open>The invariant\<close>

definition sealed :: "UpstreamAuth option \<Rightarrow> bool" where
  "sealed a \<longleftrightarrow> (case a of None \<Rightarrow> True | Some a \<Rightarrow> ua_Value a = None)"

definition artifacts_ok :: "Artifact list \<Rightarrow> bool" where
  "artifacts_ok as \<longleftrightarrow> distinct (map af_UUID as)
     \<and> distinct (map (\<lambda>a. (af_Handle a, af_OrganizationName a)) as)
     \<and> distinct (map (\<lambda>a. (af_Name a, af_Version a, af_OrganizationName a)) as)"

definition of_kind :: "string \<Rightarrow> uuid \<Rightarrow> Artifact list \<Rightarrow> bool" where
  "of_kind kind u as \<longleftrightarrow> (\<exists>a \<in> set as. af_UUID a = u \<and> af_Kind a = kind)"

definition providers_ok :: "llm_db \<Rightarrow> bool" where
  "providers_ok db \<longleftrightarrow> distinct (map lp_UUID (lb_providers db))
     \<and> (\<forall>p \<in> set (lb_providers db). of_kind KindLLMProvider (lp_UUID p) (lb_artifacts db)
         \<and> sealed (main_auth (lp_Configuration p)))"

definition proxies_ok :: "llm_db \<Rightarrow> bool" where
  "proxies_ok db \<longleftrightarrow> distinct (map lx_UUID (lb_proxies db))
     \<and> (\<forall>p \<in> set (lb_proxies db). of_kind KindLLMProxy (lx_UUID p) (lb_artifacts db)
         \<and> lx_ProviderUUID p \<in> set (map lp_UUID (lb_providers db)) \<and> sealed (xc_UpstreamAuth (lx_Configuration p)))"

definition keys_ok :: "llm_db \<Rightarrow> bool" where
  "keys_ok db \<longleftrightarrow> distinct (map key_of (lb_keys db)) \<and> distinct (map sk_UUID (lb_keys db))
     \<and> (\<forall>k \<in> set (lb_keys db). has_uuid (sk_ArtifactUUID k) db)"

definition deployments_ok :: "llm_db \<Rightarrow> bool" where
  "deployments_ok db \<longleftrightarrow> db_ok (lb_deploy db)
     \<and> (\<forall>d \<in> set (db_deployments (lb_deploy db)). has_uuid (dp_ArtifactUUID d) db)"

definition llm_ok :: "llm_db \<Rightarrow> bool" where
  "llm_ok db \<longleftrightarrow> artifacts_ok (lb_artifacts db) \<and> providers_ok db \<and> proxies_ok db \<and> keys_ok db \<and> deployments_ok db"

lemmas llm_ok_parts = llm_ok_def artifacts_ok_def providers_ok_def proxies_ok_def keys_ok_def deployments_ok_def

lemma of_kind_has_uuid: "of_kind kind u (lb_artifacts db) \<Longrightarrow> has_uuid u db"
  by (auto simp: of_kind_def has_uuid_def)

lemma of_kind_append: "of_kind kind u as \<Longrightarrow> of_kind kind u (as @ bs)"
  by (auto simp: of_kind_def)

section \<open>Statements that keep it\<close>

text \<open>A new artifact, and rows for it.\<close>

lemma insert_artifact_ok:
  assumes "llm_ok db" and "insert_artifact a db = Inr db'"
  shows "llm_ok db'" and "of_kind (af_Kind a) (af_UUID a) (lb_artifacts db')" and "lb_providers db' = lb_providers db"
proof -
  have d: "db' = db\<lparr>lb_artifacts := lb_artifacts db @ [a]\<rparr>"
    and new: "af_UUID a \<notin> set (map af_UUID (lb_artifacts db))"
    "\<forall>b \<in> set (lb_artifacts db). \<not> (af_Handle b = af_Handle a \<and> af_OrganizationName b = af_OrganizationName a)"
    "\<forall>b \<in> set (lb_artifacts db). \<not> (af_Name b = af_Name a \<and> af_Version b = af_Version a
       \<and> af_OrganizationName b = af_OrganizationName a)"
    using assms(2) by (auto simp: insert_artifact_def has_uuid_def list_ex_iff split: if_splits)
  have "artifacts_ok (lb_artifacts db @ [a])"
    using assms(1) new by (auto simp: llm_ok_def artifacts_ok_def)
  then show "llm_ok db'" using assms(1) unfolding d
    by (auto simp: llm_ok_def providers_ok_def proxies_ok_def keys_ok_def deployments_ok_def has_uuid_def
        intro: of_kind_append)
  show "of_kind (af_Kind a) (af_UUID a) (lb_artifacts db')" "lb_providers db' = lb_providers db"
    by (auto simp: d of_kind_def)
qed

lemma insert_provider_ok:
  assumes "llm_ok db" and "insert_provider p db = Inr db'" and "of_kind KindLLMProvider (lp_UUID p) (lb_artifacts db)"
    and "sealed (main_auth (lp_Configuration p))"
  shows "llm_ok db'"
proof -
  have d: "db' = db\<lparr>lb_providers := lb_providers db @ [p]\<rparr>" and new: "lp_UUID p \<notin> set (map lp_UUID (lb_providers db))"
    using assms(2) by (auto simp: insert_provider_def split: if_splits)
  show ?thesis using assms(1,3,4) new unfolding d by (auto simp: llm_ok_parts has_uuid_def)
qed

lemma insert_proxy_ok:
  assumes "llm_ok db" and "insert_proxy p db = Inr db'" and "of_kind KindLLMProxy (lx_UUID p) (lb_artifacts db)"
    and "sealed (xc_UpstreamAuth (lx_Configuration p))"
  shows "llm_ok db'"
proof -
  have d: "db' = db\<lparr>lb_proxies := lb_proxies db @ [p]\<rparr>" and new: "lx_UUID p \<notin> set (map lx_UUID (lb_proxies db))"
    "lx_ProviderUUID p \<in> set (map lp_UUID (lb_providers db))"
    using assms(2) by (auto simp: insert_proxy_def split: if_splits)
  show ?thesis using assms(1,3,4) new unfolding d by (auto simp: llm_ok_parts has_uuid_def)
qed

text \<open>Updates in place.\<close>

lemma map_if_ok: "map f (map (\<lambda>r. if P r then g r else r) xs) = map f xs" if "\<And>r. f (g r) = f r"
  using that by (auto simp: comp_def)

lemma set_provider_ok:
  assumes ok: "llm_ok db" and s: "sealed (main_auth (lp_Configuration p))"
  shows "llm_ok (db\<lparr>lb_providers := map (\<lambda>r. if lp_UUID r = u then set_provider p r else r) (lb_providers db)\<rparr>)"
proof -
  let ?new = "map (\<lambda>r. if lp_UUID r = u then set_provider p r else r) (lb_providers db)"
  have m: "map lp_UUID ?new = map lp_UUID (lb_providers db)" by (simp add: set_provider_def)
  have "\<forall>r \<in> set ?new. of_kind KindLLMProvider (lp_UUID r) (lb_artifacts db) \<and> sealed (main_auth (lp_Configuration r))"
    using ok s by (auto simp: set_provider_def llm_ok_def providers_ok_def)
  then show ?thesis using ok m
    unfolding llm_ok_def providers_ok_def proxies_ok_def keys_ok_def deployments_ok_def has_uuid_def
    by (simp del: map_map)
qed

lemma update_proxy_ok:
  assumes ok: "llm_ok db" and u: "update_proxy u p db = Inr db'" and s: "sealed (xc_UpstreamAuth (lx_Configuration p))"
  shows "llm_ok db'"
proof -
  let ?new = "map (\<lambda>r. if lx_UUID r = u then set_proxy p r else r) (lb_proxies db)"
  have d: "db' = db\<lparr>lb_proxies := ?new\<rparr>" and f: "lx_ProviderUUID p \<in> set (map lp_UUID (lb_providers db))"
    using u by (auto simp: update_proxy_def split: if_splits)
  have m: "map lx_UUID ?new = map lx_UUID (lb_proxies db)" by (simp add: set_proxy_def)
  have "\<forall>r \<in> set ?new. of_kind KindLLMProxy (lx_UUID r) (lb_artifacts db)
      \<and> lx_ProviderUUID r \<in> set (map lp_UUID (lb_providers db)) \<and> sealed (xc_UpstreamAuth (lx_Configuration r))"
    using ok s f by (auto simp: set_proxy_def llm_ok_def proxies_ok_def)
  then show ?thesis using ok m unfolding d
    unfolding llm_ok_def providers_ok_def proxies_ok_def keys_ok_def deployments_ok_def has_uuid_def
    by (simp del: map_map)
qed

lemma update_artifact_ok:
  assumes ok: "llm_ok db" and u: "update_artifact u org f db = Inr db'"
    and same: "\<And>a. af_UUID (f a) = af_UUID a \<and> af_Handle (f a) = af_Handle a \<and> af_Name (f a) = af_Name a
      \<and> af_Version (f a) = af_Version a \<and> af_OrganizationName (f a) = af_OrganizationName a \<and> af_Kind (f a) = af_Kind a"
  shows "llm_ok db'"
proof -
  let ?new = "map (\<lambda>a. if af_UUID a = u \<and> af_OrganizationName a = org then f a else a) (lb_artifacts db)"
  have d: "db' = db\<lparr>lb_artifacts := ?new\<rparr>"
    using u by (auto simp: update_artifact_def Let_def split: if_splits)
  have "map h ?new = map h (lb_artifacts db)" if "\<And>a. h (f a) = h a" for h :: "Artifact \<Rightarrow> 'x"
    by (rule map_if_ok) (rule that)
  note m = this
  have "artifacts_ok ?new" using ok same unfolding llm_ok_def artifacts_ok_def by (simp add: m del: map_map)
  moreover have "of_kind kind v ?new" if k: "of_kind kind v (lb_artifacts db)" for kind v
  proof -
    obtain a where "a \<in> set (lb_artifacts db)" "af_UUID a = v" "af_Kind a = kind" using k by (auto simp: of_kind_def)
    then show ?thesis using same unfolding of_kind_def set_map
      by (intro bexI[OF _ imageI[of a]]) simp_all
  qed
  moreover have "map af_UUID ?new = map af_UUID (lb_artifacts db)" using same by (simp add: m del: map_map)
  ultimately show ?thesis using ok unfolding d
    by (simp add: llm_ok_def providers_ok_def proxies_ok_def keys_ok_def deployments_ok_def has_uuid_def del: map_map)
qed

text \<open>API keys.\<close>

lemma Upsert_ok:
  assumes ok: "llm_ok db" and u: "Upsert env n key db = Inr db'"
  shows "llm_ok db'"
proof -
  let ?new = "map (\<lambda>k. if key_of k = key_of key then refresh_key key k else k) (lb_keys db)"
  have fresh: "key_of key \<notin> set (map key_of (lb_keys db)) \<Longrightarrow>
      sk_UUID key \<notin> set (map sk_UUID (lb_keys db)) \<and> has_uuid (sk_ArtifactUUID key) db"
    and d: "db' = db\<lparr>lb_keys := (if key_of key \<in> set (map key_of (lb_keys db)) then ?new else lb_keys db @ [key])\<rparr>"
    using u by (auto simp: Upsert_def statement_def split: option.splits if_splits)
  have m: "map key_of ?new = map key_of (lb_keys db)" "map sk_UUID ?new = map sk_UUID (lb_keys db)"
    by (auto simp: key_of_def refresh_key_def)
  have "\<forall>k \<in> set ?new. has_uuid (sk_ArtifactUUID k) db"
    using ok by (auto simp: refresh_key_def llm_ok_def keys_ok_def)
  then have "keys_ok (db\<lparr>lb_keys := ?new\<rparr>)"
    using ok m by (simp add: llm_ok_def keys_ok_def has_uuid_def del: map_map)
  moreover have "keys_ok (db\<lparr>lb_keys := lb_keys db @ [key]\<rparr>)" if "key_of key \<notin> set (map key_of (lb_keys db))"
    using ok fresh[OF that] that by (auto simp: llm_ok_def keys_ok_def has_uuid_def)
  ultimately have "keys_ok db'" unfolding d by simp
  then show ?thesis using ok unfolding d
    by (simp add: llm_ok_def providers_ok_def proxies_ok_def deployments_ok_def has_uuid_def)
qed

lemma key_Delete_ok:
  assumes ok: "llm_ok db" and u: "key_Delete env n i name db = Inr db'"
  shows "llm_ok db'"
proof -
  from u obtain v where "db' = db\<lparr>lb_keys := filter (\<lambda>k. key_of k \<noteq> (v, name)) (lb_keys db)\<rparr>"
    by (auto simp: key_Delete_def statement_def andThen_Inr split: option.splits)
  then show ?thesis using ok
    by (auto simp: llm_ok_def providers_ok_def proxies_ok_def keys_ok_def deployments_ok_def has_uuid_def
        intro: distinct_map_filter_same)
qed

section \<open>Deleting an artifact\<close>

lemma fold_delete_rows:
  assumes "d \<in> set (db_deployments (fold delete_deployment is db))"
  shows "\<exists>e \<in> set (db_deployments db). dp_DeploymentID d = dp_DeploymentID e \<and> target d = target e
    \<and> dp_DeploymentID e \<notin> set is"
  using assms
proof (induction "is" arbitrary: db)
  case (Cons i "is")
  then obtain e where e: "e \<in> set (db_deployments (delete_deployment i db))" "dp_DeploymentID d = dp_DeploymentID e"
    "target d = target e" "dp_DeploymentID e \<notin> set is" by auto
  then obtain e0 where "e0 \<in> set (db_deployments db)" "e = clear_base i e0" "dp_DeploymentID e0 \<noteq> i"
    by (auto simp: delete_deployment_eq)
  then show ?case using e by (intro bexI[of _ e0]) auto
qed auto

lemma delete_artifact_deploy_ok:
  assumes "db_ok db"
  shows "db_ok (delete_artifact_deploy u db)"
    and "d \<in> set (db_deployments (delete_artifact_deploy u db)) \<Longrightarrow> dp_ArtifactUUID d \<noteq> u
      \<and> dp_ArtifactUUID d \<in> dp_ArtifactUUID ` set (db_deployments db)"
proof -
  let ?is = "map dp_DeploymentID (filter (\<lambda>d. dp_ArtifactUUID d = u) (db_deployments db))"
  have "db_ok (fold delete_deployment ?is db)" by (rule fold_delete_ok[OF assms])
  then show "db_ok (delete_artifact_deploy u db)"
    by (auto simp: delete_artifact_deploy_def Let_def db_ok_def status_ok_def ids_def intro: distinct_map_filter_same)
  assume "d \<in> set (db_deployments (delete_artifact_deploy u db))"
  then have "d \<in> set (db_deployments (fold delete_deployment ?is db))"
    by (simp add: delete_artifact_deploy_def Let_def)
  from fold_delete_rows[OF this] obtain e where "e \<in> set (db_deployments db)" "target d = target e"
    "dp_DeploymentID e \<notin> set ?is" by blast
  then show "dp_ArtifactUUID d \<noteq> u \<and> dp_ArtifactUUID d \<in> dp_ArtifactUUID ` set (db_deployments db)"
    by (auto simp: target_def image_iff)
qed

lemma remove_artifact_ok:
  assumes ok: "llm_ok db" and free: "\<forall>p \<in> set (lb_proxies db). lx_ProviderUUID p \<noteq> u \<or> lx_UUID p = u"
  shows "llm_ok (remove_artifact u db)"
proof -
  have kept: "of_kind kind v (lb_artifacts (remove_artifact u db))" if "of_kind kind v (lb_artifacts db)" "v \<noteq> u" for kind v
    using that by (auto simp: of_kind_def remove_artifact_def)
  have has: "has_uuid v (remove_artifact u db)" if "has_uuid v db" "v \<noteq> u" for v
    using that by (auto simp: has_uuid_def remove_artifact_def)
  have provs: "v \<in> set (map lp_UUID (lb_providers (remove_artifact u db)))"
    if "v \<in> set (map lp_UUID (lb_providers db))" "v \<noteq> u" for v
    using that by (auto simp: remove_artifact_def)
  have "artifacts_ok (lb_artifacts (remove_artifact u db))"
    using ok by (auto simp: llm_ok_def artifacts_ok_def remove_artifact_def intro: distinct_map_filter_same)
  moreover have "providers_ok (remove_artifact u db)"
    using ok kept by (auto simp: llm_ok_def providers_ok_def remove_artifact_def intro: distinct_map_filter_same)
  moreover have "proxies_ok (remove_artifact u db)"
  proof -
    have "of_kind KindLLMProxy (lx_UUID p) (lb_artifacts (remove_artifact u db))
        \<and> lx_ProviderUUID p \<in> set (map lp_UUID (lb_providers (remove_artifact u db)))
        \<and> sealed (xc_UpstreamAuth (lx_Configuration p))"
      if "p \<in> set (lb_proxies db)" "lx_UUID p \<noteq> u" for p
      using ok that kept[of KindLLMProxy "lx_UUID p"] provs[of "lx_ProviderUUID p"] free
      by (auto simp: llm_ok_def proxies_ok_def)
    then show ?thesis
      using ok by (auto simp: llm_ok_def proxies_ok_def remove_artifact_def intro: distinct_map_filter_same)
  qed
  moreover have "keys_ok (remove_artifact u db)"
    using ok has by (auto simp: llm_ok_def keys_ok_def remove_artifact_def intro: distinct_map_filter_same)
  moreover have "deployments_ok (remove_artifact u db)"
    using ok delete_artifact_deploy_ok[of "lb_deploy db"] has
    by (fastforce simp: llm_ok_def deployments_ok_def remove_artifact_def)
  ultimately show ?thesis by (simp add: llm_ok_def)
qed

lemma no_proxies:
  assumes "llm_ok db" and "\<not> has_proxies u db" and "p \<in> set (lb_proxies db)"
  shows "lx_ProviderUUID p \<noteq> u"
  using assms by (auto simp: llm_ok_def proxies_ok_def has_proxies_def)

lemma artifact_Delete_ok:
  assumes ok: "llm_ok db" and d: "artifact_Delete env n i db = Inr db'"
  shows "llm_ok db'"
proof -
  from d obtain u where "\<not> has_proxies u db" "db' = remove_artifact u db"
    by (auto simp: artifact_Delete_def statement_def andThen_Inr split: option.splits if_splits)
  then show ?thesis using remove_artifact_ok[OF ok] no_proxies[OF ok] by blast
qed

lemma drop_provider_ok:
  assumes ok: "llm_ok db" and free: "\<not> has_proxies u db"
  shows "llm_ok (db\<lparr>lb_providers := filter (\<lambda>p. lp_UUID p \<noteq> u) (lb_providers db)\<rparr>)"
proof -
  have "v \<in> set (map lp_UUID (filter (\<lambda>p. lp_UUID p \<noteq> u) (lb_providers db)))"
    if "v \<in> set (map lp_UUID (lb_providers db))" "v \<noteq> u" for v
    using that by auto
  then show ?thesis
    using ok no_proxies[OF ok free]
    by (auto simp: llm_ok_def providers_ok_def proxies_ok_def keys_ok_def deployments_ok_def has_uuid_def
        intro: distinct_map_filter_same)
qed

lemma drop_proxy_ok:
  assumes "llm_ok db"
  shows "llm_ok (db\<lparr>lb_proxies := filter (\<lambda>p. lx_UUID p \<noteq> u) (lb_proxies db)\<rparr>)"
  using assms
  by (auto simp: llm_ok_def providers_ok_def proxies_ok_def keys_ok_def deployments_ok_def has_uuid_def
      intro: distinct_map_filter_same)

section \<open>The repositories keep it\<close>

lemma statement_Inr_iff: "statement env n r = Inr y \<longleftrightarrow> de_fault env n = None \<and> r = Inr y"
  by (simp add: statement_def split: option.split)

lemma provider_repo_Create_ok:
  assumes ok: "llm_ok db" and s: "sealed (main_auth (lp_Configuration p))"
    and c: "provider_repo_Create env n newid now p handle name version org db = Inr (p', db')"
  shows "llm_ok db'"
proof -
  from c obtain a db1 where a: "insert_artifact a db = Inr db1" "af_UUID a = lp_UUID p'" "af_Kind a = KindLLMProvider"
    and i: "insert_provider p' db1 = Inr db'" and p': "lp_Configuration p' = lp_Configuration p"
    by (auto simp: provider_repo_Create_def artifact_Create_def Let_def andThen_Inr wrap_error_Inr statement_Inr_iff
        map_sum_Inr split: if_splits)
  note ins = insert_artifact_ok[OF ok a(1)]
  show ?thesis using insert_provider_ok[OF ins(1) i] ins(2) a s p' by simp
qed

lemma proxy_repo_Create_ok:
  assumes ok: "llm_ok db" and s: "sealed (xc_UpstreamAuth (lx_Configuration p))"
    and c: "proxy_repo_Create env n newid now p handle name version org db = Inr (p', db')"
  shows "llm_ok db'"
proof -
  from c obtain a db1 where a: "insert_artifact a db = Inr db1" "af_UUID a = lx_UUID p'" "af_Kind a = KindLLMProxy"
    and i: "insert_proxy p' db1 = Inr db'" and p': "lx_Configuration p' = lx_Configuration p"
    by (auto simp: proxy_repo_Create_def artifact_Create_def Let_def andThen_Inr wrap_error_Inr statement_Inr_iff
        map_sum_Inr split: if_splits)
  note ins = insert_artifact_ok[OF ok a(1)]
  show ?thesis using insert_proxy_ok[OF ins(1) i] ins(2) a s p' by simp
qed

lemma provider_repo_Update_ok:
  assumes ok: "llm_ok db" and s: "sealed (main_auth (lp_Configuration p))"
    and u: "provider_repo_Update env n p i db = Inr db'"
  shows "llm_ok db'"
proof -
  from u obtain v where "db' = db\<lparr>lb_providers := map (\<lambda>r. if lp_UUID r = v then set_provider p r else r) (lb_providers db)\<rparr>"
    by (auto simp: provider_repo_Update_def andThen_Inr wrap_error_Inr statement_Inr_iff split: if_splits)
  then show ?thesis using set_provider_ok[OF ok s] by simp
qed

lemma proxy_repo_Update_ok:
  assumes ok: "llm_ok db" and s: "sealed (xc_UpstreamAuth (lx_Configuration p))"
    and u: "proxy_repo_Update env n p handle org db = Inr db'"
  shows "llm_ok db'"
proof -
  from u obtain v where "update_proxy v p db = Inr db'" by (auto simp: proxy_repo_Update_def andThen_Inr)
  then show ?thesis by (rule update_proxy_ok[OF ok _ s])
qed

lemma provider_repo_Delete_ok:
  assumes ok: "llm_ok db" and d: "provider_repo_Delete env n i org db = Inr db'"
  shows "llm_ok db'"
proof -
  from d obtain u where free: "\<not> has_proxies u db"
    and a: "artifact_Delete env (n + 2) (ul_show (de_uuid env) u)
      (db\<lparr>lb_providers := filter (\<lambda>p. lp_UUID p \<noteq> u) (lb_providers db)\<rparr>) = Inr db'"
    by (auto simp: provider_repo_Delete_def andThen_Inr statement_Inr_iff split: option.splits if_splits)
  show ?thesis by (rule artifact_Delete_ok[OF drop_provider_ok[OF ok free] a])
qed

lemma proxy_repo_Delete_ok:
  assumes ok: "llm_ok db" and d: "proxy_repo_Delete env n i org db = Inr db'"
  shows "llm_ok db'"
proof -
  from d obtain u where a: "artifact_Delete env (n + 2) (ul_show (de_uuid env) u)
      (db\<lparr>lb_proxies := filter (\<lambda>p. lx_UUID p \<noteq> u) (lb_proxies db)\<rparr>) = Inr db'"
    by (auto simp: proxy_repo_Delete_def andThen_Inr statement_Inr_iff)
  show ?thesis by (rule artifact_Delete_ok[OF drop_proxy_ok[OF ok] a])
qed

section \<open>What is stored is sealed\<close>

lemma seal_auth_value: "seal_auth env text a = Inr a' \<Longrightarrow> ua_Value a' = None"
  by (auto simp: seal_auth_def andThen_Inr split: option.splits)

lemma main_auth_set: "main_auth config \<noteq> None \<Longrightarrow> main_auth (set_main_auth a config) = Some a"
  by (auto simp: main_auth_def set_main_auth_def bind_eq_Some_conv)

lemma seal_config_sealed: "seal_config env config = Inr config' \<Longrightarrow> sealed (main_auth config')"
  by (cases "main_auth config")
    (auto simp: seal_config_def andThen_Inr sealed_def main_auth_set dest: seal_auth_value)

lemma seal_proxy_sealed: "seal_proxy_config env config = Inr config' \<Longrightarrow> sealed (xc_UpstreamAuth config')"
  by (auto simp: seal_proxy_config_def andThen_Inr sealed_def dest: seal_auth_value split: option.splits)

lemma new_provider_sealed: "new_provider env org by' p db = Inr r \<Longrightarrow> sealed (main_auth (lp_Configuration r))"
  by (auto simp: new_provider_def Let_def andThen_Inr dest: seal_config_sealed split: if_splits)

lemma updated_provider_sealed: "updated_provider env org p = Inr r \<Longrightarrow> sealed (main_auth (lp_Configuration r))"
  by (auto simp: updated_provider_def Let_def andThen_Inr dest: seal_config_sealed)

lemma new_proxy_sealed: "new_proxy env org by' p db = Inr r \<Longrightarrow> sealed (xc_UpstreamAuth (lx_Configuration r))"
  by (auto simp: new_proxy_def Let_def andThen_Inr dest: seal_proxy_sealed split: if_splits)

lemma updated_proxy_sealed: "updated_proxy env org e p db = Inr r \<Longrightarrow> sealed (xc_UpstreamAuth (lx_Configuration r))"
  by (auto simp: updated_proxy_def Let_def andThen_Inr dest: seal_proxy_sealed)

end
