(* ===== verification/LlmRuns.thy ===== *)
theory LlmRuns
  imports LlmLife
begin

text \<open>
  Sequences of operations of the services for LLM providers, LLM proxies and API keys, with all operations
  of the deployment services and the messages of the gateways in between: each keeps the invariant of the
  tables.
\<close>

section \<open>Operations on the tables alone\<close>

lemma LLMProvider_Create_ok:
  assumes ok: "llm_ok db"
  shows "llm_ok (fst (LLMProvider_Create env org by' provider db))"
proof (cases provider)
  case (Some p)
  let ?r = "andThen (new_provider env org by' p db)
     (\<lambda>p. let config = lp_Configuration p in map_sum create_error id
        (andThen (provider_repo_Create (le_repo env) 10 (le_newid env) (le_now env) p (cf_Handle config)
            (cf_Name config) (cf_Version config) org db) (\<lambda>r. statement (le_repo env) 12 (Inr r))))"
  have "llm_ok db'" if "?r = Inr (p', db')" for p' db'
  proof -
    from that obtain q where q: "new_provider env org by' p db = Inr q"
      and c: "provider_repo_Create (le_repo env) 10 (le_newid env) (le_now env) q (cf_Handle (lp_Configuration q))
        (cf_Name (lp_Configuration q)) (cf_Version (lp_Configuration q)) org db = Inr (p', db')"
      by (auto simp: andThen_Inr map_sum_Inr Let_def statement_Inr_iff)
    show ?thesis by (rule provider_repo_Create_ok[OF ok new_provider_sealed[OF q] c])
  qed
  then show ?thesis using Some ok by (auto simp: LLMProvider_Create_def split: sum.split)
qed (simp add: LLMProvider_Create_def ok)

lemma LLMProvider_Update_ok:
  assumes ok: "llm_ok db"
  shows "llm_ok (fst (LLMProvider_Update env i org updates db))"
proof (cases updates)
  case (Some p)
  let ?r = "andThen (updated_provider env org p)
     (\<lambda>p. map_sum (\<lambda>e. if error_is ErrRecordNotFound e then ErrLLMProviderNotFound
            else Wrapf ''failed to update provider: %w'' [] e) id
        (andThen (provider_repo_Update (le_repo env) 2 p i db) (\<lambda>db. statement (le_repo env) 3 (Inr db))))"
  have "llm_ok db'" if "?r = Inr db'" for db'
  proof -
    from that obtain q where q: "updated_provider env org p = Inr q"
      and c: "provider_repo_Update (le_repo env) 2 q i db = Inr db'"
      by (auto simp: andThen_Inr map_sum_Inr statement_Inr_iff)
    show ?thesis by (rule provider_repo_Update_ok[OF ok updated_provider_sealed[OF q] c])
  qed
  then show ?thesis using Some ok by (auto simp: LLMProvider_Update_def split: sum.split)
qed (simp add: LLMProvider_Update_def ok)

lemma LLMProxy_Create_ok:
  assumes ok: "llm_ok db"
  shows "llm_ok (fst (LLMProxy_Create env org by' proxy db))"
proof (cases proxy)
  case (Some p)
  let ?handle = "xc_Name (lx_Configuration p)"
  let ?r = "andThen (new_proxy env org by' p db)
     (\<lambda>p. wrap_error ''failed to create proxy: %w''
        (andThen (proxy_repo_Create (le_repo env) 10 (le_newid env) (le_now env) p ?handle ?handle
            (xc_Version (lx_Configuration p)) org db) (\<lambda>r. statement (le_repo env) 12 (Inr r))))"
  have "llm_ok db'" if "?r = Inr (p', db')" for p' db'
  proof -
    from that obtain q where q: "new_proxy env org by' p db = Inr q"
      and c: "proxy_repo_Create (le_repo env) 10 (le_newid env) (le_now env) q ?handle ?handle
        (xc_Version (lx_Configuration q)) org db = Inr (p', db')"
      by (auto simp: andThen_Inr wrap_error_Inr statement_Inr_iff)
    show ?thesis by (rule proxy_repo_Create_ok[OF ok new_proxy_sealed[OF q] c])
  qed
  then show ?thesis using Some ok by (auto simp: LLMProxy_Create_def Let_def split: sum.split)
qed (simp add: LLMProxy_Create_def ok)

lemma LLMProxy_Update_ok:
  assumes ok: "llm_ok db"
  shows "llm_ok (fst (LLMProxy_Update env i org updates db))"
proof (cases updates)
  case (Some p)
  let ?r = "andThen (map_sum (not_found_or ''failed to get existing proxy: %w'') id
         (llm_proxy_GetByID (le_repo env) 1 i org db))
       (\<lambda>existing. andThen (updated_proxy env org (snd existing) p db)
         (\<lambda>p. map_sum (not_found_or ''failed to update proxy: %w'') id
            (andThen (proxy_repo_Update (le_repo env) 3 p i org db) (\<lambda>db. statement (le_repo env) 5 (Inr db)))))"
  have "llm_ok db'" if "?r = Inr db'" for db'
  proof -
    from that obtain e q where q: "updated_proxy env org e p db = Inr q"
      and c: "proxy_repo_Update (le_repo env) 3 q i org db = Inr db'"
      by (auto simp: andThen_Inr map_sum_Inr statement_Inr_iff)
    show ?thesis by (rule proxy_repo_Update_ok[OF ok updated_proxy_sealed[OF q] c])
  qed
  then show ?thesis using Some ok by (auto simp: LLMProxy_Update_def split: sum.split)
qed (simp add: LLMProxy_Update_def ok)

lemma LLMProxy_Delete_ok: "llm_ok db \<Longrightarrow> llm_ok (fst (LLMProxy_Delete env i org db))"
  by (auto simp: LLMProxy_Delete_def andThen_Inr statement_Inr_iff split: sum.split dest: proxy_repo_Delete_ok)

lemma UpdateCatalogStatus_ok:
  assumes ok: "llm_ok db"
  shows "llm_ok (fst (UpdateCatalogStatus env i org inCatalog db))"
proof -
  have "llm_ok db'" if "update_artifact u org (\<lambda>a. a\<lparr>af_InCatalog := inCatalog, af_UpdatedAt := le_now env\<rparr>) db = Inr db'"
    for u db' by (rule update_artifact_ok[OF ok that]) simp
  then show ?thesis
    using ok by (auto simp: UpdateCatalogStatus_def repo_UpdateCatalogStatus_def andThen_Inr statement_Inr_iff split: sum.split)
qed

lemma persist_ok:
  assumes "llm_ok db" and "persist_key env text key db = Inr db'"
  shows "llm_ok db'"
  using assms Upsert_ok by (auto simp: persist_key_def wrap_error_Inr split: if_splits)

section \<open>Operations with events\<close>

lemma broadcastCreate_ok:
  assumes "llm_ok (ls_db st)"
  shows "llm_ok (ls_db (fst (broadcastCreate env org apiID artifact req st)))"
proof -
  have "llm_ok db'" if "prepare_create env org artifact r (ls_db st) = Inr (k, n, gs, db')" for r k n gs db'
    using that by (auto simp: prepare_create_def andThen_Inr dest: persist_ok[OF assms])
  then show ?thesis using assms
    by (auto simp: broadcastCreate_def Let_def split: option.split sum.split prod.split)
qed

lemma broadcastRotate_ok:
  assumes "llm_ok (ls_db st)"
  shows "llm_ok (ls_db (fst (broadcastRotate env org apiID artifact name req st)))"
proof -
  have "llm_ok db'" if "prepare_rotate env org artifact name r (ls_db st) = Inr (k, gs, db')" for r k gs db'
    using that by (auto simp: prepare_rotate_def andThen_Inr dest: persist_ok[OF assms])
  then show ?thesis using assms
    by (auto simp: broadcastRotate_def Let_def split: option.split sum.split prod.split)
qed

lemma broadcastRevoke_ok:
  assumes "llm_ok (ls_db st)"
  shows "llm_ok (ls_db (fst (broadcastRevoke env org apiID artifact name st)))"
  using assms
  by (auto simp: broadcastRevoke_def Let_def andThen_Inr wrap_error_Inr split: sum.split prod.split if_splits
      dest: key_Delete_ok)

text \<open>A deployment operation sees the artifacts of the tables and leaves a consistent history of them.\<close>

lemma db_ok_view: "db_ok (deploy_view db) \<longleftrightarrow> db_ok (lb_deploy db)"
  by (simp add: db_ok_def deploy_view_def status_ok_def ids_def)

lemma on_deploy_ok:
  assumes ok: "llm_ok (ls_db st)"
    and f: "\<And>ds. db_ok (sv_db ds) \<Longrightarrow> good_step (sv_db ds) (sv_db (fst (f ds)))"
  shows "llm_ok (ls_db (fst (on_deploy f st)))"
proof -
  let ?ds = "\<lparr>sv_db = deploy_view (ls_db st), sv_manager = ls_manager st\<rparr>"
  obtain ds r where fr: "f ?ds = (ds, r)" by fastforce
  have "db_ok (sv_db ?ds)" using ok by (simp add: db_ok_view llm_ok_def deployments_ok_def)
  from f[OF this] have g0: "good_step (sv_db ?ds) (sv_db ds)" unfolding fr fst_conv .
  have g: "db_ok (sv_db ds)" "dp_ArtifactUUID ` set (db_deployments (sv_db ds))
      \<subseteq> dp_ArtifactUUID ` set (db_deployments (lb_deploy (ls_db st))) \<union> set (map af_UUID (lb_artifacts (ls_db st)))"
    using g0 unfolding good_step_def by (simp_all add: deploy_view_def)
  have "has_uuid (dp_ArtifactUUID d) (ls_db st)" if "d \<in> set (db_deployments (sv_db ds))" for d
  proof -
    have "dp_ArtifactUUID d \<in> dp_ArtifactUUID ` set (db_deployments (lb_deploy (ls_db st)))
        \<union> set (map af_UUID (lb_artifacts (ls_db st)))" using g(2) that by blast
    then show ?thesis using ok by (auto simp: llm_ok_def deployments_ok_def has_uuid_def)
  qed
  then have "deployments_ok ((ls_db st)\<lparr>lb_deploy := sv_db ds\<rparr>)" using g(1) by (simp add: deployments_ok_def has_uuid_def)
  then show ?thesis using ok
    by (simp add: on_deploy_def fr llm_ok_def providers_ok_def proxies_ok_def keys_ok_def has_uuid_def)
qed

lemma service_for_uuid [simp]: "de_uuid (se_repo (service_for env k db)) = le_uuid env"
  by (simp add: service_for_def)

lemma on_deploy_artifacts [simp]:
  "lb_artifacts (ls_db (fst (on_deploy f st))) = lb_artifacts (ls_db st)"
  "lb_providers (ls_db (fst (on_deploy f st))) = lb_providers (ls_db st)"
  "lb_proxies (ls_db (fst (on_deploy f st))) = lb_proxies (ls_db st)"
  "lb_keys (ls_db (fst (on_deploy f st))) = lb_keys (ls_db st)"
  by (simp_all add: on_deploy_def split: prod.split)

lemma deploy_to_state:
  "fst (deploy_to env k i name g metadata org st) =
     fst (on_deploy (DeployLLMProvider (service_for env k (ls_db st)) i
       \<lparr>rq_Name = name, rq_Base = ''current'', rq_GatewayID = g, rq_Metadata = Some metadata\<rparr> org) st)"
  by (simp add: deploy_to_def split: prod.split sum.split)

lemma deploy_to_ok:
  assumes "llm_ok (ls_db st)"
  shows "llm_ok (ls_db (fst (deploy_to env k i name g metadata org st)))"
  unfolding deploy_to_state by (rule on_deploy_ok[OF assms provider_exec_good(1)])

lemma undeploy_gateway_ok:
  assumes laws: "uuid_laws (le_uuid env)" and ok: "llm_ok (ls_db st)"
  shows "llm_ok (ls_db (fst (undeploy_gateway env k i g org st)))"
proof -
  have "llm_ok (ls_db (fst (on_deploy (UndeployLLMProviderDeployment (service_for env (2 * k + 1) (ls_db st)) i j g org) st)))" for j
    by (rule on_deploy_ok[OF ok provider_exec_good(2)]) (use laws in simp_all)
  then have "llm_ok (ls_db st')" if "on_deploy (UndeployLLMProviderDeployment (service_for env (2 * k + 1) (ls_db st)) i j g org) st
      = (st', r)" for j st' r using that by (metis fst_conv)
  then show ?thesis using ok
    by (auto simp: undeploy_gateway_def split: sum.split option.split prod.split)
qed

lemma undeploy_all_ok:
  assumes "uuid_laws (le_uuid env)" and "llm_ok (ls_db st)"
  shows "llm_ok (ls_db (fst (undeploy_all env k i gs org st)))"
  using assms(2)
proof (induction gs arbitrary: k st)
  case (Cons g gs)
  then show ?case using undeploy_gateway_ok[OF assms(1) Cons.prems, of k i g org]
    by (auto simp: Let_def split: prod.splits) (metis fst_conv)
qed simp

lemma LLMProvider_Delete_ok:
  assumes laws: "uuid_laws (le_uuid env)" and ok: "llm_ok (ls_db st)"
  shows "llm_ok (ls_db (fst (LLMProvider_Delete env i org st)))"
proof (cases "delete_targets env i org (ls_db st)")
  case (Inr gs)
  obtain st' outs where u: "undeploy_all env 0 i gs org st = (st', outs)" by fastforce
  have ok': "llm_ok (ls_db st')" using undeploy_all_ok[OF laws ok, of 0 i gs org] u by simp
  then show ?thesis using provider_repo_Delete_ok[OF ok']
    by (auto simp: LLMProvider_Delete_def Inr u split: sum.split)
qed (simp add: LLMProvider_Delete_def ok)

lemma deploy_each_ok:
  assumes "llm_ok (ls_db st)"
  shows "llm_ok (ls_db (fst (deploy_each env k i name gs org st)))"
  using assms
proof (induction gs arbitrary: k st)
  case (Cons g gs)
  then show ?case
    using deploy_to_ok[OF Cons.prems, of env k i "deployment_name name (Suc k)" g
        "[(''auto_deployed'', VBool True), (''gateway_index'', VInt (int (Suc k)))]" org]
    by (auto simp: Let_def split: prod.splits) (metis fst_conv)
qed simp

lemma CreateAndDeploy_ok:
  assumes "llm_ok (ls_db st)"
  shows "llm_ok (ls_db (fst (CreateAndDeploy env org by' provider gs st)))"
proof -
  obtain valid failed where v: "valid_gateways env 30 gs = (valid, failed)" by fastforce
  obtain db r where c: "LLMProvider_Create env org by' provider (ls_db st) = (db, r)" by fastforce
  have db: "llm_ok (ls_db (st\<lparr>ls_db := db\<rparr>))" using LLMProvider_Create_ok[OF assms, of env org by' provider] c by simp
  show ?thesis
  proof (cases r)
    case (Inr created)
    let ?d = "deploy_each env 0 (ul_show (le_uuid env) (lp_UUID (snd created)))
       (cf_Name (lp_Configuration (snd created))) valid org (st\<lparr>ls_db := db\<rparr>)"
    have "llm_ok (ls_db (fst ?d))" by (rule deploy_each_ok[OF db])
    then show ?thesis using assms by (auto simp: CreateAndDeploy_def v c Inr Let_def split: prod.split)
  qed (use assms db in \<open>simp add: CreateAndDeploy_def v c\<close>)
qed

lemma sync_gateway_ok:
  assumes "llm_ok (ls_db st)"
  shows "llm_ok (ls_db (fst (sync_gateway env k i name cur g org st)))"
  using assms deploy_to_ok[OF assms] by (simp add: sync_gateway_def Let_def split: sum.split)

lemma sync_all_ok:
  assumes "llm_ok (ls_db st)"
  shows "llm_ok (ls_db (fst (sync_all env k i name cur gs org st)))"
  using assms
proof (induction gs arbitrary: k st)
  case (Cons g gs)
  obtain st1 r where s: "sync_gateway env k i name cur g org st = (st1, r)" by fastforce
  then have "llm_ok (ls_db st1)" using sync_gateway_ok[OF Cons.prems, of env k i name cur g org] by simp
  then show ?case using Cons.IH[of st1 "Suc k"] by (simp add: s split: option.split)
qed simp

lemma UpdateAndSync_ok:
  assumes laws: "uuid_laws (le_uuid env)" and ok: "llm_ok (ls_db st)"
  shows "llm_ok (ls_db (fst (UpdateAndSync env i org updates gs st)))"
proof -
  obtain db r where c: "LLMProvider_Update env i org updates (ls_db st) = (db, r)" by fastforce
  have db: "llm_ok (ls_db (st\<lparr>ls_db := db\<rparr>))" using LLMProvider_Update_ok[OF ok, of env i org updates] c by simp
  have "llm_ok (ls_db (fst (sync_gateways env i org gs cur p st1)))" if "llm_ok (ls_db st1)" for cur p st1
  proof -
    obtain st2 r where s: "sync_all env 0 i (cf_Name (lp_Configuration (snd p))) cur (parsed_gateways env gs) org st1
        = (st2, r)" by fastforce
    have s2: "llm_ok (ls_db st2)" using sync_all_ok[OF that, of env 0] s by (metis fst_conv)
    then show ?thesis
      using undeploy_all_ok[OF laws s2]
      by (auto simp: sync_gateways_def Let_def s split: option.split prod.split) (metis fst_conv)+
  qed
  then show ?thesis using db
    by (auto simp: UpdateAndSync_def c Let_def split: sum.split option.split)
qed

section \<open>Sequences of operations\<close>

datatype llm_op =
    OpCreateProvider llm_env string string "provider_input option"
  | OpCreateAndDeploy llm_env string string "provider_input option" "string list"
  | OpUpdateProvider llm_env string string "provider_input option"
  | OpUpdateAndSync llm_env string string "provider_input option" "string list"
  | OpDeleteProvider llm_env string string
  | OpCatalog llm_env string string bool
  | OpCreateProxy llm_env string string "LLMProxy option"
  | OpUpdateProxy llm_env string string "LLMProxy option"
  | OpDeleteProxy llm_env string string
  | OpProviderKey key_env string string "CreateAPIKeyRequest option"
  | OpProviderRevoke key_env string string string
  | OpProviderRotate key_env string string string "RotateAPIKeyRequest option"
  | OpProxyKey key_env string string "CreateAPIKeyRequest option"
  | OpProxyRevoke key_env string string string
  | OpProxyRotate key_env string string string "RotateAPIKeyRequest option"
  | OpDeployment deploy_op

fun on_tables :: "(llm_db \<Rightarrow> llm_db \<times> 'a) \<Rightarrow> llm_state \<Rightarrow> llm_state" where
  "on_tables f st = st\<lparr>ls_db := fst (f (ls_db st))\<rparr>"

fun llm_exec :: "llm_op \<Rightarrow> llm_state \<Rightarrow> llm_state" where
  "llm_exec (OpCreateProvider env org by' p) st = on_tables (LLMProvider_Create env org by' p) st"
| "llm_exec (OpCreateAndDeploy env org by' p gs) st = fst (CreateAndDeploy env org by' p gs st)"
| "llm_exec (OpUpdateProvider env i org p) st = on_tables (LLMProvider_Update env i org p) st"
| "llm_exec (OpUpdateAndSync env i org p gs) st = fst (UpdateAndSync env i org p gs st)"
| "llm_exec (OpDeleteProvider env i org) st = fst (LLMProvider_Delete env i org st)"
| "llm_exec (OpCatalog env i org b) st = on_tables (UpdateCatalogStatus env i org b) st"
| "llm_exec (OpCreateProxy env org by' p) st = on_tables (LLMProxy_Create env org by' p) st"
| "llm_exec (OpUpdateProxy env i org p) st = on_tables (LLMProxy_Update env i org p) st"
| "llm_exec (OpDeleteProxy env i org) st = on_tables (LLMProxy_Delete env i org) st"
| "llm_exec (OpProviderKey env org i r) st = fst (Provider_CreateAPIKey env org i r st)"
| "llm_exec (OpProviderRevoke env org i name) st = fst (Provider_RevokeAPIKey env org i name st)"
| "llm_exec (OpProviderRotate env org i name r) st = fst (Provider_RotateAPIKey env org i name r st)"
| "llm_exec (OpProxyKey env org i r) st = fst (Proxy_CreateAPIKey env org i r st)"
| "llm_exec (OpProxyRevoke env org i name) st = fst (Proxy_RevokeAPIKey env org i name st)"
| "llm_exec (OpProxyRotate env org i name r) st = fst (Proxy_RotateAPIKey env org i name r st)"
| "llm_exec (OpDeployment op) st = fst (on_deploy (\<lambda>ds. (deploy_exec op ds, ())) st)"

fun lawful_llm :: "llm_op \<Rightarrow> bool" where
  "lawful_llm (OpUpdateAndSync env _ _ _ _) = uuid_laws (le_uuid env)"
| "lawful_llm (OpDeleteProvider env _ _) = uuid_laws (le_uuid env)"
| "lawful_llm (OpDeployment op) = lawful_op op"
| "lawful_llm _ = True"

lemma key_services_ok:
  assumes "llm_ok (ls_db st)"
  shows "llm_ok (ls_db (fst (Provider_CreateAPIKey env org i cr st)))"
    and "llm_ok (ls_db (fst (Provider_RevokeAPIKey env org i name st)))"
    and "llm_ok (ls_db (fst (Provider_RotateAPIKey env org i name rr st)))"
    and "llm_ok (ls_db (fst (Proxy_CreateAPIKey env org i cr st)))"
    and "llm_ok (ls_db (fst (Proxy_RevokeAPIKey env org i name st)))"
    and "llm_ok (ls_db (fst (Proxy_RotateAPIKey env org i name rr st)))"
  using assms broadcastCreate_ok[OF assms] broadcastRevoke_ok[OF assms] broadcastRotate_ok[OF assms]
  by (simp_all add: Provider_CreateAPIKey_def Provider_RevokeAPIKey_def Provider_RotateAPIKey_def
      Proxy_CreateAPIKey_def Proxy_RevokeAPIKey_def Proxy_RotateAPIKey_def split: sum.split)

lemma deployment_exec_ok:
  assumes "lawful_op op" and "llm_ok (ls_db st)"
  shows "llm_ok (ls_db (fst (on_deploy (\<lambda>ds. (deploy_exec op ds, ())) st)))"
  by (rule on_deploy_ok[OF assms(2)]) (simp add: exec_good[OF assms(1)])

interpretation llm_system: guarded_system llm_exec lawful_llm "\<lambda>st :: llm_state. llm_ok (ls_db st)"
proof unfold_locales
  fix op and st :: llm_state
  assume law: "lawful_llm op" and ok: "llm_ok (ls_db st)"
  show "llm_ok (ls_db (llm_exec op st))"
    using law ok LLMProvider_Create_ok[OF ok] CreateAndDeploy_ok[OF ok] LLMProvider_Update_ok[OF ok]
      UpdateAndSync_ok[OF _ ok] LLMProvider_Delete_ok[OF _ ok] UpdateCatalogStatus_ok[OF ok]
      LLMProxy_Create_ok[OF ok] LLMProxy_Update_ok[OF ok] LLMProxy_Delete_ok[OF ok] key_services_ok[OF ok]
      deployment_exec_ok[OF _ ok]
    by (cases op) simp_all
qed

section \<open>What undeploying leaves alone\<close>

lemma undeploy_gateway_frame:
  "lb_artifacts (ls_db (fst (undeploy_gateway env k i g org st))) = lb_artifacts (ls_db st)
   \<and> lb_providers (ls_db (fst (undeploy_gateway env k i g org st))) = lb_providers (ls_db st)
   \<and> lb_proxies (ls_db (fst (undeploy_gateway env k i g org st))) = lb_proxies (ls_db st)
   \<and> lb_keys (ls_db (fst (undeploy_gateway env k i g org st))) = lb_keys (ls_db st)"
proof -
  have f: "fst p = fst (on_deploy f st)" if "on_deploy f st = p" for f :: "deploy_state \<Rightarrow> deploy_state \<times> 'a" and p
    using that by simp
  show ?thesis
    by (auto simp: undeploy_gateway_def split: sum.split option.split prod.split dest!: f)
qed

lemma undeploy_all_frame:
  "lb_artifacts (ls_db (fst (undeploy_all env k i gs org st))) = lb_artifacts (ls_db st)
   \<and> lb_providers (ls_db (fst (undeploy_all env k i gs org st))) = lb_providers (ls_db st)
   \<and> lb_proxies (ls_db (fst (undeploy_all env k i gs org st))) = lb_proxies (ls_db st)
   \<and> lb_keys (ls_db (fst (undeploy_all env k i gs org st))) = lb_keys (ls_db st)"
proof (induction gs arbitrary: k st)
  case (Cons g gs)
  obtain st1 out where u: "undeploy_gateway env k i g org st = (st1, out)" by fastforce
  obtain st2 outs where r: "undeploy_all env (Suc k) i gs org st1 = (st2, outs)" by fastforce
  show ?case using Cons.IH[of "Suc k" st1] undeploy_gateway_frame[of env k i g org st]
    by (simp add: u r)
qed simp

end
