(* ===== verification/GatewayInternal.thy ===== *)
theory GatewayInternal
  imports LlmManager
begin

text \<open>
  What a gateway fetches (\<open>agent-manager-service/services/gateway_internal_service.go\<close>): the content of the
  deployment it should run, with the encrypted credential replaced by the plain one.

  The third-party YAML library is two arguments: the parser into a map (an error, nil or the map) and the
  printer. A value is a map, a text or something else.
\<close>

datatype yaml =
    YMap "(string \<times> yaml) list"
  | YStr string
  | YOther string

type_synonym ymap = "(string \<times> yaml) list"

record yaml_lib =
  yl_parse :: "string \<Rightarrow> string + ymap option"
  yl_print :: "ymap \<Rightarrow> string + string"

definition ymap_set :: "string \<Rightarrow> yaml \<Rightarrow> ymap \<Rightarrow> ymap" where
  "ymap_set k v m = (k, v) # filter (\<lambda>e. fst e \<noteq> k) m"

text \<open>The map at the end of a path: an error when a value on the way is no map, \<open>None\<close> when there is none.\<close>

fun find_auth :: "string list \<Rightarrow> ymap \<Rightarrow> deploy_error + ymap option" where
  "find_auth [] m = Inr None"
| "find_auth [part] m = Inr (case map_of m part of Some (YMap a) \<Rightarrow> Some a | _ \<Rightarrow> None)"
| "find_auth (part # q # parts) m =
     (case map_of m part of
        Some (YMap n) \<Rightarrow> find_auth (q # parts) n
      | Some _ \<Rightarrow> Inl (Errorf ''unexpected type for YAML path segment %q: expected map'' [part])
      | None \<Rightarrow> Inr None)"

fun set_auth :: "string list \<Rightarrow> ymap \<Rightarrow> ymap \<Rightarrow> ymap" where
  "set_auth [] auth m = m"
| "set_auth [part] auth m = ymap_set part (YMap auth) m"
| "set_auth (part # q # parts) auth m =
     (case map_of m part of
        Some (YMap n) \<Rightarrow> ymap_set part (YMap (set_auth (q # parts) auth n)) m
      | _ \<Rightarrow> m)"

definition decrypt_ref :: "llm_env \<Rightarrow> string \<Rightarrow> deploy_error + string" where
  "decrypt_ref env secretRef =
     (case base64_StdDecode secretRef of
        None \<Rightarrow> Inl (Errorf ''failed to base64-decode secretRef: %w'' [])
      | Some ciphertext \<Rightarrow> wrap_error ''failed to decrypt secretRef: %w'' (DecryptBytes env ciphertext))"

definition resolveSecretsInYAML :: "llm_env \<Rightarrow> yaml_lib \<Rightarrow> string \<Rightarrow> string \<Rightarrow> deploy_error + string" where
  "resolveSecretsInYAML env yl yamlContent authPath =
     (case yl_parse yl yamlContent of
        Inl e \<Rightarrow> Inl (Errorf ''failed to parse YAML: %w'' [e])
      | Inr None \<Rightarrow> Inl (Errorf ''YAML content is empty or null'' [])
      | Inr (Some doc) \<Rightarrow>
          (case map_of doc ''spec'' of
             Some (YMap spec) \<Rightarrow>
               (let parts = split_on (CHR ''.'') authPath in
                andThen (find_auth parts spec)
                  (\<lambda>auth. case auth of
                     None \<Rightarrow> Inr yamlContent
                   | Some a \<Rightarrow>
                       (case map_of a ''secretRef'' of
                          Some (YStr (c # cs)) \<Rightarrow>
                            andThen (decrypt_ref env (c # cs))
                              (\<lambda>plaintext.
                                 let a' = filter (\<lambda>e. fst e \<noteq> ''secretRef'') (ymap_set ''value'' (YStr plaintext) a);
                                     doc' = ymap_set ''spec'' (YMap (set_auth parts a' spec)) doc
                                 in (case yl_print yl doc' of
                                       Inl e \<Rightarrow> Inl (Errorf ''failed to re-marshal YAML after secret resolution: %w'' [e])
                                     | Inr text \<Rightarrow> Inr text))
                        | _ \<Rightarrow> Inr yamlContent)))
           | _ \<Rightarrow> Inl (Errorf (''YAML is missing expected '' @ [CHR 0x22] @ ''spec'' @ [CHR 0x22] @ '' section'') [])))"

text \<open>
  The deployment that is read may be the zero deployment, when the gateway runs none; the checks for nil
  never hold.
\<close>

definition GetActiveDeploymentByGateway ::
  "llm_env \<Rightarrow> string \<Rightarrow> string \<Rightarrow> string \<Rightarrow> llm_db \<Rightarrow> deploy_error + (string \<times> string) list" where
  "GetActiveDeploymentByGateway env apiID org gatewayID db =
     andThen (wrap_error ''failed to get deployment: %w''
         (GetCurrentByGateway (le_repo env) 1 apiID gatewayID org (deploy_view db)))
       (\<lambda>d. Inr [(apiID, dp_Content d)])"

definition active_content ::
  "llm_env \<Rightarrow> yaml_lib \<Rightarrow> string \<Rightarrow> string \<Rightarrow> string \<Rightarrow> string \<Rightarrow> llm_db \<Rightarrow> deploy_error + string" where
  "active_content env yl artifactUUID gatewayID org authPath db =
     andThen (wrap_error ''failed to get deployment: %w''
         (GetCurrentByGateway (le_repo env) 2 artifactUUID gatewayID org (deploy_view db)))
       (\<lambda>d. wrap_error ''failed to resolve secrets: %w'' (resolveSecretsInYAML env yl (dp_Content d) authPath))"

definition GetActiveLLMProviderDeploymentByGateway ::
  "llm_env \<Rightarrow> yaml_lib \<Rightarrow> string \<Rightarrow> string \<Rightarrow> string \<Rightarrow> llm_db \<Rightarrow> deploy_error + (string \<times> string) list" where
  "GetActiveLLMProviderDeploymentByGateway env yl providerID org gatewayID db =
     andThen (wrap_error ''failed to get LLM provider: %w'' (llm_GetByUUID (le_repo env) 1 providerID org db))
       (\<lambda>p. andThen (active_content env yl (ul_show (le_uuid env) (lp_UUID (snd p))) gatewayID org ''upstream.auth'' db)
         (\<lambda>text. Inr [(providerID, text)]))"

definition GetActiveLLMProxyDeploymentByGateway ::
  "llm_env \<Rightarrow> yaml_lib \<Rightarrow> string \<Rightarrow> string \<Rightarrow> string \<Rightarrow> llm_db \<Rightarrow> deploy_error + (string \<times> string) list" where
  "GetActiveLLMProxyDeploymentByGateway env yl proxyID org gatewayID db =
     andThen (wrap_error ''failed to get LLM proxy: %w'' (llm_proxy_GetByID (le_repo env) 1 proxyID org db))
       (\<lambda>p. andThen (active_content env yl (ul_show (le_uuid env) (lx_UUID (snd p))) gatewayID org ''provider.auth'' db)
         (\<lambda>text. Inr [(proxyID, text)]))"

end
