(* ===== verification/GatewayFetch.thy ===== *)
theory GatewayFetch
  imports LlmRuns GatewayInternal
begin

text \<open>
  The way of a credential: encrypted when a provider is created, written into the document of a deployment,
  and decrypted again when the gateway fetches the deployment.
\<close>

section \<open>Creation\<close>

lemma found: "find P xs = Some x \<Longrightarrow> x \<in> set xs \<and> P x"
  by (auto simp: find_Some_iff)

lemma provider_rows_iff:
  "(a, r) \<in> set (provider_rows db) \<longleftrightarrow> a \<in> set (lb_artifacts db) \<and> r \<in> set (lb_providers db)
     \<and> af_UUID a = lp_UUID r \<and> af_Kind a = KindLLMProvider"
  by (auto simp: provider_rows_def)

lemma provider_row_unique:
  assumes "llm_ok db" "(a, r) \<in> set (provider_rows db)" "(a', r') \<in> set (provider_rows db)" "lp_UUID r = lp_UUID r'"
  shows "a = a' \<and> r = r'"
proof -
  have inj: "inj_on lp_UUID (set (lb_providers db))" "inj_on af_UUID (set (lb_artifacts db))"
    using assms(1) by (simp_all add: llm_ok_def providers_ok_def artifacts_ok_def distinct_map)
  have "r = r'" using inj_onD[OF inj(1) assms(4)] assms(2,3) by (simp add: provider_rows_iff)
  moreover have "af_UUID a = af_UUID a'" using assms(2-4) by (simp add: provider_rows_iff)
  then have "a = a'" using inj_onD[OF inj(2)] assms(2,3) by (simp add: provider_rows_iff)
  ultimately show ?thesis by simp
qed

text \<open>The encryption of a value, and how it is decrypted.\<close>

definition aead_laws :: "llm_env \<Rightarrow> bool" where
  "aead_laws env \<longleftrightarrow> (\<forall>k n p. length n = 12 \<longrightarrow> le_open env k n (le_seal env k n p) = Some p)
     \<and> (\<forall>n. le_nonce env = Some n \<longrightarrow> length n = 12)"

lemma seal_auth_opens:
  assumes "aead_laws env" and "seal_auth env text a = Inr a'" and "ua_Value a = Some v"
  shows "\<exists>s. ua_SecretRef a' = Some s \<and> s \<noteq> [] \<and> decrypt_ref env s = Inr v"
proof -
  from assms(2,3) obtain e where e: "EncryptBytes env v = Inr e"
    and a': "a' = a\<lparr>ua_SecretRef := Some (base64_StdEncode e), ua_Value := None\<rparr>"
    by (auto simp: seal_auth_def andThen_Inr wrap_error_Inr)
  from e obtain nonce where key: "length (le_key env) = 32" and n: "le_nonce env = Some nonce"
    and en: "e = nonce @ le_seal env (le_key env) nonce v"
    by (auto simp: EncryptBytes_def split: if_splits option.splits)
  have l: "length nonce = 12" using assms(1) n by (simp add: aead_laws_def)
  then have "DecryptBytes env e = Inr v" using assms(1) key en by (simp add: DecryptBytes_def aead_laws_def)
  moreover have "base64_StdEncode e \<noteq> []"
  proof
    assume "base64_StdEncode e = []"
    then have "e = []" using base64_round_trip[of e] by (simp add: base64_StdDecode_def)
    then show False using en l by simp
  qed
  ultimately show ?thesis using a' by (simp add: decrypt_ref_def base64_round_trip)
qed

lemma created_config:
  assumes laws: "aead_laws env" and ok: "llm_ok db" and uuids: "uuid_laws (le_uuid env)"
    and c: "LLMProvider_Create env org by' (Some input) db = (db', Inr p)"
    and a: "main_auth (lp_Configuration input) = Some a" "ua_Value a = Some v"
  shows "llm_ok db'" and "p \<in> set (provider_rows db')" and "af_OrganizationName (fst p) = org"
    and "\<exists>a' s. main_auth (lp_Configuration (snd p)) = Some a' \<and> ua_SecretRef a' = Some s \<and> s \<noteq> []
      \<and> decrypt_ref env s = Inr v"
proof -
  show ok': "llm_ok db'" using LLMProvider_Create_ok[OF ok, of env org by' "Some input"] c by simp
  from c obtain q q' where q: "new_provider env org by' input db = Inr q"
    and cr: "provider_repo_Create (le_repo env) 10 (le_newid env) (le_now env) q (cf_Handle (lp_Configuration q))
      (cf_Name (lp_Configuration q)) (cf_Version (lp_Configuration q)) org db = Inr (q', db')"
    and g: "llm_GetByUUID (le_repo env) 20 (ul_show (le_uuid env) (lp_UUID q')) org db' = Inr p"
    by (auto simp: LLMProvider_Create_def andThen_Inr map_sum_Inr wrap_error_Inr statement_Inr_iff Let_def
        parse_models_def split: sum.splits if_splits)
  have q': "lp_Configuration q' = lp_Configuration q" "q' \<in> set (lb_providers db')"
    using cr by (auto simp: provider_repo_Create_def Let_def andThen_Inr wrap_error_Inr map_sum_Inr statement_Inr_iff
        insert_provider_def split: if_splits)
  have fp: "p \<in> set (provider_rows db') \<and> af_UUID (fst p) = lp_UUID q' \<and> af_OrganizationName (fst p) = org"
    using g shown_uuid[OF uuids]
    by (auto simp: llm_GetByUUID_def statement_Inr_iff andThen_Inr cast_uuid_Inr first_row_def
        split: option.splits dest!: found)
  then show "p \<in> set (provider_rows db')" "af_OrganizationName (fst p) = org" by auto
  have "snd p = q'"
  proof -
    have "snd p \<in> set (lb_providers db')" "lp_UUID (snd p) = lp_UUID q'"
      using fp by (cases p, auto simp: provider_rows_iff)+
    then show ?thesis using q'(2) ok' by (auto simp: llm_ok_def providers_ok_def distinct_map dest: inj_onD)
  qed
  moreover obtain ctx config where s: "seal_config env (lp_Configuration input\<lparr>cf_Context := ctx\<rparr>) = Inr config"
    and cq: "lp_Configuration q = config"
    using q by (auto simp: new_provider_def Let_def andThen_Inr split: if_splits)
  moreover have "main_auth (lp_Configuration input\<lparr>cf_Context := ctx\<rparr>) = Some a" using a(1) by (simp add: main_auth_def)
  ultimately obtain a' where a': "seal_auth env ''failed to encrypt upstream API key: %w'' a = Inr a'"
    and "lp_Configuration (snd p) = set_main_auth a' (lp_Configuration input\<lparr>cf_Context := ctx\<rparr>)"
    and "main_auth (lp_Configuration input\<lparr>cf_Context := ctx\<rparr>) \<noteq> None"
    using q'(1) by (auto simp: seal_config_def andThen_Inr)
  then have m: "main_auth (lp_Configuration (snd p)) = Some a'" using main_auth_set by metis
  show "\<exists>a' s. main_auth (lp_Configuration (snd p)) = Some a' \<and> ua_SecretRef a' = Some s \<and> s \<noteq> []
      \<and> decrypt_ref env s = Inr v"
    using seal_auth_opens[OF laws a' a(2)] m by blast
qed

section \<open>Deployment\<close>

lemma found_provider:
  assumes ok: "llm_ok db" and uuids: "uuid_laws (le_uuid env)" and p: "p \<in> set (provider_rows db)"
    and i: "ul_parse (le_uuid env) i = Some (lp_UUID (snd p))"
    and g: "get_provider (service_for env k db) i org = Inr prov"
  shows "prov = snd (provider_view p)"
proof -
  have "parses (service_for env k db) i = Some (lp_UUID (snd p))" using i by (simp add: parses_def)
  then obtain u o' where u: "ul_cast (le_uuid env) i = Some u"
    and f: "find (\<lambda>(o', p). pv_UUID p = u \<and> o' = org) (map provider_view (provider_rows db)) = Some (o', prov)"
    using g by (auto simp: get_provider_def wrap_error_Inr resolveProvider_def provider_GetByUUID_def statement_Inr_iff
        andThen_Inr cast_uuid_Inr first_row_def service_for_def split: option.splits)
  have "u = lp_UUID (snd p)" using uuid_laws_agree[OF uuids i u] by simp
  with f have "(o', prov) \<in> provider_view ` set (provider_rows db) \<and> pv_UUID prov = lp_UUID (snd p)"
    by (auto dest!: found)
  then obtain a r where r: "(a, r) \<in> set (provider_rows db)" "(o', prov) = provider_view (a, r)" "pv_UUID prov = lp_UUID (snd p)"
    by auto
  then have "lp_UUID r = lp_UUID (snd p)" by (simp add: provider_view_def)
  then have "(a, r) = p" using provider_row_unique[OF ok r(1), of "fst p" "snd p"] p by auto
  then show ?thesis using r(2) by (cases "provider_view p") simp
qed

lemma upstream_auth:
  assumes "deployment_document prov = Inr doc"
  shows "ue_Auth (yd_Upstream doc) = main_auth (pv_Configuration prov)"
  using assms
  by (auto simp: deployment_document_def andThen_Inr upstream_main_def main_auth_def bind_eq_Some_conv split: option.splits if_splits)

text \<open>The row in the table of the deployment that is returned.\<close>

lemma created_row:
  assumes "CreateWithLimitEnforcement env newid created updated d0 n db = Inr (d, db')"
  shows "\<exists>e \<in> set (db_deployments db'). dp_DeploymentID e = dp_DeploymentID d \<and> dp_Content e = dp_Content d0"
proof -
  from assms obtain room ins where d: "d = prepared newid created updated d0"
    and ins: "insert_deployment d room = Inr ins" and up: "upsert_status (status_row d) ins = Inr db'"
    by (rule create_Inr)
  have "d\<lparr>dp_Status := None, dp_UpdatedAt := None\<rparr> \<in> set (db_deployments db')"
    using ins up by (auto simp: insert_deployment_Inr upsert_status_Inr)
  then show ?thesis by (rule bexI[rotated]) (simp add: d prepared_def)
qed

lemma deployed_content:
  assumes r: "DeployLLMProvider sv i req org st = (st', Inr d)" and base: "rq_Base req = ''current''"
    and g: "\<And>prov. get_provider sv i org = Inr prov \<Longrightarrow> prov = p"
  shows "\<exists>doc text. deployment_document p = Inr doc \<and> se_yaml sv doc = Inr text \<and> dp_OrganizationName d = org
    \<and> dp_ArtifactUUID d = pv_UUID p
    \<and> (\<exists>e \<in> set (db_deployments (sv_db st')). dp_DeploymentID e = dp_DeploymentID d \<and> dp_Content e = text)"
proof -
  from deploy_Inr[OF r] obtain d0 where new: "new_deployment sv i req org (sv_db st) = Inr d0"
    and c: "CreateWithLimitEnforcement (se_repo sv) (se_newid sv) (se_created sv) (se_updated sv) d0 hard_limit
      (sv_db st) = Inr (d, sv_db st')" by blast
  from new g obtain body where cc: "current_content sv p = Inr body"
    and d0: "dp_Content d0 = body" "dp_OrganizationName d0 = org" "dp_ArtifactUUID d0 = pv_UUID p"
    by (auto simp: new_deployment_def andThen_Inr deployment_source_def base split: if_splits option.splits prod.splits)
  have "\<exists>doc. deployment_document p = Inr doc \<and> se_yaml sv doc = Inr body"
    using cc by (auto simp: current_content_def wrap_error_Inr generateLLMProviderDeploymentYAML_def andThen_Inr map_sum_Inr
        split: if_splits)
  moreover have "d = prepared (se_newid sv) (se_created sv) (se_updated sv) d0" using c by (rule create_Inr)
  then have "dp_OrganizationName d = org" "dp_ArtifactUUID d = pv_UUID p" using d0 by (simp_all add: prepared_def)
  ultimately show ?thesis using created_row[OF c] d0(1) by auto
qed

section \<open>The deployment in charge\<close>

lemma filter_one: "distinct xs \<Longrightarrow> x \<in> set xs \<Longrightarrow> filter (\<lambda>y. y = x) xs = [x]"
  by (induction xs) (auto simp: filter_empty_conv)

lemma only_deployed:
  assumes ok: "db_ok db" and c: "current db t = Some (i, StatusDeployed)"
    and e: "e \<in> set (db_deployments db)" "dp_DeploymentID e = i"
  shows "filter (\<lambda>d. dp_Status d = Some StatusDeployed) (map (with_state db) (deployments_for t db)) = [with_state db e]"
proof -
  obtain s where "s \<in> set (db_status db)" "status_key s = t" "sr_DeploymentID s = i"
    using c current_Some[OF ok] by auto
  then obtain e' where e': "e' \<in> set (db_deployments db)" "dp_DeploymentID e' = i" "target e' = t"
    using ok by (auto simp: db_ok_def status_ok_def)
  have inj: "inj_on dp_DeploymentID (set (db_deployments db))" "distinct (db_deployments db)"
    using ok by (simp_all add: db_ok_def distinct_map)
  then have "e = e'" using e e' by (auto dest: inj_onD)
  then have t: "target e = t" using e' by simp
  have "dp_Status (with_state db d) = Some StatusDeployed \<longleftrightarrow> d = e" if "d \<in> set (deployments_for t db)" for d
  proof -
    have d: "d \<in> set (db_deployments db)" "target d = t" using that by (auto simp: deployments_for_def)
    have "dp_Status (with_state db d) = (if i = dp_DeploymentID d then Some StatusDeployed else None)"
      using joined_current[OF ok d(1)] c d(2) by (simp add: with_state_def)
    then show ?thesis using inj(1) d e by (auto dest: inj_onD)
  qed
  then have "filter (\<lambda>d. dp_Status (with_state db d) = Some StatusDeployed) (deployments_for t db)
      = filter (\<lambda>d. d = e) (deployments_for t db)" by (intro filter_cong) auto
  also have "\<dots> = [e]"
  proof -
    have "distinct (deployments_for t db)" "e \<in> set (deployments_for t db)"
      using inj(2) e t by (auto simp: deployments_for_def)
    then show ?thesis by (rule filter_one)
  qed
  finally show ?thesis by (simp add: filter_map comp_def)
qed

lemma current_content_fetched:
  assumes ok: "db_ok db" and c: "current db (a, org, g) = Some (i, StatusDeployed)"
    and e: "e \<in> set (db_deployments db)" "dp_DeploymentID e = i"
    and f: "de_fault env n = None" "ul_cast (de_uuid env) artifact = Some a" "ul_cast (de_uuid env) gw = Some g"
  shows "\<exists>d. GetCurrentByGateway env n artifact gw org db = Inr d \<and> dp_Content d = dp_Content e"
  using only_deployed[OF ok c e] f
  by (simp add: GetCurrentByGateway_def statement_def cast_uuid_def scan_row_def with_state_def)

section \<open>Resolving the reference\<close>

text \<open>
  The documented behaviour of the YAML library on the struct of a deployment: a document with a reference
  to a secret is read back as maps with the names of the tags, the reference in its place.
\<close>

definition yaml_reads :: "(LLMProviderDeploymentYAML \<Rightarrow> string + string) \<Rightarrow> yaml_lib \<Rightarrow> bool" where
  "yaml_reads yaml yl \<longleftrightarrow> (\<forall>doc body a s. yaml doc = Inr body \<longrightarrow> ue_Auth (yd_Upstream doc) = Some a \<longrightarrow>
     ua_SecretRef a = Some s \<longrightarrow>
     (\<exists>m spec up auth. yl_parse yl body = Inr (Some m) \<and> map_of m ''spec'' = Some (YMap spec)
        \<and> map_of spec ''upstream'' = Some (YMap up) \<and> map_of up ''auth'' = Some (YMap auth)
        \<and> map_of auth ''secretRef'' = Some (YStr s)))"

lemma map_of_filter_key: "map_of (filter (\<lambda>e. fst e \<noteq> k) m) k' = (if k' = k then None else map_of m k')"
  by (induction m) auto

lemma map_of_ymap_set: "map_of (ymap_set k v m) k' = (if k' = k then Some v else map_of m k')"
  by (simp add: ymap_set_def map_of_filter_key)

text \<open>A document with a plain value and no reference.\<close>

definition plain_auth :: "string \<Rightarrow> ymap \<Rightarrow> bool" where
  "plain_auth v doc \<longleftrightarrow> (\<exists>spec up auth. map_of doc ''spec'' = Some (YMap spec) \<and> map_of spec ''upstream'' = Some (YMap up)
     \<and> map_of up ''auth'' = Some (YMap auth) \<and> map_of auth ''value'' = Some (YStr v) \<and> map_of auth ''secretRef'' = None)"

lemma upstream_path: "split_on (CHR ''.'') ''upstream.auth'' = [''upstream'', ''auth'']"
  by code_simp

lemma resolved:
  assumes m: "yl_parse yl body = Inr (Some m)" "map_of m ''spec'' = Some (YMap spec)"
    "map_of spec ''upstream'' = Some (YMap up)" "map_of up ''auth'' = Some (YMap auth)"
    "map_of auth ''secretRef'' = Some (YStr s)"
    and s: "s \<noteq> []" "decrypt_ref env s = Inr v"
  shows "\<exists>doc. plain_auth v doc \<and> (\<forall>out. yl_print yl doc = Inr out \<longrightarrow>
    resolveSecretsInYAML env yl body ''upstream.auth'' = Inr out)"
proof -
  let ?auth = "filter (\<lambda>e. fst e \<noteq> ''secretRef'') (ymap_set ''value'' (YStr v) auth)"
  let ?doc = "ymap_set ''spec'' (YMap (set_auth [''upstream'', ''auth''] ?auth spec)) m"
  obtain c cs where c: "s = c # cs" using s(1) by (cases s) auto
  have "plain_auth v ?doc"
    using m(3) by (simp add: plain_auth_def map_of_ymap_set map_of_filter_key)
  moreover have "resolveSecretsInYAML env yl body ''upstream.auth'' = Inr out" if "yl_print yl ?doc = Inr out" for out
    using that m s(2) by (simp add: resolveSecretsInYAML_def upstream_path Let_def c)
  ultimately show ?thesis by blast
qed

end
