(* ===== verification/LlmProperties.thy ===== *)
theory LlmProperties
  imports GatewayFetch DeployProperties
begin

text \<open>
  What the services for LLM providers, LLM proxies and API keys promise over every sequence of their
  operations and those of the deployment services, and what a refused deletion and a failed rotation leave
  behind; each with a concrete instance.
\<close>

section \<open>A service to look at\<close>

text \<open>One built-in template, the gateway of theory \<open>DeployProperties\<close>, and a cipher that leaves the text as it is.\<close>

definition sample_llm :: "service_env \<Rightarrow> llm_env" where
  "sample_llm sv = \<lparr>le_repo = \<lparr>de_uuid = unary_uuids, de_fault = (\<lambda>_. None)\<rparr>, le_templates = [''openai''],
     le_user_templates = [], le_newid = 1, le_now = 7, le_key = replicate 32 (CHR ''k''),
     le_nonce = Some (replicate 12 (CHR ''n'')), le_seal = (\<lambda>k n p. p), le_open = (\<lambda>k n c. Some c),
     le_gateways = [(2, ''o'')], le_service = (\<lambda>_. sv)\<rparr>"

definition sample_config :: "UpstreamAuth \<Rightarrow> LLMProviderConfig" where
  "sample_config auth = \<lparr>cf_Name = ''n'', cf_Handle = ''p'', cf_Version = ''v1'', cf_Context = Some ''/'', cf_VHost = None,
       cf_Template = ''openai'', cf_Upstream = Some \<lparr>uc_Main = Some \<lparr>ue_URL = ''https://u'', ue_Ref = [], ue_Auth = Some auth\<rparr>, uc_Sandbox = None\<rparr>,
       cf_AccessControl = None, cf_RateLimiting = None, cf_Policies = [], cf_Security = None\<rparr>"

definition sample_auth :: UpstreamAuth where
  "sample_auth = \<lparr>ua_Type = Some ''apiKey'', ua_Header = None, ua_Value = Some ''s'', ua_SecretRef = None\<rparr>"

definition sample_input :: provider_input where
  "sample_input = \<lparr>lp_UUID = 0, lp_Description = [], lp_CreatedBy = [], lp_TemplateHandle = [], lp_OpenAPISpec = [],
     lp_ModelList = [], lp_Status = [], lp_Configuration = sample_config sample_auth, lp_ModelProviders = []\<rparr>"

definition no_rows :: "deploy_db \<Rightarrow> llm_state" where
  "no_rows db = \<lparr>ls_db = \<lparr>lb_artifacts = [], lb_providers = [], lb_proxies = [], lb_keys = [], lb_deploy = db\<rparr>, ls_manager = None\<rparr>"

definition sealed_auth :: UpstreamAuth where
  "sealed_auth = sample_auth\<lparr>ua_SecretRef := Some (base64_StdEncode (replicate 12 (CHR ''n'') @ ''s'')), ua_Value := None\<rparr>"

definition sample_artifact :: Artifact where
  "sample_artifact = \<lparr>af_UUID = 1, af_Handle = ''p'', af_Name = ''n'', af_Version = ''v1'',
             af_Kind = KindLLMProvider, af_OrganizationName = ''o'', af_InCatalog = True,
             af_CreatedAt = 7, af_UpdatedAt = 7\<rparr>"

definition sample_row :: provider_row where
  "sample_row = \<lparr>lp_UUID = 1, lp_Description = [], lp_CreatedBy = ''me'', lp_TemplateHandle = ''openai'', lp_OpenAPISpec = [],
     lp_ModelList = [], lp_Status = ''pending'', lp_Configuration = sample_config sealed_auth\<rparr>"

definition one_provider :: "deploy_db \<Rightarrow> llm_db" where
  "one_provider db = \<lparr>lb_artifacts = [sample_artifact], lb_providers = [sample_row], lb_proxies = [], lb_keys = [], lb_deploy = db\<rparr>"

lemma sample_llm_fields [simp]:
  "le_repo (sample_llm sv) = \<lparr>de_uuid = unary_uuids, de_fault = (\<lambda>_. None)\<rparr>"
  "le_key (sample_llm sv) = replicate 32 (CHR ''k'')" "le_nonce (sample_llm sv) = Some (replicate 12 (CHR ''n''))"
  "le_seal (sample_llm sv) k n p = p" "le_open (sample_llm sv) k n p = Some p" "le_service (sample_llm sv) j = sv"
  "le_gateways (sample_llm sv) = [(2, ''o'')]" "le_newid (sample_llm sv) = 1" "le_now (sample_llm sv) = 7"
  "le_templates (sample_llm sv) = [''openai'']"
  by (simp_all add: sample_llm_def)

lemma sample_sealed: "seal_config (sample_llm sv) (sample_config sample_auth) = Inr (sample_config sealed_auth)"
  by (simp add: seal_config_def main_auth_def sample_config_def Validate_def seal_auth_def sample_auth_def EncryptBytes_def
      sealed_auth_def set_main_auth_def)

lemma sample_config_fields [simp]:
  "cf_Handle (sample_config a) = ''p''" "cf_Name (sample_config a) = ''n''" "cf_Version (sample_config a) = ''v1''"
  "cf_Template (sample_config a) = ''openai''" "cf_Context (sample_config a) = Some ''/''"
  "(sample_config a)\<lparr>cf_Context := Some ''/''\<rparr> = sample_config a"
  by (simp_all add: sample_config_def)

lemma sample_new_provider:
  "new_provider (sample_llm sv) ''o'' ''me'' sample_input (ls_db (no_rows db)) = Inr (sample_row\<lparr>lp_UUID := 0\<rparr>)"
proof -
  have "lp_Configuration sample_input = sample_config sample_auth" by (simp add: sample_input_def)
  moreover have "serialize_models sample_input = provider_row.truncate sample_input" by (simp add: serialize_models_def sample_input_def)
  moreover have "llm_GetByHandle (le_repo (sample_llm sv)) 1 ''p'' ''o'' (ls_db (no_rows db)) = Inl ErrRecordNotFound"
    by (simp add: no_rows_def llm_GetByHandle_def statement_def provider_rows_def first_row_def)
  ultimately show ?thesis
    by (simp add: new_provider_def check_template_def sample_sealed del: sample_llm_fields(1))
      (simp add: sample_input_def sample_row_def provider_row.truncate_def)
qed

lemma sample_row_fields [simp]:
  "lp_UUID sample_row = 1" "lp_ModelList sample_row = []" "lp_Configuration sample_row = sample_config sealed_auth"
  "sample_row\<lparr>lp_UUID := 1\<rparr> = sample_row"
  by (simp_all add: sample_row_def)

lemma sample_created:
  "LLMProvider_Create (sample_llm sv) ''o'' ''me'' (Some sample_input) (ls_db (no_rows db))
     = (one_provider db, Inr (sample_artifact, sample_row))"
proof -
  have "provider_repo_Create \<lparr>de_uuid = unary_uuids, de_fault = (\<lambda>_. None)\<rparr> 10 1 7 (sample_row\<lparr>lp_UUID := 0\<rparr>) ''p'' ''n'' ''v1'' ''o''
      (ls_db (no_rows db)) = Inr (sample_row, one_provider db)"
    by (simp add: provider_repo_Create_def Let_def artifact_Create_def statement_def insert_artifact_def no_rows_def has_uuid_def
        insert_provider_def one_provider_def sample_artifact_def)
  moreover have "ul_show unary_uuids 1 = ''x''" by (simp add: unary_uuids_def)
  moreover have "llm_GetByUUID \<lparr>de_uuid = unary_uuids, de_fault = (\<lambda>_. None)\<rparr> 20 ''x'' ''o'' (one_provider db) = Inr (sample_artifact, sample_row)"
    by (simp add: llm_GetByUUID_def statement_def cast_uuid_def unary_uuids_def first_row_def provider_rows_def one_provider_def)
      (simp add: sample_artifact_def)
  ultimately show ?thesis
    by (simp add: LLMProvider_Create_def sample_new_provider statement_def parse_models_def)
qed

section \<open>The tables\<close>

lemma run_from_empty:
  assumes "list_all lawful_llm ops"
    and "lb_artifacts (ls_db st) = []" "lb_providers (ls_db st) = []" "lb_proxies (ls_db st) = []" "lb_keys (ls_db st) = []"
    and "db_deployments (lb_deploy (ls_db st)) = []" "db_status (lb_deploy (ls_db st)) = []"
  shows "llm_ok (ls_db (fold llm_exec ops st))"
proof -
  have "llm_ok (ls_db st)" using assms(2-) by (simp add: llm_ok_parts db_ok_def deployments_for_def)
  then show ?thesis by (rule llm_system.legal_run[OF assms(1)])
qed

text \<open>C36. Whatever the sequence of operations on providers, proxies, API keys and deployments, from empty tables
  and with whatever failing statements: artifacts are unique by UUID and by handle in an organization,
  providers and proxies have an artifact of their kind, a proxy has its provider, a key is unique by artifact
  and name, and keys and deployments belong to an artifact.\<close>

theorem llm_tables_consistent:
  assumes "list_all lawful_llm ops"
    and "lb_artifacts (ls_db st) = []" "lb_providers (ls_db st) = []" "lb_proxies (ls_db st) = []" "lb_keys (ls_db st) = []"
    and "db_deployments (lb_deploy (ls_db st)) = []" "db_status (lb_deploy (ls_db st)) = []"
  shows "let db = ls_db (fold llm_exec ops st) in
    distinct (map af_UUID (lb_artifacts db))
    \<and> distinct (map (\<lambda>a. (af_Handle a, af_OrganizationName a)) (lb_artifacts db))
    \<and> (\<forall>p \<in> set (lb_providers db). \<exists>a \<in> set (lb_artifacts db). af_UUID a = lp_UUID p \<and> af_Kind a = KindLLMProvider)
    \<and> (\<forall>x \<in> set (lb_proxies db). (\<exists>a \<in> set (lb_artifacts db). af_UUID a = lx_UUID x \<and> af_Kind a = KindLLMProxy)
        \<and> (\<exists>p \<in> set (lb_providers db). lp_UUID p = lx_ProviderUUID x))
    \<and> distinct (map key_of (lb_keys db))
    \<and> (\<forall>k \<in> set (lb_keys db). \<exists>a \<in> set (lb_artifacts db). af_UUID a = sk_ArtifactUUID k)
    \<and> (\<forall>d \<in> set (db_deployments (lb_deploy db)). \<exists>a \<in> set (lb_artifacts db). af_UUID a = dp_ArtifactUUID d)"
proof -
  have "llm_ok (ls_db (fold llm_exec ops st))" by (rule run_from_empty[OF assms])
  then have a: "artifacts_ok (lb_artifacts (ls_db (fold llm_exec ops st)))" "providers_ok (ls_db (fold llm_exec ops st))"
    "proxies_ok (ls_db (fold llm_exec ops st))" "keys_ok (ls_db (fold llm_exec ops st))"
    "deployments_ok (ls_db (fold llm_exec ops st))" by (simp_all add: llm_ok_def)
  show ?thesis unfolding Let_def
  proof (intro conjI)
    show "distinct (map af_UUID (lb_artifacts (ls_db (fold llm_exec ops st))))"
      "distinct (map (\<lambda>a. (af_Handle a, af_OrganizationName a)) (lb_artifacts (ls_db (fold llm_exec ops st))))"
      using a(1) by (simp_all add: artifacts_ok_def)
    show "distinct (map key_of (lb_keys (ls_db (fold llm_exec ops st))))" using a(4) by (simp add: keys_ok_def)
  qed (use a(2-) in \<open>fastforce simp: providers_ok_def proxies_ok_def keys_ok_def deployments_ok_def of_kind_def has_uuid_def\<close>)+
qed

definition no_deployments :: deploy_db where
  "no_deployments = \<lparr>db_deployments = [], db_status = [], db_artifacts = [], db_gateways = [2]\<rparr>"

abbreviation created_run :: llm_state where
  "created_run \<equiv> fold llm_exec [OpCreateProvider (sample_llm (sample_env 3)) ''o'' ''me'' (Some sample_input)] (no_rows no_deployments)"

lemma created_run: "ls_db created_run = one_provider no_deployments"
  by (simp add: sample_created)

theorem llm_tables_consistent_witness:
  "lb_providers (ls_db created_run) = [sample_row] \<and> distinct (map af_UUID (lb_artifacts (ls_db created_run)))
   \<and> (\<exists>a \<in> set (lb_artifacts (ls_db created_run)). af_UUID a = 1 \<and> af_Kind a = KindLLMProvider)"
proof -
  have p: "lb_providers (ls_db created_run) = [sample_row]" unfolding created_run by (simp add: one_provider_def)
  have "list_all lawful_llm [OpCreateProvider (sample_llm (sample_env 3)) ''o'' ''me'' (Some sample_input)]" by simp
  note c = llm_tables_consistent[OF this, of "no_rows no_deployments", unfolded Let_def]
  show ?thesis using c p by (simp add: no_rows_def no_deployments_def del: fold_simps llm_exec.simps) 
qed

text \<open>C37. Whatever the sequence of operations, no credential of the main upstream of a stored provider and no
  upstream credential of a stored proxy has a plain value.\<close>

theorem credentials_stored_encrypted:
  assumes "list_all lawful_llm ops"
    and "lb_artifacts (ls_db st) = []" "lb_providers (ls_db st) = []" "lb_proxies (ls_db st) = []" "lb_keys (ls_db st) = []"
    and "db_deployments (lb_deploy (ls_db st)) = []" "db_status (lb_deploy (ls_db st)) = []"
  shows "let db = ls_db (fold llm_exec ops st) in
    (\<forall>p \<in> set (lb_providers db). \<forall>a. main_auth (lp_Configuration p) = Some a \<longrightarrow> ua_Value a = None)
    \<and> (\<forall>x \<in> set (lb_proxies db). \<forall>a. xc_UpstreamAuth (lx_Configuration x) = Some a \<longrightarrow> ua_Value a = None)"
proof -
  have "llm_ok (ls_db (fold llm_exec ops st))" by (rule run_from_empty[OF assms])
  then show ?thesis unfolding Let_def
    by (fastforce simp: llm_ok_def providers_ok_def proxies_ok_def sealed_def)
qed

theorem credentials_stored_encrypted_witness:
  "\<exists>a. main_auth (lp_Configuration (hd (lb_providers (ls_db created_run)))) = Some a \<and> ua_Value a = None
     \<and> ua_SecretRef a \<noteq> None"
proof -
  have p: "lb_providers (ls_db created_run) = [sample_row]" unfolding created_run by (simp add: one_provider_def)
  have "list_all lawful_llm [OpCreateProvider (sample_llm (sample_env 3)) ''o'' ''me'' (Some sample_input)]" by simp
  note c = credentials_stored_encrypted[OF this, of "no_rows no_deployments", unfolded Let_def]
  have a: "main_auth (sample_config sealed_auth) = Some sealed_auth" by (simp add: main_auth_def sample_config_def)
  moreover have "ua_Value sealed_auth = None"
    using c p a by (simp add: no_rows_def no_deployments_def del: fold_simps llm_exec.simps)
  moreover have "ua_SecretRef sealed_auth \<noteq> None" by (simp add: sealed_auth_def)
  ultimately show ?thesis unfolding p by simp
qed

text \<open>The credential of the sandbox upstream is stored as it is given.\<close>

theorem sandbox_credential_stored_plain:
  assumes "new_provider env org by' input db = Inr p"
  shows "Option.bind (cf_Upstream (lp_Configuration p)) uc_Sandbox = Option.bind (cf_Upstream (lp_Configuration input)) uc_Sandbox"
proof -
  obtain ctx config where s: "seal_config env (lp_Configuration input\<lparr>cf_Context := ctx\<rparr>) = Inr config"
    and p: "lp_Configuration p = config"
    using assms by (auto simp: new_provider_def Let_def andThen_Inr split: if_splits)
  have "config = lp_Configuration input\<lparr>cf_Context := ctx\<rparr>
      \<or> (\<exists>a. config = set_main_auth a (lp_Configuration input\<lparr>cf_Context := ctx\<rparr>))"
    using s by (auto simp: seal_config_def andThen_Inr split: option.splits)
  then show ?thesis unfolding p by (auto simp: set_main_auth_def split: bind_splits)
qed

section \<open>A refused deletion\<close>

lemma current_view: "current (deploy_view db) = current (lb_deploy db)"
  by (simp add: current_def deploy_view_def fun_eq_iff)

abbreviation states :: "llm_state \<Rightarrow> uuid \<times> string \<times> uuid \<Rightarrow> (uuid \<times> string) option" where
  "states st \<equiv> current (lb_deploy (ls_db st))"

lemma undeploy_gateway_effect:
  fixes st :: llm_state
  assumes laws: "uuid_laws (le_uuid env)" and ok: "db_ok (lb_deploy (ls_db st))"
    and u: "undeploy_gateway env k i g org st = (st', out)"
  shows "db_ok (lb_deploy (ls_db st'))"
    and "(out \<noteq> Undeployed \<and> states st' = states st)
      \<or> (out = Undeployed \<and> (\<exists>t d. states st t = Some (d, StatusDeployed) \<and> states st' = (states st)(t \<mapsto> (d, StatusUndeployed))))"
proof -
  let ?ds = "\<lparr>sv_db = deploy_view (ls_db st), sv_manager = ls_manager st\<rparr>"
  have okd: "db_ok (sv_db ?ds)" using ok by (simp add: db_ok_view)
  have step: "db_ok (lb_deploy (ls_db st1)) \<and> (case r of
        Inl e \<Rightarrow> states st1 = states st
      | Inr d \<Rightarrow> states st (target d) = Some (dp_DeploymentID d, StatusDeployed)
          \<and> states st1 = (states st)(target d \<mapsto> (dp_DeploymentID d, StatusUndeployed)))"
    if r: "on_deploy (UndeployLLMProviderDeployment (service_for env n (ls_db st)) i j g org) st = (st1, r)" for n j st1 r
  proof -
    obtain ds where ds: "UndeployLLMProviderDeployment (service_for env n (ls_db st)) i j g org ?ds = (ds, r)"
      and st1: "lb_deploy (ls_db st1) = sv_db ds" using r by (auto simp: on_deploy_def split: prod.splits)
    show ?thesis
    proof (cases r)
      case (Inl e)
      then have "ds = ?ds" using errors_change_nothing(2) ds by blast
      then show ?thesis using Inl st1 okd by (simp add: current_view)
    next
      case (Inr d)
      have "uuid_laws (de_uuid (se_repo (service_for env n (ls_db st))))" using laws by simp
      note s = undeploy_steps[OF this okd ds[unfolded Inr]]
      show ?thesis using s(1,3,4) Inr st1 by (simp add: current_view)
    qed
  qed
  show "db_ok (lb_deploy (ls_db st'))"
    using u ok step by (auto simp: undeploy_gateway_def split: sum.splits option.splits prod.splits)
  show "(out \<noteq> Undeployed \<and> states st' = states st)
      \<or> (out = Undeployed \<and> (\<exists>t d. states st t = Some (d, StatusDeployed) \<and> states st' = (states st)(t \<mapsto> (d, StatusUndeployed))))"
  proof (cases "st' = st \<and> out \<noteq> Undeployed")
    case False
    with u obtain j r where r: "on_deploy (UndeployLLMProviderDeployment (service_for env (2 * k + 1) (ls_db st)) i j g org) st = (st', r)"
      and out: "out = (case r of Inl e \<Rightarrow> UndeployFailed e | Inr _ \<Rightarrow> Undeployed)"
      unfolding undeploy_gateway_def by (clarsimp split: sum.splits option.splits prod.splits)
    show ?thesis
    proof (cases r)
      case (Inl e)
      then show ?thesis using step[OF r] out by simp
    next
      case (Inr d)
      then have "out = Undeployed" "states st (target d) = Some (dp_DeploymentID d, StatusDeployed)"
        "states st' = (states st)(target d \<mapsto> (dp_DeploymentID d, StatusUndeployed))" using step[OF r] out by simp_all
      then show ?thesis by blast
    qed
  qed simp
qed

lemma undeploy_all_effect:
  fixes st :: llm_state
  assumes laws: "uuid_laws (le_uuid env)" and ok: "db_ok (lb_deploy (ls_db st))"
    and u: "undeploy_all env k i gs org st = (st', outs)"
  shows "(\<forall>t d. states st t = Some (d, StatusUndeployed) \<longrightarrow> states st' t = Some (d, StatusUndeployed))
    \<and> ((g, Undeployed) \<in> set outs \<longrightarrow>
        (\<exists>t d. states st t = Some (d, StatusDeployed) \<and> states st' t = Some (d, StatusUndeployed)))"
  using ok u
proof (induction gs arbitrary: k st outs)
  case (Cons h gs)
  obtain st1 out where one: "undeploy_gateway env k i h org st = (st1, out)" by fastforce
  obtain outs' where rest: "undeploy_all env (Suc k) i gs org st1 = (st', outs')" "outs = (h, out) # outs'"
    using Cons.prems(2) one by (auto split: prod.splits)
  note e = undeploy_gateway_effect[OF laws Cons.prems(1) one]
  note IH = Cons.IH[OF e(1) rest(1)]
  have ne: "StatusDeployed \<noteq> StatusUndeployed" by (simp add: status_defs)
  show ?case
  proof (intro conjI allI impI)
    fix t d assume a: "states st t = Some (d, StatusUndeployed)"
    have "states st1 t = Some (d, StatusUndeployed)" using e(2) a ne by (auto split: if_splits)
    then show "states st' t = Some (d, StatusUndeployed)" using IH by blast
  next
    assume g: "(g, Undeployed) \<in> set outs"
    show "\<exists>t d. states st t = Some (d, StatusDeployed) \<and> states st' t = Some (d, StatusUndeployed)"
    proof (cases "out = Undeployed")
      case True
      then obtain t d where "states st t = Some (d, StatusDeployed)" "states st1 t = Some (d, StatusUndeployed)"
        using e(2) by auto
      then show ?thesis using IH by blast
    next
      case False
      then obtain t d where t: "states st1 t = Some (d, StatusDeployed)" "states st' t = Some (d, StatusUndeployed)"
        using IH g rest(2) by auto
      moreover have "states st1 = states st" using e(2) False by blast
      ultimately show ?thesis by metis
    qed
  qed
qed simp

lemma refused_delete: "has_proxies u db \<Longrightarrow> ul_parse (de_uuid env) i = Some u \<Longrightarrow> \<exists>e. provider_repo_Delete env n i org db = Inl e"
  by (auto simp: provider_repo_Delete_def statement_def andThen_def split: sum.split option.split)

text \<open>C39. Deleting a provider that has proxies is an error and keeps the provider, but when undeploying
  it from a gateway worked, a deployment that was DEPLOYED is UNDEPLOYED afterwards: the deletion that is refused
  has taken the provider off that gateway.\<close>

theorem refused_deletion_undeploys:
  fixes st st' :: llm_state
  assumes "uuid_laws (le_uuid env)" and "llm_ok (ls_db st)"
    and u: "ul_parse (le_uuid env) i = Some u" "has_proxies u (ls_db st)"
    and targets: "delete_targets env i org (ls_db st) = Inr gs"
    and off: "undeploy_all env 0 i gs org st = (st1, outs)" "(g, Undeployed) \<in> set outs"
    and del: "LLMProvider_Delete env i org st = (st', r)"
  shows "(\<exists>e. r = Inl e) \<and> lb_artifacts (ls_db st') = lb_artifacts (ls_db st)
    \<and> lb_providers (ls_db st') = lb_providers (ls_db st) \<and> lb_proxies (ls_db st') = lb_proxies (ls_db st)
    \<and> (\<exists>t d. current (lb_deploy (ls_db st)) t = Some (d, StatusDeployed)
        \<and> current (lb_deploy (ls_db st')) t = Some (d, StatusUndeployed))"
proof -
  note frame = undeploy_all_frame[of env 0 i gs org st, unfolded off(1) fst_conv]
  have "has_proxies u (ls_db st1)" using u(2) frame by (simp add: has_proxies_def)
  then obtain e where "provider_repo_Delete (le_repo env) 10 i org (ls_db st1) = Inl e"
    using refused_delete[OF _ u(1)] by blast
  then have "st' = st1 \<and> (\<exists>e. r = Inl e)"
    using del by (auto simp: LLMProvider_Delete_def targets off(1) Let_def split: if_splits)
  moreover have "db_ok (lb_deploy (ls_db st))" using assms(2) by (simp add: llm_ok_def deployments_ok_def)
  ultimately show ?thesis using undeploy_all_effect[OF assms(1) _ off(1)] off(2) frame by blast
qed

section \<open>A rotation that fails\<close>

text \<open>After \<open>Upsert\<close> the key with its artifact and name is there, with its hash.\<close>

lemma upserted:
  assumes up: "Upsert env n new db = Inr db'"
  shows "(\<exists>k \<in> set (lb_keys db'). key_of k = key_of new)
    \<and> (\<forall>k \<in> set (lb_keys db'). key_of k = key_of new \<longrightarrow> sk_APIKeyHash k = sk_APIKeyHash new)"
proof (cases "key_of new \<in> set (map key_of (lb_keys db))")
  case True
  have r: "key_of (refresh_key new k) = key_of k" "sk_APIKeyHash (refresh_key new k) = sk_APIKeyHash new" for k
    by (simp_all add: refresh_key_def key_of_def)
  from up True have m: "lb_keys db' = map (\<lambda>k. if key_of k = key_of new then refresh_key new k else k) (lb_keys db)"
    by (auto simp: Upsert_def statement_Inr_iff split: if_splits)
  from True obtain k where k: "k \<in> set (lb_keys db)" "key_of k = key_of new" by auto
  then have "refresh_key new k \<in> set (lb_keys db')" unfolding m by force
  moreover have "\<forall>k \<in> set (lb_keys db'). key_of k = key_of new \<longrightarrow> sk_APIKeyHash k = sk_APIKeyHash new"
    unfolding m using r by auto
  ultimately show ?thesis using k(2) r(1) by metis
next
  case False
  then have "lb_keys db' = lb_keys db @ [new]"
    using up by (auto simp: Upsert_def statement_Inr_iff split: if_splits)
  then show ?thesis using False by (auto simp: image_iff)
qed

text \<open>C40. When the new key of a rotation cannot be delivered to some gateway, the rotation reports an error, but the
  stored key of that name already has the hash of the new key, which the caller never gets.\<close>

theorem failed_rotation_replaces_key:
  fixes st :: llm_state
  assumes p: "prepare_rotate env org artifactUUID keyName req (ls_db st) = Inr (key, gs, db)" and repo: "ky_has_repo env"
    and u: "ul_parse (de_uuid (ky_repo env)) artifactUUID = Some u"
    and fails: "snd (broadcast_until env 0 ''apikey.updated'' (key_updated_event env apiID keyName key req) gs
      (ls_manager st)) \<noteq> None"
  shows "\<exists>st' e. broadcastRotate env org apiID artifactUUID keyName (Some req) st = (st', Inl e)
    \<and> (\<exists>k \<in> set (lb_keys (ls_db st')). sk_ArtifactUUID k = u \<and> sk_Name k = keyName)
    \<and> (\<forall>k \<in> set (lb_keys (ls_db st')). sk_ArtifactUUID k = u \<and> sk_Name k = keyName
        \<longrightarrow> sk_APIKeyHash k = hashAPIKeySHA256 key)"
proof -
  obtain mgr g e where b: "broadcast_until env 0 ''apikey.updated'' (key_updated_event env apiID keyName key req) gs
      (ls_manager st) = (mgr, Some (g, e))" using fails by (auto simp: prod_eq_iff)
  obtain expiresAt where up: "Upsert (ky_repo env) 2 (stored_key env org keyName u key expiresAt) (ls_db st) = Inr db"
    using p repo u by (auto simp: prepare_rotate_def andThen_Inr parse_artifact_def persist_key_def wrap_error_Inr)
  have n: "key_of (stored_key env org keyName u key expiresAt) = (u, keyName)"
    "sk_APIKeyHash (stored_key env org keyName u key expiresAt) = hashAPIKeySHA256 key"
    by (simp_all add: key_of_def stored_key_def)
  have "broadcastRotate env org apiID artifactUUID keyName (Some req) st = (\<lparr>ls_db = db, ls_manager = mgr\<rparr>,
      Inl (Errorf ''failed to deliver API key rotation to gateway %s: %w'' [ul_show (de_uuid (ky_repo env)) g, e]))"
    unfolding broadcastRotate_def option.case p sum.case prod.case Let_def b ..
  then show ?thesis using upserted[OF up, unfolded n, unfolded key_of_def prod.inject]
    by (intro exI[of _ "\<lparr>ls_db = db, ls_manager = mgr\<rparr>"]) simp
qed

section \<open>Instances\<close>

definition proxied_db :: deploy_db where
  "proxied_db = \<lparr>db_deployments = [stored 3, stored 4], db_status = [sample_status 4], db_artifacts = [1, 6], db_gateways = [2]\<rparr>"

definition proxied :: llm_state where
  "proxied = \<lparr>ls_db = \<lparr>
     lb_artifacts = [sample_artifact, sample_artifact\<lparr>af_UUID := 6, af_Handle := ''px'', af_Name := ''px'', af_Kind := KindLLMProxy\<rparr>],
     lb_providers = [sample_row\<lparr>lp_Configuration := pv_Configuration sample_provider\<rparr>],
     lb_proxies = [\<lparr>lx_UUID = 6, lx_ProjectUUID = 9, lx_Description = [], lx_CreatedBy = [], lx_ProviderUUID = 1, lx_OpenAPISpec = [],
       lx_Status = [], lx_Configuration = pa_Configuration sample_proxy\<rparr>],
     lb_keys = [], lb_deploy = proxied_db\<rparr>, ls_manager = None\<rparr>"

lemma proxied_rows: "map provider_view (provider_rows (ls_db proxied)) = [(''o'', sample_provider)]"
  by (simp add: provider_rows_def proxied_def sample_artifact_def KindLLMProvider_def KindLLMProxy_def)
    (simp add: provider_view_def sample_row_def sample_provider_def)

lemma proxied_service: "service_for (sample_llm (sample_env 5)) k (ls_db proxied) = sample_env 5"
  by (simp add: service_for_def proxied_rows) (simp add: sample_env_def)

lemma proxied_view: "deploy_view (ls_db proxied) = proxied_db"
  by (simp add: deploy_view_def proxied_def proxied_db_def sample_artifact_def)

lemma proxied_deploy: "lb_deploy (ls_db proxied) = proxied_db"
  by (simp add: proxied_def)

lemma proxied_ok: "llm_ok (ls_db proxied)"
proof -
  have "sv_db deployed_state\<lparr>db_artifacts := [1, 6]\<rparr> = proxied_db" by (simp add: deployed_db proxied_db_def)
  moreover have "db_ok (sv_db deployed_state\<lparr>db_artifacts := [1, 6]\<rparr>)"
    using deployed_state_ok by (simp add: db_ok_def status_ok_def ids_def)
  ultimately have "db_ok proxied_db" by simp
  then show ?thesis
    by (simp add: llm_ok_parts proxied_def sample_artifact_def of_kind_def has_uuid_def sealed_def main_auth_def sample_provider_def
        sample_proxy_def) (simp add: proxied_db_def stored_def sample_deployment_def)
qed

lemma proxied_undeploys:
  "\<exists>ds d. UndeployLLMProviderDeployment (sample_env 5) ''x'' ''xxxx'' ''xx'' ''o''
     \<lparr>sv_db = proxied_db, sv_manager = None\<rparr> = (ds, Inr d)"
proof -
  have "GetWithState (se_repo (sample_env 5)) 3 ''xxxx'' ''x'' ''o'' proxied_db
      = Inr ((stored 4)\<lparr>dp_Status := Some StatusDeployed, dp_UpdatedAt := Some 4, dp_Content := []\<rparr>)"
    by (simp add: GetWithState_def statement_def cast_uuid_def find_deployment_def proxied_db_def with_state_def joined_def)
      (simp add: sample_env_def unary_uuids_def stored_def sample_deployment_def sample_status_def status_key_def
        target_def archived_if_null_def scan_row_def)
  moreover have "\<exists>db. SetCurrent (se_repo (sample_env 5)) 4 (uint (5 :: uuid)) ''x'' ''o'' ''xx'' ''xxxx'' StatusUndeployed
      proxied_db = Inr (5, db)"
    by (simp add: SetCurrent_def statement_def parse_uuid_def upsert_status_def proxied_db_def ids_def)
      (simp add: sample_env_def unary_uuids_def stored_def sample_deployment_def ids_def)
  ultimately show ?thesis
    by (auto simp: UndeployLLMProviderDeployment_def sample_found Let_def sample_ids)
qed

lemma proxied_deployment:
  "\<exists>ds d. GetLLMProviderDeployments (sample_env 5) ''x'' ''o'' (Some ''xx'') None proxied_db = Inr ds
     \<and> find (\<lambda>d. dp_Status d = Some StatusDeployed) ds = Some d \<and> dp_DeploymentID d = 4"
proof -
  have sel: "select_rows 1 ''o'' (Some 2) proxied_db = [stored 3, stored 4]"
    by (simp add: select_rows_def proxied_db_def stored_def sample_deployment_def)
  have j: "joined proxied_db (stored 3) = None" "joined proxied_db (stored 4) = Some (sample_status 4)"
    by (simp_all add: joined_def proxied_db_def sample_status_def stored_def sample_deployment_def status_key_def target_def)
  have r: "ranked proxied_db [stored 3, stored 4] = [stored 4, stored 3]"
    by (simp add: ranked_def j) (simp add: stored_def sample_deployment_def j)
  have t: "top_per_gateway 20 [stored 4, stored 3] = [stored 4, stored 3]"
    by (simp add: top_per_gateway_def stored_def sample_deployment_def)
  have i: "dp_DeploymentID (stored 4) = 4" by (simp add: stored_def sample_deployment_def)
  have w: "dp_Status (archived_if_null (with_state proxied_db (stored 4)\<lparr>dp_Content := []\<rparr>)) = Some StatusDeployed"
    "dp_DeploymentID (archived_if_null (with_state proxied_db (stored 4)\<lparr>dp_Content := []\<rparr>)) = 4"
    by (simp_all add: with_state_def j archived_if_null_def sample_status_def i)
  show ?thesis
    by (simp add: GetLLMProviderDeployments_def sample_found GetDeploymentsWithState_def statement_def sample_ids sel r t
        status_matches_def w i)
qed

lemma proxied_off:
  "\<exists>st1. undeploy_all (sample_llm (sample_env 5)) 0 ''x'' [''xx''] ''o'' proxied = (st1, [(''xx'', Undeployed)])"
proof -
  obtain ds d where d: "GetLLMProviderDeployments (sample_env 5) ''x'' ''o'' (Some ''xx'') None proxied_db = Inr ds"
    "find (\<lambda>d. dp_Status d = Some StatusDeployed) ds = Some d" "dp_DeploymentID d = 4" using proxied_deployment by blast
  obtain ds' and d' :: Deployment where u: "UndeployLLMProviderDeployment (sample_env 5) ''x'' ''xxxx'' ''xx'' ''o''
     \<lparr>sv_db = proxied_db, sv_manager = None\<rparr> = (ds', Inr d')" using proxied_undeploys by blast
  have "ls_manager proxied = None" by (simp add: proxied_def)
  then have "\<exists>st1. undeploy_gateway (sample_llm (sample_env 5)) 0 ''x'' ''xx'' ''o'' proxied = (st1, Undeployed)"
    using d u by (simp add: undeploy_gateway_def proxied_service proxied_view on_deploy_def)
      (simp add: unary_uuids_def words)
  then show ?thesis by auto
qed

theorem refused_deletion_undeploys_witness:
  "\<exists>st' e t d. LLMProvider_Delete (sample_llm (sample_env 5)) ''x'' ''o'' proxied = (st', Inl e)
    \<and> lb_providers (ls_db st') = lb_providers (ls_db proxied)
    \<and> current proxied_db t = Some (d, StatusDeployed) \<and> current (lb_deploy (ls_db st')) t = Some (d, StatusUndeployed)"
proof -
  let ?env = "sample_llm (sample_env 5)"
  obtain st1 where off: "undeploy_all ?env 0 ''x'' [''xx''] ''o'' proxied = (st1, [(''xx'', Undeployed)])"
    using proxied_off by blast
  obtain st' r where del: "LLMProvider_Delete ?env ''x'' ''o'' proxied = (st', r)" by fastforce
  have parse: "ul_parse unary_uuids ''x'' = Some 1" by (simp add: unary_uuids_def)
  have "\<exists>p. llm_GetByUUID (le_repo ?env) 1 ''x'' ''o'' (ls_db proxied) = Inr p"
    by (simp add: llm_GetByUUID_def statement_def cast_uuid_def unary_uuids_def first_row_def provider_rows_def proxied_def)
      (simp add: sample_artifact_def KindLLMProvider_def KindLLMProxy_def)
  moreover have "GetDeployedGatewaysByProvider (le_repo ?env) 2 1 ''o'' proxied_db = Inr [''xx'']"
    by (simp add: GetDeployedGatewaysByProvider_def statement_def proxied_db_def)
      (simp add: sample_status_def unary_uuids_def words)
  ultimately have "delete_targets ?env ''x'' ''o'' (ls_db proxied) = Inr [''xx'']"
    by (auto simp: delete_targets_def llm_resolve_def parse proxied_view)
  moreover have "has_proxies 1 (ls_db proxied)" by (simp add: has_proxies_def proxied_def sample_row_def)
  ultimately show ?thesis
    using refused_deletion_undeploys[of ?env proxied "''x''" 1 "''o''" "[''xx'']" st1 "[(''xx'', Undeployed)]" "''xx''" st' r]
      off del by (auto simp: unary_laws proxied_ok parse proxied_deploy)
qed

text \<open>A key of the provider, and a gateway whose only connection is closed.\<close>

definition broken_manager :: Manager where
  "broken_manager = (NewManager 5 5)\<lparr>mg_connections := [(''xx'', [0])],
     mg_heap := [(NewConnection ''xx'' ''c'' ''t'' 0)\<lparr>cn_closed := True\<rparr>]\<rparr>"

definition keyed :: llm_state where
  "keyed = \<lparr>ls_db = (one_provider no_deployments)\<lparr>lb_keys := [\<lparr>sk_UUID = 8, sk_Name = ''k'', sk_ArtifactUUID = 1, sk_OrganizationName = ''o'',
     sk_APIKeyHash = ''old'', sk_MaskedAPIKey = [], sk_Status = ''active'', sk_CreatedAt = 0, sk_UpdatedAt = 0, sk_ExpiresAt = None\<rparr>]\<rparr>,
     ls_manager = Some broken_manager\<rparr>"

definition sample_keys :: key_env where
  "sample_keys = \<lparr>ky_llm = sample_llm (sample_env 5), ky_bytes = Some ''b'', ky_handle = None, ky_uuid = 9, ky_now = ''t'',
     ky_time = (\<lambda>_. None), ky_has_repo = True\<rparr>"

abbreviation sample_rotation :: RotateAPIKeyRequest where
  "sample_rotation \<equiv> \<lparr>ro_DisplayName = None, ro_ExpiresAt = None\<rparr>"

lemma broken_broadcast:
  "snd (broadcast_until sample_keys 0 eventType payload [2] (Some broken_manager)) \<noteq> None"
proof -
  have g: "GetConnections broken_manager ''xx'' = [0]" by (simp add: GetConnections_def broken_manager_def)
  have "dl_success (deliver_all json now answers [0] broken_manager) = 0" for json now answers
    by (simp add: deliver_all_def deliver_one_def conn_Send_def broken_manager_def)
  moreover have "ul_show unary_uuids 2 = ''xx''" by (simp add: unary_uuids_def words)
  ultimately have "snd (broadcast_to sample_keys 0 eventType payload 2 (Some broken_manager)) \<noteq> None"
    by (simp add: broadcast_to_def broadcastEvent_def g Let_def sample_keys_def)
  then show ?thesis by (cases "broadcast_to sample_keys 0 eventType payload 2 (Some broken_manager)") auto
qed

theorem failed_rotation_replaces_key_witness:
  "\<exists>st' e. broadcastRotate sample_keys ''o'' ''x'' ''x'' ''k'' (Some sample_rotation) keyed = (st', Inl e)
     \<and> map sk_Name (lb_keys (ls_db keyed)) = [''k''] \<and> map sk_APIKeyHash (lb_keys (ls_db keyed)) = [''old'']
     \<and> (\<exists>k \<in> set (lb_keys (ls_db st')). sk_Name k = ''k'' \<and> sk_APIKeyHash k = hashAPIKeySHA256 ''62'')"
proof -
  have b: "GenerateAPIKey sample_keys = Inr ''62''"
  proof -
    have "hex_EncodeToString ''b'' = ''62''" by code_simp
    then show ?thesis by (simp add: GenerateAPIKey_def sample_keys_def)
  qed
  have g: "org_gateways sample_keys ''o'' = Inr [2]"
    by (simp add: org_gateways_def sample_keys_def statement_def)
  have u: "ul_parse (de_uuid (ky_repo sample_keys)) ''x'' = Some 1" by (simp add: sample_keys_def) (simp add: unary_uuids_def)
  have "\<exists>db. persist_key sample_keys msg (stored_key sample_keys ''o'' ''k'' 1 ''62'' None) (ls_db keyed) = Inr db" for msg
    by (simp add: persist_key_def sample_keys_def Upsert_def statement_def stored_key_def keyed_def has_uuid_def one_provider_def
        sample_artifact_def)
  then obtain db where "persist_key sample_keys ''failed to persist rotated API key: %w''
      (stored_key sample_keys ''o'' ''k'' 1 ''62'' None) (ls_db keyed) = Inr db" by blast
  then have p: "prepare_rotate sample_keys ''o'' ''x'' ''k'' sample_rotation (ls_db keyed) = Inr (''62'', [2], db)"
    by (simp add: prepare_rotate_def b g parse_artifact_def u parse_expiry_def)
  have "ky_has_repo sample_keys" "ls_manager keyed = Some broken_manager" by (simp_all add: sample_keys_def keyed_def)
  then show ?thesis
    using failed_rotation_replaces_key[OF p _ u, of "''x''"] broken_broadcast by (fastforce simp: keyed_def)
qed

end
