(* ===== verification/FetchProperties.thy ===== *)
theory FetchProperties
  imports LlmProperties
begin

text \<open>
  The way of a credential of an LLM provider through creation, deployment and the fetch by a gateway.
\<close>

section \<open>A credential on its way to a gateway\<close>

lemma read_again:
  assumes "p \<in> set (provider_rows db)" "af_OrganizationName (fst p) = org"
    and "ul_cast (le_uuid env) i = Some (lp_UUID (snd p))" "de_fault (le_repo env) n = None"
  shows "\<exists>q. llm_GetByUUID (le_repo env) n i org db = Inr q \<and> lp_UUID (snd q) = lp_UUID (snd p)"
proof -
  let ?P = "\<lambda>(a, _). af_UUID a = lp_UUID (snd p) \<and> af_OrganizationName a = org"
  have "?P p" using assms(1,2) provider_rows_iff[of "fst p" "snd p" db] by (simp add: case_prod_beta)
  then obtain q where q: "find ?P (provider_rows db) = Some q"
    using assms(1) by (cases "find ?P (provider_rows db)") (auto simp: find_None_iff)
  have "q \<in> set (provider_rows db)" "?P q" using found[OF q] by auto
  then have "lp_UUID (snd q) = lp_UUID (snd p)"
    using provider_rows_iff[of "fst q" "snd q" db] by (simp add: case_prod_beta)
  then show ?thesis using q assms(3,4) by (simp add: llm_GetByUUID_def statement_def cast_uuid_def first_row_def)
qed

text \<open>The deployment of a provider that is stored, and what a gateway reads of it.\<close>

lemma deployed_and_read:
  fixes st st' :: llm_state
  assumes ok: "llm_ok db" and uuids: "uuid_laws (le_uuid env)" and p: "p \<in> set (provider_rows db)"
    and i: "i = ul_show (le_uuid env) (lp_UUID (snd p))" and base: "rq_Base req = ''current''"
    and deployed: "on_deploy (DeployLLMProvider (service_for env k db) i req org) (st\<lparr>ls_db := db\<rparr>) = (st', Inr d)"
    and gw: "ul_cast (le_uuid env) g = Some (dp_GatewayUUID d)" and reads: "de_fault (le_repo env) n = None"
  shows "\<exists>doc body d'. ue_Auth (yd_Upstream doc) = main_auth (lp_Configuration (snd p))
    \<and> se_yaml (le_service env k) doc = Inr body \<and> provider_rows (ls_db st') = provider_rows db
    \<and> GetCurrentByGateway (le_repo env) n i g org (deploy_view (ls_db st')) = Inr d' \<and> dp_Content d' = body"
proof -
  let ?sv = "service_for env k db" and ?ds = "\<lparr>sv_db = deploy_view db, sv_manager = ls_manager st\<rparr>"
  from deployed obtain ds where dep: "DeployLLMProvider ?sv i req org ?ds = (ds, Inr d)"
    and st': "ls_db st' = db\<lparr>lb_deploy := sv_db ds\<rparr>"
    by (auto simp: on_deploy_def split: prod.splits)
  have "ul_parse (le_uuid env) i = Some (lp_UUID (snd p))" and cast: "ul_cast (le_uuid env) i = Some (lp_UUID (snd p))"
    using shown_uuid[OF uuids] by (simp_all add: i)
  then have found: "get_provider ?sv i org = Inr prov \<Longrightarrow> prov = snd (provider_view p)" for prov
    using found_provider[OF ok uuids p] by blast
  from deployed_content[OF dep base found] obtain doc body e where doc: "deployment_document (snd (provider_view p)) = Inr doc"
    and body: "se_yaml ?sv doc = Inr body" and d: "dp_OrganizationName d = org" "dp_ArtifactUUID d = pv_UUID (snd (provider_view p))"
    and e: "e \<in> set (db_deployments (sv_db ds))" "dp_DeploymentID e = dp_DeploymentID d" "dp_Content e = body" by blast
  have v: "pv_UUID (snd (provider_view p)) = lp_UUID (snd p)" "pv_Configuration (snd (provider_view p)) = lp_Configuration (snd p)"
    by (simp_all add: provider_view_def split: prod.split)
  have okd: "db_ok (sv_db ?ds)" using ok by (simp add: db_ok_view llm_ok_def deployments_ok_def)
  note steps = creates_steps(1,2)[OF okd deploy_creates[OF dep]]
  have t: "current (sv_db ds) (lp_UUID (snd p), org, dp_GatewayUUID d) = Some (dp_DeploymentID d, StatusDeployed)"
    using steps(2) d v by (simp add: target_def)
  let ?db = "deploy_view (ls_db st')"
  have view: "db_ok ?db" "current ?db (lp_UUID (snd p), org, dp_GatewayUUID d) = Some (dp_DeploymentID d, StatusDeployed)"
    "e \<in> set (db_deployments ?db)"
    using steps(1) t e(1) by (simp_all add: st' db_ok_view) (simp_all add: deploy_view_def current_def)
  obtain d' where "GetCurrentByGateway (le_repo env) n i g org ?db = Inr d'" "dp_Content d' = body"
    using current_content_fetched[OF view e(2) reads cast gw] e(3) by blast
  moreover have "ue_Auth (yd_Upstream doc) = main_auth (lp_Configuration (snd p))" using upstream_auth[OF doc] v(2) by simp
  moreover have "se_yaml (le_service env k) doc = Inr body" using body by (simp add: service_for_def)
  moreover have "provider_rows (ls_db st') = provider_rows db" by (simp add: provider_rows_def st')
  ultimately show ?thesis by blast
qed

section \<open>A provider with a credential\<close>

definition sealed_provider :: LLMProvider where
  "sealed_provider = \<lparr>pv_UUID = 1, pv_TemplateHandle = ''openai'', pv_ModelList = [],
      pv_Configuration = sample_config sealed_auth, pv_ArtifactHandle = ''p''\<rparr>"

lemma sealed_view: "provider_view (sample_artifact, sample_row) = (''o'', sealed_provider)"
  by (simp add: provider_view_def sample_artifact_def sealed_provider_def) (simp add: sample_row_def)

lemma sealed_document: "\<exists>doc. deployment_document sealed_provider = Inr doc"
proof -
  have "provider_policies sealed_provider = Inr []"
    by (simp add: provider_policies_def sealed_provider_def sample_config_def rate_limit_policies_def user_policies_def security_policies_def
        api_key_policies_def normalized_policies_def)
  then show ?thesis
    by (simp add: deployment_document_def upstream_main_def) (simp add: sealed_provider_def sample_config_def)
qed

text \<open>A printer of the reference of a document, and its parser; the printer of maps prints the plain value.\<close>

definition reference_of :: "LLMProviderDeploymentYAML \<Rightarrow> string" where
  "reference_of doc = (case Option.bind (ue_Auth (yd_Upstream doc)) ua_SecretRef of Some s \<Rightarrow> s | None \<Rightarrow> [])"

definition value_of :: "ymap \<Rightarrow> string" where
  "value_of m = (case map_of m ''spec'' of Some (YMap spec) \<Rightarrow> (case map_of spec ''upstream'' of Some (YMap up) \<Rightarrow>
     (case map_of up ''auth'' of Some (YMap auth) \<Rightarrow> (case map_of auth ''value'' of Some (YStr v) \<Rightarrow> v | _ \<Rightarrow> []) | _ \<Rightarrow> [])
     | _ \<Rightarrow> []) | _ \<Rightarrow> [])"

definition sample_yaml_lib :: yaml_lib where
  "sample_yaml_lib = \<lparr>yl_parse = (\<lambda>body. Inr (Some [(''spec'', YMap [(''upstream'', YMap [(''auth'',
     YMap [(''secretRef'', YStr body)])])])])), yl_print = (\<lambda>m. Inr (value_of m))\<rparr>"

definition secret_env :: service_env where
  "secret_env = (sample_env 3)\<lparr>se_yaml := (\<lambda>doc. Inr (reference_of doc))\<rparr>"

lemma sample_yaml_reads: "yaml_reads (se_yaml secret_env) sample_yaml_lib"
  by (auto simp: yaml_reads_def secret_env_def sample_yaml_lib_def reference_of_def)

lemma sample_aead: "aead_laws (sample_llm sv)"
  by (simp add: aead_laws_def)

lemma plain_value: "plain_auth v m \<Longrightarrow> value_of m = v"
  by (auto simp: plain_auth_def value_of_def)

lemma sample_service:
  "service_for (sample_llm secret_env) 0 (one_provider db) = secret_env\<lparr>se_providers := [(''o'', sealed_provider)]\<rparr>"
proof -
  have "provider_rows (one_provider db) = [(sample_artifact, sample_row)]"
    by (simp add: provider_rows_def one_provider_def) (simp add: sample_artifact_def)
  then show ?thesis by (simp add: service_for_def sealed_view) (simp add: secret_env_def sample_env_def)
qed

lemma secret_deploys:
  "\<exists>ds d. DeployLLMProvider (secret_env\<lparr>se_providers := [(''o'', sealed_provider)]\<rparr>) ''x'' sample_request ''o''
     \<lparr>sv_db = deploy_view (one_provider no_deployments), sv_manager = None\<rparr> = (ds, Inr d) \<and> dp_GatewayUUID d = 2"
proof -
  let ?sv = "secret_env\<lparr>se_providers := [(''o'', sealed_provider)]\<rparr>" and ?db = "deploy_view (one_provider no_deployments)"
  obtain doc where doc: "deployment_document sealed_provider = Inr doc" using sealed_document by blast
  have f: "se_newid ?sv = 3" "se_created ?sv = 3" "se_updated ?sv = 3" "se_repo ?sv = \<lparr>de_uuid = unary_uuids, de_fault = (\<lambda>_. None)\<rparr>"
    "se_gateways ?sv = [(2, ''o'')]"
    by (simp_all add: secret_env_def sample_env_def)
  have "get_provider ?sv ''x'' ''o'' = Inr sealed_provider"
    by (simp add: get_provider_def resolveProvider_def provider_GetByUUID_def parses_def shows_uuid_def statement_def cast_uuid_def first_row_def f unary_uuids_def)
      (simp add: sealed_provider_def)
  moreover have "current_content ?sv sealed_provider = Inr (reference_of doc)"
    using doc by (simp add: current_content_def generateLLMProviderDeploymentYAML_def secret_env_def) (simp add: sealed_provider_def)
  then have "deployment_source ?sv sealed_provider ''current'' ''o'' ?db = Inr (None, reference_of doc)"
    by (simp add: deployment_source_def)
  moreover have "parses ?sv ''xx'' = Some 2" by (simp add: parses_def f unary_uuids_def)
  moreover have "gateway_GetByUUID ?sv ''xx'' = Inr ''o''"
    by (simp add: gateway_GetByUUID_def f statement_def cast_uuid_def first_row_def) (simp add: unary_uuids_def)
  moreover have "pv_UUID sealed_provider = 1" by (simp add: sealed_provider_def)
  ultimately have n: "new_deployment ?sv ''x'' sample_request ''o'' ?db = Inr ((sample_deployment 3)\<lparr>dp_Content := reference_of doc\<rparr>)"
    by (simp add: new_deployment_def sample_deployment_def sample_request_def f)
  let ?d0 = "(sample_deployment 3)\<lparr>dp_Content := reference_of doc\<rparr>"
  have "\<exists>db. CreateWithLimitEnforcement (se_repo ?sv) 3 3 3 ?d0 hard_limit ?db = Inr (prepared 3 3 3 ?d0, db)"
    by (auto simp: CreateWithLimitEnforcement_def Let_def make_room_def hard_limit_def deploy_view_def one_provider_def no_deployments_def
      insert_deployment_def upsert_status_def statement_def deployments_for_def ids_def f)
     (auto simp: sample_deployment_def prepared_def sample_artifact_def)
  then show ?thesis using n by (auto simp: DeployLLMProvider_def f) (auto simp: prepared_def sample_deployment_def)
qed

section \<open>The property\<close>

text \<open>C38. A provider is created with a plain credential, which is stored encrypted, and deployed to a gateway as
  it is. What that gateway then fetches is the print of a document whose upstream has exactly the plain
  credential and no reference, given that opening undoes sealing and the YAML library reads back what it wrote.\<close>

theorem stored_credential_reaches_gateway:
  fixes st st' :: llm_state
  assumes uuids: "uuid_laws (le_uuid env)" and aead: "aead_laws env"
    and yaml: "yaml_reads (se_yaml (le_service env k)) yl" and ok: "llm_ok (ls_db st)"
    and created: "LLMProvider_Create env org by' (Some input) (ls_db st) = (db, Inr p)"
    and auth: "main_auth (lp_Configuration input) = Some a" "ua_Value a = Some v"
    and i: "i = ul_show (le_uuid env) (lp_UUID (snd p))" and base: "rq_Base req = ''current''"
    and deployed: "on_deploy (DeployLLMProvider (service_for env k db) i req org) (st\<lparr>ls_db := db\<rparr>) = (st', Inr d)"
    and gw: "ul_cast (le_uuid env) g = Some (dp_GatewayUUID d)"
    and reads: "de_fault (le_repo env) 1 = None" "de_fault (le_repo env) 2 = None"
  shows "\<exists>doc. plain_auth v doc \<and> (\<forall>out. yl_print yl doc = Inr out \<longrightarrow>
    GetActiveLLMProviderDeploymentByGateway env yl i org g (ls_db st') = Inr [(i, out)])"
proof -
  note c = created_config[OF aead ok uuids created auth]
  from c(4) obtain a' s where a': "main_auth (lp_Configuration (snd p)) = Some a'" "ua_SecretRef a' = Some s"
    and s: "s \<noteq> []" "decrypt_ref env s = Inr v" by blast
  from deployed_and_read[OF c(1) uuids c(2) i base deployed gw reads(2)] obtain doc body d' where
    doc: "ue_Auth (yd_Upstream doc) = Some a'" "se_yaml (le_service env k) doc = Inr body"
    and rows: "provider_rows (ls_db st') = provider_rows db"
    and cur: "GetCurrentByGateway (le_repo env) 2 i g org (deploy_view (ls_db st')) = Inr d'" "dp_Content d' = body"
    unfolding a'(1) by blast
  obtain q where q: "llm_GetByUUID (le_repo env) 1 i org (ls_db st') = Inr q" "lp_UUID (snd q) = lp_UUID (snd p)"
    using read_again[of p "ls_db st'" org env i 1] c(2,3) rows reads(1) shown_uuid(2)[OF uuids] by (auto simp: i)
  obtain m spec up auth' where m: "yl_parse yl body = Inr (Some m)" "map_of m ''spec'' = Some (YMap spec)"
    "map_of spec ''upstream'' = Some (YMap up)" "map_of up ''auth'' = Some (YMap auth')"
    "map_of auth' ''secretRef'' = Some (YStr s)"
    using yaml doc a'(2) unfolding yaml_reads_def by blast
  from resolved[OF m s] obtain doc' where "plain_auth v doc'"
    and out: "\<And>out. yl_print yl doc' = Inr out \<Longrightarrow> resolveSecretsInYAML env yl body ''upstream.auth'' = Inr out" by blast
  moreover have "GetActiveLLMProviderDeploymentByGateway env yl i org g (ls_db st') = Inr [(i, out)]"
    if "yl_print yl doc' = Inr out" for out
    using out[OF that] q cur i by (simp add: GetActiveLLMProviderDeploymentByGateway_def active_content_def)
  ultimately show ?thesis by blast
qed

theorem stored_credential_reaches_gateway_witness:
  "\<exists>st :: llm_state. GetActiveLLMProviderDeploymentByGateway (sample_llm secret_env) sample_yaml_lib ''x'' ''o'' ''xx'' (ls_db st)
     = Inr [(''x'', ''s'')] \<and> lb_providers (ls_db st) = [sample_row]"
proof -
  let ?env = "sample_llm secret_env" and ?st = "no_rows no_deployments"
  obtain ds d where dep: "DeployLLMProvider (service_for ?env 0 (one_provider no_deployments)) ''x'' sample_request ''o''
      \<lparr>sv_db = deploy_view (one_provider no_deployments), sv_manager = None\<rparr> = (ds, Inr d)" and g: "dp_GatewayUUID d = 2"
    using secret_deploys unfolding sample_service by blast
  let ?st' = "\<lparr>ls_db = (one_provider no_deployments)\<lparr>lb_deploy := sv_db ds\<rparr>, ls_manager = sv_manager ds\<rparr>"
  have o: "on_deploy (DeployLLMProvider (service_for ?env 0 (one_provider no_deployments)) ''x'' sample_request ''o'')
      (?st\<lparr>ls_db := one_provider no_deployments\<rparr>) = (?st', Inr d)"
    using dep by (simp add: on_deploy_def no_rows_def)
  have "llm_ok (ls_db ?st)" by (simp add: no_rows_def llm_ok_parts db_ok_def deployments_for_def no_deployments_def)
  moreover have "main_auth (lp_Configuration sample_input) = Some sample_auth" "ua_Value sample_auth = Some ''s''"
    by (simp_all add: sample_input_def main_auth_def sample_config_def sample_auth_def)
  moreover have "''x'' = ul_show (le_uuid ?env) (lp_UUID (snd (sample_artifact, sample_row)))"
    by (simp add: unary_uuids_def)
  moreover have "rq_Base sample_request = ''current''" by (simp add: sample_request_def)
  moreover have "ul_cast (le_uuid ?env) ''xx'' = Some (dp_GatewayUUID d)" by (simp add: g) (simp add: unary_uuids_def)
  ultimately obtain doc where "plain_auth ''s'' doc" and r: "\<And>out. yl_print sample_yaml_lib doc = Inr out \<Longrightarrow>
      GetActiveLLMProviderDeploymentByGateway ?env sample_yaml_lib ''x'' ''o'' ''xx'' (ls_db ?st') = Inr [(''x'', out)]"
    using stored_credential_reaches_gateway[of ?env 0 sample_yaml_lib ?st "''o''" "''me''" sample_input "one_provider no_deployments"
        "(sample_artifact, sample_row)" sample_auth "''s''" "''x''" sample_request ?st' d "''xx''"]
      sample_created sample_yaml_reads sample_aead o by (auto simp: unary_laws)
  then have "GetActiveLLMProviderDeploymentByGateway ?env sample_yaml_lib ''x'' ''o'' ''xx'' (ls_db ?st') = Inr [(''x'', ''s'')]"
    by (intro r) (simp add: sample_yaml_lib_def plain_value)
  then show ?thesis by (intro exI[of _ ?st']) (simp add: one_provider_def)
qed

text \<open>A gateway that runs no deployment of an API gets empty content instead of an error.\<close>

theorem missing_deployment_is_fetched_empty:
  assumes "ul_cast (le_uuid env) api = Some a" "ul_cast (le_uuid env) g = Some gw" "de_fault (le_repo env) 1 = None"
    and "db_ok (lb_deploy (ls_db st))" and "current (lb_deploy (ls_db st)) (a, org, gw) = None"
  shows "GetActiveDeploymentByGateway env api org g (ls_db st) = Inr [(api, [])]"
proof -
  let ?db = "deploy_view (ls_db st)"
  have ok: "db_ok ?db" using assms(4) by (simp add: db_ok_view)
  have "dp_Status (with_state ?db d) = None" if "d \<in> set (deployments_for (a, org, gw) ?db)" for d
  proof -
    have d: "d \<in> set (db_deployments ?db)" "target d = (a, org, gw)" using that by (auto simp: deployments_for_def)
    then show ?thesis using joined_current[OF ok d(1)] assms(5) by (simp add: with_state_def current_view)
  qed
  then have "filter (\<lambda>d. dp_Status d = Some StatusDeployed) (map (with_state ?db) (deployments_for (a, org, gw) ?db)) = []"
    by (auto simp: filter_empty_conv)
  then show ?thesis using assms(1-3)
    by (simp add: GetActiveDeploymentByGateway_def GetCurrentByGateway_def statement_def cast_uuid_def scan_row_def
        zero_deployment_def)
qed

end
