(* ===== verification/Spec2Isabelle.thy ===== *)
theory Spec2Isabelle
  imports TraceProperties GatewayProperties AuthProperties DeployProperties EvaluatorProperties
    LlmProperties FetchProperties
begin

text \<open>
  A verification of the core of the WSO2 agent management platform, a set of Go services.

  \<^bold>\<open>The program.\<close> Seven parts carry its own logic and are modelled here.

  \<^item> The \<^emph>\<open>traces observer service\<close> (\<open>src/traces-observer-service\<close>) answers queries about
    the traces of AI agents. It fetches spans from an observer, classifies each span by its OpenTelemetry
    attributes, extracts prompts, tools, documents, token usage and status (\<open>opensearch/process.go\<close>,
    \<open>opensearch/crewai_process.go\<close>), and assembles overviews and exports of whole traces with
    concurrent requests (\<open>controllers/controller.go\<close>).
  \<^item> The \<^emph>\<open>gateway connections\<close> of the agent manager service
    (\<open>src/agent-manager-service/websocket\<close>, \<open>controllers/websocket_controller.go\<close>,
    \<open>services/gateway_events_service.go\<close>): gateways connect through a WebSocket, are registered, kept
    alive by heartbeats, limited in rate, and receive events.
  \<^item> The \<^emph>\<open>gateways and their tokens\<close> (\<open>services/platform_gateway_service.go\<close>, \<open>services/token_cache.go\<close>,
    \<open>repositories/gateway_repository.go\<close>): gateways are registered, issued at most two tokens each, of which
    only salted hashes are stored, and authenticated by them through a cache.
  \<^item> The \<^emph>\<open>deployment of LLM providers and LLM proxies\<close> to these gateways
    (\<open>services/llm_deployment_service.go\<close>, \<open>services/llm_proxy_deployment_service.go\<close>,
    \<open>repositories/deployment_repository.go\<close>, \<open>services/deployment_ack_handler.go\<close>): a deployment is stored with a limited history, announced to
    its gateway by an event, and its state follows the gateway's acknowledgements.
  \<^item> The \<^emph>\<open>monitors\<close> (\<open>services/monitor_manager.go\<close>, \<open>services/monitor_executor.go\<close>,
    \<open>services/monitor_scheduler.go\<close>, \<open>repositories/monitor_repository.go\<close>): a monitor evaluates the traces of
    an agent, once over a past window or again and again over consecutive ones; each evaluation is a run, a
    workflow run outside whose status a scheduler follows.
  \<^item> The \<^emph>\<open>evaluators\<close> that monitors use (\<open>services/evaluator_manager.go\<close>,
    \<open>repositories/custom_evaluator_repository.go\<close>): a built-in catalog and the custom evaluators of an
    organization, which the monitor service looks up, the executor describes to a job, and which are not deleted
    while a monitor uses them.
  \<^item> The \<^emph>\<open>LLM providers, LLM proxies and their API keys\<close> (\<open>services/llm_provider_service.go\<close>,
    \<open>services/llm_proxy_service.go\<close>, \<open>services/apikey_broadcaster.go\<close>, \<open>services/gateway_internal_service.go\<close>
    with their repositories): what is deployed is created here, its credentials encrypted; gateways are sent the
    keys of its callers and fetch its document with the credential in plain text.

  \<^bold>\<open>The theories.\<close>

  \<^item> \<open>GoPrelude\<close>: 64-bit integers, \<open>make\<close> and its panics, collections of rules, and the locales that
    state interfaces: \<open>order_free_loop\<close> (loops over a map whose steps commute), \<open>guarded_system\<close> and
    \<open>invariant_system\<close> (operations that keep an invariant).
    \<open>GoStrings\<close>, \<open>GoNumbers\<close>, \<open>GoJson\<close>: what the program uses of \<open>strings\<close>, \<open>strconv\<close>, \<open>fmt\<close> and
    \<open>encoding/json\<close>, as executable functions on strings of bytes.
  \<^item> \<open>TraceModel\<close>: the structs of \<open>opensearch/types.go\<close> and \<open>observer/types.go\<close>. \<open>SpanKind\<close>
    (\<open>DetermineSpanType\<close> and the detections), \<open>SpanStatus\<close> (status and token usage), \<open>SpanMessages\<close>
    (messages, tools, documents), \<open>SpanPopulate\<close> (the \<open>populate\<close> functions), \<open>SpanProcess\<close>
    (\<open>ProcessSpan\<close>, \<open>ParseSpans\<close>), \<open>SpanRoundtrip\<close> (a printer of messages as attributes and the proof
    that they are read back), \<open>SpanPanics\<close> (the four loops as instances of the locale \<open>index_loop\<close>, and the
    attribute keys on which they panic).
  \<^item> \<open>TraceController\<close>: \<open>GetTraceOverviews\<close>, \<open>GetTraceSpans\<close>, \<open>GetSpanDetail\<close>. \<open>TraceExport\<close>: \<open>ExportTraces\<close>
    as a step relation over its goroutines. \<open>TraceProperties\<close>: the properties of this part.
  \<^item> \<open>WsConnection\<close> (\<open>connection.go\<close>, \<open>stats.go\<close>), \<open>WsManager\<close> (\<open>manager.go\<close>, one call at a time),
    \<open>WsRace\<close> (the same calls, interleaved), \<open>WsController\<close> (rate limiter, \<open>Connect\<close>), \<open>GatewayEvents\<close>
    (\<open>broadcastEvent\<close>). \<open>GatewayProperties\<close>: the properties of this part.
  \<^item> \<open>GoCrypto\<close>: hexadecimal and base64 text, SHA-256 (the real function, executable), \<open>SplitN\<close>.
    \<open>GatewayStore\<close> (the gateway repository on its tables), \<open>GatewayService\<close> (the service and the token cache,
    and \<open>Connect\<close> with the verification it starts with), \<open>GatewayAuth\<close> (the invariant of tables and cache, kept
    by every operation), \<open>GatewayRuns\<close> (sequences of operations; prefixes that have no active token).
    \<open>AuthProperties\<close>: the properties of this part.
  \<^item> \<open>DeployPolicies\<close> (\<open>models/llm_provider.go\<close> and the generated document), \<open>DeployRepo\<close> (the two
    tables and every method of the repository), \<open>DeployTables\<close> (the invariant of the tables and the effect of
    each statement on the current deployments), \<open>DeployService\<close> (the operations for providers and the
    acknowledgements), \<open>ProxyService\<close> (those for proxies, on the same tables), \<open>DeployLifecycle\<close> (the
    abstract life cycle and its refinement by both).
    \<open>DeployProperties\<close>: the properties of this part.
  \<^item> \<open>MonitorStore\<close> (the tables of monitors, runs and LLM mappings), \<open>MonitorEvaluators\<close> (the catalog, the
    validation of configurations, the JSON for a job), \<open>MonitorExecutor\<close> (execution of a run),
    \<open>MonitorScheduler\<close> (a scheduler cycle), \<open>MonitorManager\<close> (the operations of the service), \<open>MonitorLife\<close>
    (the invariant of the tables and the life cycle of runs, kept by every operation), \<open>MonitorSchedule\<close> (the
    windows of one monitor over sequences of operations), \<open>MonitorDelta\<close> (the floating-point margin),
    \<open>MonitorJobs\<close> (names of workflow runs, types of configurations). \<open>MonitorProperties\<close>: the properties of
    this part.
  \<^item> \<open>EvaluatorStore\<close> (the table of custom evaluators, search patterns, identifiers), \<open>EvaluatorManager\<close> (the
    operations of the evaluator service), \<open>EvaluatorSearch\<close> (which identifiers are accepted, what a search
    finds), \<open>EvaluatorLife\<close> (the composition with the monitor service: which evaluators its operations bring in,
    what happens to the table), \<open>EvaluatorRuns\<close> (every operation of both keeps the evaluators of monitors known;
    the evaluators of a run; overlapping requests). \<open>EvaluatorProperties\<close>: the properties of this part.
  \<^item> \<open>LlmStore\<close> (the tables of artifacts, providers, proxies and keys beside those of deployments),
    \<open>LlmManager\<close> and \<open>LlmSync\<close> (the operations on providers, the second those that call the deployment service
    of \<open>DeployService\<close> on these tables), \<open>LlmProxies\<close>, \<open>LlmKeys\<close>, \<open>GatewayInternal\<close> (what a gateway fetches),
    \<open>LlmLife\<close> (the invariant of the tables and its statements), \<open>LlmRuns\<close> (every operation keeps it),
    \<open>GatewayFetch\<close> (the way of a credential). \<open>LlmProperties\<close>, \<open>FetchProperties\<close>: the properties of this part.

  \<^bold>\<open>Correspondence.\<close> A struct is a record with the same fields, an enumeration a datatype, a Go map an
  association list in the order of one iteration (\<open>same_map\<close> relates two orders), a pointer an \<open>option\<close>
  or an index into a heap, \<open>int\<close> an \<open>int\<close> with \<open>wrap64\<close> where it can overflow, \<open>uint64\<close> a word. A
  function that can panic returns an \<open>option\<close> (\<open>None\<close> for the panic), one that can fail a sum (\<open>Inl\<close> for
  the error). Where goroutines share state the code is a step relation and every theorem is about all
  schedules.

  \<^bold>\<open>What the lemmas show.\<close> Round trips and independence of the iteration order for the extraction
  loops, and exactly when they panic; frame and idempotence of enriching; sums and counts over a trace at 64 bits; completeness,
  limits, progress and termination of the export; consistency of the registry over all sequences of calls,
  and what interleavings break; the window bound of the rate limiter; that exactly the active tokens verify,
  through the cache too, until an interleaving defeats a revocation; the invariant of the deployment tables,
  the refinement of the abstract life cycle by every operation on providers and proxies including its failures, and the effect of each
  operation on the deployment in charge of a target; the invariant of the monitor tables, that runs only
  move along their life cycle, that the windows of a scheduled monitor follow one another without gap or
  overlap until its interval is changed, that a due monitor is served, and what an interleaved update or a
  hundred lost runs do to this; that the monitor service and the evaluator service together never leave a
  monitor with an evaluator that is not there, so that its runs find the descriptions of their evaluators, and
  how overlapping requests break it; that a search finds exactly the texts that contain it; that the tables of
  providers, proxies, keys and deployments stay consistent and credentials encrypted over all sequences of
  operations, that the gateway gets the credential that was put in, and what a refused deletion and a rotation
  that is not delivered leave behind.

  \<^bold>\<open>Bounds and fuel.\<close> Intervals of monitors are taken up to \<open>max_minutes\<close>, beyond which a
  duration in nanoseconds could leave 64 bits. The JSON parser recurses with fuel \<open>2 * length s + 2\<close>: a bracket takes two calls
  and has a closing one, every other call consumes a byte; nesting deeper than 10000 is an error as in
  \<open>encoding/json\<close>.
  A slice of more than \<open>max_alloc\<close> bytes (2 to the 48) cannot be made, as on a 64-bit Linux machine. No other
  definition has fuel; the runs of the export are bounded by a weight that every step decreases.

  \<^bold>\<open>Not modelled.\<close> Parameters of the model: the observer client, time parsing and printing, the
  \<open>%f\<close> of \<open>Sscanf\<close>, the WebSocket transport, UUID text conversion, the YAML library, AES-GCM, the outcome of each SQL
  statement beyond the constraints of its table. Outside the model: HTTP handlers and clients, authentication,
  configuration, migrations, generated code, the command-line client, the web console and the Python
  libraries; the provisioning of LLM providers for monitors; templates of providers; and the orchestration in \<open>agent_manager.go\<close> and
  \<open>agent_configuration_service.go\<close>, which mostly forwards to these.
\<close>

end
